(* ===== verification/PyJson.thy ===== *)
theory PyJson
  imports PyPrelude "HOL-Library.List_Lexorder"
begin

text \<open>
  JSON values as Python holds them and the two functions of the \<open>json\<close> module the program uses:
  \<open>dumps\<close> with its default separators and ASCII escapes, and \<open>loads\<close>.  An object is an
  insertion-ordered association list.  A float is kept as the literal \<open>dumps\<close> prints for it, so
  arithmetic on floats is not modelled.  An escape of a code point beyond ASCII is rejected by
  \<open>loads\<close>, as text is ASCII here.  \<open>loads_dumps\<close> is the round trip every deep copy in the program
  relies on.
\<close>

datatype json =
    JNull
  | JBool bool
  | JInt int
  | JFloat string
  | JStr string
  | JArr "json list"
  | JObj "(string \<times> json) list"

section \<open>Printing\<close>

definition hex_digit :: "nat \<Rightarrow> char" where
  "hex_digit n = (if n < 10 then char_of (48 + n) else char_of (87 + n))"

definition dump_char :: "char \<Rightarrow> string" where
  "dump_char c =
     (if c = dquote then [backslash, dquote]
      else if c = backslash then [backslash, backslash]
      else if c = newline then [backslash, CHR ''n'']
      else if c = CHR 0x0D then [backslash, CHR ''r'']
      else if c = CHR 0x09 then [backslash, CHR ''t'']
      else if c = CHR 0x0C then [backslash, CHR ''f'']
      else if c = CHR 0x08 then [backslash, CHR ''b'']
      else if 32 \<le> ordc c \<and> ordc c \<le> 126 then [c]
      else [backslash, CHR ''u'', CHR ''0'', CHR ''0'', hex_digit (ordc c div 16), hex_digit (ordc c mod 16)])"

definition dump_str :: "string \<Rightarrow> string" where
  "dump_str s = dquote # concat (map dump_char s) @ [dquote]"

text \<open>
  Printing is the same for the compact and the indented form but for the white space: what separates
  items, and the line break and indentation at a nesting level.
\<close>

record layout =
  item_sep :: string
  line_at :: "nat \<Rightarrow> string"

definition compact :: layout where
  "compact = \<lparr>item_sep = '', '', line_at = (\<lambda>_. [])\<rparr>"

definition indent2 :: layout where
  "indent2 = \<lparr>item_sep = '','', line_at = (\<lambda>k. newline # replicate (2 * k) CHR '' '')\<rparr>"

fun dump_at :: "layout \<Rightarrow> nat \<Rightarrow> json \<Rightarrow> string" where
  "dump_at ly k JNull = ''null''"
| "dump_at ly k (JBool b) = (if b then ''true'' else ''false'')"
| "dump_at ly k (JInt i) = show_int i"
| "dump_at ly k (JFloat s) = s"
| "dump_at ly k (JStr s) = dump_str s"
| "dump_at ly k (JArr vs) =
     (if vs = [] then ''[]''
      else CHR ''['' # line_at ly (Suc k) @
        join (item_sep ly @ line_at ly (Suc k)) (map (dump_at ly (Suc k)) vs) @ line_at ly k @ '']'')"
| "dump_at ly k (JObj kvs) =
     (if kvs = [] then ''{}''
      else CHR ''{'' # line_at ly (Suc k) @
        join (item_sep ly @ line_at ly (Suc k))
          (map (\<lambda>(key, v). dump_str key @ '': '' @ dump_at ly (Suc k) v) kvs) @ line_at ly k @ ''}'')"

definition dumps :: "json \<Rightarrow> string" where
  "dumps v = dump_at compact 0 v"

text \<open>\<open>json.dump(v, handle, indent=2)\<close>\<close>

definition dumps_indent :: "json \<Rightarrow> string" where
  "dumps_indent v = dump_at indent2 0 v"

text \<open>\<open>sort_keys=True\<close>\<close>

fun sort_json :: "json \<Rightarrow> json" where
  "sort_json (JArr vs) = JArr (map sort_json vs)"
| "sort_json (JObj kvs) = JObj (sort_key fst (map (\<lambda>(k, v). (k, sort_json v)) kvs))"
| "sort_json v = v"

definition dumps_sorted :: "json \<Rightarrow> string" where
  "dumps_sorted v = dumps (sort_json v)"

section \<open>Parsing\<close>

definition json_ws :: "char \<Rightarrow> bool" where
  "json_ws c \<longleftrightarrow> c = CHR 0x20 \<or> c = CHR 0x09 \<or> c = newline \<or> c = CHR 0x0D"

definition skip_ws :: "string \<Rightarrow> string" where
  "skip_ws = dropWhile json_ws"

definition hex_value :: "char \<Rightarrow> nat option" where
  "hex_value c = (if is_digit c then Some (ordc c - 48)
                  else if 65 \<le> ordc c \<and> ordc c \<le> 70 then Some (ordc c - 55)
                  else if 97 \<le> ordc c \<and> ordc c \<le> 102 then Some (ordc c - 87)
                  else None)"

definition hex4 :: "char \<Rightarrow> char \<Rightarrow> char \<Rightarrow> char \<Rightarrow> nat option" where
  "hex4 a b c d =
     (case (hex_value a, hex_value b, hex_value c, hex_value d) of
        (Some w, Some x, Some y, Some z) \<Rightarrow> Some (4096 * w + 256 * x + 16 * y + z)
      | _ \<Rightarrow> None)"

definition simple_escape :: "char \<Rightarrow> char option" where
  "simple_escape c =
     (if c = dquote \<or> c = backslash \<or> c = CHR ''/'' then Some c
      else if c = CHR ''b'' then Some CHR 0x08
      else if c = CHR ''f'' then Some CHR 0x0C
      else if c = CHR ''n'' then Some newline
      else if c = CHR ''r'' then Some CHR 0x0D
      else if c = CHR ''t'' then Some CHR 0x09
      else None)"

text \<open>The characters of a string literal up to the closing quote.\<close>

fun parse_chars :: "string \<Rightarrow> (string \<times> string) option" where
  "parse_chars [] = None"
| "parse_chars (c # s) =
     (if c = dquote then Some ([], s)
      else if c = backslash then
        (case s of
           [] \<Rightarrow> None
         | e # t \<Rightarrow>
             if e = CHR ''u'' then
               (case t of
                  a # b # x # y # u \<Rightarrow>
                    (case hex4 a b x y of
                       Some n \<Rightarrow> if n < 128 then map_option (apfst (\<lambda>r. char_of n # r)) (parse_chars u) else None
                     | None \<Rightarrow> None)
                | _ \<Rightarrow> None)
             else
               (case simple_escape e of
                  Some d \<Rightarrow> map_option (apfst (\<lambda>r. d # r)) (parse_chars t)
                | None \<Rightarrow> None))
      else if ordc c < 32 then None
      else map_option (apfst (\<lambda>r. c # r)) (parse_chars s))"

text \<open>Numbers: an integer part without leading zeros, then an optional fraction and exponent.  What
  is not taken is left for the caller.\<close>

definition digits_of :: "string \<Rightarrow> string" where
  "digits_of s = takeWhile is_digit s"

definition after_digits :: "string \<Rightarrow> string" where
  "after_digits s = dropWhile is_digit s"

definition nat_of_digits :: "string \<Rightarrow> nat" where
  "nat_of_digits ds = foldl (\<lambda>n c. 10 * n + (ordc c - 48)) 0 ds"

definition take_sign :: "string \<Rightarrow> string \<times> string" where
  "take_sign s = (case s of c # t \<Rightarrow> if c = CHR ''-'' then (''-'', t) else ([], s) | [] \<Rightarrow> ([], []))"

definition take_int :: "string \<Rightarrow> string \<times> string" where
  "take_int s = (case s of
     c # t \<Rightarrow> if c = CHR ''0'' then (''0'', t) else (digits_of s, after_digits s)
   | [] \<Rightarrow> ([], []))"

definition take_frac :: "string \<Rightarrow> string \<times> string" where
  "take_frac s = (case s of
     c # t \<Rightarrow> if c = CHR ''.'' \<and> digits_of t \<noteq> [] then (c # digits_of t, after_digits t) else ([], s)
   | [] \<Rightarrow> ([], []))"

definition take_exp :: "string \<Rightarrow> string \<times> string" where
  "take_exp s = (case s of
     c # t \<Rightarrow>
       if c = CHR ''e'' \<or> c = CHR ''E'' then
         (let sg = (case t of d # _ \<Rightarrow> if d = CHR ''+'' \<or> d = CHR ''-'' then [d] else [] | [] \<Rightarrow> []);
              u = drop (length sg) t
          in if digits_of u \<noteq> [] then (c # sg @ digits_of u, after_digits u) else ([], s))
       else ([], s)
   | [] \<Rightarrow> ([], []))"

definition parse_number :: "string \<Rightarrow> (json \<times> string) option" where
  "parse_number s =
     (case take_sign s of (sg, s1) \<Rightarrow>
       (case take_int s1 of (ip, s2) \<Rightarrow>
         if ip = [] then None
         else (case take_frac s2 of (fr, s3) \<Rightarrow>
           (case take_exp s3 of (ex, s4) \<Rightarrow>
             if fr = [] \<and> ex = []
             then Some (JInt (if sg = [] then int (nat_of_digits ip) else - int (nat_of_digits ip)), s4)
             else Some (JFloat (sg @ ip @ fr @ ex), s4)))))"

text \<open>The words of JSON and the three numeric words Python also accepts.\<close>

fun parse_word :: "(string \<times> json) list \<Rightarrow> string \<Rightarrow> (json \<times> string) option" where
  "parse_word [] s = None"
| "parse_word ((w, v) # ws) s = (if startswith s w then Some (v, drop (length w) s) else parse_word ws s)"

definition json_words :: "(string \<times> json) list" where
  "json_words = [(''null'', JNull), (''true'', JBool True), (''false'', JBool False),
     (''NaN'', JFloat ''NaN''), (''Infinity'', JFloat ''Infinity''), (''-Infinity'', JFloat ''-Infinity'')]"

text \<open>
  Values, the elements of an array and the members of an object.  Each call spends a unit of fuel;
  \<open>loads\<close> provides twice the length of the text and more, and \<open>parse_dumps\<close> shows that enough for
  every printed value.  A repeated key overwrites the earlier value.
\<close>

fun parse_value :: "nat \<Rightarrow> string \<Rightarrow> (json \<times> string) option"
and parse_elems :: "nat \<Rightarrow> string \<Rightarrow> (json list \<times> string) option"
and parse_members :: "nat \<Rightarrow> string \<Rightarrow> ((string \<times> json) list \<times> string) option"
where
  "parse_value 0 s = None"
| "parse_value (Suc n) s =
     (case s of
        [] \<Rightarrow> None
      | c # t \<Rightarrow>
          if c = dquote then map_option (apfst JStr) (parse_chars t)
          else if c = CHR ''['' then
            (case skip_ws t of
               [] \<Rightarrow> None
             | d # u \<Rightarrow> if d = CHR '']'' then Some (JArr [], u)
                        else map_option (apfst JArr) (parse_elems n (d # u)))
          else if c = CHR ''{'' then
            (case skip_ws t of
               [] \<Rightarrow> None
             | d # u \<Rightarrow> if d = CHR ''}'' then Some (JObj [], u)
                        else map_option (apfst (\<lambda>kvs. JObj (dict_of kvs))) (parse_members n (d # u)))
          else (case parse_word json_words s of
                  Some r \<Rightarrow> Some r
                | None \<Rightarrow> parse_number s))"
| "parse_elems 0 s = None"
| "parse_elems (Suc n) s =
     (case parse_value n s of
        None \<Rightarrow> None
      | Some (v, t) \<Rightarrow>
          (case skip_ws t of
             [] \<Rightarrow> None
           | d # u \<Rightarrow>
               if d = CHR '']'' then Some ([v], u)
               else if d = CHR '','' then map_option (apfst (\<lambda>vs. v # vs)) (parse_elems n (skip_ws u))
               else None))"
| "parse_members 0 s = None"
| "parse_members (Suc n) s =
     (case s of
        [] \<Rightarrow> None
      | c # t \<Rightarrow>
          if c \<noteq> dquote then None
          else (case parse_chars t of
                  None \<Rightarrow> None
                | Some (k, t1) \<Rightarrow>
                    (case skip_ws t1 of
                       [] \<Rightarrow> None
                     | d # t2 \<Rightarrow>
                         if d \<noteq> CHR '':'' then None
                         else (case parse_value n (skip_ws t2) of
                                 None \<Rightarrow> None
                               | Some (v, t3) \<Rightarrow>
                                   (case skip_ws t3 of
                                      [] \<Rightarrow> None
                                    | e # u \<Rightarrow>
                                        if e = CHR ''}'' then Some ([(k, v)], u)
                                        else if e = CHR '','' then
                                          map_option (apfst (\<lambda>kvs. (k, v) # kvs)) (parse_members n (skip_ws u))
                                        else None)))))"

definition loads :: "string \<Rightarrow> json option" where
  "loads s =
     (case parse_value (2 * length s + 2) (skip_ws s) of
        Some (v, t) \<Rightarrow> if skip_ws t = [] then Some v else None
      | None \<Rightarrow> None)"


section \<open>Well-formed values\<close>

definition ascii_str :: "string \<Rightarrow> bool" where
  "ascii_str s \<longleftrightarrow> list_all is_ascii s"

definition float_lit :: "string \<Rightarrow> bool" where
  "float_lit s \<longleftrightarrow> s \<in> {''NaN'', ''Infinity'', ''-Infinity''} \<or> parse_number s = Some (JFloat s, [])"

fun wf_json :: "json \<Rightarrow> bool" where
  "wf_json (JFloat s) = float_lit s"
| "wf_json (JStr s) = ascii_str s"
| "wf_json (JArr vs) = list_all wf_json vs"
| "wf_json (JObj kvs) = (wf_dict kvs \<and> list_all (\<lambda>(k, v). ascii_str k \<and> wf_json v) kvs)"
| "wf_json JNull = True"
| "wf_json (JBool b) = True"
| "wf_json (JInt i) = True"

section \<open>The round trip\<close>

subsection \<open>Strings\<close>

lemma hex_value_digit: "n < 16 \<Longrightarrow> hex_value (hex_digit n) = Some n"
  by (auto simp: hex_value_def hex_digit_def is_digit_def)

lemma hex_value_0: "hex_value CHR ''0'' = Some 0"
  by (simp add: hex_value_def is_digit_def)

lemma parse_chars_dump_char:
  assumes "is_ascii c"
  shows "parse_chars (dump_char c @ r) = map_option (apfst (\<lambda>s. c # s)) (parse_chars r)"
proof -
  have n: "ordc c < 128" using assms by (simp add: is_ascii_def)
  then have "ordc c div 16 < 16" "ordc c mod 16 < 16" by simp_all
  then have hex: "hex4 CHR ''0'' CHR ''0'' (hex_digit (ordc c div 16)) (hex_digit (ordc c mod 16)) = Some (ordc c)"
    by (simp add: hex4_def hex_value_digit hex_value_0)
  have c: "char_of (ordc c) = c" by simp
  show ?thesis
  proof (cases "c \<in> {dquote, backslash, newline, CHR 0x0D, CHR 0x09, CHR 0x0C, CHR 0x08}")
    case True
    then show ?thesis
      by (elim insertE emptyE) (simp_all add: dump_char_def simple_escape_def)
  next
    case False
    then show ?thesis using n hex c
      by (cases "32 \<le> ordc c \<and> ordc c \<le> 126") (simp_all add: dump_char_def)
  qed
qed

lemma parse_chars_dump:
  "ascii_str s \<Longrightarrow> parse_chars (concat (map dump_char s) @ dquote # rest) = Some (s, rest)"
  by (induction s) (simp_all add: ascii_str_def parse_chars_dump_char)

subsection \<open>Numbers\<close>

definition stops :: "string \<Rightarrow> bool" where
  "stops r \<longleftrightarrow> (case r of [] \<Rightarrow> True
     | c # _ \<Rightarrow> \<not> is_digit c \<and> c \<notin> {CHR ''.'', CHR ''e'', CHR ''E'', CHR ''+'', CHR ''-''})"

lemma digits_of_append: "stops r \<Longrightarrow> digits_of (s @ r) = digits_of s"
  by (induction s) (auto simp: digits_of_def stops_def split: list.splits)

lemma after_digits_append: "stops r \<Longrightarrow> after_digits (s @ r) = after_digits s @ r"
  by (induction s) (auto simp: after_digits_def stops_def split: list.splits)

lemmas digits_append = digits_of_append after_digits_append

lemma zero_is_digit [simp]: "is_digit CHR ''0''"
  by (simp add: is_digit_def)

lemma take_sign_append: "stops r \<Longrightarrow> take_sign (s @ r) = apsnd (\<lambda>t. t @ r) (take_sign s)"
  by (cases s) (auto simp: take_sign_def stops_def split: list.splits)

lemma take_int_append: "stops r \<Longrightarrow> take_int (s @ r) = apsnd (\<lambda>t. t @ r) (take_int s)"
proof (cases s)
  case Nil
  assume r: "stops r"
  show ?thesis
  proof (cases r)
    case (Cons c u)
    with r have "\<not> is_digit c" by (simp add: stops_def)
    then have "c \<noteq> CHR ''0''" using zero_is_digit by blast
    with Cons digits_append [OF r, of "[]"] show ?thesis using Nil
      by (simp add: take_int_def digits_of_def after_digits_def)
  qed (simp add: Nil take_int_def)
next
  case (Cons c t)
  assume "stops r"
  from digits_append [OF this, of "c # t"] Cons show ?thesis
    by (simp add: take_int_def)
qed

lemma take_frac_append: "stops r \<Longrightarrow> take_frac (s @ r) = apsnd (\<lambda>t. t @ r) (take_frac s)"
  by (cases s) (auto simp: take_frac_def digits_append stops_def split: list.splits)

lemma take_exp_append:
  assumes r: "stops r"
  shows "take_exp (s @ r) = apsnd (\<lambda>t. t @ r) (take_exp s)"
proof (cases s)
  case Nil
  with r show ?thesis by (auto simp: take_exp_def stops_def split: list.splits)
next
  case (Cons c t)
  show ?thesis
  proof (cases t)
    case Nil
    from r have "digits_of r = []" by (auto simp: digits_of_def stops_def split: list.splits)
    with r show ?thesis using Cons Nil
      by (auto simp: take_exp_def stops_def digits_of_def Let_def split: list.splits)
  next
    case (Cons d u)
    with \<open>s = c # t\<close> r show ?thesis
      using digits_append [OF r, of "d # u"] digits_append [OF r, of u]
      by (auto simp: take_exp_def Let_def)
  qed
qed

lemma parse_number_append:
  "stops r \<Longrightarrow> parse_number (s @ r) = map_option (apsnd (\<lambda>t. t @ r)) (parse_number s)"
  by (auto simp: parse_number_def take_sign_append take_int_append take_frac_append take_exp_append
      split: prod.splits)

lemma is_digit_digit_char [simp]: "n < 10 \<Longrightarrow> is_digit (digit_char n)"
  by (simp add: is_digit_def digit_char_def)

lemma ordc_digit_char [simp]: "n < 10 \<Longrightarrow> ordc (digit_char n) = 48 + n"
  by (simp add: digit_char_def)

lemma show_nat_digits: "list_all is_digit (show_nat n)"
proof (induction n rule: show_nat.induct)
  case (1 n)
  then show ?case by (subst show_nat.simps) auto
qed

lemma show_nat_nonempty [simp]: "show_nat n \<noteq> []"
  by (subst show_nat.simps) simp

lemma nat_of_digits_append: "nat_of_digits (ds @ [c]) = 10 * nat_of_digits ds + (ordc c - 48)"
  by (simp add: nat_of_digits_def)

lemma nat_of_digits_show_nat: "nat_of_digits (show_nat n) = n"
proof (induction n rule: show_nat.induct)
  case (1 n)
  show ?case
  proof (cases "n < 10")
    case True
    then show ?thesis by (simp add: show_nat.simps [of n] nat_of_digits_def)
  next
    case False
    with 1 show ?thesis by (simp add: show_nat.simps [of n] nat_of_digits_append)
  qed
qed

lemma show_nat_no_leading_zero: "show_nat n = CHR ''0'' # t \<Longrightarrow> t = []"
proof (induction n arbitrary: t rule: show_nat.induct)
  case (1 n)
  show ?case
  proof (cases "n < 10")
    case True
    with 1 show ?thesis by (simp add: show_nat.simps [of n])
  next
    case False
    then obtain c u where u: "show_nat (n div 10) = c # u" by (cases "show_nat (n div 10)") auto
    from 1(2) False u have c: "c = CHR ''0''" by (simp add: show_nat.simps [of n])
    with 1(1) False u have "u = []" by simp
    with u c have "nat_of_digits (show_nat (n div 10)) = 0" by (simp add: nat_of_digits_def)
    then have "n div 10 = 0" by (simp add: nat_of_digits_show_nat)
    with False show ?thesis by simp
  qed
qed

lemma digits_all: "list_all is_digit s \<Longrightarrow> digits_of s = s \<and> after_digits s = []"
  by (induction s) (auto simp: digits_of_def after_digits_def)

lemma take_int_show_nat: "take_int (show_nat n) = (show_nat n, [])"
proof (cases "show_nat n")
  case Nil
  then show ?thesis by simp
next
  case (Cons c t)
  show ?thesis
  proof (cases "c = CHR ''0''")
    case True
    with Cons show_nat_no_leading_zero [of n t] show ?thesis by (simp add: take_int_def)
  next
    case False
    with Cons digits_all [OF show_nat_digits [of n]] show ?thesis by (simp add: take_int_def)
  qed
qed

lemma take_sign_show_nat: "take_sign (show_nat n) = ([], show_nat n)"
  using show_nat_digits [of n]
  by (cases "show_nat n") (auto simp: take_sign_def is_digit_def)

lemma parse_number_show_int: "parse_number (show_int i) = Some (JInt i, [])"
proof -
  have "take_sign (CHR ''-'' # s) = (''-'', s)" for s by (simp add: take_sign_def)
  then show ?thesis
    by (simp add: parse_number_def show_int_def take_sign_show_nat take_int_show_nat
        nat_of_digits_show_nat take_frac_def take_exp_def)
qed

subsection \<open>Values\<close>

text \<open>What the first character of a number is, and so that no word starts like one.\<close>

lemma parse_number_hd:
  assumes "parse_number s = Some x"
  shows "\<exists>c t. s = c # t \<and> (is_digit c \<or> c = CHR ''-'' \<and> (\<exists>d u. t = d # u \<and> is_digit d))"
proof -
  have int: "take_int u = (ip, w) \<Longrightarrow> ip \<noteq> [] \<Longrightarrow> \<exists>d v. u = d # v \<and> is_digit d" for u ip w
    by (cases u) (auto simp: take_int_def digits_of_def split: if_splits)
  from assms have "fst (take_int (snd (take_sign s))) \<noteq> []"
    by (auto simp: parse_number_def split: prod.splits if_splits)
  with int [of "snd (take_sign s)"] obtain d v where "snd (take_sign s) = d # v" "is_digit d"
    by (metis prod.collapse)
  then show ?thesis
    by (cases s) (auto simp: take_sign_def split: if_splits)
qed

lemma parse_value_number:
  assumes "parse_number s = Some (v, [])" and "stops r" and "0 < n"
  shows "parse_value n (s @ r) = Some (v, r)"
proof -
  from parse_number_hd [OF assms(1)] obtain c t where s: "s = c # t"
    and c: "is_digit c \<or> c = CHR ''-'' \<and> (\<exists>d u. t = d # u \<and> is_digit d)" by blast
  have first: "c \<notin> {CHR ''n'', CHR ''t'', CHR ''f'', CHR ''N'', CHR ''I''}"
    using c by (auto simp: is_digit_def)
  have "\<not> startswith (s @ r) ''-Infinity''"
    using c by (auto simp: s is_digit_def)
  with first have "parse_word json_words (s @ r) = None"
    by (simp add: json_words_def s)
  moreover have "c \<noteq> dquote" "c \<noteq> CHR ''[''" "c \<noteq> CHR ''{''"
    using c by (auto simp: is_digit_def)
  moreover have "parse_number (s @ r) = Some (v, r)"
    using assms(1,2) by (simp add: parse_number_append)
  moreover obtain m where "n = Suc m" using assms(3) by (cases n) auto
  ultimately show ?thesis using s by simp
qed

lemma parse_value_float:
  assumes "float_lit s" and "stops r" and "0 < n"
  shows "parse_value n (s @ r) = Some (JFloat s, r)"
proof (cases "parse_number s = Some (JFloat s, [])")
  case True
  then show ?thesis using assms(2,3) by (rule parse_value_number)
next
  case False
  with assms(1) have "s \<in> {''NaN'', ''Infinity'', ''-Infinity''}" by (simp add: float_lit_def)
  moreover obtain m where "n = Suc m" using assms(3) by (cases n) auto
  ultimately show ?thesis by (auto simp: json_words_def)
qed

definition value_start :: "char \<Rightarrow> bool" where
  "value_start c \<longleftrightarrow> \<not> json_ws c \<and> c \<noteq> CHR '']'' \<and> c \<noteq> CHR ''}''"

definition white :: "string \<Rightarrow> bool" where
  "white w \<longleftrightarrow> list_all json_ws w"

definition white_layout :: "layout \<Rightarrow> bool" where
  "white_layout ly \<longleftrightarrow> (\<exists>w. item_sep ly = CHR '','' # w \<and> white w) \<and> (\<forall>k. white (line_at ly k))"

lemma white_simps [simp]: "white []" "white (c # w) \<longleftrightarrow> json_ws c \<and> white w"
  "white (v @ w) \<longleftrightarrow> white v \<and> white w"
  by (simp_all add: white_def)

lemma white_layouts [simp]: "white_layout compact" "white_layout indent2"
  by (auto simp: white_layout_def compact_def indent2_def json_ws_def white_def list_all_iff)

lemma skip_ws_white [simp]: "white w \<Longrightarrow> skip_ws (w @ s) = skip_ws s"
  by (induction w) (auto simp: skip_ws_def)

lemma float_lit_hd: "float_lit s \<Longrightarrow> \<exists>c t. s = c # t \<and> value_start c"
  unfolding float_lit_def
  by (auto simp: value_start_def json_ws_def is_digit_def dest!: parse_number_hd)

lemma dump_at_hd: "wf_json v \<Longrightarrow> \<exists>c t. dump_at ly k v = c # t \<and> value_start c"
proof (cases v)
  case (JInt i)
  from parse_number_hd [OF parse_number_show_int [of i]] JInt show ?thesis
    by (auto simp: value_start_def json_ws_def is_digit_def)
qed (auto simp: value_start_def json_ws_def dump_str_def dest: float_lit_hd)

lemma skip_ws_start: "value_start c \<Longrightarrow> skip_ws (c # t) = c # t"
  by (simp add: skip_ws_def value_start_def)

lemma skip_ws_punct [simp]:
  "skip_ws (CHR '','' # t) = CHR '','' # t" "skip_ws (CHR '']'' # t) = CHR '']'' # t"
  "skip_ws (CHR ''}'' # t) = CHR ''}'' # t" "skip_ws (CHR '':'' # t) = CHR '':'' # t"
  "skip_ws (dquote # t) = dquote # t" "skip_ws (CHR '' '' # t) = skip_ws t" "skip_ws [] = []"
  by (simp_all add: skip_ws_def json_ws_def)

lemma skip_ws_dump_at: "wf_json v \<Longrightarrow> skip_ws (dump_at ly k v @ r) = dump_at ly k v @ r"
  using dump_at_hd [of v ly k] by (auto simp: skip_ws_start)

lemma json_ws_stops: "json_ws c \<Longrightarrow> stops (c # t)"
  by (auto simp: json_ws_def stops_def is_digit_def)

lemma stops_punct [simp]: "stops []" "stops (CHR '','' # t)" "stops (CHR '']'' # t)" "stops (CHR ''}'' # t)"
  by (simp_all add: stops_def is_digit_def)

lemma stops_white: "white w \<Longrightarrow> stops s \<Longrightarrow> stops (w @ s)"
  by (cases w) (auto simp: json_ws_stops)

lemma length_dump_at_pos: "wf_json v \<Longrightarrow> 0 < length (dump_at ly k v)"
  using dump_at_hd [of v ly k] by auto

definition reads :: "layout \<Rightarrow> nat \<Rightarrow> json \<Rightarrow> bool" where
  "reads ly k v \<longleftrightarrow> (\<forall>n r. length (dump_at ly k v) \<le> n \<longrightarrow> stops r \<longrightarrow>
     parse_value n (dump_at ly k v @ r) = Some (v, r))"

lemma readsD: "reads ly k v \<Longrightarrow> length (dump_at ly k v) \<le> n \<Longrightarrow> stops r \<Longrightarrow>
  parse_value n (dump_at ly k v @ r) = Some (v, r)"
  by (simp add: reads_def)

lemma parse_elems_dump:
  assumes "vs \<noteq> []" and "\<forall>v \<in> set vs. wf_json v \<and> reads ly k v"
    and "length (join (CHR '','' # w) (map (dump_at ly k) vs)) < n" and w: "white w" and e: "white e"
  shows "parse_elems n (join (CHR '','' # w) (map (dump_at ly k) vs) @ e @ CHR '']'' # r) = Some (vs, r)"
  using assms(1-3)
proof (induction vs arbitrary: n)
  case Nil
  then show ?case by simp
next
  case (Cons v vs)
  then obtain m where n: "n = Suc m" by (cases n) auto
  have v: "wf_json v" "reads ly k v" using Cons.prems by auto
  show ?case
  proof (cases vs)
    case Nil
    have "parse_value m (dump_at ly k v @ e @ CHR '']'' # r) = Some (v, e @ CHR '']'' # r)"
      using Cons.prems(3) n Nil e by (intro readsD v stops_white) simp_all
    with Nil n e show ?thesis by simp
  next
    case (Cons x xs)
    let ?tail = "join (CHR '','' # w) (map (dump_at ly k) vs) @ e @ CHR '']'' # r"
    have "wf_json x" using Cons.prems Cons by simp
    then have ws: "skip_ws ?tail = ?tail"
      using skip_ws_dump_at [of x ly k] Cons by (cases xs) simp_all
    have "parse_value m (dump_at ly k v @ CHR '','' # w @ ?tail) = Some (v, CHR '','' # w @ ?tail)"
      using Cons.prems(3) n Cons by (intro readsD v) simp_all
    moreover have "parse_elems m ?tail = Some (vs, r)"
      using Cons.IH [of m] Cons.prems Cons n by simp
    ultimately show ?thesis using Cons n ws w by simp
  qed
qed

lemma parse_members_dump:
  assumes "kvs \<noteq> []" and "\<forall>(key, v) \<in> set kvs. ascii_str key \<and> wf_json v \<and> reads ly k v"
    and "length (join (CHR '','' # w) (map (\<lambda>(key, v). dump_str key @ '': '' @ dump_at ly k v) kvs)) < n"
    and w: "white w" and e: "white e"
  shows "parse_members n (join (CHR '','' # w) (map (\<lambda>(key, v). dump_str key @ '': '' @ dump_at ly k v) kvs)
    @ e @ CHR ''}'' # r) = Some (kvs, r)"
  using assms(1-3)
proof (induction kvs arbitrary: n)
  case Nil
  then show ?case by simp
next
  case (Cons kv kvs)
  obtain key v where kv: "kv = (key, v)" by (cases kv)
  let ?f = "\<lambda>(key, v). dump_str key @ '': '' @ dump_at ly k v"
  from Cons.prems obtain m where n: "n = Suc m" by (cases n) auto
  have v: "ascii_str key" "wf_json v" "reads ly k v" using Cons.prems kv by auto
  have key: "parse_chars (concat (map dump_char key) @ dquote # t) = Some (key, t)" for t
    using v(1) by (rule parse_chars_dump)
  show ?case
  proof (cases kvs)
    case Nil
    have "parse_value m (dump_at ly k v @ e @ CHR ''}'' # r) = Some (v, e @ CHR ''}'' # r)"
      using Cons.prems(3) n kv Nil e by (intro readsD v stops_white) simp_all
    with Nil v kv n e show ?thesis by (simp add: dump_str_def key skip_ws_dump_at)
  next
    case (Cons x xs)
    let ?tail = "join (CHR '','' # w) (map ?f kvs) @ e @ CHR ''}'' # r"
    have ws: "skip_ws ?tail = ?tail"
      using Cons by (cases xs; cases x) (simp_all add: dump_str_def)
    have "parse_value m (dump_at ly k v @ CHR '','' # w @ ?tail) = Some (v, CHR '','' # w @ ?tail)"
      using Cons.prems(3) n Cons kv by (intro readsD v) simp_all
    moreover have "parse_members m ?tail = Some (kvs, r)"
      using Cons.IH [of m] Cons.prems Cons n kv by simp
    ultimately show ?thesis using Cons n ws v kv w by (simp add: dump_str_def key skip_ws_dump_at)
  qed
qed

theorem parse_dump_at:
  assumes ly: "white_layout ly"
  shows "wf_json v \<Longrightarrow> reads ly k v"
proof (induction v arbitrary: k rule: wf_json.induct)
  case (1 s)
  then show ?case unfolding reads_def
    by (auto intro!: parse_value_float dest: float_lit_hd)
next
  case (2 s)
  show ?case unfolding reads_def
  proof (intro allI impI)
    fix n r assume "length (dump_at ly k (JStr s)) \<le> n"
    then obtain m where "n = Suc m" by (cases n) (auto simp: dump_str_def)
    with 2 show "parse_value n (dump_at ly k (JStr s) @ r) = Some (JStr s, r)"
      by (simp add: dump_str_def parse_chars_dump)
  qed
next
  case (3 vs)
  from ly obtain w where w: "item_sep ly = CHR '','' # w" "white w" and line: "white (line_at ly i)" for i
    by (auto simp: white_layout_def)
  show ?case unfolding reads_def
  proof (intro allI impI)
    fix n r assume n: "length (dump_at ly k (JArr vs)) \<le> n"
    then obtain m where m: "n = Suc m" by (cases n) (auto split: if_splits)
    show "parse_value n (dump_at ly k (JArr vs) @ r) = Some (JArr vs, r)"
    proof (cases vs)
      case Nil
      with m show ?thesis by simp
    next
      case (Cons x xs)
      have all: "\<forall>v \<in> set vs. wf_json v \<and> reads ly (Suc k) v" using 3 by (auto simp: list_all_iff)
      let ?in = "join (CHR '','' # w @ line_at ly (Suc k)) (map (dump_at ly (Suc k)) vs) @
        line_at ly k @ CHR '']'' # r"
      have "\<exists>c t. dump_at ly (Suc k) x = c # t \<and> value_start c"
        using all Cons by (intro dump_at_hd) simp
      then obtain c t where c: "dump_at ly (Suc k) x = c # t" "value_start c" by blast
      obtain u where u: "?in = c # u" using c(1) Cons by (cases xs) auto
      have "skip_ws ?in = c # u" unfolding u using c(2) by (rule skip_ws_start)
      moreover have "parse_elems m ?in = Some (vs, r)"
        using all Cons n m w line by (intro parse_elems_dump) simp_all
      ultimately show ?thesis using c(2) m u w line Cons by (simp add: value_start_def)
    qed
  qed
next
  case (4 kvs)
  from ly obtain w where w: "item_sep ly = CHR '','' # w" "white w" and line: "white (line_at ly i)" for i
    by (auto simp: white_layout_def)
  show ?case unfolding reads_def
  proof (intro allI impI)
    fix n r assume n: "length (dump_at ly k (JObj kvs)) \<le> n"
    then obtain m where m: "n = Suc m" by (cases n) (auto split: if_splits)
    let ?f = "\<lambda>(key, v). dump_str key @ '': '' @ dump_at ly (Suc k) v"
    show "parse_value n (dump_at ly k (JObj kvs) @ r) = Some (JObj kvs, r)"
    proof (cases kvs)
      case Nil
      with m show ?thesis by simp
    next
      case (Cons x xs)
      have all: "\<forall>(key, v) \<in> set kvs. ascii_str key \<and> wf_json v \<and> reads ly (Suc k) v"
        using 4 by (fastforce simp: list_all_iff)
      let ?in = "join (CHR '','' # w @ line_at ly (Suc k)) (map ?f kvs) @ line_at ly k @ CHR ''}'' # r"
      obtain u where u: "?in = dquote # u" using Cons by (cases xs; cases x) (auto simp: dump_str_def)
      have "parse_members m ?in = Some (kvs, r)"
        using all Cons n m w line by (intro parse_members_dump) simp_all
      moreover have "dict_of kvs = kvs" using 4 by (simp add: dict_of_distinct)
      ultimately show ?thesis using m u w line Cons by simp
    qed
  qed
next
  case 5
  show ?case unfolding reads_def
  proof (intro allI impI)
    fix n r assume "length (dump_at ly k JNull) \<le> n"
    then obtain m where "n = Suc m" by (cases n) auto
    then show "parse_value n (dump_at ly k JNull @ r) = Some (JNull, r)"
      by (simp add: json_words_def)
  qed
next
  case (6 b)
  show ?case unfolding reads_def
  proof (intro allI impI)
    fix n r assume "length (dump_at ly k (JBool b)) \<le> n"
    then obtain m where "n = Suc m" by (cases n) (auto split: if_splits)
    then show "parse_value n (dump_at ly k (JBool b) @ r) = Some (JBool b, r)"
      by (simp add: json_words_def)
  qed
next
  case (7 i)
  show ?case unfolding reads_def
  proof (intro allI impI)
    fix n r assume n: "length (dump_at ly k (JInt i)) \<le> n" and r: "stops r"
    have "0 < n" using n length_dump_at_pos [of "JInt i" ly k] by (cases n) auto
    with parse_value_number [OF parse_number_show_int r this]
    show "parse_value n (dump_at ly k (JInt i) @ r) = Some (JInt i, r)" by simp
  qed
qed

lemma loads_dump_at:
  assumes "white_layout ly" and "wf_json v"
  shows "loads (dump_at ly 0 v) = Some v"
proof -
  have "parse_value (2 * length (dump_at ly 0 v) + 2) (dump_at ly 0 v @ []) = Some (v, [])"
    using parse_dump_at [OF assms] by (rule readsD) simp_all
  moreover have "skip_ws (dump_at ly 0 v) = dump_at ly 0 v"
    using skip_ws_dump_at [OF assms(2), of ly 0 "[]"] by simp
  ultimately show ?thesis by (simp add: loads_def)
qed

theorem loads_dumps: "wf_json v \<Longrightarrow> loads (dumps v) = Some v"
  by (simp add: dumps_def loads_dump_at)

theorem loads_dumps_indent: "wf_json v \<Longrightarrow> loads (dumps_indent v) = Some v"
  by (simp add: dumps_indent_def loads_dump_at)

section \<open>Sorting the keys\<close>

lemma wf_sort_json: "wf_json v \<Longrightarrow> wf_json (sort_json v)"
proof (induction v rule: wf_json.induct)
  case (4 kvs)
  then have "distinct (map fst kvs)" by (simp add: wf_dict_def)
  then have "wf_dict (sort_key fst (map (\<lambda>(k, v). (k, sort_json v)) kvs))"
    by (simp add: wf_dict_def distinct_map comp_def case_prod_beta' inj_on_def) (metis prod.collapse prod.inject)
  with 4 show ?case by (fastforce simp: list_all_iff)
qed (auto simp: list_all_iff)

lemma loads_dumps_sorted: "wf_json v \<Longrightarrow> loads (dumps_sorted v) = Some (sort_json v)"
  by (simp add: dumps_sorted_def loads_dumps wf_sort_json)

end
