(* ===== verification/PyValue.thy ===== *)
theory PyValue
  imports PyJson
begin

text \<open>
  Operations of Python on values that come from JSON: truth value, attribute and item access,
  iteration and \<open>str()\<close>, with the exceptions the source can meet.  A float keeps its literal, so
  \<open>str()\<close> of one is that literal, and one is zero when its digits before the exponent are zeros.
\<close>

section \<open>Truth value\<close>

definition float_truthy :: "string \<Rightarrow> bool" where
  "float_truthy s \<longleftrightarrow>
     s \<in> {''NaN'', ''Infinity'', ''-Infinity''} \<or>
     list_ex (\<lambda>c. is_digit c \<and> c \<noteq> CHR ''0'') (takeWhile (\<lambda>c. c \<noteq> CHR ''e'' \<and> c \<noteq> CHR ''E'') s)"

fun truthy :: "json \<Rightarrow> bool" where
  "truthy JNull = False"
| "truthy (JBool b) = b"
| "truthy (JInt i) = (i \<noteq> 0)"
| "truthy (JFloat s) = float_truthy s"
| "truthy (JStr s) = (s \<noteq> [])"
| "truthy (JArr vs) = (vs \<noteq> [])"
| "truthy (JObj kvs) = (kvs \<noteq> [])"

section \<open>Access\<close>

fun is_dict :: "json \<Rightarrow> bool" where
  "is_dict (JObj _) = True"
| "is_dict _ = False"

fun is_str :: "json \<Rightarrow> bool" where
  "is_str (JStr _) = True"
| "is_str _ = False"

fun is_list :: "json \<Rightarrow> bool" where
  "is_list (JArr _) = True"
| "is_list _ = False"

text \<open>\<open>v.get(k)\<close>: an attribute error on anything but an object.\<close>

fun json_get :: "json \<Rightarrow> string \<Rightarrow> json option result" where
  "json_get (JObj kvs) k = Inr (dict_get kvs k)"
| "json_get _ k = Inl (AttributeError ''get'')"

definition json_get_or :: "json \<Rightarrow> string \<Rightarrow> json \<Rightarrow> json result" where
  "json_get_or v k d = bindE (json_get v k) (\<lambda>r. Inr (case r of None \<Rightarrow> d | Some x \<Rightarrow> x))"

text \<open>\<open>v[k]\<close> with a string key.\<close>

fun json_item :: "json \<Rightarrow> string \<Rightarrow> json result" where
  "json_item (JObj kvs) k = (case dict_get kvs k of None \<Rightarrow> Inl (KeyError k) | Some v \<Rightarrow> Inr v)"
| "json_item _ k = Inl (TypeError ''indices'')"

text \<open>\<open>for x in v\<close>: the elements of a list, the keys of an object, the characters of a string.\<close>

fun json_iter :: "json \<Rightarrow> json list result" where
  "json_iter (JArr vs) = Inr vs"
| "json_iter (JObj kvs) = Inr (map (\<lambda>(k, _). JStr k) kvs)"
| "json_iter (JStr s) = Inr (map (\<lambda>c. JStr [c]) s)"
| "json_iter _ = Inl (TypeError ''not iterable'')"

definition as_str :: "json \<Rightarrow> string result" where
  "as_str v = (case v of JStr s \<Rightarrow> Inr s | _ \<Rightarrow> Inl (TypeError ''str expected''))"

lemma as_str_JStr [simp]: "as_str (JStr s) = Inr s"
  by (simp add: as_str_def)

lemma as_str_eq_Inr [simp]: "as_str v = Inr s \<longleftrightarrow> v = JStr s"
  by (cases v) (auto simp: as_str_def)

lemma json_get_or_JObj [simp]: "json_get_or (JObj kvs) k d = Inr (dict_get_or kvs k d)"
  by (simp add: json_get_or_def dict_get_or_def)

section \<open>Text of a value\<close>

text \<open>\<open>repr\<close> of a string: single quotes unless it has one and no double quote.\<close>

definition repr_char :: "char \<Rightarrow> char \<Rightarrow> string" where
  "repr_char q c =
     (if c = q \<or> c = backslash then [backslash, c]
      else if c = newline then [backslash, CHR ''n'']
      else if c = CHR 0x0D then [backslash, CHR ''r'']
      else if c = CHR 0x09 then [backslash, CHR ''t'']
      else if ordc c < 32 \<or> ordc c = 127
      then [backslash, CHR ''x'', hex_digit (ordc c div 16), hex_digit (ordc c mod 16)]
      else [c])"

definition repr_str :: "string \<Rightarrow> string" where
  "repr_str s =
     (let q = (if squote \<in> set s \<and> dquote \<notin> set s then dquote else squote) in
      q # concat (map (repr_char q) s) @ [q])"

fun py_repr :: "json \<Rightarrow> string" where
  "py_repr JNull = ''None''"
| "py_repr (JBool b) = (if b then ''True'' else ''False'')"
| "py_repr (JInt i) = show_int i"
| "py_repr (JFloat s) = s"
| "py_repr (JStr s) = repr_str s"
| "py_repr (JArr vs) = ''['' @ join '', '' (map py_repr vs) @ '']''"
| "py_repr (JObj kvs) =
     ''{'' @ join '', '' (map (\<lambda>(k, v). repr_str k @ '': '' @ py_repr v) kvs) @ ''}''"

definition py_str :: "json \<Rightarrow> string" where
  "py_str v = (case v of JStr s \<Rightarrow> s | _ \<Rightarrow> py_repr v)"

lemma py_str_JStr [simp]: "py_str (JStr s) = s"
  by (simp add: py_str_def)

section \<open>Integers from text\<close>

text \<open>\<open>int(s)\<close>: surrounding white space, an optional sign, digits with single underscores between
  them.\<close>

fun int_digits :: "nat \<Rightarrow> bool \<Rightarrow> string \<Rightarrow> nat option" where
  "int_digits acc after_digit [] = (if after_digit then Some acc else None)"
| "int_digits acc after_digit (c # s) =
     (if is_digit c then int_digits (10 * acc + (ordc c - 48)) True s
      else if c = CHR ''_'' \<and> after_digit then int_digits acc False s
      else None)"

definition py_int :: "string \<Rightarrow> int result" where
  "py_int s =
     (let t = strip s;
          neg = startswith t ''-'';
          u = (if neg \<or> startswith t ''+'' then drop 1 t else t)
      in case int_digits 0 False u of
           None \<Rightarrow> Inl (ValueError ''invalid literal for int()'')
         | Some n \<Rightarrow> Inr (if neg then - int n else int n))"

lemma int_digits_show: "list_all is_digit ds \<Longrightarrow> int_digits acc b ds =
    (if ds = [] then if b then Some acc else None else Some (foldl (\<lambda>n c. 10 * n + (ordc c - 48)) acc ds))"
  by (induction acc b ds rule: int_digits.induct) auto

lemma is_digit_not_space: "is_digit c \<Longrightarrow> \<not> is_space c"
  by (auto simp: is_digit_def is_space_def)

lemma strip_solid:
  assumes "s \<noteq> []" and "\<not> is_space (hd s)" and "\<not> is_space (last s)"
  shows "strip s = s"
proof -
  have "dropWhile is_space s = s" using assms by (cases s) auto
  moreover have "dropWhile is_space (rev s) = rev s"
    using assms by (cases s rule: rev_cases) auto
  ultimately show ?thesis by (simp add: strip_def lstrip_def rstrip_def)
qed

lemma py_int_show_nat: "py_int (show_nat n) = Inr (int n)"
proof -
  let ?s = "show_nat n"
  have d: "list_all is_digit ?s" by (rule show_nat_digits)
  have "strip ?s = ?s"
  proof (rule strip_solid)
    show "\<not> is_space (hd ?s)" "\<not> is_space (last ?s)"
      using d hd_in_set [of ?s] last_in_set [of ?s] unfolding list_all_iff
      by (metis is_digit_not_space show_nat_nonempty)+
  qed simp
  moreover have "\<not> startswith ?s ''-''" "\<not> startswith ?s ''+''"
    using d by (auto simp: startswith_iff is_digit_def)
  moreover have "int_digits 0 False ?s = Some n"
    using int_digits_show [OF d] nat_of_digits_show_nat [of n] by (simp add: nat_of_digits_def)
  ultimately show ?thesis by (simp add: py_int_def Let_def)
qed

section \<open>Text files\<close>

text \<open>The files a component reads and writes by path; a path without a file raises \<open>OSError\<close>.\<close>

type_synonym disk = "string \<Rightarrow> string option"

definition read_text :: "disk \<Rightarrow> string \<Rightarrow> string result" where
  "read_text d p = (case d p of None \<Rightarrow> Inl (OSError p) | Some s \<Rightarrow> Inr s)"

definition write_text :: "disk \<Rightarrow> string \<Rightarrow> string \<Rightarrow> disk" where
  "write_text d p s = d(p \<mapsto> s)"

definition json_load :: "string \<Rightarrow> json result" where
  "json_load s = (case loads s of None \<Rightarrow> Inl (ValueError ''JSONDecodeError'') | Some v \<Rightarrow> Inr v)"

lemma read_write [simp]: "read_text (write_text d p s) p = Inr s"
  by (simp add: read_text_def write_text_def)

end
