(* ===== verification/PyGlob.thy ===== *)
theory PyGlob
  imports PyPrelude
begin

text \<open>
  The module \<open>fnmatch\<close> on a case-sensitive platform, and what it matches for patterns without wild
  cards and for the patterns of directories.
\<close>

section \<open>Globs\<close>

text \<open>\<open>fnmatch\<close> on a case-sensitive platform: the pattern is cut into tokens, each matching one
  character except the star.  A bracket without its closing bracket is a literal; a range whose
  ends are in the wrong order is empty.\<close>

datatype gclass = GSingle char | GRange char char

datatype gtok = GStar | GAny | GChar char | GClass bool "gclass list"

fun glob_class_items :: "string \<Rightarrow> gclass list" where
  "glob_class_items (a # d # b # s) =
     (if d = CHR ''-'' then GRange a b # glob_class_items s
      else GSingle a # glob_class_items (d # b # s))"
| "glob_class_items [a, d] = [GSingle a, GSingle d]"
| "glob_class_items [a] = [GSingle a]"
| "glob_class_items [] = []"

text \<open>The text of a class and what follows it, when it is closed; a bracket in first place is part
  of the class.\<close>

definition glob_class :: "string \<Rightarrow> (gtok \<times> string) option" where
  "glob_class s =
     (let neg = startswith s ''!'';
          s1 = (if neg then drop 1 s else s);
          lead = (if startswith s1 '']'' then '']'' else []);
          s2 = drop (length lead) s1;
          body = takeWhile (\<lambda>c. c \<noteq> CHR '']'') s2;
          rest = dropWhile (\<lambda>c. c \<noteq> CHR '']'') s2
      in if rest = [] then None
         else Some (GClass neg (glob_class_items (lead @ body)), drop 1 rest))"

lemma glob_class_shorter:
  assumes "glob_class s = Some (t, r)"
  shows "length r < length s"
proof -
  define s1 where "s1 = (if startswith s ''!'' then drop 1 s else s)"
  define s2 where "s2 = drop (length (if startswith s1 '']'' then '']'' else [])) s1"
  define rest where "rest = dropWhile (\<lambda>c. c \<noteq> CHR '']'') s2"
  have "rest \<noteq> []" and r: "r = drop 1 rest"
    using assms unfolding glob_class_def Let_def
    by (simp_all add: s1_def s2_def rest_def split: if_split_asm)
  then have "length r < length rest" by (cases rest) simp_all
  also have "length rest \<le> length s2" by (simp add: rest_def length_dropWhile_le)
  also have "length s2 \<le> length s1" by (simp add: s2_def)
  also have "length s1 \<le> length s" by (simp add: s1_def)
  finally show ?thesis .
qed

function glob_parse :: "string \<Rightarrow> gtok list" where
  "glob_parse [] = []"
| "glob_parse (c # s) =
     (if c = CHR ''*'' then GStar # glob_parse s
      else if c = CHR ''?'' then GAny # glob_parse s
      else if c = CHR ''['' then
        (case glob_class s of
           None \<Rightarrow> GChar c # glob_parse s
         | Some (t, r) \<Rightarrow> t # glob_parse r)
      else GChar c # glob_parse s)"
  by pat_completeness auto
termination
  by (relation "measure length") (auto dest: glob_class_shorter)

fun gclass_match :: "gclass \<Rightarrow> char \<Rightarrow> bool" where
  "gclass_match (GSingle a) c = (c = a)"
| "gclass_match (GRange a b) c = (ordc a \<le> ordc c \<and> ordc c \<le> ordc b)"

fun gtok_match :: "gtok \<Rightarrow> char \<Rightarrow> bool" where
  "gtok_match GStar c = False"
| "gtok_match GAny c = True"
| "gtok_match (GChar d) c = (c = d)"
| "gtok_match (GClass neg is) c = (list_ex (\<lambda>i. gclass_match i c) is \<noteq> neg)"

fun gmatch :: "gtok list \<Rightarrow> string \<Rightarrow> bool" where
  "gmatch [] s = (s = [])"
| "gmatch (GStar # ts) [] = gmatch ts []"
| "gmatch (GStar # ts) (c # s) = (gmatch ts (c # s) \<or> gmatch (GStar # ts) s)"
| "gmatch (t # ts) [] = False"
| "gmatch (t # ts) (c # s) = (gtok_match t c \<and> gmatch ts s)"

definition fnmatch :: "string \<Rightarrow> string \<Rightarrow> bool" where
  "fnmatch name pat = gmatch (glob_parse pat) name"

section \<open>What patterns match\<close>

definition glob_free :: "string \<Rightarrow> bool" where
  "glob_free s \<longleftrightarrow> list_all (\<lambda>c. c \<noteq> CHR ''*'' \<and> c \<noteq> CHR ''?'' \<and> c \<noteq> CHR ''['') s"

lemma glob_parse_free: "glob_free s \<Longrightarrow> glob_parse (s @ t) = map GChar s @ glob_parse t"
  by (induction s) (auto simp: glob_free_def)

lemma gmatch_lits: "gmatch (map GChar s @ ts) c \<longleftrightarrow> (\<exists>r. c = s @ r \<and> gmatch ts r)"
proof (induction s arbitrary: c)
  case Nil
  then show ?case by simp
next
  case (Cons d s)
  then show ?case by (cases c) auto
qed

lemma gmatch_star [simp]: "gmatch [GStar] r"
  by (induction r) auto

lemma gmatch_stars [simp]: "gmatch [GStar, GStar] r"
  by (cases r) auto

lemma fnmatch_literal: "glob_free s \<Longrightarrow> fnmatch name s \<longleftrightarrow> name = s"
  using glob_parse_free [of s "[]"] gmatch_lits [of s "[]" name] by (auto simp: fnmatch_def)

lemma fnmatch_dir: "glob_free s \<Longrightarrow> fnmatch c (s @ ''/**'') \<longleftrightarrow> startswith c (s @ ''/'')"
  using glob_parse_free [of s "''/**''"] gmatch_lits [of "s @ ''/''" "[GStar, GStar]" c]
  by (auto simp: fnmatch_def startswith_iff)

end
