(* ===== verification/AgentPolicy.thy ===== *)
theory AgentPolicy
  imports PyValue PyGlob "HOL-Library.Multiset" "HOL-Library.Product_Lexorder"
begin

text \<open>
  \<open>endpoint-agent/pysetu_agent/policy.py\<close>: the rules of the endpoint agent, the matching of a rule's
  glob against a resource path, the evaluation of a policy, and the policy cache with its checksum.
  The home directories (\<open>os.path.expanduser\<close>) and SHA-256 are parameters.  Shown here: a policy's
  decision is the strongest action among the matching rules, whatever their order; what a
  directory pattern matches; the cache round trip; and that a cache whose checksum is the saved one
  decides as the saved policy does.
\<close>

section \<open>Actions and rules\<close>

definition ACTION_RANK :: "int dict" where
  "ACTION_RANK = [(''allow'', 1), (''log'', 2), (''redact'', 3), (''approval'', 4), (''block'', 5)]"

definition CLASSIFICATION_DEFAULT_ACTION :: "string dict" where
  "CLASSIFICATION_DEFAULT_ACTION =
     [(''SECRET'', ''block''), (''PRIVATE_KEY'', ''block''),
      (''AWS_ACCESS_KEY'', ''block''), (''GENERIC_SECRET'', ''block'')]"

record policy_rule =
  r_pattern :: string
  r_classification :: string
  r_action :: string

record local_policy =
  lp_rules :: "policy_rule list"
  lp_version :: string

abbreviation rule :: "string \<Rightarrow> string \<Rightarrow> string \<Rightarrow> policy_rule" where
  "rule p c a \<equiv> \<lparr>r_pattern = p, r_classification = c, r_action = a\<rparr>"

definition policy_defaults :: local_policy where
  "policy_defaults =
     \<lparr>lp_rules =
        [rule ''.env'' ''*'' ''block'',
         rule ''.env.*'' ''*'' ''block'',
         rule ''*.pem'' ''*'' ''block'',
         rule ''*.key'' ''*'' ''block'',
         rule ''credentials.*'' ''*'' ''block'',
         rule ''~/.ssh/**'' ''*'' ''block'',
         rule ''~/.aws/**'' ''*'' ''block'',
         rule ''*.sql'' ''PII'' ''redact'',
         rule ''src/**'' ''*'' ''allow'',
         rule ''tests/**'' ''*'' ''allow''],
      lp_version = ''1''\<rparr>"

section \<open>Paths\<close>

text \<open>\<open>homes []\<close> is the home directory of the current user, \<open>homes u\<close> that of the user \<open>u\<close>.\<close>

type_synonym homes = "string \<Rightarrow> string option"

definition expand_home :: "homes \<Rightarrow> string \<Rightarrow> string" where
  "expand_home homes path =
     (if \<not> startswith path ''~'' then path
      else
        let user = takeWhile (\<lambda>c. c \<noteq> CHR ''/'') (drop 1 path);
            tail = dropWhile (\<lambda>c. c \<noteq> CHR ''/'') (drop 1 path)
        in case homes user of
             None \<Rightarrow> path
           | Some h \<Rightarrow>
               (let p = rstrip_chars ''/'' h @ tail in if p = [] then ''/'' else p))"

definition normalise_path :: "homes \<Rightarrow> string \<Rightarrow> string" where
  "normalise_path homes p = strip_chars ''/'' (replace_char backslash CHR ''/'' (expand_home homes p))"

definition basename :: "string \<Rightarrow> string" where
  "basename p = last (split_char CHR ''/'' p)"

definition path_candidates :: "string \<Rightarrow> string list" where
  "path_candidates res =
     (let parts = split_char CHR ''/'' res in
      [res, basename res] @ map (\<lambda>i. join ''/'' (drop i parts)) [1..<length parts])"

definition path_matches :: "homes \<Rightarrow> string \<Rightarrow> string \<Rightarrow> bool" where
  "path_matches homes pattern resource =
     (let pat = normalise_path homes pattern;
          res = normalise_path homes resource;
          candidates = path_candidates res
      in if list_ex (\<lambda>c. fnmatch c pat) candidates then True
         else if endswith pat ''/**'' then
           (let pre = take (length pat - 3) pat in
            list_ex (\<lambda>c. c = pre \<or> startswith c (pre @ ''/'')) candidates)
         else False)"

section \<open>Evaluation\<close>

definition default_action_for :: "string list \<Rightarrow> string" where
  "default_action_for classifications =
     (case first_some (dict_get CLASSIFICATION_DEFAULT_ACTION) classifications of
        Some a \<Rightarrow> a
      | None \<Rightarrow>
          if list_ex (\<lambda>l. l \<in> {''SSN'', ''EMAIL'', ''US_PHONE'', ''EU_PERSONAL_ID'', ''PCI_CARD''}) classifications
          then ''redact'' else ''allow'')"

definition rule_applies :: "homes \<Rightarrow> string \<Rightarrow> string list \<Rightarrow> policy_rule \<Rightarrow> bool" where
  "rule_applies homes resource classifications r \<longleftrightarrow>
     (r_classification r = ''*'' \<or> r_classification r \<in> set classifications) \<and>
     path_matches homes (r_pattern r) resource"

definition action_rank :: "string \<Rightarrow> int" where
  "action_rank a = dict_get_or ACTION_RANK a 1"

fun evaluate_loop :: "homes \<Rightarrow> string \<Rightarrow> string list \<Rightarrow> policy_rule list \<Rightarrow> int \<Rightarrow> string \<Rightarrow> int \<times> string" where
  "evaluate_loop homes resource cls [] best_rank best_action = (best_rank, best_action)"
| "evaluate_loop homes resource cls (r # rs) best_rank best_action =
     (if rule_applies homes resource cls r \<and> best_rank < action_rank (r_action r)
      then evaluate_loop homes resource cls rs (action_rank (r_action r)) (r_action r)
      else evaluate_loop homes resource cls rs best_rank best_action)"

definition evaluate :: "homes \<Rightarrow> local_policy \<Rightarrow> string \<Rightarrow> string list \<Rightarrow> string" where
  "evaluate homes policy resource cls =
     (case evaluate_loop homes resource cls (lp_rules policy) 0 ''allow'' of
        (best_rank, best_action) \<Rightarrow>
          if best_rank > 0 then best_action else default_action_for cls)"

section \<open>Policies from the control plane\<close>

definition rule_of_payload :: "json dict \<Rightarrow> policy_rule" where
  "rule_of_payload d =
     rule (py_str (dict_get_or d ''pattern'' (JStr [])))
          (py_str (dict_get_or d ''classification'' (JStr ''*'')))
          (py_str (dict_get_or d ''action'' (JStr ''allow'')))"

definition policy_from_payload :: "json \<Rightarrow> local_policy result" where
  "policy_from_payload payload =
     bindE (json_get_or payload ''rules'' (JArr [])) (\<lambda>raw.
     bindE (json_iter raw) (\<lambda>items.
     bindE (json_get_or payload ''version'' (JStr ''1'')) (\<lambda>version.
       Inr \<lparr>lp_rules = concat (map (\<lambda>v. case v of
                JObj d \<Rightarrow> if truthy (dict_get_or d ''pattern'' JNull) then [rule_of_payload d] else []
              | _ \<Rightarrow> []) items),
            lp_version = py_str version\<rparr>)))"

section \<open>The policy cache\<close>

text \<open>
  The sort key of a cached rule, three item accesses.  A policy rule holds strings; a cached
  rule with another value in one of its fields is outside the typed model and counts as a type
  error, which is also what sorting a string against another value raises.
\<close>

definition rule_fields :: "json \<Rightarrow> (string \<times> string \<times> string) result" where
  "rule_fields r =
     bindE (bindE (json_item r ''pattern'') as_str) (\<lambda>p.
     bindE (bindE (json_item r ''classification'') as_str) (\<lambda>c.
     bindE (bindE (json_item r ''action'') as_str) (\<lambda>a. Inr (p, c, a))))"

definition fields_of :: "json \<Rightarrow> string \<times> string \<times> string" where
  "fields_of r = (case rule_fields r of Inr k \<Rightarrow> k | Inl _ \<Rightarrow> ([], [], []))"

definition cache_checksum :: "(string \<Rightarrow> string) \<Rightarrow> json list \<Rightarrow> string result" where
  "cache_checksum sha256 rules =
     bindE (mapE rule_fields rules) (\<lambda>_.
       Inr (sha256 (dumps_sorted (JArr (sort_key fields_of rules)))))"

definition rule_json :: "policy_rule \<Rightarrow> json" where
  "rule_json r = JObj [(''pattern'', JStr (r_pattern r)), (''classification'', JStr (r_classification r)),
                       (''action'', JStr (r_action r))]"

definition cache_document :: "local_policy \<Rightarrow> string \<Rightarrow> json" where
  "cache_document policy checksum =
     JObj [(''version'', JStr (lp_version policy)), (''checksum'', JStr checksum),
           (''rules'', JArr (map rule_json (lp_rules policy)))]"

definition cache_save :: "(string \<Rightarrow> string) \<Rightarrow> string \<Rightarrow> local_policy \<Rightarrow> disk \<Rightarrow> disk result" where
  "cache_save sha256 path policy d =
     bindE (cache_checksum sha256 (map rule_json (lp_rules policy))) (\<lambda>checksum.
       Inr (write_text d path (dumps_indent (cache_document policy checksum))))"

definition rule_of_cache :: "json \<Rightarrow> policy_rule result" where
  "rule_of_cache r = bindE (rule_fields r) (\<lambda>(p, c, a). Inr (rule p c a))"

definition cache_load :: "(string \<Rightarrow> string) \<Rightarrow> string \<Rightarrow> disk \<Rightarrow> local_policy result" where
  "cache_load sha256 path d =
     bindE (read_text d path) (\<lambda>text.
     bindE (json_load text) (\<lambda>document.
     bindE (json_get_or document ''rules'' (JArr [])) (\<lambda>rules_raw.
     bindE (json_iter rules_raw) (\<lambda>items.
     bindE (cache_checksum sha256 items) (\<lambda>checksum.
     bindE (json_get document ''checksum'') (\<lambda>stored.
       if stored \<noteq> Some (JStr checksum) then Inl (ValueError ''Policy cache integrity check failed'')
       else
         bindE (mapE rule_of_cache items) (\<lambda>rules.
         bindE (json_get_or document ''version'' (JStr ''1'')) (\<lambda>version.
           Inr \<lparr>lp_rules = rules, lp_version = py_str version\<rparr>))))))))"

text \<open>\<open>load_or_defaults\<close> catches exactly three exceptions; a type or attribute error escapes.\<close>

definition cache_load_or_defaults :: "(string \<Rightarrow> string) \<Rightarrow> string \<Rightarrow> disk \<Rightarrow> local_policy result" where
  "cache_load_or_defaults sha256 path d =
     (case cache_load sha256 path d of
        Inl (OSError _) \<Rightarrow> Inr policy_defaults
      | Inl (ValueError _) \<Rightarrow> Inr policy_defaults
      | Inl (KeyError _) \<Rightarrow> Inr policy_defaults
      | r \<Rightarrow> r)"

section \<open>The decision as a maximum\<close>

text \<open>The abstract verdicts, ordered by severity.\<close>

datatype verdict = Allow | Log | Redact | Approval | Block

fun severity :: "verdict \<Rightarrow> int" where
  "severity Allow = 1" | "severity Log = 2" | "severity Redact = 3"
| "severity Approval = 4" | "severity Block = 5"

instantiation verdict :: linorder
begin

definition less_eq_verdict :: "verdict \<Rightarrow> verdict \<Rightarrow> bool" where
  "less_eq_verdict a b \<longleftrightarrow> severity a \<le> severity b"

definition less_verdict :: "verdict \<Rightarrow> verdict \<Rightarrow> bool" where
  "less_verdict a b \<longleftrightarrow> severity a < severity b"

instance
proof
  fix a b c :: verdict
  show "a < b \<longleftrightarrow> a \<le> b \<and> \<not> b \<le> a"
    by (auto simp: less_eq_verdict_def less_verdict_def)
  show "a \<le> a" by (simp add: less_eq_verdict_def)
  show "a \<le> b \<Longrightarrow> b \<le> c \<Longrightarrow> a \<le> c" by (simp add: less_eq_verdict_def)
  show "a \<le> b \<Longrightarrow> b \<le> a \<Longrightarrow> a = b"
    by (cases a; cases b) (simp_all add: less_eq_verdict_def)
  show "a \<le> b \<or> b \<le> a" by (auto simp: less_eq_verdict_def)
qed

end

fun verdict_name :: "verdict \<Rightarrow> string" where
  "verdict_name Allow = ''allow''" | "verdict_name Log = ''log''" | "verdict_name Redact = ''redact''"
| "verdict_name Approval = ''approval''" | "verdict_name Block = ''block''"

definition verdict_of :: "string \<Rightarrow> verdict" where
  "verdict_of a = (if a = ''block'' then Block else if a = ''approval'' then Approval
                   else if a = ''redact'' then Redact else if a = ''log'' then Log else Allow)"

definition known_action :: "string \<Rightarrow> bool" where
  "known_action a \<longleftrightarrow> a \<in> {''allow'', ''log'', ''redact'', ''approval'', ''block''}"

lemma action_rank_severity: "action_rank a = severity (verdict_of a)"
  by (simp add: action_rank_def ACTION_RANK_def dict_get_or_def dict_get_def verdict_of_def)

lemma verdict_name_of [simp]: "known_action a \<Longrightarrow> verdict_name (verdict_of a) = a"
  by (auto simp: known_action_def verdict_of_def)

lemma verdict_of_name [simp]: "verdict_of (verdict_name v) = v"
  by (cases v) (simp_all add: verdict_of_def)

lemma known_verdict_name [simp]: "known_action (verdict_name v)"
  by (cases v) (simp_all add: known_action_def)

lemma severity_pos: "0 < severity v"
  by (cases v) simp_all

text \<open>The loop keeps its best or takes the first of the applicable rules with the greatest rank.\<close>

lemma evaluate_loop_spec:
  assumes "evaluate_loop homes res cls rs k a = (k', a')"
  shows "k \<le> k' \<and> (\<forall>r \<in> set rs. rule_applies homes res cls r \<longrightarrow> action_rank (r_action r) \<le> k') \<and>
         ((k', a') = (k, a) \<or>
          (\<exists>r \<in> set rs. rule_applies homes res cls r \<and> a' = r_action r \<and> k' = action_rank a' \<and> k < k'))"
  using assms
proof (induction rs arbitrary: k a)
  case Nil
  then show ?case by simp
next
  case (Cons r rs)
  show ?case
  proof (cases "rule_applies homes res cls r \<and> k < action_rank (r_action r)")
    case True
    with Cons.prems have "evaluate_loop homes res cls rs (action_rank (r_action r)) (r_action r) = (k', a')"
      by simp
    from Cons.IH [OF this] True show ?thesis by auto
  next
    case False
    with Cons.prems have "evaluate_loop homes res cls rs k a = (k', a')" by auto
    from Cons.IH [OF this] False show ?thesis by auto
  qed
qed

definition applicable :: "homes \<Rightarrow> local_policy \<Rightarrow> string \<Rightarrow> string list \<Rightarrow> policy_rule list" where
  "applicable homes policy res cls = filter (rule_applies homes res cls) (lp_rules policy)"

lemma evaluate_cases:
  obtains (default) "applicable homes policy res cls = []"
      "evaluate homes policy res cls = default_action_for cls"
  | (rule) r where "r \<in> set (applicable homes policy res cls)"
      "evaluate homes policy res cls = r_action r"
      "\<forall>q \<in> set (applicable homes policy res cls). verdict_of (r_action q) \<le> verdict_of (r_action r)"
proof -
  obtain k a where l: "evaluate_loop homes res cls (lp_rules policy) 0 ''allow'' = (k, a)"
    by fastforce
  note s = evaluate_loop_spec [OF l]
  show thesis
  proof (cases "k = 0")
    case True
    with s severity_pos have "applicable homes policy res cls = []"
      unfolding applicable_def filter_empty_conv action_rank_severity by (metis not_less)
    moreover have "evaluate homes policy res cls = default_action_for cls"
      using l True by (simp add: evaluate_def)
    ultimately show thesis by (rule default)
  next
    case False
    with s obtain r where r: "r \<in> set (lp_rules policy)" "rule_applies homes res cls r"
        "a = r_action r" "k = action_rank a" "0 < k"
      by auto
    have "r \<in> set (applicable homes policy res cls)" using r by (simp add: applicable_def)
    moreover have "evaluate homes policy res cls = r_action r"
      using l r by (simp add: evaluate_def)
    moreover have "\<forall>q \<in> set (applicable homes policy res cls).
        verdict_of (r_action q) \<le> verdict_of (r_action r)"
      using s r by (auto simp: applicable_def less_eq_verdict_def action_rank_severity)
    ultimately show thesis by (rule rule)
  qed
qed

definition policy_ok :: "local_policy \<Rightarrow> bool" where
  "policy_ok policy \<longleftrightarrow> list_all (\<lambda>r. known_action (r_action r)) (lp_rules policy)"

lemma evaluate_Max:
  assumes "policy_ok policy"
  shows "evaluate homes policy res cls =
    (let vs = verdict_of ` r_action ` set (applicable homes policy res cls)
     in if vs = {} then default_action_for cls else verdict_name (Max vs))"
proof (cases rule: evaluate_cases [of homes policy res cls])
  case default
  then show ?thesis by simp
next
  case (rule r)
  let ?vs = "verdict_of ` r_action ` set (applicable homes policy res cls)"
  have "Max ?vs = verdict_of (r_action r)"
    using rule by (intro Max_eqI) auto
  moreover have "known_action (r_action r)"
    using rule(1) assms by (simp add: applicable_def policy_ok_def list_all_iff)
  moreover have "?vs \<noteq> {}" using rule(1) by auto
  ultimately show ?thesis using rule(2) by (simp add: Let_def)
qed

text \<open>Hence the order and multiplicity of the rules do not matter.\<close>

lemma evaluate_set_cong:
  assumes "policy_ok p" and "policy_ok q" and "set (lp_rules p) = set (lp_rules q)"
  shows "evaluate homes p res cls = evaluate homes q res cls"
  using assms by (simp add: evaluate_Max applicable_def)

lemma evaluate_block:
  assumes "r \<in> set (lp_rules policy)" and "rule_applies homes res cls r" and "r_action r = ''block''"
  shows "evaluate homes policy res cls = ''block''"
proof (cases rule: evaluate_cases [of homes policy res cls])
  case default
  with assms show ?thesis by (auto simp: applicable_def filter_empty_conv)
next
  case (rule q)
  have "verdict_of (r_action r) \<le> verdict_of (r_action q)"
    using rule(3) assms by (auto simp: applicable_def)
  then have "5 \<le> severity (verdict_of (r_action q))"
    by (simp add: assms(3) verdict_of_def less_eq_verdict_def)
  then have "r_action q = ''block''"
    by (auto simp: verdict_of_def split: if_splits)
  with rule(2) show ?thesis by simp
qed

section \<open>What a directory pattern matches\<close>

text \<open>The candidates are the non-empty tails of the path, cut between components.\<close>

abbreviation parts_of :: "string \<Rightarrow> string list" where
  "parts_of \<equiv> split_char CHR ''/''"

lemma split_drop_parts: "i < length (parts_of res) \<Longrightarrow> parts_of (join ''/'' (drop i (parts_of res))) = drop i (parts_of res)"
  by (rule split_char_join) (auto dest: in_set_dropD split_char_parts)

lemma path_candidates_iff:
  "c \<in> set (path_candidates res) \<longleftrightarrow> (\<exists>i < length (parts_of res). c = join ''/'' (drop i (parts_of res)))"
proof -
  let ?ps = "parts_of res" and ?n = "length (parts_of res)"
  have n: "0 < ?n" by simp
  have 0: "join ''/'' (drop 0 ?ps) = res" by (simp add: join_split_char)
  have l: "join ''/'' (drop (?n - 1) ?ps) = basename res"
  proof -
    have "drop (?n - 1) ?ps = [last ?ps]"
      using n by (metis append_butlast_last_id append_eq_conv_conj length_butlast length_greater_0_conv)
    then show ?thesis by (simp add: basename_def)
  qed
  have "set (path_candidates res) = {res, basename res} \<union> (\<lambda>i. join ''/'' (drop i ?ps)) ` {1..<?n}"
    by (simp add: path_candidates_def Let_def)
  also have "\<dots> = (\<lambda>i. join ''/'' (drop i ?ps)) ` {0..<?n}"
  proof -
    have "{0..<?n} = insert 0 {1..<?n}" using n by auto
    moreover have "basename res \<in> (\<lambda>i. join ''/'' (drop i ?ps)) ` {0..<?n}"
      using l n by (metis atLeastLessThan_iff diff_less image_eqI less_one zero_le)
    ultimately show ?thesis using 0 by auto
  qed
  finally show ?thesis by auto
qed

lemma under_directory_iff:
  "c = pre \<or> startswith c (pre @ ''/'') \<longleftrightarrow> prefix (parts_of pre) (parts_of c)"
proof
  assume "c = pre \<or> startswith c (pre @ ''/'')"
  then show "prefix (parts_of pre) (parts_of c)"
    by (auto simp: startswith_iff split_char_append)
next
  assume "prefix (parts_of pre) (parts_of c)"
  then obtain xs where xs: "parts_of c = parts_of pre @ xs" by (auto simp: prefix_def)
  show "c = pre \<or> startswith c (pre @ ''/'')"
  proof (cases xs)
    case Nil
    with xs show ?thesis by (auto dest: split_char_inj)
  next
    case (Cons y ys)
    then have "c = pre @ ''/'' @ join ''/'' xs"
      using join_append [of "parts_of pre" xs "''/''"] join_split_char [of "CHR ''/''" c]
      by (simp add: xs join_split_char)
    then show ?thesis by (auto simp: startswith_iff)
  qed
qed

lemma sublist_drop_iff:
  "ds \<noteq> [] \<Longrightarrow> (\<exists>i < length ps. prefix ds (drop i ps)) \<longleftrightarrow> sublist ds ps"
proof
  assume "\<exists>i < length ps. prefix ds (drop i ps)"
  then obtain i where "prefix ds (drop i ps)" by blast
  then obtain zs where "drop i ps = ds @ zs" by (auto simp: prefix_def)
  then have "ps = take i ps @ ds @ zs" by (metis append_take_drop_id)
  then show "sublist ds ps" by (auto simp: sublist_def)
next
  assume "ds \<noteq> []" and "sublist ds ps"
  then obtain xs zs where "ps = xs @ ds @ zs" by (auto simp: sublist_def)
  with \<open>ds \<noteq> []\<close> show "\<exists>i < length ps. prefix ds (drop i ps)"
    by (intro exI [of _ "length xs"]) auto
qed

text \<open>A pattern \<open>dir/**\<close> matches a path exactly when the components of \<open>dir\<close> occur consecutively
  in it, at any depth.\<close>

lemma path_matches_dir:
  assumes "normalise_path homes pattern = dirname @ ''/**''" and "glob_free dirname"
  shows "path_matches homes pattern resource \<longleftrightarrow>
         sublist (parts_of dirname) (parts_of (normalise_path homes resource))"
proof -
  let ?res = "normalise_path homes resource"
  let ?cs = "path_candidates ?res"
  have "endswith (dirname @ ''/**'') ''/**''" by (simp add: endswith_iff)
  then have "path_matches homes pattern resource \<longleftrightarrow>
      list_ex (\<lambda>c. startswith c (dirname @ ''/'')) ?cs \<or>
      list_ex (\<lambda>c. c = dirname \<or> startswith c (dirname @ ''/'')) ?cs"
    by (simp add: path_matches_def Let_def assms fnmatch_dir)
  also have "\<dots> \<longleftrightarrow> (\<exists>c \<in> set ?cs. c = dirname \<or> startswith c (dirname @ ''/''))"
    unfolding list_ex_iff by blast
  also have "\<dots> \<longleftrightarrow> (\<exists>i < length (parts_of ?res). prefix (parts_of dirname) (drop i (parts_of ?res)))"
  proof -
    have "(\<exists>c \<in> set ?cs. Q (parts_of c)) \<longleftrightarrow> (\<exists>i < length (parts_of ?res). Q (drop i (parts_of ?res)))" for Q
      unfolding path_candidates_iff Bex_def using split_drop_parts [of _ ?res] by metis
    then show ?thesis unfolding under_directory_iff .
  qed
  also have "\<dots> \<longleftrightarrow> sublist (parts_of dirname) (parts_of ?res)"
    by (rule sublist_drop_iff) simp
  finally show ?thesis .
qed

section \<open>The cache\<close>

lemma rule_fields_rule_json [simp]:
  "rule_fields (rule_json r) = Inr (r_pattern r, r_classification r, r_action r)"
  by (simp add: rule_fields_def rule_json_def dict_get_def)

lemma fields_of_rule_json [simp]: "fields_of (rule_json r) = (r_pattern r, r_classification r, r_action r)"
  by (simp add: fields_of_def)

lemma cache_checksum_rules:
  "cache_checksum sha256 (map rule_json rs) =
   Inr (sha256 (dumps_sorted (JArr (sort_key fields_of (map rule_json rs)))))"
  by (simp add: cache_checksum_def mapE_map)

definition ascii_policy :: "local_policy \<Rightarrow> bool" where
  "ascii_policy p \<longleftrightarrow> ascii_str (lp_version p) \<and>
     list_all (\<lambda>r. ascii_str (r_pattern r) \<and> ascii_str (r_classification r) \<and> ascii_str (r_action r)) (lp_rules p)"

lemma ascii_lit [simp]:
  "ascii_str ''version''" "ascii_str ''checksum''" "ascii_str ''rules''" "ascii_str ''pattern''"
  "ascii_str ''classification''" "ascii_str ''action''"
  by (simp_all add: ascii_str_def is_ascii_def)

lemma wf_cache_document:
  assumes "ascii_policy p" and "ascii_str k"
  shows "wf_json (cache_document p k)"
  using assms by (auto simp: cache_document_def ascii_policy_def rule_json_def list_all_iff wf_dict_def)

lemma rule_of_cache_rule_json [simp]: "rule_of_cache (rule_json r) = Inr r"
  by (simp add: rule_of_cache_def)

text \<open>Sorting the keys of a document does not change the fields of a cached rule.\<close>

lemma dict_get_sort_key:
  assumes "wf_dict d"
  shows "dict_get (sort_key fst d) k = dict_get d (k :: string)"
proof -
  have "mset (map fst (sort_key fst d)) = mset (map fst d)"
    by (metis mset_map mset_sort)
  then have "distinct (map fst (sort_key fst d))"
    using assms by (metis distinct_count_atmost_1 mset_eq_setD wf_dict_def)
  then have "map_of (sort_key fst d) = map_of d"
    using assms by (intro iffD2 [OF map_of_inject_set]) (simp_all add: wf_dict_def)
  then show ?thesis by (simp add: dict_get_def)
qed

lemma dict_get_map_snd: "dict_get (map (\<lambda>(k, v). (k, f v)) d) k = map_option f (dict_get d k)"
  by (induction d) (auto simp: dict_get_def)

lemma as_str_sort_json [simp]: "as_str (sort_json v) = as_str v"
  by (cases v) (simp_all add: as_str_def)

lemma json_item_sort_json:
  assumes "wf_json v"
  shows "bindE (json_item (sort_json v) k) as_str = bindE (json_item v k) as_str"
proof (cases v)
  case (JObj kvs)
  have "map fst (map (\<lambda>(k, v). (k, sort_json v)) kvs) = map fst kvs"
    by (induction kvs) auto
  moreover have "wf_dict kvs" using assms by (simp add: JObj)
  ultimately have "wf_dict (map (\<lambda>(k, v). (k, sort_json v)) kvs)"
    by (simp only: wf_dict_def)
  then show ?thesis
    by (simp add: JObj dict_get_sort_key dict_get_map_snd split: option.splits)
qed simp_all

lemma rule_fields_sort_json: "wf_json v \<Longrightarrow> rule_fields (sort_json v) = rule_fields v"
  by (simp add: rule_fields_def json_item_sort_json)

definition rules_payload :: "local_policy \<Rightarrow> string" where
  "rules_payload p = dumps_sorted (JArr (sort_key fields_of (map rule_json (lp_rules p))))"

lemma wf_rules_payload:
  "ascii_policy p \<Longrightarrow> wf_json (JArr (sort_key fields_of (map rule_json (lp_rules p))))"
  by (auto simp: ascii_policy_def list_all_iff rule_json_def wf_dict_def)

lemma checksum_payload_inj:
  assumes "dumps_sorted (JArr (sort_key fields_of items)) = rules_payload p"
    and "ascii_policy p" and "wf_json (JArr items)"
  shows "mset (map fields_of items) = mset (map fields_of (map rule_json (lp_rules p)))"
proof -
  let ?rs = "map rule_json (lp_rules p)"
  have wi: "wf_json (JArr (sort_key fields_of items))"
    using assms(3) by (simp add: list_all_iff)
  have wr: "wf_json (JArr (sort_key fields_of ?rs))"
    by (rule wf_rules_payload [OF assms(2)])
  have "Some (sort_json (JArr (sort_key fields_of items))) = Some (sort_json (JArr (sort_key fields_of ?rs)))"
    using loads_dumps_sorted [OF wi] loads_dumps_sorted [OF wr] assms(1) by (simp add: rules_payload_def)
  then have "map (fields_of \<circ> sort_json) (sort_key fields_of items) = map (fields_of \<circ> sort_json) (sort_key fields_of ?rs)"
    by (metis json.inject(5) list.map_comp option.inject sort_json.simps(1))
  moreover have "map (fields_of \<circ> sort_json) xs = map fields_of xs" if "wf_json (JArr xs)" for xs
    using that by (simp add: list_all_iff fields_of_def rule_fields_sort_json)
  ultimately have "map fields_of (sort_key fields_of items) = map fields_of (sort_key fields_of ?rs)"
    using wi wr by (simp only:)
  then have "mset (map fields_of (sort_key fields_of items)) = mset (map fields_of (sort_key fields_of ?rs))"
    by simp
  then show ?thesis by (simp only: mset_map mset_sort)
qed

lemma rule_of_cache_fields: "rule_of_cache x = Inr r \<Longrightarrow> fields_of x = fields_of (rule_json r)"
  by (auto simp: rule_of_cache_def bindE_eq_Inr_iff fields_of_def)

lemma mapE_rule_of_cache_fields:
  "mapE rule_of_cache items = Inr rs \<Longrightarrow> map fields_of items = map fields_of (map rule_json rs)"
  by (induction items arbitrary: rs) (auto simp: bindE_eq_Inr_iff dest: rule_of_cache_fields)

lemma inj_fields: "inj (\<lambda>r. fields_of (rule_json r))"
  by (auto intro!: injI)

text \<open>What a successful load has checked.\<close>

lemma cache_loadE:
  assumes "cache_load sha256 path d = Inr q"
  obtains content document raw items where "d path = Some content" "loads content = Some document"
    "json_get_or document ''rules'' (JArr []) = Inr raw" "json_iter raw = Inr items"
    "json_get document ''checksum'' = Inr (Some (JStr (sha256 (dumps_sorted (JArr (sort_key fields_of items))))))"
    "mapE rule_of_cache items = Inr (lp_rules q)"
  using assms
  by (auto simp: cache_load_def bindE_eq_Inr_iff read_text_def json_load_def cache_checksum_def
      split: option.splits if_splits)

lemma cache_load_saved:
  assumes "ascii_policy p" and "ascii_str (sha256 (rules_payload p))"
  shows "bindE (cache_save sha256 path p d) (cache_load sha256 path) = Inr p"
proof -
  let ?k = "sha256 (rules_payload p)"
  have k: "cache_checksum sha256 (map rule_json (lp_rules p)) = Inr ?k"
    by (simp add: cache_checksum_rules rules_payload_def)
  have l: "loads (dumps_indent (cache_document p ?k)) = Some (cache_document p ?k)"
    by (rule loads_dumps_indent [OF wf_cache_document [OF assms]])
  have "json_get_or (cache_document p ?k) ''rules'' (JArr []) = Inr (JArr (map rule_json (lp_rules p)))"
    "json_get (cache_document p ?k) ''checksum'' = Inr (Some (JStr ?k))"
    "json_get_or (cache_document p ?k) ''version'' (JStr ''1'') = Inr (JStr (lp_version p))"
    by (simp_all add: cache_document_def dict_get_or_def dict_get_def)
  with k l show ?thesis
    by (simp add: cache_save_def cache_load_def json_load_def mapE_map)
qed

lemma cache_save_eq:
  "cache_save sha256 path p d =
   Inr (write_text d path (dumps_indent (cache_document p (sha256 (rules_payload p)))))"
  by (simp add: cache_save_def cache_checksum_rules rules_payload_def)

section \<open>Properties\<close>

text \<open>C1: evaluating a policy of known actions gives the most severe action among the rules that
  apply to the resource and its classifications, and the classification default when none does.\<close>

theorem evaluate_strongest_rule:
  assumes "policy_ok policy"
  shows "evaluate homes policy res cls =
    (let vs = verdict_of ` r_action ` set (applicable homes policy res cls)
     in if vs = {} then default_action_for cls else verdict_name (Max vs))"
  using assms by (rule evaluate_Max)

lemma policy_ok_defaults: "policy_ok policy_defaults"
  by (simp add: policy_ok_def policy_defaults_def known_action_def)

theorem evaluate_strongest_rule_witness:
  "evaluate (\<lambda>_. Some ''/home/u'') policy_defaults ''src/app/server.pem'' [] =
    (let vs = verdict_of ` r_action ` set (applicable (\<lambda>_. Some ''/home/u'') policy_defaults ''src/app/server.pem'' [])
     in if vs = {} then default_action_for [] else verdict_name (Max vs))"
  by (rule evaluate_strongest_rule [OF policy_ok_defaults])

text \<open>A pattern that ends in \<open>/**\<close> over a directory free of glob characters matches a resource
  exactly when the components of the directory occur consecutively among those of the resource.\<close>

theorem directory_pattern_matches_subpath:
  assumes "normalise_path homes pattern = dirname @ ''/**''" and "glob_free dirname"
  shows "path_matches homes pattern resource \<longleftrightarrow>
         sublist (parts_of dirname) (parts_of (normalise_path homes resource))"
  using assms by (rule path_matches_dir)

lemma ssh_pattern:
  "normalise_path (\<lambda>_. Some ''/home/u/'') ''~/.ssh/**'' = ''home/u/.ssh'' @ ''/**''"
  "glob_free ''home/u/.ssh''"
  by (simp_all add: normalise_path_def expand_home_def Let_def rstrip_chars_def strip_chars_def
      replace_char_def glob_free_def)

theorem directory_pattern_matches_subpath_witness:
  "path_matches (\<lambda>_. Some ''/home/u/'') ''~/.ssh/**'' ''/backup/home/u/.ssh/id'' \<longleftrightarrow>
     sublist (parts_of ''home/u/.ssh'')
       (parts_of (normalise_path (\<lambda>_. Some ''/home/u/'') ''/backup/home/u/.ssh/id''))"
  by (rule directory_pattern_matches_subpath [OF ssh_pattern])

text \<open>C2: a saved policy is loaded back unchanged.\<close>

theorem cache_round_trip:
  assumes "ascii_policy p" and "\<And>x. ascii_str (sha256 x)"
  shows "bindE (cache_save sha256 path p d) (cache_load sha256 path) = Inr p"
  using assms by (simp add: cache_load_saved)

theorem cache_round_trip_witness:
  "bindE (cache_save (\<lambda>_. ''00'') ''p.json'' policy_defaults Map.empty) (cache_load (\<lambda>_. ''00'') ''p.json'') =
     Inr policy_defaults"
  by (rule cache_round_trip)
    (simp_all add: ascii_policy_def policy_defaults_def ascii_str_def is_ascii_def)

text \<open>C3: when no other payload collides with the rules of \<open>p\<close> under the hash, a cache file that
  loads and carries the checksum of \<open>p\<close> holds the rules of \<open>p\<close> (in some order) and decides every
  resource as \<open>p\<close> does.\<close>

theorem cache_integrity:
  assumes "ascii_policy p" and "policy_ok p"
    and "\<And>x. sha256 x = sha256 (rules_payload p) \<Longrightarrow> x = rules_payload p"
    and "d path = Some content" and "loads content = Some (JObj kvs)" and "wf_json (JObj kvs)"
    and "dict_get kvs ''checksum'' = Some (JStr (sha256 (rules_payload p)))"
    and "is_list (dict_get_or kvs ''rules'' (JArr []))"
    and "cache_load sha256 path d = Inr q"
  shows "mset (lp_rules q) = mset (lp_rules p) \<and> evaluate homes q res cls = evaluate homes p res cls"
proof -
  from assms(9) obtain raw items where i: "json_get_or (JObj kvs) ''rules'' (JArr []) = Inr raw"
      "json_iter raw = Inr items" "mapE rule_of_cache items = Inr (lp_rules q)"
      "dict_get kvs ''checksum'' = Some (JStr (sha256 (dumps_sorted (JArr (sort_key fields_of items)))))"
    by (rule cache_loadE) (use assms(4,5) in auto)
  have "raw = JArr items" using i(1,2) assms(8) by (cases raw) auto
  then have "wf_json (JArr items)"
    using i(1) assms(6) by (fastforce simp: dict_get_or_def list_all_iff split: option.splits dest: dict_get_mem)
  moreover have "dumps_sorted (JArr (sort_key fields_of items)) = rules_payload p"
    using i(4) assms(3,7) by simp
  ultimately have "mset (map fields_of items) = mset (map fields_of (map rule_json (lp_rules p)))"
    using checksum_payload_inj assms(1) by blast
  then have "image_mset (\<lambda>r. fields_of (rule_json r)) (mset (lp_rules q)) =
      image_mset (\<lambda>r. fields_of (rule_json r)) (mset (lp_rules p))"
    by (simp add: mapE_rule_of_cache_fields [OF i(3)] multiset.map_comp comp_def)
  then have m: "mset (lp_rules q) = mset (lp_rules p)"
    by (metis inj_fields multiset.inj_map_strong inj_def)
  then have s: "set (lp_rules q) = set (lp_rules p)" by (rule mset_eq_setD)
  then have "policy_ok q" using assms(2) by (simp add: policy_ok_def list_all_iff)
  with m s assms(2) show ?thesis by (simp add: evaluate_set_cong [of q p])
qed

text \<open>A hash under which the payload of the default policy has no second preimage.\<close>

definition sample_hash :: "string \<Rightarrow> string" where
  "sample_hash x = (if x = rules_payload policy_defaults then ''1'' else ''0'')"

lemma ascii_defaults: "ascii_policy policy_defaults" "ascii_str (sample_hash x)"
  by (simp_all add: ascii_policy_def policy_defaults_def ascii_str_def is_ascii_def sample_hash_def)

theorem cache_integrity_witness:
  "let k = sample_hash (rules_payload policy_defaults);
       d = write_text Map.empty ''p.json'' (dumps_indent (cache_document policy_defaults k))
   in cache_load sample_hash ''p.json'' d = Inr policy_defaults \<and>
      evaluate (\<lambda>_. None) policy_defaults ''.env'' [] = evaluate (\<lambda>_. None) policy_defaults ''.env'' []"
proof -
  let ?k = "sample_hash (rules_payload policy_defaults)"
  let ?doc = "cache_document policy_defaults ?k"
  let ?d = "write_text Map.empty ''p.json'' (dumps_indent ?doc)"
  let ?kvs = "[(''version'', JStr (lp_version policy_defaults)), (''checksum'', JStr ?k),
           (''rules'', JArr (map rule_json (lp_rules policy_defaults)))]"
  have doc: "?doc = JObj ?kvs" by (simp add: cache_document_def)
  have wf: "wf_json (JObj ?kvs)"
    unfolding doc [symmetric] by (rule wf_cache_document [OF ascii_defaults])
  have inj: "sample_hash x = ?k \<Longrightarrow> x = rules_payload policy_defaults" for x
    by (simp add: sample_hash_def split: if_splits)
  have load: "cache_load sample_hash ''p.json'' ?d = Inr policy_defaults"
    using cache_load_saved [of policy_defaults sample_hash "''p.json''" Map.empty] ascii_defaults
    by (simp add: cache_save_eq)
  have stored: "?d ''p.json'' = Some (dumps_indent ?doc)" by (simp add: write_text_def)
  have "loads (dumps_indent ?doc) = Some (JObj ?kvs)"
    unfolding doc by (rule loads_dumps_indent [OF wf])
  note C = cache_integrity [OF ascii_defaults(1) policy_ok_defaults inj stored this wf _ _ load]
  have "evaluate (\<lambda>_. None) policy_defaults ''.env'' [] = evaluate (\<lambda>_. None) policy_defaults ''.env'' []"
    by (rule C [THEN conjunct2]) (simp_all add: dict_get_def dict_get_or_def)
  with load show ?thesis by (simp add: Let_def)
qed

end
