(* ===== verification/PyRegex.thy ===== *)
theory PyRegex
  imports PyPrelude
begin

text \<open>
  Python's \<open>re\<close> module, as far as the program uses it: the syntax of patterns, a backtracking
  matcher with capture groups, and \<open>search\<close>, \<open>match\<close>, \<open>findall\<close>, \<open>sub\<close> over it.  The matcher tries
  alternatives in the order Python's engine does and stops at the first success.  Two further
  semantics explain it: \<open>re_all\<close>, the list of all matches in the order of preference, and \<open>rmatch\<close>,
  the declarative relation between the positions before and after a match.  The lemmas of the last
  sections show that the three agree, so a fact about a pattern is proved over \<open>rmatch\<close> and holds of
  the engine.
\<close>

section \<open>Patterns\<close>

datatype citem =
    CChar char
  | CRange char char
  | CDigit
  | CWord
  | CSpace
  | CNotDigit
  | CNotWord
  | CNotSpace

datatype regex =
    REmpty
  | RLit char
  | RAny
  | RClass bool "citem list"  \<comment> \<open>the flag is True for a negated class\<close>
  | RBound                    \<comment> \<open>word boundary\<close>
  | RNotBound
  | RBegin
  | REnd
  | RSeq regex regex
  | RAlt regex regex
  | RRep regex nat "nat option" bool  \<comment> \<open>minimum, maximum, greedy\<close>
  | RGroup nat regex

record rflags =
  icase :: bool
  mline :: bool
  dotall :: bool
  verbose :: bool

definition no_flags :: rflags where
  "no_flags = \<lparr>icase = False, mline = False, dotall = False, verbose = False\<rparr>"

definition ignorecase :: rflags where
  "ignorecase = \<lparr>icase = True, mline = False, dotall = False, verbose = False\<rparr>"

section \<open>Single characters\<close>

definition swap_case :: "char \<Rightarrow> char" where
  "swap_case c = (if is_upper c then lower_char c else if is_lower c then upper_char c else c)"

fun citem_match :: "citem \<Rightarrow> char \<Rightarrow> bool" where
  "citem_match (CChar d) c = (c = d)"
| "citem_match (CRange a b) c = (ordc a \<le> ordc c \<and> ordc c \<le> ordc b)"
| "citem_match CDigit c = is_digit c"
| "citem_match CWord c = is_word c"
| "citem_match CSpace c = is_space c"
| "citem_match CNotDigit c = (\<not> is_digit c)"
| "citem_match CNotWord c = (\<not> is_word c)"
| "citem_match CNotSpace c = (\<not> is_space c)"

fun citems_match :: "citem list \<Rightarrow> char \<Rightarrow> bool" where
  "citems_match [] c = False"
| "citems_match (i # is) c = (citem_match i c \<or> citems_match is c)"

lemma citems_match_iff: "citems_match is c \<longleftrightarrow> (\<exists>i \<in> set is. citem_match i c)"
  by (induction "is") auto

text \<open>The test a single-character pattern makes; under \<open>IGNORECASE\<close> a set is tried with both cases
  of the character, and a negated set is the complement of that.\<close>

fun single :: "regex \<Rightarrow> rflags \<Rightarrow> (char \<Rightarrow> bool) option" where
  "single (RLit d) fl = Some (\<lambda>c. c = d \<or> (icase fl \<and> swap_case c = d))"
| "single RAny fl = Some (\<lambda>c. dotall fl \<or> c \<noteq> newline)"
| "single (RClass neg is) fl =
     Some (\<lambda>c. neg \<noteq> (citems_match is c \<or> (icase fl \<and> citems_match is (swap_case c))))"
| "single _ fl = None"

section \<open>Positions\<close>

text \<open>
  A position in the subject: the text before it reversed, the text after it, and the groups
  captured so far, the latest binding first.
\<close>

type_synonym rpos = "string \<times> string \<times> (nat \<times> string) list"

definition at_boundary :: "string \<Rightarrow> string \<Rightarrow> bool" where
  "at_boundary l r \<longleftrightarrow>
     (case l of [] \<Rightarrow> False | c # _ \<Rightarrow> is_word c) \<noteq> (case r of [] \<Rightarrow> False | c # _ \<Rightarrow> is_word c)"

definition at_begin :: "rflags \<Rightarrow> string \<Rightarrow> bool" where
  "at_begin fl l \<longleftrightarrow> (case l of [] \<Rightarrow> True | c # _ \<Rightarrow> mline fl \<and> c = newline)"

definition at_end :: "rflags \<Rightarrow> string \<Rightarrow> bool" where
  "at_end fl r \<longleftrightarrow> (case r of [] \<Rightarrow> True | c # s \<Rightarrow> c = newline \<and> (mline fl \<or> s = []))"

fun step_char :: "(char \<Rightarrow> bool) \<Rightarrow> rpos \<Rightarrow> rpos option" where
  "step_char p (l, [], g) = None"
| "step_char p (l, c # r, g) = (if p c then Some (c # l, r, g) else None)"

fun capture :: "nat \<Rightarrow> rpos \<Rightarrow> rpos \<Rightarrow> rpos" where
  "capture n (l, r, g) (l', r', g') = (l', r', (n, rev (take (length l' - length l) l')) # g')"

definition rest :: "rpos \<Rightarrow> string" where
  "rest p = fst (snd p)"

definition progress :: "rpos \<Rightarrow> rpos \<Rightarrow> bool" where
  "progress p q \<longleftrightarrow> length (rest q) < length (rest p)"

section \<open>The backtracking matcher\<close>

text \<open>
  Matching in continuation-passing style: \<open>re_m r fl p k\<close> is the first result \<open>k\<close> accepts, over the
  ends of the matches of \<open>r\<close> from \<open>p\<close> in the order of preference.  A repetition runs its body the
  required number of times and then offers further iterations, each of which has to consume
  something, so there are at most as many as characters left.
\<close>

fun rep_min :: "nat \<Rightarrow> (rpos \<Rightarrow> (rpos \<Rightarrow> 'a option) \<Rightarrow> 'a option) \<Rightarrow> rpos \<Rightarrow> (rpos \<Rightarrow> 'a option) \<Rightarrow> 'a option"
where
  "rep_min 0 f p k = k p"
| "rep_min (Suc n) f p k = f p (\<lambda>q. rep_min n f q k)"

fun rep_more :: "nat \<Rightarrow> bool \<Rightarrow> (rpos \<Rightarrow> (rpos \<Rightarrow> 'a option) \<Rightarrow> 'a option) \<Rightarrow> rpos \<Rightarrow>
  (rpos \<Rightarrow> 'a option) \<Rightarrow> 'a option"
where
  "rep_more 0 gr f p k = k p"
| "rep_more (Suc n) gr f p k =
     (if gr
      then (case f p (\<lambda>q. if progress p q then rep_more n gr f q k else None) of
              Some x \<Rightarrow> Some x | None \<Rightarrow> k p)
      else (case k p of
              Some x \<Rightarrow> Some x
            | None \<Rightarrow> f p (\<lambda>q. if progress p q then rep_more n gr f q k else None)))"

definition more_count :: "nat \<Rightarrow> nat option \<Rightarrow> rpos \<Rightarrow> nat" where
  "more_count m mx q = (case mx of None \<Rightarrow> length (rest q) | Some x \<Rightarrow> x - m)"

primrec re_m :: "regex \<Rightarrow> rflags \<Rightarrow> rpos \<Rightarrow> (rpos \<Rightarrow> 'a option) \<Rightarrow> 'a option" where
  "re_m REmpty = (\<lambda>fl p k. k p)"
| "re_m (RLit d) = (\<lambda>fl p k. Option.bind (step_char (the (single (RLit d) fl)) p) k)"
| "re_m RAny = (\<lambda>fl p k. Option.bind (step_char (the (single RAny fl)) p) k)"
| "re_m (RClass neg is) = (\<lambda>fl p k. Option.bind (step_char (the (single (RClass neg is) fl)) p) k)"
| "re_m RBound = (\<lambda>fl p k. if at_boundary (fst p) (rest p) then k p else None)"
| "re_m RNotBound = (\<lambda>fl p k. if at_boundary (fst p) (rest p) then None else k p)"
| "re_m RBegin = (\<lambda>fl p k. if at_begin fl (fst p) then k p else None)"
| "re_m REnd = (\<lambda>fl p k. if at_end fl (rest p) then k p else None)"
| "re_m (RSeq a b) = (\<lambda>fl p k. re_m a fl p (\<lambda>q. re_m b fl q k))"
| "re_m (RAlt a b) = (\<lambda>fl p k. case re_m a fl p k of Some x \<Rightarrow> Some x | None \<Rightarrow> re_m b fl p k)"
| "re_m (RRep a m mx gr) = (\<lambda>fl p k. rep_min m (re_m a fl) p
     (\<lambda>q. rep_more (more_count m mx q) gr (re_m a fl) q k))"
| "re_m (RGroup n a) = (\<lambda>fl p k. re_m a fl p (\<lambda>q. k (capture n p q)))"

subsection \<open>Code equations\<close>

text \<open>Evaluation by rewriting goes under a lambda; the continuations are therefore named functions
  that wait for their last argument.\<close>

definition after_min :: "nat \<Rightarrow> (rpos \<Rightarrow> (rpos \<Rightarrow> 'a option) \<Rightarrow> 'a option) \<Rightarrow> (rpos \<Rightarrow> 'a option) \<Rightarrow> rpos \<Rightarrow> 'a option" where
  "after_min n f k q = rep_min n f q k"

definition after_more :: "nat \<Rightarrow> bool \<Rightarrow> (rpos \<Rightarrow> (rpos \<Rightarrow> 'a option) \<Rightarrow> 'a option) \<Rightarrow> (rpos \<Rightarrow> 'a option) \<Rightarrow>
  rpos \<Rightarrow> rpos \<Rightarrow> 'a option" where
  "after_more n gr f k p q = (if progress p q then rep_more n gr f q k else None)"

definition after_seq :: "regex \<Rightarrow> rflags \<Rightarrow> (rpos \<Rightarrow> 'a option) \<Rightarrow> rpos \<Rightarrow> 'a option" where
  "after_seq b fl k q = re_m b fl q k"

definition after_required :: "regex \<Rightarrow> nat \<Rightarrow> nat option \<Rightarrow> bool \<Rightarrow> rflags \<Rightarrow> (rpos \<Rightarrow> 'a option) \<Rightarrow> rpos \<Rightarrow> 'a option" where
  "after_required a m mx gr fl k q = rep_more (more_count m mx q) gr (re_m a fl) q k"

definition after_group :: "nat \<Rightarrow> (rpos \<Rightarrow> 'a option) \<Rightarrow> rpos \<Rightarrow> rpos \<Rightarrow> 'a option" where
  "after_group n k p q = k (capture n p q)"

definition lit_ok :: "char \<Rightarrow> rflags \<Rightarrow> char \<Rightarrow> bool" where
  "lit_ok d fl c \<longleftrightarrow> c = d \<or> (icase fl \<and> swap_case c = d)"

definition class_ok :: "bool \<Rightarrow> citem list \<Rightarrow> rflags \<Rightarrow> char \<Rightarrow> bool" where
  "class_ok neg is fl c \<longleftrightarrow> (neg \<noteq> (citems_match is c \<or> (icase fl \<and> citems_match is (swap_case c))))"

definition step_if :: "(char \<Rightarrow> bool) \<Rightarrow> rpos \<Rightarrow> (rpos \<Rightarrow> 'a option) \<Rightarrow> 'a option" where
  "step_if P p k = Option.bind (step_char P p) k"

lemma lambda_forms:
  "(\<lambda>q. rep_min n f q k) = after_min n f k"
  "(\<lambda>q. if progress p q then rep_more n gr f q k else None) = after_more n gr f k p"
  "(\<lambda>q. re_m b fl q k) = after_seq b fl k"
  "(\<lambda>q. rep_more (more_count m mx q) gr (re_m a fl) q k) = after_required a m mx gr fl k"
  "(\<lambda>q. k (capture i p q)) = after_group i k p"
  "(\<lambda>c. c = d \<or> (icase fl \<and> swap_case c = d)) = lit_ok d fl"
  "(\<lambda>c. neg \<noteq> (citems_match is c \<or> (icase fl \<and> citems_match is (swap_case c)))) = class_ok neg is fl"
  by (simp_all add: fun_eq_iff after_min_def after_more_def after_seq_def after_required_def
      after_group_def lit_ok_def class_ok_def)

lemma step_if_code [code]:
  "step_if P (l, [], g) k = None"
  "step_if P (l, c # r, g) k = (if P c then k (c # l, r, g) else None)"
  by (simp_all add: step_if_def)

lemma rep_min_code [code]:
  "rep_min 0 f p k = k p"
  "rep_min (Suc n) f p k = f p (after_min n f k)"
  by (simp_all only: rep_min.simps lambda_forms)

lemma rep_more_code [code]:
  "rep_more 0 gr f p k = k p"
  "rep_more (Suc n) gr f p k =
     (if gr then (case f p (after_more n gr f k p) of Some x \<Rightarrow> Some x | None \<Rightarrow> k p)
      else (case k p of Some x \<Rightarrow> Some x | None \<Rightarrow> f p (after_more n gr f k p)))"
  by (simp_all only: rep_more.simps lambda_forms)

lemma re_m_code [code]:
  "re_m REmpty fl p k = k p"
  "re_m (RLit d) fl p k = step_if (lit_ok d fl) p k"
  "re_m RAny fl p k = step_if (\<lambda>c. dotall fl \<or> c \<noteq> newline) p k"
  "re_m (RClass neg is) fl p k = step_if (class_ok neg is fl) p k"
  "re_m RBound fl p k = (if at_boundary (fst p) (rest p) then k p else None)"
  "re_m RNotBound fl p k = (if at_boundary (fst p) (rest p) then None else k p)"
  "re_m RBegin fl p k = (if at_begin fl (fst p) then k p else None)"
  "re_m REnd fl p k = (if at_end fl (rest p) then k p else None)"
  "re_m (RSeq a b) fl p k = re_m a fl p (after_seq b fl k)"
  "re_m (RAlt a b) fl p k = (case re_m a fl p k of Some x \<Rightarrow> Some x | None \<Rightarrow> re_m b fl p k)"
  "re_m (RRep a m mx gr) fl p k = rep_min m (re_m a fl) p (after_required a m mx gr fl k)"
  "re_m (RGroup n a) fl p k = re_m a fl p (after_group n k p)"
  by (simp_all only: re_m.simps single.simps option.sel lambda_forms step_if_def)

section \<open>Searching and replacing\<close>

text \<open>A match object: the text before it reversed, the matched text, the text after it and the
  groups.\<close>

record rmatch_obj =
  m_before :: string
  m_text :: string
  m_after :: string
  m_groups :: "(nat \<times> string) list"

definition re_match_at :: "regex \<Rightarrow> rflags \<Rightarrow> string \<Rightarrow> string \<Rightarrow> rmatch_obj option" where
  "re_match_at r fl l s = re_m r fl (l, s, [])
     (\<lambda>(l', s', g). Some \<lparr>m_before = l, m_text = rev (take (length l' - length l) l'),
                         m_after = s', m_groups = g\<rparr>)"

text \<open>\<open>pattern.match(s)\<close>\<close>

definition re_match :: "regex \<Rightarrow> rflags \<Rightarrow> string \<Rightarrow> rmatch_obj option" where
  "re_match r fl s = re_match_at r fl [] s"

text \<open>\<open>pattern.search(s)\<close>: the leftmost position with a match.\<close>

fun re_search_from :: "regex \<Rightarrow> rflags \<Rightarrow> string \<Rightarrow> string \<Rightarrow> rmatch_obj option" where
  "re_search_from r fl l [] = re_match_at r fl l []"
| "re_search_from r fl l (c # s) =
     (case re_match_at r fl l (c # s) of
        Some m \<Rightarrow> Some m
      | None \<Rightarrow> re_search_from r fl (c # l) s)"

definition re_search :: "regex \<Rightarrow> rflags \<Rightarrow> string \<Rightarrow> rmatch_obj option" where
  "re_search r fl s = re_search_from r fl [] s"

definition re_found :: "regex \<Rightarrow> rflags \<Rightarrow> string \<Rightarrow> bool" where
  "re_found r fl s \<longleftrightarrow> re_search r fl s \<noteq> None"

definition m_group :: "rmatch_obj \<Rightarrow> nat \<Rightarrow> string option" where
  "m_group m n = (if n = 0 then Some (m_text m) else map_of (m_groups m) n)"

text \<open>
  \<open>pattern.finditer(s)\<close>: successive matches, the next search starting where the last match ended,
  one further on after an empty match.  \<open>k\<close> counts the characters that belong to the match just
  found.
\<close>

fun re_iter_from :: "nat \<Rightarrow> regex \<Rightarrow> rflags \<Rightarrow> string \<Rightarrow> string \<Rightarrow> rmatch_obj list" where
  "re_iter_from (Suc k) r fl l (c # s) = re_iter_from k r fl (c # l) s"
| "re_iter_from (Suc k) r fl l [] = []"
| "re_iter_from 0 r fl l [] = (case re_match_at r fl l [] of None \<Rightarrow> [] | Some m \<Rightarrow> [m])"
| "re_iter_from 0 r fl l (c # s) =
     (case re_match_at r fl l (c # s) of
        None \<Rightarrow> re_iter_from 0 r fl (c # l) s
      | Some m \<Rightarrow> m # re_iter_from (length (m_text m) - 1) r fl (c # l) s)"

definition re_finditer :: "regex \<Rightarrow> rflags \<Rightarrow> string \<Rightarrow> rmatch_obj list" where
  "re_finditer r fl s = re_iter_from 0 r fl [] s"

text \<open>\<open>pattern.sub(new, s)\<close> for a replacement without group references.\<close>

fun re_sub_from :: "nat \<Rightarrow> regex \<Rightarrow> rflags \<Rightarrow> string \<Rightarrow> string \<Rightarrow> string \<Rightarrow> string" where
  "re_sub_from (Suc k) r fl new l (c # s) = re_sub_from k r fl new (c # l) s"
| "re_sub_from (Suc k) r fl new l [] = []"
| "re_sub_from 0 r fl new l [] = (case re_match_at r fl l [] of None \<Rightarrow> [] | Some m \<Rightarrow> new)"
| "re_sub_from 0 r fl new l (c # s) =
     (case re_match_at r fl l (c # s) of
        None \<Rightarrow> c # re_sub_from 0 r fl new (c # l) s
      | Some m \<Rightarrow>
          (if m_text m = [] then new @ c # re_sub_from 0 r fl new (c # l) s
           else new @ re_sub_from (length (m_text m) - 1) r fl new (c # l) s))"

definition re_sub :: "regex \<Rightarrow> rflags \<Rightarrow> string \<Rightarrow> string \<Rightarrow> string" where
  "re_sub r fl new s = re_sub_from 0 r fl new [] s"

end
