(* ===== verification/PyRegexSyntax.thy ===== *)
theory PyRegexSyntax
  imports PyRegex
begin

text \<open>
  The concrete syntax of regular expressions: a parser from the text of a pattern to \<open>regex\<close>,
  following the loop of Python's \<open>re\<close> parser (items are collected left to right and a quantifier
  applies to the last one).  Lookaround, back-references, named groups and inline flags are not
  part of the syntax and give \<open>None\<close>, as malformed patterns do.  An Isabelle string literal cannot
  hold a backslash, so the patterns of the program are written with a backquote in its place and
  read through \<open>raw\<close>.
\<close>

definition raw :: "string \<Rightarrow> string" where
  "raw = replace_char CHR 0x60 backslash"

datatype ikind = Plain | Anchor | Repeat

definition digit_val :: "char \<Rightarrow> nat" where
  "digit_val c = ordc c - 48"

lemma digit_val_code [code]:
  "digit_val (Char b0 b1 b2 b3 b4 b5 b6 b7) =
     (if \<not> b7 \<and> \<not> b6 \<and> b5 \<and> b4
      then (if b3 then 8 else 0) + ((if b2 then 4 else 0) + ((if b1 then 2 else 0) + (if b0 then 1 else 0)))
      else ordc (Char b0 b1 b2 b3 b4 b5 b6 b7) - 48)"
  by (simp add: digit_val_def ordc_Char)

definition hex_val :: "char \<Rightarrow> nat option" where
  "hex_val c = (if is_digit c then Some (digit_val c)
                else if 65 \<le> ordc c \<and> ordc c \<le> 70 then Some (ordc c - 55)
                else if 97 \<le> ordc c \<and> ordc c \<le> 102 then Some (ordc c - 87)
                else None)"

text \<open>A run of decimal digits: its value, whether there was any, and what follows.\<close>

fun take_num :: "nat \<Rightarrow> bool \<Rightarrow> string \<Rightarrow> nat \<times> bool \<times> string" where
  "take_num acc seen [] = (acc, seen, [])"
| "take_num acc seen (c # s) =
     (if is_digit c then take_num (10 * acc + digit_val c) True s else (acc, seen, c # s))"

text \<open>\<open>{m}\<close>, \<open>{m,}\<close>, \<open>{,n}\<close> and \<open>{m,n}\<close> after the brace; \<open>None\<close> when the brace is a literal.\<close>

definition parse_braces :: "string \<Rightarrow> (nat \<times> nat option \<times> string) option" where
  "parse_braces s =
     (case take_num 0 False s of (lo, has_lo, s1) \<Rightarrow>
       (case s1 of
          [] \<Rightarrow> None
        | c # s2 \<Rightarrow>
            if c = CHR ''}'' then (if has_lo then Some (lo, Some lo, s2) else None)
            else if c = CHR '','' then
              (case take_num 0 False s2 of (hi, has_hi, s3) \<Rightarrow>
                (case s3 of
                   [] \<Rightarrow> None
                 | d # s4 \<Rightarrow>
                     if d = CHR ''}'' then Some (lo, if has_hi then Some hi else None, s4) else None))
            else None))"

text \<open>The escape after a backslash, inside or outside a class.\<close>

datatype esc = EItem citem | EAtom regex ikind

definition parse_escape :: "bool \<Rightarrow> string \<Rightarrow> (esc \<times> string) option" where
  "parse_escape in_class s =
     (case s of
        [] \<Rightarrow> None
      | c # t \<Rightarrow>
          if c = CHR ''d'' then Some (EItem CDigit, t)
          else if c = CHR ''w'' then Some (EItem CWord, t)
          else if c = CHR ''s'' then Some (EItem CSpace, t)
          else if c = CHR ''D'' then Some (EItem CNotDigit, t)
          else if c = CHR ''W'' then Some (EItem CNotWord, t)
          else if c = CHR ''S'' then Some (EItem CNotSpace, t)
          else if c = CHR ''n'' then Some (EItem (CChar newline), t)
          else if c = CHR ''t'' then Some (EItem (CChar CHR 0x09), t)
          else if c = CHR ''r'' then Some (EItem (CChar CHR 0x0D), t)
          else if c = CHR ''f'' then Some (EItem (CChar CHR 0x0C), t)
          else if c = CHR ''v'' then Some (EItem (CChar CHR 0x0B), t)
          else if c = CHR ''x'' then
            (case t of
               a # b # u \<Rightarrow>
                 (case (hex_val a, hex_val b) of
                    (Some x, Some y) \<Rightarrow> Some (EItem (CChar (char_of (16 * x + y))), u)
                  | _ \<Rightarrow> None)
             | _ \<Rightarrow> None)
          else if c = CHR ''b'' then
            (if in_class then Some (EItem (CChar CHR 0x08), t) else Some (EAtom RBound Anchor, t))
          else if c = CHR ''B'' \<and> \<not> in_class then Some (EAtom RNotBound Anchor, t)
          else if is_alpha c \<or> is_digit c then None
          else Some (EItem (CChar c), t))"

text \<open>The items of a class up to its closing bracket; the flag says whether an item was read, since
  a bracket in first place is a literal.\<close>

definition class_end :: "string \<Rightarrow> (citem \<times> string) option" where
  "class_end s =
     (case s of
        [] \<Rightarrow> None
      | c # t \<Rightarrow>
          if c = backslash then
            (case parse_escape True t of Some (EItem i, u) \<Rightarrow> Some (i, u) | _ \<Rightarrow> None)
          else Some (CChar c, t))"

definition class_item :: "string \<Rightarrow> (citem \<times> string) option" where
  "class_item s =
     (case class_end s of
        None \<Rightarrow> None
      | Some (i, u) \<Rightarrow>
          (case u of
             d # e # v \<Rightarrow>
               if d = CHR ''-'' \<and> e \<noteq> CHR '']'' then
                 (case (i, class_end (e # v)) of
                    (CChar a, Some (CChar b, w)) \<Rightarrow>
                      if ordc a \<le> ordc b then Some (CRange a b, w) else None
                  | _ \<Rightarrow> None)
               else Some (i, u)
           | _ \<Rightarrow> Some (i, u)))"

fun parse_class :: "nat \<Rightarrow> bool \<Rightarrow> string \<Rightarrow> (citem list \<times> string) option" where
  "parse_class 0 seen s = None"
| "parse_class (Suc n) seen s =
     (case s of
        [] \<Rightarrow> None
      | c # t \<Rightarrow>
          if c = CHR '']'' \<and> seen then Some ([], t)
          else
            (case class_item s of
               None \<Rightarrow> None
             | Some (i, u) \<Rightarrow> map_option (apfst (\<lambda>is. i # is)) (parse_class n True u)))"

text \<open>The items of a branch, latest first, as one pattern.\<close>

fun seq_of :: "(regex \<times> ikind) list \<Rightarrow> regex" where
  "seq_of [] = REmpty"
| "seq_of [(r, k)] = r"
| "seq_of ((r, k) # x # xs) = RSeq (seq_of (x # xs)) r"

definition atom_of_item :: "citem \<Rightarrow> regex" where
  "atom_of_item i = (case i of CChar c \<Rightarrow> RLit c | _ \<Rightarrow> RClass False [i])"

definition lazy_mark :: "string \<Rightarrow> bool \<times> string" where
  "lazy_mark s = (case s of c # t \<Rightarrow> if c = CHR ''?'' then (False, t) else (True, s) | [] \<Rightarrow> (True, s))"

definition add_repeat :: "nat \<Rightarrow> nat option \<Rightarrow> string \<Rightarrow> (regex \<times> ikind) list \<Rightarrow>
  ((regex \<times> ikind) list \<times> string) option" where
  "add_repeat m mx s its =
     (case its of
        (r, Plain) # rs \<Rightarrow>
          if (case mx of None \<Rightarrow> True | Some x \<Rightarrow> m \<le> x)
          then (case lazy_mark s of (gr, t) \<Rightarrow> Some ((RRep r m mx gr, Repeat) # rs, t))
          else None
      | _ \<Rightarrow> None)"

definition skip_comment :: "string \<Rightarrow> string" where
  "skip_comment s = drop 1 (dropWhile (\<lambda>c. c \<noteq> newline) s)"

text \<open>
  The parser.  Every call spends a unit of fuel; \<open>re_parse\<close> starts with more than twice the length
  of the pattern, and each round of the loop consumes a character.  Returned with a branch list are
  the next group number and the text after it.
\<close>

fun parse_alt :: "nat \<Rightarrow> bool \<Rightarrow> nat \<Rightarrow> string \<Rightarrow> (regex \<times> nat \<times> string) option"
and parse_seq :: "nat \<Rightarrow> bool \<Rightarrow> nat \<Rightarrow> (regex \<times> ikind) list \<Rightarrow> string \<Rightarrow> (regex \<times> nat \<times> string) option"
where
  "parse_alt 0 vb g s = None"
| "parse_alt (Suc n) vb g s =
     (case parse_seq n vb g [] s of
        None \<Rightarrow> None
      | Some (r, g', t) \<Rightarrow>
          (case t of
             c # u \<Rightarrow>
               if c = CHR ''|''
               then (case parse_alt n vb g' u of
                       None \<Rightarrow> None
                     | Some (r', g'', v) \<Rightarrow> Some (RAlt r r', g'', v))
               else Some (r, g', t)
           | [] \<Rightarrow> Some (r, g', t)))"
| "parse_seq 0 vb g its s = None"
| "parse_seq (Suc n) vb g its s =
     (case s of
        [] \<Rightarrow> Some (seq_of its, g, [])
      | c # t \<Rightarrow>
          if c = CHR ''|'' \<or> c = CHR '')'' then Some (seq_of its, g, s)
          else if vb \<and> is_space c then parse_seq n vb g its t
          else if vb \<and> c = CHR ''#'' then parse_seq n vb g its (skip_comment t)
          else if c = backslash then
            (case parse_escape False t of
               None \<Rightarrow> None
             | Some (EItem i, u) \<Rightarrow> parse_seq n vb g ((atom_of_item i, Plain) # its) u
             | Some (EAtom r k, u) \<Rightarrow> parse_seq n vb g ((r, k) # its) u)
          else if c = CHR ''['' then
            (let neg = (case t of d # u \<Rightarrow> d = CHR ''^'' | [] \<Rightarrow> False) in
             case parse_class n False (if neg then drop 1 t else t) of
               None \<Rightarrow> None
             | Some (cl, u) \<Rightarrow> parse_seq n vb g ((RClass neg cl, Plain) # its) u)
          else if c = CHR ''.'' then parse_seq n vb g ((RAny, Plain) # its) t
          else if c = CHR ''^'' then parse_seq n vb g ((RBegin, Anchor) # its) t
          else if c = CHR ''$'' then parse_seq n vb g ((REnd, Anchor) # its) t
          else if c = CHR ''('' then
            (case t of
               d # e # u \<Rightarrow>
                 if d = CHR ''?'' then
                   (if e = CHR '':'' then
                      (case parse_alt n vb g u of
                         Some (r, g', x # v) \<Rightarrow> parse_seq n vb g' ((r, Plain) # its) v
                       | _ \<Rightarrow> None)
                    else None)
                 else
                   (case parse_alt n vb (Suc g) t of
                      Some (r, g', x # v) \<Rightarrow> parse_seq n vb g' ((RGroup g r, Plain) # its) v
                    | _ \<Rightarrow> None)
             | _ \<Rightarrow>
                 (case parse_alt n vb (Suc g) t of
                    Some (r, g', x # v) \<Rightarrow> parse_seq n vb g' ((RGroup g r, Plain) # its) v
                  | _ \<Rightarrow> None))
          else if c = CHR ''*'' then
            (case add_repeat 0 None t its of None \<Rightarrow> None | Some (its', u) \<Rightarrow> parse_seq n vb g its' u)
          else if c = CHR ''+'' then
            (case add_repeat 1 None t its of None \<Rightarrow> None | Some (its', u) \<Rightarrow> parse_seq n vb g its' u)
          else if c = CHR ''?'' then
            (case add_repeat 0 (Some 1) t its of None \<Rightarrow> None | Some (its', u) \<Rightarrow> parse_seq n vb g its' u)
          else if c = CHR ''{'' then
            (case parse_braces t of
               None \<Rightarrow> parse_seq n vb g ((RLit c, Plain) # its) t
             | Some (m, mx, u) \<Rightarrow>
                 (case add_repeat m mx u its of
                    None \<Rightarrow> None
                  | Some (its', v) \<Rightarrow> parse_seq n vb g its' v))
          else parse_seq n vb g ((RLit c, Plain) # its) t)"

definition re_parse :: "rflags \<Rightarrow> string \<Rightarrow> regex option" where
  "re_parse fl s =
     (case parse_alt (2 * length s + 2) (verbose fl) 1 s of
        Some (r, g, []) \<Rightarrow> Some r
      | _ \<Rightarrow> None)"

text \<open>
  A compiled pattern.  \<open>re_const\<close> is the value of a module-level \<open>re.compile\<close>; the pattern that never
  matches stands for a text that does not parse, which the lemmas on the program's patterns
  exclude.
\<close>

record pattern =
  p_regex :: regex
  p_flags :: rflags

definition re_compile :: "rflags \<Rightarrow> string \<Rightarrow> pattern option" where
  "re_compile fl s = map_option (\<lambda>r. \<lparr>p_regex = r, p_flags = fl\<rparr>) (re_parse fl s)"

definition re_const :: "rflags \<Rightarrow> string \<Rightarrow> pattern" where
  "re_const fl s =
     (case re_compile fl s of
        Some p \<Rightarrow> p
      | None \<Rightarrow> \<lparr>p_regex = RClass False [], p_flags = fl\<rparr>)"

definition p_search :: "pattern \<Rightarrow> string \<Rightarrow> rmatch_obj option" where
  "p_search p s = re_search (p_regex p) (p_flags p) s"

definition p_found :: "pattern \<Rightarrow> string \<Rightarrow> bool" where
  "p_found p s = re_found (p_regex p) (p_flags p) s"

definition p_match :: "pattern \<Rightarrow> string \<Rightarrow> rmatch_obj option" where
  "p_match p s = re_match (p_regex p) (p_flags p) s"

definition p_count :: "pattern \<Rightarrow> string \<Rightarrow> nat" where
  "p_count p s = length (re_finditer (p_regex p) (p_flags p) s)"

definition p_sub :: "pattern \<Rightarrow> string \<Rightarrow> string \<Rightarrow> string" where
  "p_sub p new s = re_sub (p_regex p) (p_flags p) new s"

end
