(* ===== verification/PyRegexSound.thy ===== *)
theory PyRegexSound
  imports PyRegexSyntax
begin

text \<open>
  The agreement of the three semantics of patterns.  \<open>re_all\<close> lists the ends of all matches in the
  order of preference; the backtracking matcher returns the first its continuation accepts
  (\<open>re_m_eq_first_some\<close>).  \<open>rmatch\<close> says what a pattern matches without any order or bookkeeping; its
  ends are exactly those listed by \<open>re_all\<close> (\<open>re_all_iff_rmatch\<close>).  So a search succeeds exactly when
  the subject has a match somewhere (\<open>re_found_iff\<close>).
\<close>

section \<open>The list of matches\<close>

fun all_min :: "nat \<Rightarrow> (rpos \<Rightarrow> rpos list) \<Rightarrow> rpos \<Rightarrow> rpos list" where
  "all_min 0 f p = [p]"
| "all_min (Suc n) f p = concat (map (all_min n f) (f p))"

fun all_more :: "nat \<Rightarrow> bool \<Rightarrow> (rpos \<Rightarrow> rpos list) \<Rightarrow> rpos \<Rightarrow> rpos list" where
  "all_more 0 gr f p = [p]"
| "all_more (Suc n) gr f p =
     (let more = concat (map (\<lambda>q. if progress p q then all_more n gr f q else []) (f p))
      in if gr then more @ [p] else p # more)"

definition all_single :: "regex \<Rightarrow> rflags \<Rightarrow> rpos \<Rightarrow> rpos list" where
  "all_single r fl p = (case step_char (the (single r fl)) p of None \<Rightarrow> [] | Some q \<Rightarrow> [q])"

primrec re_all :: "regex \<Rightarrow> rflags \<Rightarrow> rpos \<Rightarrow> rpos list" where
  "re_all REmpty = (\<lambda>fl p. [p])"
| "re_all (RLit d) = all_single (RLit d)"
| "re_all RAny = all_single RAny"
| "re_all (RClass neg is) = all_single (RClass neg is)"
| "re_all RBound = (\<lambda>fl p. if at_boundary (fst p) (rest p) then [p] else [])"
| "re_all RNotBound = (\<lambda>fl p. if at_boundary (fst p) (rest p) then [] else [p])"
| "re_all RBegin = (\<lambda>fl p. if at_begin fl (fst p) then [p] else [])"
| "re_all REnd = (\<lambda>fl p. if at_end fl (rest p) then [p] else [])"
| "re_all (RSeq a b) = (\<lambda>fl p. concat (map (re_all b fl) (re_all a fl p)))"
| "re_all (RAlt a b) = (\<lambda>fl p. re_all a fl p @ re_all b fl p)"
| "re_all (RRep a m mx gr) = (\<lambda>fl p. concat (map (\<lambda>q. all_more (more_count m mx q) gr (re_all a fl) q)
     (all_min m (re_all a fl) p)))"
| "re_all (RGroup n a) = (\<lambda>fl p. map (capture n p) (re_all a fl p))"

section \<open>The matcher returns the first acceptable match\<close>

lemma first_some_if_guard:
  "first_some (\<lambda>q. first_some k (if P q then f q else [])) xs =
   first_some (\<lambda>q. if P q then first_some k (f q) else None) xs"
  by (induction xs) (auto split: option.splits)

lemma first_some_map: "first_some k (map f xs) = first_some (\<lambda>x. k (f x)) xs"
  by (induction xs) (auto split: option.splits)

lemma rep_min_first_some:
  assumes "\<And>p k. f p k = first_some k (g p)"
  shows "rep_min n f p k = first_some k (all_min n g p)"
  by (induction n arbitrary: p) (simp_all add: assms first_some_concat_map split: option.splits)

lemma rep_more_first_some:
  assumes "\<And>p k. f p k = first_some k (g p)"
  shows "rep_more n gr f p k = first_some k (all_more n gr g p)"
proof (induction n arbitrary: p)
  case 0
  show ?case by (simp split: option.splits)
next
  case (Suc n)
  have "f p (\<lambda>q. if progress p q then rep_more n gr f q k else None) =
      first_some k (concat (map (\<lambda>q. if progress p q then all_more n gr g q else []) (g p)))"
    by (simp add: assms first_some_concat_map first_some_if_guard Suc cong: if_cong)
  then show ?case
    by (auto simp: first_some_append Let_def split: option.splits)
qed

lemma bind_first_some:
  "Option.bind x k = first_some k (case x of None \<Rightarrow> [] | Some q \<Rightarrow> [q])"
  by (cases x) (auto split: option.splits)

lemmas first_some_simps = first_some_append first_some_concat_map first_some_map

theorem re_m_eq_first_some:
  fixes k :: "rpos \<Rightarrow> 'a option"
  shows "re_m r fl p k = first_some k (re_all r fl p)"
proof (induction r arbitrary: p k)
  case (RSeq a b)
  then show ?case by (simp add: first_some_concat_map)
next
  case (RAlt a b)
  then show ?case by (auto simp: first_some_append split: option.splits)
next
  case (RRep a m mx gr)
  have min: "rep_min m (re_m a fl) p k' = first_some k' (all_min m (re_all a fl) p)"
    for k' :: "rpos \<Rightarrow> 'a option"
    by (rule rep_min_first_some) (rule RRep)
  have more: "rep_more n gr (re_m a fl) q k = first_some k (all_more n gr (re_all a fl) q)" for n q
    by (rule rep_more_first_some) (rule RRep)
  show ?case by (simp add: min more first_some_concat_map)
next
  case (RGroup n a)
  then show ?case by (simp add: first_some_map)
qed (simp_all add: all_single_def bind_first_some split: option.splits)

section \<open>Declarative matching\<close>

text \<open>A span is the text before (reversed) and after a position.\<close>

type_synonym span = "string \<times> string"

inductive rmatch :: "rflags \<Rightarrow> regex \<Rightarrow> span \<Rightarrow> span \<Rightarrow> bool"
and riter :: "rflags \<Rightarrow> regex \<Rightarrow> nat \<Rightarrow> span \<Rightarrow> span \<Rightarrow> bool"
for fl :: rflags
where
  empty: "rmatch fl REmpty p p"
| char: "single r fl = Some P \<Longrightarrow> P c \<Longrightarrow> rmatch fl r (l, c # s) (c # l, s)"
| bound: "at_boundary l s \<Longrightarrow> rmatch fl RBound (l, s) (l, s)"
| notbound: "\<not> at_boundary l s \<Longrightarrow> rmatch fl RNotBound (l, s) (l, s)"
| at_start: "at_begin fl l \<Longrightarrow> rmatch fl RBegin (l, s) (l, s)"
| at_finish: "at_end fl s \<Longrightarrow> rmatch fl REnd (l, s) (l, s)"
| seq: "rmatch fl a p q \<Longrightarrow> rmatch fl b q t \<Longrightarrow> rmatch fl (RSeq a b) p t"
| alt1: "rmatch fl a p q \<Longrightarrow> rmatch fl (RAlt a b) p q"
| alt2: "rmatch fl b p q \<Longrightarrow> rmatch fl (RAlt a b) p q"
| rep: "riter fl a n p q \<Longrightarrow> m \<le> n \<Longrightarrow> (case mx of None \<Rightarrow> True | Some x \<Rightarrow> n \<le> max x m) \<Longrightarrow>
    rmatch fl (RRep a m mx gr) p q"
| group: "rmatch fl a p q \<Longrightarrow> rmatch fl (RGroup i a) p q"
| stop: "riter fl a 0 p p"
| more: "rmatch fl a p q \<Longrightarrow> riter fl a n q t \<Longrightarrow> riter fl a (Suc n) p t"

inductive_simps rmatch_simps:
  "rmatch fl REmpty p q"
  "rmatch fl RBound p q"
  "rmatch fl RNotBound p q"
  "rmatch fl RBegin p q"
  "rmatch fl REnd p q"
  "rmatch fl (RSeq a b) p q"
  "rmatch fl (RAlt a b) p q"
  "rmatch fl (RRep a m mx gr) p q"
  "rmatch fl (RGroup i a) p q"
  "rmatch fl (RLit c) p q"
  "rmatch fl RAny p q"
  "rmatch fl (RClass neg is) p q"

inductive_simps riter_simps:
  "riter fl a 0 p q"
  "riter fl a (Suc n) p q"

lemma rmatch_lit: "rmatch fl (RLit c) (l, c # s) (c # l, s)"
  by (rule rmatch_riter.char [where P = "the (single (RLit c) fl)"]) simp_all

lemma riter_class:
  "list_all (citems_match is) w \<Longrightarrow> riter fl (RClass False is) (length w) (l, w @ s) (rev w @ l, s)"
proof (induction w arbitrary: l)
  case Nil
  then show ?case by (simp add: rmatch_riter.stop)
next
  case (Cons c w)
  have "rmatch fl (RClass False is) (l, c # w @ s) (c # l, w @ s)"
    using Cons.prems by (intro rmatch_riter.char [where P = "the (single (RClass False is) fl)"]) simp_all
  moreover have "riter fl (RClass False is) (length w) (c # l, w @ s) (rev w @ c # l, s)"
    using Cons by simp
  ultimately show ?case by (simp add: rmatch_riter.more)
qed

lemma rmatch_class_rep:
  assumes "list_all (citems_match is) w" and "m \<le> length w"
    and "case mx of None \<Rightarrow> True | Some x \<Rightarrow> length w \<le> max x m"
  shows "rmatch fl (RRep (RClass False is) m mx gr) (l, w @ s) (rev w @ l, s)"
  using assms by (blast intro: rmatch_riter.rep riter_class)

lemma riter_append: "riter fl a m p q \<Longrightarrow> riter fl a n q t \<Longrightarrow> riter fl a (m + n) p t"
  by (induction m arbitrary: p) (auto simp: riter_simps)

lemma riter_split: "riter fl a (m + n) p t \<Longrightarrow> \<exists>q. riter fl a m p q \<and> riter fl a n q t"
  by (induction m arbitrary: p) (auto simp: riter_simps, blast)

text \<open>A match moves characters from the right of the position to its left and changes nothing else.\<close>

lemma rmatch_riter_subject:
  "rmatch fl r p q \<Longrightarrow> \<exists>w. fst q = rev w @ fst p \<and> snd p = w @ snd q"
  "riter fl r n p q \<Longrightarrow> \<exists>w. fst q = rev w @ fst p \<and> snd p = w @ snd q"
proof (induction rule: rmatch_riter.inducts)
  case (char r P c l s)
  show ?case by (rule exI [of _ "[c]"]) simp
next
  case (seq a p q b t)
  then obtain w w' where "fst q = rev w @ fst p" "snd p = w @ snd q"
    "fst t = rev w' @ fst q" "snd q = w' @ snd t" by blast
  then show ?case by (intro exI [of _ "w @ w'"]) simp
next
  case (more a p q n t)
  then obtain w w' where "fst q = rev w @ fst p" "snd p = w @ snd q"
    "fst t = rev w' @ fst q" "snd q = w' @ snd t" by blast
  then show ?case by (intro exI [of _ "w @ w'"]) simp
qed auto

lemma rmatch_no_progress:
  assumes "rmatch fl r p q" and "\<not> length (snd q) < length (snd p)"
  shows "q = p"
proof -
  obtain w where "fst q = rev w @ fst p" "snd p = w @ snd q"
    using rmatch_riter_subject(1) [OF assms(1)] by blast
  with assms(2) show ?thesis by (cases p; cases q) auto
qed

section \<open>The listed matches are the declared ones\<close>

definition span_of :: "rpos \<Rightarrow> span" where
  "span_of p = (fst p, rest p)"

definition attach :: "span \<Rightarrow> (nat \<times> string) list \<Rightarrow> rpos" where
  "attach s g = (fst s, snd s, g)"

lemma span_of_attach [simp]: "span_of (attach s g) = s"
  by (simp add: span_of_def attach_def rest_def)

lemma attach_span_of: "\<exists>g. p = attach (span_of p) g"
  by (cases p) (auto simp: attach_def span_of_def rest_def)

lemma span_of_capture [simp]: "span_of (capture n p q) = span_of q"
  by (cases p; cases q) (simp add: span_of_def rest_def)

lemma snd_span_of [simp]: "snd (span_of p) = rest p"
  by (simp add: span_of_def)

lemma rest_attach [simp]: "rest (attach s g) = snd s"
  by (simp add: rest_def attach_def)

text \<open>What the two directions say of a listing function for a pattern.\<close>

definition lists_only :: "rflags \<Rightarrow> regex \<Rightarrow> (rpos \<Rightarrow> rpos list) \<Rightarrow> bool" where
  "lists_only fl a f \<longleftrightarrow> (\<forall>p. \<forall>q \<in> set (f p). rmatch fl a (span_of p) (span_of q))"

definition lists_all :: "rflags \<Rightarrow> regex \<Rightarrow> (rpos \<Rightarrow> rpos list) \<Rightarrow> bool" where
  "lists_all fl a f \<longleftrightarrow>
     (\<forall>s t g. rmatch fl a s t \<longrightarrow> (\<exists>q \<in> set (f (attach s g)). span_of q = t))"

lemma lists_onlyI:
  "(\<And>p q. q \<in> set (f p) \<Longrightarrow> rmatch fl a (span_of p) (span_of q)) \<Longrightarrow> lists_only fl a f"
  unfolding lists_only_def by blast

lemma lists_onlyD: "lists_only fl a f \<Longrightarrow> q \<in> set (f p) \<Longrightarrow> rmatch fl a (span_of p) (span_of q)"
  unfolding lists_only_def by blast

lemma lists_allI:
  "(\<And>s t g. rmatch fl a s t \<Longrightarrow> \<exists>q \<in> set (f (attach s g)). span_of q = t) \<Longrightarrow> lists_all fl a f"
  unfolding lists_all_def by blast

lemma lists_allE:
  assumes "lists_all fl a f" and "rmatch fl a s t"
  obtains g' where "attach t g' \<in> set (f (attach s g))"
  using assms attach_span_of unfolding lists_all_def by metis

lemma all_min_only:
  "lists_only fl a f \<Longrightarrow> q \<in> set (all_min n f p) \<Longrightarrow> riter fl a n (span_of p) (span_of q)"
proof (induction n arbitrary: p)
  case 0
  then show ?case by (simp add: rmatch_riter.stop)
next
  case (Suc n)
  then obtain u where "u \<in> set (f p)" "q \<in> set (all_min n f u)" by auto
  with Suc show ?case by (blast intro: rmatch_riter.more lists_onlyD)
qed

lemma all_more_only:
  "lists_only fl a f \<Longrightarrow> q \<in> set (all_more k gr f p) \<Longrightarrow>
   \<exists>n \<le> k. riter fl a n (span_of p) (span_of q)"
proof (induction k arbitrary: p)
  case 0
  then show ?case by (auto intro: rmatch_riter.stop)
next
  case (Suc k)
  then consider "q = p" | u where "u \<in> set (f p)" "q \<in> set (all_more k gr f u)"
    by (auto simp: Let_def split: if_splits)
  then show ?case
  proof cases
    case 1
    then show ?thesis by (auto intro: rmatch_riter.stop)
  next
    case 2
    then obtain n where "n \<le> k" "riter fl a n (span_of u) (span_of q)"
      using Suc by blast
    moreover have "rmatch fl a (span_of p) (span_of u)"
      using lists_onlyD [OF Suc.prems(1) 2(1)] .
    ultimately show ?thesis by (intro exI [of _ "Suc n"]) (auto intro: rmatch_riter.more)
  qed
qed

lemma all_min_all:
  assumes f: "lists_all fl a f"
  shows "riter fl a n s t \<Longrightarrow> \<exists>q \<in> set (all_min n f (attach s g)). span_of q = t"
proof (induction n arbitrary: s g)
  case 0
  then show ?case by (auto simp: riter_simps)
next
  case (Suc n)
  then obtain u where u: "rmatch fl a s u" "riter fl a n u t" by (auto simp: riter_simps)
  obtain g' where "attach u g' \<in> set (f (attach s g))" by (rule lists_allE [OF f u(1)])
  with Suc.IH [OF u(2)] show ?case by fastforce
qed

lemma all_more_self: "p \<in> set (all_more k gr f p)"
  by (cases k) (auto simp: Let_def)

lemma all_more_all:
  assumes f: "lists_all fl a f"
  shows "riter fl a n s t \<Longrightarrow> n \<le> k \<or> length (snd s) \<le> k \<Longrightarrow>
    \<exists>q \<in> set (all_more k gr f (attach s g)). span_of q = t"
proof (induction n arbitrary: s g k)
  case 0
  then have "t = s" by (simp add: riter_simps)
  then show ?case by (intro bexI [of _ "attach s g"] all_more_self) simp
next
  case (Suc n)
  then obtain u where u: "rmatch fl a s u" "riter fl a n u t" by (auto simp: riter_simps)
  show ?case
  proof (cases "length (snd u) < length (snd s)")
    case False
    then have "u = s" using rmatch_no_progress [OF u(1)] by simp
    with u(2) have "riter fl a n s t" by simp
    moreover have "n \<le> k \<or> length (snd s) \<le> k" using Suc.prems(2) by auto
    ultimately show ?thesis by (rule Suc.IH)
  next
    case True
    then obtain k' where k: "k = Suc k'" using Suc.prems(2) by (cases k) auto
    obtain g' where p: "attach u g' \<in> set (f (attach s g))" by (rule lists_allE [OF f u(1)])
    have "n \<le> k' \<or> length (snd u) \<le> k'" using Suc.prems(2) True k by auto
    then obtain q where "q \<in> set (all_more k' gr f (attach u g'))" "span_of q = t"
      using Suc.IH [OF u(2)] by blast
    moreover have "progress (attach s g) (attach u g')" using True by (simp add: progress_def)
    ultimately show ?thesis using p k by (intro bexI [of _ q]) (auto simp: Let_def)
  qed
qed

lemma lists_only_single: "single r fl = Some P \<Longrightarrow> lists_only fl r (all_single r fl)"
proof (rule lists_onlyI)
  fix p q assume P: "single r fl = Some P" and q: "q \<in> set (all_single r fl p)"
  obtain l s g where p: "p = (l, s, g)" by (cases p)
  from P q obtain c s' where "s = c # s'" "P c" "q = (c # l, s', g)"
    by (cases s) (auto simp: p all_single_def split: if_splits)
  with P show "rmatch fl r (span_of p) (span_of q)"
    by (auto simp: p span_of_def rest_def intro: rmatch_riter.char)
qed

theorem re_all_only: "lists_only fl r (re_all r fl)"
proof (induction r)
  case (RSeq a b)
  show ?case
    by (rule lists_onlyI) (auto intro: rmatch_riter.seq lists_onlyD [OF RSeq(1)] lists_onlyD [OF RSeq(2)])
next
  case (RAlt a b)
  show ?case
    by (rule lists_onlyI)
      (auto intro: rmatch_riter.alt1 rmatch_riter.alt2 lists_onlyD [OF RAlt(1)] lists_onlyD [OF RAlt(2)])
next
  case (RRep a m mx gr)
  show ?case
  proof (rule lists_onlyI)
    fix p q assume "q \<in> set (re_all (RRep a m mx gr) fl p)"
    then obtain u where u: "u \<in> set (all_min m (re_all a fl) p)"
      and q: "q \<in> set (all_more (more_count m mx u) gr (re_all a fl) u)" by auto
    from all_more_only [OF RRep q] obtain n where n: "n \<le> more_count m mx u"
      "riter fl a n (span_of u) (span_of q)" by blast
    have "riter fl a (m + n) (span_of p) (span_of q)"
      using riter_append [OF all_min_only [OF RRep u] n(2)] .
    moreover have "case mx of None \<Rightarrow> True | Some x \<Rightarrow> m + n \<le> max x m"
      using n(1) by (auto simp: more_count_def split: option.splits)
    ultimately show "rmatch fl (RRep a m mx gr) (span_of p) (span_of q)"
      by (auto intro: rmatch_riter.rep)
  qed
next
  case (RGroup n a)
  show ?case
  proof (rule lists_onlyI)
    fix p q assume "q \<in> set (re_all (RGroup n a) fl p)"
    then obtain u where "u \<in> set (re_all a fl p)" and q: "q = capture n p u" by fastforce
    from lists_onlyD [OF RGroup this(1)] show "rmatch fl (RGroup n a) (span_of p) (span_of q)"
      unfolding q span_of_capture by (rule rmatch_riter.group)
  qed
qed (auto intro!: lists_only_single simp del: single.simps simp: single.simps [THEN eq_reflection],
     auto intro!: lists_onlyI simp: span_of_def intro: rmatch_riter.intros split: if_splits)

lemma lists_all_single: "single r fl = Some P \<Longrightarrow>
  (\<And>s t. rmatch fl r s t \<Longrightarrow> \<exists>c l u. s = (l, c # u) \<and> t = (c # l, u) \<and> P c) \<Longrightarrow>
  lists_all fl r (all_single r fl)"
  by (fastforce simp: lists_all_def all_single_def attach_def span_of_def rest_def)

theorem re_all_all: "lists_all fl r (re_all r fl)"
proof (induction r)
  case (RSeq a b)
  show ?case
  proof (rule lists_allI)
    fix s t g assume "rmatch fl (RSeq a b) s t"
    then obtain u where u: "rmatch fl a s u" "rmatch fl b u t" by (auto simp: rmatch_simps)
    obtain g' where p: "attach u g' \<in> set (re_all a fl (attach s g))"
      by (rule lists_allE [OF RSeq(1) u(1)])
    obtain g'' where "attach t g'' \<in> set (re_all b fl (attach u g'))"
      by (rule lists_allE [OF RSeq(2) u(2)])
    with p show "\<exists>q \<in> set (re_all (RSeq a b) fl (attach s g)). span_of q = t"
      by (intro bexI [of _ "attach t g''"]) auto
  qed
next
  case (RAlt a b)
  show ?case
  proof (rule lists_allI)
    fix s t g assume "rmatch fl (RAlt a b) s t"
    then consider "rmatch fl a s t" | "rmatch fl b s t" by (auto simp: rmatch_simps)
    then obtain g' where "attach t g' \<in> set (re_all (RAlt a b) fl (attach s g))"
      by cases (auto elim: lists_allE [OF RAlt(1), where g = g] lists_allE [OF RAlt(2), where g = g])
    then show "\<exists>q \<in> set (re_all (RAlt a b) fl (attach s g)). span_of q = t"
      by (intro bexI [of _ "attach t g'"]) auto
  qed
next
  case (RRep a m mx gr)
  show ?case
  proof (rule lists_allI)
    fix s t g assume "rmatch fl (RRep a m mx gr) s t"
    then obtain n where n: "riter fl a (m + n) s t"
      and mx: "case mx of None \<Rightarrow> True | Some x \<Rightarrow> m + n \<le> max x m"
      by (auto simp: rmatch_simps dest: le_Suc_ex)
    from riter_split [OF n] obtain u where u: "riter fl a m s u" "riter fl a n u t" by blast
    from all_min_all [OF RRep u(1)] obtain p where
      p: "p \<in> set (all_min m (re_all a fl) (attach s g))" "span_of p = u" by blast
    then obtain g' where g': "p = attach u g'" using attach_span_of [of p] by auto
    have "n \<le> more_count m mx p \<or> length (snd u) \<le> more_count m mx p"
      using mx g' by (auto simp: more_count_def split: option.splits)
    then obtain q where "q \<in> set (all_more (more_count m mx p) gr (re_all a fl) p)" "span_of q = t"
      using all_more_all [OF RRep u(2)] g' by blast
    with p(1) show "\<exists>q \<in> set (re_all (RRep a m mx gr) fl (attach s g)). span_of q = t" by auto
  qed
next
  case (RGroup n a)
  show ?case
  proof (rule lists_allI)
    fix s t g assume "rmatch fl (RGroup n a) s t"
    then have t: "rmatch fl a s t" by (simp add: rmatch_simps)
    obtain g' where "attach t g' \<in> set (re_all a fl (attach s g))"
      by (rule lists_allE [OF RGroup t])
    then show "\<exists>q \<in> set (re_all (RGroup n a) fl (attach s g)). span_of q = t"
      by (intro bexI [of _ "capture n (attach s g) (attach t g')"]) auto
  qed
qed (auto simp: rmatch_simps intro!: lists_all_single,
     auto intro!: lists_allI simp: rmatch_simps attach_def span_of_def rest_def)

theorem re_all_iff_rmatch:
  "(\<exists>q \<in> set (re_all r fl p). span_of q = t) \<longleftrightarrow> rmatch fl r (span_of p) t"
  using re_all_only [of fl r] re_all_all [of fl r] attach_span_of [of p]
  unfolding lists_only_def lists_all_def by metis

section \<open>Searching\<close>

lemma re_match_at_Some_iff:
  "re_match_at r fl l s \<noteq> None \<longleftrightarrow> (\<exists>t. rmatch fl r (l, s) t)"
proof -
  have "re_match_at r fl l s \<noteq> None \<longleftrightarrow> re_all r fl (l, s, []) \<noteq> []"
    by (simp add: re_match_at_def re_m_eq_first_some) (cases "re_all r fl (l, s, [])"; auto split: prod.splits)
  also have "\<dots> \<longleftrightarrow> (\<exists>t. \<exists>q \<in> set (re_all r fl (l, s, [])). span_of q = t)"
    by (cases "re_all r fl (l, s, [])") (simp_all del: split_paired_Ex, blast)
  also have "\<dots> \<longleftrightarrow> (\<exists>t. rmatch fl r (l, s) t)"
    unfolding re_all_iff_rmatch by (simp add: span_of_def rest_def)
  finally show ?thesis .
qed

lemma re_match_at_SomeD:
  assumes "re_match_at r fl l s = Some m"
  shows "m_before m = l" and "s = m_text m @ m_after m"
    and "rmatch fl r (l, s) (rev (m_text m) @ l, m_after m)"
proof -
  from assms obtain l' s' g where q: "(l', s', g) \<in> set (re_all r fl (l, s, []))"
    and m: "m = \<lparr>m_before = l, m_text = rev (take (length l' - length l) l'), m_after = s', m_groups = g\<rparr>"
    by (auto simp: re_match_at_def re_m_eq_first_some dest!: first_some_SomeD)
  have r: "rmatch fl r (l, s) (l', s')"
    using re_all_only [of fl r] q by (fastforce simp: lists_only_def span_of_def rest_def)
  from rmatch_riter_subject(1) [OF r] obtain w where "l' = rev w @ l" "s = w @ s'" by auto
  with m r show "m_before m = l" "s = m_text m @ m_after m"
    "rmatch fl r (l, s) (rev (m_text m) @ l, m_after m)" by auto
qed

text \<open>A search succeeds exactly when some position of the subject has a match.\<close>

lemma re_search_from_Some_iff:
  "re_search_from r fl l s \<noteq> None \<longleftrightarrow> (\<exists>a b t. s = a @ b \<and> rmatch fl r (rev a @ l, b) t)"
proof (induction s arbitrary: l)
  case Nil
  then show ?case using re_match_at_Some_iff [of r fl l "[]"] by auto
next
  case (Cons c s)
  have "re_search_from r fl l (c # s) \<noteq> None \<longleftrightarrow>
      re_match_at r fl l (c # s) \<noteq> None \<or> re_search_from r fl (c # l) s \<noteq> None"
    by (auto split: option.splits)
  also have "\<dots> \<longleftrightarrow> (\<exists>t. rmatch fl r (l, c # s) t) \<or>
      (\<exists>a b t. s = a @ b \<and> rmatch fl r (rev a @ c # l, b) t)"
    using re_match_at_Some_iff [of r fl l "c # s"] Cons by simp
  also have "\<dots> \<longleftrightarrow> (\<exists>a b t. c # s = a @ b \<and> rmatch fl r (rev a @ l, b) t)"
    (is "?L \<longleftrightarrow> ?R")
  proof
    assume ?L
    then show ?R
    proof
      assume "\<exists>t. rmatch fl r (l, c # s) t"
      then have "\<exists>t. rmatch fl r (rev [] @ l, c # s) t" by simp
      then show ?R by (metis append_Nil)
    next
      assume "\<exists>a b t. s = a @ b \<and> rmatch fl r (rev a @ c # l, b) t"
      then obtain a b t where "s = a @ b" "rmatch fl r (rev a @ c # l, b) t" by blast
      then have "c # s = (c # a) @ b" "rmatch fl r (rev (c # a) @ l, b) t" by auto
      then show ?R by blast
    qed
  next
    assume ?R
    then obtain a b t where ab: "c # s = a @ b" and m: "rmatch fl r (rev a @ l, b) t" by blast
    show ?L
    proof (cases a)
      case Nil
      with ab m have "rmatch fl r (l, c # s) t" by simp
      then show ?thesis by blast
    next
      case (Cons d a')
      with ab m have "s = a' @ b" "rmatch fl r (rev a' @ c # l, b) t" by auto
      then show ?thesis by blast
    qed
  qed
  finally show ?case .
qed

theorem re_found_iff:
  "re_found r fl s \<longleftrightarrow> (\<exists>a b t. s = a @ b \<and> rmatch fl r (rev a, b) t)"
  using re_search_from_Some_iff [of r fl "[]" s] by (simp add: re_found_def re_search_def)

lemma p_found_iff:
  "p_found p s \<longleftrightarrow> (\<exists>a b t. s = a @ b \<and> rmatch (p_flags p) (p_regex p) (rev a, b) t)"
  by (simp add: p_found_def re_found_iff)

lemma p_search_found: "p_found p s \<longleftrightarrow> p_search p s \<noteq> None"
  by (simp add: p_found_def p_search_def re_found_def)

text \<open>No match, then no change and nothing to count; a match, then something to count.\<close>

lemma re_match_at_append_None:
  assumes "\<not> re_found r fl s"
  shows "s = rev l @ t \<Longrightarrow> re_match_at r fl l t = None"
proof -
  assume "s = rev l @ t"
  then have "\<not> (\<exists>u. rmatch fl r (l, t) u)" using assms unfolding re_found_iff
    by (metis rev_rev_ident)
  then show ?thesis using re_match_at_Some_iff [of r fl l t] by blast
qed

lemma re_sub_from_none:
  assumes "\<not> re_found r fl s"
  shows "s = rev l @ t \<Longrightarrow> re_sub_from 0 r fl new l t = t"
  by (induction t arbitrary: l) (auto simp: re_match_at_append_None [OF assms])

lemma p_sub_not_found: "\<not> p_found p s \<Longrightarrow> p_sub p new s = s"
  by (simp add: p_sub_def re_sub_def p_found_def re_sub_from_none)

lemma re_iter_from_none:
  assumes "\<not> re_found r fl s"
  shows "s = rev l @ t \<Longrightarrow> re_iter_from 0 r fl l t = []"
  by (induction t arbitrary: l) (auto simp: re_match_at_append_None [OF assms])

lemma re_iter_from_some:
  "re_search_from r fl l s \<noteq> None \<Longrightarrow> re_iter_from 0 r fl l s \<noteq> []"
  by (induction s arbitrary: l) (auto split: option.splits)

lemma p_count_zero_iff: "p_count p s = 0 \<longleftrightarrow> \<not> p_found p s"
proof (cases "p_found p s")
  case True
  then have "re_search_from (p_regex p) (p_flags p) [] s \<noteq> None"
    by (simp add: p_found_def re_found_def re_search_def)
  from re_iter_from_some [OF this] True show ?thesis
    by (simp add: p_count_def re_finditer_def)
next
  case False
  then show ?thesis by (simp add: p_found_def p_count_def re_finditer_def re_iter_from_none)
qed

end
