(* ===== verification/AgentDetection.thy ===== *)
theory AgentDetection
  imports PyRegexSound
begin

text \<open>
  \<open>endpoint-agent/pysetu_agent/detection.py\<close>: the secret and PII patterns, compiled from their
  source text, and the scan that classifies and redacts a content.  The locale
  \<open>content_detector\<close> states what the callers of a detector (clipboard, wrapper, scanner,
  enforcement, gateway) rely on; \<open>detect\<close> is an instance at every limit.
\<close>

section \<open>Patterns\<close>

definition SECRET_PATTERNS :: "(string \<times> pattern) list" where
  "SECRET_PATTERNS =
     [(''PRIVATE_KEY'', re_const no_flags (raw ''-----BEGIN (?:RSA|OPENSSH|EC|DSA|PRIVATE) PRIVATE KEY-----'')),
      (''AWS_ACCESS_KEY'', re_const no_flags (raw ''`b(?:AKIA|ASIA)[0-9A-Z]{16}`b'')),
      (''SLACK_TOKEN'', re_const no_flags (raw ''`bxox[baprs]-[A-Za-z0-9-]{10,}`b'')),
      (''GITHUB_TOKEN'', re_const no_flags (raw ''`bgh[pousr]_[A-Za-z0-9]{20,}`b'')),
      (''OPENAI_KEY'', re_const no_flags (raw ''`bsk-[A-Za-z0-9]{20,}`b'')),
      (''JWT'', re_const no_flags (raw ''`beyJ[A-Za-z0-9_-]{10,}`.[A-Za-z0-9_-]{10,}`.[A-Za-z0-9_-]{10,}`b'')),
      (''GENERIC_SECRET'', re_const ignorecase
         (raw ''`b(?:password|passwd|pwd|secret|api[_-]?key|token)`s*[:=]`s*[\"\\']?[^`s\"\\']+''))]"

definition PII_PATTERNS :: "(string \<times> pattern) list" where
  "PII_PATTERNS =
     [(''SSN'', re_const no_flags (raw ''`b`d{3}-`d{2}-`d{4}`b'')),
      (''EMAIL'', re_const no_flags (raw ''`b[A-Za-z0-9._%+-]+@[A-Za-z0-9.-]+`.[A-Za-z]{2,}`b'')),
      (''US_PHONE'', re_const no_flags (raw ''`b`d{3}-`d{3}-`d{4}`b'')),
      (''EU_PERSONAL_ID'', re_const no_flags (raw ''`b[A-Z]{2}`d{6,12}`b'')),
      (''PCI_CARD'', re_const no_flags (raw ''`b(?:`d[ -]?){13,19}`b''))]"

definition REDACTION :: string where
  "REDACTION = ''[REDACTED]''"

definition all_patterns :: "(string \<times> pattern) list" where
  "all_patterns = SECRET_PATTERNS @ PII_PATTERNS"

lemma detection_patterns_compile:
  "list_all (\<lambda>(l, p). p_regex p \<noteq> RClass False []) all_patterns"
  by code_simp

section \<open>Scanning\<close>

record scan_result =
  sr_classifications :: "string list"
  sr_redacted :: "string option"
  sr_match_count :: nat

definition has_sensitive :: "scan_result \<Rightarrow> bool" where
  "has_sensitive r \<longleftrightarrow> sr_classifications r \<noteq> []"

text \<open>The loop over the patterns: labels, redacted text and count so far.\<close>

fun detect_loop :: "(string \<times> pattern) list \<Rightarrow> string \<Rightarrow> string list \<Rightarrow> string \<Rightarrow> nat \<Rightarrow>
  string list \<times> string \<times> nat" where
  "detect_loop [] content cls redacted n = (cls, redacted, n)"
| "detect_loop ((label, p) # ps) content cls redacted n =
     (let k = p_count p content in
      if k > 0
      then detect_loop ps content (cls @ [label]) (p_sub p REDACTION redacted) (n + k)
      else detect_loop ps content cls redacted n)"

definition detect :: "nat \<Rightarrow> string \<Rightarrow> scan_result" where
  "detect limit content0 =
     (let content = take limit content0 in
      case detect_loop all_patterns content [] content 0 of
        (cls, redacted, n) \<Rightarrow>
          \<lparr>sr_classifications = cls,
           sr_redacted = (if redacted \<noteq> content then Some redacted else None),
           sr_match_count = n\<rparr>)"

definition DETECT_LIMIT :: nat where
  "DETECT_LIMIT = 1000000"

abbreviation detect_default :: "string \<Rightarrow> scan_result" where
  "detect_default \<equiv> detect DETECT_LIMIT"

lemma detect_loop_labels:
  "fst (detect_loop ps content cls redacted n) =
   cls @ map fst (filter (\<lambda>(l, p). p_found p content) ps)"
  by (induction ps content cls redacted n rule: detect_loop.induct)
    (auto simp: Let_def p_count_zero_iff)

lemma detect_loop_count:
  "snd (snd (detect_loop ps content cls redacted n)) =
   n + (\<Sum>(l, p) \<leftarrow> ps. p_count p content)"
  by (induction ps content cls redacted n rule: detect_loop.induct)
    (auto simp: Let_def)

lemma detect_loop_clean:
  "filter (\<lambda>(l, p). p_found p content) ps = [] \<Longrightarrow>
   detect_loop ps content cls redacted n = (cls, redacted, n)"
  by (induction ps content cls redacted n rule: detect_loop.induct)
    (auto simp: Let_def p_count_zero_iff split: if_splits)

lemma detect_classifications:
  "sr_classifications (detect limit content) =
   map fst (filter (\<lambda>(l, p). p_found p (take limit content)) all_patterns)"
  using detect_loop_labels [of all_patterns "take limit content" "[]" "take limit content" 0]
  by (simp add: detect_def Let_def split_beta)

lemma detect_match_count:
  "sr_match_count (detect limit content) = (\<Sum>(l, p) \<leftarrow> all_patterns. p_count p (take limit content))"
  using detect_loop_count [of all_patterns "take limit content" "[]" "take limit content" 0]
  by (simp add: detect_def Let_def split_beta)

lemma detect_clean:
  assumes "sr_classifications (detect limit content) = []"
  shows "detect limit content = \<lparr>sr_classifications = [], sr_redacted = None, sr_match_count = 0\<rparr>"
proof -
  have "filter (\<lambda>(l, p). p_found p (take limit content)) all_patterns = []"
    using assms unfolding detect_classifications by simp
  from detect_loop_clean [OF this] show ?thesis by (simp add: detect_def Let_def)
qed

lemma detect_label_iff:
  "label \<in> set (sr_classifications (detect limit content)) \<longleftrightarrow>
   (\<exists>p. (label, p) \<in> set all_patterns \<and> p_found p (take limit content))"
  by (force simp: detect_classifications)

lemma detect_count_pos:
  assumes "sr_classifications (detect limit content) \<noteq> []"
  shows "0 < sr_match_count (detect limit content)"
proof -
  let ?k = "\<lambda>(l :: string, p). p_count p (take limit content)"
  have "\<exists>x \<in> set all_patterns. p_found (snd x) (take limit content)"
    using assms unfolding detect_classifications by (simp add: filter_empty_conv split_beta)
  then obtain x where x: "x \<in> set all_patterns" "p_found (snd x) (take limit content)" by blast
  then have "?k x \<in> set (map ?k all_patterns)" by (metis image_eqI list.set_map)
  then have "?k x \<le> sum_list (map ?k all_patterns)" by (rule member_le_sum_list) simp
  moreover have "?k x \<noteq> 0" using x(2) by (simp add: split_beta p_count_zero_iff)
  ultimately show ?thesis unfolding detect_match_count by linarith
qed

section \<open>The interface of a detector\<close>

text \<open>What the clients of a detector rely on: a result without labels reports nothing else, and
  one with labels reports a match.\<close>

locale content_detector =
  fixes det :: "string \<Rightarrow> scan_result"
  assumes clean: "\<not> has_sensitive (det s) \<Longrightarrow> sr_redacted (det s) = None \<and> sr_match_count (det s) = 0"
    and found: "has_sensitive (det s) \<Longrightarrow> 0 < sr_match_count (det s)"
begin

lemma sensitive_iff_count: "has_sensitive (det s) \<longleftrightarrow> 0 < sr_match_count (det s)"
  using clean found by fastforce

lemma redacted_sensitive: "sr_redacted (det s) = Some r \<Longrightarrow> has_sensitive (det s)"
  using clean by fastforce

end

interpretation agent_detect: content_detector "detect limit"
proof
  fix s
  show "\<not> has_sensitive (detect limit s) \<Longrightarrow>
      sr_redacted (detect limit s) = None \<and> sr_match_count (detect limit s) = 0"
    using detect_clean [of limit s] by (auto simp: has_sensitive_def)
  show "has_sensitive (detect limit s) \<Longrightarrow> 0 < sr_match_count (detect limit s)"
    using detect_count_pos [of limit s] by (simp add: has_sensitive_def)
qed

section \<open>Access keys\<close>

text \<open>What a delimited AWS access key looks like, and that the pattern finds every one.\<close>

definition upper_or_digit :: "char \<Rightarrow> bool" where
  "upper_or_digit c \<longleftrightarrow> is_digit c \<or> is_upper c"

definition aws_key :: "string \<Rightarrow> bool" where
  "aws_key k \<longleftrightarrow> (\<exists>w. (k = ''AKIA'' @ w \<or> k = ''ASIA'' @ w) \<and> length w = 16 \<and> list_all upper_or_digit w)"

definition delimited :: "string \<Rightarrow> string \<Rightarrow> bool" where
  "delimited a b \<longleftrightarrow> (a = [] \<or> \<not> is_word (last a)) \<and> (b = [] \<or> \<not> is_word (hd b))"

abbreviation aws_class :: "citem list" where
  "aws_class \<equiv> [CRange CHR ''0'' CHR ''9'', CRange CHR ''A'' CHR ''Z'']"

abbreviation lits4 :: "char \<Rightarrow> char \<Rightarrow> char \<Rightarrow> char \<Rightarrow> regex" where
  "lits4 a b c d \<equiv> RSeq (RSeq (RSeq (RLit a) (RLit b)) (RLit c)) (RLit d)"

lemma aws_pattern:
  "re_const no_flags (raw ''`b(?:AKIA|ASIA)[0-9A-Z]{16}`b'') =
   \<lparr>p_regex = RSeq (RSeq (RSeq RBound
        (RAlt (lits4 CHR ''A'' CHR ''K'' CHR ''I'' CHR ''A'') (lits4 CHR ''A'' CHR ''S'' CHR ''I'' CHR ''A'')))
        (RRep (RClass False aws_class) 16 (Some 16) True)) RBound,
    p_flags = no_flags\<rparr>"
  by code_simp

lemma citems_match_aws: "citems_match aws_class = upper_or_digit"
  by (simp add: fun_eq_iff upper_or_digit_def is_digit_def is_upper_def)

lemma rmatch_lits4: "rmatch fl (lits4 a b c d) (l, [a, b, c, d] @ s) (d # c # b # a # l, s)"
  by (auto intro!: rmatch_riter.seq rmatch_lit)

lemma boundary_before:
  "a = [] \<or> \<not> is_word (last a) \<Longrightarrow> is_word c \<Longrightarrow> at_boundary (rev a) (c # s)"
  by (cases a rule: rev_cases) (auto simp: at_boundary_def)

lemma boundary_after:
  "is_word c \<Longrightarrow> b = [] \<or> \<not> is_word (hd b) \<Longrightarrow> at_boundary (c # l) b"
  by (cases b) (auto simp: at_boundary_def)

lemma upper_or_digit_word: "upper_or_digit c \<Longrightarrow> is_word c"
  by (auto simp: upper_or_digit_def is_word_def is_alpha_def)

lemma aws_key_found:
  assumes "aws_key k" and "delimited a b"
  shows "p_found (re_const no_flags (raw ''`b(?:AKIA|ASIA)[0-9A-Z]{16}`b'')) (a @ k @ b)"
proof -
  obtain w where k: "k = ''AKIA'' @ w \<or> k = ''ASIA'' @ w" and w: "length w = 16" "list_all upper_or_digit w"
    using assms(1) by (auto simp: aws_key_def)
  let ?alt = "RAlt (lits4 CHR ''A'' CHR ''K'' CHR ''I'' CHR ''A'') (lits4 CHR ''A'' CHR ''S'' CHR ''I'' CHR ''A'')"
  let ?rep = "RRep (RClass False aws_class) 16 (Some 16) True"
  define pre where "pre = take 4 k"
  have kw: "k = pre @ w" and pre: "pre = ''AKIA'' \<or> pre = ''ASIA''"
    using k by (auto simp: pre_def)
  have start: "rmatch no_flags RBound (rev a, k @ b) (rev a, k @ b)"
  proof -
    have "\<exists>r. k @ b = CHR ''A'' # r" using pre by (auto simp: kw)
    moreover have "is_word CHR ''A''" by code_simp
    ultimately show ?thesis
      using assms(2) boundary_before [of a "CHR ''A''"] rmatch_riter.bound [of "rev a" "k @ b"]
      by (metis delimited_def)
  qed
  have alt: "rmatch no_flags ?alt (rev a, pre @ s) (rev pre @ rev a, s)" for s
    using pre rmatch_lits4 [of no_flags _ _ _ _ "rev a" s]
    by (auto intro: rmatch_riter.alt1 rmatch_riter.alt2)
  have rep: "rmatch no_flags ?rep (rev pre @ rev a, w @ b) (rev w @ rev pre @ rev a, b)"
    using w by (intro rmatch_class_rep) (simp_all add: citems_match_aws)
  obtain c w' where w': "w = w' @ [c]" using w(1) by (cases w rule: rev_cases) auto
  have "is_word c" using w(2) by (simp add: w' upper_or_digit_word)
  then have last: "rmatch no_flags RBound (rev w @ rev pre @ rev a, b) (rev w @ rev pre @ rev a, b)"
    using assms(2) by (auto simp: w' delimited_def intro!: rmatch_riter.bound boundary_after)
  have "rmatch no_flags (RSeq (RSeq (RSeq RBound ?alt) ?rep) RBound) (rev a, k @ b) (rev w @ rev pre @ rev a, b)"
    by (rule rmatch_riter.seq [OF rmatch_riter.seq [OF rmatch_riter.seq [OF start] rep] last])
      (simp add: kw alt)
  then show ?thesis unfolding p_found_iff aws_pattern by auto
qed

lemma detect_aws_key:
  assumes "aws_key k" and "delimited a b" and "length (a @ k @ b) \<le> limit"
  shows "''AWS_ACCESS_KEY'' \<in> set (sr_classifications (detect limit (a @ k @ b)))"
proof -
  have "(''AWS_ACCESS_KEY'', re_const no_flags (raw ''`b(?:AKIA|ASIA)[0-9A-Z]{16}`b'')) \<in> set all_patterns"
    by (simp add: all_patterns_def SECRET_PATTERNS_def)
  moreover have "take limit (a @ k @ b) = a @ k @ b" using assms(3) by simp
  ultimately show ?thesis
    using aws_key_found [OF assms(1,2)] unfolding detect_label_iff by metis
qed

section \<open>Properties\<close>

text \<open>C4: a label is reported exactly when some part of the scanned text (the first \<open>limit\<close>
  characters) belongs to the language of its pattern.\<close>

theorem detect_reports_exactly_matches:
  "label \<in> set (sr_classifications (detect limit content)) \<longleftrightarrow>
   (\<exists>p a b t. (label, p) \<in> set all_patterns \<and> take limit content = a @ b \<and>
      rmatch (p_flags p) (p_regex p) (rev a, b) t)"
  unfolding detect_label_iff p_found_iff by blast

end
