(* ===== verification/AgentShell.thy ===== *)
theory AgentShell
  imports PyRegexSound
begin

text \<open>
  \<open>endpoint-agent/pysetu_agent/shell.py\<close>: the ordered rules that classify a shell command into
  block, approval or allow.  Shown here: a command is blocked exactly when a block rule occurs in
  it, and needs approval exactly when no block rule and some approval rule does; and that the rule
  on \<open>find ... -delete\<close> needs a word character right before the option.
\<close>

record shell_decision =
  sd_action :: string
  sd_reason :: string

definition BLOCK_RULES :: "(pattern \<times> string) list" where
  "BLOCK_RULES =
     [(re_const no_flags (raw ''`brm`s+[^`n]*(?:-rf|-fr)`b[^`n]*(?:`s/|`s~|`s`*)''), ''Destructive recursive delete''),
      (re_const no_flags (raw ''`bchmod`s+(?:-R`s+)?777`b''), ''World-writable permissions''),
      (re_const no_flags (raw ''`b(?:curl|wget)`b[^`n]*`b(?:token|secret|api[_-]?key|password|credential)`b''),
       ''Potential data exfiltration''),
      (re_const no_flags (raw ''`bcat`s+~?/`.ssh/id_(?:rsa|ed25519|ecdsa)`b''), ''Private key access''),
      (re_const no_flags (raw ''`bgit`s+push`b.*--force''), ''Force push to remote''),
      (re_const no_flags (raw ''`bfind`b[^`n]*`b-delete`b''), ''Bulk file deletion'')]"

definition APPROVAL_RULES :: "(pattern \<times> string) list" where
  "APPROVAL_RULES =
     [(re_const no_flags (raw ''`bgit`s+push`b''), ''Push to remote''),
      (re_const no_flags (raw ''`bdocker`s+exec`b''), ''Container exec''),
      (re_const no_flags (raw ''`bkubectl`s+delete`b''), ''Kubernetes resource deletion''),
      (re_const no_flags (raw ''`bterraform`s+apply`b''), ''Infrastructure apply''),
      (re_const no_flags (raw ''`bchmod`b''), ''Permission change''),
      (re_const no_flags (raw ''`bsudo`b''), ''Elevated privileges''),
      (re_const no_flags (raw ''`brm`s+-(?:rf|fr)`b''), ''Recursive delete''),
      (re_const no_flags (raw ''`b(?:shutdown|reboot|dropdb)`b''), ''Destructive system action'')]"

lemma shell_patterns_compile:
  "list_all (\<lambda>(p, r). p_regex p \<noteq> RClass False []) (BLOCK_RULES @ APPROVAL_RULES)"
  by code_simp

definition first_rule :: "(pattern \<times> string) list \<Rightarrow> string \<Rightarrow> string option" where
  "first_rule rules command = first_some (\<lambda>(p, reason). if p_found p command then Some reason else None) rules"

definition classify_command :: "string \<Rightarrow> shell_decision" where
  "classify_command command =
     (case first_rule BLOCK_RULES command of
        Some reason \<Rightarrow> \<lparr>sd_action = ''block'', sd_reason = reason\<rparr>
      | None \<Rightarrow>
          (case first_rule APPROVAL_RULES command of
             Some reason \<Rightarrow> \<lparr>sd_action = ''approval'', sd_reason = reason\<rparr>
           | None \<Rightarrow> \<lparr>sd_action = ''allow'', sd_reason = ''No risky pattern matched''\<rparr>))"

definition rule_occurs :: "(pattern \<times> string) list \<Rightarrow> string \<Rightarrow> bool" where
  "rule_occurs rules command \<longleftrightarrow>
     (\<exists>(p, reason) \<in> set rules. \<exists>a b t. command = a @ b \<and> rmatch (p_flags p) (p_regex p) (rev a, b) t)"

lemma first_rule_None: "first_rule rules command = None \<longleftrightarrow> \<not> rule_occurs rules command"
  unfolding first_rule_def first_some_None_iff rule_occurs_def
  by (simp add: split_beta p_found_iff)

lemma first_rule_Some: "first_rule rules command = Some r \<Longrightarrow> rule_occurs rules command"
  using first_rule_None [of rules command] by simp

lemma classify_action:
  "sd_action (classify_command command) =
     (if rule_occurs BLOCK_RULES command then ''block''
      else if rule_occurs APPROVAL_RULES command then ''approval'' else ''allow'')"
  using first_rule_None [of BLOCK_RULES command] first_rule_None [of APPROVAL_RULES command]
  by (cases "first_rule BLOCK_RULES command"; cases "first_rule APPROVAL_RULES command")
    (simp_all add: classify_command_def)

section \<open>Deleting with find\<close>

definition find_delete :: pattern where
  "find_delete = re_const no_flags (raw ''`bfind`b[^`n]*`b-delete`b'')"

abbreviation then_delete :: "regex \<Rightarrow> regex" where
  "then_delete P \<equiv> RSeq (RSeq (RSeq (RSeq (RSeq (RSeq (RSeq (RSeq P RBound) (RLit CHR ''-''))
     (RLit CHR ''d'')) (RLit CHR ''e'')) (RLit CHR ''l'')) (RLit CHR ''e'')) (RLit CHR ''t'')) (RLit CHR ''e'')"

lemma find_delete_shape:
  "\<exists>P. p_regex find_delete = RSeq (then_delete P) RBound \<and> p_flags find_delete = no_flags"
proof -
  have "find_delete = \<lparr>p_regex = RSeq (then_delete
      (RSeq (RSeq (RSeq (RSeq (RSeq (RSeq RBound (RLit CHR ''f'')) (RLit CHR ''i'')) (RLit CHR ''n''))
        (RLit CHR ''d'')) RBound) (RRep (RClass True [CChar newline]) 0 None True))) RBound,
      p_flags = no_flags\<rparr>"
    unfolding find_delete_def by code_simp
  then show ?thesis by (metis pattern.select_convs(1,2))
qed

lemma rmatch_RLit_iff: "rmatch no_flags (RLit c) (l, s) t \<longleftrightarrow> (\<exists>r. s = c # r \<and> t = (c # l, r))"
  by (auto simp: rmatch_simps no_flags_def)

lemma rmatch_then_delete:
  assumes "rmatch no_flags (then_delete P) p t"
  shows "\<exists>l r. rmatch no_flags P p (l, ''-delete'' @ r) \<and> at_boundary l (''-delete'' @ r)"
  using assms by (auto simp: rmatch_simps(2,6) rmatch_RLit_iff)

text \<open>The boundary before the dash asks for a word character in front of it.\<close>

lemma find_delete_needs_word:
  assumes "p_found find_delete command"
  shows "\<exists>a w b. command = a @ [w] @ ''-delete'' @ b \<and> is_word w"
proof -
  obtain P where P: "p_regex find_delete = RSeq (then_delete P) RBound" "p_flags find_delete = no_flags"
    using find_delete_shape by blast
  obtain a b t where ab: "command = a @ b" "rmatch no_flags (RSeq (then_delete P) RBound) (rev a, b) t"
    using assms unfolding p_found_iff P by blast
  obtain q where "rmatch no_flags (then_delete P) (rev a, b) q"
    using ab(2) unfolding rmatch_simps(6) by blast
  from rmatch_then_delete [OF this] obtain l r where
    lr: "rmatch no_flags P (rev a, b) (l, ''-delete'' @ r)" "at_boundary l (''-delete'' @ r)"
    by blast
  obtain u where "l = rev u @ rev a" "b = u @ ''-delete'' @ r"
    using rmatch_riter_subject(1) [OF lr(1)] by auto
  then have c: "command = rev l @ ''-delete'' @ r" using ab(1) by simp
  have "\<not> is_word CHR ''-''" by code_simp
  then obtain w l' where "l = w # l'" "is_word w"
    using lr(2) by (cases l) (auto simp: at_boundary_def)
  then show ?thesis using c by auto
qed

section \<open>Properties\<close>

text \<open>A command is blocked exactly when the language of some block rule occurs in it, and sent
  to approval exactly when no block rule and some approval rule occurs.\<close>

theorem classify_command_action:
  "sd_action (classify_command command) =
     (if rule_occurs BLOCK_RULES command then ''block''
      else if rule_occurs APPROVAL_RULES command then ''approval'' else ''allow'')"
  by (rule classify_action)

text \<open>The bulk-deletion rule (the last block rule) never fires unless a word character directly
  precedes \<open>-delete\<close>; a command that gives the option after a space, as \<open>find\<close> requires, is not
  caught by it.\<close>

theorem find_rule_misses_separate_option:
  assumes "\<And>a w b. command = a @ [w] @ ''-delete'' @ b \<Longrightarrow> w = CHR '' ''"
  shows "last BLOCK_RULES = (find_delete, ''Bulk file deletion'') \<and> \<not> p_found find_delete command"
proof
  show "last BLOCK_RULES = (find_delete, ''Bulk file deletion'')"
    by (simp add: BLOCK_RULES_def find_delete_def)
  have "\<not> is_word CHR '' ''" by code_simp
  then show "\<not> p_found find_delete command"
    using find_delete_needs_word assms by metis
qed

lemma find_data_delete:
  "''find /data -delete'' = a @ [w] @ ''-delete'' @ b \<Longrightarrow> w = CHR '' ''"
  by (auto simp: append_eq_Cons_conv Cons_eq_append_conv)

theorem find_rule_misses_separate_option_witness:
  "last BLOCK_RULES = (find_delete, ''Bulk file deletion'') \<and> \<not> p_found find_delete ''find /data -delete''"
  by (rule find_rule_misses_separate_option) (rule find_data_delete)

end
