(* ===== verification/AgentFiles.thy ===== *)
theory AgentFiles
  imports AgentWrapper
begin

text \<open>
  \<open>endpoint-agent/pysetu_agent/scan.py\<close>, \<open>enforce.py\<close> and \<open>watcher.py\<close> over a file system: a
  dictionary from paths to files, a list of directories and a clock that stamps every write.
  \<open>os.walk\<close> lists a directory when it reaches it, so files moved during a walk are seen where they
  are then.  The walk spends a unit of fuel per level; \<open>walk_fuel\<close> is more than the length of every
  directory path, and each level lengthens the path.
\<close>

section \<open>The file system\<close>

record file_entry =
  f_content :: string
  f_mtime :: nat
  f_readable :: bool

record fs =
  fs_files :: "file_entry dict"
  fs_dirs :: "string list"
  fs_clock :: nat

definition read_file :: "fs \<Rightarrow> string \<Rightarrow> string result" where
  "read_file s path =
     (case dict_get (fs_files s) path of
        None \<Rightarrow> Inl (OSError path)
      | Some f \<Rightarrow> if f_readable f then Inr (f_content f) else Inl (OSError path))"

definition exists_path :: "fs \<Rightarrow> string \<Rightarrow> bool" where
  "exists_path s path \<longleftrightarrow> dict_get (fs_files s) path \<noteq> None \<or> path \<in> set (fs_dirs s)"

definition write_file :: "string \<Rightarrow> string \<Rightarrow> fs \<Rightarrow> fs" where
  "write_file path content s =
     s\<lparr>fs_files := dict_set path \<lparr>f_content = content, f_mtime = fs_clock s, f_readable = True\<rparr> (fs_files s),
       fs_clock := Suc (fs_clock s)\<rparr>"

definition remove_file :: "string \<Rightarrow> fs \<Rightarrow> fs" where
  "remove_file path s = s\<lparr>fs_files := AList.delete path (fs_files s)\<rparr>"

text \<open>\<open>shutil.copy2\<close> keeps the time of the source, \<open>shutil.move\<close> and \<open>os.replace\<close> the file itself.\<close>

definition copy_file :: "string \<Rightarrow> string \<Rightarrow> fs \<Rightarrow> fs" where
  "copy_file src dst s =
     (case dict_get (fs_files s) src of
        None \<Rightarrow> s
      | Some f \<Rightarrow> s\<lparr>fs_files := dict_set dst f (fs_files s)\<rparr>)"

definition move_file :: "string \<Rightarrow> string \<Rightarrow> fs \<Rightarrow> fs" where
  "move_file src dst s =
     (case dict_get (fs_files s) src of
        None \<Rightarrow> s
      | Some f \<Rightarrow> s\<lparr>fs_files := dict_set dst f (AList.delete src (fs_files s))\<rparr>)"

text \<open>\<open>os.makedirs(d, exist_ok=True)\<close>: the directory and its missing ancestors; a file in the way is
  an error.\<close>

definition ancestors :: "string \<Rightarrow> string list" where
  "ancestors d = filter (\<lambda>p. p \<noteq> []) (map (\<lambda>i. join ''/'' (take (Suc i) (parts_of d))) [0..<length (parts_of d)])"

definition makedirs :: "string \<Rightarrow> fs \<Rightarrow> fs result" where
  "makedirs d s =
     (if dict_get (fs_files s) d \<noteq> None then Inl (OSError d)
      else Inr (s\<lparr>fs_dirs := fs_dirs s @ filter (\<lambda>p. p \<notin> set (fs_dirs s)) (ancestors d)\<rparr>))"

text \<open>The listing of a directory.\<close>

definition child_of :: "string \<Rightarrow> string \<Rightarrow> bool" where
  "child_of dirpath p \<longleftrightarrow> basename p \<noteq> [] \<and> p = path_join dirpath (basename p)"

definition dirnames :: "fs \<Rightarrow> string \<Rightarrow> string list" where
  "dirnames s dirpath = map basename (filter (child_of dirpath) (fs_dirs s))"

definition filenames :: "fs \<Rightarrow> string \<Rightarrow> string list" where
  "filenames s dirpath = map basename (filter (child_of dirpath) (map fst (fs_files s)))"

definition walk_fuel :: "fs \<Rightarrow> string option \<Rightarrow> nat" where
  "walk_fuel s extra = Suc (fold max (map length (fs_dirs s)) (length (case extra of None \<Rightarrow> [] | Some d \<Rightarrow> d)))"

section \<open>Scanning a file\<close>

definition SKIP_DIRS :: "string list" where
  "SKIP_DIRS = [''.git'', ''node_modules'', ''.venv'', ''venv'', ''__pycache__'', ''.idea'', ''dist'', ''build'']"

definition MAX_FILE_BYTES :: nat where
  "MAX_FILE_BYTES = 512 * 1024"

definition MAX_FILES :: nat where
  "MAX_FILES = 5000"

record scan_event =
  ev_path :: string
  ev_classifications :: "string list"
  ev_decision :: string
  ev_match_count :: nat

text \<open>Text is ASCII, so the size in bytes is the length.\<close>

definition scan_file ::
  "homes \<Rightarrow> fs \<Rightarrow> string \<Rightarrow> local_policy \<Rightarrow> (string \<Rightarrow> scan_result) \<Rightarrow> scan_event option" where
  "scan_file homes s path policy detector =
     (case dict_get (fs_files s) path of
        None \<Rightarrow> None
      | Some f \<Rightarrow>
          if length (f_content f) > MAX_FILE_BYTES \<or> f_content f = [] then None
          else
            (case read_file s path of
               Inl _ \<Rightarrow> None
             | Inr content \<Rightarrow>
                 let result = detector content in
                 if \<not> has_sensitive result then None
                 else Some \<lparr>ev_path = path, ev_classifications = sr_classifications result,
                            ev_decision = evaluate homes policy path (sr_classifications result),
                            ev_match_count = sr_match_count result\<rparr>))"

section \<open>Enforcement\<close>

definition BACKUP_SUFFIX :: string where
  "BACKUP_SUFFIX = ''.pysetu.bak''"

record enforce_result =
  er_path :: string
  er_decision :: string
  er_action :: string
  er_backup :: "string option"
  er_match_count :: nat

text \<open>\<open>_atomic_write\<close> as the steps a crash can separate: the temporary file is created, its content
  written character by character, and the file replaced.  A failure before the replacement removes
  the temporary file again.\<close>

datatype write_phase = Fresh | Writing nat | Replaced | Aborted

inductive atomic_step :: "string \<Rightarrow> string \<Rightarrow> string \<Rightarrow> write_phase \<times> fs \<Rightarrow> write_phase \<times> fs \<Rightarrow> bool"
for path tmp content :: string
where
  aw_create: "atomic_step path tmp content (Fresh, s) (Writing 0, write_file tmp [] s)"
| aw_write: "n < length content \<Longrightarrow>
    atomic_step path tmp content (Writing n, s) (Writing (Suc n), write_file tmp (take (Suc n) content) s)"
| aw_replace: "atomic_step path tmp content (Writing (length content), s) (Replaced, move_file tmp path s)"
| aw_fail: "n \<le> length content \<Longrightarrow>
    atomic_step path tmp content (Writing n, s) (Aborted, remove_file tmp s)"

definition atomic_write :: "string \<Rightarrow> string \<Rightarrow> fs \<Rightarrow> fs" where
  "atomic_write path content s = write_file path content s"

definition quarantine_file :: "(nat \<Rightarrow> string) \<Rightarrow> string \<Rightarrow> string option \<Rightarrow> fs \<Rightarrow> (string \<times> fs) result" where
  "quarantine_file stamp path quarantine_dir s =
     (case quarantine_dir of
        None \<Rightarrow> Inl (TypeError ''makedirs: path should be string, not NoneType'')
      | Some q \<Rightarrow>
          bindE (makedirs q s) (\<lambda>s1.
            let base = basename path;
                target0 = path_join q base;
                target = (if exists_path s1 target0
                          then path_join q (base @ ''.'' @ stamp (fs_clock s1)) else target0)
            in Inr (target, move_file path target s1)))"

definition enforce_file ::
  "homes \<Rightarrow> (nat \<Rightarrow> string) \<Rightarrow> string \<Rightarrow> local_policy \<Rightarrow> (string \<Rightarrow> scan_result) \<Rightarrow> string \<Rightarrow> string option \<Rightarrow>
   fs \<Rightarrow> (enforce_result option \<times> fs) result" where
  "enforce_file homes stamp path policy detector backup_suffix quarantine_dir s =
     (case read_file s path of
        Inl _ \<Rightarrow> Inr (None, s)
      | Inr content \<Rightarrow>
          let result = detector content in
          if \<not> has_sensitive result then Inr (None, s)
          else
            let decision = evaluate homes policy path (sr_classifications result) in
            (case (if decision = ''redact'' then sr_redacted result else None) of
               Some redacted \<Rightarrow>
                 let backup_path = path @ backup_suffix in
                 Inr (Some \<lparr>er_path = path, er_decision = decision, er_action = ''redacted'',
                            er_backup = Some backup_path, er_match_count = sr_match_count result\<rparr>,
                      atomic_write path redacted (copy_file path backup_path s))
             | None \<Rightarrow>
                 if decision = ''block'' then
                   bindE (quarantine_file stamp path quarantine_dir s) (\<lambda>(target, s').
                     Inr (Some \<lparr>er_path = path, er_decision = decision, er_action = ''quarantined'',
                                er_backup = Some target, er_match_count = sr_match_count result\<rparr>, s'))
                 else
                   Inr (Some \<lparr>er_path = path, er_decision = decision, er_action = ''none'',
                              er_backup = None, er_match_count = sr_match_count result\<rparr>, s)))"

section \<open>Scanning a directory\<close>

record scan_config =
  sc_homes :: homes
  sc_stamp :: "nat \<Rightarrow> string"
  sc_policy :: local_policy
  sc_detector :: "string \<Rightarrow> scan_result"
  sc_max_files :: nat
  sc_enforce :: bool
  sc_quarantine :: "string option"

record scan_state =
  ss_fs :: fs
  ss_events :: "scan_event list"
  ss_scanned :: nat

definition scan_one :: "scan_config \<Rightarrow> string \<Rightarrow> fs \<Rightarrow> scan_event list \<Rightarrow> (fs \<times> scan_event list) result" where
  "scan_one cfg path s events =
     (case scan_file (sc_homes cfg) s path (sc_policy cfg) (sc_detector cfg) of
        None \<Rightarrow> Inr (s, events)
      | Some event \<Rightarrow>
          bindE (if sc_enforce cfg
                 then bindE (enforce_file (sc_homes cfg) (sc_stamp cfg) path (sc_policy cfg) (sc_detector cfg)
                               BACKUP_SUFFIX (sc_quarantine cfg) s) (\<lambda>(_, s'). Inr s')
                 else Inr s) (\<lambda>s'. Inr (s', events @ [event])))"

text \<open>The files of one directory; the flag says that the limit on files has ended the scan.\<close>

fun scan_names :: "scan_config \<Rightarrow> string \<Rightarrow> string list \<Rightarrow> scan_state \<Rightarrow> (bool \<times> scan_state) result" where
  "scan_names cfg dirpath [] st = Inr (False, st)"
| "scan_names cfg dirpath (name # names) st =
     (if ss_scanned st \<ge> sc_max_files cfg then Inr (True, st)
      else
        bindE (scan_one cfg (path_join dirpath name) (ss_fs st) (ss_events st)) (\<lambda>(s', events).
          scan_names cfg dirpath names
            \<lparr>ss_fs = s', ss_events = events, ss_scanned = Suc (ss_scanned st)\<rparr>))"

fun scan_walk :: "scan_config \<Rightarrow> nat \<Rightarrow> string \<Rightarrow> scan_state \<Rightarrow> (bool \<times> scan_state) result option"
and scan_children :: "scan_config \<Rightarrow> nat \<Rightarrow> string \<Rightarrow> string list \<Rightarrow> scan_state \<Rightarrow> (bool \<times> scan_state) result option"
where
  "scan_walk cfg 0 dirpath st = None"
| "scan_walk cfg (Suc n) dirpath st =
     (let subdirs = filter (\<lambda>d. d \<notin> set SKIP_DIRS) (dirnames (ss_fs st) dirpath) in
      case scan_names cfg dirpath (filenames (ss_fs st) dirpath) st of
        Inl e \<Rightarrow> Some (Inl e)
      | Inr (full, st') \<Rightarrow>
          if full then Some (Inr (True, st')) else scan_children cfg n dirpath subdirs st')"
| "scan_children cfg n dirpath [] st = Some (Inr (False, st))"
| "scan_children cfg n dirpath (d # ds) st =
     (case scan_walk cfg n (path_join dirpath d) st of
        None \<Rightarrow> None
      | Some (Inl e) \<Rightarrow> Some (Inl e)
      | Some (Inr (full, st')) \<Rightarrow>
          if full then Some (Inr (True, st')) else scan_children cfg n dirpath ds st')"

definition scan_directory :: "scan_config \<Rightarrow> string \<Rightarrow> fs \<Rightarrow> (scan_event list \<times> fs) result option" where
  "scan_directory cfg root s =
     (case scan_walk cfg (walk_fuel s (sc_quarantine cfg)) root
             \<lparr>ss_fs = s, ss_events = [], ss_scanned = 0\<rparr> of
        None \<Rightarrow> None
      | Some (Inl e) \<Rightarrow> Some (Inl e)
      | Some (Inr (_, st)) \<Rightarrow> Some (Inr (ss_events st, ss_fs st)))"

section \<open>Watching a directory\<close>

type_synonym snapshot = "(string \<times> (nat \<times> nat)) list"

fun walk_files :: "nat \<Rightarrow> fs \<Rightarrow> string \<Rightarrow> string list option"
and walk_children :: "nat \<Rightarrow> fs \<Rightarrow> string \<Rightarrow> string list \<Rightarrow> string list option"
where
  "walk_files 0 s dirpath = None"
| "walk_files (Suc n) s dirpath =
     map_option (\<lambda>ps. map (path_join dirpath) (filenames s dirpath) @ ps)
       (walk_children n s dirpath (filter (\<lambda>d. d \<notin> set SKIP_DIRS) (dirnames s dirpath)))"
| "walk_children n s dirpath [] = Some []"
| "walk_children n s dirpath (d # ds) =
     (case walk_files n s (path_join dirpath d) of
        None \<Rightarrow> None
      | Some ps \<Rightarrow> map_option (\<lambda>qs. ps @ qs) (walk_children n s dirpath ds))"

definition take_snapshot :: "fs \<Rightarrow> string \<Rightarrow> snapshot option" where
  "take_snapshot s root =
     map_option (\<lambda>paths. dict_of (concat (map (\<lambda>p. case dict_get (fs_files s) p of
          None \<Rightarrow> [] | Some f \<Rightarrow> [(p, f_mtime f, length (f_content f))]) paths)))
       (walk_files (walk_fuel s None) s root)"

definition diff_snapshots :: "snapshot \<Rightarrow> snapshot \<Rightarrow> string list" where
  "diff_snapshots before after =
     map fst (filter (\<lambda>(path, signature). dict_get before path \<noteq> Some signature) after)"

fun scan_changes :: "scan_config \<Rightarrow> string list \<Rightarrow> fs \<Rightarrow> scan_event list \<Rightarrow> (fs \<times> scan_event list) result" where
  "scan_changes cfg [] s events = Inr (s, events)"
| "scan_changes cfg (path # paths) s events =
     bindE (scan_one cfg path s events) (\<lambda>(s', events'). scan_changes cfg paths s' events')"

text \<open>One poll of the watcher: the file system as the watcher leaves it, the snapshot it took before
  it acted, and the batches of events reported so far.\<close>

definition watch_poll ::
  "scan_config \<Rightarrow> string \<Rightarrow> fs \<Rightarrow> snapshot \<Rightarrow> scan_event list list \<Rightarrow>
   (fs \<times> snapshot \<times> scan_event list list) result option" where
  "watch_poll cfg root s previous reported =
     (case take_snapshot s root of
        None \<Rightarrow> None
      | Some current \<Rightarrow>
          Some (bindE (scan_changes cfg (diff_snapshots previous current) s []) (\<lambda>(s', events).
            Inr (s', current, if events = [] then reported else reported @ [events]))))"

text \<open>\<open>watch_directory\<close> for as many polls as \<open>stop()\<close> allows; before each one other programs change the
  file system.\<close>

fun watch_loop ::
  "scan_config \<Rightarrow> string \<Rightarrow> (fs \<Rightarrow> fs) list \<Rightarrow> fs \<Rightarrow> snapshot \<Rightarrow> scan_event list list \<Rightarrow>
   (fs \<times> snapshot \<times> scan_event list list) result option" where
  "watch_loop cfg root [] s current reported = Some (Inr (s, current, reported))"
| "watch_loop cfg root (edit # edits) s current reported =
     (case watch_poll cfg root (edit s) current reported of
        None \<Rightarrow> None
      | Some (Inl e) \<Rightarrow> Some (Inl e)
      | Some (Inr (s', current', reported')) \<Rightarrow> watch_loop cfg root edits s' current' reported')"

definition watch_directory ::
  "scan_config \<Rightarrow> string \<Rightarrow> (fs \<Rightarrow> fs) list \<Rightarrow> fs \<Rightarrow> (fs \<times> snapshot \<times> scan_event list list) result option" where
  "watch_directory cfg root edits s =
     (case take_snapshot s root of
        None \<Rightarrow> None
      | Some current \<Rightarrow> watch_loop cfg root edits s current [])"

section \<open>Lemmas on the file system\<close>

lemma dict_get_delete [simp]: "dict_get (AList.delete k d) k' = (if k' = k then None else dict_get d k')"
  by (simp add: dict_get_def delete_conv')

lemma write_file_get [simp]:
  "dict_get (fs_files (write_file path content s)) p =
     (if p = path then Some \<lparr>f_content = content, f_mtime = fs_clock s, f_readable = True\<rparr>
      else dict_get (fs_files s) p)"
  by (simp add: write_file_def)

lemma remove_file_get [simp]:
  "dict_get (fs_files (remove_file path s)) p = (if p = path then None else dict_get (fs_files s) p)"
  by (simp add: remove_file_def)

lemma copy_file_get:
  "dict_get (fs_files s) src = Some f \<Longrightarrow>
   dict_get (fs_files (copy_file src dst s)) p = (if p = dst then Some f else dict_get (fs_files s) p)"
  by (simp add: copy_file_def)

lemma move_file_get:
  "dict_get (fs_files s) src = Some f \<Longrightarrow>
   dict_get (fs_files (move_file src dst s)) p =
     (if p = dst then Some f else if p = src then None else dict_get (fs_files s) p)"
  by (simp add: move_file_def)

lemma fs_dirs_ops [simp]:
  "fs_dirs (write_file path content s) = fs_dirs s" "fs_dirs (copy_file src dst s) = fs_dirs s"
  "fs_dirs (move_file src dst s) = fs_dirs s"
  by (simp_all add: write_file_def copy_file_def move_file_def split: option.splits)

lemma makedirs_files: "makedirs d s = Inr s' \<Longrightarrow> fs_files s' = fs_files s \<and> fs_clock s' = fs_clock s"
  by (auto simp: makedirs_def split: if_splits)

lemma length_path_join: "basename p \<noteq> [] \<Longrightarrow> length d < length (path_join d (basename p))"
proof -
  assume a: "basename p \<noteq> []"
  have "CHR ''/'' \<notin> set (basename p)"
    unfolding basename_def by (rule split_char_parts [of _ _ p]) simp
  then have "\<not> startswith (basename p) ''/''" by (cases "basename p") auto
  with a show ?thesis by (simp add: path_join_def)
qed

section \<open>Atomic writes\<close>

definition atomic_reach :: "string \<Rightarrow> string \<Rightarrow> string \<Rightarrow> fs \<Rightarrow> write_phase \<Rightarrow> fs \<Rightarrow> bool" where
  "atomic_reach path tmp content s0 ph s \<longleftrightarrow> (atomic_step path tmp content)\<^sup>*\<^sup>* (Fresh, s0) (ph, s)"

text \<open>What holds at each phase.\<close>

fun atomic_inv :: "string \<Rightarrow> string \<Rightarrow> string \<Rightarrow> fs \<Rightarrow> write_phase \<times> fs \<Rightarrow> bool" where
  "atomic_inv path tmp content s0 (ph, s) \<longleftrightarrow>
     (\<forall>p. p \<noteq> tmp \<and> (p \<noteq> path \<or> ph \<noteq> Replaced) \<longrightarrow> dict_get (fs_files s) p = dict_get (fs_files s0) p) \<and>
     (case ph of
        Fresh \<Rightarrow> dict_get (fs_files s) tmp = None
      | Writing n \<Rightarrow> map_option f_content (dict_get (fs_files s) tmp) = Some (take n content)
      | Replaced \<Rightarrow> dict_get (fs_files s) tmp = None \<and>
                    map_option f_content (dict_get (fs_files s) path) = Some content
      | Aborted \<Rightarrow> dict_get (fs_files s) tmp = None)"

lemma atomic_step_inv:
  assumes "atomic_step path tmp content x y" and "tmp \<noteq> path" and "atomic_inv path tmp content s0 x"
  shows "atomic_inv path tmp content s0 y"
  using assms
proof (induction rule: atomic_step.induct)
  case (aw_replace s)
  then obtain f where "dict_get (fs_files s) tmp = Some f" "f_content f = content" by auto
  with aw_replace show ?case by (simp add: move_file_get)
qed simp_all

lemma atomic_reach_inv:
  assumes "atomic_reach path tmp content s0 ph s" and "tmp \<noteq> path" and "dict_get (fs_files s0) tmp = None"
  shows "atomic_inv path tmp content s0 (ph, s)"
  using assms(1) unfolding atomic_reach_def
proof (induction rule: rtranclp_induct)
  case base
  then show ?case using assms(3) by simp
next
  case (step y z)
  then show ?case using atomic_step_inv assms(2) by blast
qed

section \<open>Enforcement of one file\<close>

lemma read_file_Inr: "read_file s path = Inr c \<Longrightarrow> \<exists>f. dict_get (fs_files s) path = Some f \<and> f_content f = c"
  by (auto simp: read_file_def split: option.splits if_splits)

text \<open>The decision an event reports is the one enforcement acts on.\<close>

lemma scan_file_SomeD:
  assumes "scan_file homes s path policy det = Some e"
  shows "\<exists>c. read_file s path = Inr c \<and> has_sensitive (det c) \<and> ev_path e = path \<and>
           ev_classifications e = sr_classifications (det c) \<and> ev_match_count e = sr_match_count (det c) \<and>
           ev_decision e = evaluate homes policy path (sr_classifications (det c))"
  using assms by (auto simp: scan_file_def Let_def split: option.splits if_splits sum.splits)

lemma enforce_block:
  assumes "read_file s path = Inr c" and "has_sensitive (det c)"
    and "evaluate homes policy path (sr_classifications (det c)) = ''block''"
  shows "enforce_file homes stamp path policy det sfx q s =
    bindE (quarantine_file stamp path q s) (\<lambda>(target, s').
      Inr (Some \<lparr>er_path = path, er_decision = ''block'', er_action = ''quarantined'',
                 er_backup = Some target, er_match_count = sr_match_count (det c)\<rparr>, s'))"
  using assms by (simp add: enforce_file_def Let_def)

lemma enforce_redact:
  assumes "read_file s path = Inr c" and "sr_redacted (det c) = Some r" and "has_sensitive (det c)"
    and "evaluate homes policy path (sr_classifications (det c)) = ''redact''"
  shows "enforce_file homes stamp path policy det sfx q s =
    Inr (Some \<lparr>er_path = path, er_decision = ''redact'', er_action = ''redacted'',
               er_backup = Some (path @ sfx), er_match_count = sr_match_count (det c)\<rparr>,
         write_file path r (copy_file path (path @ sfx) s))"
  using assms by (simp add: enforce_file_def Let_def atomic_write_def)

lemma enforce_fileE:
  assumes "enforce_file homes stamp path policy det sfx q s = Inr (Some r, s')" and "er_action r \<noteq> ''none''"
  obtains (redacted) c red where "read_file s path = Inr c" "sr_redacted (det c) = Some red"
      "er_action r = ''redacted''" "er_backup r = Some (path @ sfx)"
      "s' = write_file path red (copy_file path (path @ sfx) s)"
  | (quarantined) c target where "read_file s path = Inr c" "er_action r = ''quarantined''"
      "er_backup r = Some target" "quarantine_file stamp path q s = Inr (target, s')"
proof (cases "read_file s path")
  case (Inl e)
  then show thesis using assms(1) by (simp add: enforce_file_def)
next
  case (Inr c)
  let ?d = "evaluate homes policy path (sr_classifications (det c))"
  have h: "has_sensitive (det c)"
    using assms(1) Inr by (auto simp: enforce_file_def Let_def split: if_splits)
  show thesis
  proof (cases "?d = ''redact'' \<and> sr_redacted (det c) \<noteq> None")
    case True
    then obtain red where "sr_redacted (det c) = Some red" by blast
    with enforce_redact [where det = det, OF Inr this h, where homes = homes and policy = policy] True assms(1) show thesis
      by (intro redacted [OF Inr]) auto
  next
    case False
    then have n: "(if ?d = ''redact'' then sr_redacted (det c) else None) = None" by auto
    show thesis
    proof (cases "?d = ''block''")
      case True
      from assms(1) [unfolded enforce_block [where det = det, OF Inr h True]] obtain target where
        "quarantine_file stamp path q s = Inr (target, s')" "er_action r = ''quarantined''" "er_backup r = Some target"
        by (auto simp: bindE_eq_Inr_iff)
      then show thesis by (intro quarantined [OF Inr])
    next
      case False
      with n h Inr assms show thesis by (auto simp: enforce_file_def Let_def)
    qed
  qed
qed

lemma quarantine_fileE:
  assumes "quarantine_file stamp path q s = Inr (target, s')"
  obtains d s1 where "q = Some d" "makedirs d s = Inr s1" "s' = move_file path target s1"
  using assms by (auto simp: quarantine_file_def bindE_eq_Inr_iff Let_def split: option.splits)

lemma enforce_conserves:
  assumes "enforce_file homes stamp path policy det sfx q s = Inr (Some r, s')"
    and "er_action r \<noteq> ''none''" and "sfx \<noteq> []"
  shows "\<exists>f target. dict_get (fs_files s) path = Some f \<and> er_backup r = Some target \<and>
           dict_get (fs_files s') target = Some f \<and>
           (er_action r = ''redacted'' \<longrightarrow>
              map_option f_content (dict_get (fs_files s') path) = sr_redacted (det (f_content f))) \<and>
           (er_action r = ''quarantined'' \<longrightarrow> path = target \<or> dict_get (fs_files s') path = None) \<and>
           (\<forall>p. p \<noteq> path \<longrightarrow> p \<noteq> target \<longrightarrow> dict_get (fs_files s') p = dict_get (fs_files s) p)"
  using assms(1,2)
proof (cases rule: enforce_fileE)
  case (redacted c red)
  obtain f where "dict_get (fs_files s) path = Some f" "f_content f = c"
    using read_file_Inr [OF redacted(1)] by blast
  with redacted assms(3) show ?thesis
    by (intro exI [of _ f] exI [of _ "path @ sfx"]) (auto simp: copy_file_get)
next
  case (quarantined c target)
  obtain f where f: "dict_get (fs_files s) path = Some f" "f_content f = c"
    using read_file_Inr [OF quarantined(1)] by blast
  obtain d s1 where s1: "makedirs d s = Inr s1" "s' = move_file path target s1"
    using quarantine_fileE [OF quarantined(4)] by blast
  have "fs_files s1 = fs_files s" using makedirs_files [OF s1(1)] by simp
  with f s1(2) quarantined show ?thesis
    by (intro exI [of _ f] exI [of _ target]) (auto simp: move_file_get)
qed

section \<open>Scans\<close>

text \<open>What every file of a walk keeps, the whole walk keeps.\<close>

definition kept_by_file :: "scan_config \<Rightarrow> (fs \<Rightarrow> scan_event list \<Rightarrow> nat \<Rightarrow> bool) \<Rightarrow> bool" where
  "kept_by_file cfg I \<longleftrightarrow>
     (\<forall>path s events k s' events'. I s events k \<longrightarrow> k < sc_max_files cfg \<longrightarrow>
        scan_one cfg path s events = Inr (s', events') \<longrightarrow> I s' events' (Suc k))"

definition holds_in :: "(fs \<Rightarrow> scan_event list \<Rightarrow> nat \<Rightarrow> bool) \<Rightarrow> scan_state \<Rightarrow> bool" where
  "holds_in I st \<longleftrightarrow> I (ss_fs st) (ss_events st) (ss_scanned st)"

lemma scan_names_kept:
  assumes "kept_by_file cfg I"
  shows "scan_names cfg dirpath names st = Inr (full, st') \<Longrightarrow> holds_in I st \<Longrightarrow> holds_in I st'"
proof (induction names arbitrary: st)
  case Nil
  then show ?case by simp
next
  case (Cons name names)
  show ?case
  proof (cases "ss_scanned st \<ge> sc_max_files cfg")
    case True
    with Cons.prems show ?thesis by simp
  next
    case False
    then obtain s' events where one: "scan_one cfg (path_join dirpath name) (ss_fs st) (ss_events st) = Inr (s', events)"
      and more: "scan_names cfg dirpath names
        \<lparr>ss_fs = s', ss_events = events, ss_scanned = Suc (ss_scanned st)\<rparr> = Inr (full, st')"
      using Cons.prems(1) by (auto simp: bindE_eq_Inr_iff)
    have "holds_in I \<lparr>ss_fs = s', ss_events = events, ss_scanned = Suc (ss_scanned st)\<rparr>"
      using assms Cons.prems(2) one False unfolding kept_by_file_def holds_in_def by force
    with more show ?thesis by (rule Cons.IH)
  qed
qed

lemma scan_walk_kept:
  "kept_by_file cfg I \<Longrightarrow>
    scan_walk cfg n dirpath st = Some (Inr (full, st')) \<Longrightarrow> holds_in I st \<Longrightarrow> holds_in I st'"
  "kept_by_file cfg I \<Longrightarrow>
    scan_children cfg n dirpath ds st = Some (Inr (full, st')) \<Longrightarrow> holds_in I st \<Longrightarrow> holds_in I st'"
proof (induction cfg n dirpath st and cfg n dirpath ds st arbitrary: full st' and full st'
    rule: scan_walk_scan_children.induct)
  case (2 cfg n dirpath st)
  obtain f st1 where names: "scan_names cfg dirpath (filenames (ss_fs st) dirpath) st = Inr (f, st1)"
    using 2(3) by (auto simp: Let_def split: sum.splits)
  have "holds_in I st1" by (rule scan_names_kept [OF 2(2) names 2(4)])
  then show ?case
    using 2 names by (auto simp: Let_def split: if_splits)
next
  case (4 cfg n dirpath d ds st)
  then show ?case
    by (auto split: option.splits sum.splits if_splits)
qed auto

lemma scan_directoryE:
  assumes "scan_directory cfg root s = Some (Inr (events, s'))"
  obtains full st where "scan_walk cfg (walk_fuel s (sc_quarantine cfg)) root
      \<lparr>ss_fs = s, ss_events = [], ss_scanned = 0\<rparr> = Some (Inr (full, st))" "ss_events st = events" "ss_fs st = s'"
  using assms by (auto simp: scan_directory_def split: option.splits sum.splits)

lemma scan_directory_kept:
  assumes "kept_by_file cfg I" and "scan_directory cfg root s = Some (Inr (events, s'))" and "I s [] 0"
  shows "\<exists>k. I s' events k"
proof -
  obtain full st where "scan_walk cfg (walk_fuel s (sc_quarantine cfg)) root
      \<lparr>ss_fs = s, ss_events = [], ss_scanned = 0\<rparr> = Some (Inr (full, st))" "ss_events st = events" "ss_fs st = s'"
    using assms(2) by (rule scan_directoryE)
  then show ?thesis
    using scan_walk_kept(1) [OF assms(1)] assms(3) by (fastforce simp: holds_in_def)
qed

text \<open>A scan that only reports: nothing changes, and the events are those of the files read, at most as
  many as the limit.\<close>

definition reporting :: "scan_config \<Rightarrow> fs \<Rightarrow> fs \<Rightarrow> scan_event list \<Rightarrow> nat \<Rightarrow> bool" where
  "reporting cfg s0 s events k \<longleftrightarrow> s = s0 \<and> length events \<le> k \<and> k \<le> sc_max_files cfg \<and>
     (\<forall>e \<in> set events. scan_file (sc_homes cfg) s0 (ev_path e) (sc_policy cfg) (sc_detector cfg) = Some e)"

lemma reporting_kept: "\<not> sc_enforce cfg \<Longrightarrow> kept_by_file cfg (reporting cfg s0)"
  unfolding kept_by_file_def reporting_def
  by (auto simp: scan_one_def split: option.splits dest: scan_file_SomeD)

lemma reporting_scan:
  assumes "\<not> sc_enforce cfg" and "scan_directory cfg root s = Some (Inr (events, s'))"
  shows "s' = s \<and> length events \<le> sc_max_files cfg \<and>
    (\<forall>e \<in> set events. scan_file (sc_homes cfg) s (ev_path e) (sc_policy cfg) (sc_detector cfg) = Some e)"
  using scan_directory_kept [OF reporting_kept [OF assms(1)] assms(2), of s]
  by (auto simp: reporting_def)

text \<open>An enforcing scan without a quarantine directory cannot get past a file to be blocked.\<close>

lemma no_block_kept:
  assumes "sc_enforce cfg" and "sc_quarantine cfg = None"
  shows "kept_by_file cfg (\<lambda>s events k. list_all (\<lambda>e. ev_decision e \<noteq> ''block'') events)"
proof -
  have "ev_decision e \<noteq> ''block''"
    if "scan_file (sc_homes cfg) s path (sc_policy cfg) (sc_detector cfg) = Some e"
      and "scan_one cfg path s events = Inr (s', events')" for path s events s' events' e
  proof
    assume "ev_decision e = ''block''"
    then have "enforce_file (sc_homes cfg) (sc_stamp cfg) path (sc_policy cfg) (sc_detector cfg) BACKUP_SUFFIX None s =
        Inl (TypeError ''makedirs: path should be string, not NoneType'')"
      using scan_file_SomeD [OF that(1)] by (auto simp: enforce_block quarantine_file_def)
    with that assms show False by (simp add: scan_one_def)
  qed
  then show ?thesis
    unfolding kept_by_file_def
    by (auto simp: scan_one_def bindE_eq_Inr_iff split: option.splits)
qed

text \<open>The walk ends within its fuel: every level lengthens the path, and no directory is as long as the
  fuel, not even those a quarantine creates.\<close>

lemma join_take_le:
  "length (join ''/'' (take n ps)) \<le> length (join ''/'' ps)"
proof (induction ps arbitrary: n)
  case (Cons p ps)
  then show ?case
  proof (cases n)
    case (Suc m)
    show ?thesis
    proof (cases ps)
      case (Cons q qs)
      show ?thesis
      proof (cases m)
        case 0
        then show ?thesis using Suc Cons by simp
      next
        case (Suc m')
        then have "take n (p # ps) = p # q # take m' qs" using \<open>n = Suc m\<close> Cons by simp
        then show ?thesis using Cons.IH [of m] Suc Cons by simp
      qed
    qed (simp add: Suc)
  qed simp
qed simp

lemma ancestors_length: "p \<in> set (ancestors d) \<Longrightarrow> length p \<le> length d"
  using join_take_le [of _ "parts_of d"] by (auto simp: ancestors_def join_split_char)

definition short_dirs :: "nat \<Rightarrow> fs \<Rightarrow> bool" where
  "short_dirs b s \<longleftrightarrow> (\<forall>p \<in> set (fs_dirs s). length p < b)"

lemma makedirs_short:
  "makedirs d s = Inr s' \<Longrightarrow> length d < b \<Longrightarrow> short_dirs b s \<Longrightarrow> short_dirs b s'"
  by (auto simp: makedirs_def short_dirs_def split: if_splits dest!: ancestors_length)

lemma enforce_short:
  assumes "enforce_file homes stamp path policy det sfx q s = Inr (r, s')"
    and "\<And>d. q = Some d \<Longrightarrow> length d < b" and "short_dirs b s"
  shows "short_dirs b s'"
proof (cases "\<exists>x. r = Some x \<and> er_action x \<noteq> ''none''")
  case True
  then obtain x where x: "r = Some x" "er_action x \<noteq> ''none''" by blast
  from assms(1) [unfolded x(1)] x(2) show ?thesis
  proof (cases rule: enforce_fileE)
    case (redacted c red)
    then show ?thesis using assms(3) by (simp add: short_dirs_def)
  next
    case (quarantined c target)
    obtain d s1 where "q = Some d" "makedirs d s = Inr s1" "s' = move_file path target s1"
      using quarantine_fileE [OF quarantined(4)] by blast
    then show ?thesis using makedirs_short [of d s s1 b] assms(2,3) by (simp add: short_dirs_def)
  qed
next
  case False
  have "s' = s"
  proof (rule ccontr)
    assume "s' \<noteq> s"
    with assms(1) have "\<exists>x. r = Some x \<and> er_action x \<noteq> ''none''"
      by (auto simp: enforce_file_def Let_def bindE_eq_Inr_iff split: sum.splits if_splits option.splits)
    with False show False by blast
  qed
  with assms(3) show ?thesis by simp
qed

lemma short_dirs_kept:
  assumes "\<And>d. sc_quarantine cfg = Some d \<Longrightarrow> length d < b"
  shows "kept_by_file cfg (\<lambda>s events k. short_dirs b s)"
  unfolding kept_by_file_def
proof (intro allI impI)
  fix path s s' and events events' :: "scan_event list" and k
  assume "short_dirs b s" and one: "scan_one cfg path s events = Inr (s', events')"
  then show "short_dirs b s'"
    using enforce_short [where q = "sc_quarantine cfg" and b = b, OF _ assms]
    by (fastforce simp: scan_one_def bindE_eq_Inr_iff split: option.splits if_splits)
qed

lemma scan_walk_total:
  "kept_by_file cfg (\<lambda>s events k. short_dirs b s) \<Longrightarrow> short_dirs b (ss_fs st) \<Longrightarrow>
     0 < n \<Longrightarrow> b \<le> length dirpath + n \<Longrightarrow> scan_walk cfg n dirpath st \<noteq> None"
  "kept_by_file cfg (\<lambda>s events k. short_dirs b s) \<Longrightarrow> short_dirs b (ss_fs st) \<Longrightarrow>
     b \<le> Suc (length dirpath + n) \<Longrightarrow>
     (\<forall>d \<in> set ds. length dirpath < length (path_join dirpath d) \<and> length (path_join dirpath d) < b) \<Longrightarrow>
     scan_children cfg n dirpath ds st \<noteq> None"
proof (induction cfg n dirpath st and cfg n dirpath ds st rule: scan_walk_scan_children.induct)
  case (2 cfg n dirpath st)
  show ?case
  proof (cases "scan_names cfg dirpath (filenames (ss_fs st) dirpath) st")
    case (Inl e)
    then show ?thesis by (simp add: Let_def)
  next
    case (Inr r)
    obtain full st' where r: "r = (full, st')" by (cases r)
    have "holds_in (\<lambda>s events k. short_dirs b s) st'"
      by (rule scan_names_kept [OF 2(2) Inr [unfolded r]]) (simp add: holds_in_def 2(3))
    then have "short_dirs b (ss_fs st')" by (simp add: holds_in_def)
    moreover have "\<forall>d \<in> set (dirnames (ss_fs st) dirpath).
        length dirpath < length (path_join dirpath d) \<and> length (path_join dirpath d) < b"
      using 2(3) length_path_join by (fastforce simp: dirnames_def child_of_def short_dirs_def)
    ultimately show ?thesis using 2 Inr r by (simp add: Let_def)
  qed
next
  case (4 cfg n dirpath d ds st)
  have n: "0 < n" "b \<le> length (path_join dirpath d) + n"
    using 4(5,6) by auto
  then obtain x where x: "scan_walk cfg n (path_join dirpath d) st = Some x"
    using 4(1,3,4) by auto
  show ?case
  proof (cases x)
    case (Inl e)
    then show ?thesis using x by simp
  next
    case (Inr r)
    obtain full st' where r: "r = (full, st')" by (cases r)
    have "holds_in (\<lambda>s events k. short_dirs b s) st'"
      by (rule scan_walk_kept(1) [OF 4(3)]) (use x Inr r 4(4) in \<open>simp_all add: holds_in_def\<close>)
    then show ?thesis using 4 x Inr r by (simp add: holds_in_def)
  qed
qed simp_all

lemma fold_max_ge: "m \<le> fold max xs (m :: nat)"
proof (induction xs arbitrary: m)
  case (Cons x xs)
  have "m \<le> max x m" by simp
  also have "\<dots> \<le> fold max xs (max x m)" by (rule Cons.IH)
  finally show ?case by simp
qed simp

lemma fold_max_member: "x \<in> set xs \<Longrightarrow> x \<le> fold max xs (m :: nat)"
proof (induction xs arbitrary: m)
  case (Cons y xs)
  show ?case
  proof (cases "x = y")
    case True
    have "y \<le> max y m" by simp
    also have "\<dots> \<le> fold max xs (max y m)" by (rule fold_max_ge)
    finally show ?thesis using True by simp
  next
    case False
    with Cons show ?thesis by simp
  qed
qed simp

lemma scan_directory_total: "scan_directory cfg root s \<noteq> None"
proof -
  let ?b = "walk_fuel s (sc_quarantine cfg)"
  have "short_dirs ?b s"
    using fold_max_member [of _ "map length (fs_dirs s)"]
    by (auto simp: short_dirs_def walk_fuel_def le_imp_less_Suc)
  moreover have "length d < ?b" if "sc_quarantine cfg = Some d" for d
    using that fold_max_ge [of "length d"] by (simp add: walk_fuel_def le_imp_less_Suc)
  ultimately show ?thesis
    using scan_walk_total(1) [OF short_dirs_kept [of cfg ?b], of "\<lparr>ss_fs = s, ss_events = [], ss_scanned = 0\<rparr>" ?b root]
    by (auto simp: scan_directory_def walk_fuel_def split: option.splits sum.splits)
qed

section \<open>A watcher that enforces\<close>

text \<open>The \<open>i\<close>-th backup of a path.\<close>

definition backup_name :: "string \<Rightarrow> nat \<Rightarrow> string" where
  "backup_name p i = p @ concat (replicate i BACKUP_SUFFIX)"

lemma backup_name_0 [simp]: "backup_name p 0 = p"
  by (simp add: backup_name_def)

lemma backup_name_Suc: "backup_name p (Suc i) = backup_name p i @ BACKUP_SUFFIX"
proof -
  have "concat (replicate i xs) @ xs = xs @ concat (replicate i xs)" for xs :: string
    by (induction i) auto
  then show ?thesis by (simp add: backup_name_def)
qed

lemma length_backup_name: "length (backup_name p i) = length p + i * 11"
  by (induction i) (simp_all add: backup_name_Suc BACKUP_SUFFIX_def)

lemma backup_name_inj [simp]: "backup_name p i = backup_name p j \<longleftrightarrow> i = j"
proof
  assume "backup_name p i = backup_name p j"
  then have "length p + i * 11 = length p + j * 11" by (metis length_backup_name)
  then show "i = j" by simp
qed simp

lemma basename_after_slash: "CHR ''/'' \<notin> set x \<Longrightarrow> basename (e @ CHR ''/'' # x) = x"
  by (simp add: basename_def split_char_append split_char_no)

lemma basename_path_join:
  assumes "CHR ''/'' \<notin> set x"
  shows "basename (path_join d x) = x"
proof -
  have x: "\<not> startswith x ''/''" using assms by (cases x) auto
  consider "d = []" | e where "d = e @ ''/''" | "d \<noteq> []" "\<not> endswith d ''/''"
    unfolding endswith_iff by blast
  then show ?thesis
  proof cases
    case 1
    then have "path_join d x = x" using x by (simp add: path_join_def)
    then show ?thesis using assms by (simp add: basename_def split_char_no)
  next
    case 2
    then have "endswith d ''/''" unfolding endswith_iff by blast
    then have "path_join d x = e @ CHR ''/'' # x" using 2 x by (simp add: path_join_def)
    then show ?thesis using assms by (simp add: basename_after_slash)
  next
    case 3
    then have "path_join d x = d @ CHR ''/'' # x" using x by (simp add: path_join_def)
    then show ?thesis using assms by (simp add: basename_after_slash)
  qed
qed

lemma path_join_append: "x \<noteq> [] \<Longrightarrow> CHR ''/'' \<notin> set x \<Longrightarrow> path_join d x @ y = path_join d (x @ y)"
  by (cases x) (auto simp: path_join_def)

lemma backup_child:
  assumes "name \<noteq> []" and "CHR ''/'' \<notin> set name"
  shows "child_of root (backup_name (path_join root name) i)"
proof -
  have "CHR ''/'' \<notin> set (name @ concat (replicate i BACKUP_SUFFIX))"
    using assms(2) by (auto simp: BACKUP_SUFFIX_def)
  moreover have "backup_name (path_join root name) i = path_join root (name @ concat (replicate i BACKUP_SUFFIX))"
    using assms by (simp add: backup_name_def path_join_append)
  ultimately show ?thesis using assms(1) by (simp add: child_of_def basename_path_join)
qed

lemma dict_set_keys:
  "map fst (dict_set k v d) = (if k \<in> fst ` set d then map fst d else map fst d @ [k])"
  by (simp add: dict_set_def update_keys)

text \<open>The snapshot of a directory without subdirectories.\<close>

definition signature_of :: "string \<times> file_entry \<Rightarrow> string \<times> (nat \<times> nat)" where
  "signature_of x = (fst x, f_mtime (snd x), length (f_content (snd x)))"

lemma snapshot_flat:
  assumes "wf_dict (fs_files s)" and "fs_dirs s = []" and "\<forall>p \<in> fst ` set (fs_files s). child_of root p"
  shows "take_snapshot s root = Some (map signature_of (fs_files s))"
proof -
  have "map (path_join root) (filenames s root) = map fst (fs_files s)"
  proof -
    have "filter (child_of root) (map fst (fs_files s)) = map fst (fs_files s)"
      using assms(3) by (simp add: filter_id_conv)
    then show ?thesis
      using assms(3) unfolding filenames_def by (auto simp: child_of_def)
  qed
  then have w: "walk_files (walk_fuel s None) s root = Some (map fst (fs_files s))"
    using assms(2) by (simp add: walk_fuel_def dirnames_def)
  have "map (\<lambda>p. case dict_get (fs_files s) p of None \<Rightarrow> []
        | Some f \<Rightarrow> [(p, f_mtime f, length (f_content f))]) (map fst (fs_files s)) =
      map (\<lambda>x. [signature_of x]) (fs_files s)"
  proof -
    have g: "dict_get (fs_files s) (fst x) = Some (snd x)" if "x \<in> set (fs_files s)" for x
      using assms(1) that by (simp add: dict_get_def wf_dict_def)
    show ?thesis
      unfolding list.map_comp by (rule map_cong [OF refl]) (simp add: g signature_of_def)
  qed
  then have "concat (map (\<lambda>p. case dict_get (fs_files s) p of None \<Rightarrow> []
        | Some f \<Rightarrow> [(p, f_mtime f, length (f_content f))]) (map fst (fs_files s))) = map signature_of (fs_files s)"
    by (metis concat_map_singleton)
  moreover have "wf_dict (map signature_of (fs_files s))"
  proof -
    have "map fst (map signature_of (fs_files s)) = map fst (fs_files s)"
      by (simp add: signature_of_def comp_def)
    then show ?thesis using assms(1) by (simp only: wf_dict_def)
  qed
  ultimately show ?thesis using w by (simp add: take_snapshot_def dict_of_distinct)
qed

lemma scan_changes_append:
  "scan_changes cfg (ps @ qs) s ev =
   bindE (scan_changes cfg ps s ev) (\<lambda>(s', ev'). scan_changes cfg qs s' ev')"
proof (induction ps arbitrary: s ev)
  case (Cons p ps)
  then show ?case by (cases "scan_one cfg p s ev") auto
qed simp

lemma scan_changes_clean:
  "(\<forall>p \<in> set ps. scan_file (sc_homes cfg) s p (sc_policy cfg) (sc_detector cfg) = None) \<Longrightarrow>
   scan_changes cfg ps s ev = Inr (s, ev)"
  by (induction ps) (auto simp: scan_one_def)

text \<open>The setting: a sensitive content with a clean redacted copy, whose decision is \<open>redact\<close> on each of
  its backups too.\<close>

definition redactable :: "scan_config \<Rightarrow> string \<Rightarrow> string \<Rightarrow> string \<Rightarrow> bool" where
  "redactable cfg p c r \<longleftrightarrow>
     sc_enforce cfg \<and> c \<noteq> [] \<and> length c \<le> MAX_FILE_BYTES \<and> has_sensitive (sc_detector cfg c) \<and>
     sr_redacted (sc_detector cfg c) = Some r \<and> \<not> has_sensitive (sc_detector cfg r) \<and>
     (\<forall>i. evaluate (sc_homes cfg) (sc_policy cfg) (backup_name p i)
            (sr_classifications (sc_detector cfg c)) = ''redact'')"

definition holds_content :: "fs \<Rightarrow> string \<Rightarrow> string \<Rightarrow> bool" where
  "holds_content s p c \<longleftrightarrow> (\<exists>f. dict_get (fs_files s) p = Some f \<and> f_content f = c \<and> f_readable f)"

definition backed_up :: "string \<Rightarrow> string \<Rightarrow> string \<Rightarrow> nat \<Rightarrow> fs \<Rightarrow> bool" where
  "backed_up p c r k s \<longleftrightarrow> map fst (fs_files s) = map (backup_name p) [0..<Suc k] \<and> fs_dirs s = [] \<and>
     (\<forall>i < k. holds_content s (backup_name p i) r) \<and> holds_content s (backup_name p k) c"

lemma holds_read: "holds_content s p c \<Longrightarrow> read_file s p = Inr c"
  by (auto simp: holds_content_def read_file_def)

lemma scan_clean: "holds_content s p r \<Longrightarrow> \<not> has_sensitive (det r) \<Longrightarrow> scan_file homes s p policy det = None"
  by (auto simp: scan_file_def holds_content_def read_file_def Let_def)

lemma scan_redact:
  assumes "redactable cfg p c r" and "holds_content s (backup_name p k) c"
  shows "\<exists>e. scan_one cfg (backup_name p k) s ev =
    Inr (write_file (backup_name p k) r (copy_file (backup_name p k) (backup_name p (Suc k)) s), ev @ [e])"
proof -
  have ev: "evaluate (sc_homes cfg) (sc_policy cfg) (backup_name p k) (sr_classifications (sc_detector cfg c)) = ''redact''"
    using assms(1) by (simp add: redactable_def)
  note rd = holds_read [OF assms(2)]
  obtain e where e: "scan_file (sc_homes cfg) s (backup_name p k) (sc_policy cfg) (sc_detector cfg) = Some e"
    using assms rd by (auto simp: scan_file_def holds_content_def redactable_def Let_def)
  have "enforce_file (sc_homes cfg) (sc_stamp cfg) (backup_name p k) (sc_policy cfg) (sc_detector cfg)
      BACKUP_SUFFIX (sc_quarantine cfg) s =
    Inr (Some \<lparr>er_path = backup_name p k, er_decision = ''redact'', er_action = ''redacted'',
               er_backup = Some (backup_name p k @ BACKUP_SUFFIX), er_match_count = sr_match_count (sc_detector cfg c)\<rparr>,
         write_file (backup_name p k) r (copy_file (backup_name p k) (backup_name p k @ BACKUP_SUFFIX) s))"
    using assms(1) by (intro enforce_redact [where det = "sc_detector cfg", OF rd _ _ ev]) (simp_all add: redactable_def)
  then show ?thesis
    using e assms(1) by (simp add: scan_one_def redactable_def backup_name_Suc)
qed

lemma backed_up_step:
  assumes "backed_up p c r k s"
  shows "backed_up p c r (Suc k) (write_file (backup_name p k) r (copy_file (backup_name p k) (backup_name p (Suc k)) s))"
proof -
  obtain f where f: "dict_get (fs_files s) (backup_name p k) = Some f" "f_content f = c" "f_readable f"
    using assms by (auto simp: backed_up_def holds_content_def)
  have keys: "fst ` set (fs_files s) = backup_name p ` {0..<Suc k}"
    using assms by (metis backed_up_def list.set_map set_upt)
  let ?d = "dict_set (backup_name p (Suc k)) f (fs_files s)"
  have k1: "map fst ?d = map (backup_name p) [0..<Suc (Suc k)]"
    using assms keys by (auto simp: dict_set_keys backed_up_def)
  then have "backup_name p k \<in> fst ` set ?d" by (metis imageI list.set_map set_upt atLeastLessThan_iff lessI less_Suc_eq zero_le)
  with k1 have "map fst (fs_files (write_file (backup_name p k) r (copy_file (backup_name p k) (backup_name p (Suc k)) s))) =
      map (backup_name p) [0..<Suc (Suc k)]"
    using f by (simp add: write_file_def copy_file_def dict_set_keys)
  then show ?thesis
    using assms f by (auto simp: backed_up_def holds_content_def copy_file_get less_Suc_eq)
qed

lemma poll_grows:
  assumes "redactable cfg (path_join root name) c r" and "name \<noteq> []" and "CHR ''/'' \<notin> set name"
    and "backed_up (path_join root name) c r k s"
    and "dict_get prev (backup_name (path_join root name) k) = None"
  shows "\<exists>s' cur rep'. watch_poll cfg root s prev rep = Some (Inr (s', cur, rep')) \<and>
    backed_up (path_join root name) c r (Suc k) s' \<and>
    dict_get cur (backup_name (path_join root name) (Suc k)) = None"
proof -
  let ?p = "path_join root name"
  have keys: "map fst (fs_files s) = map (backup_name ?p) [0..<Suc k]" and dirs: "fs_dirs s = []"
    using assms(4) by (simp_all add: backed_up_def)
  have "distinct (map fst (fs_files s))"
    unfolding keys by (auto simp: distinct_map inj_on_def)
  then have wf: "wf_dict (fs_files s)" by (simp add: wf_dict_def)
  have "fst ` set (fs_files s) = backup_name ?p ` {0..<Suc k}"
    using keys by (metis list.set_map set_upt)
  then have "\<forall>q \<in> fst ` set (fs_files s). child_of root q"
    using backup_child [OF assms(2,3)] by auto
  then have snap: "take_snapshot s root = Some (map signature_of (fs_files s))"
    using snapshot_flat [OF wf dirs] by blast
  let ?cur = "map signature_of (fs_files s)"
  have ck: "map fst ?cur = map (backup_name ?p) [0..<k] @ [backup_name ?p k]"
    using keys by (simp add: signature_of_def comp_def)
  then obtain front sg where cur: "?cur = front @ [(backup_name ?p k, sg)]" and fk: "map fst front = map (backup_name ?p) [0..<k]"
    by (cases ?cur rule: rev_cases) auto
  obtain ys where ys: "diff_snapshots prev ?cur = ys @ [backup_name ?p k]" "set ys \<subseteq> backup_name ?p ` {0..<k}"
  proof
    let ?f = "\<lambda>(path, signature). dict_get prev path \<noteq> Some signature"
    show "diff_snapshots prev ?cur = map fst (filter ?f front) @ [backup_name ?p k]"
      using assms(5) unfolding diff_snapshots_def cur by simp
    have "set (map fst (filter ?f front)) \<subseteq> set (map fst front)" by auto
    then show "set (map fst (filter ?f front)) \<subseteq> backup_name ?p ` {0..<k}" using fk by simp
  qed
  have "scan_file (sc_homes cfg) s q (sc_policy cfg) (sc_detector cfg) = None" if "q \<in> set ys" for q
    using that ys(2) assms(1,4) by (intro scan_clean [where r = r]) (auto simp: backed_up_def redactable_def)
  then have clean: "scan_changes cfg ys s [] = Inr (s, [])" by (simp add: scan_changes_clean)
  obtain e where "scan_one cfg (backup_name ?p k) s [] =
      Inr (write_file (backup_name ?p k) r (copy_file (backup_name ?p k) (backup_name ?p (Suc k)) s), [] @ [e])"
    using scan_redact [OF assms(1), of s k "[]"] assms(4) by (auto simp: backed_up_def)
  then have "watch_poll cfg root s prev rep =
      Some (Inr (write_file (backup_name ?p k) r (copy_file (backup_name ?p k) (backup_name ?p (Suc k)) s), ?cur, rep @ [[e]]))"
    using clean by (simp add: watch_poll_def snap ys(1) scan_changes_append)
  moreover have "dict_get ?cur (backup_name ?p (Suc k)) = None"
  proof -
    have "backup_name ?p (Suc k) \<notin> set (map fst ?cur)" unfolding ck by auto
    then show ?thesis unfolding dict_get_def by (metis list.set_map map_of_eq_None_iff)
  qed
  ultimately show ?thesis using backed_up_step [OF assms(4)] by blast
qed

lemma loop_grows:
  assumes "redactable cfg (path_join root name) c r" and "name \<noteq> []" and "CHR ''/'' \<notin> set name"
  shows "backed_up (path_join root name) c r k s \<Longrightarrow> dict_get prev (backup_name (path_join root name) k) = None \<Longrightarrow>
    \<exists>s' cur rep'. watch_loop cfg root (replicate n id) s prev rep = Some (Inr (s', cur, rep')) \<and>
      backed_up (path_join root name) c r (k + n) s'"
proof (induction n arbitrary: k s prev rep)
  case 0
  then show ?case by simp
next
  case (Suc n)
  obtain s1 cur1 rep1 where p: "watch_poll cfg root s prev rep = Some (Inr (s1, cur1, rep1))"
    "backed_up (path_join root name) c r (Suc k) s1"
    "dict_get cur1 (backup_name (path_join root name) (Suc k)) = None"
    using poll_grows [OF assms Suc.prems, of rep] by blast
  from Suc.IH [OF p(2,3), of rep1] p(1) show ?case by simp
qed

text \<open>A full run of an atomic write exists, so \<open>atomic_write\<close> is its outcome.\<close>

lemma atomic_writing:
  "n \<le> length content \<Longrightarrow> \<exists>s. atomic_reach path tmp content s0 (Writing n) s"
proof (induction n)
  case 0
  show ?case unfolding atomic_reach_def by (blast intro: atomic_step.aw_create)
next
  case (Suc n)
  then obtain s where "atomic_reach path tmp content s0 (Writing n) s" by auto
  moreover have "atomic_step path tmp content (Writing n, s) (Writing (Suc n), write_file tmp (take (Suc n) content) s)"
    using Suc.prems by (intro atomic_step.aw_write) simp
  ultimately show ?case
    unfolding atomic_reach_def by (blast intro: rtranclp.rtrancl_into_rtrancl)
qed

lemma atomic_completes: "\<exists>s. atomic_reach path tmp content s0 Replaced s"
proof -
  obtain s where "atomic_reach path tmp content s0 (Writing (length content)) s"
    using atomic_writing [of "length content"] by blast
  then show ?thesis
    unfolding atomic_reach_def by (blast intro: rtranclp.rtrancl_into_rtrancl atomic_step.aw_replace)
qed

section \<open>Properties\<close>

text \<open>C6: at every point of an atomic write, a crash included, the target holds its old file or, once
  replaced, the whole new content; no other file changes, and the temporary file is gone when the
  write has ended or failed.  The write can end, with the contents \<open>atomic_write\<close> gives.\<close>

theorem atomic_write_crash_safe:
  assumes "tmp \<noteq> path" and "dict_get (fs_files s0) tmp = None"
  shows "(\<forall>ph s. atomic_reach path tmp content s0 ph s \<longrightarrow>
            (dict_get (fs_files s) path = dict_get (fs_files s0) path \<or>
             ph = Replaced \<and> map_option f_content (dict_get (fs_files s) path) = Some content) \<and>
            (\<forall>p. p \<noteq> path \<longrightarrow> p \<noteq> tmp \<longrightarrow> dict_get (fs_files s) p = dict_get (fs_files s0) p) \<and>
            (ph \<in> {Replaced, Aborted} \<longrightarrow> dict_get (fs_files s) tmp = None)) \<and>
         (\<exists>s. atomic_reach path tmp content s0 Replaced s \<and>
            (\<forall>p. map_option f_content (dict_get (fs_files s) p) =
                  map_option f_content (dict_get (fs_files (atomic_write path content s0)) p)))"
proof (intro conjI allI impI)
  fix ph s
  assume r: "atomic_reach path tmp content s0 ph s"
  note inv = atomic_reach_inv [OF r assms]
  show "dict_get (fs_files s) path = dict_get (fs_files s0) path \<or>
      ph = Replaced \<and> map_option f_content (dict_get (fs_files s) path) = Some content"
    using inv assms(1) by (cases "ph = Replaced") auto
  show "dict_get (fs_files s) p = dict_get (fs_files s0) p" if "p \<noteq> path" "p \<noteq> tmp" for p
    using inv that by auto
  show "dict_get (fs_files s) tmp = None" if "ph \<in> {Replaced, Aborted}"
    using inv that by auto
next
  obtain s where r: "atomic_reach path tmp content s0 Replaced s" using atomic_completes by blast
  note inv = atomic_reach_inv [OF r assms]
  have "map_option f_content (dict_get (fs_files s) p) =
      map_option f_content (dict_get (fs_files (atomic_write path content s0)) p)" for p
    using inv assms by (cases "p = path"; cases "p = tmp") (auto simp: atomic_write_def)
  with r show "\<exists>s. atomic_reach path tmp content s0 Replaced s \<and>
      (\<forall>p. map_option f_content (dict_get (fs_files s) p) =
            map_option f_content (dict_get (fs_files (atomic_write path content s0)) p))"
    by blast
qed

definition sample_fs :: fs where
  "sample_fs = \<lparr>fs_files = [(''/d/a'', \<lparr>f_content = ''bob@x.org'', f_mtime = 0, f_readable = True\<rparr>)],
     fs_dirs = [''/d''], fs_clock = 1\<rparr>"

theorem atomic_write_crash_safe_witness:
  "\<exists>s. atomic_reach ''/d/a'' ''/d/.pysetu-x.tmp'' ''new'' sample_fs Replaced s \<and>
     map_option f_content (dict_get (fs_files s) ''/d/a'') = Some ''new''"
proof -
  have fresh: "dict_get (fs_files sample_fs) ''/d/.pysetu-x.tmp'' = None"
    by (simp add: sample_fs_def dict_get_def)
  have "''/d/.pysetu-x.tmp'' \<noteq> ''/d/a''" by simp
  from atomic_write_crash_safe [OF this fresh, of "''new''", THEN conjunct2] obtain s where "atomic_reach ''/d/a'' ''/d/.pysetu-x.tmp'' ''new'' sample_fs Replaced s"
    "\<forall>p. map_option f_content (dict_get (fs_files s) p) =
      map_option f_content (dict_get (fs_files (atomic_write ''/d/a'' ''new'' sample_fs)) p)"
    by blast
  moreover from this(2) have "map_option f_content (dict_get (fs_files s) ''/d/a'') = Some ''new''"
    by (simp add: atomic_write_def)
  ultimately show ?thesis by blast
qed

text \<open>C7: enforcement never loses a file: after a redaction or a quarantine the original file is, unchanged,
  at the reported backup path; the redacted copy is at its place, or nothing is; and no other file
  is touched.\<close>

theorem enforcement_conserves_files:
  assumes "enforce_file homes stamp path policy det BACKUP_SUFFIX q s = Inr (Some r, s')"
    and "er_action r \<noteq> ''none''"
  shows "\<exists>f target. dict_get (fs_files s) path = Some f \<and> er_backup r = Some target \<and>
           dict_get (fs_files s') target = Some f \<and>
           (er_action r = ''redacted'' \<longrightarrow>
              map_option f_content (dict_get (fs_files s') path) = sr_redacted (det (f_content f))) \<and>
           (er_action r = ''quarantined'' \<longrightarrow> path = target \<or> dict_get (fs_files s') path = None) \<and>
           (\<forall>p. p \<noteq> path \<longrightarrow> p \<noteq> target \<longrightarrow> dict_get (fs_files s') p = dict_get (fs_files s) p)"
  by (rule enforce_conserves [OF assms]) (simp add: BACKUP_SUFFIX_def)

definition mail_config :: scan_config where
  "mail_config = \<lparr>sc_homes = (\<lambda>_. None), sc_stamp = (\<lambda>_. ''0''), sc_policy = \<lparr>lp_rules = [], lp_version = ''1''\<rparr>,
     sc_detector = detect 20, sc_max_files = MAX_FILES, sc_enforce = True, sc_quarantine = None\<rparr>"

lemma detect_mail:
  "detect 20 ''bob@x.org'' = \<lparr>sr_classifications = [''EMAIL''], sr_redacted = Some ''[REDACTED]'', sr_match_count = 1\<rparr>"
  "detect 20 ''[REDACTED]'' = \<lparr>sr_classifications = [], sr_redacted = None, sr_match_count = 0\<rparr>"
  by code_simp+

lemma evaluate_mail: "evaluate h \<lparr>lp_rules = [], lp_version = v\<rparr> p [''EMAIL''] = ''redact''"
  by (simp add: evaluate_def default_action_for_def CLASSIFICATION_DEFAULT_ACTION_def dict_get_def)

lemma redactable_mail: "redactable mail_config p ''bob@x.org'' ''[REDACTED]''"
  by (simp add: redactable_def mail_config_def detect_mail has_sensitive_def evaluate_mail MAX_FILE_BYTES_def)

theorem enforcement_conserves_files_witness:
  "\<exists>r s'. enforce_file (\<lambda>_. None) (\<lambda>_. ''0'') ''/d/a'' \<lparr>lp_rules = [], lp_version = ''1''\<rparr> (detect 20) BACKUP_SUFFIX
      None sample_fs = Inr (Some r, s') \<and>
    (\<exists>f. dict_get (fs_files s') ''/d/a.pysetu.bak'' = Some f \<and> f_content f = ''bob@x.org'')"
proof -
  have "read_file sample_fs ''/d/a'' = Inr ''bob@x.org''"
    by (simp add: read_file_def sample_fs_def dict_get_def)
  then have e: "enforce_file (\<lambda>_. None) (\<lambda>_. ''0'') ''/d/a'' \<lparr>lp_rules = [], lp_version = ''1''\<rparr> (detect 20) BACKUP_SUFFIX
      None sample_fs =
    Inr (Some \<lparr>er_path = ''/d/a'', er_decision = ''redact'', er_action = ''redacted'',
               er_backup = Some (''/d/a'' @ BACKUP_SUFFIX), er_match_count = 1\<rparr>,
         write_file ''/d/a'' ''[REDACTED]'' (copy_file ''/d/a'' (''/d/a'' @ BACKUP_SUFFIX) sample_fs))"
    by (simp add: enforce_file_def Let_def detect_mail has_sensitive_def evaluate_mail atomic_write_def)
  from enforcement_conserves_files [OF e] obtain f where
    "dict_get (fs_files sample_fs) ''/d/a'' = Some f"
    "dict_get (fs_files (write_file ''/d/a'' ''[REDACTED]'' (copy_file ''/d/a'' (''/d/a'' @ BACKUP_SUFFIX) sample_fs)))
       (''/d/a'' @ BACKUP_SUFFIX) = Some f"
    by auto
  moreover have "''/d/a'' @ BACKUP_SUFFIX = ''/d/a.pysetu.bak''" by (simp add: BACKUP_SUFFIX_def)
  ultimately show ?thesis
    using e by (auto simp: sample_fs_def dict_get_def)
qed


text \<open>A scan that does not enforce changes nothing, looks at no more files than its limit, and reports
  only what \<open>scan_file\<close> finds in the file system it was started on.\<close>

theorem reporting_scan_is_pure:
  assumes "\<not> sc_enforce cfg" and "scan_directory cfg root s = Some (Inr (events, s'))"
  shows "s' = s \<and> length events \<le> sc_max_files cfg \<and>
    (\<forall>e \<in> set events. scan_file (sc_homes cfg) s (ev_path e) (sc_policy cfg) (sc_detector cfg) = Some e)"
  using assms by (rule reporting_scan)

definition mail_event :: scan_event where
  "mail_event = \<lparr>ev_path = ''/d/a'', ev_classifications = [''EMAIL''], ev_decision = ''redact'', ev_match_count = 1\<rparr>"

lemma mail_scan:
  "scan_directory (mail_config\<lparr>sc_enforce := False, sc_max_files := 5\<rparr>) ''/d'' sample_fs = Some (Inr ([mail_event], sample_fs))"
proof -
  have n: "filenames sample_fs ''/d'' = [''a'']" "dirnames sample_fs ''/d'' = []"
    by code_simp+
  have "path_join ''/d'' ''a'' = ''/d/a''" by code_simp
  moreover have "scan_file (\<lambda>_. None) sample_fs ''/d/a'' \<lparr>lp_rules = [], lp_version = ''1''\<rparr> (detect 20) = Some mail_event"
    by (simp add: scan_file_def sample_fs_def dict_get_def MAX_FILE_BYTES_def read_file_def Let_def detect_mail
        has_sensitive_def evaluate_mail mail_event_def)
  ultimately show ?thesis
    by (simp add: scan_directory_def walk_fuel_def n mail_config_def scan_one_def)
qed

theorem reporting_scan_is_pure_witness:
  "scan_file (\<lambda>_. None) sample_fs ''/d/a'' \<lparr>lp_rules = [], lp_version = ''1''\<rparr> (detect 20) = Some mail_event"
  using reporting_scan_is_pure [OF _ mail_scan] by (simp add: mail_config_def mail_event_def)

text \<open>An enforcing scan that is given no quarantine directory never completes past a file to be
  blocked: the absent directory reaches \<open>os.makedirs\<close> and its type error ends the scan, so the
  events of a scan that does return contain no \<open>block\<close>.\<close>

theorem enforcing_scan_without_quarantine:
  assumes "sc_enforce cfg" and "sc_quarantine cfg = None"
    and "scan_directory cfg root s = Some (Inr (events, s'))"
  shows "list_all (\<lambda>e. ev_decision e \<noteq> ''block'') events"
  using scan_directory_kept [OF no_block_kept [OF assms(1,2)] assms(3)] by simp

lemma enforcing_mail_scan:
  "\<exists>s'. scan_directory (mail_config\<lparr>sc_max_files := 5\<rparr>) ''/d'' sample_fs = Some (Inr ([mail_event], s'))"
proof -
  have n: "filenames sample_fs ''/d'' = [''a'']" "dirnames sample_fs ''/d'' = []"
    by code_simp+
  have j: "path_join ''/d'' ''a'' = ''/d/a''" by code_simp
  have r: "read_file sample_fs ''/d/a'' = Inr ''bob@x.org''"
    by (simp add: read_file_def sample_fs_def dict_get_def)
  have "scan_file (\<lambda>_. None) sample_fs ''/d/a'' \<lparr>lp_rules = [], lp_version = ''1''\<rparr> (detect 20) = Some mail_event"
    by (simp add: scan_file_def sample_fs_def dict_get_def MAX_FILE_BYTES_def read_file_def Let_def detect_mail
        has_sensitive_def evaluate_mail mail_event_def)
  then show ?thesis
    by (simp add: scan_directory_def walk_fuel_def n j mail_config_def scan_one_def enforce_file_def r Let_def
        detect_mail has_sensitive_def evaluate_mail)
qed

theorem enforcing_scan_without_quarantine_witness:
  "\<exists>s'. scan_directory (mail_config\<lparr>sc_max_files := 5\<rparr>) ''/d'' sample_fs = Some (Inr ([mail_event], s')) \<and>
     list_all (\<lambda>e. ev_decision e \<noteq> ''block'') [mail_event]"
proof -
  obtain s' where s: "scan_directory (mail_config\<lparr>sc_max_files := 5\<rparr>) ''/d'' sample_fs = Some (Inr ([mail_event], s'))"
    using enforcing_mail_scan by blast
  then show ?thesis
    using enforcing_scan_without_quarantine [OF _ _ s] by (simp add: mail_config_def)
qed

text \<open>The enforcing watcher scans its own backups: when a file with a redactable content appears in the
  watched directory, every further poll redacts the newest backup and makes another, so that after
  \<open>n + 1\<close> polls there are \<open>n + 2\<close> files, the last of which still holds the sensitive content.\<close>

theorem watcher_backups_grow:
  assumes "redactable cfg (path_join root name) c r" and "name \<noteq> []" and "CHR ''/'' \<notin> set name"
  shows "\<exists>s' cur rep. watch_directory cfg root (write_file (path_join root name) c # replicate n id)
           \<lparr>fs_files = [], fs_dirs = [], fs_clock = t\<rparr> = Some (Inr (s', cur, rep)) \<and>
         length (fs_files s') = n + 2 \<and>
         (\<forall>i \<le> n. holds_content s' (backup_name (path_join root name) i) r) \<and>
         holds_content s' (backup_name (path_join root name) (n + 1)) c"
proof -
  let ?p = "path_join root name"
  let ?s0 = "\<lparr>fs_files = [], fs_dirs = [], fs_clock = t\<rparr>"
  have snap: "take_snapshot ?s0 root = Some []"
    using snapshot_flat [of ?s0 root] by simp
  have b0: "backed_up ?p c r 0 (write_file ?p c ?s0)"
    by (simp add: backed_up_def holds_content_def write_file_def dict_set_def dict_get_def)
  obtain s1 cur1 rep1 where p: "watch_poll cfg root (write_file ?p c ?s0) [] [] = Some (Inr (s1, cur1, rep1))"
    "backed_up ?p c r (Suc 0) s1" "dict_get cur1 (backup_name ?p (Suc 0)) = None"
    using poll_grows [OF assms b0, of "[]" "[]"] by (auto simp: dict_get_def)
  obtain s' cur rep where l: "watch_loop cfg root (replicate n id) s1 cur1 rep1 = Some (Inr (s', cur, rep))"
    "backed_up ?p c r (Suc 0 + n) s'"
    using loop_grows [OF assms p(2,3), of n rep1] by blast
  have "length (fs_files s') = n + 2"
    using l(2) by (metis (no_types) add_2_eq_Suc' backed_up_def diff_zero length_map length_upt plus_1_eq_Suc One_nat_def)
  moreover have "watch_directory cfg root (write_file ?p c # replicate n id) ?s0 = Some (Inr (s', cur, rep))"
    using snap p(1) l(1) by (simp add: watch_directory_def)
  ultimately show ?thesis
    using l(2) by (auto simp: backed_up_def)
qed

theorem watcher_backups_grow_witness:
  "\<exists>s' cur rep. watch_directory mail_config ''/d'' (write_file (path_join ''/d'' ''a'') ''bob@x.org'' # replicate 3 id)
      \<lparr>fs_files = [], fs_dirs = [], fs_clock = 0\<rparr> = Some (Inr (s', cur, rep)) \<and> length (fs_files s') = 3 + 2"
  using watcher_backups_grow [OF redactable_mail, of "''a''" "''/d''" 3 0] by auto

end
