(* ===== verification/AgentDiscovery.thy ===== *)
theory AgentDiscovery
  imports AgentWrapper
begin

text \<open>
  \<open>endpoint-agent/pysetu_agent/discovery.py\<close> and \<open>config.py\<close>: the AI tools and MCP servers an
  endpoint has, and the agent's configuration from its environment and a JSON file.  The files the
  discovery looks at are parameters: a predicate for regular files, one for existing paths, the
  names in a directory, and a disk of text files.
\<close>

section \<open>Tools\<close>

record discovered_tool =
  dt_name :: string
  dt_agent_type :: string
  dt_vendor :: string
  dt_version :: string
  dt_confidence :: string
  dt_source :: string

record tool_spec =
  ts_name :: string
  ts_agent_type :: string
  ts_vendor :: string
  ts_binaries :: "string list"
  ts_config_dirs :: "string list"
  ts_extension_globs :: "string list"

abbreviation tool_of :: "string \<Rightarrow> string \<Rightarrow> string \<Rightarrow> string list \<Rightarrow> string list \<Rightarrow> string list \<Rightarrow> tool_spec" where
  "tool_of n a v bs cs es \<equiv> \<lparr>ts_name = n, ts_agent_type = a, ts_vendor = v, ts_binaries = bs,
     ts_config_dirs = cs, ts_extension_globs = es\<rparr>"

definition TOOL_SPECS :: "tool_spec list" where
  "TOOL_SPECS =
     [tool_of ''Claude Code'' ''coding_agent'' ''Anthropic'' [''claude''] [''.claude'', ''.claude.json''] [],
      tool_of ''Cursor'' ''ide_copilot'' ''Anysphere'' [''cursor''] [''.cursor''] [],
      tool_of ''Windsurf'' ''ide_copilot'' ''Codeium'' [''windsurf''] [''.windsurf'', ''.config/windsurf''] [],
      tool_of ''Ollama'' ''local_llm_agent'' ''Ollama'' [''ollama''] [''.ollama''] [],
      tool_of ''GitHub Copilot'' ''ide_copilot'' ''GitHub'' [] [] [''github.copilot-*''],
      tool_of ''Cline'' ''coding_agent'' ''Cline'' [] [] [''saoudrizwan.claude-dev-*''],
      tool_of ''Roo Code'' ''coding_agent'' ''Roo Code'' [] [] [''rooveterinaryinc.roo-cline-*''],
      tool_of ''Continue'' ''ide_copilot'' ''Continue'' [] [] [''continue.continue-*'']]"

record machine =
  ma_isfile :: "string \<Rightarrow> bool"
  ma_exists :: "string \<Rightarrow> bool"
  ma_listdir :: "string \<Rightarrow> string list"

definition default_extensions_dir :: "string \<Rightarrow> string" where
  "default_extensions_dir home = path_join (path_join home ''.vscode'') ''extensions''"

definition binary_exists :: "machine \<Rightarrow> string \<Rightarrow> string list \<Rightarrow> bool" where
  "binary_exists m name path_entries =
     list_ex (\<lambda>entry. entry \<noteq> [] \<and> ma_isfile m (path_join entry name)) path_entries"

text \<open>\<open>glob.glob\<close> of a pattern in one directory: hidden names match only a pattern that starts with a
  dot.\<close>

definition glob_finds :: "machine \<Rightarrow> string \<Rightarrow> string \<Rightarrow> bool" where
  "glob_finds m dir pattern =
     list_ex (\<lambda>n. fnmatch n pattern \<and> (startswith n ''.'' \<longrightarrow> startswith pattern ''.'')) (ma_listdir m dir)"

definition tool_source :: "machine \<Rightarrow> string \<Rightarrow> string list \<Rightarrow> string \<Rightarrow> tool_spec \<Rightarrow> string option" where
  "tool_source m home path_entries extensions_dir spec =
     (if list_ex (\<lambda>b. binary_exists m b path_entries) (ts_binaries spec) then Some ''binary''
      else if list_ex (\<lambda>d. ma_exists m (path_join home d)) (ts_config_dirs spec) then Some ''config''
      else if list_ex (glob_finds m extensions_dir) (ts_extension_globs spec) then Some ''extension''
      else None)"

definition discover_tools :: "machine \<Rightarrow> string \<Rightarrow> string list \<Rightarrow> string \<Rightarrow> discovered_tool list" where
  "discover_tools m home path_entries extensions_dir =
     concat (map (\<lambda>spec. case tool_source m home path_entries extensions_dir spec of
         None \<Rightarrow> []
       | Some source \<Rightarrow>
           [\<lparr>dt_name = ts_name spec, dt_agent_type = ts_agent_type spec, dt_vendor = ts_vendor spec,
             dt_version = [], dt_confidence = ''high'', dt_source = source\<rparr>]) TOOL_SPECS)"

section \<open>MCP servers\<close>

record mcp_server =
  ms_name :: string
  ms_source :: string
  ms_command :: string
  ms_url :: string
  ms_transport :: string
  ms_tools :: "string list"
  ms_args :: "string list"

definition mcp_server_name :: "string \<Rightarrow> json dict \<Rightarrow> string" where
  "mcp_server_name server_id server =
     (case dict_get server ''name'' of
        Some v \<Rightarrow> if truthy v then py_str v else server_id
      | None \<Rightarrow> server_id)"

definition mcp_server_command :: "json dict \<Rightarrow> string" where
  "mcp_server_command server =
     (case dict_get server ''command'' of
        Some (JStr s) \<Rightarrow> s
      | Some (JArr (v # vs)) \<Rightarrow> py_str v
      | _ \<Rightarrow> [])"

definition mcp_server_url :: "json dict \<Rightarrow> string" where
  "mcp_server_url server = (case dict_get server ''url'' of Some (JStr s) \<Rightarrow> s | _ \<Rightarrow> [])"

text \<open>The strings among the elements of a list.\<close>

definition json_strings :: "json list \<Rightarrow> string list" where
  "json_strings vs = concat (map (\<lambda>v. case v of JStr s \<Rightarrow> [s] | _ \<Rightarrow> []) vs)"

definition mcp_server_tools :: "json dict \<Rightarrow> string list" where
  "mcp_server_tools server = (case dict_get server ''tools'' of Some (JArr vs) \<Rightarrow> json_strings vs | _ \<Rightarrow> [])"

definition mcp_server_args :: "json dict \<Rightarrow> string list" where
  "mcp_server_args server = (case dict_get server ''args'' of Some (JArr vs) \<Rightarrow> json_strings vs | _ \<Rightarrow> [])"

definition parse_mcp_servers :: "json dict \<Rightarrow> string \<Rightarrow> mcp_server list" where
  "parse_mcp_servers servers source =
     concat (map (\<lambda>(server_id, server). case server of
         JObj d \<Rightarrow>
           [\<lparr>ms_name = mcp_server_name server_id d, ms_source = source, ms_command = mcp_server_command d,
             ms_url = mcp_server_url d, ms_transport = (if mcp_server_url d \<noteq> [] then ''http'' else ''stdio''),
             ms_tools = mcp_server_tools d, ms_args = mcp_server_args d\<rparr>]
       | _ \<Rightarrow> []) servers)"

definition mcp_servers_from_file :: "disk \<Rightarrow> string \<Rightarrow> mcp_server list" where
  "mcp_servers_from_file d path =
     (case bindE (read_text d path) json_load of
        Inr (JObj doc) \<Rightarrow>
          (case dict_get doc ''mcpServers'' of Some (JObj servers) \<Rightarrow> parse_mcp_servers servers path | _ \<Rightarrow> [])
      | _ \<Rightarrow> [])"

definition mcp_candidates :: "string \<Rightarrow> string list" where
  "mcp_candidates home =
     [path_join home ''.mcp.json'',
      path_join (path_join home ''.cursor'') ''mcp.json'',
      path_join (path_join (path_join home ''.config'') ''claude'') ''claude_desktop_config.json'',
      path_join (path_join (path_join (path_join home ''Library'') ''Application Support'') ''Claude'')
        ''claude_desktop_config.json'']"

fun dedup_servers :: "string list \<Rightarrow> mcp_server list \<Rightarrow> mcp_server list" where
  "dedup_servers seen [] = []"
| "dedup_servers seen (s # ss) =
     (if ms_name s \<in> set seen then dedup_servers seen ss
      else s # dedup_servers (ms_name s # seen) ss)"

definition discover_mcp_servers :: "disk \<Rightarrow> string \<Rightarrow> mcp_server list" where
  "discover_mcp_servers d home =
     dedup_servers [] (concat (map (mcp_servers_from_file d) (mcp_candidates home)))"

lemma dedup_servers_names: "map ms_name (dedup_servers seen ss) = dedup_from seen (map ms_name ss)"
  by (induction seen ss rule: dedup_servers.induct) auto

lemma dedup_servers_first:
  "s \<in> set (dedup_servers seen ss) \<Longrightarrow>
   ms_name s \<notin> set seen \<and> find (\<lambda>x. ms_name x = ms_name s) ss = Some s"
proof (induction seen ss rule: dedup_servers.induct)
  case (2 seen x ss)
  show ?case
  proof (cases "ms_name x \<in> set seen")
    case True
    with 2 show ?thesis by auto
  next
    case False
    then have "s = x \<or> s \<in> set (dedup_servers (ms_name x # seen) ss)" using 2(3) by simp
    then show ?thesis
    proof
      assume "s = x"
      with False show ?thesis by simp
    next
      assume "s \<in> set (dedup_servers (ms_name x # seen) ss)"
      from 2(2) [OF False this] show ?thesis by auto
    qed
  qed
qed simp

section \<open>Configuration\<close>

record agent_config =
  ac_backend_url :: string
  ac_api_key :: string
  ac_hostname :: string
  ac_poll_interval :: int
  ac_telemetry_file :: string

definition DEFAULT_BACKEND_URL :: string where
  "DEFAULT_BACKEND_URL = ''http://localhost:8001''"

definition DEFAULT_POLL_INTERVAL_SECONDS :: int where
  "DEFAULT_POLL_INTERVAL_SECONDS = 300"

text \<open>The values of the configuration file that are kept: strings and integers, and with them the
  booleans, which are integers to \<open>isinstance\<close>.\<close>

fun scalar_setting :: "json \<Rightarrow> bool" where
  "scalar_setting (JStr _) = True"
| "scalar_setting (JInt _) = True"
| "scalar_setting (JBool _) = True"
| "scalar_setting _ = False"

definition config_file_values :: "disk \<Rightarrow> string option \<Rightarrow> json dict result" where
  "config_file_values d path =
     (case path of
        None \<Rightarrow> Inr []
      | Some p \<Rightarrow>
          if p = [] \<or> d p = None then Inr []
          else
            bindE (bindE (read_text d p) json_load) (\<lambda>loaded.
              Inr (case loaded of JObj kvs \<Rightarrow> filter (\<lambda>(k, v). scalar_setting v) kvs | _ \<Rightarrow> [])))"

definition env_or :: "string dict \<Rightarrow> string \<Rightarrow> string \<Rightarrow> string" where
  "env_or env k v = (if dict_get_or env k [] \<noteq> [] then dict_get_or env k [] else v)"

definition int_of_setting :: "json \<Rightarrow> int result" where
  "int_of_setting v =
     (case v of
        JStr s \<Rightarrow> py_int s
      | JInt i \<Rightarrow> Inr i
      | JBool b \<Rightarrow> Inr (if b then 1 else 0)
      | _ \<Rightarrow> Inl (TypeError ''int()''))"

definition config_poll_interval :: "string dict \<Rightarrow> json dict \<Rightarrow> int" where
  "config_poll_interval env file_values =
     (let raw = (if dict_get_or env ''PYSETU_POLL_INTERVAL'' [] \<noteq> []
                 then JStr (dict_get_or env ''PYSETU_POLL_INTERVAL'' [])
                 else dict_get_or file_values ''poll_interval_seconds'' (JInt DEFAULT_POLL_INTERVAL_SECONDS))
      in case int_of_setting raw of Inr i \<Rightarrow> i | Inl _ \<Rightarrow> DEFAULT_POLL_INTERVAL_SECONDS)"

definition file_or :: "json dict \<Rightarrow> string \<Rightarrow> string \<Rightarrow> string" where
  "file_or file_values k v =
     (case dict_get file_values k of Some x \<Rightarrow> if truthy x then py_str x else v | None \<Rightarrow> v)"

definition config_load :: "disk \<Rightarrow> string \<Rightarrow> string option \<Rightarrow> string dict \<Rightarrow> agent_config result" where
  "config_load d gethostname config_path env =
     (let path = (case config_path of
                    Some p \<Rightarrow> if p \<noteq> [] then Some p else dict_get env ''PYSETU_CONFIG_FILE''
                  | None \<Rightarrow> dict_get env ''PYSETU_CONFIG_FILE'')
      in bindE (config_file_values d path) (\<lambda>file_values.
         let host0 = env_or env ''PYSETU_HOSTNAME'' (file_or file_values ''hostname'' [])
         in Inr \<lparr>ac_backend_url = rstrip_chars ''/'' (env_or env ''PYSETU_BACKEND_URL''
                   (py_str (dict_get_or file_values ''backend_url'' (JStr DEFAULT_BACKEND_URL)))),
                 ac_api_key = env_or env ''PYSETU_API_KEY'' (file_or file_values ''api_key'' []),
                 ac_hostname = (if host0 \<noteq> [] then host0 else gethostname),
                 ac_poll_interval = max 5 (config_poll_interval env file_values),
                 ac_telemetry_file = env_or env ''PYSETU_TELEMETRY_FILE''
                   (file_or file_values ''telemetry_file'' ''pysetu-agent-telemetry.jsonl'')\<rparr>))"

definition missing_fields :: "agent_config \<Rightarrow> string list" where
  "missing_fields c =
     (if ac_api_key c = [] then [''api_key''] else []) @ (if ac_hostname c = [] then [''hostname''] else [])"

section \<open>Properties\<close>

text \<open>Discovery reports every server name once, from the first candidate file (in their order, and
  in the order of its entries) that defines it.\<close>

theorem discovered_servers_unique:
  "distinct (map ms_name (discover_mcp_servers d home)) \<and>
   set (map ms_name (discover_mcp_servers d home)) =
     (\<Union>path \<in> set (mcp_candidates home). set (map ms_name (mcp_servers_from_file d path))) \<and>
   list_all (\<lambda>s. find (\<lambda>x. ms_name x = ms_name s) (concat (map (mcp_servers_from_file d) (mcp_candidates home))) = Some s)
     (discover_mcp_servers d home)"
proof (intro conjI)
  show "distinct (map ms_name (discover_mcp_servers d home))"
    by (simp add: discover_mcp_servers_def dedup_servers_names distinct_dedup_from)
  show "set (map ms_name (discover_mcp_servers d home)) =
     (\<Union>path \<in> set (mcp_candidates home). set (map ms_name (mcp_servers_from_file d path)))"
    unfolding discover_mcp_servers_def dedup_servers_names set_dedup_from by auto
  show "list_all (\<lambda>s. find (\<lambda>x. ms_name x = ms_name s)
      (concat (map (mcp_servers_from_file d) (mcp_candidates home))) = Some s) (discover_mcp_servers d home)"
    unfolding discover_mcp_servers_def list_all_iff by (blast dest: dedup_servers_first)
qed

text \<open>When the configuration loads, an environment variable that is set and not empty wins over the
  file, a missing or malformed poll interval becomes the default, and the interval is never below
  five seconds.\<close>

theorem config_precedence:
  assumes "config_load d gethostname config_path env = Inr c"
  shows "5 \<le> ac_poll_interval c \<and>
         (dict_get_or env ''PYSETU_API_KEY'' [] \<noteq> [] \<longrightarrow> ac_api_key c = dict_get_or env ''PYSETU_API_KEY'' []) \<and>
         (dict_get_or env ''PYSETU_HOSTNAME'' [] \<noteq> [] \<longrightarrow> ac_hostname c = dict_get_or env ''PYSETU_HOSTNAME'' []) \<and>
         (\<forall>s e. dict_get env ''PYSETU_POLL_INTERVAL'' = Some s \<longrightarrow> s \<noteq> [] \<longrightarrow> py_int s = Inl e \<longrightarrow>
            ac_poll_interval c = DEFAULT_POLL_INTERVAL_SECONDS) \<and>
         (\<forall>n. dict_get env ''PYSETU_POLL_INTERVAL'' = Some (show_nat n) \<longrightarrow>
            ac_poll_interval c = max 5 (int n))"
proof -
  obtain fv where fv: "ac_poll_interval c = max 5 (config_poll_interval env fv)"
    "ac_api_key c = env_or env ''PYSETU_API_KEY'' (file_or fv ''api_key'' [])"
    "ac_hostname c = (if env_or env ''PYSETU_HOSTNAME'' (file_or fv ''hostname'' []) \<noteq> []
        then env_or env ''PYSETU_HOSTNAME'' (file_or fv ''hostname'' []) else gethostname)"
    using assms unfolding config_load_def Let_def bindE_eq_Inr_iff by auto
  have "config_poll_interval env fv = DEFAULT_POLL_INTERVAL_SECONDS"
    if "dict_get env ''PYSETU_POLL_INTERVAL'' = Some s" "s \<noteq> []" "py_int s = Inl e" for s e
    using that by (simp add: config_poll_interval_def dict_get_or_def int_of_setting_def)
  moreover have "config_poll_interval env fv = int n"
    if "dict_get env ''PYSETU_POLL_INTERVAL'' = Some (show_nat n)" for n
    using that by (simp add: config_poll_interval_def dict_get_or_def int_of_setting_def py_int_show_nat)
  ultimately show ?thesis
    unfolding fv by (simp add: env_or_def DEFAULT_POLL_INTERVAL_SECONDS_def)
qed

theorem config_precedence_witness:
  "config_load Map.empty ''host'' None [(''PYSETU_POLL_INTERVAL'', show_nat 2)] =
     Inr \<lparr>ac_backend_url = DEFAULT_BACKEND_URL, ac_api_key = [], ac_hostname = ''host'', ac_poll_interval = 5,
          ac_telemetry_file = ''pysetu-agent-telemetry.jsonl''\<rparr>"
proof -
  have l: "config_load Map.empty ''host'' None [(''PYSETU_POLL_INTERVAL'', show_nat 2)] =
     Inr \<lparr>ac_backend_url = DEFAULT_BACKEND_URL, ac_api_key = [], ac_hostname = ''host'',
          ac_poll_interval = max 5 (config_poll_interval [(''PYSETU_POLL_INTERVAL'', show_nat 2)] []),
          ac_telemetry_file = ''pysetu-agent-telemetry.jsonl''\<rparr>"
    by (simp add: config_load_def config_file_values_def env_or_def file_or_def dict_get_or_def dict_get_def
        DEFAULT_BACKEND_URL_def rstrip_chars_def Let_def)
  from config_precedence [OF l] have "max 5 (config_poll_interval [(''PYSETU_POLL_INTERVAL'', show_nat 2)] []) = 5"
    by (simp add: dict_get_def)
  with l show ?thesis by simp
qed

end
