(* ===== verification/AgentGateway.thy ===== *)
theory AgentGateway
  imports AgentDiscovery
begin

text \<open>
  \<open>endpoint-agent/pysetu_agent/mcp_gateway.py\<close>: the framing of JSON-RPC messages, the decisions on the
  arguments and the results of tool calls, the upstream server processes, the handling of one
  message, the proxy loop for one server and for a pool of servers, and the generated client
  configuration.  What the handler needs of an upstream is the locale \<open>upstream_channel\<close>; the
  process over standard streams, the HTTP process and their sum are its interpretations.
\<close>

section \<open>Framing\<close>

text \<open>\<open>for line in stream\<close>: lines with their newline.\<close>

fun text_lines :: "string \<Rightarrow> string list" where
  "text_lines [] = []"
| "text_lines (c # s) =
     (if c = newline then [newline] # text_lines s
      else (case text_lines s of [] \<Rightarrow> [[c]] | l # ls \<Rightarrow> (c # l) # ls))"

text \<open>The next message of a stream, with the lines that remain.\<close>

fun read_message :: "string list \<Rightarrow> (json option \<times> string list) result" where
  "read_message [] = Inr (None, [])"
| "read_message (line # remaining) =
     (if strip line = [] then read_message remaining
      else bindE (json_load (strip line)) (\<lambda>m. Inr (Some m, remaining)))"

definition write_message :: "json \<Rightarrow> string" where
  "write_message m = dumps m @ [newline]"

lemma read_message_shorter: "read_message ls = Inr (Some m, remaining) \<Longrightarrow> length remaining < length ls"
  by (induction ls) (auto simp: bindE_eq_Inr_iff split: if_splits)

definition read_line :: "string \<Rightarrow> string \<times> string" where
  "read_line s =
     (takeWhile (\<lambda>c. c \<noteq> newline) s @ take 1 (dropWhile (\<lambda>c. c \<noteq> newline) s),
      drop 1 (dropWhile (\<lambda>c. c \<noteq> newline) s))"

lemma read_line_shorter: "s \<noteq> [] \<Longrightarrow> length (snd (read_line s)) < length s"
proof -
  assume s: "s \<noteq> []"
  let ?d = "dropWhile (\<lambda>c. c \<noteq> newline) s"
  have d: "length ?d \<le> length s" by (rule length_dropWhile_le)
  have "snd (read_line s) = drop 1 ?d" by (simp only: read_line_def snd_conv)
  then have "length (snd (read_line s)) = length ?d - 1" by (simp only: length_drop)
  with s d show ?thesis by (cases "length ?d") simp_all
qed

text \<open>The headers up to the empty line; \<open>None\<close> at the end of the stream.\<close>

function read_headers :: "string dict \<Rightarrow> string \<Rightarrow> (string dict \<times> string) option" where
  "read_headers headers s =
     (if s = [] then None
      else
        let line = strip (fst (read_line s)); remaining = snd (read_line s) in
        if line = [] then Some (headers, remaining)
        else if CHR '':'' \<in> set line then
          (let key = takeWhile (\<lambda>c. c \<noteq> CHR '':'') line;
               value = drop 1 (dropWhile (\<lambda>c. c \<noteq> CHR '':'') line)
           in read_headers (dict_set (lower (strip key)) (strip value) headers) remaining)
        else read_headers headers remaining)"
  by pat_completeness auto
termination
  by (relation "measure (\<lambda>(h, s). length s)") (auto intro: read_line_shorter)

declare read_headers.simps [simp del]

definition read_http_message :: "string \<Rightarrow> (json option \<times> string) result" where
  "read_http_message s =
     (case read_headers [] s of
        None \<Rightarrow> Inr (None, [])
      | Some (headers, remaining) \<Rightarrow>
          bindE (py_int (dict_get_or headers ''content-length'' ''0'')) (\<lambda>n.
            if n \<le> 0 then Inr (None, remaining)
            else bindE (json_load (take (nat n) remaining)) (\<lambda>m. Inr (Some m, drop (nat n) remaining))))"

definition crlf :: string where
  "crlf = [CHR 0x0D, newline]"

definition write_http_message :: "json \<Rightarrow> string" where
  "write_http_message m =
     (let body = dumps m in ''Content-Length: '' @ show_nat (length body) @ crlf @ crlf @ body)"

section \<open>Decisions\<close>

record gateway_decision =
  gd_action :: string
  gd_reason :: string
  gd_arguments :: "json option"
  gd_classifications :: "string list"

definition mcp_resource :: "string \<Rightarrow> string \<Rightarrow> string" where
  "mcp_resource server_name tool_name = ''mcp://'' @ server_name @ ''/'' @ tool_name"

definition decide_tool_call ::
  "homes \<Rightarrow> string \<Rightarrow> string \<Rightarrow> json \<Rightarrow> local_policy \<Rightarrow> (string \<Rightarrow> scan_result) \<Rightarrow> gateway_decision" where
  "decide_tool_call homes server_name tool_name arguments policy detector =
     (let serialized = dumps_sorted arguments;
          result = detector serialized
      in if \<not> has_sensitive result
         then \<lparr>gd_action = ''allow'', gd_reason = ''No sensitive data detected'', gd_arguments = None,
               gd_classifications = []\<rparr>
         else
           let decision = evaluate homes policy (mcp_resource server_name tool_name) (sr_classifications result) in
           if decision = ''block''
           then \<lparr>gd_action = ''block'', gd_reason = ''Sensitive data in tool arguments'', gd_arguments = None,
                 gd_classifications = sr_classifications result\<rparr>
           else
             (case (if decision = ''redact'' then sr_redacted result else None) of
                Some content \<Rightarrow>
                  (case loads content of
                     None \<Rightarrow> \<lparr>gd_action = ''block'', gd_reason = ''Redaction would produce invalid tool arguments'',
                              gd_arguments = None, gd_classifications = sr_classifications result\<rparr>
                   | Some redacted \<Rightarrow>
                       \<lparr>gd_action = ''redact'', gd_reason = ''Redacted sensitive data in tool arguments'',
                        gd_arguments = Some redacted, gd_classifications = sr_classifications result\<rparr>)
              | None \<Rightarrow> \<lparr>gd_action = ''allow'', gd_reason = ''No sensitive data detected'', gd_arguments = None,
                         gd_classifications = []\<rparr>))"

record response_decision =
  rd_action :: string
  rd_reason :: string
  rd_result :: "json dict option"
  rd_classifications :: "string list"

text \<open>The redactable text of a content block, and the block with another text in its place.\<close>

definition str_field :: "json dict \<Rightarrow> string \<Rightarrow> string option" where
  "str_field d k = (case dict_get d k of Some (JStr s) \<Rightarrow> Some s | _ \<Rightarrow> None)"

definition block_text :: "json \<Rightarrow> string option" where
  "block_text block =
     (case block of
        JObj d \<Rightarrow>
          if dict_get d ''type'' = Some (JStr ''text'') \<and> str_field d ''text'' \<noteq> None
          then str_field d ''text''
          else if dict_get d ''type'' = Some (JStr ''resource'') then
            (case dict_get d ''resource'' of Some (JObj r) \<Rightarrow> str_field r ''text'' | _ \<Rightarrow> None)
          else None
      | _ \<Rightarrow> None)"

definition set_block_text :: "string \<Rightarrow> json \<Rightarrow> json" where
  "set_block_text s block =
     (case block of
        JObj d \<Rightarrow>
          if dict_get d ''type'' = Some (JStr ''text'') then JObj (dict_set ''text'' (JStr s) d)
          else (case dict_get d ''resource'' of
                  Some (JObj r) \<Rightarrow> JObj (dict_set ''resource'' (JObj (dict_set ''text'' (JStr s) r)) d)
                | _ \<Rightarrow> block)
      | _ \<Rightarrow> block)"

definition content_blocks :: "json dict \<Rightarrow> json list" where
  "content_blocks result = (case dict_get result ''content'' of Some (JArr bs) \<Rightarrow> bs | _ \<Rightarrow> [])"

definition text_blocks :: "json dict \<Rightarrow> string list" where
  "text_blocks result = concat (map (\<lambda>b. case block_text b of None \<Rightarrow> [] | Some s \<Rightarrow> [s]) (content_blocks result))"

definition redact_block :: "(string \<Rightarrow> scan_result) \<Rightarrow> json \<Rightarrow> json" where
  "redact_block detector block =
     (case block_text block of
        None \<Rightarrow> block
      | Some s \<Rightarrow>
          (case sr_redacted (detector s) of
             Some r \<Rightarrow> if has_sensitive (detector s) then set_block_text r block else block
           | None \<Rightarrow> block))"

definition block_redacted :: "(string \<Rightarrow> scan_result) \<Rightarrow> string \<Rightarrow> bool" where
  "block_redacted detector s \<longleftrightarrow> has_sensitive (detector s) \<and> sr_redacted (detector s) \<noteq> None"

definition response_labels :: "(string \<Rightarrow> scan_result) \<Rightarrow> string list \<Rightarrow> string list" where
  "response_labels detector texts =
     concat (map (\<lambda>s. if has_sensitive (detector s) then sr_classifications (detector s) else []) texts)"

definition decide_tool_response ::
  "homes \<Rightarrow> string \<Rightarrow> string \<Rightarrow> json dict \<Rightarrow> local_policy \<Rightarrow> (string \<Rightarrow> scan_result) \<Rightarrow> response_decision" where
  "decide_tool_response homes server_name tool_name result policy detector =
     (let texts = text_blocks result in
      if texts = []
      then \<lparr>rd_action = ''allow'', rd_reason = ''No text content in response'', rd_result = None, rd_classifications = []\<rparr>
      else
        let redacted_result = dict_set ''content'' (JArr (map (redact_block detector) (content_blocks result))) result;
            all_classifications = response_labels detector texts;
            any_redacted = list_ex (block_redacted detector) texts
        in if all_classifications = []
           then \<lparr>rd_action = ''allow'', rd_reason = ''No sensitive data in response'', rd_result = None, rd_classifications = []\<rparr>
           else
             let decision = evaluate homes policy (mcp_resource server_name tool_name) all_classifications in
             if decision = ''block''
             then \<lparr>rd_action = ''block'', rd_reason = ''Sensitive data in tool response'', rd_result = None,
                   rd_classifications = all_classifications\<rparr>
             else if decision = ''redact'' \<and> any_redacted
             then \<lparr>rd_action = ''redact'', rd_reason = ''Redacted sensitive data in tool response'',
                   rd_result = Some redacted_result, rd_classifications = all_classifications\<rparr>
             else \<lparr>rd_action = ''allow'', rd_reason = ''No sensitive data detected'', rd_result = None, rd_classifications = []\<rparr>)"

section \<open>Upstream processes\<close>

text \<open>A server over standard streams: the messages written to it and the output it has not yet been
  asked for.\<close>

record stdio_process =
  sp_command :: "string list"
  sp_started :: bool
  sp_sent :: "json list"
  sp_output :: "string list"
  sp_stopped :: bool

definition stdio_start :: "stdio_process \<Rightarrow> stdio_process" where
  "stdio_start p = p\<lparr>sp_started := True\<rparr>"

definition stdio_write :: "json \<Rightarrow> stdio_process \<Rightarrow> stdio_process result" where
  "stdio_write m p =
     (if \<not> sp_started p then Inl (RuntimeError ''server not started'') else Inr (p\<lparr>sp_sent := sp_sent p @ [m]\<rparr>))"

definition stdio_read :: "stdio_process \<Rightarrow> (json option \<times> stdio_process) result" where
  "stdio_read p =
     (if \<not> sp_started p then Inl (RuntimeError ''server not started'')
      else bindE (read_message (sp_output p)) (\<lambda>(m, remaining). Inr (m, p\<lparr>sp_output := remaining\<rparr>)))"

definition stdio_stop :: "stdio_process \<Rightarrow> stdio_process" where
  "stdio_stop p = (if sp_started p then p\<lparr>sp_stopped := True\<rparr> else p)"

text \<open>A server over HTTP: what it answers to a POST, the queue of received messages (\<open>None\<close> after a
  transport failure) and the payloads its event stream still holds.  The reader thread is taken to
  run when \<open>read\<close> finds the queue empty; a read that would block for ever is a runtime error here.\<close>

datatype post_reply = Posted | HttpError string | Unreachable string

record http_process =
  hp_reply :: "json \<Rightarrow> post_reply"
  hp_stream :: "json option list"
  hp_queue :: "json option list"
  hp_sent :: "json list"
  hp_error :: "string option"
  hp_stopped :: bool

text \<open>The payloads of an event stream: the JSON values of its \<open>data:\<close> lines; an unterminated last line
  is dropped, as is a payload that is not JSON.\<close>

definition sse_payload :: "string \<Rightarrow> json list" where
  "sse_payload line =
     (if startswith line ''data:''
      then (let payload = strip (drop 5 line) in
            if payload = [] then [] else (case loads payload of None \<Rightarrow> [] | Some m \<Rightarrow> [m]))
      else [])"

definition sse_messages :: "string \<Rightarrow> json list" where
  "sse_messages stream = concat (map sse_payload (filter (\<lambda>l. l \<noteq> [] \<and> last l = newline) (text_lines stream)))"

definition http_write :: "json \<Rightarrow> http_process \<Rightarrow> http_process result" where
  "http_write m p =
     (let q = p\<lparr>hp_sent := hp_sent p @ [m]\<rparr> in
      Inr (case hp_reply p m of
             Posted \<Rightarrow> q
           | HttpError body \<Rightarrow>
               (if body = [] then q
                else (case loads body of None \<Rightarrow> q | Some v \<Rightarrow> q\<lparr>hp_queue := hp_queue q @ [Some v]\<rparr>))
           | Unreachable e \<Rightarrow> q\<lparr>hp_error := Some e, hp_queue := hp_queue q @ [None]\<rparr>))"

definition http_read :: "http_process \<Rightarrow> (json option \<times> http_process) result" where
  "http_read p =
     (case hp_queue p of
        m # q \<Rightarrow> Inr (m, p\<lparr>hp_queue := q\<rparr>)
      | [] \<Rightarrow>
          (case hp_stream p of
             m # s \<Rightarrow> Inr (m, p\<lparr>hp_stream := s\<rparr>)
           | [] \<Rightarrow> Inl (RuntimeError ''read blocks'')))"

datatype upstream = Stdio stdio_process | Http http_process

fun up_start :: "upstream \<Rightarrow> upstream" where
  "up_start (Stdio p) = Stdio (stdio_start p)"
| "up_start (Http p) = Http p"

fun up_stop :: "upstream \<Rightarrow> upstream" where
  "up_stop (Stdio p) = Stdio (stdio_stop p)"
| "up_stop (Http p) = Http (p\<lparr>hp_stopped := True\<rparr>)"

fun up_write :: "json \<Rightarrow> upstream \<Rightarrow> upstream result" where
  "up_write m (Stdio p) = bindE (stdio_write m p) (\<lambda>q. Inr (Stdio q))"
| "up_write m (Http p) = bindE (http_write m p) (\<lambda>q. Inr (Http q))"

fun up_read :: "upstream \<Rightarrow> (json option \<times> upstream) result" where
  "up_read (Stdio p) = bindE (stdio_read p) (\<lambda>(m, q). Inr (m, Stdio q))"
| "up_read (Http p) = bindE (http_read p) (\<lambda>(m, q). Inr (m, Http q))"

fun up_sent :: "upstream \<Rightarrow> json list" where
  "up_sent (Stdio p) = sp_sent p"
| "up_sent (Http p) = hp_sent p"

text \<open>\<open>make_upstream\<close>; \<open>output\<close>, \<open>reply\<close> and \<open>stream\<close> are the server's side.\<close>

definition make_upstream ::
  "mcp_server \<Rightarrow> string \<Rightarrow> (json \<Rightarrow> post_reply) \<Rightarrow> string \<Rightarrow> upstream" where
  "make_upstream server output reply stream =
     (if ms_transport server = ''http'' \<and> ms_url server \<noteq> []
      then Http \<lparr>hp_reply = reply, hp_stream = map Some (sse_messages stream), hp_queue = [], hp_sent = [],
                 hp_error = None, hp_stopped = False\<rparr>
      else Stdio \<lparr>sp_command = ms_command server # ms_args server, sp_started = False, sp_sent = [],
                  sp_output = text_lines output, sp_stopped = False\<rparr>)"

section \<open>Handling one message\<close>

definition jsonrpc_error :: "json \<Rightarrow> int \<Rightarrow> string \<Rightarrow> json" where
  "jsonrpc_error request_id code message_text =
     JObj [(''jsonrpc'', JStr ''2.0''), (''id'', request_id),
           (''error'', JObj [(''code'', JInt code), (''message'', JStr message_text)])]"

text \<open>\<open>x or {}\<close> on an attribute that may be absent.\<close>

definition json_or_empty :: "json \<Rightarrow> json" where
  "json_or_empty v = (if truthy v then v else JObj [])"

text \<open>What is written upstream for a decision on a call; \<open>params\<close> and the message are objects.\<close>

definition forwarded_call :: "json dict \<Rightarrow> json dict \<Rightarrow> gateway_decision \<Rightarrow> json" where
  "forwarded_call message params decision =
     (case gd_arguments decision of
        Some a \<Rightarrow>
          if gd_action decision = ''redact'' \<and> a \<noteq> JNull
          then JObj (dict_set ''params'' (JObj (dict_set ''arguments'' a params)) message)
          else JObj message
      | None \<Rightarrow> JObj message)"

definition filter_response ::
  "homes \<Rightarrow> local_policy \<Rightarrow> (string \<Rightarrow> scan_result) \<Rightarrow> bool \<Rightarrow> string \<Rightarrow> string \<Rightarrow> json \<Rightarrow> json option \<Rightarrow> json option" where
  "filter_response homes policy detector redact_responses server_name tool_name request_id response =
     (case response of
        Some (JObj r) \<Rightarrow>
          (case (redact_responses, dict_get r ''result'') of
             (True, Some (JObj result)) \<Rightarrow>
               let d = decide_tool_response homes server_name tool_name result policy detector in
               if rd_action d = ''block''
               then Some (jsonrpc_error request_id (-32000) (''blocked by PySetu policy: '' @ rd_reason d))
               else
                 (case rd_result d of
                    Some redacted \<Rightarrow>
                      if rd_action d = ''redact'' then Some (JObj (dict_set ''result'' (JObj redacted) r))
                      else Some (JObj r)
                  | None \<Rightarrow> Some (JObj r))
           | _ \<Rightarrow> Some (JObj r))
      | _ \<Rightarrow> response)"

text \<open>A response the gateway reads as \<open>None\<close> (or a JSON null) is not written back.\<close>

definition handle_tool_call ::
  "(json \<Rightarrow> 'u \<Rightarrow> 'u result) \<Rightarrow> ('u \<Rightarrow> (json option \<times> 'u) result) \<Rightarrow> homes \<Rightarrow> (string \<Rightarrow> scan_result) \<Rightarrow> bool \<Rightarrow>
   local_policy \<Rightarrow> mcp_server \<Rightarrow> json dict \<Rightarrow> 'u \<Rightarrow> (json option \<times> 'u) result" where
  "handle_tool_call wr rd homes detector redact_responses policy server message u =
     (let request_id = dict_get_or message ''id'' JNull in
      bindE (case json_or_empty (dict_get_or message ''params'' JNull) of
               JObj p \<Rightarrow> Inr p | _ \<Rightarrow> Inl (AttributeError ''get'')) (\<lambda>params.
        let tool_name = py_str (dict_get_or params ''name'' (JStr []));
            arguments = json_or_empty (dict_get_or params ''arguments'' JNull);
            decision = decide_tool_call homes (ms_name server) tool_name arguments policy detector
        in if gd_action decision = ''block''
           then Inr (Some (jsonrpc_error request_id (-32000) (''blocked by PySetu policy: '' @ gd_reason decision)), u)
           else
             bindE (wr (forwarded_call message params decision) u) (\<lambda>u1.
             bindE (rd u1) (\<lambda>(response, u2).
               Inr (filter_response homes policy detector redact_responses (ms_name server) tool_name request_id response, u2)))))"

definition handle_message ::
  "(json \<Rightarrow> 'u \<Rightarrow> 'u result) \<Rightarrow> ('u \<Rightarrow> (json option \<times> 'u) result) \<Rightarrow> homes \<Rightarrow> (string \<Rightarrow> scan_result) \<Rightarrow> bool \<Rightarrow>
   local_policy \<Rightarrow> mcp_server \<Rightarrow> json \<Rightarrow> 'u \<Rightarrow> (json option \<times> 'u) result" where
  "handle_message wr rd homes detector redact_responses policy server message u =
     (case message of
        JObj m \<Rightarrow>
          if dict_get m ''method'' = Some (JStr ''tools/call'')
          then handle_tool_call wr rd homes detector redact_responses policy server m u
          else
            bindE (wr message u) (\<lambda>u1.
              if dict_get m ''id'' \<noteq> None then rd u1 else Inr (None, u1))
      | _ \<Rightarrow> Inl (AttributeError ''get''))"

section \<open>The proxy loops\<close>

text \<open>How a loop ends: the text written to the client, the upstream (or pool) and the exception that
  ended it, if any.\<close>

record 'u session =
  se_output :: string
  se_upstream :: 'u
  se_error :: "py_error option"

definition response_text :: "json option \<Rightarrow> string" where
  "response_text response = (case response of Some r \<Rightarrow> if r = JNull then [] else write_message r | None \<Rightarrow> [])"

function serve ::
  "(json \<Rightarrow> 'u \<Rightarrow> (json option \<times> 'u) result) \<Rightarrow> string list \<Rightarrow> 'u \<Rightarrow> string \<Rightarrow> 'u session" where
  "serve handle input u out =
     (case read_message input of
        Inl e \<Rightarrow> \<lparr>se_output = out, se_upstream = u, se_error = Some e\<rparr>
      | Inr (message, remaining) \<Rightarrow>
          (case message of
             None \<Rightarrow> \<lparr>se_output = out, se_upstream = u, se_error = None\<rparr>
           | Some m \<Rightarrow>
               if m = JNull then \<lparr>se_output = out, se_upstream = u, se_error = None\<rparr>
               else
                 (case handle m u of
                    Inl e \<Rightarrow> \<lparr>se_output = out, se_upstream = u, se_error = Some e\<rparr>
                  | Inr (response, u') \<Rightarrow> serve handle remaining u' (out @ response_text response))))"
  by pat_completeness auto
termination
  by (relation "measure (\<lambda>(h, input, u, out). length input)") (auto dest: read_message_shorter)

declare serve.simps [simp del]

definition run_gateway ::
  "homes \<Rightarrow> (string \<Rightarrow> scan_result) \<Rightarrow> bool \<Rightarrow> mcp_server \<Rightarrow> local_policy \<Rightarrow> upstream \<Rightarrow> string \<Rightarrow> upstream session" where
  "run_gateway homes detector redact_responses server policy u client =
     (let s = serve (handle_message up_write up_read homes detector redact_responses policy server)
                (text_lines client) (up_start u) []
      in s\<lparr>se_upstream := up_stop (se_upstream s)\<rparr>)"

text \<open>Several servers in one process, keyed by name.\<close>

record pool =
  po_servers :: "mcp_server dict"
  po_procs :: "upstream dict"
  po_order :: "string list"

definition make_pool :: "(mcp_server \<Rightarrow> upstream) \<Rightarrow> mcp_server list \<Rightarrow> pool" where
  "make_pool spawn servers =
     \<lparr>po_servers = dict_of (map (\<lambda>s. (ms_name s, s)) servers),
      po_procs = dict_of (map (\<lambda>s. (ms_name s, spawn s)) servers),
      po_order = map ms_name servers\<rparr>"

definition pool_start :: "pool \<Rightarrow> pool" where
  "pool_start p = p\<lparr>po_procs := map (\<lambda>(n, u). (n, up_start u)) (po_procs p)\<rparr>"

definition pool_stop :: "pool \<Rightarrow> pool" where
  "pool_stop p = p\<lparr>po_procs := map (\<lambda>(n, u). (n, up_stop u)) (po_procs p)\<rparr>"

definition pool_default :: "pool \<Rightarrow> json" where
  "pool_default p = (case po_order p of [] \<Rightarrow> JNull | n # _ \<Rightarrow> JStr n)"

definition pool_handle ::
  "homes \<Rightarrow> (string \<Rightarrow> scan_result) \<Rightarrow> bool \<Rightarrow> local_policy \<Rightarrow> json \<Rightarrow> pool \<Rightarrow> (json option \<times> pool) result" where
  "pool_handle homes detector redact_responses policy message p =
     (case message of
        JObj m \<Rightarrow>
          (let named = dict_get_or m ''server'' JNull;
               server_name = (if truthy named then named else pool_default p);
               unknown = Inr (Some (jsonrpc_error (dict_get_or m ''id'' JNull) (-32000)
                           (''unknown MCP server: '' @ py_str server_name)), p)
           in case server_name of
                JStr n \<Rightarrow>
                  (case (dict_get (po_procs p) n, dict_get (po_servers p) n) of
                     (Some u, Some server) \<Rightarrow>
                       bindE (handle_message up_write up_read homes detector redact_responses policy server message u)
                         (\<lambda>(response, u'). Inr (response, p\<lparr>po_procs := dict_set n u' (po_procs p)\<rparr>))
                   | _ \<Rightarrow> unknown)
              | JArr _ \<Rightarrow> Inl (TypeError ''unhashable type'')
              | JObj _ \<Rightarrow> Inl (TypeError ''unhashable type'')
              | _ \<Rightarrow> unknown)
      | _ \<Rightarrow> Inl (AttributeError ''get''))"

definition run_multiplex_gateway ::
  "homes \<Rightarrow> (string \<Rightarrow> scan_result) \<Rightarrow> bool \<Rightarrow> (mcp_server \<Rightarrow> upstream) \<Rightarrow> mcp_server list \<Rightarrow> local_policy \<Rightarrow> string \<Rightarrow>
   pool session" where
  "run_multiplex_gateway homes detector redact_responses spawn servers policy client =
     (let s = serve (pool_handle homes detector redact_responses policy) (text_lines client)
                (pool_start (make_pool spawn servers)) []
      in s\<lparr>se_upstream := pool_stop (se_upstream s)\<rparr>)"

section \<open>Client configuration\<close>

definition proxiable :: "mcp_server \<Rightarrow> bool" where
  "proxiable s \<longleftrightarrow> ms_transport s = ''stdio'' \<and> ms_command s \<noteq> [] \<or> ms_transport s = ''http'' \<and> ms_url s \<noteq> []"

definition gateway_entry :: "string \<Rightarrow> mcp_server \<Rightarrow> json" where
  "gateway_entry launcher s =
     JObj [(''command'', JStr launcher),
           (''args'', JArr [JStr ''-m'', JStr ''pysetu_agent'', JStr ''--mcp-gateway'', JStr ''--server'', JStr (ms_name s)])]"

definition gateway_config :: "mcp_server list \<Rightarrow> string \<Rightarrow> json" where
  "gateway_config servers launcher =
     JObj [(''mcpServers'', JObj (dict_of (map (\<lambda>s. (ms_name s, gateway_entry launcher s)) (filter proxiable servers))))]"

definition write_gateway_config :: "string \<Rightarrow> mcp_server list \<Rightarrow> string \<Rightarrow> disk \<Rightarrow> disk" where
  "write_gateway_config path servers launcher d = write_text d path (dumps_indent (gateway_config servers launcher))"

section \<open>Framing round trips\<close>

lemma stops_newline: "stops (newline # s)"
  by (rule json_ws_stops) (simp add: json_ws_def)

lemma no_newline_number:
  assumes "parse_number s = Some (v, [])"
  shows "newline \<notin> set s"
proof
  assume "newline \<in> set s"
  then obtain a b where s: "s = a @ newline # b" by (meson split_list)
  then have "map_option (apsnd (\<lambda>t. t @ newline # b)) (parse_number a) = Some (v, [])"
    using assms parse_number_append [OF stops_newline, of a b] by simp
  then show False by auto
qed

lemma no_newline_float: "float_lit s \<Longrightarrow> newline \<notin> set s"
  unfolding float_lit_def by (auto dest: no_newline_number)

lemma no_newline_digits: "list_all is_digit s \<Longrightarrow> newline \<notin> set s"
  by (auto simp: list_all_iff is_digit_def)

lemma no_newline_int: "newline \<notin> set (show_int i)"
  using no_newline_digits [OF show_nat_digits] by (simp add: show_int_def)

lemma no_newline_hex: "n < 16 \<Longrightarrow> hex_digit n \<noteq> newline"
proof -
  assume "n < 16"
  then have "ordc (hex_digit n) \<ge> 48" by (auto simp: hex_digit_def)
  then show ?thesis by auto
qed

lemma no_newline_dump_char: "newline \<notin> set (dump_char c)"
proof -
  have "ordc c < 256" by (cases c) (simp add: ordc_Char)
  then have "ordc c div 16 < 16" by linarith
  then have "hex_digit (ordc c div 16) \<noteq> newline" "hex_digit (ordc c mod 16) \<noteq> newline"
    by (simp_all add: no_newline_hex)
  moreover have "32 \<le> ordc c \<Longrightarrow> newline \<noteq> c" by auto
  ultimately show ?thesis by (simp add: dump_char_def)
qed

lemma no_newline_dump_str: "newline \<notin> set (dump_str s)"
  using no_newline_dump_char by (simp add: dump_str_def)

lemma set_join: "set (join sep xs) \<subseteq> set sep \<union> \<Union> (set ` set xs)"
  by (induction sep xs rule: join.induct) auto

lemma no_newline_join: "newline \<notin> set sep \<Longrightarrow> (\<forall>x \<in> set xs. newline \<notin> set x) \<Longrightarrow> newline \<notin> set (join sep xs)"
  using set_join [of sep xs] by blast

lemma no_newline_dump: "wf_json v \<Longrightarrow> newline \<notin> set (dump_at compact k v)"
proof (induction v arbitrary: k rule: wf_json.induct)
  case (1 s)
  then show ?case by (simp add: no_newline_float)
next
  case (2 s)
  then show ?case by (simp add: no_newline_dump_str)
next
  case (3 vs)
  then have "newline \<notin> set (join '', '' (map (dump_at compact (Suc k)) vs))"
    by (intro no_newline_join) (auto simp: list_all_iff)
  then show ?case by (simp add: compact_def)
next
  case (4 kvs)
  then have "newline \<notin> set (join '', '' (map (\<lambda>(key, v). dump_str key @ '': '' @ dump_at compact (Suc k) v) kvs))"
    by (intro no_newline_join) (fastforce simp: list_all_iff no_newline_dump_str)+
  then show ?case by (simp add: compact_def)
qed (auto simp: no_newline_int)

lemma text_lines_append: "newline \<notin> set l \<Longrightarrow> text_lines (l @ newline # s) = (l @ [newline]) # text_lines s"
  by (induction l) auto

lemma dumps_object_ends: "\<exists>b. dumps (JObj kvs) = CHR ''{'' # b @ ''}''"
  by (simp add: dumps_def compact_def)

lemma strip_wrapped:
  assumes "\<not> is_space a" and "\<not> is_space z"
  shows "strip ((a # b @ [z]) @ [newline]) = a # b @ [z]"
proof -
  have "is_space newline" by code_simp
  then show ?thesis using assms by (simp add: strip_def lstrip_def rstrip_def)
qed

lemma read_written_message:
  assumes "wf_json (JObj kvs)"
  shows "read_message (text_lines (write_message (JObj kvs) @ after)) = Inr (Some (JObj kvs), text_lines after)"
proof -
  obtain b where b: "dumps (JObj kvs) = CHR ''{'' # b @ ''}''" using dumps_object_ends by blast
  have "newline \<notin> set (dumps (JObj kvs))"
    using no_newline_dump [OF assms] by (simp add: dumps_def)
  then have l: "text_lines (write_message (JObj kvs) @ after) = (dumps (JObj kvs) @ [newline]) # text_lines after"
    using text_lines_append by (simp add: write_message_def)
  have "\<not> is_space CHR ''{''" "\<not> is_space CHR ''}''" by code_simp+
  then have s: "strip (dumps (JObj kvs) @ [newline]) = dumps (JObj kvs)"
    unfolding b by (rule strip_wrapped)
  have "dumps (JObj kvs) \<noteq> []" by (simp add: b)
  then show ?thesis
    unfolding l by (simp add: s json_load_def loads_dumps [OF assms])
qed

lemma read_line_split: "newline \<notin> set l \<Longrightarrow> read_line (l @ newline # s) = (l @ [newline], s)"
  by (induction l) (auto simp: read_line_def)

lemma read_written_http:
  assumes "wf_json m"
  shows "read_http_message (write_http_message m @ after) = Inr (Some m, after)"
proof -
  let ?body = "dumps m"
  let ?n = "show_nat (length ?body)"
  let ?tail = "crlf @ ?body @ after"
  have digits: "list_all is_digit ?n" by (rule show_nat_digits)
  have cr: "is_space CHR 0x0D" "is_space newline" "is_space CHR '' ''" by code_simp+
  have "newline \<notin> set ?n" using no_newline_digits [OF digits] .
  then have l1: "read_line (''Content-Length: '' @ ?n @ crlf @ ?tail) =
      (''Content-Length: '' @ ?n @ crlf, ?tail)"
    using read_line_split [of "''Content-Length: '' @ ?n @ [CHR 0x0D]" ?tail] by (simp add: crlf_def)
  obtain d ds where n: "?n = ds @ [d]" by (cases ?n rule: rev_cases) auto
  have d: "\<not> is_space d" using digits n by (simp add: is_digit_not_space)
  have C: "\<not> is_space CHR ''C''" by code_simp
  have s1: "strip (''Content-Length: '' @ ?n @ crlf) = ''Content-Length: '' @ ?n"
    unfolding n using d C cr by (simp add: strip_def lstrip_def rstrip_def crlf_def)
  have colon: "CHR '':'' \<notin> set ''Content-Length''" by simp
  have num: "strip (CHR '' '' # ?n) = ?n"
  proof -
    have "hd ?n \<in> set ?n" by simp
    then have "\<not> is_space (hd ?n)" using digits is_digit_not_space by (auto simp: list_all_iff)
    moreover have "strip (CHR '' '' # ?n) = strip ?n" using cr by (simp add: strip_def lstrip_def)
    ultimately show ?thesis using d n by (simp add: strip_solid)
  qed
  have key: "lower (strip ''Content-Length'') = ''content-length''" by code_simp
  have h1: "read_headers [] (''Content-Length: '' @ ?n @ crlf @ ?tail) = read_headers [(''content-length'', ?n)] ?tail"
    by (subst read_headers.simps) (simp add: l1 [simplified] s1 [simplified] num key [simplified] dict_set_def Let_def)
  have l2: "read_line ?tail = (crlf, ?body @ after)"
    using read_line_split [of "[CHR 0x0D]" "?body @ after"] by (simp add: crlf_def)
  have s2: "strip crlf = []" using cr by (simp add: strip_def lstrip_def rstrip_def crlf_def)
  have h2: "read_headers [(''content-length'', ?n)] ?tail = Some ([(''content-length'', ?n)], ?body @ after)"
    by (subst read_headers.simps) (simp add: l2 s2, simp add: crlf_def)
  have pos: "0 < length ?body" using length_dump_at_pos [OF assms] by (simp add: dumps_def)
  show ?thesis
    using pos
    by (simp add: read_http_message_def write_http_message_def Let_def h1 [simplified] h2 dict_get_or_def dict_get_def
        py_int_show_nat json_load_def loads_dumps [OF assms])
qed

section \<open>The interface of an upstream\<close>

text \<open>What a call decision permits to be sent: the arguments as they are, when nothing was detected in
  their text or the policy neither blocks nor redacts it; or the parsed redacted copy.\<close>

definition permitted_arguments ::
  "homes \<Rightarrow> local_policy \<Rightarrow> (string \<Rightarrow> scan_result) \<Rightarrow> string \<Rightarrow> json \<Rightarrow> json \<Rightarrow> bool" where
  "permitted_arguments homes policy det resource a a' \<longleftrightarrow>
     (let r = det (dumps_sorted a); d = evaluate homes policy resource (sr_classifications r)
      in a' = a \<and> (\<not> has_sensitive r \<or> d \<noteq> ''block'' \<and>
                     (d = ''redact'' \<longrightarrow> sr_redacted r = None \<or> Option.bind (sr_redacted r) loads = Some JNull)) \<or>
         d = ''redact'' \<and> has_sensitive r \<and> Option.bind (sr_redacted r) loads = Some a')"

definition call_params :: "json dict \<Rightarrow> json dict" where
  "call_params m = (case json_or_empty (dict_get_or m ''params'' JNull) of JObj p \<Rightarrow> p | _ \<Rightarrow> [])"

definition call_arguments :: "json dict \<Rightarrow> json" where
  "call_arguments m = json_or_empty (dict_get_or (call_params m) ''arguments'' JNull)"

definition call_resource :: "mcp_server \<Rightarrow> json dict \<Rightarrow> string" where
  "call_resource server m = mcp_resource (ms_name server) (py_str (dict_get_or (call_params m) ''name'' (JStr [])))"

definition forwards :: "json dict \<Rightarrow> json \<Rightarrow> json \<Rightarrow> bool" where
  "forwards m a sent \<longleftrightarrow>
     sent = JObj m \<and> a = call_arguments m \<or>
     sent = JObj (dict_set ''params'' (JObj (dict_set ''arguments'' a (call_params m))) m)"

lemma decide_tool_call_forwards:
  assumes "decide_tool_call homes (ms_name server) (py_str (dict_get_or (call_params m) ''name'' (JStr [])))
      (call_arguments m) policy det = d" and "gd_action d \<noteq> ''block''"
  shows "\<exists>a. permitted_arguments homes policy det (call_resource server m) (call_arguments m) a \<and>
           forwards m a (forwarded_call m (call_params m) d)"
proof (cases "gd_arguments d")
  case None
  then have "forwards m (call_arguments m) (forwarded_call m (call_params m) d)"
    by (simp add: forwards_def forwarded_call_def)
  moreover have "permitted_arguments homes policy det (call_resource server m) (call_arguments m) (call_arguments m)"
    using assms None unfolding decide_tool_call_def Let_def permitted_arguments_def call_resource_def
    by (auto split: if_splits option.splits)
  ultimately show ?thesis by blast
next
  case (Some a)
  have p: "evaluate homes policy (call_resource server m) (sr_classifications (det (dumps_sorted (call_arguments m)))) = ''redact''"
    "has_sensitive (det (dumps_sorted (call_arguments m)))" "gd_action d = ''redact''"
    "Option.bind (sr_redacted (det (dumps_sorted (call_arguments m)))) loads = Some a"
    using assms Some unfolding decide_tool_call_def Let_def call_resource_def
    by (auto split: if_splits option.splits)
  show ?thesis
  proof (cases "a = JNull")
    case True
    then have "forwards m (call_arguments m) (forwarded_call m (call_params m) d)"
      using Some by (simp add: forwards_def forwarded_call_def)
    moreover have "permitted_arguments homes policy det (call_resource server m) (call_arguments m) (call_arguments m)"
      using p True by (simp add: permitted_arguments_def Let_def)
    ultimately show ?thesis by blast
  next
    case False
    then have "forwards m a (forwarded_call m (call_params m) d)"
      using Some p(3) by (simp add: forwards_def forwarded_call_def)
    moreover have "permitted_arguments homes policy det (call_resource server m) (call_arguments m) a"
      using p by (simp add: permitted_arguments_def Let_def)
    ultimately show ?thesis by blast
  qed
qed

text \<open>An upstream keeps a log of what was written to it, which only \<open>write\<close> extends.\<close>

locale upstream_channel =
  fixes wr :: "json \<Rightarrow> 'u \<Rightarrow> 'u result"
    and rd :: "'u \<Rightarrow> (json option \<times> 'u) result"
    and sent :: "'u \<Rightarrow> json list"
  assumes wr_sent: "wr m u = Inr u' \<Longrightarrow> sent u' = sent u @ [m]"
    and rd_sent: "rd u = Inr (r, u') \<Longrightarrow> sent u' = sent u"
begin

lemma tool_call_sends_permitted:
  assumes "handle_tool_call wr rd homes det redact policy server m u = Inr (response, u')"
  shows "sent u' = sent u \<or>
    (\<exists>a msg. sent u' = sent u @ [msg] \<and> forwards m a msg \<and>
       permitted_arguments homes policy det (call_resource server m) (call_arguments m) a)"
proof -
  let ?d = "decide_tool_call homes (ms_name server) (py_str (dict_get_or (call_params m) ''name'' (JStr [])))
      (call_arguments m) policy det"
  obtain p where p: "json_or_empty (dict_get_or m ''params'' JNull) = JObj p"
    using assms by (auto simp: handle_tool_call_def Let_def bindE_eq_Inr_iff split: json.splits)
  then have cp: "call_params m = p" by (simp add: call_params_def)
  show ?thesis
  proof (cases "gd_action ?d = ''block''")
    case True
    then have "u' = u" using assms p cp by (simp add: handle_tool_call_def Let_def call_arguments_def)
    then show ?thesis by simp
  next
    case False
    then obtain u1 where "wr (forwarded_call m p ?d) u = Inr u1" "\<exists>r. rd u1 = Inr (r, u')"
      using assms p cp by (auto simp: handle_tool_call_def Let_def call_arguments_def bindE_eq_Inr_iff)
    then have "sent u' = sent u @ [forwarded_call m p ?d]"
      using wr_sent rd_sent by fastforce
    with decide_tool_call_forwards [OF refl False] show ?thesis unfolding cp by blast
  qed
qed

lemma other_message_sends_itself:
  assumes "handle_message wr rd homes det redact policy server (JObj m) u = Inr (response, u')"
    and "dict_get m ''method'' \<noteq> Some (JStr ''tools/call'')"
  shows "sent u' = sent u @ [JObj m]"
  using assms wr_sent rd_sent
  by (auto simp: handle_message_def bindE_eq_Inr_iff split: if_splits; fastforce)

end

interpretation stdio: upstream_channel stdio_write stdio_read sp_sent
  by unfold_locales (auto simp: stdio_write_def stdio_read_def bindE_eq_Inr_iff split: if_splits)

interpretation http: upstream_channel http_write http_read hp_sent
  by unfold_locales
    (auto simp: http_write_def http_read_def Let_def split: post_reply.splits list.splits option.splits)

interpretation up: upstream_channel up_write up_read up_sent
proof
  fix m u u' r
  show "up_write m u = Inr u' \<Longrightarrow> up_sent u' = up_sent u @ [m]"
    by (cases u) (auto simp: bindE_eq_Inr_iff stdio.wr_sent http.wr_sent)
  show "up_read u = Inr (r, u') \<Longrightarrow> up_sent u' = up_sent u"
    by (cases u) (auto simp: bindE_eq_Inr_iff stdio.rd_sent http.rd_sent)
qed

section \<open>Responses\<close>

lemma block_text_set: "block_text b = Some s \<Longrightarrow> block_text (set_block_text r b) = Some r"
proof (cases b)
  case (JObj d)
  assume s: "block_text b = Some s"
  have f: "str_field (dict_set k (JStr r) e) k = Some r" for k e
    by (simp add: str_field_def)
  show ?thesis
  proof (cases "dict_get d ''type'' = Some (JStr ''text'')")
    case True
    then show ?thesis using f by (simp add: JObj block_text_def set_block_text_def)
  next
    case False
    then have t: "dict_get d ''type'' = Some (JStr ''resource'')"
      using s by (simp add: JObj block_text_def split: if_splits)
    then obtain e where "dict_get d ''resource'' = Some (JObj e)"
      using s by (auto simp: JObj block_text_def split: option.splits json.splits)
    then show ?thesis using t f by (simp add: JObj block_text_def set_block_text_def)
  qed
qed (simp_all add: block_text_def)

definition redacted_text :: "(string \<Rightarrow> scan_result) \<Rightarrow> string \<Rightarrow> string" where
  "redacted_text det s = (if has_sensitive (det s) then (case sr_redacted (det s) of Some r \<Rightarrow> r | None \<Rightarrow> s) else s)"

lemma block_text_redact: "block_text (redact_block det b) = map_option (redacted_text det) (block_text b)"
proof (cases "block_text b")
  case None
  then show ?thesis by (simp add: redact_block_def)
next
  case (Some s)
  show ?thesis
  proof (cases "sr_redacted (det s)")
    case None
    then show ?thesis by (simp add: redact_block_def redacted_text_def Some)
  next
    case (Some r)
    then show ?thesis
      using block_text_set [OF \<open>block_text b = Some s\<close>, of r]
      by (simp add: redact_block_def redacted_text_def \<open>block_text b = Some s\<close>)
  qed
qed

lemma redacted_blocks:
  "concat (map (\<lambda>b. case block_text (redact_block det b) of None \<Rightarrow> [] | Some s \<Rightarrow> [s]) bs) =
   map (redacted_text det) (concat (map (\<lambda>b. case block_text b of None \<Rightarrow> [] | Some s \<Rightarrow> [s]) bs))"
proof (induction bs)
  case (Cons b bs)
  then show ?case by (cases "block_text b") (simp_all add: block_text_redact)
qed simp

lemma text_blocks_redacted:
  "text_blocks (dict_set ''content'' (JArr (map (redact_block det) (content_blocks result))) result) =
   map (redacted_text det) (text_blocks result)"
  unfolding text_blocks_def redacted_blocks [symmetric] by (simp add: content_blocks_def comp_def)

section \<open>Sessions\<close>

text \<open>The messages a client's input holds, up to its end or its first malformed line.\<close>

function messages_of :: "string list \<Rightarrow> json list" where
  "messages_of input =
     (case read_message input of
        Inr (Some m, remaining) \<Rightarrow> m # messages_of remaining
      | _ \<Rightarrow> [])"
  by pat_completeness auto
termination
  by (relation "measure length") (auto dest: read_message_shorter)

declare messages_of.simps [simp del]

lemma serve_keeps:
  "(\<And>m u r u'. m \<in> set (messages_of input) \<Longrightarrow> I u \<Longrightarrow> handle m u = Inr (r, u') \<Longrightarrow> I u') \<Longrightarrow>
   I u \<Longrightarrow> I (se_upstream (serve handle input u out))"
proof (induction "length input" arbitrary: input u out rule: less_induct)
  case less
  show ?case
  proof (cases "\<exists>m remaining r u'. read_message input = Inr (Some m, remaining) \<and> m \<noteq> JNull \<and> handle m u = Inr (r, u')")
    case True
    then obtain m remaining r u' where
      m: "read_message input = Inr (Some m, remaining)" "m \<noteq> JNull" "handle m u = Inr (r, u')"
      by blast
    have ms: "messages_of input = m # messages_of remaining"
      using m(1) by (subst messages_of.simps) simp
    have "I u'" using less.prems(1) [OF _ less.prems(2) m(3)] ms by simp
    moreover have "m' \<in> set (messages_of remaining) \<Longrightarrow> I v \<Longrightarrow> handle m' v = Inr (s, v') \<Longrightarrow> I v'" for m' v s v'
      using less.prems(1) [of m' v s v'] ms by simp
    ultimately have "I (se_upstream (serve handle remaining u' (out @ response_text r)))"
      using less.hyps [OF read_message_shorter [OF m(1)]] by blast
    then show ?thesis using m by (subst serve.simps) simp
  next
    case False
    then show ?thesis
      using less.prems(2) by (subst serve.simps) (auto split: sum.splits option.splits)
  qed
qed

definition permitted_message ::
  "homes \<Rightarrow> local_policy \<Rightarrow> (string \<Rightarrow> scan_result) \<Rightarrow> mcp_server \<Rightarrow> json set \<Rightarrow> json \<Rightarrow> bool" where
  "permitted_message homes policy det server ms msg \<longleftrightarrow>
     (\<exists>m. JObj m \<in> ms \<and>
        (if dict_get m ''method'' = Some (JStr ''tools/call'')
         then \<exists>a. forwards m a msg \<and>
                permitted_arguments homes policy det (call_resource server m) (call_arguments m) a
         else msg = JObj m))"

context upstream_channel
begin

lemma message_keeps_permitted:
  assumes "message \<in> ms" and "list_all (permitted_message homes policy det server ms) (sent u)"
    and "handle_message wr rd homes det redact policy server message u = Inr (response, u')"
  shows "list_all (permitted_message homes policy det server ms) (sent u')"
proof -
  obtain m where m: "message = JObj m"
    using assms(3) by (auto simp: handle_message_def split: json.splits)
  show ?thesis
  proof (cases "dict_get m ''method'' = Some (JStr ''tools/call'')")
    case True
    then have "handle_tool_call wr rd homes det redact policy server m u = Inr (response, u')"
      using assms(3) m by (simp add: handle_message_def)
    from tool_call_sends_permitted [OF this] show ?thesis
    proof (elim disjE exE conjE)
      fix a msg
      assume "sent u' = sent u @ [msg]" "forwards m a msg"
        "permitted_arguments homes policy det (call_resource server m) (call_arguments m) a"
      moreover from this have "permitted_message homes policy det server ms msg"
        using True assms(1) m unfolding permitted_message_def by (intro exI [of _ m]) auto
      ultimately show ?thesis using assms(2) by simp
    qed (use assms(2) in simp)
  next
    case False
    then have "permitted_message homes policy det server ms (JObj m)"
      using assms(1) m unfolding permitted_message_def by (intro exI [of _ m]) simp
    with other_message_sends_itself [OF assms(3) [unfolded m] False] assms(2) show ?thesis by simp
  qed
qed

end

lemma up_sent_start [simp]: "up_sent (up_start u) = up_sent u" "up_sent (up_stop u) = up_sent u"
  by (cases u; simp add: stdio_start_def stdio_stop_def)+

section \<open>Properties\<close>

text \<open>C9: whatever a client sends through the gateway, every message the upstream receives is one the client
  sent, and a tool call among them carries arguments in which nothing was detected, or that the
  policy lets through, or the parsed redacted copy of the client's arguments.\<close>

theorem gateway_sends_only_permitted:
  assumes "up_sent u = []"
  shows "list_all (permitted_message homes policy (detect limit) server (set (messages_of (text_lines client))))
    (up_sent (se_upstream (run_gateway homes (detect limit) redact server policy u client)))"
proof -
  let ?h = "handle_message up_write up_read homes (detect limit) redact policy server"
  have "list_all (permitted_message homes policy (detect limit) server (set (messages_of (text_lines client))))
      (up_sent (se_upstream (serve ?h (text_lines client) (up_start u) [])))"
    by (rule serve_keeps) (simp_all add: up.message_keeps_permitted assms)
  then show ?thesis by (simp add: run_gateway_def Let_def)
qed

definition sample_server :: mcp_server where
  "sample_server = \<lparr>ms_name = ''hr'', ms_source = ''.mcp.json'', ms_command = ''hr-mcp'', ms_url = [],
     ms_transport = ''stdio'', ms_tools = [], ms_args = []\<rparr>"

definition sample_upstream :: upstream where
  "sample_upstream = make_upstream sample_server ''{}'' (\<lambda>_. Posted) []"

theorem gateway_sends_only_permitted_witness:
  "list_all (permitted_message (\<lambda>_. None) policy_defaults (detect 20) sample_server
      (set (messages_of (text_lines (write_message (JObj [(''method'', JStr ''ping''), (''id'', JInt 1)]))))))
    (up_sent (se_upstream (run_gateway (\<lambda>_. None) (detect 20) True sample_server policy_defaults sample_upstream
       (write_message (JObj [(''method'', JStr ''ping''), (''id'', JInt 1)])))))"
  by (rule gateway_sends_only_permitted) (simp add: sample_upstream_def make_upstream_def sample_server_def)

text \<open>A tool result that reaches the client has been filtered: it is replaced by an error when the policy
  blocks the labels found in its texts; when the policy redacts them, the client gets the result
  with every text replaced by its redacted copy and nothing else changed; otherwise it is passed on.\<close>

theorem tool_result_filtered:
  assumes "dict_get r ''result'' = Some (JObj result)"
  shows "let det = detect limit; texts = text_blocks result;
             labels = response_labels det texts;
             decision = evaluate homes policy (mcp_resource server tool) labels
         in filter_response homes policy det True server tool request_id (Some (JObj r)) =
              (if labels \<noteq> [] \<and> decision = ''block''
               then Some (jsonrpc_error request_id (-32000) ''blocked by PySetu policy: Sensitive data in tool response'')
               else if labels \<noteq> [] \<and> decision = ''redact'' \<and> list_ex (block_redacted det) texts
               then Some (JObj (dict_set ''result''
                      (JObj (dict_set ''content'' (JArr (map (redact_block det) (content_blocks result))) result)) r))
               else Some (JObj r)) \<and>
            text_blocks (dict_set ''content'' (JArr (map (redact_block det) (content_blocks result))) result) =
              map (redacted_text det) texts"
proof -
  have e: "response_labels (detect limit) [] = []" by (simp add: response_labels_def)
  show ?thesis
    using assms e
    by (cases "response_labels (detect limit) (text_blocks result) = []"; cases "text_blocks result = []")
      (simp_all add: filter_response_def decide_tool_response_def Let_def text_blocks_redacted)
qed

theorem tool_result_filtered_witness:
  "text_blocks (dict_set ''content'' (JArr (map (redact_block (detect 20))
      (content_blocks [(''content'', JArr [JObj [(''type'', JStr ''text''), (''text'', JStr ''hi'')]])])))
      [(''content'', JArr [JObj [(''type'', JStr ''text''), (''text'', JStr ''hi'')]])]) =
   map (redacted_text (detect 20)) [''hi'']"
proof -
  let ?res = "[(''content'', JArr [JObj [(''type'', JStr ''text''), (''text'', JStr ''hi'')]])]"
  have "dict_get [(''result'', JObj ?res)] ''result'' = Some (JObj ?res)" by (simp add: dict_get_def)
  from tool_result_filtered [OF this, of 20] have
    "text_blocks (dict_set ''content'' (JArr (map (redact_block (detect 20)) (content_blocks ?res))) ?res) =
       map (redacted_text (detect 20)) (text_blocks ?res)"
    unfolding Let_def by blast
  moreover have "text_blocks ?res = [''hi'']"
    by (simp add: text_blocks_def content_blocks_def block_text_def str_field_def dict_get_def)
  ultimately show ?thesis by simp
qed

text \<open>C10: the multiplexer touches only the process of the server a message names: every other process keeps
  its state, and a name no server has gets an error and reaches none.\<close>

theorem multiplex_isolates_servers:
  assumes "pool_handle homes det redact policy (JObj m) p = Inr (response, p')"
    and "dict_get m ''server'' = Some (JStr n)" and "n \<noteq> []"
  shows "(\<forall>k. k \<noteq> n \<longrightarrow> dict_get (po_procs p') k = dict_get (po_procs p) k) \<and>
         po_servers p' = po_servers p \<and> po_order p' = po_order p \<and>
         (dict_get (po_servers p) n = None \<longrightarrow> p' = p \<and>
            response = Some (jsonrpc_error (dict_get_or m ''id'' JNull) (-32000) (''unknown MCP server: '' @ n)))"
  using assms
  by (auto simp: pool_handle_def Let_def dict_get_or_def bindE_eq_Inr_iff split: option.splits)

theorem multiplex_isolates_servers_witness:
  "pool_handle (\<lambda>_. None) (detect 5) True policy_defaults (JObj [(''server'', JStr ''x'')])
      (make_pool (\<lambda>_. sample_upstream) [sample_server]) =
    Inr (Some (jsonrpc_error JNull (-32000) ''unknown MCP server: x''), make_pool (\<lambda>_. sample_upstream) [sample_server])"
proof -
  let ?p = "make_pool (\<lambda>_. sample_upstream) [sample_server]"
  have none: "dict_get (po_servers ?p) ''x'' = None" "dict_get (po_procs ?p) ''x'' = None"
    by (simp_all add: make_pool_def dict_of_def dict_set_def dict_get_def sample_server_def)
  have m: "dict_get [(''server'', JStr ''x'')] ''server'' = Some (JStr ''x'')"
    "dict_get [(''server'', JStr ''x'')] ''id'' = None"
    by (simp_all add: dict_get_def)
  have h: "pool_handle (\<lambda>_. None) (detect 5) True policy_defaults (JObj [(''server'', JStr ''x'')]) ?p =
      Inr (Some (jsonrpc_error JNull (-32000) (''unknown MCP server: '' @ ''x'')), ?p)"
    using none m by (simp add: pool_handle_def Let_def dict_get_or_def)
  from multiplex_isolates_servers [OF h m(1)] h show ?thesis by simp
qed

text \<open>Both framings give back the message that was written and leave the rest of the stream: one JSON object
  per line on standard streams, \<open>Content-Length\<close> headers over HTTP.\<close>

theorem framing_round_trips:
  assumes "wf_json (JObj kvs)"
  shows "read_message (text_lines (write_message (JObj kvs) @ after)) = Inr (Some (JObj kvs), text_lines after) \<and>
         read_http_message (write_http_message (JObj kvs) @ after) = Inr (Some (JObj kvs), after)"
  using read_written_message [OF assms] read_written_http [OF assms] by blast

theorem framing_round_trips_witness:
  "read_http_message (write_http_message (JObj [(''id'', JInt 1)]) @ ''x'') = Inr (Some (JObj [(''id'', JInt 1)]), ''x'')"
proof -
  have "wf_json (JObj [(''id'', JInt 1)])"
    by (simp add: wf_dict_def ascii_str_def is_ascii_def)
  from framing_round_trips [OF this] show ?thesis by blast
qed

end
