(* ===== verification/PyState.thy ===== *)
theory PyState
  imports PyValue
begin

text \<open>
  Computations that change a state and may raise: a function from the state to a result and the
  state in which the computation ended, also when it raised.  \<open>keeps\<close> is the rule format for
  invariants of such computations and \<open>raises\<close> the one for the exceptions they end with; the
  rules for the control structures are collected in \<open>keeps_intros\<close> and \<open>raises_intros\<close>.
\<close>

named_theorems keeps_intros \<open>invariants of computations, by their structure\<close>
named_theorems raises_intros \<open>exceptions of computations, by their structure\<close>
named_theorems eff_simps \<open>evaluation of computations\<close>

type_synonym ('s, 'a) eff = "'s \<Rightarrow> 'a result \<times> 's"

definition returnS :: "'a \<Rightarrow> ('s, 'a) eff" where
  "returnS x s = (Inr x, s)"

definition raiseS :: "py_error \<Rightarrow> ('s, 'a) eff" where
  "raiseS e s = (Inl e, s)"

definition liftS :: "'a result \<Rightarrow> ('s, 'a) eff" where
  "liftS r s = (r, s)"

definition getS :: "('s \<Rightarrow> 'a) \<Rightarrow> ('s, 'a) eff" where
  "getS f s = (Inr (f s), s)"

definition modifyS :: "('s \<Rightarrow> 's) \<Rightarrow> ('s, unit) eff" where
  "modifyS f s = (Inr (), f s)"

definition bindS :: "('s, 'a) eff \<Rightarrow> ('a \<Rightarrow> ('s, 'b) eff) \<Rightarrow> ('s, 'b) eff" where
  "bindS m f s = (case m s of (Inl e, s') \<Rightarrow> (Inl e, s') | (Inr x, s') \<Rightarrow> f x s')"

definition seqS :: "('s, 'a) eff \<Rightarrow> ('s, 'b) eff \<Rightarrow> ('s, 'b) eff" where
  "seqS m k = bindS m (\<lambda>_. k)"

text \<open>\<open>try: m except E: h\<close>; the handler answers \<open>None\<close> for the exceptions it does not name.\<close>

definition tryS :: "('s, 'a) eff \<Rightarrow> (py_error \<Rightarrow> ('s, 'a) eff option) \<Rightarrow> ('s, 'a) eff" where
  "tryS m h s = (case m s of
      (Inl e, s') \<Rightarrow> (case h e of None \<Rightarrow> (Inl e, s') | Some k \<Rightarrow> k s')
    | r \<Rightarrow> r)"

fun eachS :: "('a \<Rightarrow> ('s, unit) eff) \<Rightarrow> 'a list \<Rightarrow> ('s, unit) eff" where
  "eachS f [] = returnS ()"
| "eachS f (x # xs) = seqS (f x) (eachS f xs)"

lemma returnS_apply [simp, eff_simps]: "returnS x s = (Inr x, s)"
  by (simp add: returnS_def)

lemma raiseS_apply [simp, eff_simps]: "raiseS e s = (Inl e, s)"
  by (simp add: raiseS_def)

lemma liftS_apply [simp, eff_simps]: "liftS r s = (r, s)"
  by (simp add: liftS_def)

lemma getS_apply [simp, eff_simps]: "getS f s = (Inr (f s), s)"
  by (simp add: getS_def)

lemma modifyS_apply [simp, eff_simps]: "modifyS f s = (Inr (), f s)"
  by (simp add: modifyS_def)

lemma bindS_Inr [eff_simps]: "m s = (Inr x, s') \<Longrightarrow> bindS m f s = f x s'"
  by (simp add: bindS_def)

lemma bindS_Inl [eff_simps]: "m s = (Inl e, s') \<Longrightarrow> bindS m f s = (Inl e, s')"
  by (simp add: bindS_def)

lemma seqS_Inr [eff_simps]: "m s = (Inr x, s') \<Longrightarrow> seqS m k s = k s'"
  by (simp add: seqS_def bindS_Inr)

lemma seqS_Inl [eff_simps]: "m s = (Inl e, s') \<Longrightarrow> seqS m k s = (Inl e, s')"
  by (simp add: seqS_def bindS_Inl)

lemma tryS_Inr [eff_simps]: "m s = (Inr x, s') \<Longrightarrow> tryS m h s = (Inr x, s')"
  by (simp add: tryS_def)

lemma tryS_Inl [eff_simps]:
  "m s = (Inl e, s') \<Longrightarrow> tryS m h s = (case h e of None \<Rightarrow> (Inl e, s') | Some k \<Rightarrow> k s')"
  by (simp add: tryS_def)

lemma bindS_eq_Inr:
  "bindS m f s = (Inr y, t) \<longleftrightarrow> (\<exists>x s'. m s = (Inr x, s') \<and> f x s' = (Inr y, t))"
  by (auto simp: bindS_def split: prod.splits sum.splits)

lemma bindS_return [simp]: "bindS m returnS = m"
  by (rule ext) (auto simp: bindS_def split: prod.splits sum.splits)

lemma return_bindS [simp]: "bindS (returnS x) f = f x"
  by (rule ext) (simp add: bindS_def)

lemma bindS_assoc: "bindS (bindS m f) g = bindS m (\<lambda>x. bindS (f x) g)"
  by (rule ext) (auto simp: bindS_def split: prod.splits sum.splits)

lemma return_seqS [simp]: "seqS (returnS x) k = k"
  unfolding seqS_def return_bindS ..

lemma seqS_assoc: "seqS (seqS m k) l = seqS m (seqS k l)"
  by (simp add: seqS_def bindS_assoc)

lemma eachS_append: "eachS f (xs @ ys) = seqS (eachS f xs) (eachS f ys)"
proof (induction xs)
  case Nil
  show ?case unfolding eachS.simps append_Nil return_seqS ..
qed (simp add: seqS_assoc)

section \<open>Relations between the states before and after\<close>

text \<open>\<open>keeps R m\<close>: every run of \<open>m\<close>, also one that raises, ends in a state related to its start.\<close>

definition keeps :: "('s \<Rightarrow> 's \<Rightarrow> bool) \<Rightarrow> ('s, 'a) eff \<Rightarrow> bool" where
  "keeps R m \<longleftrightarrow> (\<forall>s. R s (snd (m s)))"

lemma keepsD: "keeps R m \<Longrightarrow> R s (snd (m s))"
  by (simp add: keeps_def)

lemma keeps_run: "keeps R m \<Longrightarrow> m s = (r, s') \<Longrightarrow> R s s'"
  using keepsD [of R m s] by simp

lemma keeps_return [keeps_intros]: "reflp R \<Longrightarrow> keeps R (returnS x)"
  by (simp add: keeps_def reflpD)

lemma keeps_raise [keeps_intros]: "reflp R \<Longrightarrow> keeps R (raiseS e)"
  by (simp add: keeps_def reflpD)

lemma keeps_lift [keeps_intros]: "reflp R \<Longrightarrow> keeps R (liftS r)"
  by (simp add: keeps_def reflpD)

lemma keeps_get [keeps_intros]: "reflp R \<Longrightarrow> keeps R (getS f)"
  by (simp add: keeps_def reflpD)

lemma keeps_modify [keeps_intros]: "(\<And>s. R s (f s)) \<Longrightarrow> keeps R (modifyS f)"
  by (simp add: keeps_def)

lemma keeps_bind [keeps_intros]:
  assumes "transp R" and "keeps R m" and "\<And>x. keeps R (f x)"
  shows "keeps R (bindS m f)"
  unfolding keeps_def
proof
  fix s
  obtain r s' where m: "m s = (r, s')" by fastforce
  have "R s s'" using keeps_run [OF assms(2) m] .
  then show "R s (snd (bindS m f s))"
    using m keepsD [OF assms(3)] transpD [OF assms(1)]
    by (cases r) (auto simp: bindS_Inl bindS_Inr)
qed

lemma keeps_seq [keeps_intros]: "transp R \<Longrightarrow> keeps R m \<Longrightarrow> keeps R k \<Longrightarrow> keeps R (seqS m k)"
  unfolding seqS_def by (rule keeps_bind)

lemma keeps_try [keeps_intros]:
  assumes "transp R" and "keeps R m" and "\<And>e k. h e = Some k \<Longrightarrow> keeps R k"
  shows "keeps R (tryS m h)"
  unfolding keeps_def
proof
  fix s
  obtain r s' where m: "m s = (r, s')" by fastforce
  have "R s s'" using keeps_run [OF assms(2) m] .
  then show "R s (snd (tryS m h s))"
    using m keepsD [OF assms(3)] transpD [OF assms(1)]
    by (cases r) (auto simp: tryS_Inl tryS_Inr split: option.split)
qed

lemma keeps_each [keeps_intros]:
  "reflp R \<Longrightarrow> transp R \<Longrightarrow> (\<And>x. x \<in> set xs \<Longrightarrow> keeps R (f x)) \<Longrightarrow> keeps R (eachS f xs)"
  by (induction xs) (auto intro!: keeps_return keeps_seq)

lemma keeps_if: "(b \<Longrightarrow> keeps R m) \<Longrightarrow> (\<not> b \<Longrightarrow> keeps R k) \<Longrightarrow> keeps R (if b then m else k)"
  by simp

section \<open>Exceptions\<close>

text \<open>\<open>raises E m\<close>: every exception of \<open>m\<close> satisfies \<open>E\<close>.\<close>

definition raises :: "(py_error \<Rightarrow> bool) \<Rightarrow> ('s, 'a) eff \<Rightarrow> bool" where
  "raises E m \<longleftrightarrow> (\<forall>s e s'. m s = (Inl e, s') \<longrightarrow> E e)"

lemma raisesI: "(\<And>s e s'. m s = (Inl e, s') \<Longrightarrow> E e) \<Longrightarrow> raises E m"
  by (auto simp: raises_def)

lemma raisesD: "raises E m \<Longrightarrow> m s = (Inl e, s') \<Longrightarrow> E e"
  by (auto simp: raises_def)

lemma raises_mono: "raises E m \<Longrightarrow> (\<And>e. E e \<Longrightarrow> F e) \<Longrightarrow> raises F m"
  by (auto simp: raises_def)

lemma raises_return [raises_intros]: "raises E (returnS x)"
  by (simp add: raises_def)

lemma raises_raise [raises_intros]: "E e \<Longrightarrow> raises E (raiseS e)"
  by (simp add: raises_def)

lemma raises_lift [raises_intros]: "(\<And>e. r = Inl e \<Longrightarrow> E e) \<Longrightarrow> raises E (liftS r)"
  by (simp add: raises_def)

lemma raises_get [raises_intros]: "raises E (getS f)"
  by (simp add: raises_def)

lemma raises_modify [raises_intros]: "raises E (modifyS f)"
  by (simp add: raises_def)

lemma raises_bind [raises_intros]:
  assumes "raises E m" and "\<And>x. raises E (f x)"
  shows "raises E (bindS m f)"
proof (rule raisesI)
  fix s e s'
  assume b: "bindS m f s = (Inl e, s')"
  obtain r t where m: "m s = (r, t)" by fastforce
  then show "E e"
    using b raisesD [OF assms(2)] by (cases r) (auto simp: bindS_Inl bindS_Inr intro: raisesD [OF assms(1)])
qed

lemma raises_seq [raises_intros]: "raises E m \<Longrightarrow> raises E k \<Longrightarrow> raises E (seqS m k)"
  unfolding seqS_def by (rule raises_bind)

lemma raises_try:
  assumes "raises F m" and "\<And>e. F e \<Longrightarrow> h e = None \<Longrightarrow> E e" and "\<And>e k. h e = Some k \<Longrightarrow> raises E k"
  shows "raises E (tryS m h)"
proof (rule raisesI)
  fix s e s'
  assume b: "tryS m h s = (Inl e, s')"
  obtain r t where m: "m s = (r, t)" by fastforce
  then show "E e"
    using b assms(2) raisesD [OF assms(3)]
    by (cases r) (auto simp: tryS_Inl tryS_Inr split: option.splits intro: raisesD [OF assms(1)])
qed

lemma raises_if: "(b \<Longrightarrow> raises E m) \<Longrightarrow> (\<not> b \<Longrightarrow> raises E k) \<Longrightarrow> raises E (if b then m else k)"
  by simp

lemma raises_each [raises_intros]: "(\<And>x. x \<in> set xs \<Longrightarrow> raises E (f x)) \<Longrightarrow> raises E (eachS f xs)"
  by (induction xs) (auto intro!: raises_return raises_seq)

section \<open>Values\<close>

text \<open>A computation yields values with a property whenever it returns.\<close>

definition yields :: "('a \<Rightarrow> bool) \<Rightarrow> ('s, 'a) eff \<Rightarrow> bool" where
  "yields P m \<longleftrightarrow> (\<forall>s x s'. m s = (Inr x, s') \<longrightarrow> P x)"

named_theorems yields_intros \<open>rules for what a computation yields\<close>

lemma yields_return [yields_intros]: "P x \<Longrightarrow> yields P (returnS x)"
  by (simp add: yields_def)

lemma yields_lift: "(\<And>x. r = Inr x \<Longrightarrow> P x) \<Longrightarrow> yields P (liftS r)"
  by (simp add: yields_def)

lemma yields_any: "yields (\<lambda>x. True) m"
  by (simp add: yields_def)

lemma yields_bind: "yields Q m \<Longrightarrow> (\<And>x. Q x \<Longrightarrow> yields P (f x)) \<Longrightarrow> yields P (bindS m f)"
  unfolding yields_def by (metis bindS_eq_Inr)

lemma yields_bind_any: "(\<And>x. yields P (f x)) \<Longrightarrow> yields P (bindS m f)"
  by (rule yields_bind [OF yields_any])

end
