(* ===== verification/AgentDaemon.thy ===== *)
theory AgentDaemon
  imports AgentFiles AgentGateway PyState
begin

text \<open>
  \<open>endpoint-agent/pysetu_agent/client.py\<close> and \<open>daemon.py\<close>: the control-plane client, the payloads, the
  loading of the policy, one registration pass, the scan, watch, clipboard and gateway modes, and
  the dispatch of \<open>main\<close>.  The surroundings that no operation changes (what the server answers,
  the machine, the clock, what other programs do between two polls) are a record of their own;
  the state holds the requests sent, the files and the lines printed.
\<close>

section \<open>The world\<close>

record request =
  rq_method :: string
  rq_url :: string
  rq_auth :: string
  rq_body :: "string option"

datatype http_reply = Body string | Status int string | NoRoute string

text \<open>\<open>su_server\<close> answers a request given the earlier ones.  \<open>su_info\<close> is what \<open>platform\<close> and \<open>socket\<close>
  report.  \<open>su_edits\<close>, \<open>su_polls\<close>, \<open>su_passes\<close> are what happens before each poll of the watcher, of the
  clipboard monitor and of the main loop; the loops of the source do not end, and the model follows
  them for as many polls as these lists have.\<close>

record surroundings =
  su_server :: "request list \<Rightarrow> request \<Rightarrow> http_reply"
  su_os_name :: string
  su_os_version :: string
  su_hostname :: string
  su_env :: "string dict"
  su_home :: string
  su_machine :: machine
  su_homes :: homes
  su_sha256 :: "string \<Rightarrow> string"
  su_detector :: "string \<Rightarrow> scan_result"
  su_now :: "nat \<Rightarrow> string"
  su_stamp :: "nat \<Rightarrow> string"
  su_executable :: string
  su_package :: string
  su_spawn :: "mcp_server \<Rightarrow> upstream"
  su_stdin :: string
  su_clipboard :: string
  su_edits :: "(fs \<Rightarrow> fs) list"
  su_polls :: "string option list"
  su_passes :: "(disk \<Rightarrow> disk) list"

record world =
  w_requests :: "request list"
  w_disk :: disk
  w_fs :: fs
  w_shims :: shim_state
  w_out :: "string list"
  w_err :: "string list"

type_synonym 'a daemon = "(world, 'a) eff"

definition print :: "string \<Rightarrow> unit daemon" where
  "print line = modifyS (\<lambda>w. w\<lparr>w_out := w_out w @ [line]\<rparr>)"

definition print_err :: "string \<Rightarrow> unit daemon" where
  "print_err line = modifyS (\<lambda>w. w\<lparr>w_err := w_err w @ [line]\<rparr>)"

text \<open>A line that starts with the time; \<open>su_now\<close> gives it by the number of lines before.\<close>

definition print_at :: "surroundings \<Rightarrow> string \<Rightarrow> unit daemon" where
  "print_at su line = modifyS (\<lambda>w. w\<lparr>w_out := w_out w @ [''['' @ su_now su (length (w_out w)) @ ''] '' @ line]\<rparr>)"

section \<open>The client\<close>

definition API_PREFIX :: string where
  "API_PREFIX = ''/api/v1''"

record client =
  cl_backend_url :: string
  cl_api_key :: string

definition make_client :: "agent_config \<Rightarrow> client" where
  "make_client config =
     \<lparr>cl_backend_url = rstrip_chars ''/'' (ac_backend_url config), cl_api_key = ac_api_key config\<rparr>"

definition make_request :: "client \<Rightarrow> string \<Rightarrow> string \<Rightarrow> json option \<Rightarrow> request" where
  "make_request cl method path payload =
     \<lparr>rq_method = method, rq_url = cl_backend_url cl @ API_PREFIX @ path,
      rq_auth = ''Bearer '' @ cl_api_key cl, rq_body = map_option dumps payload\<rparr>"

definition read_reply :: "string \<Rightarrow> string \<Rightarrow> http_reply \<Rightarrow> json result" where
  "read_reply method path reply =
     (case reply of
        Body body \<Rightarrow> if body \<noteq> [] then json_load body else Inr (JObj [])
      | Status code detail \<Rightarrow>
          Inl (ControlPlaneError (method @ '' '' @ path @ '' failed ('' @ show_int code @ ''): '' @ detail))
      | NoRoute reason \<Rightarrow> Inl (ControlPlaneError (method @ '' '' @ path @ '' unreachable: '' @ reason)))"

definition request :: "surroundings \<Rightarrow> client \<Rightarrow> string \<Rightarrow> string \<Rightarrow> json option \<Rightarrow> json daemon" where
  "request su cl method path payload w =
     (let r = make_request cl method path payload
      in (read_reply method path (su_server su (w_requests w) r), w\<lparr>w_requests := w_requests w @ [r]\<rparr>))"

definition register_endpoint :: "surroundings \<Rightarrow> client \<Rightarrow> json \<Rightarrow> json daemon" where
  "register_endpoint su cl payload = request su cl ''POST'' ''/endpoints'' (Some payload)"

definition heartbeat_path :: "string \<Rightarrow> string" where
  "heartbeat_path endpoint_id = ''/endpoints/'' @ endpoint_id @ ''/heartbeat''"

definition heartbeat :: "surroundings \<Rightarrow> client \<Rightarrow> string \<Rightarrow> json \<Rightarrow> json daemon" where
  "heartbeat su cl endpoint_id payload = request su cl ''POST'' (heartbeat_path endpoint_id) (Some payload)"

definition upsert_agent :: "surroundings \<Rightarrow> client \<Rightarrow> json \<Rightarrow> json daemon" where
  "upsert_agent su cl payload = request su cl ''POST'' ''/agents'' (Some payload)"

definition ingest_event :: "surroundings \<Rightarrow> client \<Rightarrow> json \<Rightarrow> json daemon" where
  "ingest_event su cl payload = request su cl ''POST'' ''/security-events/ingest'' (Some payload)"

definition get_policy :: "surroundings \<Rightarrow> client \<Rightarrow> json daemon" where
  "get_policy su cl = request su cl ''GET'' ''/agentic/policy'' None"

section \<open>Payloads\<close>

definition agent_version :: string where
  "agent_version = ''0.6.0''"

definition jstrs :: "string list \<Rightarrow> json" where
  "jstrs xs = JArr (map JStr xs)"

definition user_name :: "string dict \<Rightarrow> string" where
  "user_name env = env_or env ''USER'' (env_or env ''USERNAME'' [])"

definition agent_payload :: "string dict \<Rightarrow> string \<Rightarrow> discovered_tool \<Rightarrow> mcp_server list \<Rightarrow> json" where
  "agent_payload env endpoint_id tool servers =
     JObj [(''endpoint_id'', JStr endpoint_id), (''name'', JStr (dt_name tool)),
           (''agent_type'', JStr (dt_agent_type tool)), (''vendor'', JStr (dt_vendor tool)),
           (''version'', JStr (dt_version tool)), (''user_name'', JStr (user_name env)),
           (''status'', JStr ''active''), (''data_sources'', JArr []), (''tools'', JArr []),
           (''mcp_servers'', jstrs (map ms_name servers)), (''permissions'', JArr [])]"

text \<open>\<open>",".join(sorted({...})) or "-"\<close>\<close>

definition resource_list :: "string list \<Rightarrow> string" where
  "resource_list names =
     (let r = join '','' (sort (remdups names)) in if r \<noteq> [] then r else ''-'')"

abbreviation event_payload ::
  "string \<Rightarrow> string \<Rightarrow> string \<Rightarrow> string \<Rightarrow> string list \<Rightarrow> string \<Rightarrow> int \<Rightarrow> json \<Rightarrow> json" where
  "event_payload endpoint_id event_type action resource classification decision risk metadata \<equiv>
     JObj [(''endpoint_id'', JStr endpoint_id), (''source'', JStr ''endpoint''),
           (''event_type'', JStr event_type), (''action'', JStr action), (''resource'', JStr resource),
           (''classification'', jstrs classification), (''decision'', JStr decision),
           (''risk_score'', JInt risk), (''metadata'', metadata)]"

definition discovered_entry :: "discovered_tool \<Rightarrow> json" where
  "discovered_entry tool =
     JObj [(''name'', JStr (dt_name tool)), (''agent_type'', JStr (dt_agent_type tool)),
           (''vendor'', JStr (dt_vendor tool)), (''source'', JStr (dt_source tool))]"

definition discovery_event_payload :: "string \<Rightarrow> discovered_tool list \<Rightarrow> json" where
  "discovery_event_payload endpoint_id tools =
     event_payload endpoint_id ''discovery'' ''tool.discover'' (resource_list (map dt_name tools)) [] ''log'' 0
       (JObj [(''discovered'', JArr (map discovered_entry tools))])"

definition server_entry :: "mcp_server \<Rightarrow> json" where
  "server_entry server =
     JObj [(''name'', JStr (ms_name server)), (''source'', JStr (ms_source server)),
           (''command'', JStr (ms_command server)), (''url'', JStr (ms_url server)),
           (''transport'', JStr (ms_transport server)), (''tools'', jstrs (ms_tools server))]"

definition mcp_discovery_event_payload :: "string \<Rightarrow> mcp_server list \<Rightarrow> json" where
  "mcp_discovery_event_payload endpoint_id servers =
     event_payload endpoint_id ''mcp_discovery'' ''mcp.discover'' (resource_list (map ms_name servers)) [''mcp''] ''log'' 0
       (JObj [(''discovered'', JArr (map server_entry servers))])"

definition queue_telemetry :: "surroundings \<Rightarrow> agent_config \<Rightarrow> json dict \<Rightarrow> unit daemon" where
  "queue_telemetry su config event =
     modifyS (\<lambda>w.
       let old = (case w_disk w (ac_telemetry_file config) of None \<Rightarrow> [] | Some s \<Rightarrow> s);
           line = dumps (JObj (dict_of ((''timestamp'', JStr (su_now su (length old))) # event))) @ [newline]
       in w\<lparr>w_disk := write_text (w_disk w) (ac_telemetry_file config) (old @ line)\<rparr>)"

definition risk_for_decision :: "string \<Rightarrow> int" where
  "risk_for_decision decision =
     dict_get_or [(''block'', 90), (''approval'', 70), (''redact'', 50), (''log'', 20), (''allow'', 0)] decision 20"

definition api_decision :: "string \<Rightarrow> string" where
  "api_decision decision =
     dict_get_or [(''allow'', ''allowed''), (''block'', ''blocked''), (''redact'', ''redacted''),
                  (''approval'', ''approval''), (''log'', ''log'')] decision ''log''"

definition file_event_payload :: "string \<Rightarrow> scan_event \<Rightarrow> json" where
  "file_event_payload endpoint_id event =
     event_payload endpoint_id ''file'' ''file.read'' (ev_path event) (ev_classifications event)
       (api_decision (ev_decision event)) (risk_for_decision (ev_decision event))
       (JObj [(''match_count'', JInt (int (ev_match_count event)))])"

definition endpoint_payload :: "surroundings \<Rightarrow> agent_config \<Rightarrow> json" where
  "endpoint_payload su config =
     JObj [(''hostname'', JStr (ac_hostname config)),
           (''os_name'', JStr (if su_os_name su \<noteq> [] then su_os_name su else ''unknown'')),
           (''os_version'', JStr (su_os_version su)), (''agent_version'', JStr agent_version),
           (''metadata'', JObj [(''first_seen_from'', JStr ''endpoint-agent'')])]"

definition online :: json where
  "online = JObj [(''status'', JStr ''online'')]"

section \<open>The policy of a run\<close>

fun control_plane_error :: "py_error \<Rightarrow> bool" where
  "control_plane_error (ControlPlaneError _) = True"
| "control_plane_error _ = False"

definition save_policy :: "surroundings \<Rightarrow> string \<Rightarrow> local_policy \<Rightarrow> unit daemon" where
  "save_policy su path policy w =
     (case cache_save (su_sha256 su) path policy (w_disk w) of
        Inl e \<Rightarrow> (Inl e, w)
      | Inr d \<Rightarrow> (Inr (), w\<lparr>w_disk := d\<rparr>))"

definition cached_policy :: "surroundings \<Rightarrow> string \<Rightarrow> local_policy daemon" where
  "cached_policy su path w = (cache_load_or_defaults (su_sha256 su) path (w_disk w), w)"

definition load_policy :: "surroundings \<Rightarrow> client \<Rightarrow> string option \<Rightarrow> local_policy daemon" where
  "load_policy su cl policy_file =
     (case policy_file of
        None \<Rightarrow> returnS policy_defaults
      | Some path \<Rightarrow>
          if path = [] then returnS policy_defaults
          else
            tryS (bindS (get_policy su cl) (\<lambda>payload.
                  bindS (liftS (policy_from_payload payload)) (\<lambda>policy.
                  seqS (save_policy su path policy) (returnS policy))))
              (\<lambda>e. if control_plane_error e then Some (cached_policy su path) else None))"

definition load_local_policy :: "surroundings \<Rightarrow> string option \<Rightarrow> local_policy daemon" where
  "load_local_policy su policy_file =
     (case policy_file of
        None \<Rightarrow> returnS policy_defaults
      | Some path \<Rightarrow> if path = [] then returnS policy_defaults else cached_policy su path)"

section \<open>The modes\<close>

definition found_tools :: "surroundings \<Rightarrow> discovered_tool list" where
  "found_tools su =
     discover_tools (su_machine su) (su_home su) (search_path (su_env su)) (default_extensions_dir (su_home su))"

definition found_servers :: "surroundings \<Rightarrow> world \<Rightarrow> mcp_server list" where
  "found_servers su w = discover_mcp_servers (w_disk w) (su_home su)"

definition register :: "surroundings \<Rightarrow> agent_config \<Rightarrow> client \<Rightarrow> string daemon" where
  "register su config cl =
     bindS (register_endpoint su cl (endpoint_payload su config)) (\<lambda>endpoint.
     bindS (liftS (json_item endpoint ''id'')) (\<lambda>i. returnS (py_str i)))"

definition skip :: "'a daemon \<Rightarrow> unit daemon" where
  "skip m = bindS m (\<lambda>_. returnS ())"

definition run_once :: "surroundings \<Rightarrow> agent_config \<Rightarrow> (string \<times> string list \<times> string list) daemon" where
  "run_once su config =
     (let cl = make_client config; tools = found_tools su in
      bindS (register su config cl) (\<lambda>endpoint_id.
      bindS (getS (found_servers su)) (\<lambda>servers.
      seqS (eachS (\<lambda>tool. skip (upsert_agent su cl (agent_payload (su_env su) endpoint_id tool servers))) tools)
     (seqS (skip (ingest_event su cl (discovery_event_payload endpoint_id tools)))
     (seqS (if servers \<noteq> [] then skip (ingest_event su cl (mcp_discovery_event_payload endpoint_id servers))
            else returnS ())
     (seqS (skip (heartbeat su cl endpoint_id online))
           (returnS (endpoint_id, map dt_name tools, map ms_name servers))))))))"

definition daemon_config :: "surroundings \<Rightarrow> local_policy \<Rightarrow> bool \<Rightarrow> string option \<Rightarrow> scan_config" where
  "daemon_config su policy enf quarantine_dir =
     \<lparr>sc_homes = su_homes su, sc_stamp = su_stamp su, sc_policy = policy, sc_detector = su_detector su,
      sc_max_files = MAX_FILES, sc_enforce = enf, sc_quarantine = quarantine_dir\<rparr>"

text \<open>The scan as an operation on the world; the fuel of the walk is enough (\<open>scan_total\<close> below), so the
  error of an exhausted walk does not occur.  When the scan raises, the files stay as they were in
  the model, where the source has already changed some of them.\<close>

definition scan_files :: "scan_config \<Rightarrow> string \<Rightarrow> scan_event list daemon" where
  "scan_files cfg root w =
     (case scan_directory cfg root (w_fs w) of
        None \<Rightarrow> (Inl (RuntimeError ''walk''), w)
      | Some (Inl e) \<Rightarrow> (Inl e, w)
      | Some (Inr (events, s)) \<Rightarrow> (Inr events, w\<lparr>w_fs := s\<rparr>))"

definition run_scan ::
  "surroundings \<Rightarrow> agent_config \<Rightarrow> string \<Rightarrow> string option \<Rightarrow> bool \<Rightarrow> string option \<Rightarrow> (string \<times> nat) daemon" where
  "run_scan su config scan_dir policy_file enf quarantine_dir =
     (let cl = make_client config in
      bindS (load_policy su cl policy_file) (\<lambda>policy.
      bindS (register su config cl) (\<lambda>endpoint_id.
      bindS (scan_files (daemon_config su policy enf quarantine_dir) scan_dir) (\<lambda>events.
      seqS (eachS (\<lambda>event. skip (ingest_event su cl (file_event_payload endpoint_id event))) events)
     (seqS (skip (heartbeat su cl endpoint_id online))
           (returnS (endpoint_id, length events)))))))"

definition on_event :: "surroundings \<Rightarrow> client \<Rightarrow> string \<Rightarrow> scan_event \<Rightarrow> unit daemon" where
  "on_event su cl endpoint_id event =
     tryS (seqS (skip (ingest_event su cl (file_event_payload endpoint_id event)))
                (print_at su (ev_decision event @ '': '' @ ev_path event)))
       (\<lambda>e. case e of
          ControlPlaneError m \<Rightarrow> Some (print_at su (''control plane unavailable: '' @ m))
        | _ \<Rightarrow> None)"

text \<open>\<open>watch_directory\<close> with \<open>on_events\<close> as its callback: the polls of \<open>watch_poll\<close>, each followed by the
  report of its batch.\<close>

fun watch_polls ::
  "surroundings \<Rightarrow> client \<Rightarrow> string \<Rightarrow> scan_config \<Rightarrow> string \<Rightarrow> (fs \<Rightarrow> fs) list \<Rightarrow> snapshot \<Rightarrow> unit daemon" where
  "watch_polls su cl endpoint_id cfg root [] current = returnS ()"
| "watch_polls su cl endpoint_id cfg root (edit # edits) current =
     (\<lambda>w. case watch_poll cfg root (edit (w_fs w)) current [] of
         None \<Rightarrow> (Inl (RuntimeError ''walk''), w)
       | Some (Inl e) \<Rightarrow> (Inl e, w\<lparr>w_fs := edit (w_fs w)\<rparr>)
       | Some (Inr (s, current', batches)) \<Rightarrow>
           seqS (eachS (on_event su cl endpoint_id) (concat batches))
             (watch_polls su cl endpoint_id cfg root edits current') (w\<lparr>w_fs := s\<rparr>))"

definition watch_files :: "surroundings \<Rightarrow> client \<Rightarrow> string \<Rightarrow> scan_config \<Rightarrow> string \<Rightarrow> unit daemon" where
  "watch_files su cl endpoint_id cfg root w =
     (case take_snapshot (w_fs w) root of
        None \<Rightarrow> (Inl (RuntimeError ''walk''), w)
      | Some current \<Rightarrow> watch_polls su cl endpoint_id cfg root (su_edits su) current w)"

definition run_watch ::
  "surroundings \<Rightarrow> agent_config \<Rightarrow> string \<Rightarrow> string option \<Rightarrow> bool \<Rightarrow> string option \<Rightarrow> unit daemon" where
  "run_watch su config watch_dir policy_file enf quarantine_dir =
     (let cl = make_client config in
      bindS (load_policy su cl policy_file) (\<lambda>policy.
      bindS (register su config cl) (\<lambda>endpoint_id.
      seqS (skip (ingest_event su cl (discovery_event_payload endpoint_id [])))
     (seqS (skip (heartbeat su cl endpoint_id online))
     (seqS (print (''Watching '' @ watch_dir @ '' for sensitive file changes...''))
           (watch_files su cl endpoint_id (daemon_config su policy enf quarantine_dir) watch_dir))))))"

definition run_wrap_shell :: "surroundings \<Rightarrow> string \<Rightarrow> unit daemon" where
  "run_wrap_shell su shim_dir =
     bindS (\<lambda>w. let (created, sh) = install_shim shim_dir WRAPPED_BINARIES (su_package su) (w_shims w)
                 in (Inr created, w\<lparr>w_shims := sh\<rparr>)) (\<lambda>created.
     seqS (print (''Installed '' @ show_nat (length created) @ '' shim(s) in '' @ shim_dir @ '':''))
    (seqS (eachS (\<lambda>path. print (''  '' @ path)) created)
    (seqS (print ([newline] @ ''Add the shim directory to your PATH (e.g. in ~/.zshrc):''))
          (print (''  export PATH='' @ [dquote] @ shim_dir @ '':$PATH'' @ [dquote])))))"

definition run_clipboard :: "surroundings \<Rightarrow> agent_config \<Rightarrow> string option \<Rightarrow> unit daemon" where
  "run_clipboard su config policy_file =
     bindS (load_policy su (make_client config) policy_file) (\<lambda>policy.
     seqS (print ''Monitoring clipboard for sensitive content (Ctrl-C to stop)...'')
          (eachS (\<lambda>d. print_at su (''clipboard '' @ cd_action d @ '': '' @ join '', '' (cd_classifications d)))
             (mo_events (monitor_clipboard (su_homes su) policy (su_detector su) (su_clipboard su) (su_polls su)))))"

text \<open>The messages of the gateway go to the client of the tool; an exception ends the process.\<close>

definition end_session :: "'u session \<Rightarrow> int daemon" where
  "end_session s =
     seqS (if se_output s = [] then returnS () else print (se_output s))
       (case se_error s of None \<Rightarrow> returnS 0 | Some e \<Rightarrow> raiseS e)"

definition run_mcp_gateway :: "surroundings \<Rightarrow> string option \<Rightarrow> string option \<Rightarrow> int daemon" where
  "run_mcp_gateway su server_name policy_file =
     bindS (getS (found_servers su)) (\<lambda>servers.
       case server_name of
         None \<Rightarrow>
           (let ps = filter proxiable servers in
            if ps = []
            then seqS (print_err ''pysetu: no proxiable MCP servers discovered to multiplex'') (returnS 1)
            else
              bindS (load_local_policy su policy_file) (\<lambda>policy.
                end_session (run_multiplex_gateway (su_homes su) (su_detector su) True (su_spawn su) ps policy (su_stdin su))))
       | Some name \<Rightarrow>
           (case find (\<lambda>s. ms_name s = name) servers of
              None \<Rightarrow> seqS (print_err (''pysetu: unknown MCP server: '' @ name)) (returnS 1)
            | Some server \<Rightarrow>
                if \<not> proxiable server
                then seqS (print_err (''pysetu: server '' @ name @ '' uses '' @ ms_transport server @
                             ''; only stdio and http are supported'')) (returnS 1)
                else
                  bindS (load_local_policy su policy_file) (\<lambda>policy.
                    end_session (run_gateway (su_homes su) (su_detector su) True server policy (su_spawn su server) (su_stdin su)))))"

definition run_mcp_gateway_config :: "surroundings \<Rightarrow> string option \<Rightarrow> string option \<Rightarrow> int daemon" where
  "run_mcp_gateway_config su output_path launcher =
     (let l = (case launcher of None \<Rightarrow> su_executable su | Some x \<Rightarrow> x) in
      bindS (getS (found_servers su)) (\<lambda>servers.
      seqS (case output_path of
              Some path \<Rightarrow>
                if path \<noteq> [] \<and> path \<noteq> ''-''
                then seqS (modifyS (\<lambda>w. w\<lparr>w_disk := write_gateway_config path servers l (w_disk w)\<rparr>))
                          (print (''Wrote MCP gateway config to '' @ path))
                else print (dumps_indent (gateway_config servers l))
            | None \<Rightarrow> print (dumps_indent (gateway_config servers l)))
        (returnS 0)))"

section \<open>The entry point\<close>

text \<open>The parsed command line, with the defaults of the parser.\<close>

record arguments =
  ar_once :: bool
  ar_config :: "string option"
  ar_scan_dir :: "string option"
  ar_watch :: "string option"
  ar_policy_file :: "string option"
  ar_enforce :: bool
  ar_quarantine_dir :: string
  ar_wrap_shell :: bool
  ar_wrap_shell_dir :: string
  ar_clipboard :: bool
  ar_mcp_gateway :: bool
  ar_server :: "string option"
  ar_mcp_gateway_config :: "string option"

definition default_arguments :: "string \<Rightarrow> arguments" where
  "default_arguments home =
     \<lparr>ar_once = False, ar_config = None, ar_scan_dir = None, ar_watch = None, ar_policy_file = None,
      ar_enforce = False, ar_quarantine_dir = path_join (path_join home ''.pysetu'') ''quarantine'',
      ar_wrap_shell = False, ar_wrap_shell_dir = path_join (path_join home ''.pysetu'') ''bin'',
      ar_clipboard = False, ar_mcp_gateway = False, ar_server = None, ar_mcp_gateway_config = None\<rparr>"

text \<open>\<open>Some n\<close> is the exit status; \<open>None\<close> says that a loop is still running after the polls of the
  surroundings.\<close>

definition reporting_errors :: "int option daemon \<Rightarrow> int option daemon" where
  "reporting_errors m =
     tryS m (\<lambda>e. case e of
        ControlPlaneError t \<Rightarrow> Some (seqS (print (''Control plane error: '' @ t)) (returnS (Some 1)))
      | _ \<Rightarrow> None)"

definition names_or_none :: "string list \<Rightarrow> string" where
  "names_or_none names = (let s = join '', '' names in if s \<noteq> [] then s else ''none'')"

definition poll_once :: "surroundings \<Rightarrow> agent_config \<Rightarrow> unit daemon" where
  "poll_once su config =
     tryS (bindS (run_once su config) (\<lambda>(endpoint_id, tools, servers).
             print_at su (''heartbeat ok; agents: '' @ names_or_none tools)))
       (\<lambda>e. case e of
          ControlPlaneError t \<Rightarrow> Some (print_at su (''control plane unavailable: '' @ t))
        | _ \<Rightarrow> None)"

definition is_set :: "string option \<Rightarrow> bool" where
  "is_set x \<longleftrightarrow> (case x of None \<Rightarrow> False | Some s \<Rightarrow> s \<noteq> [])"

text \<open>What \<open>main\<close> does with its configuration.\<close>

definition dispatch :: "surroundings \<Rightarrow> arguments \<Rightarrow> agent_config \<Rightarrow> int option daemon" where
  "dispatch su args config =
     (if ar_mcp_gateway_config args \<noteq> None
     then bindS (run_mcp_gateway_config su (ar_mcp_gateway_config args) None) (\<lambda>n. returnS (Some n))
     else if ar_mcp_gateway args
     then bindS (run_mcp_gateway su (ar_server args) (ar_policy_file args)) (\<lambda>n. returnS (Some n))
     else if missing_fields config \<noteq> []
     then seqS (print (''Missing required configuration: '' @ join '', '' (missing_fields config) @
                       ''. Set PYSETU_API_KEY and PYSETU_HOSTNAME.'')) (returnS (Some 2))
     else if ar_wrap_shell args
     then seqS (run_wrap_shell su (ar_wrap_shell_dir args)) (returnS (Some 0))
     else if ar_clipboard args
     then reporting_errors (seqS (run_clipboard su config (ar_policy_file args)) (returnS None))
     else if is_set (ar_scan_dir args)
     then reporting_errors
            (bindS (run_scan su config (the (ar_scan_dir args)) (ar_policy_file args) (ar_enforce args)
                      (Some (ar_quarantine_dir args))) (\<lambda>(endpoint_id, n).
             seqS (print (''Scanned endpoint '' @ endpoint_id @ ''; emitted '' @ show_nat n @ '' finding(s).''))
                  (returnS (Some 0))))
     else if is_set (ar_watch args)
     then reporting_errors
            (seqS (run_watch su config (the (ar_watch args)) (ar_policy_file args) (ar_enforce args)
                     (Some (ar_quarantine_dir args))) (returnS None))
     else if ar_once args
     then reporting_errors
            (bindS (run_once su config) (\<lambda>(endpoint_id, tools, servers).
             seqS (print (''Registered endpoint '' @ endpoint_id @ ''; discovered: '' @ names_or_none tools))
                  (returnS (Some 0))))
     else
       seqS (print (''PySetu endpoint agent v'' @ agent_version @ '' starting for '' @ ac_hostname config))
      (seqS (eachS (\<lambda>edit. seqS (modifyS (\<lambda>w. w\<lparr>w_disk := edit (w_disk w)\<rparr>)) (poll_once su config)) (su_passes su))
            (returnS None)))"

definition main :: "surroundings \<Rightarrow> arguments \<Rightarrow> int option daemon" where
  "main su args =
     bindS (\<lambda>w. (config_load (w_disk w) (su_hostname su) (ar_config args) (su_env su), w)) (dispatch su args)"

end
