(* ===== verification/AgentDaemonFacts.thy ===== *)
theory AgentDaemonFacts
  imports AgentDaemon
begin

text \<open>
  What holds of the daemon: which exceptions it lets through, which requests each mode sends and in
  which order, and that the policy it works with offline is the last one it was given.
\<close>

section \<open>Exceptions of the parts that do not talk to the control plane\<close>

named_theorems local_intros \<open>computations that raise no control-plane error\<close>

abbreviation local_error :: "py_error \<Rightarrow> bool" where
  "local_error e \<equiv> \<not> control_plane_error e"

definition locally :: "'a result \<Rightarrow> bool" where
  "locally r \<longleftrightarrow> (\<forall>e. r = Inl e \<longrightarrow> local_error e)"

lemma locally_Inr [simp, local_intros]: "locally (Inr x)"
  by (simp add: locally_def)

lemma locally_Inl [simp]: "locally (Inl e) = local_error e"
  by (simp add: locally_def)

lemma locallyD: "locally r \<Longrightarrow> r = Inl e \<Longrightarrow> local_error e"
  by (simp add: locally_def)

lemma locally_bind [local_intros]: "locally m \<Longrightarrow> (\<And>x. locally (f x)) \<Longrightarrow> locally (bindE m f)"
  by (cases m) simp_all

lemma locally_mapE [local_intros]: "(\<And>x. locally (f x)) \<Longrightarrow> locally (mapE f xs)"
  by (induction xs) (auto intro: local_intros)

lemma locally_json [local_intros]:
  "locally (json_load s)" "locally (read_text d p)" "locally (json_item v k)" "locally (json_get v k)"
  "locally (json_get_or v k x)" "locally (json_iter v)" "locally (as_str v)"
proof -
  show g: "locally (json_get v k)" by (cases v) simp_all
  show "locally (json_get_or v k x)" unfolding json_get_or_def by (intro local_intros g)
  show "locally (json_load s)" "locally (read_text d p)" "locally (as_str v)"
    by (simp_all add: json_load_def read_text_def as_str_def split: option.split json.split)
  show "locally (json_item v k)" by (cases v) (simp_all split: option.split)
  show "locally (json_iter v)" by (cases v) simp_all
qed

lemma locally_policy [local_intros]:
  "locally (rule_fields r)" "locally (cache_checksum h items)" "locally (cache_save h path p d)"
  "locally (cache_load h path d)" "locally (cache_load_or_defaults h path d)" "locally (policy_from_payload v)"
proof -
  show f: "locally (rule_fields r)" for r
    unfolding rule_fields_def by (intro local_intros)
  show c: "locally (cache_checksum h items)" for items
    unfolding cache_checksum_def by (intro local_intros f)
  show "locally (cache_save h path p d)"
    unfolding cache_save_def by (intro local_intros c)
  show "locally (policy_from_payload v)"
    unfolding policy_from_payload_def by (intro local_intros)
  have i: "locally (if b then Inl (ValueError m) else x)" if "locally x" for b m and x :: "local_policy result"
    using that by simp
  show l: "locally (cache_load h path d)"
    unfolding cache_load_def rule_of_cache_def
    by (intro local_intros i c) (auto intro: local_intros f split: prod.split)
  show "locally (cache_load_or_defaults h path d)"
    using l unfolding cache_load_or_defaults_def
    by (auto split: sum.split py_error.split)
qed

lemma locally_config [local_intros]: "locally (config_load d host path env)"
proof -
  have "locally (config_file_values d p)" for p
    unfolding config_file_values_def by (auto split: option.split intro!: local_intros)
  then show ?thesis unfolding config_load_def Let_def by (intro local_intros)
qed

lemma locally_enforce [local_intros]: "locally (enforce_file homes stamp path policy det bsuf q s)"
proof -
  have "locally (makedirs d s)" for d s by (simp add: makedirs_def)
  then have "locally (quarantine_file stamp path q s)"
    unfolding quarantine_file_def Let_def by (auto split: option.split intro!: local_intros)
  then show ?thesis
    unfolding enforce_file_def Let_def
    by (auto split: sum.split option.split intro!: local_intros)
qed

lemma locally_scan_one [local_intros]: "locally (scan_one cfg path s events)"
  unfolding scan_one_def
  by (auto split: option.split intro!: local_intros)

lemma locally_scan_names [local_intros]: "locally (scan_names cfg dirpath names st)"
  by (induction names arbitrary: st) (auto intro!: local_intros)

lemma locally_scan_walk:
  "(case scan_walk cfg n dirpath st of None \<Rightarrow> True | Some r \<Rightarrow> locally r)"
  "(case scan_children cfg n dirpath ds st of None \<Rightarrow> True | Some r \<Rightarrow> locally r)"
proof (induction cfg n dirpath st and cfg n dirpath ds st rule: scan_walk_scan_children.induct)
  case (2 cfg n dirpath st)
  then show ?case
    using locally_scan_names [of cfg dirpath "filenames (ss_fs st) dirpath" st]
    by (auto simp: Let_def split: sum.split option.split prod.split)
next
  case (4 cfg n dirpath d ds st)
  then show ?case by (auto split: sum.split option.split prod.split)
qed simp_all

lemma locally_scan_directory: "scan_directory cfg root s = Some r \<Longrightarrow> locally r"
  using locally_scan_walk(1) [of cfg "walk_fuel s (sc_quarantine cfg)" root "\<lparr>ss_fs = s, ss_events = [], ss_scanned = 0\<rparr>"]
  by (auto simp: scan_directory_def split: option.splits sum.splits prod.splits)

lemma locally_watch_poll: "watch_poll cfg root s prev rep = Some r \<Longrightarrow> locally r"
proof -
  have "locally (scan_changes cfg paths s events)" for paths s events
    by (induction paths arbitrary: s events) (auto intro!: local_intros)
  then show "watch_poll cfg root s prev rep = Some r \<Longrightarrow> locally r"
    unfolding watch_poll_def by (auto split: option.splits intro!: local_intros)
qed

lemma locally_read_message: "locally (read_message ls)"
  by (induction ls) (auto intro!: local_intros)

lemma locally_upstream: "locally (up_write m u)" "locally (up_read u)"
proof -
  have "locally (stdio_write m p)" "locally (http_write m h)" "locally (stdio_read p)" "locally (http_read h)" for p h
    by (auto simp: stdio_write_def http_write_def stdio_read_def http_read_def Let_def
        split: list.split intro!: local_intros locally_read_message)
  then show "locally (up_write m u)" "locally (up_read u)"
    by (cases u; auto intro!: local_intros)+
qed

lemma locally_handle: "locally (handle_message up_write up_read homes det red policy server m u)"
proof -
  have "locally (handle_tool_call up_write up_read homes det red policy server d u)" for d
    unfolding handle_tool_call_def Let_def
    by (auto split: json.split intro!: local_intros locally_upstream)
  then show ?thesis
    unfolding handle_message_def
    by (auto split: json.split intro!: local_intros locally_upstream)
qed

lemma locally_pool_handle: "locally (pool_handle homes det red policy m p)"
  unfolding pool_handle_def Let_def
  by (auto split: json.split option.split intro!: local_intros locally_handle)

lemma serve_local_error:
  assumes "\<And>m u. locally (handle m u)" and "se_error (serve handle input u out) = Some e"
  shows "local_error e"
  using assms
proof (induction handle input u out rule: serve.induct)
  case (1 handle input u out)
  show ?case
    using 1(3) 1(1) [OF _ refl _ _ _ refl 1(2)] locally_read_message [of input] 1(2)
    by (subst (asm) serve.simps)
      (auto simp: locally_def split: sum.splits prod.splits option.splits if_splits)
qed

section \<open>Exceptions of the modes\<close>

lemma raises_any [raises_intros]: "raises (\<lambda>_. True) m"
  by (simp add: raises_def)

lemma raises_print [raises_intros]:
  "raises E (print x)" "raises E (print_err x)" "raises E (print_at su x)"
  by (simp_all add: print_def print_err_def print_at_def raises_intros)

lemma raises_liftL: "locally r \<Longrightarrow> raises local_error (liftS r)"
  by (intro raises_lift) (rule locallyD)

lemma raises_read: "(\<And>w. locally (f w)) \<Longrightarrow> raises local_error (\<lambda>w. (f w, w))"
  by (auto simp: raises_def locally_def)

lemma save_policy_Inr:
  "save_policy su path p w = (Inr x, w') \<longleftrightarrow>
   (\<exists>d. cache_save (su_sha256 su) path p (w_disk w) = Inr d \<and> w' = w\<lparr>w_disk := d\<rparr>)"
  by (auto simp: save_policy_def split: sum.split)

lemma raises_skip [raises_intros]: "raises E m \<Longrightarrow> raises E (skip m)"
  unfolding skip_def by (intro raises_intros)

lemma raises_cached [raises_intros]: "raises local_error (cached_policy su path)"
  using locally_policy(5) by (auto simp: raises_def cached_policy_def locally_def)

lemma raises_load_policy: "raises local_error (load_policy su cl policy_file)"
proof -
  have "raises local_error (tryS m (\<lambda>e. if control_plane_error e then Some (cached_policy su path) else None))" for m path
    by (rule raises_try [where F = "\<lambda>_. True"]) (auto intro: raises_intros split: if_splits)
  then show ?thesis unfolding load_policy_def by (auto split: option.split intro: raises_intros)
qed

lemma raises_load_local: "raises local_error (load_local_policy su policy_file)"
  unfolding load_local_policy_def by (auto split: option.split intro: raises_intros)

lemma raises_on_event: "raises local_error (on_event su cl eid ev)"
  unfolding on_event_def
  by (rule raises_try [where F = "\<lambda>_. True"])
    (auto intro: raises_intros elim: control_plane_error.elims split: py_error.splits)

lemma raises_reporting: "raises local_error (reporting_errors m)"
  unfolding reporting_errors_def
  by (rule raises_try [where F = "\<lambda>_. True"])
    (auto intro: raises_intros elim: control_plane_error.elims split: py_error.splits)

lemma raises_poll_once: "raises local_error (poll_once su config)"
  unfolding poll_once_def
  by (rule raises_try [where F = "\<lambda>_. True"])
    (auto intro: raises_intros elim: control_plane_error.elims split: py_error.splits)

lemma raises_end_session:
  "(\<And>e. se_error s = Some e \<Longrightarrow> local_error e) \<Longrightarrow> raises local_error (end_session s)"
  unfolding end_session_def by (auto split: option.split intro!: raises_intros)

lemma raises_gateway: "raises local_error (run_mcp_gateway su name policy_file)"
proof -
  have r: "raises local_error (end_session (run_gateway homes det red server policy u inp))"
    for homes det red server policy u inp
    by (rule raises_end_session)
      (auto simp: run_gateway_def Let_def dest!: serve_local_error [rotated] intro: locally_handle)
  have m: "raises local_error (end_session (run_multiplex_gateway homes det red spawn servers policy inp))"
    for homes det red spawn servers policy inp
    by (rule raises_end_session)
      (auto simp: run_multiplex_gateway_def Let_def dest!: serve_local_error [rotated] intro: locally_pool_handle)
  show ?thesis
    unfolding run_mcp_gateway_def Let_def
    by (intro raises_intros) (auto split: option.split intro!: raises_intros raises_load_local r m)
qed

lemma raises_gateway_config: "raises E (run_mcp_gateway_config su out l)"
  unfolding run_mcp_gateway_config_def Let_def
  by (intro raises_intros) (auto split: option.split intro!: raises_intros)

lemma raises_wrap_shell: "raises E (run_wrap_shell su dir)"
  unfolding run_wrap_shell_def
  by (intro raises_intros) (auto simp: raises_def split: prod.splits)

section \<open>Which requests are sent\<close>

text \<open>The log of requests grows, by requests that satisfy \<open>P\<close>.\<close>

definition sent_only :: "(request \<Rightarrow> bool) \<Rightarrow> world \<Rightarrow> world \<Rightarrow> bool" where
  "sent_only P w w' \<longleftrightarrow> (\<exists>rs. w_requests w' = w_requests w @ rs \<and> list_all P rs)"

lemma sent_only_order [keeps_intros]: "reflp (sent_only P)" "transp (sent_only P)"
proof -
  show "reflp (sent_only P)" by (rule reflpI) (simp add: sent_only_def)
  show "transp (sent_only P)"
    unfolding sent_only_def by (rule transpI) (metis append.assoc list_all_append)
qed

lemma sent_only_same: "w_requests w' = w_requests w \<Longrightarrow> sent_only P w w'"
  by (simp add: sent_only_def)

lemma keeps_same: "(\<And>w. w_requests (snd (m w)) = w_requests w) \<Longrightarrow> keeps (sent_only P) m"
  by (simp add: keeps_def sent_only_same)

lemma keeps_local [keeps_intros]:
  "keeps (sent_only P) (print x)" "keeps (sent_only P) (print_err x)" "keeps (sent_only P) (print_at su x)"
  "keeps (sent_only P) (cached_policy su path)" "keeps (sent_only P) (save_policy su path p)"
  "keeps (sent_only P) (scan_files cfg root)"
  by (rule keeps_same; simp add: print_def print_err_def print_at_def cached_policy_def save_policy_def
      scan_files_def split: sum.split option.split prod.split)+

lemma keeps_load_local [keeps_intros]: "keeps (sent_only P) (load_local_policy su policy_file)"
  unfolding load_local_policy_def by (auto split: option.split intro!: keeps_intros)

lemma keeps_end_session [keeps_intros]: "keeps (sent_only P) (end_session s)"
  unfolding end_session_def by (auto split: option.split intro!: keeps_intros)

lemma keeps_skip [keeps_intros]: "keeps (sent_only P) m \<Longrightarrow> keeps (sent_only P) (skip m)"
  unfolding skip_def by (intro keeps_intros)

lemma keeps_gateway: "keeps (sent_only P) (run_mcp_gateway su name policy_file)"
  unfolding run_mcp_gateway_def Let_def
  by (intro keeps_intros) (auto split: option.split intro!: keeps_intros)

lemma keeps_gateway_config: "keeps (sent_only P) (run_mcp_gateway_config su out l)"
  unfolding run_mcp_gateway_config_def Let_def
  by (intro keeps_intros) (auto split: option.split intro!: keeps_intros simp: sent_only_same)

lemma keeps_wrap_shell: "keeps (sent_only P) (run_wrap_shell su dir)"
  unfolding run_wrap_shell_def
  by (intro keeps_intros keeps_same) (auto split: prod.splits)

text \<open>The requests of a client.\<close>

definition from_client :: "client \<Rightarrow> request \<Rightarrow> bool" where
  "from_client cl r \<longleftrightarrow> (\<exists>method path payload. r = make_request cl method path payload)"

lemma keeps_request [keeps_intros]: "keeps (sent_only (from_client cl)) (request su cl method path payload)"
  unfolding keeps_def request_def sent_only_def from_client_def
  by (auto simp: Let_def intro!: exI [of _ "[make_request cl method path payload]"])

lemmas client_ops = register_endpoint_def heartbeat_def upsert_agent_def ingest_event_def get_policy_def

lemma keeps_register [keeps_intros]: "keeps (sent_only (from_client cl)) (register su config cl)"
  unfolding register_def client_ops by (intro keeps_intros)

lemma keeps_load_policy [keeps_intros]: "keeps (sent_only (from_client cl)) (load_policy su cl policy_file)"
  unfolding load_policy_def client_ops
  by (auto split: option.split if_splits intro!: keeps_intros)

lemma keeps_run_once: "keeps (sent_only (from_client (make_client config))) (run_once su config)"
  unfolding run_once_def Let_def client_ops by (intro keeps_intros) (auto intro!: keeps_intros)

lemma keeps_run_scan:
  "keeps (sent_only (from_client (make_client config))) (run_scan su config dir policy_file enf q)"
  unfolding run_scan_def Let_def client_ops by (intro keeps_intros)

lemma keeps_on_event [keeps_intros]: "keeps (sent_only (from_client cl)) (on_event su cl eid ev)"
  unfolding on_event_def client_ops
  by (intro keeps_intros) (auto split: py_error.splits intro!: keeps_intros)

lemma keeps_watch_polls: "keeps (sent_only (from_client cl)) (watch_polls su cl eid cfg root edits current)"
proof (induction edits arbitrary: current)
  case Nil
  show ?case unfolding watch_polls.simps by (intro keeps_intros)
next
  case (Cons edit edits)
  have step: "keeps (sent_only (from_client cl))
      (seqS (eachS (on_event su cl eid) evs) (watch_polls su cl eid cfg root edits current'))" for evs current'
    by (intro keeps_intros Cons.IH)
  have "sent_only (from_client cl) w
      (snd (seqS (eachS (on_event su cl eid) evs) (watch_polls su cl eid cfg root edits current') (w\<lparr>w_fs := s\<rparr>)))"
    for evs current' s w
    using keepsD [OF step, of "w\<lparr>w_fs := s\<rparr>"] by (simp add: sent_only_def)
  then show ?case
    by (auto simp: keeps_def sent_only_same split: option.split sum.split prod.split)
qed

lemma keeps_run_watch:
  "keeps (sent_only (from_client (make_client config))) (run_watch su config dir policy_file enf q)"
proof -
  have "keeps (sent_only (from_client cl)) (watch_files su cl eid cfg root)" for cl eid cfg root
    using keepsD [OF keeps_watch_polls]
    by (auto simp: keeps_def watch_files_def sent_only_same split: option.split)
  then show ?thesis unfolding run_watch_def Let_def client_ops by (intro keeps_intros)
qed

lemma keeps_run_clipboard:
  "keeps (sent_only (from_client (make_client config))) (run_clipboard su config policy_file)"
  unfolding run_clipboard_def by (intro keeps_intros)

lemma keeps_reporting [keeps_intros]: "keeps (sent_only P) m \<Longrightarrow> keeps (sent_only P) (reporting_errors m)"
  unfolding reporting_errors_def
  by (intro keeps_intros) (auto split: py_error.splits intro!: keeps_intros)

lemma keeps_poll_once: "keeps (sent_only (from_client (make_client config))) (poll_once su config)"
  unfolding poll_once_def
  by (intro keeps_intros keeps_run_once) (auto split: py_error.splits prod.split intro!: keeps_intros)

section \<open>The dispatch\<close>

lemma raises_dispatch: "raises local_error (dispatch su args config)"
  unfolding dispatch_def
  by (intro raises_if raises_bind raises_seq raises_reporting raises_gateway raises_gateway_config raises_wrap_shell
      raises_return raises_print raises_each raises_modify raises_poll_once)

lemma keeps_dispatch:
  "keeps (sent_only (\<lambda>r. from_client (make_client config) r \<and>
     \<not> (ar_mcp_gateway_config args \<noteq> None \<or> ar_mcp_gateway args \<or> missing_fields config \<noteq> [] \<or> ar_wrap_shell args)))
     (dispatch su args config)"
proof (cases "ar_mcp_gateway_config args \<noteq> None \<or> ar_mcp_gateway args \<or> missing_fields config \<noteq> [] \<or> ar_wrap_shell args")
  case True
  then show ?thesis
    unfolding dispatch_def
    by (intro keeps_if) (auto intro!: keeps_bind keeps_seq keeps_return sent_only_order keeps_gateway
        keeps_gateway_config keeps_wrap_shell keeps_local)
next
  case False
  have P: "(\<lambda>r. from_client (make_client config) r \<and> \<not> (ar_mcp_gateway_config args \<noteq> None \<or> ar_mcp_gateway args \<or>
      missing_fields config \<noteq> [] \<or> ar_wrap_shell args)) = from_client (make_client config)"
    using False by (rule_tac ext) blast
  have scanned: "keeps (sent_only (from_client (make_client config)))
      ((\<lambda>(endpoint_id, n). seqS (print (f endpoint_id n)) (returnS (Some 0))) x)" for f :: "string \<Rightarrow> nat \<Rightarrow> string" and x
    by (cases x) (simp, intro keeps_intros)
  have once: "keeps (sent_only (from_client (make_client config)))
      ((\<lambda>(endpoint_id, tools, servers). seqS (print (f endpoint_id tools)) (returnS (Some 0))) x)"
    for f :: "string \<Rightarrow> string list \<Rightarrow> string" and x :: "string \<times> string list \<times> string list"
    by (cases x) (simp, intro keeps_intros)
  have pass: "keeps (sent_only (from_client (make_client config))) (seqS (modifyS (\<lambda>w. w\<lparr>w_disk := f (w_disk w)\<rparr>)) (poll_once su config))" for f
    by (intro keeps_seq sent_only_order keeps_modify keeps_poll_once) (simp add: sent_only_same)
  show ?thesis
    unfolding P dispatch_def
    by (intro keeps_if keeps_reporting keeps_bind keeps_seq keeps_return sent_only_order keeps_gateway
        keeps_gateway_config keeps_wrap_shell keeps_run_clipboard keeps_run_scan keeps_run_watch keeps_run_once
        keeps_local keeps_each pass scanned once)
qed

section \<open>The order of the requests\<close>

text \<open>\<open>follows rs m\<close>: \<open>m\<close> sends a prefix of \<open>rs\<close>, all of it when it returns; a returning run leaves the
  files on disk as they were.\<close>

definition follows :: "request list \<Rightarrow> 'a daemon \<Rightarrow> bool" where
  "follows rs m \<longleftrightarrow> (\<forall>w. \<exists>k. w_requests (snd (m w)) = w_requests w @ take k rs \<and>
     (\<forall>x. fst (m w) = Inr x \<longrightarrow> length rs \<le> k))"

named_theorems follows_intros \<open>request sequences, by the structure of the computation\<close>

lemma follows_return [follows_intros]: "follows [] (returnS x)"
  by (simp add: follows_def)

lemma follows_request [follows_intros]:
  "follows [make_request cl method path payload] (request su cl method path payload)"
  unfolding follows_def
  by (intro allI exI [of _ 1]) (simp add: request_def Let_def)

lemma follows_bind [follows_intros]:
  assumes "follows ps m" and "\<And>x. follows qs (f x)"
  shows "follows (ps @ qs) (bindS m f)"
  unfolding follows_def
proof
  fix w
  obtain r w1 where m: "m w = (r, w1)" by fastforce
  obtain k where k: "w_requests w1 = w_requests w @ take k ps" "\<forall>x. r = Inr x \<longrightarrow> length ps \<le> k"
    using assms(1) m unfolding follows_def by (metis fst_conv snd_conv)
  show "\<exists>k. w_requests (snd (bindS m f w)) = w_requests w @ take k (ps @ qs) \<and>
      (\<forall>x. fst (bindS m f w) = Inr x \<longrightarrow> length (ps @ qs) \<le> k)"
  proof (cases r)
    case (Inl e)
    then have "bindS m f w = (Inl e, w1)" using m by (simp add: bindS_Inl)
    then show ?thesis using k(1) by (intro exI [of _ "min k (length ps)"]) (simp add: min_def)
  next
    case (Inr x)
    then have b: "bindS m f w = f x w1" using m by (simp add: bindS_Inr)
    obtain j where "w_requests (snd (f x w1)) = w_requests w1 @ take j qs"
        "\<forall>y. fst (f x w1) = Inr y \<longrightarrow> length qs \<le> j"
      using assms(2) [of x] unfolding follows_def by metis
    then show ?thesis
      using k Inr b by (intro exI [of _ "length ps + j"]) auto
  qed
qed

lemma follows_seq [follows_intros]: "follows ps m \<Longrightarrow> follows qs k \<Longrightarrow> follows (ps @ qs) (seqS m k)"
  unfolding seqS_def by (rule follows_bind)

lemma follows_skip [follows_intros]: "follows ps m \<Longrightarrow> follows ps (skip m)"
  using follows_bind [OF _ follows_return, of ps m "\<lambda>_. ()"] by (simp add: skip_def)

lemma follows_each [follows_intros]: "(\<And>x. follows (g x) (f x)) \<Longrightarrow> follows (concat (map g xs)) (eachS f xs)"
  by (induction xs) (auto intro: follows_intros)

lemma follows_silent:
  assumes "\<And>w. w_requests (snd (m w)) = w_requests w"
  shows "follows [] m"
  using assms by (simp add: follows_def)

lemma followsE:
  assumes "follows rs m" and "m w = (r, w')"
  obtains k where "w_requests w' = w_requests w @ take k rs" and "\<forall>x. r = Inr x \<longrightarrow> length rs \<le> k"
  using assms unfolding follows_def by (metis fst_conv snd_conv)

text \<open>What a pass sends once it is registered, and all that a pass sends.\<close>

abbreviation post :: "client \<Rightarrow> string \<Rightarrow> json \<Rightarrow> request" where
  "post cl path payload \<equiv> make_request cl ''POST'' path (Some payload)"

definition registration :: "surroundings \<Rightarrow> agent_config \<Rightarrow> request" where
  "registration su config = post (make_client config) ''/endpoints'' (endpoint_payload su config)"

definition pass_reports :: "surroundings \<Rightarrow> agent_config \<Rightarrow> mcp_server list \<Rightarrow> string \<Rightarrow> request list" where
  "pass_reports su config servers eid =
     (let cl = make_client config; tools = found_tools su in
      map (\<lambda>tool. post cl ''/agents'' (agent_payload (su_env su) eid tool servers)) tools @
      [post cl ''/security-events/ingest'' (discovery_event_payload eid tools)] @
      (if servers = [] then []
       else [post cl ''/security-events/ingest'' (mcp_discovery_event_payload eid servers)]) @
      [post cl (heartbeat_path eid) online])"

lemma follows_each_single: "(\<And>x. follows [g x] (f x)) \<Longrightarrow> follows (map g xs) (eachS f xs)"
  using follows_each [of "\<lambda>x. [g x]"] by (simp add: concat_map_singleton)

lemma follows_pass:
  assumes "tools = found_tools su"
  shows "follows (pass_reports su config servers eid)
     (seqS (eachS (\<lambda>tool. skip (upsert_agent su (make_client config) (agent_payload (su_env su) eid tool servers))) tools)
     (seqS (skip (ingest_event su (make_client config) (discovery_event_payload eid tools)))
     (seqS (if servers \<noteq> [] then skip (ingest_event su (make_client config) (mcp_discovery_event_payload eid servers))
            else returnS ())
     (seqS (skip (heartbeat su (make_client config) eid online)) (returnS x)))))"
proof -
  let ?cl = "make_client config"
  have agents: "follows (map (\<lambda>tool. post ?cl ''/agents'' (agent_payload (su_env su) eid tool servers)) tools)
      (eachS (\<lambda>tool. skip (upsert_agent su ?cl (agent_payload (su_env su) eid tool servers))) tools)"
    unfolding client_ops by (intro follows_each_single follows_skip follows_request)
  have event: "follows [post ?cl ''/security-events/ingest'' p] (skip (ingest_event su ?cl p))" for p
    unfolding client_ops by (intro follows_skip follows_request)
  have opt: "follows (if servers = [] then [] else [post ?cl ''/security-events/ingest'' p])
      (if servers \<noteq> [] then skip (ingest_event su ?cl p) else returnS ())" for p
    using event by (simp add: follows_return)
  have beat: "follows ([post ?cl (heartbeat_path eid) online] @ [])
      (seqS (skip (heartbeat su ?cl eid online)) (returnS x))"
    unfolding client_ops by (intro follows_seq follows_skip follows_request follows_return)
  show ?thesis
    unfolding pass_reports_def Let_def assms [symmetric]
    by (rule follows_seq [OF agents follows_seq [OF event follows_seq [OF opt beat [unfolded append_Nil2]]]])
qed

lemma register_run:
  assumes "register su config (make_client config) w = (r, w')"
  shows "w' = w\<lparr>w_requests := w_requests w @ [registration su config]\<rparr>"
    and "r = bindE (bindE (read_reply ''POST'' ''/endpoints'' (su_server su (w_requests w) (registration su config)))
               (\<lambda>v. json_item v ''id'')) (\<lambda>i. Inr (py_str i))"
proof -
  have "register su config (make_client config) w =
      (bindE (bindE (read_reply ''POST'' ''/endpoints'' (su_server su (w_requests w) (registration su config)))
               (\<lambda>v. json_item v ''id'')) (\<lambda>i. Inr (py_str i)),
       w\<lparr>w_requests := w_requests w @ [registration su config]\<rparr>)"
    by (auto simp: register_def register_endpoint_def request_def registration_def Let_def bindS_def bindE_def
        split: sum.split)
  with assms show "w' = w\<lparr>w_requests := w_requests w @ [registration su config]\<rparr>"
    and "r = bindE (bindE (read_reply ''POST'' ''/endpoints'' (su_server su (w_requests w) (registration su config)))
               (\<lambda>v. json_item v ''id'')) (\<lambda>i. Inr (py_str i))" by auto
qed

text \<open>The endpoint id the server gives to the registration, if it gives one.\<close>

definition assigned_id :: "surroundings \<Rightarrow> agent_config \<Rightarrow> world \<Rightarrow> string result" where
  "assigned_id su config w = fst (register su config (make_client config) w)"

section \<open>Properties\<close>

text \<open>A pass registers the endpoint first; with the id it is given it then sends the agents, the discovery
  events and the heartbeat in this order, stops at the first failure, and sends all of them when it
  returns.\<close>

theorem run_once_requests:
  assumes "run_once su config w = (r, w')"
  shows "(case assigned_id su config w of
            Inl e \<Rightarrow> r = Inl e \<and> w_requests w' = w_requests w @ [registration su config]
          | Inr eid \<Rightarrow>
              (\<exists>k. w_requests w' = w_requests w @ registration su config # take k (pass_reports su config (found_servers su w) eid) \<and>
                  (\<forall>x. r = Inr x \<longrightarrow> length (pass_reports su config (found_servers su w) eid) \<le> k)))"
proof -
  obtain q w1 where q: "register su config (make_client config) w = (q, w1)" by fastforce
  have w1: "w_requests w1 = w_requests w @ [registration su config]" "found_servers su w1 = found_servers su w"
    using register_run(1) [OF q] by (simp_all add: found_servers_def)
  have a: "assigned_id su config w = q" using q by (simp add: assigned_id_def)
  show ?thesis
  proof (cases q)
    case (Inl e)
    then have "run_once su config w = (Inl e, w1)"
      using q by (simp add: run_once_def Let_def bindS_def)
    then show ?thesis using assms a Inl w1(1) by simp
  next
    case (Inr eid)
    have "run_once su config w =
        seqS (eachS (\<lambda>tool. skip (upsert_agent su (make_client config)
            (agent_payload (su_env su) eid tool (found_servers su w)))) (found_tools su))
       (seqS (skip (ingest_event su (make_client config) (discovery_event_payload eid (found_tools su))))
       (seqS (if found_servers su w \<noteq> [] then skip (ingest_event su (make_client config)
                 (mcp_discovery_event_payload eid (found_servers su w))) else returnS ())
       (seqS (skip (heartbeat su (make_client config) eid online))
             (returnS (eid, map dt_name (found_tools su), map ms_name (found_servers su w)))))) w1"
      using q Inr w1(2) by (simp add: run_once_def Let_def bindS_def)
    then obtain k where "w_requests w' = w_requests w1 @ take k (pass_reports su config (found_servers su w) eid)"
        "\<forall>x. r = Inr x \<longrightarrow> length (pass_reports su config (found_servers su w) eid) \<le> k"
      using followsE [OF follows_pass [OF refl]] assms by metis
    then show ?thesis using a Inr w1(1) by (auto intro!: exI [of _ k])
  qed
qed

definition bare_world :: world where
  "bare_world = \<lparr>w_requests = [], w_disk = Map.empty, w_fs = \<lparr>fs_files = [], fs_dirs = [], fs_clock = 0\<rparr>,
     w_shims = \<lparr>sh_dirs = [], sh_files = [], sh_modes = []\<rparr>, w_out = [], w_err = []\<rparr>"

text \<open>A machine without tools whose server answers by \<open>reply\<close>.\<close>

definition bare_machine :: "(request list \<Rightarrow> request \<Rightarrow> http_reply) \<Rightarrow> string dict \<Rightarrow> surroundings" where
  "bare_machine reply env =
     \<lparr>su_server = reply, su_os_name = ''Linux'', su_os_version = [], su_hostname = ''host'', su_env = env,
      su_home = ''/h'', su_machine = \<lparr>ma_isfile = (\<lambda>_. False), ma_exists = (\<lambda>_. False), ma_listdir = (\<lambda>_. [])\<rparr>,
      su_homes = (\<lambda>_. None), su_sha256 = (\<lambda>_. ''00''), su_detector = detect DETECT_LIMIT, su_now = (\<lambda>_. []),
      su_stamp = (\<lambda>_. []), su_executable = [], su_package = [], su_spawn = (\<lambda>_. sample_upstream), su_stdin = [],
      su_clipboard = [], su_edits = [], su_polls = [], su_passes = []\<rparr>"

definition bare_config :: agent_config where
  "bare_config = \<lparr>ac_backend_url = DEFAULT_BACKEND_URL, ac_api_key = ''k'', ac_hostname = ''host'',
     ac_poll_interval = 5, ac_telemetry_file = ''t''\<rparr>"

theorem run_once_requests_witness:
  "\<exists>e. assigned_id (bare_machine (\<lambda>_ _. NoRoute ''down'') []) bare_config bare_world = Inl e \<and>
       length (w_requests (snd (run_once (bare_machine (\<lambda>_ _. NoRoute ''down'') []) bare_config bare_world))) = 1"
proof -
  let ?su = "bare_machine (\<lambda>_ _. NoRoute ''down'') []"
  obtain r w' where r: "run_once ?su bare_config bare_world = (r, w')" by fastforce
  have a: "assigned_id ?su bare_config bare_world = Inl (ControlPlaneError (''POST /endpoints unreachable: down''))"
    by (simp add: assigned_id_def register_def register_endpoint_def request_def read_reply_def bare_machine_def
        Let_def bindS_def)
  show ?thesis using run_once_requests [OF r] a r by (simp add: bare_world_def)
qed


text \<open>C12: the requests of a run all go to the configured backend with the configured key; a run whose
  configuration does not load or is incomplete, and the gateway and shim modes, send none.\<close>

theorem main_requests_authentic:
  "\<exists>rs. w_requests (snd (main su args w)) = w_requests w @ rs \<and>
     (case config_load (w_disk w) (su_hostname su) (ar_config args) (su_env su) of
        Inl e \<Rightarrow> rs = []
      | Inr c \<Rightarrow>
          list_all (\<lambda>r. rq_auth r = ''Bearer '' @ ac_api_key c \<and>
             (\<exists>path. rq_url r = rstrip_chars ''/'' (ac_backend_url c) @ ''/api/v1'' @ path)) rs \<and>
          (ar_mcp_gateway_config args \<noteq> None \<or> ar_mcp_gateway args \<or> missing_fields c \<noteq> [] \<or> ar_wrap_shell args \<longrightarrow>
             rs = []))"
proof (cases "config_load (w_disk w) (su_hostname su) (ar_config args) (su_env su)")
  case (Inl e)
  then show ?thesis by (simp add: main_def bindS_def)
next
  case (Inr c)
  let ?offline = "ar_mcp_gateway_config args \<noteq> None \<or> ar_mcp_gateway args \<or> missing_fields c \<noteq> [] \<or> ar_wrap_shell args"
  have "main su args w = dispatch su args c w" using Inr by (simp add: main_def bindS_def)
  then obtain rs where rs: "w_requests (snd (main su args w)) = w_requests w @ rs"
      "list_all (\<lambda>r. from_client (make_client c) r \<and> \<not> ?offline) rs"
    using keepsD [OF keeps_dispatch, of c args w su] by (auto simp: sent_only_def)
  moreover have "?offline \<longrightarrow> rs = []" using rs(2) by (cases rs) auto
  moreover have "list_all (\<lambda>r. rq_auth r = ''Bearer '' @ ac_api_key c \<and>
      (\<exists>path. rq_url r = rstrip_chars ''/'' (ac_backend_url c) @ ''/api/v1'' @ path)) rs"
    using rs(2) by (auto simp: list_all_iff from_client_def make_request_def make_client_def API_PREFIX_def)
  ultimately show ?thesis using Inr by auto
qed

theorem main_requests_authentic_witness:
  "w_requests (snd (main (bare_machine (\<lambda>_ _. NoRoute ''down'') []) (default_arguments ''/h'') bare_world)) = []"
proof -
  let ?su = "bare_machine (\<lambda>_ _. NoRoute ''down'') []"
  have c: "config_load (w_disk bare_world) (su_hostname ?su) (ar_config (default_arguments ''/h'')) (su_env ?su) =
     Inr \<lparr>ac_backend_url = DEFAULT_BACKEND_URL, ac_api_key = [], ac_hostname = ''host'',
          ac_poll_interval = max 5 (config_poll_interval [] []), ac_telemetry_file = ''pysetu-agent-telemetry.jsonl''\<rparr>"
    by (simp add: bare_machine_def bare_world_def default_arguments_def config_load_def config_file_values_def env_or_def
        file_or_def dict_get_or_def dict_get_def DEFAULT_BACKEND_URL_def rstrip_chars_def Let_def)
  show ?thesis
    using main_requests_authentic [of ?su "default_arguments ''/h''" bare_world]
    unfolding c by (simp add: missing_fields_def bare_world_def)
qed

text \<open>C13: the policy a run was given by the control plane is the one later runs work with as long as nobody
  changes the cache file: those that cannot reach the control plane and those that do not ask it.\<close>

theorem policy_outlives_connection:
  assumes "load_policy su cl (Some path) w = (Inr p, w1)" and "path \<noteq> []"
    and "su_server su (w_requests w) (make_request cl ''GET'' ''/agentic/policy'' None) = Body b"
    and "ascii_policy p" and "\<And>x. ascii_str (su_sha256 su x)"
    and "w_disk w2 path = w_disk w1 path"
  shows "fst (load_local_policy su (Some path) w2) = Inr p \<and>
         (su_server su (w_requests w2) (make_request cl ''GET'' ''/agentic/policy'' None) = NoRoute reason \<longrightarrow>
            fst (load_policy su cl (Some path) w2) = Inr p)"
proof -
  let ?m = "bindS (get_policy su cl) (\<lambda>payload. bindS (liftS (policy_from_payload payload)) (\<lambda>policy.
     seqS (save_policy su path policy) (returnS policy)))"
  have ok: "local_error e" if "?m w = (Inl e, w')" for e w'
    using that assms(3) locally_json(1) locally_policy(3,6)
    by (auto simp: get_policy_def request_def read_reply_def bindS_def seqS_def save_policy_def Let_def locally_def
        split: sum.splits if_splits)
  obtain r w' where r: "?m w = (r, w')" by fastforce
  have m: "?m w = (Inr p, w1)"
    using assms(1,2) r ok by (cases r) (auto simp: load_policy_def tryS_def split: sum.splits)
  then obtain d0 d where d: "cache_save (su_sha256 su) path p d0 = Inr d" "w_disk w1 = d"
    unfolding seqS_def bindS_eq_Inr save_policy_Inr by auto
  have "cache_load (su_sha256 su) path d = Inr p"
    using cache_load_saved [OF assms(4), of "su_sha256 su" path d0] assms(5) d(1) by simp
  moreover have "cache_load (su_sha256 su) path (w_disk w2) = cache_load (su_sha256 su) path d"
    using assms(6) d(2) by (simp add: cache_load_def read_text_def)
  ultimately have l: "cache_load_or_defaults (su_sha256 su) path (w_disk w2) = Inr p"
    by (simp add: cache_load_or_defaults_def)
  then show ?thesis
    using assms(2)
    by (simp add: load_local_policy_def load_policy_def cached_policy_def tryS_def bindS_def get_policy_def request_def
        read_reply_def Let_def)
qed

theorem policy_outlives_connection_witness:
  "let su = bare_machine (\<lambda>rs _. if rs = [] then Body ''{}'' else NoRoute ''down'') [];
       cl = make_client bare_config;
       w1 = snd (load_policy su cl (Some ''p'') bare_world)
   in fst (load_local_policy su (Some ''p'') w1) = Inr \<lparr>lp_rules = [], lp_version = ''1''\<rparr>"
proof -
  let ?su = "bare_machine (\<lambda>rs _. if rs = [] then Body ''{}'' else NoRoute ''down'') []"
  let ?cl = "make_client bare_config"
  let ?p = "\<lparr>lp_rules = [], lp_version = ''1''\<rparr> :: local_policy"
  have j: "json_load ''{}'' = Inr (JObj [])" by code_simp
  have "policy_from_payload (JObj []) = Inr ?p" by (simp add: policy_from_payload_def dict_get_or_def dict_get_def)
  moreover have "\<exists>d. cache_save (\<lambda>_. ''00'') ''p'' ?p Map.empty = Inr d"
    by (simp add: cache_save_def cache_checksum_def)
  ultimately obtain w1 where l: "load_policy ?su ?cl (Some ''p'') bare_world = (Inr ?p, w1)"
    by (auto simp: load_policy_def get_policy_def request_def read_reply_def bare_machine_def bare_world_def j
        tryS_def bindS_def seqS_def save_policy_def Let_def)
  have "fst (load_local_policy ?su (Some ''p'') w1) = Inr ?p"
    using policy_outlives_connection [OF l, of "''{}''" w1]
    by (simp add: bare_machine_def bare_world_def ascii_policy_def ascii_str_def is_ascii_def)
  then show ?thesis using l by simp
qed

text \<open>The risk reported with a file event lies between 0 and 90 and grows with the severity of the
  decision, and the decision reported is one of the five of the control plane.\<close>

theorem file_event_bounds:
  "(\<exists>risk d. file_event_payload eid ev = event_payload eid ''file'' ''file.read'' (ev_path ev) (ev_classifications ev) d risk
      (JObj [(''match_count'', JInt (int (ev_match_count ev)))]) \<and>
     0 \<le> risk \<and> risk \<le> 90 \<and> d \<in> {''allowed'', ''blocked'', ''redacted'', ''approval'', ''log''}) \<and>
   risk_for_decision (verdict_name (min a b)) = min (risk_for_decision (verdict_name a)) (risk_for_decision (verdict_name b))"
proof
  show "\<exists>risk d. file_event_payload eid ev = event_payload eid ''file'' ''file.read'' (ev_path ev) (ev_classifications ev) d risk
      (JObj [(''match_count'', JInt (int (ev_match_count ev)))]) \<and>
     0 \<le> risk \<and> risk \<le> 90 \<and> d \<in> {''allowed'', ''blocked'', ''redacted'', ''approval'', ''log''}"
    by (intro exI [of _ "risk_for_decision (ev_decision ev)"] exI [of _ "api_decision (ev_decision ev)"])
      (simp add: file_event_payload_def risk_for_decision_def api_decision_def dict_get_or_def dict_get_def)
  show "risk_for_decision (verdict_name (min a b)) = min (risk_for_decision (verdict_name a)) (risk_for_decision (verdict_name b))"
    by (cases a; cases b)
      (simp_all add: min_def less_eq_verdict_def risk_for_decision_def dict_get_or_def dict_get_def)
qed

end
