(* ===== verification/BackendCommon.thy ===== *)
theory BackendCommon
  imports PyValue
begin

text \<open>
  What several services of the backend share: the first element with the greatest key (Python's
  \<open>max(xs, key=...)\<close>), the order of the severities, and walks over the rows of a table.
\<close>

section \<open>Maximum by a key\<close>

fun first_max :: "('a \<Rightarrow> int) \<Rightarrow> 'a \<Rightarrow> 'a list \<Rightarrow> 'a" where
  "first_max f best [] = best"
| "first_max f best (x # xs) = (if f best < f x then first_max f x xs else first_max f best xs)"

lemma first_max_mem: "first_max f x xs \<in> set (x # xs)"
  by (induction f x xs rule: first_max.induct) auto

lemma first_max_start: "f x \<le> f (first_max f x xs)"
  by (induction f x xs rule: first_max.induct) auto

lemma first_max_ge: "y \<in> set (x # xs) \<Longrightarrow> f y \<le> f (first_max f x xs)"
proof (induction f x xs rule: first_max.induct)
  case (2 f best x xs)
  then show ?case using first_max_start [of f best xs] first_max_start [of f x xs] by auto
qed simp

lemma first_max_key: "f (first_max f x xs) = Max (f ` set (x # xs))"
  using first_max_mem [of f x xs] first_max_ge [of _ x xs f] by (intro Max_eqI [symmetric]) auto

section \<open>Severities\<close>

text \<open>The table of ranks that three services carry each under a name of its own.\<close>

definition SEVERITY_RANK :: "int dict" where
  "SEVERITY_RANK = [(''low'', 0), (''medium'', 1), (''high'', 2), (''critical'', 3)]"

definition severity_rank :: "string \<Rightarrow> int" where
  "severity_rank s = dict_get_or SEVERITY_RANK s 0"

lemma severity_rank_simps [simp]:
  "severity_rank ''low'' = 0" "severity_rank ''medium'' = 1" "severity_rank ''high'' = 2" "severity_rank ''critical'' = 3"
  by (simp_all add: severity_rank_def SEVERITY_RANK_def dict_get_or_def dict_get_def)

lemma severity_rank_bounds: "0 \<le> severity_rank s \<and> severity_rank s \<le> 3"
  by (simp add: severity_rank_def SEVERITY_RANK_def dict_get_or_def dict_get_def)

section \<open>Queries\<close>

type_synonym uuid = string

text \<open>\<open>scalar_one_or_none\<close> raises when there is more than one row.\<close>

definition scalar_one_or_none :: "'a list \<Rightarrow> 'a option result" where
  "scalar_one_or_none rows =
     (case rows of [] \<Rightarrow> Inr None | [r] \<Rightarrow> Inr (Some r) | _ \<Rightarrow> Inl (RuntimeError ''MultipleResultsFound''))"

lemma scalar_one:
  "length rows \<le> 1 \<Longrightarrow> scalar_one_or_none rows = Inr (case rows of [] \<Rightarrow> None | r # _ \<Rightarrow> Some r)"
  by (auto simp: scalar_one_or_none_def split: list.split)

end
