(* ===== verification/BackendGuardian.thy ===== *)
theory BackendGuardian
  imports BackendCommon
begin

text \<open>
  \<open>backend/app/services/guardian_service.py\<close>: the guardian loop that turns open findings into
  remediation actions and executes them.  The database is a record of tables, each the list of its
  rows; the rows hold the columns the service reads or writes.  A query without an order returns
  the rows in the order of their table.  The delivery of alerts is a parameter that says which
  exception it ends with, if any.
\<close>

section \<open>Tables\<close>

record anomaly =
  an_id :: uuid
  an_tenant :: uuid
  an_agent :: "uuid option"
  an_endpoint :: "uuid option"
  an_severity :: string
  an_description :: string
  an_status :: string

record injection_finding =
  if_id :: uuid
  if_tenant :: uuid
  if_agent :: "uuid option"
  if_endpoint :: "uuid option"
  if_scan_target :: string
  if_highest_severity :: string
  if_status :: string

record exfil_event =
  ef_id :: uuid
  ef_tenant :: uuid
  ef_agent :: "uuid option"
  ef_endpoint :: "uuid option"
  ef_exfil_type :: string
  ef_resource :: string
  ef_tool :: string
  ef_risk_score :: int
  ef_status :: string

record execution =
  ex_action :: string
  ex_ok :: bool
  ex_detail :: string

record guardian_action =
  ga_id :: uuid
  ga_tenant :: uuid
  ga_agent :: "uuid option"
  ga_endpoint :: "uuid option"
  ga_trigger_type :: string
  ga_trigger_id :: "uuid option"
  ga_action_type :: string
  ga_action_status :: string
  ga_policy_id :: "string option"
  ga_policy_name :: string
  ga_severity :: string
  ga_details :: string
  ga_execution_result :: "execution option"
  ga_created_at :: nat
  ga_executed_at :: "nat option"

record agent_row =
  ag_id :: uuid
  ag_tenant :: uuid
  ag_status :: string

record alert_event =
  al_tenant :: uuid
  al_actor :: string
  al_resource :: string
  al_risk :: string

text \<open>\<open>gb_ids\<close> gives the ids of new rows and \<open>gb_clock\<close> the time.\<close>

record guardian_db =
  gb_anomalies :: "anomaly list"
  gb_findings :: "injection_finding list"
  gb_exfil :: "exfil_event list"
  gb_actions :: "guardian_action list"
  gb_agents :: "agent_row list"
  gb_alerts :: "alert_event list"
  gb_ids :: "nat \<Rightarrow> uuid"
  gb_clock :: nat

section \<open>Severities\<close>

definition SEVERITY_ACTION_MAP :: "string dict" where
  "SEVERITY_ACTION_MAP =
     [(''critical'', ''block_agent''), (''high'', ''revoke_access''), (''medium'', ''quarantine''), (''low'', ''alert'')]"

definition action_for_severity :: "string \<Rightarrow> string" where
  "action_for_severity severity = dict_get_or SEVERITY_ACTION_MAP severity ''alert''"

definition exfil_severity :: "int \<Rightarrow> string" where
  "exfil_severity risk = (if 80 \<le> risk then ''critical'' else if 60 \<le> risk then ''high'' else ''medium'')"

section \<open>Raising actions\<close>

record trigger =
  tr_agent :: "uuid option"
  tr_endpoint :: "uuid option"
  tr_type :: string
  tr_id :: uuid
  tr_severity :: string
  tr_details :: string

definition create_action :: "uuid \<Rightarrow> trigger \<Rightarrow> guardian_db \<Rightarrow> guardian_action \<times> guardian_db" where
  "create_action tenant t db =
     (let action = \<lparr>ga_id = gb_ids db (length (gb_actions db)), ga_tenant = tenant, ga_agent = tr_agent t,
        ga_endpoint = tr_endpoint t, ga_trigger_type = tr_type t, ga_trigger_id = Some (tr_id t),
        ga_action_type = action_for_severity (tr_severity t), ga_action_status = ''pending'', ga_policy_id = None,
        ga_policy_name = ''guardian'', ga_severity = tr_severity t, ga_details = tr_details t,
        ga_execution_result = None, ga_created_at = gb_clock db, ga_executed_at = None\<rparr>
      in (action, db\<lparr>gb_actions := gb_actions db @ [action]\<rparr>))"

definition pending_for :: "uuid \<Rightarrow> string \<Rightarrow> uuid \<Rightarrow> guardian_action \<Rightarrow> bool" where
  "pending_for tenant trigger_type trigger_id a \<longleftrightarrow>
     ga_tenant a = tenant \<and> ga_trigger_type a = trigger_type \<and> ga_trigger_id a = Some trigger_id \<and>
     ga_action_status a = ''pending''"

definition has_pending_action :: "guardian_db \<Rightarrow> uuid \<Rightarrow> string \<Rightarrow> uuid \<Rightarrow> bool result" where
  "has_pending_action db tenant trigger_type trigger_id =
     bindE (scalar_one_or_none (filter (pending_for tenant trigger_type trigger_id) (gb_actions db)))
       (\<lambda>r. Inr (r \<noteq> None))"

definition for_agent :: "uuid option \<Rightarrow> uuid option \<Rightarrow> bool" where
  "for_agent wanted agent \<longleftrightarrow> (case wanted of None \<Rightarrow> True | Some a \<Rightarrow> agent = Some a)"

definition anomaly_triggers :: "guardian_db \<Rightarrow> uuid \<Rightarrow> uuid option \<Rightarrow> trigger list" where
  "anomaly_triggers db tenant agent_id =
     map (\<lambda>r. \<lparr>tr_agent = an_agent r, tr_endpoint = an_endpoint r, tr_type = ''anomaly'', tr_id = an_id r,
               tr_severity = an_severity r, tr_details = an_description r\<rparr>)
       (filter (\<lambda>r. an_tenant r = tenant \<and> an_status r = ''open'' \<and> for_agent agent_id (an_agent r)) (gb_anomalies db))"

definition finding_triggers :: "guardian_db \<Rightarrow> uuid \<Rightarrow> uuid option \<Rightarrow> trigger list" where
  "finding_triggers db tenant agent_id =
     map (\<lambda>r. \<lparr>tr_agent = if_agent r, tr_endpoint = if_endpoint r, tr_type = ''prompt_injection'', tr_id = if_id r,
               tr_severity = if_highest_severity r, tr_details = ''Prompt injection in '' @ if_scan_target r\<rparr>)
       (filter (\<lambda>r. if_tenant r = tenant \<and> if_status r = ''open'' \<and> for_agent agent_id (if_agent r)) (gb_findings db))"

definition exfil_triggers :: "guardian_db \<Rightarrow> uuid \<Rightarrow> uuid option \<Rightarrow> trigger list" where
  "exfil_triggers db tenant agent_id =
     map (\<lambda>r. \<lparr>tr_agent = ef_agent r, tr_endpoint = ef_endpoint r, tr_type = ''exfiltration'', tr_id = ef_id r,
               tr_severity = exfil_severity (ef_risk_score r),
               tr_details = ''Exfiltration ('' @ ef_exfil_type r @ '') on '' @ ef_resource r @ '' via '' @ ef_tool r\<rparr>)
       (filter (\<lambda>r. ef_tenant r = tenant \<and> ef_status r = ''open'' \<and> for_agent agent_id (ef_agent r)) (gb_exfil db))"

fun raise_actions ::
  "uuid \<Rightarrow> trigger list \<Rightarrow> guardian_action list \<Rightarrow> guardian_db \<Rightarrow> (guardian_action list \<times> guardian_db) result" where
  "raise_actions tenant [] created db = Inr (created, db)"
| "raise_actions tenant (t # ts) created db =
     bindE (has_pending_action db tenant (tr_type t) (tr_id t)) (\<lambda>pending.
       if pending then raise_actions tenant ts created db
       else
         let (action, db') = create_action tenant t db
         in raise_actions tenant ts (created @ [action]) db')"

definition evaluate_agent_behavior ::
  "uuid \<Rightarrow> uuid option \<Rightarrow> guardian_db \<Rightarrow> (guardian_action list \<times> guardian_db) result" where
  "evaluate_agent_behavior tenant agent_id db =
     bindE (raise_actions tenant (anomaly_triggers db tenant agent_id) [] db) (\<lambda>(c1, db1).
     bindE (raise_actions tenant (finding_triggers db1 tenant agent_id) c1 db1) (\<lambda>(c2, db2).
       raise_actions tenant (exfil_triggers db2 tenant agent_id) c2 db2))"

section \<open>Executing actions\<close>

definition agent_key :: "uuid \<Rightarrow> uuid \<Rightarrow> agent_row \<Rightarrow> bool" where
  "agent_key tenant i r \<longleftrightarrow> ag_tenant r = tenant \<and> ag_id r = i"

definition set_agent_status :: "uuid \<Rightarrow> uuid option \<Rightarrow> string \<Rightarrow> guardian_db \<Rightarrow> bool \<times> guardian_db" where
  "set_agent_status tenant agent_id status db =
     (case agent_id of
        None \<Rightarrow> (False, db)
      | Some i \<Rightarrow>
          if filter (agent_key tenant i) (gb_agents db) = [] then (False, db)
          else (True, db\<lparr>gb_agents := map (\<lambda>r. if agent_key tenant i r then r\<lparr>ag_status := status\<rparr> else r) (gb_agents db)\<rparr>))"

text \<open>The status an action gives its agent.\<close>

definition status_of_action :: "string \<Rightarrow> (string \<times> string) option" where
  "status_of_action action_type =
     (if action_type = ''block_agent'' then Some (''blocked'', ''agent blocked'')
      else if action_type = ''revoke_access'' then Some (''restricted'', ''agent access revoked'')
      else if action_type = ''quarantine'' then Some (''quarantined'', ''agent quarantined'')
      else None)"

definition perform_action ::
  "(alert_event \<Rightarrow> string option) \<Rightarrow> uuid \<Rightarrow> guardian_action \<Rightarrow> guardian_db \<Rightarrow> execution \<times> guardian_db" where
  "perform_action deliver tenant action db =
     (case status_of_action (ga_action_type action) of
        Some (status, detail) \<Rightarrow>
          (let (ok, db') = set_agent_status tenant (ga_agent action) status db
           in (\<lparr>ex_action = ga_action_type action, ex_ok = ok, ex_detail = detail\<rparr>, db'))
      | None \<Rightarrow>
          if ga_action_type action \<in> {''alert'', ''notify''} then
            (let event = \<lparr>al_tenant = tenant, al_actor = (case ga_agent action of None \<Rightarrow> ''guardian'' | Some a \<Rightarrow> a),
                          al_resource = ga_details action, al_risk = ga_severity action\<rparr>
             in case deliver event of
                  None \<Rightarrow> (\<lparr>ex_action = ga_action_type action, ex_ok = True, ex_detail = ''alert dispatched''\<rparr>,
                           db\<lparr>gb_alerts := gb_alerts db @ [event]\<rparr>)
                | Some e \<Rightarrow> (\<lparr>ex_action = ga_action_type action, ex_ok = False, ex_detail = e\<rparr>, db))
          else (\<lparr>ex_action = ga_action_type action, ex_ok = False,
                 ex_detail = ''unknown action '' @ ga_action_type action\<rparr>, db))"

definition finish_action :: "execution \<Rightarrow> nat \<Rightarrow> guardian_action \<Rightarrow> guardian_action" where
  "finish_action result now a =
     a\<lparr>ga_action_status := (if ex_ok result then ''executed'' else ''failed''),
       ga_execution_result := Some result, ga_executed_at := Some now\<rparr>"

definition execute_remediation ::
  "(alert_event \<Rightarrow> string option) \<Rightarrow> uuid \<Rightarrow> guardian_action \<Rightarrow> guardian_db \<Rightarrow> execution \<times> guardian_db" where
  "execute_remediation deliver tenant action db =
     (let (result, db') = perform_action deliver tenant action db
      in (result, db'\<lparr>gb_actions := map (\<lambda>a. if ga_id a = ga_id action
              then finish_action result (gb_clock db') a else a) (gb_actions db'),
            gb_clock := Suc (gb_clock db')\<rparr>))"

section \<open>The loop\<close>

record guardian_report =
  gr_evaluated :: nat
  gr_executed :: nat
  gr_failed :: nat

fun execute_all ::
  "(alert_event \<Rightarrow> string option) \<Rightarrow> uuid \<Rightarrow> guardian_action list \<Rightarrow> nat \<Rightarrow> nat \<Rightarrow> guardian_db \<Rightarrow> nat \<times> nat \<times> guardian_db" where
  "execute_all deliver tenant [] executed failed db = (executed, failed, db)"
| "execute_all deliver tenant (a # as) executed failed db =
     (let (result, db') = execute_remediation deliver tenant a db
      in if ex_ok result then execute_all deliver tenant as (Suc executed) failed db'
         else execute_all deliver tenant as executed (Suc failed) db')"

definition pending_actions :: "uuid \<Rightarrow> uuid option \<Rightarrow> guardian_db \<Rightarrow> guardian_action list" where
  "pending_actions tenant agent_id db =
     filter (\<lambda>a. ga_tenant a = tenant \<and> ga_action_status a = ''pending'' \<and> for_agent agent_id (ga_agent a)) (gb_actions db)"

definition run_guardian_loop ::
  "(alert_event \<Rightarrow> string option) \<Rightarrow> uuid \<Rightarrow> uuid option \<Rightarrow> guardian_db \<Rightarrow> (guardian_report \<times> guardian_db) result" where
  "run_guardian_loop deliver tenant agent_id db =
     bindE (evaluate_agent_behavior tenant agent_id db) (\<lambda>(created, db1).
       let (executed, failed, db2) = execute_all deliver tenant (pending_actions tenant agent_id db1) 0 0 db1
       in Inr (\<lparr>gr_evaluated = length created, gr_executed = executed, gr_failed = failed\<rparr>, db2))"

section \<open>Queries\<close>

definition is_filter :: "string option \<Rightarrow> bool" where
  "is_filter x \<longleftrightarrow> (case x of None \<Rightarrow> False | Some s \<Rightarrow> s \<noteq> [] \<and> s \<noteq> ''all'')"

definition list_guardian_actions ::
  "guardian_db \<Rightarrow> uuid \<Rightarrow> string option \<Rightarrow> string option \<Rightarrow> guardian_action list" where
  "list_guardian_actions db tenant status action_type =
     rev (sort_key ga_created_at
       (filter (\<lambda>a. ga_tenant a = tenant \<and> (is_filter status \<longrightarrow> ga_action_status a = the status) \<and>
                    (is_filter action_type \<longrightarrow> ga_action_type a = the action_type)) (gb_actions db)))"

record guardian_totals =
  gt_total :: nat
  gt_pending :: nat
  gt_executed :: nat
  gt_failed :: nat
  gt_by_action_type :: "(string \<times> nat) list"

definition count_by :: "('a \<Rightarrow> string) \<Rightarrow> 'a list \<Rightarrow> (string \<times> nat) list" where
  "count_by f xs = foldl (\<lambda>d x. dict_set (f x) (dict_get_or d (f x) 0 + 1) d) [] xs"

definition guardian_summary :: "guardian_db \<Rightarrow> uuid \<Rightarrow> guardian_totals" where
  "guardian_summary db tenant =
     (let actions = filter (\<lambda>a. ga_tenant a = tenant) (gb_actions db);
          with_status = (\<lambda>s. length (filter (\<lambda>a. ga_action_status a = s) actions))
      in \<lparr>gt_total = length actions, gt_pending = with_status ''pending'', gt_executed = with_status ''executed'',
          gt_failed = with_status ''failed'', gt_by_action_type = count_by ga_action_type actions\<rparr>)"

text \<open>\<open>iso_time\<close> is the text of a time.\<close>

definition opt_str :: "string option \<Rightarrow> json" where
  "opt_str x = (case x of None \<Rightarrow> JNull | Some s \<Rightarrow> JStr s)"

definition execution_json :: "execution \<Rightarrow> json" where
  "execution_json r = JObj [(''action'', JStr (ex_action r)), (''ok'', JBool (ex_ok r)), (''detail'', JStr (ex_detail r))]"

definition guardian_action_to_dict :: "(nat \<Rightarrow> string) \<Rightarrow> guardian_action \<Rightarrow> json" where
  "guardian_action_to_dict iso_time a =
     JObj [(''id'', JStr (ga_id a)), (''tenant_id'', JStr (ga_tenant a)), (''agent_id'', opt_str (ga_agent a)),
           (''endpoint_id'', opt_str (ga_endpoint a)), (''trigger_type'', JStr (ga_trigger_type a)),
           (''trigger_id'', opt_str (ga_trigger_id a)), (''action_type'', JStr (ga_action_type a)),
           (''action_status'', JStr (ga_action_status a)), (''policy_id'', opt_str (ga_policy_id a)),
           (''policy_name'', JStr (ga_policy_name a)), (''severity'', JStr (ga_severity a)),
           (''details'', JStr (ga_details a)),
           (''execution_result'', case ga_execution_result a of None \<Rightarrow> JNull | Some r \<Rightarrow> execution_json r),
           (''created_at'', JStr (iso_time (ga_created_at a))), (''executed_at'', opt_str (map_option iso_time (ga_executed_at a)))]"

section \<open>Raising actions keeps the tables well-formed\<close>

text \<open>Ids are unique and come from the generator, and a trigger has at most one pending action.\<close>

definition guardian_wf :: "guardian_db \<Rightarrow> bool" where
  "guardian_wf db \<longleftrightarrow>
     distinct (map ga_id (gb_actions db)) \<and> inj (gb_ids db) \<and>
     (\<forall>a \<in> set (gb_actions db). \<exists>n < length (gb_actions db). ga_id a = gb_ids db n) \<and>
     (\<forall>tenant ty i. length (filter (pending_for tenant ty i) (gb_actions db)) \<le> 1)"

definition all_triggers :: "guardian_db \<Rightarrow> uuid \<Rightarrow> uuid option \<Rightarrow> trigger list" where
  "all_triggers db tenant agent_id =
     anomaly_triggers db tenant agent_id @ finding_triggers db tenant agent_id @ exfil_triggers db tenant agent_id"

definition raised_from :: "uuid \<Rightarrow> trigger \<Rightarrow> guardian_action \<Rightarrow> bool" where
  "raised_from tenant t a \<longleftrightarrow>
     pending_for tenant (tr_type t) (tr_id t) a \<and> ga_agent a = tr_agent t \<and>
     ga_action_type a = action_for_severity (tr_severity t)"

lemma has_pending_wf:
  assumes "guardian_wf db"
  shows "has_pending_action db tenant ty i = Inr (\<exists>a \<in> set (gb_actions db). pending_for tenant ty i a)"
proof -
  have "length (filter (pending_for tenant ty i) (gb_actions db)) \<le> 1"
    using assms by (simp add: guardian_wf_def)
  then show ?thesis
    unfolding has_pending_action_def
    by (simp add: scalar_one filter_empty_conv split: list.split) (metis filter_empty_conv list.simps(3))
qed

lemma triggers_actions [simp]:
  "anomaly_triggers (db\<lparr>gb_actions := as\<rparr>) = anomaly_triggers db"
  "finding_triggers (db\<lparr>gb_actions := as\<rparr>) = finding_triggers db"
  "exfil_triggers (db\<lparr>gb_actions := as\<rparr>) = exfil_triggers db"
  by (rule ext, rule ext, simp add: anomaly_triggers_def finding_triggers_def exfil_triggers_def)+

lemma create_wf:
  assumes "guardian_wf db" and "\<not> (\<exists>a \<in> set (gb_actions db). pending_for tenant (tr_type t) (tr_id t) a)"
    and "create_action tenant t db = (a, db')"
  shows "guardian_wf db'" and "db' = db\<lparr>gb_actions := gb_actions db @ [a]\<rparr>" and "raised_from tenant t a"
proof -
  note c = assms(3) [unfolded create_action_def Let_def, simplified]
  show db': "db' = db\<lparr>gb_actions := gb_actions db @ [a]\<rparr>" using c by auto
  show r: "raised_from tenant t a" using c by (auto simp: raised_from_def pending_for_def)
  have a: "ga_id a = gb_ids db (length (gb_actions db))" using c by auto
  have "ga_id a \<notin> ga_id ` set (gb_actions db)"
    using assms(1) a unfolding guardian_wf_def by (force dest: injD)
  moreover have "length (filter (pending_for u ty i) (gb_actions db @ [a])) \<le> 1" for u ty i
  proof (cases "pending_for u ty i a")
    case True
    then have "u = tenant" "ty = tr_type t" "i = tr_id t"
      using r by (auto simp: raised_from_def pending_for_def)
    then have "filter (pending_for u ty i) (gb_actions db) = []"
      using assms(2) by (simp add: filter_empty_conv)
    then show ?thesis by simp
  next
    case False
    then show ?thesis using assms(1) by (simp add: guardian_wf_def)
  qed
  moreover have "\<exists>n < Suc (length (gb_actions db)). ga_id b = gb_ids db n" if "b = a \<or> b \<in> set (gb_actions db)" for b
    using that assms(1) a unfolding guardian_wf_def by (metis less_Suc_eq)
  ultimately show "guardian_wf db'"
    using assms(1) unfolding db' guardian_wf_def by auto
qed

lemma raise_spec:
  "guardian_wf db \<Longrightarrow> \<exists>new. raise_actions tenant ts created db = Inr (created @ new, db\<lparr>gb_actions := gb_actions db @ new\<rparr>) \<and>
     guardian_wf (db\<lparr>gb_actions := gb_actions db @ new\<rparr>) \<and>
     (\<forall>a \<in> set new. \<exists>t \<in> set ts. raised_from tenant t a) \<and>
     (\<forall>t \<in> set ts. \<exists>a \<in> set (gb_actions db @ new). pending_for tenant (tr_type t) (tr_id t) a)"
proof (induction ts arbitrary: created db)
  case Nil
  then show ?case by (intro exI [of _ "[]"]) simp
next
  case (Cons t ts)
  note p = has_pending_wf [OF Cons.prems, of tenant "tr_type t" "tr_id t"]
  show ?case
  proof (cases "\<exists>a \<in> set (gb_actions db). pending_for tenant (tr_type t) (tr_id t) a")
    case True
    then show ?thesis using Cons.IH [OF Cons.prems, of created] p by (fastforce simp: Let_def)
  next
    case False
    obtain a db' where c: "create_action tenant t db = (a, db')" by fastforce
    note w = create_wf [OF Cons.prems False c]
    obtain new where new: "raise_actions tenant ts (created @ [a]) db' =
          Inr ((created @ [a]) @ new, db'\<lparr>gb_actions := gb_actions db' @ new\<rparr>)"
        "guardian_wf (db'\<lparr>gb_actions := gb_actions db' @ new\<rparr>)"
        "\<forall>a \<in> set new. \<exists>t \<in> set ts. raised_from tenant t a"
        "\<forall>t \<in> set ts. \<exists>a \<in> set (gb_actions db' @ new). pending_for tenant (tr_type t) (tr_id t) a"
      using Cons.IH [OF w(1)] by metis
    have "pending_for tenant (tr_type t) (tr_id t) a" using w(3) by (simp add: raised_from_def)
    then show ?thesis
      using p False c new w by (intro exI [of _ "a # new"]) (auto simp: Let_def)
  qed
qed

lemma raise_append:
  "raise_actions tenant (ts @ us) created db =
   bindE (raise_actions tenant ts created db) (\<lambda>(c, db'). raise_actions tenant us c db')"
proof (induction ts arbitrary: created db)
  case (Cons t ts)
  show ?case
    by (simp add: bindE_assoc Cons.IH if_distrib [where f = "\<lambda>m. bindE m _"] case_prod_beta Let_def cong: if_cong)
qed simp

lemma raise_tables: "raise_actions tenant ts c db = Inr (c', db') \<Longrightarrow> \<exists>as. db' = db\<lparr>gb_actions := as\<rparr>"
proof (induction ts arbitrary: c db)
  case Nil
  then have "db' = db\<lparr>gb_actions := gb_actions db\<rparr>" by simp
  then show ?case by blast
next
  case (Cons t ts)
  from Cons.prems show ?case
    by (auto simp: bindE_eq_Inr_iff create_action_def Let_def split: if_splits dest!: Cons.IH)
qed

lemma evaluate_raise:
  "evaluate_agent_behavior tenant agent_id db = raise_actions tenant (all_triggers db tenant agent_id) [] db"
proof (cases "raise_actions tenant (anomaly_triggers db tenant agent_id) [] db")
  case (Inr p)
  then obtain c1 as where 1: "raise_actions tenant (anomaly_triggers db tenant agent_id) [] db = Inr (c1, db\<lparr>gb_actions := as\<rparr>)"
    by (cases p) (auto dest: raise_tables)
  show ?thesis
  proof (cases "raise_actions tenant (finding_triggers db tenant agent_id) c1 (db\<lparr>gb_actions := as\<rparr>)")
    case (Inr q)
    then obtain c2 as' where
      "raise_actions tenant (finding_triggers db tenant agent_id) c1 (db\<lparr>gb_actions := as\<rparr>) = Inr (c2, db\<lparr>gb_actions := as'\<rparr>)"
      by (cases q) (auto dest: raise_tables)
    with 1 show ?thesis by (simp add: evaluate_agent_behavior_def all_triggers_def raise_append)
  qed (simp add: 1 evaluate_agent_behavior_def all_triggers_def raise_append)
qed (simp add: evaluate_agent_behavior_def all_triggers_def raise_append)

lemma evaluate_spec:
  assumes "guardian_wf db"
  obtains new where "evaluate_agent_behavior tenant agent_id db = Inr (new, db\<lparr>gb_actions := gb_actions db @ new\<rparr>)"
    and "guardian_wf (db\<lparr>gb_actions := gb_actions db @ new\<rparr>)"
    and "\<forall>a \<in> set new. \<exists>t \<in> set (all_triggers db tenant agent_id). raised_from tenant t a"
    and "\<forall>t \<in> set (all_triggers db tenant agent_id). \<exists>a \<in> set (gb_actions db @ new).
           pending_for tenant (tr_type t) (tr_id t) a"
  using raise_spec [OF assms, of tenant "all_triggers db tenant agent_id" "[]"] that by (auto simp: evaluate_raise)

section \<open>Executing actions changes statuses only\<close>

text \<open>An action before and after: unchanged, or executed or failed with a time when its id is among \<open>ids\<close>.\<close>

definition settled_by :: "uuid set \<Rightarrow> guardian_action \<Rightarrow> guardian_action \<Rightarrow> bool" where
  "settled_by ids a a' \<longleftrightarrow>
     (if ga_id a \<in> ids
      then \<exists>r n. a' = finish_action r n a
      else a' = a)"

lemma finish_action_facts [simp]:
  "ga_id (finish_action r n a) = ga_id a" "ga_tenant (finish_action r n a) = ga_tenant a"
  "ga_agent (finish_action r n a) = ga_agent a" "ga_trigger_type (finish_action r n a) = ga_trigger_type a"
  "ga_trigger_id (finish_action r n a) = ga_trigger_id a" "ga_action_type (finish_action r n a) = ga_action_type a"
  "ga_action_status (finish_action r n a) \<noteq> ''pending''" "ga_executed_at (finish_action r n a) = Some n"
  "ga_action_status (finish_action r n a) = (if ex_ok r then ''executed'' else ''failed'')"
  "finish_action r n (finish_action r' n' a) = finish_action r n a"
  by (simp_all add: finish_action_def)

definition same_tables :: "guardian_db \<Rightarrow> guardian_db \<Rightarrow> bool" where
  "same_tables db db' \<longleftrightarrow> gb_anomalies db' = gb_anomalies db \<and> gb_findings db' = gb_findings db \<and>
     gb_exfil db' = gb_exfil db \<and> gb_ids db' = gb_ids db"

text \<open>Agents of other tenants keep their rows, and the alerts sent are of the tenant.\<close>

definition row_kept :: "uuid \<Rightarrow> agent_row \<Rightarrow> agent_row \<Rightarrow> bool" where
  "row_kept tenant r r' \<longleftrightarrow> ag_id r' = ag_id r \<and> ag_tenant r' = ag_tenant r \<and> (ag_tenant r \<noteq> tenant \<longrightarrow> r' = r)"

lemma row_kept_trans: "row_kept tenant a b \<Longrightarrow> row_kept tenant b c \<Longrightarrow> row_kept tenant a c"
  by (simp add: row_kept_def)

definition only_tenant :: "uuid \<Rightarrow> guardian_db \<Rightarrow> guardian_db \<Rightarrow> bool" where
  "only_tenant tenant db db' \<longleftrightarrow>
     list_all2 (row_kept tenant) (gb_agents db) (gb_agents db') \<and>
     (\<exists>new. gb_alerts db' = gb_alerts db @ new \<and> (\<forall>e \<in> set new. al_tenant e = tenant))"

lemma only_tenant_refl: "only_tenant tenant db db"
  by (simp add: only_tenant_def row_kept_def list_all2_refl)

lemma only_tenant_trans: "only_tenant tenant a b \<Longrightarrow> only_tenant tenant b c \<Longrightarrow> only_tenant tenant a c"
  unfolding only_tenant_def by (auto intro: list_all2_trans [OF row_kept_trans])

lemma perform_facts:
  assumes "perform_action deliver tenant a db = (r, db')"
  shows "gb_actions db' = gb_actions db" and "same_tables db db'" and "only_tenant tenant db db'"
  using assms
  by (auto simp: perform_action_def set_agent_status_def same_tables_def only_tenant_def row_kept_def agent_key_def Let_def
      list_all2_conv_all_nth split: option.splits if_splits)

lemma remediation_facts:
  assumes "execute_remediation deliver tenant a db = (r, db')"
  shows "list_all2 (settled_by {ga_id a}) (gb_actions db) (gb_actions db')" and "same_tables db db'"
    and "only_tenant tenant db db'"
proof -
  obtain db1 where p: "perform_action deliver tenant a db = (r, db1)"
    and db': "db' = db1\<lparr>gb_actions := map (\<lambda>b. if ga_id b = ga_id a
              then finish_action r (gb_clock db1) b else b) (gb_actions db1),
            gb_clock := Suc (gb_clock db1)\<rparr>"
    using assms by (auto simp: execute_remediation_def Let_def split: prod.splits)
  note f = perform_facts [OF p]
  show "list_all2 (settled_by {ga_id a}) (gb_actions db) (gb_actions db')"
    unfolding db' using f(1) by (auto simp: list_all2_conv_all_nth settled_by_def)
  show "same_tables db db'" "only_tenant tenant db db'"
    using f(2,3) by (simp_all add: db' same_tables_def only_tenant_def)
qed

lemma list_all2_left: "list_all2 P xs ys \<Longrightarrow> y \<in> set ys \<Longrightarrow> \<exists>x \<in> set xs. P x y"
  by (induction rule: list_all2_induct) auto

lemma list_all2_right: "list_all2 P xs ys \<Longrightarrow> x \<in> set xs \<Longrightarrow> \<exists>y \<in> set ys. P x y"
  by (induction rule: list_all2_induct) auto

lemma settled_trans: "settled_by X a b \<Longrightarrow> settled_by Y b c \<Longrightarrow> settled_by (X \<union> Y) a c"
  unfolding settled_by_def by (auto split: if_splits)

lemma execute_all_facts:
  assumes "execute_all deliver tenant as e f db = (e', f', db')"
  shows "list_all2 (settled_by (ga_id ` set as)) (gb_actions db) (gb_actions db') \<and> same_tables db db' \<and>
         only_tenant tenant db db' \<and> e' + f' = e + f + length as"
  using assms
proof (induction as arbitrary: e f db)
  case Nil
  then show ?case by (auto simp: settled_by_def same_tables_def only_tenant_refl intro: list_all2_refl)
next
  case (Cons a as)
  obtain r db1 where r: "execute_remediation deliver tenant a db = (r, db1)" by fastforce
  note f = remediation_facts [OF r]
  have "execute_all deliver tenant as (if ex_ok r then Suc e else e) (if ex_ok r then f else Suc f) db1 = (e', f', db')"
    using Cons.prems r by (simp split: if_splits)
  note g = Cons.IH [OF this]
  have "list_all2 (settled_by ({ga_id a} \<union> ga_id ` set as)) (gb_actions db) (gb_actions db')"
    by (rule list_all2_trans [OF settled_trans f(1) conjunct1 [OF g]])
  then show ?case
    using f g only_tenant_trans by (fastforce simp: same_tables_def)
qed

text \<open>The whole loop on well-formed tables.\<close>

lemma run_spec:
  assumes "guardian_wf db"
  obtains new rep db' where "run_guardian_loop deliver tenant agent_id db = Inr (rep, db')"
    and "gr_evaluated rep = length new"
    and "\<forall>a \<in> set new. \<exists>t \<in> set (all_triggers db tenant agent_id). raised_from tenant t a"
    and "\<forall>t \<in> set (all_triggers db tenant agent_id). \<exists>a \<in> set (gb_actions db @ new). pending_for tenant (tr_type t) (tr_id t) a"
    and "list_all2 (settled_by (ga_id ` set (pending_actions tenant agent_id (db\<lparr>gb_actions := gb_actions db @ new\<rparr>))))
           (gb_actions db @ new) (gb_actions db')"
    and "same_tables db db'" and "only_tenant tenant db db'"
    and "gr_executed rep + gr_failed rep = length (pending_actions tenant agent_id (db\<lparr>gb_actions := gb_actions db @ new\<rparr>))"
    and "guardian_wf (db\<lparr>gb_actions := gb_actions db @ new\<rparr>)"
proof -
  obtain new where new: "evaluate_agent_behavior tenant agent_id db = Inr (new, db\<lparr>gb_actions := gb_actions db @ new\<rparr>)"
      "guardian_wf (db\<lparr>gb_actions := gb_actions db @ new\<rparr>)"
      "\<forall>a \<in> set new. \<exists>t \<in> set (all_triggers db tenant agent_id). raised_from tenant t a"
      "\<forall>t \<in> set (all_triggers db tenant agent_id). \<exists>a \<in> set (gb_actions db @ new).
           pending_for tenant (tr_type t) (tr_id t) a"
    using evaluate_spec [OF assms] by metis
  let ?db = "db\<lparr>gb_actions := gb_actions db @ new\<rparr>"
  obtain e f db' where x: "execute_all deliver tenant (pending_actions tenant agent_id ?db) 0 0 ?db = (e, f, db')"
    by (metis prod_cases3)
  show thesis
    using new execute_all_facts [OF x] x
    by (intro that [of "\<lparr>gr_evaluated = length new, gr_executed = e, gr_failed = f\<rparr>" db' new])
      (simp_all add: run_guardian_loop_def same_tables_def only_tenant_def)
qed

lemma settled_core: "settled_by X a a' \<Longrightarrow> ga_id a' = ga_id a \<and> ga_tenant a' = ga_tenant a \<and> ga_agent a' = ga_agent a \<and>
    ga_trigger_type a' = ga_trigger_type a \<and> ga_trigger_id a' = ga_trigger_id a \<and> ga_action_type a' = ga_action_type a \<and>
    (ga_action_status a' = ''pending'' \<longrightarrow> a' = a)"
  by (auto simp: settled_by_def split: if_splits)

lemma settled_wf:
  assumes "guardian_wf db" and "list_all2 (settled_by X) (gb_actions db) (gb_actions db')" and "gb_ids db' = gb_ids db"
  shows "guardian_wf db'"
proof -
  have ids: "map ga_id (gb_actions db') = map ga_id (gb_actions db)"
    using assms(2) settled_core by (auto simp: list_all2_conv_all_nth intro!: nth_equalityI)
  have len: "length (gb_actions db') = length (gb_actions db)"
    using assms(2) by (simp add: list_all2_lengthD)
  have "length (filter (pending_for u ty i) (gb_actions db')) \<le> length (filter (pending_for u ty i) (gb_actions db))" for u ty i
    using assms(2)
  proof (induction rule: list_all2_induct)
    case (Cons a as b bs)
    then have "pending_for u ty i b \<Longrightarrow> pending_for u ty i a"
      using settled_core [OF Cons(1)] by (auto simp: pending_for_def)
    then show ?case using Cons by auto
  qed simp
  then have "length (filter (pending_for u ty i) (gb_actions db')) \<le> 1" for u ty i
    using assms(1) le_trans unfolding guardian_wf_def by blast
  moreover have "\<exists>n < length (gb_actions db'). ga_id a = gb_ids db' n" if "a \<in> set (gb_actions db')" for a
  proof -
    have "ga_id a \<in> set (map ga_id (gb_actions db))" using that unfolding ids [symmetric] by simp
    then show ?thesis using assms(1,3) len unfolding guardian_wf_def by auto
  qed
  ultimately show ?thesis
    using assms(1,3) ids unfolding guardian_wf_def by auto
qed

text \<open>The status of an agent after a sequence of actions.\<close>

definition action_effect :: "uuid \<Rightarrow> string \<Rightarrow> guardian_action \<Rightarrow> string" where
  "action_effect i status a =
     (if ga_agent a = Some i
      then (case status_of_action (ga_action_type a) of None \<Rightarrow> status | Some (s, _) \<Rightarrow> s) else status)"

definition row_after :: "uuid \<Rightarrow> guardian_action list \<Rightarrow> agent_row \<Rightarrow> agent_row" where
  "row_after tenant as r =
     (if ag_tenant r = tenant then r\<lparr>ag_status := foldl (action_effect (ag_id r)) (ag_status r) as\<rparr> else r)"

lemma execute_agents:
  "execute_remediation deliver tenant a db = (r, db') \<Longrightarrow> gb_agents db' = map (row_after tenant [a]) (gb_agents db)"
  by (auto simp: execute_remediation_def perform_action_def set_agent_status_def row_after_def action_effect_def
      agent_key_def Let_def filter_empty_conv intro!: map_idI [symmetric] split: option.splits prod.splits if_splits)
    blast+

lemma row_after_Cons: "row_after tenant (a # as) r = row_after tenant as (row_after tenant [a] r)"
  by (simp add: row_after_def)

lemma execute_all_agents:
  "execute_all deliver tenant as e f db = (e', f', db') \<Longrightarrow> gb_agents db' = map (row_after tenant as) (gb_agents db)"
proof (induction as arbitrary: e f db)
  case Nil
  then show ?case by (simp add: row_after_def map_idI)
next
  case (Cons a as)
  obtain r db1 where r: "execute_remediation deliver tenant a db = (r, db1)" by fastforce
  have "gb_agents db' = map (row_after tenant as) (gb_agents db1)"
    using Cons.prems r Cons.IH by (simp split: if_splits)
  then show ?case
    using execute_agents [OF r] by (simp add: row_after_Cons [of tenant a as])
qed

text \<open>When no trigger of a list has a pending action and their keys differ, each gets an action.\<close>

lemma raise_all:
  assumes "guardian_wf db" and "distinct (map (\<lambda>t. (tr_type t, tr_id t)) ts)"
    and "\<forall>t \<in> set ts. \<not> (\<exists>a \<in> set (gb_actions db). pending_for tenant (tr_type t) (tr_id t) a)"
    and "raise_actions tenant ts created db = Inr (created', db')"
  shows "length created' = length created + length ts"
  using assms
proof (induction ts arbitrary: created db)
  case (Cons t ts)
  obtain a db1 where c: "create_action tenant t db = (a, db1)" by fastforce
  have n: "\<not> (\<exists>a \<in> set (gb_actions db). pending_for tenant (tr_type t) (tr_id t) a)" using Cons.prems(3) by simp
  note w = create_wf [OF Cons.prems(1) n c]
  have none: "\<forall>u \<in> set ts. \<not> (\<exists>b \<in> set (gb_actions db1). pending_for tenant (tr_type u) (tr_id u) b)"
  proof (intro ballI notI)
    fix u
    assume u: "u \<in> set ts" "\<exists>b \<in> set (gb_actions db1). pending_for tenant (tr_type u) (tr_id u) b"
    then have "pending_for tenant (tr_type u) (tr_id u) a" using Cons.prems(3) w(2) by auto
    then have "(tr_type u, tr_id u) = (tr_type t, tr_id t)"
      using w(3) by (auto simp: raised_from_def pending_for_def)
    moreover have "(tr_type t, tr_id t) \<notin> (\<lambda>t. (tr_type t, tr_id t)) ` set ts" using Cons.prems(2) by simp
    moreover have "(tr_type u, tr_id u) \<in> (\<lambda>t. (tr_type t, tr_id t)) ` set ts" using u(1) by (rule imageI)
    ultimately show False by simp
  qed
  have run: "raise_actions tenant ts (created @ [a]) db1 = Inr (created', db')"
  proof -
    have "has_pending_action db tenant (tr_type t) (tr_id t) = Inr False"
      by (simp only: has_pending_wf [OF Cons.prems(1)] n)
    then show ?thesis using Cons.prems(4) c by simp
  qed
  have "length created' = length (created @ [a]) + length ts"
    by (rule Cons.IH [OF w(1) _ none run]) (use Cons.prems(2) in simp)
  then show ?case by simp
qed simp

lemma pending_actions_after:
  assumes "list_all2 (settled_by (ga_id ` set (pending_actions tenant agent_id db0))) (gb_actions db0) (gb_actions db')"
  shows "pending_actions tenant agent_id db' = []"
proof -
  have False if b: "b \<in> set (gb_actions db')" "ga_tenant b = tenant" "ga_action_status b = ''pending''"
      "for_agent agent_id (ga_agent b)" for b
  proof -
    obtain a where a: "a \<in> set (gb_actions db0)" "settled_by (ga_id ` set (pending_actions tenant agent_id db0)) a b"
      using list_all2_left [OF assms b(1)] by blast
    have "a = b" using settled_core [OF a(2)] b(3) by simp
    then have "ga_id a \<in> ga_id ` set (pending_actions tenant agent_id db0)"
      using a(1) b by (simp add: pending_actions_def)
    then obtain x n where "b = finish_action x n a" using a(2) by (auto simp: settled_by_def)
    then show False using b(3) by (simp split: if_splits)
  qed
  then show ?thesis by (auto simp: pending_actions_def filter_empty_conv)
qed

lemma run_wf:
  assumes "guardian_wf db"
  shows "\<exists>rep db'. run_guardian_loop deliver tenant agent_id db = Inr (rep, db') \<and> guardian_wf db'"
proof -
  obtain new rep db' where r: "run_guardian_loop deliver tenant agent_id db = Inr (rep, db')"
      "list_all2 (settled_by (ga_id ` set (pending_actions tenant agent_id (db\<lparr>gb_actions := gb_actions db @ new\<rparr>))))
           (gb_actions db @ new) (gb_actions db')"
      "same_tables db db'" "guardian_wf (db\<lparr>gb_actions := gb_actions db @ new\<rparr>)"
    by (rule run_spec [OF assms, of deliver tenant agent_id]) blast
  have "guardian_wf db'"
    using settled_wf [OF r(4), of _ db'] r(2,3) by (simp add: same_tables_def)
  with r(1) show ?thesis by blast
qed

section \<open>Properties\<close>

text \<open>C14: on well-formed tables the guardian loop never raises and leaves the tables well-formed, with at most
  one pending action for a trigger.\<close>

theorem guardian_loop_invariant:
  assumes "guardian_wf db"
  shows "\<exists>rep db'. run_guardian_loop deliver tenant agent_id db = Inr (rep, db') \<and> guardian_wf db'"
  by (rule run_wf [OF assms])

definition guarded_tables :: guardian_db where
  "guarded_tables =
     \<lparr>gb_anomalies = [\<lparr>an_id = ''n1'', an_tenant = ''t'', an_agent = Some ''a'', an_endpoint = None,
        an_severity = ''critical'', an_description = ''burst'', an_status = ''open''\<rparr>],
      gb_findings = [],
      gb_exfil = [\<lparr>ef_id = ''e1'', ef_tenant = ''t'', ef_agent = Some ''a'', ef_endpoint = None, ef_exfil_type = ''bulk'',
        ef_resource = ''db'', ef_tool = ''sql'', ef_risk_score = 10, ef_status = ''open''\<rparr>],
      gb_actions = [], gb_agents = [\<lparr>ag_id = ''a'', ag_tenant = ''t'', ag_status = ''active''\<rparr>],
      gb_alerts = [], gb_ids = (\<lambda>n. replicate n CHR ''x''), gb_clock = 0\<rparr>"

lemma guarded_tables_wf: "guardian_wf guarded_tables"
  by (auto simp: guardian_wf_def guarded_tables_def intro: injI dest: arg_cong [where f = length])

theorem guardian_loop_invariant_witness:
  "\<exists>rep db'. run_guardian_loop (\<lambda>_. None) ''t'' None guarded_tables = Inr (rep, db') \<and> guardian_wf db'"
  by (rule guardian_loop_invariant [OF guarded_tables_wf])

text \<open>C15: after a run for a tenant nothing is pending, every open finding, anomaly and exfiltration event of the
  tenant has an executed or failed action, and the counters add up to the actions that were pending.\<close>

theorem guardian_loop_complete:
  assumes "guardian_wf db" and "run_guardian_loop deliver tenant None db = Inr (rep, db')"
  shows "pending_actions tenant None db' = [] \<and>
         (\<forall>t \<in> set (all_triggers db tenant None). \<exists>a \<in> set (gb_actions db').
            ga_tenant a = tenant \<and> ga_trigger_type a = tr_type t \<and> ga_trigger_id a = Some (tr_id t) \<and>
            ga_action_status a \<in> {''executed'', ''failed''}) \<and>
         gr_executed rep + gr_failed rep = length (pending_actions tenant None db) + gr_evaluated rep"
proof -
  obtain new where r: "gr_evaluated rep = length new"
      "\<forall>a \<in> set new. \<exists>t \<in> set (all_triggers db tenant None). raised_from tenant t a"
      "\<forall>t \<in> set (all_triggers db tenant None). \<exists>a \<in> set (gb_actions db @ new). pending_for tenant (tr_type t) (tr_id t) a"
      "list_all2 (settled_by (ga_id ` set (pending_actions tenant None (db\<lparr>gb_actions := gb_actions db @ new\<rparr>))))
           (gb_actions db @ new) (gb_actions db')"
      "gr_executed rep + gr_failed rep = length (pending_actions tenant None (db\<lparr>gb_actions := gb_actions db @ new\<rparr>))"
    using assms(2) by (auto intro: run_spec [OF assms(1), of deliver tenant None])
  let ?db = "db\<lparr>gb_actions := gb_actions db @ new\<rparr>"
  have "\<exists>a \<in> set (gb_actions db'). ga_tenant a = tenant \<and> ga_trigger_type a = tr_type t \<and>
      ga_trigger_id a = Some (tr_id t) \<and> ga_action_status a \<in> {''executed'', ''failed''}"
    if t: "t \<in> set (all_triggers db tenant None)" for t
  proof -
    obtain a where a: "a \<in> set (gb_actions db @ new)" "pending_for tenant (tr_type t) (tr_id t) a"
      using r(3) t by blast
    then obtain b where b: "b \<in> set (gb_actions db')" "settled_by (ga_id ` set (pending_actions tenant None ?db)) a b"
      using list_all2_right [OF r(4)] by blast
    have "ga_id a \<in> ga_id ` set (pending_actions tenant None ?db)"
      using a by (auto simp: pending_actions_def pending_for_def for_agent_def)
    then obtain x n where "b = finish_action x n a" using b(2) by (auto simp: settled_by_def)
    then show ?thesis using a(2) b(1) by (intro bexI [of _ b]) (auto simp: pending_for_def)
  qed
  moreover have "filter (\<lambda>a. ga_tenant a = tenant \<and> ga_action_status a = ''pending'') new = new"
    using r(2) by (auto simp: filter_id_conv raised_from_def pending_for_def)
  ultimately show ?thesis
    using r(1,5) pending_actions_after [of tenant None ?db db'] r(4)
    by (simp add: pending_actions_def for_agent_def)
qed

theorem guardian_loop_complete_witness:
  "\<exists>rep db'. run_guardian_loop (\<lambda>_. None) ''t'' None guarded_tables = Inr (rep, db') \<and>
     pending_actions ''t'' None db' = [] \<and> (\<exists>a \<in> set (gb_actions db'). ga_trigger_id a = Some ''n1'')"
proof -
  obtain rep db' where r: "run_guardian_loop (\<lambda>_. None) ''t'' None guarded_tables = Inr (rep, db')"
    by (rule run_spec [OF guarded_tables_wf, of "\<lambda>_. None" "''t''" None])
  have "\<exists>t \<in> set (all_triggers guarded_tables ''t'' None). tr_id t = ''n1''"
    by (simp add: all_triggers_def anomaly_triggers_def guarded_tables_def for_agent_def)
  then show ?thesis using guardian_loop_complete [OF guarded_tables_wf r] r by metis
qed

text \<open>A run touches no row of another tenant, and every alert it sends is of its tenant.\<close>

theorem guardian_tenant_isolation:
  assumes "guardian_wf db" and "run_guardian_loop deliver tenant agent_id db = Inr (rep, db')"
  shows "filter (\<lambda>r. ag_tenant r \<noteq> tenant) (gb_agents db') = filter (\<lambda>r. ag_tenant r \<noteq> tenant) (gb_agents db) \<and>
         filter (\<lambda>a. ga_tenant a \<noteq> tenant) (gb_actions db') = filter (\<lambda>a. ga_tenant a \<noteq> tenant) (gb_actions db) \<and>
         (\<exists>sent. gb_alerts db' = gb_alerts db @ sent \<and> (\<forall>e \<in> set sent. al_tenant e = tenant))"
proof -
  obtain new where r:
      "\<forall>a \<in> set new. \<exists>t \<in> set (all_triggers db tenant agent_id). raised_from tenant t a"
      "list_all2 (settled_by (ga_id ` set (pending_actions tenant agent_id (db\<lparr>gb_actions := gb_actions db @ new\<rparr>))))
           (gb_actions db @ new) (gb_actions db')"
      "only_tenant tenant db db'" "guardian_wf (db\<lparr>gb_actions := gb_actions db @ new\<rparr>)"
    using assms(2) by (auto intro: run_spec [OF assms(1), of deliver tenant agent_id])
  let ?db = "db\<lparr>gb_actions := gb_actions db @ new\<rparr>"
  have agents: "list_all2 (row_kept tenant) xs ys \<Longrightarrow>
      filter (\<lambda>r. ag_tenant r \<noteq> tenant) ys = filter (\<lambda>r. ag_tenant r \<noteq> tenant) xs" for xs ys
    by (induction rule: list_all2_induct) (auto simp: row_kept_def)
  have actions: "list_all2 (settled_by X) xs ys \<Longrightarrow> (\<forall>a \<in> set xs. ga_tenant a \<noteq> tenant \<longrightarrow> ga_id a \<notin> X) \<Longrightarrow>
      filter (\<lambda>a. ga_tenant a \<noteq> tenant) ys = filter (\<lambda>a. ga_tenant a \<noteq> tenant) xs" for X xs ys
  proof (induction rule: list_all2_induct)
    case (Cons a as b bs)
    show ?case
    proof (cases "ga_tenant a = tenant")
      case True
      then have "ga_tenant b = tenant" using settled_core [OF Cons(1)] by simp
      with True Cons show ?thesis by simp
    next
      case False
      then have "b = a" using Cons(1,4) by (simp add: settled_by_def)
      with False Cons show ?thesis by simp
    qed
  qed simp
  have "ga_id a \<notin> ga_id ` set (pending_actions tenant agent_id ?db)"
    if "a \<in> set (gb_actions db @ new)" "ga_tenant a \<noteq> tenant" for a
    using r(4) that by (auto simp: guardian_wf_def pending_actions_def distinct_map dest!: inj_onD)
  moreover have "filter (\<lambda>a. ga_tenant a \<noteq> tenant) new = []"
    using r(1) by (auto simp: filter_empty_conv raised_from_def pending_for_def)
  ultimately have "filter (\<lambda>a. ga_tenant a \<noteq> tenant) (gb_actions db') = filter (\<lambda>a. ga_tenant a \<noteq> tenant) (gb_actions db)"
    using actions [OF r(2)] by simp
  then show ?thesis using r(3) agents by (simp add: only_tenant_def)
qed

theorem guardian_tenant_isolation_witness:
  "\<exists>rep db'. run_guardian_loop (\<lambda>_. None) ''u'' None guarded_tables = Inr (rep, db') \<and>
     filter (\<lambda>r. ag_tenant r \<noteq> ''u'') (gb_agents db') = gb_agents guarded_tables"
proof -
  obtain rep db' where r: "run_guardian_loop (\<lambda>_. None) ''u'' None guarded_tables = Inr (rep, db')"
    by (rule run_spec [OF guarded_tables_wf, of "\<lambda>_. None" "''u''" None])
  have "filter (\<lambda>r. ag_tenant r \<noteq> ''u'') (gb_agents guarded_tables) = gb_agents guarded_tables"
    by (simp add: guarded_tables_def)
  then show ?thesis using guardian_tenant_isolation [OF guarded_tables_wf r] r by metis
qed

text \<open>A finding that stays open is acted upon again by every run: a second run raises and executes a new
  action for each open item of the tenant.\<close>

theorem guardian_repeats:
  assumes "guardian_wf db" and "distinct (map (\<lambda>t. (tr_type t, tr_id t)) (all_triggers db tenant None))"
    and "run_guardian_loop deliver tenant None db = Inr (rep1, db1)"
    and "run_guardian_loop deliver tenant None db1 = Inr (rep2, db2)"
  shows "gr_evaluated rep2 = length (all_triggers db tenant None) \<and>
         gr_executed rep2 + gr_failed rep2 = length (all_triggers db tenant None)"
proof -
  obtain new1 where r1: "list_all2 (settled_by (ga_id ` set (pending_actions tenant None (db\<lparr>gb_actions := gb_actions db @ new1\<rparr>))))
           (gb_actions db @ new1) (gb_actions db1)"
      "same_tables db db1" "guardian_wf (db\<lparr>gb_actions := gb_actions db @ new1\<rparr>)"
    using assms(3) by (auto intro: run_spec [OF assms(1), of deliver tenant None])
  have wf1: "guardian_wf db1"
    using settled_wf [OF r1(3), of _ db1] r1(1,2) by (simp add: same_tables_def)
  have none: "pending_actions tenant None db1 = []"
    using pending_actions_after [of tenant None "db\<lparr>gb_actions := gb_actions db @ new1\<rparr>" db1] r1(1) by simp
  have trig: "all_triggers db1 tenant None = all_triggers db tenant None"
    using r1(2) by (simp add: same_tables_def all_triggers_def anomaly_triggers_def finding_triggers_def exfil_triggers_def)
  obtain new2 where r2: "gr_evaluated rep2 = length new2"
      "gr_executed rep2 + gr_failed rep2 = length (pending_actions tenant None (db1\<lparr>gb_actions := gb_actions db1 @ new2\<rparr>))"
      "\<forall>a \<in> set new2. \<exists>t \<in> set (all_triggers db1 tenant None). raised_from tenant t a"
    using assms(4) by (auto intro: run_spec [OF wf1, of deliver tenant None])
  obtain created db' where e: "raise_actions tenant (all_triggers db1 tenant None) [] db1 = Inr (created, db')"
      "evaluate_agent_behavior tenant None db1 = Inr (created, db')"
    using evaluate_raise [of tenant None db1] evaluate_spec [OF wf1, of tenant None] by metis
  have "\<forall>t \<in> set (all_triggers db1 tenant None). \<not> (\<exists>a \<in> set (gb_actions db1). pending_for tenant (tr_type t) (tr_id t) a)"
    using none by (auto simp: pending_actions_def pending_for_def for_agent_def filter_empty_conv)
  from raise_all [OF wf1 _ this e(1)] have "length created = length (all_triggers db1 tenant None)"
    using assms(2) by (simp add: trig)
  moreover have "gr_evaluated rep2 = length created"
    using assms(4) e(2) by (auto simp: run_guardian_loop_def Let_def split: prod.splits)
  moreover have "filter (\<lambda>a. ga_tenant a = tenant \<and> ga_action_status a = ''pending'') new2 = new2"
    using r2(3) by (auto simp: filter_id_conv raised_from_def pending_for_def)
  ultimately show ?thesis
    using r2(1,2) none by (simp add: trig pending_actions_def for_agent_def)
qed

theorem guardian_repeats_witness:
  "\<exists>rep1 db1 rep2 db2. run_guardian_loop (\<lambda>_. None) ''t'' None guarded_tables = Inr (rep1, db1) \<and>
     run_guardian_loop (\<lambda>_. None) ''t'' None db1 = Inr (rep2, db2) \<and> gr_evaluated rep2 = 2"
proof -
  let ?run = "run_guardian_loop (\<lambda>_. None) ''t'' None"
  obtain rep1 db1 where r1: "?run guarded_tables = Inr (rep1, db1)" "guardian_wf db1"
    using run_wf [OF guarded_tables_wf] by metis
  obtain rep2 db2 where r2: "?run db1 = Inr (rep2, db2)"
    using run_wf [OF r1(2)] by metis
  have t: "all_triggers guarded_tables ''t'' None = [
      \<lparr>tr_agent = Some ''a'', tr_endpoint = None, tr_type = ''anomaly'', tr_id = ''n1'', tr_severity = ''critical'',
       tr_details = ''burst''\<rparr>,
      \<lparr>tr_agent = Some ''a'', tr_endpoint = None, tr_type = ''exfiltration'', tr_id = ''e1'', tr_severity = ''medium'',
       tr_details = ''Exfiltration (bulk) on db via sql''\<rparr>]"
    by (simp add: all_triggers_def anomaly_triggers_def finding_triggers_def exfil_triggers_def guarded_tables_def
        for_agent_def exfil_severity_def)
  have "gr_evaluated rep2 = 2"
    using guardian_repeats [OF guarded_tables_wf _ r1(1) r2] t by simp
  with r1 r2 show ?thesis by blast
qed

text \<open>The status an agent ends with is that of the last of its pending actions, in the order of the table, so
  a mild action that follows a severe one undoes it.\<close>

theorem guardian_last_action_wins:
  assumes "run_guardian_loop deliver tenant agent_id db = Inr (rep, db')"
  shows "\<exists>created db1. evaluate_agent_behavior tenant agent_id db = Inr (created, db1) \<and> gb_agents db1 = gb_agents db \<and>
         gb_agents db' = map (row_after tenant (pending_actions tenant agent_id db1)) (gb_agents db)"
proof -
  obtain created db1 where c: "evaluate_agent_behavior tenant agent_id db = Inr (created, db1)"
    using assms by (auto simp: run_guardian_loop_def bindE_eq_Inr_iff)
  obtain e f db2 where x: "execute_all deliver tenant (pending_actions tenant agent_id db1) 0 0 db1 = (e, f, db2)"
    by (metis prod_cases3)
  have r: "evaluate_agent_behavior tenant agent_id db = Inr (created, db1)" "db' = db2"
    using assms c x by (simp_all add: run_guardian_loop_def)
  have "gb_agents db1 = gb_agents db"
    using raise_tables [OF r(1) [unfolded evaluate_raise]] by auto
  with execute_all_agents [OF x] r show ?thesis by metis
qed

theorem guardian_last_action_wins_witness:
  "\<exists>rep db'. run_guardian_loop (\<lambda>_. None) ''t'' None guarded_tables = Inr (rep, db') \<and>
     map ag_status (gb_agents db') = [''quarantined'']"
proof -
  obtain rep db' where r: "run_guardian_loop (\<lambda>_. None) ''t'' None guarded_tables = Inr (rep, db')"
    using run_wf [OF guarded_tables_wf] by metis
  obtain created db1 where e: "evaluate_agent_behavior ''t'' None guarded_tables = Inr (created, db1)"
      "gb_agents db' = map (row_after ''t'' (pending_actions ''t'' None db1)) (gb_agents guarded_tables)"
    using guardian_last_action_wins [OF r] by metis
  have "map (\<lambda>a. (ga_agent a, ga_action_type a)) (pending_actions ''t'' None db1) =
      [(Some ''a'', ''block_agent''), (Some ''a'', ''quarantine'')]"
    using e(1)
    by (auto simp: evaluate_agent_behavior_def anomaly_triggers_def finding_triggers_def exfil_triggers_def guarded_tables_def
        for_agent_def exfil_severity_def has_pending_action_def scalar_one_or_none_def pending_for_def create_action_def
        action_for_severity_def SEVERITY_ACTION_MAP_def dict_get_or_def dict_get_def pending_actions_def Let_def)
  then obtain a b where "pending_actions ''t'' None db1 = [a, b]" "ga_agent a = Some ''a''" "ga_agent b = Some ''a''"
      "ga_action_type b = ''quarantine''"
    by (auto simp: map_eq_Cons_conv)
  then have "map ag_status (gb_agents db') = [''quarantined'']"
    using e(2) by (simp add: guarded_tables_def row_after_def action_effect_def status_of_action_def)
  with r show ?thesis by (intro exI conjI)
qed

end
