(* ===== verification/BackendRateLimit.thy ===== *)
theory BackendRateLimit
  imports PyValue
begin

text \<open>
  \<open>backend/app/core/rate_limit.py\<close>: fixed-window limits on requests and token budgets over Redis.
  Redis is a parameter, a record of the commands the module sends; a command that raises
  \<open>RedisError\<close> answers \<open>None\<close>.  What the module relies on is the locale \<open>counter_store\<close>; the
  reference semantics of the commands, counters with expiry times, is its interpretation.
\<close>

section \<open>Redis\<close>

record 's redis_ops =
  ro_ping :: "'s \<Rightarrow> bool"
  ro_incr :: "string \<Rightarrow> 's \<Rightarrow> int option \<times> 's"
  ro_expire :: "string \<Rightarrow> nat \<Rightarrow> 's \<Rightarrow> unit option \<times> 's"
  ro_ttl :: "string \<Rightarrow> 's \<Rightarrow> int option"
  ro_get :: "string \<Rightarrow> 's \<Rightarrow> int option option"
  ro_incrby_all :: "(string \<times> int) list \<Rightarrow> 's \<Rightarrow> int list option \<times> 's"
  ro_expire_all :: "(string \<times> nat) list \<Rightarrow> 's \<Rightarrow> unit option \<times> 's"

text \<open>The settings and the module's globals around the store.\<close>

record 's limiter =
  lm_enabled :: bool
  lm_connected :: bool
  lm_unavailable :: bool
  lm_store :: 's

definition get_redis :: "'s redis_ops \<Rightarrow> 's limiter \<Rightarrow> bool \<times> 's limiter" where
  "get_redis ops l =
     (if \<not> lm_enabled l then (False, l)
      else if lm_unavailable l then (False, l)
      else if lm_connected l then (True, l)
      else if ro_ping ops (lm_store l) then (True, l\<lparr>lm_connected := True\<rparr>)
      else (False, l\<lparr>lm_unavailable := True\<rparr>))"

section \<open>Requests\<close>

text \<open>The commands of one check, on the store: the answer, allowed and seconds to wait.\<close>

definition retry_after :: "'s redis_ops \<Rightarrow> string \<Rightarrow> 's \<Rightarrow> bool \<times> int" where
  "retry_after ops key s = (case ro_ttl ops key s of None \<Rightarrow> (True, 0) | Some t \<Rightarrow> (False, max t 1))"

definition count_request :: "'s redis_ops \<Rightarrow> string \<Rightarrow> int \<Rightarrow> nat \<Rightarrow> 's \<Rightarrow> (bool \<times> int) \<times> 's" where
  "count_request ops key limit window s =
     (case ro_incr ops key s of
        (None, s1) \<Rightarrow> ((True, 0), s1)
      | (Some count, s1) \<Rightarrow>
          (case (if count = 1 then ro_expire ops key window s1 else (Some (), s1)) of
             (None, s2) \<Rightarrow> ((True, 0), s2)
           | (Some _, s2) \<Rightarrow> (if limit < count then retry_after ops key s2 else (True, 0), s2)))"

definition check_rate_limit ::
  "'s redis_ops \<Rightarrow> string \<Rightarrow> int \<Rightarrow> nat \<Rightarrow> 's limiter \<Rightarrow> (bool \<times> int) \<times> 's limiter" where
  "check_rate_limit ops key limit window l =
     (case get_redis ops l of
        (False, l1) \<Rightarrow> ((True, 0), l1)
      | (True, l1) \<Rightarrow>
          let (r, s) = count_request ops key limit window (lm_store l1) in (r, l1\<lparr>lm_store := s\<rparr>))"

fun check_limits ::
  "'s redis_ops \<Rightarrow> (string \<times> int \<times> nat) list \<Rightarrow> 's limiter \<Rightarrow> (bool \<times> int) \<times> 's limiter" where
  "check_limits ops [] l = ((True, 0), l)"
| "check_limits ops ((key, limit, window) # ks) l =
     (case check_rate_limit ops key limit window l of
        ((True, _), l') \<Rightarrow> check_limits ops ks l'
      | ((False, retry), l') \<Rightarrow> ((False, retry), l'))"

definition limit_entry :: "string \<Rightarrow> string \<Rightarrow> int option \<Rightarrow> nat \<Rightarrow> (string \<times> int \<times> nat) list" where
  "limit_entry stem tenant_id limit window =
     (case limit of None \<Rightarrow> [] | Some n \<Rightarrow> [(stem @ tenant_id, n, window)])"

definition request_limits :: "string \<Rightarrow> int option \<Rightarrow> int option \<Rightarrow> int option \<Rightarrow> (string \<times> int \<times> nat) list" where
  "request_limits tenant_id rpm rph rpd =
     limit_entry ''pysetu:ai_ratelimit:rpm:'' tenant_id rpm 60 @
     limit_entry ''pysetu:ai_ratelimit:rph:'' tenant_id rph 3600 @
     limit_entry ''pysetu:ai_ratelimit:rpd:'' tenant_id rpd 86400"

definition check_ai_rate_limits ::
  "'s redis_ops \<Rightarrow> string \<Rightarrow> int option \<Rightarrow> int option \<Rightarrow> int option \<Rightarrow> 's limiter \<Rightarrow> (bool \<times> int) \<times> 's limiter" where
  "check_ai_rate_limits ops tenant_id rpm rph rpd l =
     (if rpm = None \<and> rph = None \<and> rpd = None then ((True, 0), l)
      else check_limits ops (request_limits tenant_id rpm rph rpd) l)"

section \<open>Tokens\<close>

definition token_limits :: "string \<Rightarrow> int option \<Rightarrow> int option \<Rightarrow> int option \<Rightarrow> (string \<times> int \<times> nat) list" where
  "token_limits tenant_id tpm tph tpd =
     limit_entry ''pysetu:ai_tokenlimit:tpm:'' tenant_id tpm 60 @
     limit_entry ''pysetu:ai_tokenlimit:tph:'' tenant_id tph 3600 @
     limit_entry ''pysetu:ai_tokenlimit:tpd:'' tenant_id tpd 86400"

fun check_budgets :: "'s redis_ops \<Rightarrow> (string \<times> int \<times> nat) list \<Rightarrow> int \<Rightarrow> 's \<Rightarrow> bool \<times> int" where
  "check_budgets ops [] requested s = (True, 0)"
| "check_budgets ops ((key, limit, window) # ks) requested s =
     (case ro_get ops key s of
        None \<Rightarrow> (True, 0)
      | Some current \<Rightarrow>
          (case current of
             Some n \<Rightarrow> if limit < n + requested then retry_after ops key s else check_budgets ops ks requested s
           | None \<Rightarrow> check_budgets ops ks requested s))"

definition check_ai_token_limits ::
  "'s redis_ops \<Rightarrow> string \<Rightarrow> int option \<Rightarrow> int option \<Rightarrow> int option \<Rightarrow> int \<Rightarrow> 's limiter \<Rightarrow> (bool \<times> int) \<times> 's limiter" where
  "check_ai_token_limits ops tenant_id tpm tph tpd requested l =
     (if tpm = None \<and> tph = None \<and> tpd = None then ((True, 0), l)
      else
        (case get_redis ops l of
           (False, l1) \<Rightarrow> ((True, 0), l1)
         | (True, l1) \<Rightarrow> (check_budgets ops (token_limits tenant_id tpm tph tpd) requested (lm_store l1), l1)))"

definition record_usage :: "'s redis_ops \<Rightarrow> (string \<times> int \<times> nat) list \<Rightarrow> int \<Rightarrow> 's \<Rightarrow> 's" where
  "record_usage ops limits used s =
     (case ro_incrby_all ops (map (\<lambda>(key, _, _). (key, used)) limits) s of
        (None, s1) \<Rightarrow> s1
      | (Some counts, s1) \<Rightarrow>
          snd (ro_expire_all ops
            (concat (map (\<lambda>((key, _, window), count). if count = used then [(key, window)] else []) (zip limits counts))) s1))"

definition increment_ai_token_usage ::
  "'s redis_ops \<Rightarrow> string \<Rightarrow> int option \<Rightarrow> int option \<Rightarrow> int option \<Rightarrow> int \<Rightarrow> 's limiter \<Rightarrow> 's limiter" where
  "increment_ai_token_usage ops tenant_id tpm tph tpd used l =
     (if used \<le> 0 then l
      else if tpm = None \<and> tph = None \<and> tpd = None then l
      else
        (case get_redis ops l of
           (False, l1) \<Rightarrow> l1
         | (True, l1) \<Rightarrow> l1\<lparr>lm_store := record_usage ops (token_limits tenant_id tpm tph tpd) used (lm_store l1)\<rparr>))"

section \<open>The middleware\<close>

record http_request =
  hr_path :: string
  hr_forwarded_for :: string
  hr_client_host :: "string option"

record auth_settings =
  as_login_requests :: int
  as_auth_requests :: int
  as_window_seconds :: nat

definition AUTH_RATE_LIMIT_PATHS :: "string list" where
  "AUTH_RATE_LIMIT_PATHS = [''/api/v1/auth/login'', ''/api/v1/auth/oidc/callback'', ''/api/v1/auth/oidc/authorize'']"

definition client_ip :: "http_request \<Rightarrow> string" where
  "client_ip request =
     (let forwarded = strip (takeWhile (\<lambda>c. c \<noteq> CHR '','') (hr_forwarded_for request)) in
      if forwarded \<noteq> [] then forwarded
      else (case hr_client_host request of
              Some host \<Rightarrow> if host \<noteq> [] then host else ''unknown''
            | None \<Rightarrow> ''unknown''))"

text \<open>\<open>None\<close>: the request goes on to the application; \<open>Some n\<close>: it is answered with status 429 and
  \<open>Retry-After\<close> \<open>n\<close>.\<close>

definition request_path :: "http_request \<Rightarrow> string" where
  "request_path request = (let p = rstrip_chars ''/'' (hr_path request) in if p \<noteq> [] then p else ''/'')"

definition rate_limit_key :: "http_request \<Rightarrow> string" where
  "rate_limit_key request = ''pysetu:ratelimit:'' @ request_path request @ '':'' @ client_ip request"

definition dispatch_request ::
  "'s redis_ops \<Rightarrow> auth_settings \<Rightarrow> http_request \<Rightarrow> 's limiter \<Rightarrow> int option \<times> 's limiter" where
  "dispatch_request ops cfg request l =
     (if \<not> lm_enabled l then (None, l)
      else
        let path = request_path request in
        if path \<notin> set AUTH_RATE_LIMIT_PATHS then (None, l)
        else
          let limit = (if endswith path ''/auth/login'' then as_login_requests cfg else as_auth_requests cfg);
              ((allowed, retry), l') = check_rate_limit ops (rate_limit_key request) limit (as_window_seconds cfg) l
          in (if allowed then None else Some retry, l'))"

section \<open>What the module relies on\<close>

text \<open>\<open>count\<close> is the value of a key that has not expired, 0 when there is none.  A command that fails may
  or may not have been carried out.\<close>

locale counter_store =
  fixes ops :: "'s redis_ops" and count :: "'s \<Rightarrow> string \<Rightarrow> int"
  assumes incr_some: "ro_incr ops k s = (Some n, s') \<Longrightarrow> n = count s k + 1 \<and> count s' = (count s)(k := n)"
    and incr_none: "ro_incr ops k s = (None, s') \<Longrightarrow> count s k' \<le> count s' k'"
    and expire: "0 < w \<Longrightarrow> ro_expire ops k w s = (r, s') \<Longrightarrow> count s' = count s"
    and get_some: "ro_get ops k s = Some v \<Longrightarrow> count s k = (case v of None \<Rightarrow> 0 | Some n \<Rightarrow> n)"
    and incrby_some: "ro_incrby_all ops ks s = (Some ns, s') \<Longrightarrow> distinct (map fst ks) \<Longrightarrow>
           ns = map (\<lambda>(k, n). count s k + n) ks \<and>
           count s' k' = count s k' + (case map_of ks k' of None \<Rightarrow> 0 | Some n \<Rightarrow> n)"
    and expire_all: "(\<And>k w. (k, w) \<in> set ws \<Longrightarrow> 0 < w) \<Longrightarrow> ro_expire_all ops ws s = (r, s') \<Longrightarrow> count s' = count s"

text \<open>Redis answers every command.\<close>

definition answers :: "'s redis_ops \<Rightarrow> bool" where
  "answers ops \<longleftrightarrow> (\<forall>k w s ks ws. fst (ro_incr ops k s) \<noteq> None \<and> fst (ro_expire ops k w s) \<noteq> None \<and>
     ro_ttl ops k s \<noteq> None \<and> ro_get ops k s \<noteq> None \<and> fst (ro_incrby_all ops ks s) \<noteq> None \<and>
     fst (ro_expire_all ops ws s) \<noteq> None)"

definition connected :: "'s limiter \<Rightarrow> bool" where
  "connected l \<longleftrightarrow> lm_enabled l \<and> lm_connected l \<and> \<not> lm_unavailable l"

lemma get_redis_connected: "connected l \<Longrightarrow> get_redis ops l = (True, l)"
  by (simp add: get_redis_def connected_def)

lemma connected_store [simp]: "connected (l\<lparr>lm_store := s\<rparr>) = connected l"
  by (simp add: connected_def)

text \<open>Requests of several clients, each with what happens to the store before it.\<close>

fun run_checks ::
  "'s redis_ops \<Rightarrow> int \<Rightarrow> nat \<Rightarrow> (string \<times> ('s \<Rightarrow> 's)) list \<Rightarrow> 's limiter \<Rightarrow> (string \<times> bool) list" where
  "run_checks ops limit window [] l = []"
| "run_checks ops limit window ((key, before) # rs) l =
     (let ((allowed, retry), l') = check_rate_limit ops key limit window (l\<lparr>lm_store := before (lm_store l)\<rparr>)
      in (key, allowed) # run_checks ops limit window rs l')"

context counter_store
begin

lemma check_counts:
  assumes "answers ops" and "connected l" and "0 < window"
    and "check_rate_limit ops key limit window l = ((allowed, retry), l')"
  shows "allowed \<longleftrightarrow> count (lm_store l) key < limit"
    and "count (lm_store l') = (count (lm_store l))(key := count (lm_store l) key + 1)"
    and "connected l'" and "\<not> allowed \<Longrightarrow> 1 \<le> retry"
proof -
  obtain n s1 where i: "ro_incr ops key (lm_store l) = (Some n, s1)"
    using assms(1) unfolding answers_def by (metis not_None_eq prod.collapse)
  obtain s2 where e: "(if n = 1 then ro_expire ops key window s1 else (Some (), s1)) = (Some (), s2)" "count s2 = count s1"
    using assms(1) expire [OF assms(3)] unfolding answers_def by (metis not_None_eq old.unit.exhaust prod.collapse)
  obtain t where t: "ro_ttl ops key s2 = Some t"
    using assms(1) unfolding answers_def by blast
  have c: "check_rate_limit ops key limit window l = ((if limit < n then (False, max t 1) else (True, 0)), l\<lparr>lm_store := s2\<rparr>)"
    using i e(1) t by (simp add: check_rate_limit_def get_redis_connected [OF assms(2)] count_request_def retry_after_def Let_def)
  show "allowed \<longleftrightarrow> count (lm_store l) key < limit"
    "count (lm_store l') = (count (lm_store l))(key := count (lm_store l) key + 1)" "connected l'"
    "\<not> allowed \<Longrightarrow> 1 \<le> retry"
    using incr_some [OF i] e(2) c assms(2,4) by (auto split: if_splits)
qed

text \<open>Of the requests with one key exactly the first ones up to the limit are allowed.\<close>

lemma window_admits:
  assumes "answers ops" and "0 < window"
  shows "connected l \<Longrightarrow> (\<And>k f s. (k, f) \<in> set rs \<Longrightarrow> count (f s) key = count s key) \<Longrightarrow>
     map snd (filter (\<lambda>(k, b). k = key) (run_checks ops limit window rs l)) =
       map (\<lambda>i. count (lm_store l) key + int i < limit) [0..<length (filter (\<lambda>(k, f). k = key) rs)]"
proof (induction rs arbitrary: l)
  case Nil
  then show ?case by simp
next
  case (Cons r rs)
  obtain k f where r: "r = (k, f)" by fastforce
  let ?l = "l\<lparr>lm_store := f (lm_store l)\<rparr>"
  obtain b t l' where c: "check_rate_limit ops k limit window ?l = ((b, t), l')" by (metis surj_pair)
  have con: "connected ?l" using Cons.prems(1) by simp
  note f = check_counts [OF assms(1) con assms(2) c]
  have same: "count (lm_store ?l) key = count (lm_store l) key" using Cons.prems(2) [of k f] r by simp
  have ih: "map snd (filter (\<lambda>(k, b). k = key) (run_checks ops limit window rs l')) =
       map (\<lambda>i. count (lm_store l') key + int i < limit) [0..<length (filter (\<lambda>(k, f). k = key) rs)]"
    using Cons.IH [OF f(3)] Cons.prems(2) by (meson list.set_intros(2))
  show ?case
  proof (cases "k = key")
    case True
    have "[0..<Suc n] = 0 # map Suc [0..<n]" for n by (simp add: upt_conv_Cons map_Suc_upt)
    moreover have "count (lm_store l') key = count (lm_store l) key + 1" using f(2) same True by simp
    ultimately show ?thesis using True ih f(1) same r c by (simp add: Let_def algebra_simps del: upt_Suc)
  next
    case False
    then show ?thesis using ih f(2) same r c by (simp add: Let_def)
  qed
qed

lemma budgets_checked:
  assumes "answers ops" and "check_budgets ops limits requested s = (True, t)" and "(k, limit, w) \<in> set limits"
    and "0 \<le> limit - requested"
  shows "count s k + requested \<le> limit"
  using assms(2,3,4)
proof (induction limits)
  case (Cons x limits)
  obtain k' limit' w' where x: "x = (k', limit', w')" by (cases x)
  obtain v where v: "ro_get ops k' s = Some v" using assms(1) unfolding answers_def by blast
  have ttl: "ro_ttl ops k' s \<noteq> None" using assms(1) unfolding answers_def by blast
  show ?case
  proof (cases "x = (k, limit, w)")
    case True
    then show ?thesis
      using Cons.prems x v ttl get_some [OF v] by (auto simp: retry_after_def split: option.splits if_splits)
  next
    case False
    then show ?thesis
      using Cons x v ttl by (auto simp: retry_after_def split: option.splits if_splits)
  qed
qed simp

lemma usage_recorded:
  assumes "answers ops" and "distinct (map fst limits)" and "\<And>k n w. (k, n, w) \<in> set limits \<Longrightarrow> 0 < w"
  shows "count (record_usage ops limits used s) k = count s k + (if k \<in> fst ` set limits then used else 0)"
proof -
  let ?ks = "map (\<lambda>(key, _, _). (key, used)) limits"
  obtain ns s1 where i: "ro_incrby_all ops ?ks s = (Some ns, s1)"
    using assms(1) unfolding answers_def by (metis not_None_eq prod.collapse)
  have d: "distinct (map fst ?ks)" using assms(2) by (simp add: case_prod_beta comp_def)
  let ?ws = "concat (map (\<lambda>((key, _, window), c). if c = used then [(key, window)] else []) (zip limits ns))"
  obtain r s2 where e: "ro_expire_all ops ?ws s1 = (r, s2)" by fastforce
  have "count s2 = count s1"
    by (rule expire_all [OF _ e]) (auto split: if_splits dest!: set_zip_leftD intro: assms(3))
  moreover have "map_of ?ks k = (if k \<in> fst ` set limits then Some used else None)"
    by (induction limits) auto
  ultimately show ?thesis
    using incrby_some [OF i d, of k] i e by (simp add: record_usage_def)
qed

end

section \<open>The reference store\<close>

text \<open>Counters with expiry times and the time now, as the commands INCR, INCRBY, EXPIRE, TTL and GET are
  documented.\<close>

record mem_redis =
  mr_values :: "(string \<times> int) list"
  mr_expiry :: "(string \<times> nat) list"
  mr_now :: nat

definition mem_live :: "mem_redis \<Rightarrow> string \<Rightarrow> bool" where
  "mem_live s k \<longleftrightarrow> dict_get (mr_values s) k \<noteq> None \<and>
     (case dict_get (mr_expiry s) k of None \<Rightarrow> True | Some t \<Rightarrow> mr_now s < t)"

definition mem_count :: "mem_redis \<Rightarrow> string \<Rightarrow> int" where
  "mem_count s k = (if mem_live s k then dict_get_or (mr_values s) k 0 else 0)"

definition mem_add :: "string \<Rightarrow> int \<Rightarrow> mem_redis \<Rightarrow> mem_redis" where
  "mem_add k n s =
     s\<lparr>mr_values := dict_set k (mem_count s k + n) (mr_values s),
       mr_expiry := (if mem_live s k then mr_expiry s else AList.delete k (mr_expiry s))\<rparr>"

definition mem_expire :: "string \<Rightarrow> nat \<Rightarrow> mem_redis \<Rightarrow> mem_redis" where
  "mem_expire k w s = (if mem_live s k then s\<lparr>mr_expiry := dict_set k (mr_now s + w) (mr_expiry s)\<rparr> else s)"

definition mem_ttl :: "string \<Rightarrow> mem_redis \<Rightarrow> int" where
  "mem_ttl k s =
     (if \<not> mem_live s k then -2
      else (case dict_get (mr_expiry s) k of None \<Rightarrow> -1 | Some t \<Rightarrow> int t - int (mr_now s)))"

fun mem_incrby_all :: "(string \<times> int) list \<Rightarrow> mem_redis \<Rightarrow> int list \<times> mem_redis" where
  "mem_incrby_all [] s = ([], s)"
| "mem_incrby_all ((k, n) # ks) s =
     (let (ns, s') = mem_incrby_all ks (mem_add k n s) in ((mem_count s k + n) # ns, s'))"

definition mem_ops :: "mem_redis redis_ops" where
  "mem_ops =
     \<lparr>ro_ping = (\<lambda>_. True),
      ro_incr = (\<lambda>k s. (Some (mem_count s k + 1), mem_add k 1 s)),
      ro_expire = (\<lambda>k w s. (Some (), mem_expire k w s)),
      ro_ttl = (\<lambda>k s. Some (mem_ttl k s)),
      ro_get = (\<lambda>k s. Some (if mem_live s k then dict_get (mr_values s) k else None)),
      ro_incrby_all = (\<lambda>ks s. apfst Some (mem_incrby_all ks s)),
      ro_expire_all = (\<lambda>ws s. (Some (), fold (\<lambda>(k, w). mem_expire k w) ws s))\<rparr>"

definition mem_tick :: "nat \<Rightarrow> mem_redis \<Rightarrow> mem_redis" where
  "mem_tick d s = s\<lparr>mr_now := mr_now s + d\<rparr>"

lemma dict_get_delete' [simp]: "dict_get (AList.delete k d) k' = (if k' = k then None else dict_get d k')"
  by (simp add: dict_get_def delete_conv')

lemma mem_count_add: "mem_count (mem_add k n s) = (mem_count s)(k := mem_count s k + n)"
proof
  fix k'
  have "mem_live (mem_add k n s) k' = (k' = k \<or> mem_live s k')"
    by (auto simp: mem_live_def mem_add_def split: option.split)
  moreover have "dict_get_or (mr_values (mem_add k n s)) k' 0 =
      (if k' = k then mem_count s k + n else dict_get_or (mr_values s) k' 0)"
    by (simp add: mem_add_def dict_get_or_def)
  ultimately have "mem_count (mem_add k n s) k' =
      (if k' = k then mem_count s k + n else if mem_live s k' then dict_get_or (mr_values s) k' 0 else 0)"
    unfolding mem_count_def [of "mem_add k n s"] by (cases "k' = k") simp_all
  then show "mem_count (mem_add k n s) k' = ((mem_count s)(k := mem_count s k + n)) k'"
    by (simp add: mem_count_def)
qed

lemma mem_count_expire: "0 < w \<Longrightarrow> mem_count (mem_expire k w s) = mem_count s"
  by (rule ext) (auto simp: mem_count_def mem_expire_def mem_live_def split: option.split)

lemma mem_incrby_all_spec:
  "mem_incrby_all ks s = (ns, s') \<Longrightarrow> distinct (map fst ks) \<Longrightarrow>
     ns = map (\<lambda>(k, n). mem_count s k + n) ks \<and>
     mem_count s' k' = mem_count s k' + (case map_of ks k' of None \<Rightarrow> 0 | Some n \<Rightarrow> n)"
proof (induction ks arbitrary: s ns)
  case (Cons x ks)
  obtain k n where x: "x = (k, n)" by fastforce
  obtain ms where m: "mem_incrby_all ks (mem_add k n s) = (ms, s')" "ns = (mem_count s k + n) # ms"
    using Cons.prems(1) x by (auto simp: Let_def split: prod.splits)
  have d: "distinct (map fst ks)" "k \<notin> fst ` set ks" using Cons.prems(2) x by auto
  have "map (\<lambda>(j, n). mem_count (mem_add k n s) j + n) ks = map (\<lambda>(j, n). mem_count s j + n) ks"
    for n using d(2) by (auto simp: mem_count_add image_iff)
  moreover have "map (\<lambda>(j, m). mem_count (mem_add k n s) j + m) ks = map (\<lambda>(j, m). mem_count s j + m) ks"
    using d(2) by (auto simp: mem_count_add image_iff)
  moreover have "map_of ks k = None" using d(2) by (simp add: map_of_eq_None_iff)
  ultimately show ?case
    using Cons.IH [OF m(1) d(1)] m(2) x by (auto simp: mem_count_add)
qed simp

interpretation mem: counter_store mem_ops mem_count
proof
  fix ks s ns s' k'
  show "ro_incrby_all mem_ops ks s = (Some ns, s') \<Longrightarrow> distinct (map fst ks) \<Longrightarrow>
      ns = map (\<lambda>(k, n). mem_count s k + n) ks \<and>
      mem_count s' k' = mem_count s k' + (case map_of ks k' of None \<Rightarrow> 0 | Some n \<Rightarrow> n)"
    by (rule mem_incrby_all_spec) (auto simp: mem_ops_def apfst_def map_prod_def split: prod.splits)
next
  fix ws s r s'
  have "(\<And>k w. (k, w) \<in> set ws \<Longrightarrow> 0 < w) \<Longrightarrow> mem_count (fold (\<lambda>(k, w). mem_expire k w) ws s) = mem_count s"
  proof (induction ws arbitrary: s)
    case (Cons x ws)
    obtain k w where x: "x = (k, w)" by fastforce
    have "0 < w" by (rule Cons.prems [of k]) (simp add: x)
    moreover have "mem_count (fold (\<lambda>(k, w). mem_expire k w) ws (mem_expire k w s)) = mem_count (mem_expire k w s)"
      by (rule Cons.IH) (meson Cons.prems list.set_intros(2))
    ultimately show ?case by (simp add: x mem_count_expire)
  qed simp
  then show "(\<And>k w. (k, w) \<in> set ws \<Longrightarrow> 0 < w) \<Longrightarrow> ro_expire_all mem_ops ws s = (r, s') \<Longrightarrow> mem_count s' = mem_count s"
    by (simp add: mem_ops_def)
qed (auto simp: mem_ops_def mem_count_add mem_count_expire mem_count_def dict_get_or_def mem_live_def split: option.splits)

lemma mem_answers: "answers mem_ops"
  by (simp add: answers_def mem_ops_def)

section \<open>Properties\<close>

text \<open>C16: while no window of a key ends, of the requests that carry the key exactly the first ones up to the
  limit are allowed, whatever other clients do to other keys in between.\<close>

theorem window_admits_limit:
  assumes "counter_store ops count" and "answers ops" and "connected l" and "0 < window"
    and "\<And>k f s. (k, f) \<in> set rs \<Longrightarrow> count (f s) key = count s key"
    and "count (lm_store l) key = 0" and "0 \<le> limit"
  shows "length (filter (\<lambda>(k, allowed). k = key \<and> allowed) (run_checks ops limit window rs l)) =
         min (nat limit) (length (filter (\<lambda>(k, f). k = key) rs))"
proof -
  let ?run = "filter (\<lambda>(k, b). k = key) (run_checks ops limit window rs l)"
  let ?n = "length (filter (\<lambda>(k, f). k = key) rs)"
  have "map snd ?run = map (\<lambda>i. int i < limit) [0..<?n]"
    using counter_store.window_admits [OF assms(1,2,4,3), of rs key limit] assms(5,6) by simp
  then have "length (filter (\<lambda>b. b) (map snd ?run)) = length (filter (\<lambda>i. int i < limit) [0..<?n])"
    by (simp add: filter_map comp_def)
  moreover have "length (filter (\<lambda>i. int i < limit) [0..<m]) = min (nat limit) m" for m
    by (induction m) (use assms(7) in auto)
  moreover have "length (filter (\<lambda>(k, allowed). k = key \<and> allowed) xs) =
      length (filter (\<lambda>b. b) (map snd (filter (\<lambda>(k, b). k = key) xs)))" for xs :: "(string \<times> bool) list"
    by (induction xs) auto
  ultimately show ?thesis by simp
qed

definition empty_redis :: mem_redis where
  "empty_redis = \<lparr>mr_values = [], mr_expiry = [], mr_now = 0\<rparr>"

definition mem_limiter :: "mem_redis limiter" where
  "mem_limiter = \<lparr>lm_enabled = True, lm_connected = True, lm_unavailable = False, lm_store = empty_redis\<rparr>"

lemma empty_redis_facts: "\<not> mem_live empty_redis k" "mr_expiry (mem_add k n empty_redis) = []"
  "mem_live (mem_add k n empty_redis) k"
  by (simp_all add: empty_redis_def mem_live_def mem_add_def dict_get_def dict_set_def)

lemma mem_limiter_facts: "connected mem_limiter" "mem_count (lm_store mem_limiter) k = 0"
  "ro_get mem_ops k (lm_store mem_limiter) = Some None"
  by (simp_all add: connected_def mem_limiter_def mem_count_def mem_ops_def empty_redis_facts)

theorem window_admits_limit_witness:
  "length (filter (\<lambda>(k, allowed). k = ''a'' \<and> allowed)
     (run_checks mem_ops 2 60 [(''a'', id), (''a'', mem_add ''b'' 1), (''a'', id)] mem_limiter)) = 2"
proof -
  have "length (filter (\<lambda>(k, allowed). k = ''a'' \<and> allowed)
      (run_checks mem_ops 2 60 [(''a'', id), (''a'', mem_add ''b'' 1), (''a'', id)] mem_limiter)) =
    min (nat 2) (length (filter (\<lambda>(k, f). k = ''a'') [(''a'', id), (''a'', mem_add ''b'' 1), (''a'', id)]))"
    by (rule window_admits_limit [OF mem.counter_store_axioms mem_answers mem_limiter_facts(1) _ _ mem_limiter_facts(2)])
      (auto simp: mem_count_add)
  also have "\<dots> = 2" by simp
  finally show ?thesis .
qed

text \<open>When every window already has usage, a request that the budgets admit and that uses no more tokens than it
  asked for leaves every budget within its limit.\<close>

theorem token_budget_respected:
  assumes "counter_store ops count" and "answers ops" and "connected l"
    and "check_ai_token_limits ops tenant tpm tph tpd requested l = ((True, retry), l1)"
    and "0 < used" and "used \<le> requested" and "(key, limit, window) \<in> set (token_limits tenant tpm tph tpd)"
    and "requested \<le> limit"
  shows "count (lm_store (increment_ai_token_usage ops tenant tpm tph tpd used l1)) key \<le> limit \<and>
         count (lm_store (increment_ai_token_usage ops tenant tpm tph tpd used l1)) key = count (lm_store l) key + used"
proof -
  let ?ls = "token_limits tenant tpm tph tpd"
  have some: "\<not> (tpm = None \<and> tph = None \<and> tpd = None)"
    using assms(7) by (auto simp: token_limits_def limit_entry_def)
  then have l1: "l1 = l" and c: "check_budgets ops ?ls requested (lm_store l) = (True, retry)"
    using assms(4) get_redis_connected [OF assms(3)] by (auto simp: check_ai_token_limits_def)
  have "count (lm_store l) key + requested \<le> limit"
    by (rule counter_store.budgets_checked [OF assms(1,2) c assms(7)]) (use assms(8) in simp)
  moreover have "distinct (map fst ?ls)" "\<And>k n w. (k, n, w) \<in> set ?ls \<Longrightarrow> 0 < w"
    by (auto simp: token_limits_def limit_entry_def split: option.splits)
  then have "count (record_usage ops ?ls used (lm_store l)) key = count (lm_store l) key + used"
    using counter_store.usage_recorded [OF assms(1,2), of ?ls used "lm_store l" key] assms(7) by force
  moreover have "lm_store (increment_ai_token_usage ops tenant tpm tph tpd used l1) = record_usage ops ?ls used (lm_store l)"
    using assms(5) some get_redis_connected [OF assms(3)] by (auto simp: increment_ai_token_usage_def l1)
  ultimately show ?thesis using assms(6) by simp
qed

theorem token_budget_respected_witness:
  "mem_count (lm_store (increment_ai_token_usage mem_ops ''t'' (Some 100) None None 30 mem_limiter))
     (''pysetu:ai_tokenlimit:tpm:'' @ ''t'') = 30"
proof -
  have c: "check_ai_token_limits mem_ops ''t'' (Some 100) None None 40 mem_limiter = ((True, 0), mem_limiter)"
    by (simp add: check_ai_token_limits_def get_redis_connected mem_limiter_facts token_limits_def limit_entry_def)
  have "(''pysetu:ai_tokenlimit:tpm:'' @ ''t'', 100, 60) \<in> set (token_limits ''t'' (Some 100) None None)"
    by (simp add: token_limits_def limit_entry_def)
  from token_budget_respected [OF mem.counter_store_axioms mem_answers mem_limiter_facts(1) c _ _ this, of 30]
  show ?thesis using mem_limiter_facts(2) by simp
qed

definition stuck :: "string \<Rightarrow> int \<Rightarrow> mem_redis limiter \<Rightarrow> bool" where
  "stuck key limit l \<longleftrightarrow> connected l \<and> dict_get (mr_expiry (lm_store l)) key = None \<and> mem_live (lm_store l) key \<and>
     limit \<le> mem_count (lm_store l) key"

lemma stuck_check:
  assumes "stuck key limit l" and "1 \<le> limit" and "check_rate_limit mem_ops key limit window l = (r, l')"
  shows "fst r = False" and "stuck key limit l'"
proof -
  let ?s = "lm_store l"
  have live: "mem_live ?s key" "dict_get (mr_expiry ?s) key = None" and n: "limit \<le> mem_count ?s key" and con: "connected l"
    using assms(1) by (auto simp: stuck_def)
  have c: "check_rate_limit mem_ops key limit window l =
      ((False, max (mem_ttl key (mem_add key 1 ?s)) 1), l\<lparr>lm_store := mem_add key 1 ?s\<rparr>)"
    using con n assms(2)
    by (simp add: check_rate_limit_def get_redis_connected count_request_def retry_after_def mem_ops_def)
  show "fst r = False" using c assms(3) by auto
  have "dict_get (mr_expiry (mem_add key 1 ?s)) key = None" "mem_live (mem_add key 1 ?s) key"
    using live by (auto simp: mem_add_def mem_live_def)
  then show "stuck key limit l'"
    using c assms(3) con n by (auto simp: stuck_def mem_count_add)
qed

lemma stuck_tick: "stuck key limit l \<Longrightarrow> stuck key limit (l\<lparr>lm_store := mem_tick d (lm_store l)\<rparr>)"
  by (auto simp: stuck_def mem_tick_def mem_live_def mem_count_def)

text \<open>A counter that exists without an expiry time, as an EXPIRE that fails after its INCR leaves it, never
  gets one: once its limit is reached the client is refused at every later time.\<close>

theorem lost_expiry_blocks_forever:
  assumes "stuck key limit l" and "1 \<le> limit"
  shows "list_all (\<lambda>(k, allowed). \<not> allowed) (run_checks mem_ops limit window (map (\<lambda>d. (key, mem_tick d)) waits) l)"
  using assms(1)
proof (induction waits arbitrary: l)
  case (Cons d waits)
  let ?l = "l\<lparr>lm_store := mem_tick d (lm_store l)\<rparr>"
  obtain b t l' where c: "check_rate_limit mem_ops key limit window ?l = ((b, t), l')" by (metis surj_pair)
  note s = stuck_check [OF stuck_tick [OF Cons.prems] assms(2) c]
  show ?case using Cons.IH [OF s(2)] s(1) c by simp
qed simp

definition expire_fails :: "mem_redis redis_ops" where
  "expire_fails = mem_ops\<lparr>ro_expire := \<lambda>k w s. (None, s)\<rparr>"

theorem lost_expiry_blocks_forever_witness:
  "fst (check_rate_limit expire_fails ''k'' 1 60 mem_limiter) = (True, 0) \<and>
   map snd (run_checks mem_ops 1 60 [(''k'', mem_tick 3600), (''k'', mem_tick 86400)]
     (snd (check_rate_limit expire_fails ''k'' 1 60 mem_limiter))) = [False, False]"
proof -
  have c: "check_rate_limit expire_fails ''k'' 1 60 mem_limiter =
      ((True, 0), mem_limiter\<lparr>lm_store := mem_add ''k'' 1 empty_redis\<rparr>)"
    using mem_limiter_facts(2) [of "''k''"]
    by (simp add: check_rate_limit_def get_redis_connected mem_limiter_facts count_request_def expire_fails_def mem_ops_def)
      (simp add: mem_limiter_def)
  have st: "stuck ''k'' 1 (mem_limiter\<lparr>lm_store := mem_add ''k'' 1 empty_redis\<rparr>)"
    using empty_redis_facts by (simp add: stuck_def mem_limiter_facts mem_count_add mem_count_def dict_get_def)
  have "length (run_checks ops lim w rs l) = length rs" for ops :: "mem_redis redis_ops" and lim w rs l
    by (induction ops lim w rs l rule: run_checks.induct) (simp_all add: Let_def split: prod.split)
  then have len: "length (run_checks mem_ops 1 60 [(''k'', mem_tick 3600), (''k'', mem_tick 86400)] l) = 2" for l
    by (simp only: list.size One_nat_def add_Suc_right add_0_right Suc_1 numeral_2_eq_2)
  have two: "length xs = 2 \<Longrightarrow> list_all (\<lambda>(k, allowed). \<not> allowed) xs \<Longrightarrow> map snd xs = [False, False]"
    for xs :: "(string \<times> bool) list"
    by (auto simp: length_Suc_conv numeral_2_eq_2)
  have "map snd (run_checks mem_ops 1 60 [(''k'', mem_tick 3600), (''k'', mem_tick 86400)]
      (mem_limiter\<lparr>lm_store := mem_add ''k'' 1 empty_redis\<rparr>)) = [False, False]"
    by (rule two [OF len lost_expiry_blocks_forever [OF st order_refl, of 60 "[3600, 86400]", unfolded list.map]])
  then show ?thesis unfolding c fst_conv snd_conv by (intro conjI refl)
qed

end
