(* ===== verification/PyRegexLiteral.thy ===== *)
theory PyRegexLiteral
  imports PyRegexSound
begin

text \<open>
  Literal text in patterns: what the pattern of a literal matches, ignoring case, and the literal text every
  match of a pattern has to start with, which gives a cheap proof that a pattern does not occur.
\<close>

section \<open>Occurrence\<close>

text \<open>A pattern occurs in a content: some part of it is in the language of the pattern.\<close>

definition occurs_in :: "string \<Rightarrow> pattern \<Rightarrow> bool" where
  "occurs_in content p \<longleftrightarrow> (\<exists>a b t. content = a @ b \<and> rmatch (p_flags p) (p_regex p) (rev a, b) t)"

lemma p_found_occurs: "p_found p content = occurs_in content p"
  by (simp add: occurs_in_def p_found_iff)

section \<open>Literal patterns\<close>

abbreviation literal_regex :: "string \<Rightarrow> regex" where
  "literal_regex s \<equiv> foldr (\<lambda>c r. RSeq (RLit c) r) s REmpty"

lemma lower_eq_Nil [simp]: "lower s = [] \<longleftrightarrow> s = []"
  by (simp add: lower_def)

lemma lower_char_eq: "lower_char c = lower_char d \<longleftrightarrow> c = d \<or> swap_case c = d"
proof -
  have up: "ordc (upper_char c) = ordc c - 32" if "is_lower c" for c
    using that by (auto simp: upper_char_def is_lower_def)
  have low: "ordc (lower_char c) = (if is_upper c then ordc c + 32 else ordc c)" for c by (rule ordc_lower_char)
  show ?thesis
  proof
    assume "lower_char c = lower_char d"
    then have e: "(if is_upper c then ordc c + 32 else ordc c) = (if is_upper d then ordc d + 32 else ordc d)"
      using low by metis
    show "c = d \<or> swap_case c = d"
    proof (cases "is_upper c = is_upper d")
      case True
      then have "ordc c = ordc d" using e by (cases "is_upper d") auto
      then show ?thesis by simp
    next
      case False
      then have "ordc (swap_case c) = ordc d"
        using e low [of c] up [of c] by (auto simp: swap_case_def is_upper_def is_lower_def split: if_splits)
      then show ?thesis by simp
    qed
  next
    assume "c = d \<or> swap_case c = d"
    then consider "c = d" | "is_upper c" "d = lower_char c" | "is_lower c" "\<not> is_upper c" "d = upper_char c" | "d = c"
      by (auto simp: swap_case_def split: if_splits)
    then show "lower_char c = lower_char d"
    proof cases
      case 3
      then have "ordc d = ordc c - 32" using up by simp
      then have "is_upper d" "ordc (lower_char d) = ordc c" using 3(1) low [of d] by (auto simp: is_upper_def is_lower_def)
      moreover have "ordc (lower_char c) = ordc c" using 3(2) low by simp
      ultimately show ?thesis by simp
    qed simp_all
  qed
qed

lemma rmatch_literal:
  "icase fl \<Longrightarrow> rmatch fl (literal_regex k) (l, s) t \<longleftrightarrow>
     (\<exists>u v. s = u @ v \<and> lower u = lower k \<and> t = (rev u @ l, v))"
proof (induction k arbitrary: l s)
  case Nil
  then show ?case by (auto simp: rmatch_simps)
next
  case (Cons c k)
  have "rmatch fl (RLit c) (l, s) q \<longleftrightarrow> (\<exists>d s'. s = d # s' \<and> lower_char d = lower_char c \<and> q = (d # l, s'))" for q
    using Cons.prems by (cases s) (auto simp: rmatch_simps lower_char_eq)
  then have "rmatch fl (literal_regex (c # k)) (l, s) t \<longleftrightarrow>
      (\<exists>d s'. s = d # s' \<and> lower_char d = lower_char c \<and> rmatch fl (literal_regex k) (d # l, s') t)"
    by (auto simp: rmatch_simps(6))
  also have "\<dots> \<longleftrightarrow> (\<exists>d u v. s = d # u @ v \<and> lower_char d = lower_char c \<and> lower u = lower k \<and> t = (rev u @ d # l, v))"
    using Cons.IH [OF Cons.prems] by auto
  also have "\<dots> \<longleftrightarrow> (\<exists>u v. s = u @ v \<and> lower u = lower (c # k) \<and> t = (rev u @ l, v))"
  proof
    assume "\<exists>d u v. s = d # u @ v \<and> lower_char d = lower_char c \<and> lower u = lower k \<and> t = (rev u @ d # l, v)"
    then obtain d u v where "s = (d # u) @ v" "lower (d # u) = lower (c # k)" "t = (rev (d # u) @ l, v)" by auto
    then show "\<exists>u v. s = u @ v \<and> lower u = lower (c # k) \<and> t = (rev u @ l, v)" by blast
  next
    assume "\<exists>u v. s = u @ v \<and> lower u = lower (c # k) \<and> t = (rev u @ l, v)"
    then obtain u v where u: "s = u @ v" "lower u = lower (c # k)" "t = (rev u @ l, v)" by blast
    then obtain d u' where "u = d # u'" by (cases u) auto
    with u show "\<exists>d u v. s = d # u @ v \<and> lower_char d = lower_char c \<and> lower u = lower k \<and> t = (rev u @ d # l, v)" by auto
  qed
  finally show ?case .
qed

lemma lower_eq_append: "lower s = a @ b \<Longrightarrow> \<exists>u v. s = u @ v \<and> lower u = a \<and> lower v = b"
  unfolding lower_def by (simp add: map_eq_append_conv) blast

section \<open>Leading text\<close>

text \<open>The text a match has to start with, and whether the match is just that text.\<close>

fun lead :: "regex \<Rightarrow> string \<times> bool" where
  "lead (RLit c) = ([c], True)"
| "lead REmpty = ([], True)"
| "lead RBound = ([], True)"
| "lead RNotBound = ([], True)"
| "lead RBegin = ([], True)"
| "lead REnd = ([], True)"
| "lead (RSeq a b) = (let (s, exact) = lead a in if exact then (s @ fst (lead b), snd (lead b)) else (s, False))"
| "lead (RGroup i a) = lead a"
| "lead _ = ([], False)"

lemma rmatch_lead:
  "rmatch fl r (l, s) t \<Longrightarrow>
   \<exists>u v. s = u @ v \<and> lower u = lower (fst (lead r)) \<and> (snd (lead r) \<longrightarrow> t = (rev u @ l, v))"
proof (induction r arbitrary: l s t)
  case (RLit c)
  then show ?case by (cases s) (auto simp: rmatch_simps lower_char_eq)
next
  case (RSeq a b)
  then obtain q where a: "rmatch fl a (l, s) q" and b: "rmatch fl b q t" by (auto simp: rmatch_simps)
  obtain u v where u: "s = u @ v" "lower u = lower (fst (lead a))" "snd (lead a) \<longrightarrow> q = (rev u @ l, v)"
    using RSeq.IH(1) [OF a] by blast
  show ?case
  proof (cases "snd (lead a)")
    case True
    then have "rmatch fl b (rev u @ l, v) t" using b u(3) by simp
    from RSeq.IH(2) [OF this] obtain u' v' where
      "v = u' @ v'" "lower u' = lower (fst (lead b))" "snd (lead b) \<longrightarrow> t = (rev u' @ rev u @ l, v')" by blast
    then show ?thesis using u True
      by (intro exI [of _ "u @ u'"] exI [of _ v']) (auto simp: split_beta Let_def)
  next
    case False
    then show ?thesis using u by (auto simp: split_beta Let_def)
  qed
qed (auto simp: rmatch_simps)

lemma found_lead: "p_found p s \<Longrightarrow> contains (lower (fst (lead (p_regex p)))) (lower s)"
proof -
  assume "p_found p s"
  then obtain a b t where "s = a @ b" "rmatch (p_flags p) (p_regex p) (rev a, b) t" unfolding p_found_iff by blast
  moreover from rmatch_lead [OF this(2)] obtain u v where "b = u @ v" "lower u = lower (fst (lead (p_regex p)))" by blast
  ultimately have "lower s = lower a @ lower (fst (lead (p_regex p))) @ lower v" by simp
  then show ?thesis unfolding contains_iff by blast
qed

lemma match_lead: "p_match p s \<noteq> None \<Longrightarrow> startswith (lower s) (lower (fst (lead (p_regex p))))"
proof -
  assume "p_match p s \<noteq> None"
  then obtain t where "rmatch (p_flags p) (p_regex p) ([], s) t"
    unfolding p_match_def re_match_def by (auto dest: re_match_at_SomeD)
  from rmatch_lead [OF this] obtain u v where "s = u @ v" "lower u = lower (fst (lead (p_regex p)))" by blast
  then show ?thesis unfolding startswith_iff by auto
qed

end
