(* ===== verification/BackendDlp.thy ===== *)
theory BackendDlp
  imports PyRegexLiteral BackendCommon
begin

text \<open>
  \<open>backend/app/services/dlp_service.py\<close> and \<open>dlp_classification.py\<close>: the classifiers of personal data,
  the scan with its redaction, and the sensitivity labels derived from what it finds.
\<close>

section \<open>Sensitivity labels\<close>

definition ENTITY_TO_SENSITIVITY :: "string dict" where
  "ENTITY_TO_SENSITIVITY =
     [(''SSN'', ''RESTRICTED_PII''), (''Email'', ''INTERNAL_PII''), (''US Phone'', ''RESTRICTED_PII''),
      (''EU Personal ID'', ''RESTRICTED_PII''), (''PHI'', ''RESTRICTED_PHI''), (''PCI Card'', ''RESTRICTED_PCI''),
      (''Financial Account'', ''CONFIDENTIAL_FINANCIAL'')]"

definition SENSITIVITY_RANK :: "int dict" where
  "SENSITIVITY_RANK =
     [(''PUBLIC'', 0), (''INTERNAL'', 1), (''INTERNAL_PII'', 2), (''CONFIDENTIAL_FINANCIAL'', 3),
      (''RESTRICTED_PII'', 4), (''RESTRICTED_PHI'', 5), (''RESTRICTED_PCI'', 5)]"

definition VECTOR_BLOCKED_LABELS :: "string list" where
  "VECTOR_BLOCKED_LABELS = [''RESTRICTED_PII'', ''RESTRICTED_PHI'', ''RESTRICTED_PCI'']"

definition NEVER_EXEMPT_VECTOR_LABELS :: "string list" where
  "NEVER_EXEMPT_VECTOR_LABELS = [''RESTRICTED_PHI'', ''RESTRICTED_PCI'']"

definition sensitivity_rank :: "string \<Rightarrow> int" where
  "sensitivity_rank label = dict_get_or SENSITIVITY_RANK label 0"

fun derive_loop :: "string list \<Rightarrow> string list \<Rightarrow> string list" where
  "derive_loop [] labels = labels"
| "derive_loop (entity # es) labels =
     (case dict_get ENTITY_TO_SENSITIVITY entity of
        Some label \<Rightarrow> if label \<noteq> [] \<and> label \<notin> set labels then derive_loop es (labels @ [label]) else derive_loop es labels
      | None \<Rightarrow> derive_loop es labels)"

definition derive_sensitivity_labels :: "string list \<Rightarrow> string list" where
  "derive_sensitivity_labels entities = derive_loop entities []"

definition highest_sensitivity :: "string list \<Rightarrow> string option" where
  "highest_sensitivity labels = (case labels of [] \<Rightarrow> None | l # ls \<Rightarrow> Some (first_max sensitivity_rank l ls))"

section \<open>Classifiers\<close>

definition SSN_PATTERN :: pattern where
  "SSN_PATTERN = re_const no_flags (raw ''`b`d{3}-`d{2}-`d{4}`b'')"

definition CLASSIFIERS :: "(string \<times> pattern) list" where
  "CLASSIFIERS =
     [(''SSN'', SSN_PATTERN),
      (''Email'', re_const no_flags (raw ''`b[A-Za-z0-9._%+-]+@[A-Za-z0-9.-]+`.[A-Za-z]{2,}`b'')),
      (''US Phone'', re_const no_flags (raw ''`b`d{3}-`d{3}-`d{4}`b'')),
      (''EU Personal ID'', re_const no_flags (raw ''`b[A-Z]{2}`d{6,12}`b'')),
      (''PHI'', re_const ignorecase
         (raw ''`b(?:patient|diagnosis|treatment|medical record|medical history|mrn)`b'')),
      (''PCI Card'', re_const no_flags (raw ''`b(?:`d[ -]?){13,19}`b'')),
      (''Financial Account'', re_const ignorecase
         (raw ''`b(?:bank account|account number|routing number|iban|swift|sort code|credit score)`b''))]"

lemma classifiers_compile: "list_all (\<lambda>(l, p). p_regex p \<noteq> RClass False []) CLASSIFIERS"
  by code_simp

record dlp_scan =
  dl_classifications :: "string list"
  dl_sensitivity_labels :: "string list"
  dl_highest_sensitivity :: "string option"
  dl_has_pii :: bool
  dl_region :: string
  dl_redacted_content :: "string option"
  dl_match_count :: nat

fun dlp_loop :: "(string \<times> pattern) list \<Rightarrow> string \<Rightarrow> string list \<Rightarrow> string \<Rightarrow> nat \<Rightarrow> string list \<times> string \<times> nat" where
  "dlp_loop [] content labels redacted n = (labels, redacted, n)"
| "dlp_loop ((label, p) # ps) content labels redacted n =
     (let k = p_count p content in
      if k > 0 then dlp_loop ps content (labels @ [label]) (p_sub p ''[REDACTED]'' redacted) (n + k)
      else dlp_loop ps content labels redacted n)"

definition dlp_scan_content :: "string \<Rightarrow> string \<Rightarrow> dlp_scan" where
  "dlp_scan_content content region =
     (let (labels, redacted, n) = dlp_loop CLASSIFIERS content [] content 0;
          sensitivity = derive_sensitivity_labels labels
      in \<lparr>dl_classifications = labels, dl_sensitivity_labels = sensitivity,
          dl_highest_sensitivity = highest_sensitivity sensitivity, dl_has_pii = labels \<noteq> [], dl_region = region,
          dl_redacted_content = (if redacted \<noteq> content then Some redacted else None), dl_match_count = n\<rparr>)"

definition infer_region_from_bundle :: "string option \<Rightarrow> string" where
  "infer_region_from_bundle bundle_name =
     (case bundle_name of
        None \<Rightarrow> ''US''
      | Some n \<Rightarrow>
          if n = [] then ''US''
          else if contains ''eu'' (lower n) \<or> contains ''strict'' (lower n) then ''EU'' else ''US'')"

section \<open>Lemmas\<close>

lemma derive_loop_spec:
  "set (derive_loop es labels) = set labels \<union> {l. \<exists>e \<in> set es. dict_get ENTITY_TO_SENSITIVITY e = Some l \<and> l \<noteq> []} \<and>
   (distinct labels \<longrightarrow> distinct (derive_loop es labels))"
proof (induction es labels rule: derive_loop.induct)
  case (2 entity es labels)
  then show ?case by (cases "dict_get ENTITY_TO_SENSITIVITY entity") auto
qed simp

lemma dlp_loop_labels:
  "dlp_loop ps content labels redacted n = (ls, r, m) \<Longrightarrow>
   ls = labels @ map fst (filter (\<lambda>(l, p). p_found p content) ps)"
proof (induction ps content labels redacted n rule: dlp_loop.induct)
  case (2 label p ps content labels redacted n)
  have "p_count p content > 0 \<longleftrightarrow> p_found p content" using p_count_zero_iff [of p content] by auto
  then show ?case using 2 by (cases "p_found p content") (auto simp: Let_def)
qed simp

lemma dlp_loop_nothing:
  "list_all (\<lambda>(l, p). \<not> p_found p content) ps \<Longrightarrow> dlp_loop ps content labels redacted n = (labels, redacted, n)"
  by (induction ps content labels redacted n rule: dlp_loop.induct) (auto simp: Let_def p_count_zero_iff)

lemma highest_sensitivity_max:
  "labels \<noteq> [] \<Longrightarrow> \<exists>h. highest_sensitivity labels = Some h \<and> h \<in> set labels \<and>
     sensitivity_rank h = Max (sensitivity_rank ` set labels)"
proof (cases labels)
  case (Cons l ls)
  then show ?thesis
    using first_max_mem [of sensitivity_rank l ls] first_max_key [of sensitivity_rank l ls]
    by (simp add: highest_sensitivity_def)
qed simp

lemma classifier_labels:
  "dl_classifications (dlp_scan_content content region) = map fst (filter (\<lambda>(l, p). occurs_in content p) CLASSIFIERS)"
  "dl_has_pii (dlp_scan_content content region) \<longleftrightarrow> dl_classifications (dlp_scan_content content region) \<noteq> []"
  "dl_sensitivity_labels (dlp_scan_content content region) =
     derive_sensitivity_labels (dl_classifications (dlp_scan_content content region))"
  "dl_highest_sensitivity (dlp_scan_content content region) =
     highest_sensitivity (dl_sensitivity_labels (dlp_scan_content content region))"
proof -
  obtain ls r m where l: "dlp_loop CLASSIFIERS content [] content 0 = (ls, r, m)" by (metis prod_cases3)
  note f = dlp_loop_labels [OF l, unfolded p_found_occurs]
  show "dl_classifications (dlp_scan_content content region) = map fst (filter (\<lambda>(l, p). occurs_in content p) CLASSIFIERS)"
    using f by (simp add: dlp_scan_content_def l Let_def)
  show "dl_has_pii (dlp_scan_content content region) \<longleftrightarrow> dl_classifications (dlp_scan_content content region) \<noteq> []"
    "dl_sensitivity_labels (dlp_scan_content content region) =
     derive_sensitivity_labels (dl_classifications (dlp_scan_content content region))"
    "dl_highest_sensitivity (dlp_scan_content content region) =
     highest_sensitivity (dl_sensitivity_labels (dlp_scan_content content region))"
    by (simp_all add: dlp_scan_content_def l Let_def)
qed

text \<open>Every classifier has a tier, so a content with personal data has a highest sensitivity.\<close>

lemma classifiers_tiered:
  "e \<in> fst ` set CLASSIFIERS \<Longrightarrow> \<exists>l. dict_get ENTITY_TO_SENSITIVITY e = Some l \<and> l \<noteq> []"
  unfolding CLASSIFIERS_def ENTITY_TO_SENSITIVITY_def by (auto simp: dict_get_def)

section \<open>Properties\<close>

text \<open>A scan reports exactly the classifiers whose pattern occurs in the content, in their order; a content
  has personal data iff it has a highest sensitivity, and that is the greatest rank among the tiers of
  the classifiers found.\<close>

theorem dlp_scan_classifies:
  "dl_classifications (dlp_scan_content content region) = map fst (filter (\<lambda>(l, p). occurs_in content p) CLASSIFIERS) \<and>
   (dl_has_pii (dlp_scan_content content region) \<longleftrightarrow> dl_highest_sensitivity (dlp_scan_content content region) \<noteq> None) \<and>
   (dl_has_pii (dlp_scan_content content region) \<longrightarrow>
      map_option sensitivity_rank (dl_highest_sensitivity (dlp_scan_content content region)) =
        Some (Max {sensitivity_rank l | l e. e \<in> set (dl_classifications (dlp_scan_content content region)) \<and>
                     dict_get ENTITY_TO_SENSITIVITY e = Some l}))"
proof -
  let ?s = "dlp_scan_content content region"
  let ?c = "dl_classifications ?s"
  let ?ls = "derive_sensitivity_labels ?c"
  have tiered: "\<exists>l. dict_get ENTITY_TO_SENSITIVITY e = Some l \<and> l \<noteq> []" if "e \<in> set ?c" for e
    using that classifiers_tiered [of e] unfolding classifier_labels(1) by auto
  have ls: "set ?ls = {l. \<exists>e \<in> set ?c. dict_get ENTITY_TO_SENSITIVITY e = Some l}"
    using derive_loop_spec [of ?c "[]"] tiered unfolding derive_sensitivity_labels_def by fastforce
  have empty: "?ls = [] \<longleftrightarrow> ?c = []"
  proof
    assume "?ls = []"
    then show "?c = []" using ls tiered by (metis (mono_tags, lifting) empty_iff list.set(1) list.set_intros(1) mem_Collect_eq neq_Nil_conv)
  qed (simp add: derive_sensitivity_labels_def)
  have image: "sensitivity_rank ` set ?ls = {sensitivity_rank l | l e. e \<in> set ?c \<and> dict_get ENTITY_TO_SENSITIVITY e = Some l}"
    unfolding ls by blast
  have none: "highest_sensitivity ?ls = None \<longleftrightarrow> ?ls = []" by (simp add: highest_sensitivity_def split: list.split)
  show ?thesis
  proof (cases "?c = []")
    case True
    then show ?thesis using none empty classifier_labels(1)
      by (simp add: classifier_labels(2-4))
  next
    case False
    then obtain h where h: "highest_sensitivity ?ls = Some h" "sensitivity_rank h = Max (sensitivity_rank ` set ?ls)"
      using highest_sensitivity_max empty by blast
    have "dl_highest_sensitivity ?s = Some h" using h(1) by (simp only: classifier_labels(3,4))
    then show ?thesis using False h(2) classifier_labels(1,2) image by simp
  qed
qed

lemma scan_ssn: "occurs_in ''078-05-1120'' SSN_PATTERN"
proof -
  have "p_found SSN_PATTERN ''078-05-1120''" by code_simp
  then show ?thesis by (simp only: p_found_occurs)
qed

theorem dlp_scan_classifies_witness:
  "dl_highest_sensitivity (dlp_scan_content ''078-05-1120'' ''US'') \<noteq> None"
proof -
  have "(''SSN'', SSN_PATTERN) \<in> set CLASSIFIERS" by (simp add: CLASSIFIERS_def)
  then have "dl_classifications (dlp_scan_content ''078-05-1120'' ''US'') \<noteq> []"
    using scan_ssn by (auto simp: classifier_labels(1) filter_empty_conv)
  then show ?thesis using dlp_scan_classifies [of "''078-05-1120''" "''US''"] classifier_labels(2) by blast
qed

end
