(* ===== verification/BackendThreat.thy ===== *)
theory BackendThreat
  imports PyRegexSound BackendCommon
begin

text \<open>
  \<open>backend/app/services/injection_detection_service.py\<close>: the catalog of prompt-injection,
  jailbreak, exfiltration and secret patterns, the scan of a content, and the mapping of audit
  events to threat categories.
\<close>

section \<open>The catalog\<close>

record threat_rule =
  tr_rule_id :: string
  tr_name :: string
  tr_category :: string
  tr_severity :: string
  tr_pattern :: "pattern option"
  tr_keywords :: "string list"

abbreviation threat_rule_of ::
  "string \<Rightarrow> string \<Rightarrow> string \<Rightarrow> string \<Rightarrow> pattern option \<Rightarrow> string list \<Rightarrow> threat_rule" where
  "threat_rule_of i n c s p ks \<equiv>
     \<lparr>tr_rule_id = i, tr_name = n, tr_category = c, tr_severity = s, tr_pattern = p, tr_keywords = ks\<rparr>"

definition THREAT_RULES :: "threat_rule list" where
  "THREAT_RULES =
    [threat_rule_of ''inj-override'' ''System prompt override'' ''prompt_injection'' ''critical''
       (Some (re_const ignorecase (raw ''ignore`s+(all`s+)?previous`s+instructions''))) [''ignore previous'', ''disregard your prompt''],
     threat_rule_of ''inj-disregard'' ''Disregard system prompt'' ''prompt_injection'' ''critical''
       (Some (re_const ignorecase (raw ''disregard`s+(your`s+)?(system`s+)?prompt''))) [],
     threat_rule_of ''inj-reveal-prompt'' ''Reveal system prompt'' ''prompt_injection'' ''critical''
       (Some (re_const ignorecase (raw ''(reveal|show|print|repeat|output|display)`s+(me`s+)?(your`s+)?(system`s+)?(prompt|instructions)''))) [],
     threat_rule_of ''inj-forget-rules'' ''Forget safety rules'' ''prompt_injection'' ''critical''
       (Some (re_const ignorecase (raw ''forget`s+(all`s+)?(your`s+)?(rules|instructions|guidelines)''))) [],
     threat_rule_of ''inj-bypass'' ''Bypass restrictions'' ''prompt_injection'' ''high''
       (Some (re_const ignorecase (raw ''bypass`s+(your`s+)?(restrictions|rules|guardrails|filters)''))) [],
     threat_rule_of ''inj-unrestricted'' ''Unrestricted mode request'' ''prompt_injection'' ''high''
       (Some (re_const ignorecase (raw ''(developer|god|sudo|unrestricted|admin)`s+mode|no`s+(restrictions|rules|limits)''))) [],
     threat_rule_of ''inj-roleplay-escape'' ''Act without restrictions'' ''prompt_injection'' ''high''
       (Some (re_const ignorecase (raw ''act`s+as`s+(if`s+)?(you`s+)?(have|had)`s+no`s+(restrictions|rules|limits|guardrails)''))) [],
     threat_rule_of ''jb-dan'' ''DAN jailbreak'' ''jailbreak'' ''critical''
       (Some (re_const ignorecase (raw ''you`s+are`s+now`s+dan''))) [''you are now dan''],
     threat_rule_of ''jb-keyword'' ''Jailbreak keyword'' ''jailbreak'' ''high''
       (Some (re_const ignorecase (raw ''`bjailbreak`b''))) [],
     threat_rule_of ''exfil-base64'' ''Encoded payload exfiltration'' ''data_exfiltration'' ''high''
       (Some (re_const ignorecase (raw ''base64`s+(encode|decode|payload|export)''))) [''exfiltrate'', ''dump all data'', ''send to external''],
     threat_rule_of ''secret-openai'' ''OpenAI API key leak'' ''secret_leakage'' ''critical''
       (Some (re_const no_flags (raw ''`bsk-[A-Za-z0-9]{20,}`b''))) [],
     threat_rule_of ''secret-aws'' ''AWS access key leak'' ''secret_leakage'' ''critical''
       (Some (re_const no_flags (raw ''`bAKIA[0-9A-Z]{16}`b''))) []]"

lemma threat_patterns_compile:
  "list_all (\<lambda>r. case tr_pattern r of None \<Rightarrow> False | Some p \<Rightarrow> p_regex p \<noteq> RClass False []) THREAT_RULES"
  by code_simp

section \<open>The scan\<close>

record threat_match =
  tm_rule_id :: string
  tm_name :: string
  tm_category :: string
  tm_severity :: string
  tm_detail :: string

record injection_scan =
  is_detected :: bool
  is_highest_severity :: string
  is_matches :: "threat_match list"
  is_recommended_action :: string

text \<open>The detail of a rule that matches: its pattern, else the first of its keywords that occurs in the
  lower-cased content.\<close>

definition rule_detail :: "string \<Rightarrow> string \<Rightarrow> pattern option \<Rightarrow> string list \<Rightarrow> string option" where
  "rule_detail content name pat keywords =
     (if (case pat of None \<Rightarrow> False | Some p \<Rightarrow> p_found p content) then Some (''Pattern matched: '' @ name)
      else map_option (\<lambda>k. ''Keyword matched: '' @ k) (find (\<lambda>k. contains k (lower content)) keywords))"

definition match_of_rule :: "string \<Rightarrow> threat_rule \<Rightarrow> threat_match list" where
  "match_of_rule content r =
     (case rule_detail content (tr_name r) (tr_pattern r) (tr_keywords r) of
        None \<Rightarrow> []
      | Some detail \<Rightarrow>
          [\<lparr>tm_rule_id = tr_rule_id r, tm_name = tr_name r, tm_category = tr_category r,
            tm_severity = tr_severity r, tm_detail = detail\<rparr>])"

definition no_threat :: injection_scan where
  "no_threat = \<lparr>is_detected = False, is_highest_severity = ''low'', is_matches = [], is_recommended_action = ''allow''\<rparr>"

definition scan_threats :: "string \<Rightarrow> injection_scan" where
  "scan_threats content =
     (if strip content = [] then no_threat
      else
        (case concat (map (match_of_rule content) THREAT_RULES) of
           [] \<Rightarrow> no_threat
         | m # ms \<Rightarrow>
             \<lparr>is_detected = True,
              is_highest_severity = tm_severity (first_max (\<lambda>x. severity_rank (tm_severity x)) m ms),
              is_matches = m # ms, is_recommended_action = ''block''\<rparr>))"

section \<open>Audit events\<close>

definition mentions :: "string \<Rightarrow> string list \<Rightarrow> bool" where
  "mentions blob words = list_ex (\<lambda>w. contains w blob) words"

definition categorize_audit_event :: "string \<Rightarrow> string \<Rightarrow> string \<Rightarrow> string \<Rightarrow> string option" where
  "categorize_audit_event action resource details status =
     (if status \<noteq> ''blocked'' then None
      else
        let blob = lower (action @ '' '' @ resource @ '' '' @ details) in
        if mentions blob [''jailbreak'', ''you are now dan'', ''dan''] then Some ''jailbreak''
        else if mentions blob [''injection'', ''ignore previous'', ''override'', ''disregard''] then Some ''prompt_injection''
        else if mentions blob [''exfil'', ''base64'', ''export''] then Some ''data_exfiltration''
        else if mentions blob [''secret'', ''sk-'', ''akia''] then Some ''secret_leakage''
        else if lower action \<in> {''policy check'', ''prompt injection''} then Some ''prompt_injection''
        else None)"

definition is_injection_related_violation :: "string list \<Rightarrow> string \<Rightarrow> bool" where
  "is_injection_related_violation violation_names details =
     mentions (lower (join '' '' (violation_names @ [details])))
       [''injection'', ''jailbreak'', ''override'', ''ignore previous'', ''disregard'', ''dan'', ''exfil'']"

section \<open>What the scan detects\<close>

text \<open>A rule occurs in a content: a part of the content is in the language of its pattern, or one of its
  keywords is part of the lower-cased content.\<close>

definition rule_hits :: "string \<Rightarrow> pattern option \<Rightarrow> string list \<Rightarrow> bool" where
  "rule_hits content pat keywords \<longleftrightarrow>
     (\<exists>p a b t. pat = Some p \<and> content = a @ b \<and> rmatch (p_flags p) (p_regex p) (rev a, b) t) \<or>
     (\<exists>k \<in> set keywords. contains k (lower content))"

lemma rule_detail_None: "rule_detail content name pat keywords = None \<longleftrightarrow> \<not> rule_hits content pat keywords"
proof -
  have "(case pat of None \<Rightarrow> False | Some p \<Rightarrow> p_found p content) \<longleftrightarrow>
      (\<exists>p a b t. pat = Some p \<and> content = a @ b \<and> rmatch (p_flags p) (p_regex p) (rev a, b) t)"
    by (cases pat) (simp_all add: p_found_iff)
  then show ?thesis
    by (auto simp: rule_detail_def rule_hits_def find_None_iff)
qed

lemma match_of_rule_empty: "match_of_rule content r = [] \<longleftrightarrow> \<not> rule_hits content (tr_pattern r) (tr_keywords r)"
proof -
  have "match_of_rule content r = [] \<longleftrightarrow> rule_detail content (tr_name r) (tr_pattern r) (tr_keywords r) = None"
    by (simp add: match_of_rule_def split: option.split)
  then show ?thesis by (simp only: rule_detail_None)
qed

lemma matches_empty: "concat (map (match_of_rule content) rs) = [] \<longleftrightarrow>
    filter (\<lambda>r. rule_hits content (tr_pattern r) (tr_keywords r)) rs = []"
  by (simp add: match_of_rule_empty filter_empty_conv)

definition catalog_hits :: "string \<Rightarrow> threat_rule list" where
  "catalog_hits content = filter (\<lambda>r. rule_hits content (tr_pattern r) (tr_keywords r)) THREAT_RULES"

lemma scan_rules: "map tm_rule_id (concat (map (match_of_rule content) rs)) =
    map tr_rule_id (filter (\<lambda>r. rule_hits content (tr_pattern r) (tr_keywords r)) rs)"
proof (induction rs)
  case (Cons r rs)
  show ?case
  proof (cases "rule_hits content (tr_pattern r) (tr_keywords r)")
    case True
    then obtain d where "rule_detail content (tr_name r) (tr_pattern r) (tr_keywords r) = Some d"
      using rule_detail_None by blast
    then show ?thesis using Cons True by (simp add: match_of_rule_def)
  next
    case False
    then show ?thesis using Cons match_of_rule_empty by simp
  qed
qed simp

lemma scan_severities: "map tm_severity (concat (map (match_of_rule content) rs)) =
    map tr_severity (filter (\<lambda>r. rule_hits content (tr_pattern r) (tr_keywords r)) rs)"
proof (induction rs)
  case (Cons r rs)
  show ?case
  proof (cases "rule_hits content (tr_pattern r) (tr_keywords r)")
    case True
    then obtain d where "rule_detail content (tr_name r) (tr_pattern r) (tr_keywords r) = Some d"
      using rule_detail_None by blast
    then show ?thesis using Cons True by (simp add: match_of_rule_def)
  next
    case False
    then show ?thesis using Cons match_of_rule_empty by simp
  qed
qed simp

lemma scan_detected:
  "is_detected (scan_threats content) \<longleftrightarrow> strip content \<noteq> [] \<and> catalog_hits content \<noteq> []"
  "is_recommended_action (scan_threats content) = (if is_detected (scan_threats content) then ''block'' else ''allow'')"
proof -
  have "concat (map (match_of_rule content) THREAT_RULES) = [] \<longleftrightarrow> catalog_hits content = []"
    unfolding catalog_hits_def by (rule matches_empty)
  then show "is_detected (scan_threats content) \<longleftrightarrow> strip content \<noteq> [] \<and> catalog_hits content \<noteq> []"
    by (cases "concat (map (match_of_rule content) THREAT_RULES)")
      (simp_all add: scan_threats_def no_threat_def del: concat_eq_Nil_conv)
  show "is_recommended_action (scan_threats content) = (if is_detected (scan_threats content) then ''block'' else ''allow'')"
    by (simp add: scan_threats_def no_threat_def split: list.split)
qed

section \<open>Properties\<close>

text \<open>The scan of a content that is not blank reports exactly the catalog rules that occur in it, in the
  order of the catalog, with the greatest of their severities, and recommends to block when there is
  one.\<close>

theorem scan_reports_catalog:
  "strip content \<noteq> [] \<longrightarrow>
     map tm_rule_id (is_matches (scan_threats content)) = map tr_rule_id (catalog_hits content) \<and>
     (catalog_hits content \<noteq> [] \<longrightarrow>
        is_recommended_action (scan_threats content) = ''block'' \<and>
        severity_rank (is_highest_severity (scan_threats content)) =
          Max (severity_rank ` tr_severity ` set (catalog_hits content)))"
proof
  assume b: "strip content \<noteq> []"
  let ?ms = "concat (map (match_of_rule content) THREAT_RULES)"
  have ids: "map tm_rule_id (is_matches (scan_threats content)) = map tr_rule_id (catalog_hits content)"
  proof -
    have "is_matches (scan_threats content) = ?ms"
      using b by (simp add: scan_threats_def no_threat_def split: list.split)
    then show ?thesis by (simp add: catalog_hits_def scan_rules)
  qed
  moreover have "severity_rank (is_highest_severity (scan_threats content)) =
      Max (severity_rank ` tr_severity ` set (catalog_hits content))" if h: "catalog_hits content \<noteq> []"
  proof -
    have "?ms \<noteq> []" using h unfolding catalog_hits_def matches_empty .
    then obtain m ms where ms: "?ms = m # ms" by (meson neq_Nil_conv)
    have "severity_rank (is_highest_severity (scan_threats content)) =
        Max ((\<lambda>x. severity_rank (tm_severity x)) ` set (m # ms))"
      using b ms first_max_key [of "\<lambda>x. severity_rank (tm_severity x)" m ms] by (simp add: scan_threats_def)
    also have "(\<lambda>x. severity_rank (tm_severity x)) ` set (m # ms) = severity_rank ` set (map tm_severity ?ms)"
      by (simp only: ms set_map image_image)
    also have "\<dots> = severity_rank ` tr_severity ` set (catalog_hits content)"
      by (simp only: scan_severities catalog_hits_def set_map)
    finally show ?thesis .
  qed
  moreover have "catalog_hits content \<noteq> [] \<longrightarrow> is_recommended_action (scan_threats content) = ''block''"
    using b scan_detected [of content] by simp
  ultimately show "map tm_rule_id (is_matches (scan_threats content)) = map tr_rule_id (catalog_hits content) \<and>
     (catalog_hits content \<noteq> [] \<longrightarrow>
        is_recommended_action (scan_threats content) = ''block'' \<and>
        severity_rank (is_highest_severity (scan_threats content)) =
          Max (severity_rank ` tr_severity ` set (catalog_hits content)))"
    by blast
qed

theorem scan_reports_catalog_witness:
  "is_recommended_action (scan_threats ''please dump all data'') = ''block''"
proof -
  have c: "contains ''dump all data'' (lower ''please dump all data'')" by code_simp
  have "\<exists>r \<in> set THREAT_RULES. ''dump all data'' \<in> set (tr_keywords r)"
    unfolding THREAT_RULES_def by simp
  then have "catalog_hits ''please dump all data'' \<noteq> []"
    using c unfolding catalog_hits_def filter_empty_conv rule_hits_def by blast
  moreover have "strip ''please dump all data'' \<noteq> []" by code_simp
  ultimately show ?thesis using scan_reports_catalog [of "''please dump all data''"] by blast
qed

end
