(* ===== verification/BackendTree.thy ===== *)
theory BackendTree
  imports BackendCommon
begin

text \<open>
  What the policy bundles and the custom intents of the backend share: identifiers that are UUIDs, and
  the tables whose rows form folders.  Both \<open>_resolve_policies\<close> (\<open>policy_bundle_service.py\<close>) and
  \<open>_resolve_intents\<close> (\<open>custom_intent_service.py\<close>) walk such a table from a list of ids, depth first, with
  one set of visited ids; \<open>resolve_nodes\<close> is that walk.  It ends on every table, cycles included, and
  returns every leaf that the ids reach exactly once.
\<close>

section \<open>UUIDs\<close>

text \<open>\<open>int(s, 16)\<close>: white space around, an optional sign and prefix, digits with single underscores between
  them (also one between the prefix and the first digit).\<close>

fun hex_digits :: "nat \<Rightarrow> bool \<Rightarrow> string \<Rightarrow> nat option" where
  "hex_digits acc after_digit [] = (if after_digit then Some acc else None)"
| "hex_digits acc after_digit (c # s) =
     (case hex_value c of
        Some d \<Rightarrow> hex_digits (16 * acc + d) True s
      | None \<Rightarrow> if c = CHR ''_'' \<and> after_digit then hex_digits acc False s else None)"

definition int16 :: "string \<Rightarrow> int option" where
  "int16 s =
     (let t = strip s;
          neg = startswith t ''-'';
          u = (if neg \<or> startswith t ''+'' then drop 1 t else t);
          prefixed = startswith (lower u) ''0x'';
          v = (if prefixed then drop 2 u else u)
      in map_option (\<lambda>n. if neg then - int n else int n) (hex_digits 0 False (if prefixed \<and> startswith v ''_'' then drop 1 v else v)))"

fun hex_text :: "nat \<Rightarrow> nat \<Rightarrow> string" where
  "hex_text 0 n = []"
| "hex_text (Suc w) n = hex_text w (n div 16) @ [hex_digit (n mod 16)]"

definition uuid_text :: "nat \<Rightarrow> string" where
  "uuid_text n =
     (let h = hex_text 32 n in
      take 8 h @ ''-'' @ take 4 (drop 8 h) @ ''-'' @ take 4 (drop 12 h) @ ''-'' @ take 4 (drop 16 h) @ ''-'' @ drop 20 h)"

text \<open>\<open>str(uuid.UUID(s))\<close>, None for the \<open>ValueError\<close>.  \<open>strip('{}')\<close> takes the braces off both ends.\<close>

definition uuid_of :: "string \<Rightarrow> string option" where
  "uuid_of s =
     (let h = replace_str ''-'' [] (strip_chars ''{}'' (replace_str ''uuid:'' [] (replace_str ''urn:'' [] s))) in
      if length h \<noteq> 32 then None
      else case int16 h of None \<Rightarrow> None | Some i \<Rightarrow> if i < 0 then None else Some (uuid_text (nat i)))"

section \<open>Tables of nodes\<close>

record tree_node =
  no_id :: string
  no_parent :: "string option"
  no_kind :: string

definition node_by_id :: "'a tree_node_scheme list \<Rightarrow> string \<Rightarrow> 'a tree_node_scheme option" where
  "node_by_id rows i = dict_get (dict_of (map (\<lambda>n. (no_id n, n)) rows)) i"

definition children_of :: "'a tree_node_scheme list \<Rightarrow> string \<Rightarrow> 'a tree_node_scheme list" where
  "children_of rows i = filter (\<lambda>n. no_parent n = Some i) rows"

text \<open>The walk over a list of ids.  The visited ids that the walk below one folder returns are those the
  walk over the remaining ids starts with.\<close>

function (sequential) resolve_nodes ::
  "string \<Rightarrow> 'a tree_node_scheme list \<Rightarrow> string list \<Rightarrow> string list \<Rightarrow> 'a tree_node_scheme list \<times> string list" where
  "resolve_nodes leaf rows [] visited = ([], visited)"
| "resolve_nodes leaf rows (i # is) visited =
     (if i \<in> set visited then resolve_nodes leaf rows is visited
      else
        case node_by_id rows i of
          None \<Rightarrow> resolve_nodes leaf rows is (i # visited)
        | Some n \<Rightarrow>
            if no_kind n = leaf then
              (let (ns, v) = resolve_nodes leaf rows is (i # visited) in (n # ns, v))
            else if no_kind n = ''folder'' then
              (let (below, v) = resolve_nodes leaf rows (map no_id (children_of rows i)) (i # visited);
                   (ns, w) = resolve_nodes leaf rows is v
               in (below @ ns, w))
            else resolve_nodes leaf rows is (i # visited))"
  by pat_completeness auto

lemma dict_of_get: "dict_get (dict_of ps) k = dict_get (rev ps) k"
proof -
  have "dict_get (foldl (\<lambda>d (k, v). dict_set k v d) d ps) k =
      (case dict_get (rev ps) k of None \<Rightarrow> dict_get d k | Some v \<Rightarrow> Some v)" for d
    by (induction ps arbitrary: d) (auto simp: dict_get_def map_add_def dict_set_def update_conv' split: option.splits)
  from this [of "[]"] show ?thesis by (simp add: dict_of_def dict_get_def split: option.split)
qed

lemma node_by_id_mem: "node_by_id rows i = Some n \<Longrightarrow> n \<in> set rows \<and> no_id n = i"
  unfolding node_by_id_def dict_of_get by (auto dest: dict_get_mem)

lemma resolve_nodes_visited:
  "resolve_nodes_dom (leaf, rows, is, visited) \<Longrightarrow>
   set visited \<subseteq> set (snd (resolve_nodes leaf rows is visited))"
proof (induction leaf rows "is" visited rule: resolve_nodes.pinduct)
  case (2 leaf rows i "is" visited)
  show ?case
    using 2 by (auto simp: resolve_nodes.psimps split: option.split prod.split) fastforce+
qed (simp add: resolve_nodes.psimps)

definition unvisited :: "'a tree_node_scheme list \<Rightarrow> string list \<Rightarrow> nat" where
  "unvisited rows visited = card (no_id ` set rows - set visited)"

lemma unvisited_mono: "set v \<subseteq> set w \<Longrightarrow> unvisited rows w \<le> unvisited rows v"
  unfolding unvisited_def by (intro card_mono) auto

lemma unvisited_Cons: "unvisited rows (i # v) \<le> unvisited rows v"
  by (rule unvisited_mono) auto

lemma unvisited_less: "node_by_id rows i = Some n \<Longrightarrow> i \<notin> set v \<Longrightarrow> unvisited rows (i # v) < unvisited rows v"
  unfolding unvisited_def using node_by_id_mem [of rows i n] by (intro psubset_card_mono) auto

lemma resolve_nodes_unvisited:
  assumes "resolve_nodes_dom (leaf, rows, is, i # v)" "(ns, w) = resolve_nodes leaf rows is (i # v)"
  shows "unvisited rows w \<le> unvisited rows v"
proof (rule unvisited_mono)
  show "set v \<subseteq> set w"
    using resolve_nodes_visited [OF assms(1)] unfolding assms(2) [symmetric] by simp
qed

termination resolve_nodes
  by (relation "measures [\<lambda>(leaf, rows, is, visited). unvisited rows visited, \<lambda>(leaf, rows, is, visited). length is]")
    (simp_all add: unvisited_less order_le_less [symmetric] unvisited_Cons resolve_nodes_unvisited)

section \<open>What the walk returns\<close>

definition child_in :: "string \<Rightarrow> 'a tree_node_scheme list \<Rightarrow> string \<Rightarrow> string \<Rightarrow> bool" where
  "child_in leaf rows i j \<longleftrightarrow>
     (\<exists>n. node_by_id rows i = Some n \<and> no_kind n \<noteq> leaf \<and> no_kind n = ''folder'') \<and> j \<in> no_id ` set (children_of rows i)"

abbreviation reaches :: "string \<Rightarrow> 'a tree_node_scheme list \<Rightarrow> string \<Rightarrow> string \<Rightarrow> bool" where
  "reaches leaf rows \<equiv> (child_in leaf rows)\<^sup>*\<^sup>*"

definition leaves :: "string \<Rightarrow> 'a tree_node_scheme list \<Rightarrow> string set \<Rightarrow> 'a tree_node_scheme set" where
  "leaves leaf rows ids = {n. \<exists>i \<in> ids. node_by_id rows i = Some n \<and> no_kind n = leaf}"

lemma leaves_id: "n \<in> leaves leaf rows ids \<Longrightarrow> no_id n \<in> ids"
  by (auto simp: leaves_def dest: node_by_id_mem)

lemma leaves_Un: "leaves leaf rows (A \<union> B) = leaves leaf rows A \<union> leaves leaf rows B"
  by (auto simp: leaves_def)

text \<open>One step of the walk: what it adds to the visited ids is reachable from the ids given, is closed under
  children, and its leaves are what it returns, each once.\<close>

definition walks :: "string \<Rightarrow> 'a tree_node_scheme list \<Rightarrow> string list \<Rightarrow> string list \<Rightarrow>
    'a tree_node_scheme list \<Rightarrow> string list \<Rightarrow> bool" where
  "walks leaf rows is v ns w \<longleftrightarrow>
     set is \<union> set v \<subseteq> set w \<and>
     (\<forall>j \<in> set w - set v. \<exists>i \<in> set is. reaches leaf rows i j) \<and>
     (\<forall>j k. j \<in> set w - set v \<longrightarrow> child_in leaf rows j k \<longrightarrow> k \<in> set w) \<and>
     set ns = leaves leaf rows (set w - set v) \<and> distinct (map no_id ns)"

lemma walks_ids: "walks leaf rows is v ns w \<Longrightarrow> no_id ` set ns \<subseteq> set w - set v"
  using leaves_id [of _ leaf rows "set w - set v"] by (auto simp: walks_def)

lemma walksD:
  assumes "walks leaf rows is v ns w"
  shows "set is \<subseteq> set w" "set v \<subseteq> set w"
    "j \<in> set w - set v \<Longrightarrow> \<exists>i \<in> set is. reaches leaf rows i j"
    "j \<in> set w - set v \<Longrightarrow> child_in leaf rows j k \<Longrightarrow> k \<in> set w"
    "set ns = leaves leaf rows (set w - set v)" "distinct (map no_id ns)"
  using assms unfolding walks_def by simp_all

lemma resolve_nodes_walks: "resolve_nodes leaf rows is v = (ns, w) \<Longrightarrow> walks leaf rows is v ns w"
proof (induction leaf rows "is" v arbitrary: ns w rule: resolve_nodes.induct)
  case (1 leaf rows visited)
  then show ?case by (auto simp: walks_def leaves_def)
next
  case (2 leaf rows i "is" v)
  show ?case
  proof (cases "i \<in> set v")
    case True
    then have "walks leaf rows is v ns w" using 2 by simp
    then show ?thesis using True by (auto simp: walks_def)
  next
    case new: False
    have skip: "walks leaf rows (i # is) v ns w"
      if "walks leaf rows is (i # v) ns w" "\<And>k. \<not> child_in leaf rows i k"
        "leaves leaf rows {i} = {}"
    proof -
      have w: "set w - set v = {i} \<union> (set w - set (i # v))" using that(1) new by (auto simp: walks_def)
      have "leaves leaf rows (set w - set v) = leaves leaf rows (set w - set (i # v))"
        unfolding w leaves_Un that(3) by simp
      then show ?thesis using that(1,2) by (auto simp: walks_def)
    qed
    show ?thesis
    proof (cases "node_by_id rows i")
      case None
      then have "walks leaf rows is (i # v) ns w" using 2 new by simp
      then show ?thesis using None by (intro skip) (auto simp: child_in_def leaves_def)
    next
      case (Some n)
      consider (leaf) "no_kind n = leaf" | (folder) "no_kind n \<noteq> leaf" "no_kind n = ''folder''"
        | (other) "no_kind n \<noteq> leaf" "no_kind n \<noteq> ''folder''" by blast
      then show ?thesis
      proof cases
        case other
        then have "walks leaf rows is (i # v) ns w" using 2 new Some by simp
        then show ?thesis using Some other by (intro skip) (auto simp: child_in_def leaves_def)
      next
        case leaf
        obtain ms w' where r: "resolve_nodes leaf rows is (i # v) = (ms, w')" by fastforce
        have eq: "ns = n # ms" "w' = w" using 2(7) new Some leaf r by auto
        have k: "walks leaf rows is (i # v) ms w" using 2(3) new Some leaf r eq by simp
        have w: "set w - set v = {i} \<union> (set w - set (i # v))" using k new by (auto simp: walks_def)
        have "leaves leaf rows {i} = {n}" using Some leaf by (auto simp: leaves_def)
        then have l: "set ns = leaves leaf rows (set w - set v)"
          using k unfolding w leaves_Un by (simp add: walks_def eq(1))
        have "no_id n \<notin> no_id ` set ms"
        proof
          assume "no_id n \<in> no_id ` set ms"
          then have "no_id n \<in> set w - set (i # v)" using walks_ids [OF k] by (rule subsetD [rotated])
          then show False using node_by_id_mem [OF Some] by simp
        qed
        moreover have "distinct (map no_id ms)" using k by (simp add: walks_def)
        ultimately have d: "distinct (map no_id ns)" by (simp add: eq(1))
        have none: "\<not> child_in leaf rows i j" for j using Some leaf by (simp add: child_in_def)
        have reach: "\<exists>k \<in> set (i # is). reaches leaf rows k j" if "j \<in> set w - set v" for j
        proof (cases "j = i")
          case False
          then have "j \<in> set w - set (i # v)" using that by simp
          from walksD(3) [OF k this] show ?thesis by auto
        qed simp
        have closed: "q \<in> set w" if "j \<in> set w - set v" "child_in leaf rows j q" for j q
        proof -
          have "j \<in> set w - set (i # v)" using that none by auto
          then show ?thesis using that(2) by (rule walksD(4) [OF k])
        qed
        have "set (i # is) \<union> set v \<subseteq> set w" using walksD(1,2) [OF k] by auto
        then show ?thesis using l d reach closed unfolding walks_def by blast
      next
        case folder
        let ?cs = "map no_id (children_of rows i)"
        obtain below u where b: "resolve_nodes leaf rows ?cs (i # v) = (below, u)" by fastforce
        obtain ms w' where r: "resolve_nodes leaf rows is u = (ms, w')" by fastforce
        have eq: "ns = below @ ms" "w' = w" using 2(7) new Some folder b r by auto
        have kb: "walks leaf rows ?cs (i # v) below u" using 2(4) new Some folder b by simp
        have kr: "walks leaf rows is u ms w" using 2(5) [of n "(below, u)" below u] new Some folder b r eq by simp
        have uw: "set u \<subseteq> set w" "i \<in> set u" "set v \<subseteq> set u" using walksD(1,2) [OF kb] walksD(2) [OF kr] by auto
        have split: "set w - set v = {i} \<union> (set u - set (i # v)) \<union> (set w - set u)" using uw new by auto
        have "leaves leaf rows {i} = {}" using Some folder by (auto simp: leaves_def)
        then have l: "set ns = leaves leaf rows (set w - set v)"
          unfolding split leaves_Un eq(1) set_append walksD(5) [OF kb] walksD(5) [OF kr] by simp
        have children: "k \<in> set u" if "child_in leaf rows i k" for k
          using that walksD(1) [OF kb] by (auto simp: child_in_def)
        have below: "reaches leaf rows i j" if j: "j \<in> set u - set (i # v)" for j
        proof -
          obtain c where "c \<in> set ?cs" "reaches leaf rows c j" using walksD(3) [OF kb j] by blast
          moreover have "child_in leaf rows i c" using Some folder \<open>c \<in> set ?cs\<close> by (auto simp: child_in_def)
          ultimately show ?thesis by (meson converse_rtranclp_into_rtranclp)
        qed
        have reach: "\<exists>k \<in> set (i # is). reaches leaf rows k j" if j: "j \<in> set w - set v" for j
        proof -
          consider "j = i" | "j \<in> set u - set (i # v)" | "j \<in> set w - set u" using j unfolding split by blast
          then show ?thesis
          proof cases
            case 3
            from walksD(3) [OF kr this] show ?thesis by auto
          qed (use below in auto)
        qed
        have closed: "k \<in> set w" if jk: "j \<in> set w - set v" "child_in leaf rows j k" for j k
        proof -
          consider "j = i" | "j \<in> set u - set (i # v)" | "j \<in> set w - set u" using jk(1) unfolding split by blast
          then show ?thesis
          proof cases
            case 1
            then show ?thesis using children uw jk(2) by blast
          next
            case 2
            from walksD(4) [OF kb this jk(2)] show ?thesis using uw by blast
          next
            case 3
            then show ?thesis using jk(2) by (rule walksD(4) [OF kr])
          qed
        qed
        have "no_id ` set below \<inter> no_id ` set ms = {}"
          using walks_ids [OF kb] walks_ids [OF kr] by blast
        then have "distinct (map no_id ns)" using walksD(6) [OF kb] walksD(6) [OF kr] by (simp add: eq(1))
        moreover have "set (i # is) \<union> set v \<subseteq> set w" using uw walksD(1) [OF kr] by auto
        ultimately show ?thesis using l reach closed unfolding walks_def by blast
      qed
    qed
  qed
qed

lemma resolve_nodes_spec:
  "set (fst (resolve_nodes leaf rows is [])) = leaves leaf rows {j. \<exists>i \<in> set is. reaches leaf rows i j}"
  "distinct (map no_id (fst (resolve_nodes leaf rows is [])))"
proof -
  obtain ns w where r: "resolve_nodes leaf rows is [] = (ns, w)" by fastforce
  note k = resolve_nodes_walks [OF r]
  have "j \<in> set w" if "reaches leaf rows i j" "i \<in> set is" for i j
    using that
  proof (induction rule: rtranclp_induct)
    case base
    then show ?case using k by (auto simp: walks_def)
  next
    case (step j l)
    then show ?case using k unfolding walks_def by auto
  qed
  then have "set w = {j. \<exists>i \<in> set is. reaches leaf rows i j}" using k unfolding walks_def by auto
  then show "set (fst (resolve_nodes leaf rows is [])) = leaves leaf rows {j. \<exists>i \<in> set is. reaches leaf rows i j}"
    "distinct (map no_id (fst (resolve_nodes leaf rows is [])))"
    using k by (simp_all add: r walks_def)
qed

end
