(* ===== verification/BackendIntents.thy ===== *)
theory BackendIntents
  imports Complex_Main PyRegexLiteral BackendTree
begin

text \<open>
  \<open>backend/app/services/custom_intent_service.py\<close>: the tenant's own intent classifiers, the operations on
  their table, and the scan of a prompt.  The table is the list of its rows.  Scores and thresholds are
  rational numbers, which the floats of the program represent up to rounding.
\<close>

section \<open>Rows\<close>

record custom_intent = tree_node +
  ci_tenant :: "uuid option"
  ci_name :: string
  ci_description :: "string option"
  ci_action :: string
  ci_keywords :: "string list"
  ci_threshold :: rat
  ci_active :: bool
  ci_created :: nat

record intent_create =
  cc_name :: string
  cc_description :: "string option"
  cc_action :: string
  cc_keywords :: "string list"
  cc_threshold :: rat
  cc_active :: bool
  cc_parent :: "uuid option"
  cc_type :: string

record intent_update =
  cu_name :: "string option"
  cu_description :: "string option"
  cu_action :: "string option"
  cu_keywords :: "string list option"
  cu_threshold :: "rat option"
  cu_active :: "bool option"
  cu_parent :: "uuid option"
  cu_type :: "string option"

section \<open>Operations on the table\<close>

definition list_custom_intents :: "custom_intent list \<Rightarrow> uuid \<Rightarrow> custom_intent list" where
  "list_custom_intents rows tenant =
     sort_key (\<lambda>i. - int (ci_created i)) (filter (\<lambda>i. ci_tenant i = Some tenant) rows)"

definition get_custom_intent :: "custom_intent list \<Rightarrow> uuid \<Rightarrow> uuid \<Rightarrow> custom_intent option result" where
  "get_custom_intent rows tenant intent_id =
     scalar_one_or_none (filter (\<lambda>i. no_id i = intent_id \<and> ci_tenant i = Some tenant) rows)"

definition clean_keywords :: "string list \<Rightarrow> string list" where
  "clean_keywords ks = filter (\<lambda>k. k \<noteq> []) (map strip ks)"

text \<open>The database gives a new row its id and its time.\<close>

definition create_custom_intent ::
  "custom_intent list \<Rightarrow> uuid \<Rightarrow> intent_create \<Rightarrow> uuid \<Rightarrow> nat \<Rightarrow> custom_intent \<times> custom_intent list" where
  "create_custom_intent rows tenant data new_id now =
     (let i = \<lparr>no_id = new_id, no_parent = cc_parent data,
               no_kind = (if cc_type data \<noteq> [] then lower (cc_type data) else ''intent''),
               ci_tenant = Some tenant, ci_name = cc_name data, ci_description = cc_description data,
               ci_action = lower (cc_action data), ci_keywords = clean_keywords (cc_keywords data),
               ci_threshold = cc_threshold data, ci_active = cc_active data, ci_created = now\<rparr>
      in (i, rows @ [i]))"

definition set_if :: "'v option \<Rightarrow> ('v \<Rightarrow> 'r \<Rightarrow> 'r) \<Rightarrow> 'r \<Rightarrow> 'r" where
  "set_if new upd r = (case new of None \<Rightarrow> r | Some v \<Rightarrow> upd v r)"

definition updated_intent :: "intent_update \<Rightarrow> custom_intent \<Rightarrow> custom_intent" where
  "updated_intent data i =
     set_if (cu_type data) (\<lambda>v r. r\<lparr>no_kind := lower v\<rparr>)
     (set_if (cu_parent data) (\<lambda>v r. r\<lparr>no_parent := Some v\<rparr>)
     (set_if (cu_active data) (\<lambda>v r. r\<lparr>ci_active := v\<rparr>)
     (set_if (cu_threshold data) (\<lambda>v r. r\<lparr>ci_threshold := v\<rparr>)
     (set_if (cu_keywords data) (\<lambda>v r. r\<lparr>ci_keywords := clean_keywords v\<rparr>)
     (set_if (cu_action data) (\<lambda>v r. r\<lparr>ci_action := lower v\<rparr>)
     (set_if (cu_description data) (\<lambda>v r. r\<lparr>ci_description := Some v\<rparr>)
     (set_if (cu_name data) (\<lambda>v r. r\<lparr>ci_name := v\<rparr>) i)))))))"

definition same_row :: "custom_intent \<Rightarrow> custom_intent \<Rightarrow> bool" where
  "same_row i j \<longleftrightarrow> no_id i = no_id j"

definition update_custom_intent ::
  "custom_intent list \<Rightarrow> uuid \<Rightarrow> uuid \<Rightarrow> intent_update \<Rightarrow> (custom_intent option \<times> custom_intent list) result" where
  "update_custom_intent rows tenant intent_id data =
     bindE (get_custom_intent rows tenant intent_id)
       (\<lambda>found. case found of
          None \<Rightarrow> Inr (None, rows)
        | Some i \<Rightarrow>
            Inr (Some (updated_intent data i), map (\<lambda>j. if same_row i j then updated_intent data j else j) rows))"

definition delete_custom_intent ::
  "custom_intent list \<Rightarrow> uuid \<Rightarrow> uuid \<Rightarrow> (bool \<times> custom_intent list) result" where
  "delete_custom_intent rows tenant intent_id =
     bindE (get_custom_intent rows tenant intent_id)
       (\<lambda>found. case found of
          None \<Rightarrow> Inr (False, rows)
        | Some i \<Rightarrow> Inr (True, filter (\<lambda>j. \<not> same_row i j) rows))"

section \<open>Literal patterns and replacement templates\<close>

text \<open>\<open>re.compile(re.escape(s), flags)\<close> is the pattern of the characters of \<open>s\<close> in a row.\<close>

definition literal_pattern :: "rflags \<Rightarrow> string \<Rightarrow> pattern" where
  "literal_pattern fl s = \<lparr>p_regex = foldr (\<lambda>c r. RSeq (RLit c) r) s REmpty, p_flags = fl\<rparr>"

text \<open>The replacement of \<open>pattern.sub\<close> is a template.  For a pattern without groups an item of it is a
  character or the whole match; a reference to any group is an error.\<close>

datatype template_item = TChar char | TWhole

definition re_error :: py_error where
  "re_error = RuntimeError ''re.error''"

definition is_octal :: "char \<Rightarrow> bool" where
  "is_octal c \<longleftrightarrow> is_digit c \<and> ordc c \<le> 55"

definition octal_value :: "string \<Rightarrow> nat" where
  "octal_value s = foldl (\<lambda>n c. 8 * n + (ordc c - 48)) 0 s"

definition template_escapes :: "(char \<times> char) list" where
  "template_escapes = [(CHR ''a'', CHR 0x07), (CHR ''b'', CHR 0x08), (CHR ''f'', CHR 0x0C), (CHR ''n'', newline),
     (CHR ''r'', CHR 0x0D), (CHR ''t'', CHR 0x09), (CHR ''v'', CHR 0x0B), (backslash, backslash)]"

definition group_reference :: "string \<Rightarrow> (template_item \<times> string) result" where
  "group_reference s =
     (case s of
        [] \<Rightarrow> Inl re_error
      | c # t \<Rightarrow>
          (let name = takeWhile (\<lambda>d. d \<noteq> CHR ''>'') t; after = dropWhile (\<lambda>d. d \<noteq> CHR ''>'') t in
           if c \<noteq> CHR ''<'' \<or> after = [] \<or> name = [] then Inl re_error
           else if list_all is_digit name
           then (if list_all (\<lambda>d. d = CHR ''0'') name then Inr (TWhole, tl after) else Inl re_error)
           else if list_all is_word name \<and> \<not> is_digit (hd name) then Inl (IndexError ''unknown group name'')
           else Inl re_error))"

definition numeric_escape :: "char \<Rightarrow> string \<Rightarrow> (template_item \<times> string) result" where
  "numeric_escape c s =
     (if c = CHR ''0''
      then (let ds = takeWhile is_octal (take 2 s) in
            Inr (TChar (char_of (octal_value ds mod 256)), drop (length ds) s))
      else
        case s of
          d # e # t \<Rightarrow>
            if is_octal c \<and> is_octal d \<and> is_octal e \<and> octal_value [c, d, e] \<le> 255
            then Inr (TChar (char_of (octal_value [c, d, e])), t) else Inl re_error
        | _ \<Rightarrow> Inl re_error)"

fun parse_template :: "nat \<Rightarrow> string \<Rightarrow> template_item list result" where
  "parse_template n [] = Inr []"
| "parse_template 0 s = Inr []"
| "parse_template (Suc n) (c # s) =
     (if c \<noteq> backslash then bindE (parse_template n s) (\<lambda>ts. Inr (TChar c # ts))
      else
        case s of
          [] \<Rightarrow> Inl re_error
        | d # t \<Rightarrow>
            if d = CHR ''g'' then bindE (group_reference t) (\<lambda>(i, u). bindE (parse_template n u) (\<lambda>ts. Inr (i # ts)))
            else if is_digit d then bindE (numeric_escape d t) (\<lambda>(i, u). bindE (parse_template n u) (\<lambda>ts. Inr (i # ts)))
            else
              case map_of template_escapes d of
                Some e \<Rightarrow> bindE (parse_template n t) (\<lambda>ts. Inr (TChar e # ts))
              | None \<Rightarrow>
                  if is_alpha d then Inl re_error
                  else bindE (parse_template n t) (\<lambda>ts. Inr (TChar backslash # TChar d # ts)))"

definition fill_template :: "template_item list \<Rightarrow> string \<Rightarrow> string" where
  "fill_template ts m = concat (map (\<lambda>t. case t of TChar c \<Rightarrow> [c] | TWhole \<Rightarrow> m) ts)"

fun sub_template_from :: "nat \<Rightarrow> pattern \<Rightarrow> template_item list \<Rightarrow> string \<Rightarrow> string \<Rightarrow> string" where
  "sub_template_from (Suc k) p ts l (c # s) = sub_template_from k p ts (c # l) s"
| "sub_template_from (Suc k) p ts l [] = []"
| "sub_template_from 0 p ts l [] =
     (case re_match_at (p_regex p) (p_flags p) l [] of None \<Rightarrow> [] | Some m \<Rightarrow> fill_template ts [])"
| "sub_template_from 0 p ts l (c # s) =
     (case re_match_at (p_regex p) (p_flags p) l (c # s) of
        None \<Rightarrow> c # sub_template_from 0 p ts (c # l) s
      | Some m \<Rightarrow>
          if m_text m = [] then fill_template ts [] @ c # sub_template_from 0 p ts (c # l) s
          else fill_template ts (m_text m) @ sub_template_from (length (m_text m) - 1) p ts (c # l) s)"

definition sub_template :: "pattern \<Rightarrow> string \<Rightarrow> string \<Rightarrow> string result" where
  "sub_template p repl s =
     bindE (parse_template (length repl) repl) (\<lambda>ts. Inr (sub_template_from 0 p ts [] s))"

section \<open>The scan of a prompt\<close>

record intent_match =
  im_intent_id :: uuid
  im_intent_name :: string
  im_action :: string
  im_matched_keywords :: "string list"
  im_score :: rat

record intent_scan =
  ir_matched :: bool
  ir_matches :: "intent_match list"
  ir_action :: string
  ir_modified_prompt :: "string option"

definition select_intents :: "custom_intent list \<Rightarrow> uuid \<Rightarrow> uuid list option \<Rightarrow> custom_intent list" where
  "select_intents rows tenant intent_ids =
     (let all_intents = filter (\<lambda>i. ci_tenant i = Some tenant \<and> ci_active i) rows in
      case intent_ids of
        Some (i # is) \<Rightarrow> fst (resolve_nodes ''intent'' all_intents (i # is) [])
      | _ \<Rightarrow> filter (\<lambda>i. no_kind i = ''intent'' \<or> no_kind i = []) all_intents)"

definition keyword_hit :: "string \<Rightarrow> string \<Rightarrow> bool" where
  "keyword_hit prompt kw =
     (let k = lower (strip kw) in k \<noteq> [] \<and> p_found (literal_pattern ignorecase k) (lower prompt))"

definition intent_score :: "nat \<Rightarrow> nat \<Rightarrow> rat" where
  "intent_score matched n =
     (let score = of_nat matched / of_nat n in
      if matched \<noteq> 0 then max score (min 1 (1 / 2 + of_nat matched * (1 / 4))) else score)"

text \<open>\<open>round(x, 2)\<close>, to the even neighbour when half way.\<close>

definition round2 :: "rat \<Rightarrow> rat" where
  "round2 x =
     (let f = \<lfloor>x * 100\<rfloor>; d = x * 100 - of_int f in
      of_int (if d < 1 / 2 then f else if 1 / 2 < d then f + 1 else if even f then f else f + 1) / 100)"

definition intent_applies :: "string \<Rightarrow> custom_intent \<Rightarrow> bool" where
  "intent_applies prompt i =
     (let hits = filter (keyword_hit prompt) (ci_keywords i) in
      ci_keywords i \<noteq> [] \<and>
      (ci_threshold i \<le> intent_score (length hits) (length (ci_keywords i)) \<or> hits \<noteq> [] \<and> ci_threshold i \<le> 8 / 10))"

definition match_of_intent :: "string \<Rightarrow> custom_intent \<Rightarrow> intent_match" where
  "match_of_intent prompt i =
     (let hits = filter (keyword_hit prompt) (ci_keywords i) in
      \<lparr>im_intent_id = no_id i, im_intent_name = ci_name i, im_action = ci_action i, im_matched_keywords = hits,
       im_score = round2 (intent_score (length hits) (length (ci_keywords i)))\<rparr>)"

fun redact_keywords :: "string \<Rightarrow> string list \<Rightarrow> string \<Rightarrow> string result" where
  "redact_keywords name [] prompt = Inr prompt"
| "redact_keywords name (kw # ks) prompt =
     bindE (sub_template (literal_pattern ignorecase kw) (''[REDACTED:'' @ name @ '']'') prompt)
       (redact_keywords name ks)"

fun scan_intents :: "string \<Rightarrow> custom_intent list \<Rightarrow> string \<Rightarrow> (intent_match list \<times> string) result" where
  "scan_intents prompt [] modified = Inr ([], modified)"
| "scan_intents prompt (i # is) modified =
     (if intent_applies prompt i then
        bindE (if ci_action i = ''redact''
               then redact_keywords (ci_name i) (filter (keyword_hit prompt) (ci_keywords i)) modified else Inr modified)
          (\<lambda>modified'. bindE (scan_intents prompt is modified')
             (\<lambda>(ms, final). Inr (match_of_intent prompt i # ms, final)))
      else scan_intents prompt is modified)"

definition overall_action :: "string list \<Rightarrow> string" where
  "overall_action actions =
     (if ''block'' \<in> set actions then ''block''
      else if ''redact'' \<in> set actions then ''redact''
      else if ''monitor'' \<in> set actions then ''monitor''
      else ''allow'')"

definition scan_prompt_intents ::
  "custom_intent list \<Rightarrow> uuid \<Rightarrow> string \<Rightarrow> uuid list option \<Rightarrow> intent_scan result" where
  "scan_prompt_intents rows tenant prompt intent_ids =
     bindE (scan_intents prompt (select_intents rows tenant intent_ids) prompt)
       (\<lambda>(ms, modified).
          let action = overall_action (map im_action ms) in
          Inr \<lparr>ir_matched = ms \<noteq> [], ir_matches = ms, ir_action = action,
               ir_modified_prompt = (if action = ''redact'' then Some modified else None)\<rparr>)"

section \<open>Keywords\<close>

lemma literal_found:
  "p_found (literal_pattern ignorecase k) s \<longleftrightarrow> contains (lower k) (lower s)"
proof -
  have "p_found (literal_pattern ignorecase k) s \<longleftrightarrow> (\<exists>a u v. s = a @ u @ v \<and> lower u = lower k)"
    by (auto simp: p_found_iff literal_pattern_def rmatch_literal ignorecase_def)
  also have "\<dots> \<longleftrightarrow> contains (lower k) (lower s)"
    unfolding contains_iff
  proof
    assume "\<exists>a b. lower s = a @ lower k @ b"
    then obtain a b where "lower s = a @ lower k @ b" by blast
    then obtain a' w where "s = a' @ w" "lower w = lower k @ b" by (metis lower_eq_append)
    moreover obtain u v where "w = u @ v" "lower u = lower k" using calculation(2) by (metis lower_eq_append)
    ultimately show "\<exists>a u v. s = a @ u @ v \<and> lower u = lower k" by blast
  next
    assume "\<exists>a u v. s = a @ u @ v \<and> lower u = lower k"
    then show "\<exists>a b. lower s = a @ lower k @ b" by (metis lower_append)
  qed
  finally show ?thesis .
qed

lemma keyword_hit_iff: "keyword_hit prompt kw \<longleftrightarrow> strip kw \<noteq> [] \<and> contains (lower (strip kw)) (lower prompt)"
  by (simp add: keyword_hit_def literal_found Let_def)

section \<open>Scores\<close>

lemma intent_score_values:
  assumes "m \<le> n" "n \<noteq> 0"
  shows "intent_score m n = (if m = 0 then 0 else if m = 1 \<and> n \<noteq> 1 then 3 / 4 else 1)"
proof -
  have le: "of_nat m / of_nat n \<le> (1 :: rat)" using assms by (simp add: divide_le_eq_1)
  consider "m = 0" | "m = 1" "n = 1" | "m = 1" "2 \<le> n" | "2 \<le> m" using assms by linarith
  then show ?thesis
  proof cases
    case 3
    then have "1 / of_nat n \<le> (1 / 2 :: rat)" by (simp add: field_simps)
    then have "1 / of_nat n \<le> (3 / 4 :: rat)" by linarith
    then show ?thesis using 3 by (simp add: intent_score_def Let_def)
  next
    case 4
    then have "(2 :: rat) \<le> of_nat m" by simp
    then have "1 \<le> 1 / 2 + of_nat m * (1 / 4 :: rat)" by simp
    then have "min 1 (1 / 2 + of_nat m * (1 / 4 :: rat)) = 1" by (simp add: min_def)
    then show ?thesis using 4 le by (simp add: intent_score_def Let_def max_def)
  qed (auto simp: intent_score_def Let_def)
qed

lemma round2_score:
  assumes "m \<le> n" "n \<noteq> 0"
  shows "round2 (intent_score m n) = intent_score m n"
  unfolding intent_score_values [OF assms] by (simp add: round2_def Let_def)

text \<open>When an intent matches: any of its keywords under a threshold of at most 0.8, two of them or its only one
  above that, and under the threshold zero without any.\<close>

definition matches_prompt :: "string \<Rightarrow> custom_intent \<Rightarrow> bool" where
  "matches_prompt prompt i \<longleftrightarrow>
     (let found = length (filter (\<lambda>kw. strip kw \<noteq> [] \<and> contains (lower (strip kw)) (lower prompt)) (ci_keywords i)) in
      ci_keywords i \<noteq> [] \<and>
      (ci_threshold i = 0 \<or> found \<ge> 1 \<and> (ci_threshold i \<le> 8 / 10 \<or> found \<ge> 2 \<or> length (ci_keywords i) = 1)))"

lemma intent_applies_iff:
  assumes "0 \<le> ci_threshold i" "ci_threshold i \<le> 1"
  shows "intent_applies prompt i \<longleftrightarrow> matches_prompt prompt i"
proof (cases "ci_keywords i = []")
  case False
  let ?hits = "filter (keyword_hit prompt) (ci_keywords i)"
  have hits: "?hits = filter (\<lambda>kw. strip kw \<noteq> [] \<and> contains (lower (strip kw)) (lower prompt)) (ci_keywords i)"
    by (rule filter_cong [OF refl keyword_hit_iff])
  have n: "length ?hits \<le> length (ci_keywords i)" "length (ci_keywords i) \<noteq> 0" using False by simp_all
  have "ci_threshold i \<le> intent_score (length ?hits) (length (ci_keywords i)) \<or> ?hits \<noteq> [] \<and> ci_threshold i \<le> 8 / 10 \<longleftrightarrow>
      ci_threshold i = 0 \<or> length ?hits \<ge> 1 \<and> (ci_threshold i \<le> 8 / 10 \<or> length ?hits \<ge> 2 \<or> length (ci_keywords i) = 1)"
  proof (cases "length ?hits = 0")
    case True
    then show ?thesis unfolding intent_score_values [OF n] using assms(1) by auto
  next
    case False
    then have ne: "?hits \<noteq> []" "length ?hits \<ge> 1" by (simp_all add: Suc_leI)
    have one: "length ?hits = 1 \<or> length ?hits \<ge> 2" using ne by linarith
    show ?thesis
      unfolding intent_score_values [OF n] using one ne assms n by (auto simp del: length_filter_conv_card)
  qed
  then show ?thesis
    unfolding intent_applies_def matches_prompt_def Let_def hits using False by simp
qed (simp add: intent_applies_def matches_prompt_def)

section \<open>The scan\<close>

lemma parse_template_plain:
  "length s \<le> n \<Longrightarrow> backslash \<notin> set s \<Longrightarrow> parse_template n s = Inr (map TChar s)"
  by (induction n s rule: parse_template.induct) auto

lemma redact_keywords_returns: "backslash \<notin> set name \<Longrightarrow> \<exists>r. redact_keywords name ks prompt = Inr r"
proof (induction ks arbitrary: prompt)
  case (Cons k ks)
  have "parse_template (length (''[REDACTED:'' @ name @ '']'')) (''[REDACTED:'' @ name @ '']'') =
      Inr (map TChar (''[REDACTED:'' @ name @ '']''))"
    using Cons.prems by (intro parse_template_plain) auto
  then show ?case using Cons by (simp add: sub_template_def)
qed simp

lemma scan_intents_returns:
  assumes "list_all (\<lambda>i. backslash \<notin> set (ci_name i)) is"
  shows "\<exists>final. scan_intents prompt is modified =
    Inr (map (match_of_intent prompt) (filter (intent_applies prompt) is), final)"
  using assms
proof (induction prompt "is" modified rule: scan_intents.induct)
  case (2 prompt i "is" modified)
  show ?case
  proof (cases "intent_applies prompt i")
    case True
    obtain m where m: "(if ci_action i = ''redact''
        then redact_keywords (ci_name i) (filter (keyword_hit prompt) (ci_keywords i)) modified else Inr modified) = Inr m"
      using redact_keywords_returns [of "ci_name i" "filter (keyword_hit prompt) (ci_keywords i)" modified] 2(3)
      by (cases "ci_action i = ''redact''") auto
    obtain final where "scan_intents prompt is m =
        Inr (map (match_of_intent prompt) (filter (intent_applies prompt) is), final)"
      using 2(1) [OF True, of m] 2(3) by auto
    then show ?thesis using True m by auto
  next
    case False
    then show ?thesis using 2 by simp
  qed
qed simp

lemma overall_action_strongest:
  "overall_action as = ''block'' \<longleftrightarrow> ''block'' \<in> set as"
  "overall_action as = ''redact'' \<longleftrightarrow> ''redact'' \<in> set as \<and> ''block'' \<notin> set as"
  by (simp_all add: overall_action_def)

lemma select_intents_some:
  "is \<noteq> [] \<Longrightarrow> set (select_intents rows tenant (Some is)) =
     leaves ''intent'' (filter (\<lambda>i. ci_tenant i = Some tenant \<and> ci_active i) rows)
       {j. \<exists>i \<in> set is. reaches ''intent'' (filter (\<lambda>i. ci_tenant i = Some tenant \<and> ci_active i) rows) i j}"
  using resolve_nodes_spec(1) [of "''intent''" "filter (\<lambda>i. ci_tenant i = Some tenant \<and> ci_active i) rows" "is"]
  by (cases "is") (simp_all add: select_intents_def Let_def)

lemma select_intents_own:
  "set (select_intents rows tenant ids) \<subseteq> {i \<in> set rows. ci_tenant i = Some tenant \<and> ci_active i}"
proof (cases "ids = None \<or> ids = Some []")
  case True
  then show ?thesis by (auto simp: select_intents_def Let_def)
next
  case False
  then obtain "is" where i: "ids = Some is" "is \<noteq> []" by auto
  show ?thesis unfolding i(1) select_intents_some [OF i(2)] by (auto simp: leaves_def dest: node_by_id_mem)
qed

lemma scan_intents_result:
  assumes "list_all (\<lambda>i. 0 \<le> ci_threshold i \<and> ci_threshold i \<le> 1 \<and> backslash \<notin> set (ci_name i))
    (select_intents rows tenant ids)"
  shows "\<exists>r. scan_prompt_intents rows tenant prompt ids = Inr r \<and>
    map im_intent_id (ir_matches r) = map no_id (filter (matches_prompt prompt) (select_intents rows tenant ids)) \<and>
    set (select_intents rows tenant ids) \<subseteq> {i \<in> set rows. ci_tenant i = Some tenant \<and> ci_active i} \<and>
    (ir_action r = ''block'' \<longleftrightarrow>
       (\<exists>i \<in> set (select_intents rows tenant ids). matches_prompt prompt i \<and> ci_action i = ''block''))"
proof -
  let ?sel = "select_intents rows tenant ids"
  let ?hits = "filter (matches_prompt prompt) ?sel"
  have "list_all (\<lambda>i. backslash \<notin> set (ci_name i)) ?sel" using assms by (auto simp: list_all_iff)
  then obtain final where f: "scan_intents prompt ?sel prompt =
      Inr (map (match_of_intent prompt) (filter (intent_applies prompt) ?sel), final)"
    using scan_intents_returns by blast
  have hits: "filter (intent_applies prompt) ?sel = ?hits"
    using assms by (intro filter_cong) (auto simp: list_all_iff intent_applies_iff)
  let ?r = "\<lparr>ir_matched = ?hits \<noteq> [], ir_matches = map (match_of_intent prompt) ?hits,
      ir_action = overall_action (map ci_action ?hits),
      ir_modified_prompt = (if overall_action (map ci_action ?hits) = ''redact'' then Some final else None)\<rparr>"
  have "im_action \<circ> match_of_intent prompt = ci_action" by (auto simp: match_of_intent_def Let_def)
  then have "scan_prompt_intents rows tenant prompt ids = Inr ?r"
    unfolding scan_prompt_intents_def f hits by (simp add: Let_def)
  moreover have "map im_intent_id (ir_matches ?r) = map no_id ?hits" by (simp add: match_of_intent_def Let_def)
  moreover have "ir_action ?r = ''block'' \<longleftrightarrow> (\<exists>i \<in> set ?sel. matches_prompt prompt i \<and> ci_action i = ''block'')"
    by (simp add: overall_action_strongest image_iff) metis
  ultimately show ?thesis using select_intents_own by blast
qed

section \<open>Properties\<close>

text \<open>A scan of a prompt returns, unless a name holds a backslash, and its matches are exactly the selected
  intents that match: with a keyword under a threshold of at most 0.8, with two keywords or the only one above it,
  with none under the threshold zero.  It looks at active intents of the tenant only, and blocks iff an
  intent that matches does.\<close>

theorem intent_scan_decides:
  assumes "list_all (\<lambda>i. 0 \<le> ci_threshold i \<and> ci_threshold i \<le> 1 \<and> backslash \<notin> set (ci_name i))
    (select_intents rows tenant ids)"
  shows "\<exists>r. scan_prompt_intents rows tenant prompt ids = Inr r \<and>
    map im_intent_id (ir_matches r) = map no_id (filter (matches_prompt prompt) (select_intents rows tenant ids)) \<and>
    set (select_intents rows tenant ids) \<subseteq> {i \<in> set rows. ci_tenant i = Some tenant \<and> ci_active i} \<and>
    (ir_action r = ''block'' \<longleftrightarrow>
       (\<exists>i \<in> set (select_intents rows tenant ids). matches_prompt prompt i \<and> ci_action i = ''block''))"
  by (rule scan_intents_result [OF assms])

theorem intent_scan_decides_witness:
  "\<exists>r. scan_prompt_intents
      [\<lparr>no_id = ''1'', no_parent = None, no_kind = ''intent'', ci_tenant = Some ''t'', ci_name = ''wire'',
        ci_description = None, ci_action = ''block'', ci_keywords = [''wire transfer'', ''iban''], ci_threshold = 8 / 10,
        ci_active = True, ci_created = 0\<rparr>] ''t'' ''start a Wire Transfer'' None = Inr r \<and> ir_action r = ''block''"
proof -
  let ?i = "\<lparr>no_id = ''1'', no_parent = None, no_kind = ''intent'', ci_tenant = Some ''t'', ci_name = ''wire'',
        ci_description = None, ci_action = ''block'', ci_keywords = [''wire transfer'', ''iban''], ci_threshold = 8 / 10,
        ci_active = True, ci_created = 0\<rparr>"
  have sel: "select_intents [?i] ''t'' None = [?i]" by (simp add: select_intents_def)
  have "contains (lower (strip ''wire transfer'')) (lower ''start a Wire Transfer'')"
    "\<not> contains (lower (strip ''iban'')) (lower ''start a Wire Transfer'')" "strip ''wire transfer'' \<noteq> []"
    by code_simp+
  then have "matches_prompt ''start a Wire Transfer'' ?i" by (simp add: matches_prompt_def Let_def)
  moreover have "list_all (\<lambda>i. 0 \<le> ci_threshold i \<and> ci_threshold i \<le> 1 \<and> backslash \<notin> set (ci_name i))
      (select_intents [?i] ''t'' None)"
    unfolding sel by simp
  note intent_scan_decides [OF this, of "''start a Wire Transfer''"]
  ultimately show ?thesis unfolding sel by auto
qed

end
