(* ===== verification/BackendPacks.thy ===== *)
theory BackendPacks
  imports PyRegexSyntax BackendCommon
begin

text \<open>
  \<open>backend/app/services/framework_rule_packs.py\<close>: the catalog of compliance rule packs and its lookups.
  A rule is a dictionary of the shape of a stored policy rule.
\<close>

section \<open>The catalog\<close>

record framework_pack =
  fp_id :: string
  fp_name :: string
  fp_description :: string
  fp_version :: string
  fp_rules :: "json list"

definition pack_rule :: "string \<Rightarrow> string \<Rightarrow> string \<Rightarrow> string \<Rightarrow> string \<Rightarrow> json" where
  "pack_rule rid name condition action severity =
     JObj [(''id'', JStr rid), (''name'', JStr name), (''condition'', JStr condition), (''action'', JStr action),
       (''severity'', JStr severity), (''enabled'', JBool True)]"

definition FRAMEWORK_RULE_PACKS :: "framework_pack dict" where
  "FRAMEWORK_RULE_PACKS =
    [(''owasp-llm-top10'',
       \<lparr>fp_id = ''owasp-llm-top10'', fp_name = ''OWASP LLM Top 10'',
        fp_description = ''Prompt injection, sensitive information disclosure, and insecure output handling guardrails.'',
        fp_version = ''1.0'',
        fp_rules =
         [pack_rule ''owasp-llm-01'' ''Prompt injection guard''
            (raw ''content.matches(/ignore`s+(all`s+)?previous`s+instructions/i)'') ''Block'' ''critical'',
          pack_rule ''owasp-llm-02'' ''Jailbreak attempt''
            (raw ''content.matches(/you`s+are`s+now`s+dan|do`s+anything`s+now/i)'') ''Block'' ''critical'',
          pack_rule ''owasp-llm-03'' ''Sensitive information disclosure''
            (raw ''content.matches(/`b(ssn|social`s+security`s+number|passport`s+number)`b/i)'') ''Redact'' ''high'',
          pack_rule ''owasp-llm-04'' ''Insecure output handling''
            ''content.matches(/<script|javascript:|onerror=|onload=/)'' ''Block'' ''high'']\<rparr>),
     (''soc2'',
       \<lparr>fp_id = ''soc2'', fp_name = ''SOC 2'',
        fp_description = ''Security, availability, and confidentiality controls for service organizations.'',
        fp_version = ''1.0'',
        fp_rules =
         [pack_rule ''soc2-01'' ''Credential exfiltration guard''
            (raw ''content.matches(/(api[_-]?key|secret|password|token)`s*[:=]`s*`S+/i)'') ''Block'' ''critical'',
          pack_rule ''soc2-02'' ''PII redaction''
            (raw ''content.matches(/`b`d{3}-`d{2}-`d{4}`b|`b[`w.+-]+@[`w-]+`.[`w.]+`b/)'') ''Redact'' ''high'',
          pack_rule ''soc2-03'' ''Availability disruption guard''
            (raw ''content.matches(/(ddos|denial`s+of`s+service|crash`s+the`s+server)/i)'') ''Block'' ''high'']\<rparr>),
     (''hipaa'',
       \<lparr>fp_id = ''hipaa'', fp_name = ''HIPAA'',
        fp_description = ''Protected health information (PHI) handling controls.'',
        fp_version = ''1.0'',
        fp_rules =
         [pack_rule ''hipaa-01'' ''PHI redaction''
            (raw ''content.matches(/`b`d{3}-`d{2}-`d{4}`b|`b`d{9}`b/)'') ''Redact'' ''critical'',
          pack_rule ''hipaa-02'' ''Medical record disclosure guard''
            (raw ''content.matches(/(medical`s+record|patient`s+name|diagnosis|treatment`s+plan)/i)'') ''Redact'' ''high'']\<rparr>),
     (''gdpr'',
       \<lparr>fp_id = ''gdpr'', fp_name = ''GDPR'',
        fp_description = ''Personal data protection and data subject rights controls.'',
        fp_version = ''1.0'',
        fp_rules =
         [pack_rule ''gdpr-01'' ''Personal data redaction''
            (raw ''content.matches(/`b[`w.+-]+@[`w-]+`.[`w.]+`b|`b`d{3}-`d{2}-`d{4}`b/)'') ''Redact'' ''high'',
          pack_rule ''gdpr-02'' ''Data subject request guard''
            (raw ''content.matches(/(right`s+to`s+be`s+forgotten|data`s+erasure|data`s+portability)/i)'') ''Alert'' ''medium'']\<rparr>),
     (''pci-dss'',
       \<lparr>fp_id = ''pci-dss'', fp_name = ''PCI-DSS'',
        fp_description = ''Cardholder data protection controls.'',
        fp_version = ''1.0'',
        fp_rules =
         [pack_rule ''pci-01'' ''Card number redaction''
            (raw ''content.matches(/`b(?:`d[ -]?){13,16}`b/)'') ''Redact'' ''critical'',
          pack_rule ''pci-02'' ''CVV disclosure guard''
            (raw ''content.matches(/`b(cvv|cvc)`b`s*[:=]`s*`d{3,4}/i)'') ''Block'' ''critical'']\<rparr>)]"

section \<open>Lookups\<close>

definition list_framework_rule_packs :: "json list" where
  "list_framework_rule_packs =
     map (\<lambda>(_, p). JObj [(''id'', JStr (fp_id p)), (''name'', JStr (fp_name p)), (''description'', JStr (fp_description p)),
       (''version'', JStr (fp_version p)), (''rule_count'', JInt (int (length (fp_rules p))))]) FRAMEWORK_RULE_PACKS"

definition get_framework_rule_pack :: "string \<Rightarrow> framework_pack option" where
  "get_framework_rule_pack pack_id = dict_get FRAMEWORK_RULE_PACKS pack_id"

text \<open>\<open>{**rule, "policy_name": name}\<close>\<close>

definition with_policy_name :: "string \<Rightarrow> json dict \<Rightarrow> json" where
  "with_policy_name name rule = JObj (dict_set ''policy_name'' (JStr name) rule)"

definition named_pack_rules :: "framework_pack \<Rightarrow> json list" where
  "named_pack_rules p =
     concat (map (\<lambda>r. case r of JObj kvs \<Rightarrow> [with_policy_name (''Framework: '' @ fp_name p) kvs] | _ \<Rightarrow> []) (fp_rules p))"

text \<open>The ids come from a JSON column: \<open>dict.get\<close> raises on a list or an object, which have no hash, and finds
  nothing for another value that is not a string.\<close>

definition pack_of :: "json \<Rightarrow> framework_pack option result" where
  "pack_of v =
     (case v of
        JStr s \<Rightarrow> Inr (get_framework_rule_pack s)
      | JArr _ \<Rightarrow> Inl (TypeError ''unhashable type'')
      | JObj _ \<Rightarrow> Inl (TypeError ''unhashable type'')
      | _ \<Rightarrow> Inr None)"

definition resolve_framework_rules :: "json list \<Rightarrow> json list result" where
  "resolve_framework_rules pack_ids =
     bindE (mapE pack_of pack_ids)
       (\<lambda>ps. Inr (concat (map (\<lambda>p. case p of None \<Rightarrow> [] | Some pack \<Rightarrow> named_pack_rules pack) ps)))"

section \<open>Lemmas\<close>

lemma pack_ids_unique: "wf_dict FRAMEWORK_RULE_PACKS"
  unfolding wf_dict_def FRAMEWORK_RULE_PACKS_def by simp

lemma pack_keyed: "get_framework_rule_pack i = Some p \<Longrightarrow> fp_id p = i"
  unfolding get_framework_rule_pack_def FRAMEWORK_RULE_PACKS_def
  by (auto simp: dict_get_def split: if_splits)

lemma resolve_framework_rules_append:
  "resolve_framework_rules (xs @ ys) =
     bindE (resolve_framework_rules xs) (\<lambda>rs. bindE (resolve_framework_rules ys) (\<lambda>qs. Inr (rs @ qs)))"
proof -
  have "mapE pack_of (xs @ ys) = bindE (mapE pack_of xs) (\<lambda>ps. bindE (mapE pack_of ys) (\<lambda>qs. Inr (ps @ qs)))"
    by (induction xs) (auto simp: bindE_def split: sum.split)
  then show ?thesis by (auto simp: resolve_framework_rules_def bindE_def split: sum.split)
qed

end
