(* ===== verification/BackendBundle.thy ===== *)
theory BackendBundle
  imports BackendTree BackendPacks
begin

text \<open>
  \<open>backend/app/services/policy_bundle_service.py\<close>: policy bundles, the tenant's default bundle, and the rules a
  bundle stands for: those of the policies its ids reach through folders, then those of its framework
  rule packs.  The columns that hold JSON are \<open>json\<close> values.
\<close>

section \<open>Rows\<close>

record policy_row = tree_node +
  po_tenant :: uuid
  po_name :: string
  po_status :: string
  po_rules :: json

record policy_bundle =
  pb_id :: uuid
  pb_tenant :: uuid
  pb_name :: string
  pb_status :: string
  pb_is_default :: bool
  pb_policy_ids :: json
  pb_custom_intent_ids :: json
  pb_framework_rule_packs :: json
  pb_mcp_scope :: json

section \<open>Bundles\<close>

definition get_policy_bundle :: "policy_bundle list \<Rightarrow> uuid \<Rightarrow> string \<Rightarrow> policy_bundle result" where
  "get_policy_bundle bundles tenant bundle_id =
     (case uuid_of bundle_id of
        None \<Rightarrow> Inl (HTTPException 400 ''Invalid bundle id'')
      | Some u \<Rightarrow>
          bindE (scalar_one_or_none (filter (\<lambda>b. pb_id b = u \<and> pb_tenant b = tenant) bundles))
            (\<lambda>b. case b of None \<Rightarrow> Inl (HTTPException 404 ''Policy bundle not found'') | Some b \<Rightarrow> Inr b))"

definition get_tenant_default_bundle :: "policy_bundle list \<Rightarrow> uuid \<Rightarrow> policy_bundle option result" where
  "get_tenant_default_bundle bundles tenant =
     scalar_one_or_none (filter (\<lambda>b. pb_tenant b = tenant \<and> pb_is_default b \<and> pb_status b = ''active'') bundles)"

definition clear_other_defaults :: "policy_bundle list \<Rightarrow> uuid \<Rightarrow> uuid option \<Rightarrow> policy_bundle list" where
  "clear_other_defaults bundles tenant except_id =
     map (\<lambda>b. if pb_tenant b = tenant \<and> pb_is_default b \<and> (except_id = None \<or> Some (pb_id b) \<noteq> except_id)
              then b\<lparr>pb_is_default := False\<rparr> else b) bundles"

section \<open>The rules of a bundle\<close>

text \<open>\<open>v if isinstance(v, list) else []\<close>\<close>

fun list_or_empty :: "json \<Rightarrow> json list" where
  "list_or_empty (JArr vs) = vs"
| "list_or_empty _ = []"

definition merge_rule :: "string \<Rightarrow> json \<Rightarrow> json list" where
  "merge_rule policy_name rule =
     (case rule of
        JObj kvs \<Rightarrow> if truthy (dict_get_or kvs ''enabled'' (JBool True)) then [with_policy_name policy_name kvs] else []
      | _ \<Rightarrow> [])"

definition rules_of_policy :: "policy_row \<Rightarrow> json list result" where
  "rules_of_policy p =
     (if \<not> truthy (po_rules p) then Inr []
      else bindE (json_iter (po_rules p)) (\<lambda>rules. Inr (concat (map (merge_rule (po_name p)) rules))))"

definition resolve_policies :: "policy_row list \<Rightarrow> json list \<Rightarrow> policy_row list" where
  "resolve_policies all_policies policy_ids = fst (resolve_nodes ''policy'' all_policies (map py_str policy_ids) [])"

definition active_policies :: "policy_row list \<Rightarrow> uuid \<Rightarrow> policy_row list" where
  "active_policies policies tenant = filter (\<lambda>p. po_tenant p = tenant \<and> po_status p = ''active'') policies"

definition load_bundle_rules :: "policy_row list \<Rightarrow> uuid \<Rightarrow> policy_bundle option \<Rightarrow> json list result" where
  "load_bundle_rules policies tenant bundle =
     (case bundle of
        None \<Rightarrow> Inr []
      | Some b \<Rightarrow>
          if pb_status b \<noteq> ''active'' then Inr []
          else
            let policy_ids = list_or_empty (pb_policy_ids b) in
            if policy_ids = [] then Inr []
            else if list_all (\<lambda>v. uuid_of (py_str v) = None) policy_ids then Inr []
            else
              bindE (mapE rules_of_policy (resolve_policies (active_policies policies tenant) policy_ids))
                (\<lambda>merged.
                   let pack_ids = list_or_empty (pb_framework_rule_packs b) in
                   if pack_ids = [] then Inr (concat merged)
                   else bindE (resolve_framework_rules pack_ids) (\<lambda>packs. Inr (concat merged @ packs))))"

section \<open>Lemmas\<close>

definition cleared :: "uuid \<Rightarrow> uuid option \<Rightarrow> policy_bundle \<Rightarrow> policy_bundle" where
  "cleared tenant except_id b =
     (if pb_tenant b = tenant \<and> pb_is_default b \<and> (except_id = None \<or> Some (pb_id b) \<noteq> except_id)
      then b\<lparr>pb_is_default := False\<rparr> else b)"

lemma clear_other_defaults_map: "clear_other_defaults bundles tenant e = map (cleared tenant e) bundles"
  by (simp add: clear_other_defaults_def cleared_def)

lemma cleared_default: "pb_tenant (cleared tenant (Some i) b) = tenant \<and> pb_is_default (cleared tenant (Some i) b) \<longleftrightarrow>
    pb_tenant b = tenant \<and> pb_is_default b \<and> pb_id b = i"
  by (auto simp: cleared_def)

lemma cleared_other: "pb_id b \<noteq> i \<Longrightarrow> \<not> (pb_tenant (cleared t (Some i) b) = t \<and> pb_is_default (cleared t (Some i) b) \<and> X)"
  using cleared_default by blast

lemma default_bundle_after_clear:
  assumes "distinct (map pb_id bundles)" and "b \<in> set bundles" "pb_tenant b = tenant" "pb_is_default b" "pb_status b = ''active''"
  shows "get_tenant_default_bundle (clear_other_defaults bundles tenant (Some (pb_id b))) tenant = Inr (Some b)"
proof -
  let ?c = "cleared tenant (Some (pb_id b))"
  let ?P = "\<lambda>c. pb_tenant c = tenant \<and> pb_is_default c \<and> pb_status c = ''active''"
  obtain xs ys where split: "bundles = xs @ b # ys" using assms(2) by (meson split_list)
  have fresh: "pb_id b \<notin> pb_id ` (set xs \<union> set ys)" using assms(1) by (simp add: split image_Un)
  have other: "pb_id x \<noteq> pb_id b" if "x \<in> set xs \<union> set ys" for x using imageI [OF that, of pb_id] fresh by metis
  have "\<not> ?P (?c x)" if "x \<in> set xs \<union> set ys" for x using cleared_other [OF other [OF that]] .
  then have "filter ?P (map ?c xs) = []" "filter ?P (map ?c ys) = []" by (simp_all add: filter_empty_conv)
  moreover have "?c b = b" "?P b" using assms(3-5) by (simp_all add: cleared_def)
  ultimately have "filter ?P (map ?c bundles) = [b]" by (simp add: split)
  then show ?thesis
    unfolding get_tenant_default_bundle_def clear_other_defaults_map by (simp add: scalar_one_or_none_def)
qed

lemma rules_of_policy_list: "po_rules p = JArr rules \<Longrightarrow>
    rules_of_policy p = Inr (concat (map (merge_rule (po_name p)) rules))"
  by (auto simp: rules_of_policy_def)

lemma merge_rule_named: "r \<in> set (merge_rule n rule) \<Longrightarrow>
    \<exists>kvs. rule = JObj kvs \<and> r = with_policy_name n kvs \<and> truthy (dict_get_or kvs ''enabled'' (JBool True))"
  by (auto simp: merge_rule_def split: json.splits if_splits)

lemma resolve_policies_spec:
  "set (resolve_policies rows ids) =
     leaves ''policy'' rows {j. \<exists>i \<in> set ids. reaches ''policy'' rows (py_str i) j}"
  "distinct (map no_id (resolve_policies rows ids))"
  using resolve_nodes_spec [of "''policy''" rows "map py_str ids"] by (simp_all add: resolve_policies_def)

end
