(* ===== verification/BackendPolicy.thy ===== *)
theory BackendPolicy
  imports BackendThreat BackendIntents BackendBundle
begin

text \<open>
  \<open>backend/app/services/policy_engine.py\<close>: conditions of policy rules, the evaluation of a list of rules over a
  content, and the inspection the gateway runs: the rules of the bundle (or the built-in ones), the
  bundle's custom intents, and the threat catalog.  Tracing spans have no effect on the result and are left
  out.  A condition with a pattern is compiled by \<open>re_compile\<close>.
\<close>

section \<open>Built-in rules\<close>

definition SSN_PATTERN :: pattern where
  "SSN_PATTERN = re_const no_flags (raw ''`b`d{3}-`d{2}-`d{4}`b'')"

definition SECRET_PATTERN :: pattern where
  "SECRET_PATTERN = re_const no_flags (raw ''`b(sk-[A-Za-z0-9]{20,}|AKIA[0-9A-Z]{16})`b'')"

definition INJECTION_PATTERNS :: "pattern list" where
  "INJECTION_PATTERNS =
     map (re_const ignorecase)
       [raw ''ignore`s+(all`s+)?previous`s+instructions'',
        raw ''disregard`s+(your`s+)?(system`s+)?prompt'',
        raw ''(reveal|show|print|repeat|output|display)`s+(me`s+)?(your`s+)?(system`s+)?(prompt|instructions)'',
        raw ''forget`s+(all`s+)?(your`s+)?(rules|instructions|guidelines)'',
        raw ''bypass`s+(your`s+)?(restrictions|rules|guardrails|filters)'',
        raw ''(developer|god|sudo|unrestricted|admin)`s+mode'',
        ''jailbreak'',
        raw ''you`s+are`s+now`s+dan'']"

record policy_rule_def =
  pd_name :: string
  pd_action :: string
  pd_severity :: string
  pd_pattern :: "pattern option"
  pd_keywords :: "string list"

definition injection_guard :: "pattern \<Rightarrow> policy_rule_def" where
  "injection_guard p =
     \<lparr>pd_name = ''Prompt injection guard'', pd_action = ''Block'', pd_severity = ''critical'', pd_pattern = Some p, pd_keywords = []\<rparr>"

definition BUILTIN_RULES :: "policy_rule_def list" where
  "BUILTIN_RULES =
     [\<lparr>pd_name = ''Detect SSN patterns'', pd_action = ''Redact'', pd_severity = ''high'', pd_pattern = Some SSN_PATTERN,
       pd_keywords = []\<rparr>,
      \<lparr>pd_name = ''Block system prompt override'', pd_action = ''Block'', pd_severity = ''critical'', pd_pattern = None,
       pd_keywords = [''ignore previous'', ''disregard your prompt'']\<rparr>,
      \<lparr>pd_name = ''Secret key detection'', pd_action = ''Block'', pd_severity = ''critical'', pd_pattern = Some SECRET_PATTERN,
       pd_keywords = []\<rparr>,
      injection_guard (hd INJECTION_PATTERNS)] @ map injection_guard (tl INJECTION_PATTERNS)"

section \<open>Conditions\<close>

definition COND_REGION :: pattern where
  "COND_REGION = re_const ignorecase (raw ''region`s*!=`s*[\\'`\"](`w+)[\\'`\"]'')"

definition COND_HAS_PII :: pattern where
  "COND_HAS_PII = re_const ignorecase (raw ''`bhas_pii`b'')"

definition COND_NOT_PII :: pattern where
  "COND_NOT_PII = re_const ignorecase (raw ''!`s*has_pii|`bnot`s+has_pii`b'')"

definition COND_CONTAINS :: pattern where
  "COND_CONTAINS = re_const no_flags (raw ''prompt`.contains`([\\'\"](.+?)[\\'\"]`)'')"

definition IGNORE_PREVIOUS :: pattern where
  "IGNORE_PREVIOUS = re_const no_flags (raw ''ignore`s+(all`s+)?previous'')"

definition COND_MATCHES :: pattern where
  "COND_MATCHES = re_const no_flags (raw ''content`.matches`(/(.+)/([imsx]*)`)'')"

lemma condition_patterns_compile:
  "list_all (\<lambda>p. p_regex p \<noteq> RClass False [])
     [COND_REGION, COND_HAS_PII, COND_NOT_PII, COND_CONTAINS, IGNORE_PREVIOUS, COND_MATCHES, SSN_PATTERN, SECRET_PATTERN]"
  "list_all (\<lambda>p. p_regex p \<noteq> RClass False []) INJECTION_PATTERNS"
  by code_simp+

text \<open>The group of a match that has it.\<close>

definition group_text :: "rmatch_obj \<Rightarrow> nat \<Rightarrow> string" where
  "group_text m n = (case m_group m n of None \<Rightarrow> [] | Some s \<Rightarrow> s)"

definition set_flag :: "char \<Rightarrow> rflags \<Rightarrow> rflags" where
  "set_flag c fl =
     (if c = CHR ''i'' then fl\<lparr>icase := True\<rparr>
      else if c = CHR ''m'' then fl\<lparr>mline := True\<rparr>
      else if c = CHR ''s'' then fl\<lparr>dotall := True\<rparr>
      else if c = CHR ''x'' then fl\<lparr>verbose := True\<rparr>
      else fl)"

definition condition_matches :: "string \<Rightarrow> string \<Rightarrow> json dict option \<Rightarrow> bool \<times> pattern option" where
  "condition_matches condition content context =
     (let cond = strip condition;
          ctx = (case context of None \<Rightarrow> [] | Some c \<Rightarrow> c);
          has_pii = truthy (dict_get_or ctx ''has_pii'' JNull)
      in
      case p_search COND_REGION cond of
        Some m \<Rightarrow>
          (let expected = upper (group_text m 1);
               actual = upper (py_str (dict_get_or ctx ''region'' (JStr ''US'')))
           in if p_found COND_HAS_PII cond then (actual \<noteq> expected \<and> has_pii, None) else (actual \<noteq> expected, None))
      | None \<Rightarrow>
          if p_found COND_HAS_PII cond
          then (if p_found COND_NOT_PII cond then (\<not> has_pii, None) else (has_pii, None))
          else
            case p_match COND_CONTAINS cond of
              Some m \<Rightarrow>
                (let needle = lower (group_text m 1) in
                 if needle = ''ignore previous'' then (p_found IGNORE_PREVIOUS (lower content), None)
                 else (contains needle (lower content), None))
            | None \<Rightarrow>
                case p_match COND_MATCHES cond of
                  Some m \<Rightarrow>
                    (case re_compile (fold set_flag (group_text m 2) no_flags) (group_text m 1) of
                       None \<Rightarrow> (False, None)
                     | Some p \<Rightarrow> (p_found p content, Some p))
                | None \<Rightarrow>
                    if contains ''ignore previous'' (lower cond) then (contains ''ignore previous'' (lower content), None)
                    else if contains ''jailbreak'' (lower cond) then (contains ''jailbreak'' (lower content), None)
                    else if contains ''you are now dan'' (lower cond) then (contains ''you are now dan'' (lower content), None)
                    else (False, None))"

section \<open>Evaluation of rules\<close>

datatype rule_input = Builtin policy_rule_def | Stored json

record policy_violation =
  pv_rule_name :: string
  pv_action :: string
  pv_severity :: string
  pv_detail :: string

record rule_evaluation =
  re_rule_id :: "string option"
  re_rule_name :: string
  re_condition :: "string option"
  re_action :: string
  re_severity :: string
  re_enabled :: bool
  re_matched :: bool
  re_detail :: "string option"
  re_policy_name :: "string option"

record inspection =
  in_allowed :: bool
  in_action :: string
  in_violations :: "policy_violation list"
  in_redacted_content :: "string option"
  in_risk :: string
  in_rule_results :: "rule_evaluation list option"

text \<open>What one pass of the loop reads of a rule: its fields, whether it matches, and the text of the detail.  A
  stored rule that is not a dictionary is skipped.\<close>

record rule_view =
  rv_id :: "string option"
  rv_name :: string
  rv_condition :: "string option"
  rv_action :: string
  rv_severity :: string
  rv_enabled :: bool
  rv_matched :: bool
  rv_detail :: string
  rv_policy_name :: json

definition view_builtin :: "string \<Rightarrow> policy_rule_def \<Rightarrow> rule_view" where
  "view_builtin content d =
     (let detail = rule_detail content (pd_name d) (pd_pattern d) (pd_keywords d) in
      \<lparr>rv_id = None, rv_name = pd_name d, rv_condition = None, rv_action = pd_action d, rv_severity = pd_severity d,
       rv_enabled = True, rv_matched = detail \<noteq> None, rv_detail = (case detail of None \<Rightarrow> [] | Some t \<Rightarrow> t),
       rv_policy_name = JNull\<rparr>)"

definition view_stored :: "string \<Rightarrow> json dict option \<Rightarrow> json dict \<Rightarrow> rule_view" where
  "view_stored content context kvs =
     (let rid = py_str (dict_get_or kvs ''id'' (JStr []));
          condition = py_str (dict_get_or kvs ''condition'' (JStr []));
          policy_name = dict_get_or kvs ''policy_name'' JNull
      in
      \<lparr>rv_id = (if rid = [] then None else Some rid), rv_name = py_str (dict_get_or kvs ''name'' (JStr ''Rule'')),
       rv_condition = Some condition, rv_action = py_str (dict_get_or kvs ''action'' (JStr ''Allow'')),
       rv_severity = py_str (dict_get_or kvs ''severity'' (JStr ''medium'')),
       rv_enabled = truthy (dict_get_or kvs ''enabled'' (JBool True)),
       rv_matched = fst (condition_matches condition content context),
       rv_detail = ''Condition matched: '' @ condition @ (if truthy policy_name then '' ('' @ py_str policy_name @ '')'' else []),
       rv_policy_name = policy_name\<rparr>)"

definition view_rule :: "string \<Rightarrow> json dict option \<Rightarrow> rule_input \<Rightarrow> rule_view option" where
  "view_rule content context raw_rule =
     (case raw_rule of
        Builtin d \<Rightarrow> Some (view_builtin content d)
      | Stored (JObj kvs) \<Rightarrow> Some (view_stored content context kvs)
      | Stored _ \<Rightarrow> None)"

text \<open>The model of a rule result validates \<open>policy_name\<close>.\<close>

definition optional_text :: "json \<Rightarrow> string option result" where
  "optional_text v = (case v of JNull \<Rightarrow> Inr None | JStr s \<Rightarrow> Inr (Some s) | _ \<Rightarrow> Inl (ValueError ''PolicyRuleEvaluationResult''))"

definition evaluation_of_view :: "rule_view \<Rightarrow> rule_evaluation result" where
  "evaluation_of_view v =
     bindE (optional_text (rv_policy_name v))
       (\<lambda>name. Inr \<lparr>re_rule_id = rv_id v, re_rule_name = rv_name v, re_condition = rv_condition v, re_action = rv_action v,
          re_severity = rv_severity v, re_enabled = rv_enabled v, re_matched = rv_matched v,
          re_detail = (if rv_matched v then Some (rv_detail v) else None), re_policy_name = name\<rparr>)"

definition redact_by_rule :: "string \<Rightarrow> json dict option \<Rightarrow> rule_input \<Rightarrow> string \<Rightarrow> string" where
  "redact_by_rule content context raw_rule redacted =
     (case raw_rule of
        Builtin d \<Rightarrow> (case pd_pattern d of None \<Rightarrow> redacted | Some p \<Rightarrow> p_sub p ''[REDACTED]'' redacted)
      | Stored (JObj kvs) \<Rightarrow>
          (case snd (condition_matches (py_str (dict_get_or kvs ''condition'' (JStr []))) content context) of
             Some p \<Rightarrow> p_sub p ''[REDACTED]'' redacted
           | None \<Rightarrow> if p_found SSN_PATTERN content then p_sub SSN_PATTERN ''[REDACTED]'' redacted else redacted)
      | Stored _ \<Rightarrow> redacted)"

record eval_state =
  es_violations :: "policy_violation list"
  es_results :: "rule_evaluation list"
  es_redacted :: string
  es_blocked :: bool
  es_highest :: string

definition count_violation :: "string \<Rightarrow> json dict option \<Rightarrow> rule_input \<Rightarrow> rule_view \<Rightarrow> eval_state \<Rightarrow> eval_state" where
  "count_violation content context raw_rule v s =
     s\<lparr>es_violations := es_violations s @ [\<lparr>pv_rule_name = rv_name v, pv_action = rv_action v, pv_severity = rv_severity v,
          pv_detail = rv_detail v\<rparr>],
       es_highest := (if severity_rank (es_highest s) < severity_rank (rv_severity v) then rv_severity v else es_highest s),
       es_blocked := es_blocked s \<or> rv_action v = ''Block'',
       es_redacted := (if rv_action v = ''Redact'' then redact_by_rule content context raw_rule (es_redacted s) else es_redacted s)\<rparr>"

fun eval_loop :: "string \<Rightarrow> json dict option \<Rightarrow> bool \<Rightarrow> rule_input list \<Rightarrow> eval_state \<Rightarrow> eval_state result" where
  "eval_loop content context include_results [] s = Inr s"
| "eval_loop content context include_results (raw_rule # rs) s =
     (case view_rule content context raw_rule of
        None \<Rightarrow> eval_loop content context include_results rs s
      | Some v \<Rightarrow>
          bindE (if include_results
                 then bindE (evaluation_of_view v) (\<lambda>e. Inr (s\<lparr>es_results := es_results s @ [e]\<rparr>)) else Inr s)
            (\<lambda>s'. eval_loop content context include_results rs
               (if rv_enabled v \<and> rv_matched v then count_violation content context raw_rule v s' else s')))"

definition decide :: "eval_state \<Rightarrow> inspection" where
  "decide s =
     (if es_blocked s
      then \<lparr>in_allowed = False, in_action = ''block'', in_violations = es_violations s, in_redacted_content = None,
            in_risk = es_highest s, in_rule_results = None\<rparr>
      else if list_ex (\<lambda>v. pv_action v = ''Redact'') (es_violations s)
      then \<lparr>in_allowed = True, in_action = ''redact'', in_violations = es_violations s,
            in_redacted_content = Some (es_redacted s), in_risk = es_highest s, in_rule_results = None\<rparr>
      else \<lparr>in_allowed = True, in_action = ''allow'', in_violations = es_violations s, in_redacted_content = None,
            in_risk = ''low'', in_rule_results = None\<rparr>)"

definition evaluate_rules :: "string \<Rightarrow> rule_input list \<Rightarrow> json dict option \<Rightarrow> bool \<Rightarrow> inspection result" where
  "evaluate_rules content rules context include_results =
     bindE (eval_loop content context include_results rules
         \<lparr>es_violations = [], es_results = [], es_redacted = content, es_blocked = False, es_highest = ''low''\<rparr>)
       (\<lambda>s. Inr (if include_results then (decide s)\<lparr>in_rule_results := Some (es_results s)\<rparr> else decide s))"

section \<open>Inspection\<close>

fun add_threats :: "threat_match list \<Rightarrow> (string \<times> string) list \<Rightarrow> policy_violation list \<Rightarrow> policy_violation list" where
  "add_threats [] seen vs = vs"
| "add_threats (m # ms) seen vs =
     (if (tm_name m, tm_detail m) \<in> set seen then add_threats ms seen vs
      else add_threats ms ((tm_name m, tm_detail m) # seen)
             (vs @ [\<lparr>pv_rule_name = tm_name m, pv_action = ''Block'', pv_severity = tm_severity m, pv_detail = tm_detail m\<rparr>]))"

definition merge_threat_scan :: "string \<Rightarrow> inspection \<Rightarrow> inspection" where
  "merge_threat_scan content result =
     (let threat = scan_threats content in
      if \<not> is_detected threat \<or> is_recommended_action threat \<noteq> ''block'' then result
      else
        \<lparr>in_allowed = False, in_action = ''block'',
         in_violations = add_threats (is_matches threat)
           (map (\<lambda>v. (pv_rule_name v, pv_detail v)) (in_violations result)) (in_violations result),
         in_redacted_content = None, in_risk = first_max severity_rank (in_risk result) [is_highest_severity threat],
         in_rule_results = None\<rparr>)"

definition inspect_content :: "string \<Rightarrow> inspection result" where
  "inspect_content content = evaluate_rules content (map Builtin BUILTIN_RULES) None False"

record policy_db =
  db_policies :: "policy_row list"
  db_bundles :: "policy_bundle list"
  db_intents :: "custom_intent list"

definition inspect_content_for_bundle ::
  "policy_db \<Rightarrow> uuid \<Rightarrow> policy_bundle option \<Rightarrow> string \<Rightarrow> json dict option \<Rightarrow> inspection result" where
  "inspect_content_for_bundle db tenant bundle content context =
     bindE (load_bundle_rules (db_policies db) tenant bundle)
       (\<lambda>stored. if stored \<noteq> [] then evaluate_rules content (map Stored stored) context False else inspect_content content)"

text \<open>Reading an attribute of a \<open>CustomIntentMatch\<close>: the schema has five.\<close>

definition intent_match_attribute :: "intent_match \<Rightarrow> string \<Rightarrow> json result" where
  "intent_match_attribute m name =
     (if name = ''intent_id'' then Inr (JStr (im_intent_id m))
      else if name = ''intent_name'' then Inr (JStr (im_intent_name m))
      else if name = ''action'' then Inr (JStr (im_action m))
      else if name = ''matched_keywords'' then Inr (JArr (map JStr (im_matched_keywords m)))
      else if name = ''score'' then Inr (JFloat (if im_score m = 0 then ''0.0'' else if im_score m = 1 then ''1.0'' else ''0.75''))
      else Inl (AttributeError name))"

text \<open>The loop over the matches reads \<open>match.is_matched\<close> first; its body then builds a \<open>RuleViolation\<close>, a name
  that the module does not define.\<close>

fun apply_intent_matches :: "intent_match list \<Rightarrow> inspection \<Rightarrow> inspection result" where
  "apply_intent_matches [] result = Inr result"
| "apply_intent_matches (m # ms) result =
     bindE (intent_match_attribute m ''is_matched'')
       (\<lambda>v. if truthy v then Inl (NameError ''RuleViolation'') else apply_intent_matches ms result)"

definition bundle_intent_ids :: "policy_bundle \<Rightarrow> uuid list" where
  "bundle_intent_ids b =
     concat (map (\<lambda>v. case uuid_of (py_str v) of None \<Rightarrow> [] | Some u \<Rightarrow> [u]) (list_or_empty (pb_custom_intent_ids b)))"

function inspect_for_gateway ::
  "policy_db \<Rightarrow> uuid \<Rightarrow> policy_bundle option \<Rightarrow> string \<Rightarrow> json dict option \<Rightarrow> inspection result" where
  "inspect_for_gateway db tenant (Some b) content context =
     bindE (inspect_content_for_bundle db tenant (Some b) content context)
       (\<lambda>result.
          let ids = bundle_intent_ids b in
          bindE (if ids = [] then Inr result
                 else bindE (scan_prompt_intents (db_intents db) tenant content (Some ids))
                        (\<lambda>r. apply_intent_matches (ir_matches r) result))
            (\<lambda>result'. Inr (merge_threat_scan content result')))"
| "inspect_for_gateway db tenant None content context =
     bindE (get_tenant_default_bundle (db_bundles db) tenant)
       (\<lambda>default. case default of
          Some b \<Rightarrow> inspect_for_gateway db tenant (Some b) content context
        | None \<Rightarrow> bindE (inspect_content content) (\<lambda>result. Inr (merge_threat_scan content result)))"
  by pat_completeness auto

termination inspect_for_gateway
  by (relation "measure (\<lambda>(db, tenant, bundle, content, context). if bundle = None then 1 else 0)") auto

end
