(* ===== verification/BackendPolicyFacts.thy ===== *)
theory BackendPolicyFacts
  imports BackendPolicy
begin

text \<open>
  What an inspection decides: the evaluation of rules against the set of rules that apply, the conditions of
  the framework packs, the rules of a bundle, the threat catalog, and the custom intents of a bundle.
\<close>

section \<open>Conditions with a pattern\<close>

text \<open>The pattern of a condition \<open>content.matches(/.../flags)\<close> that no other form of condition claims.\<close>

definition pattern_of_condition :: "string \<Rightarrow> pattern option" where
  "pattern_of_condition condition =
     (let cond = strip condition in
      if contains ''region'' (lower cond) \<or> contains ''has_pii'' (lower cond) \<or> startswith (lower cond) ''prompt'' then None
      else
        case p_match COND_MATCHES cond of
          None \<Rightarrow> None
        | Some m \<Rightarrow> re_compile (fold set_flag (group_text m 2) no_flags) (group_text m 1))"

lemma condition_leads:
  "lower (fst (lead (p_regex COND_REGION))) = ''region''"
  "lower (fst (lead (p_regex COND_HAS_PII))) = ''has_pii''"
  "startswith (lower (fst (lead (p_regex COND_CONTAINS)))) ''prompt''"
  by code_simp+

lemma condition_with_pattern:
  assumes "pattern_of_condition condition = Some p"
  shows "condition_matches condition content ctx = (p_found p content, Some p)"
proof -
  let ?c = "strip condition"
  have n: "\<not> contains ''region'' (lower ?c)" "\<not> contains ''has_pii'' (lower ?c)" "\<not> startswith (lower ?c) ''prompt''"
    using assms by (auto simp: pattern_of_condition_def Let_def split: if_splits)
  have "p_search COND_REGION ?c = None"
    using n(1) found_lead [of COND_REGION ?c] condition_leads(1) p_search_found [of COND_REGION ?c] by metis
  moreover have "\<not> p_found COND_HAS_PII ?c" using n(2) found_lead [of COND_HAS_PII ?c] condition_leads(2) by auto
  moreover have "p_match COND_CONTAINS ?c = None"
  proof (rule ccontr)
    assume "p_match COND_CONTAINS ?c \<noteq> None"
    from match_lead [OF this] condition_leads(3) n(3) show False by (auto simp: startswith_iff)
  qed
  moreover obtain m where "p_match COND_MATCHES ?c = Some m"
    "re_compile (fold set_flag (group_text m 2) no_flags) (group_text m 1) = Some p"
    using assms by (auto simp: pattern_of_condition_def Let_def split: if_splits option.splits)
  ultimately show ?thesis by (simp add: condition_matches_def Let_def)
qed

definition pack_rule_understood :: "json \<Rightarrow> bool" where
  "pack_rule_understood rule =
     (case rule of
        JObj kvs \<Rightarrow>
          (case dict_get kvs ''condition'' of
             Some (JStr c) \<Rightarrow> pattern_of_condition c \<noteq> None
           | _ \<Rightarrow> False) \<and>
          (case dict_get kvs ''action'' of Some (JStr a) \<Rightarrow> a \<in> {''Block'', ''Redact'', ''Alert''} | _ \<Rightarrow> False) \<and>
          (case dict_get kvs ''severity'' of Some (JStr s) \<Rightarrow> s \<in> fst ` set SEVERITY_RANK | _ \<Rightarrow> False)
      | _ \<Rightarrow> False)"

lemma packs_understood: "list_all (\<lambda>(i, p). list_all pack_rule_understood (fp_rules p)) FRAMEWORK_RULE_PACKS"
  by code_simp

text \<open>A rule as a pack stores it, under the name its bundle gives it.\<close>

lemma pack_rule_view:
  assumes "pack_rule_understood rule" "rule = JObj kvs" "dict_get kvs ''enabled'' = Some (JBool True)"
  shows "\<exists>p. \<forall>content ctx. \<exists>v. view_rule content ctx (Stored (with_policy_name n kvs)) = Some v \<and> rv_enabled v \<and>
    rv_action v \<in> {''Block'', ''Redact'', ''Alert''} \<and> rv_severity v \<in> fst ` set SEVERITY_RANK \<and>
    (rv_matched v \<longleftrightarrow> occurs_in content p)"
proof -
  obtain c a s p k where c: "dict_get kvs ''condition'' = Some (JStr c)" "pattern_of_condition c = Some p"
    and a: "dict_get kvs ''action'' = Some (JStr a)" "a \<in> {''Block'', ''Redact'', ''Alert''}"
    and s: "dict_get kvs ''severity'' = Some (JStr s)" "(s, k) \<in> set SEVERITY_RANK"
    using assms(1,2) by (auto simp: pack_rule_understood_def split: option.splits json.splits)
  have "s \<in> fst ` set SEVERITY_RANK" using imageI [OF s(2), of fst] by simp
  then show ?thesis
    by (intro exI [of _ p]) (use a(2) in \<open>simp add: with_policy_name_def view_rule_def view_stored_def Let_def
        dict_get_or_def c(1) a(1) s(1) assms(3) condition_with_pattern [OF c(2)] p_found_occurs\<close>)
qed

lemma pack_rules_enabled:
  "list_all (\<lambda>(i, p). fp_rules p \<noteq> [] \<and> list_all (\<lambda>r. case r of JObj kvs \<Rightarrow> dict_get kvs ''enabled'' = Some (JBool True) | _ \<Rightarrow> False)
     (fp_rules p)) FRAMEWORK_RULE_PACKS"
  unfolding FRAMEWORK_RULE_PACKS_def by (simp add: pack_rule_def dict_get_def)

section \<open>Evaluation\<close>

definition hits :: "string \<Rightarrow> json dict option \<Rightarrow> rule_input list \<Rightarrow> rule_view list" where
  "hits content ctx rules =
     filter (\<lambda>v. rv_enabled v \<and> rv_matched v) (List.map_filter (view_rule content ctx) rules)"

definition violation_of :: "rule_view \<Rightarrow> policy_violation" where
  "violation_of v =
     \<lparr>pv_rule_name = rv_name v, pv_action = rv_action v, pv_severity = rv_severity v, pv_detail = rv_detail v\<rparr>"

lemma hits_simps [simp]:
  "hits content ctx [] = []"
  "hits content ctx (r # rs) =
     (case view_rule content ctx r of
        None \<Rightarrow> hits content ctx rs
      | Some v \<Rightarrow> if rv_enabled v \<and> rv_matched v then v # hits content ctx rs else hits content ctx rs)"
  by (simp_all add: hits_def map_filter_simps split: option.split)

lemma count_violation_simps [simp]:
  "es_violations (count_violation c x r v s) = es_violations s @ [violation_of v]"
  "es_blocked (count_violation c x r v s) \<longleftrightarrow> es_blocked s \<or> rv_action v = ''Block''"
  "es_results (count_violation c x r v s) = es_results s"
  "severity_rank (es_highest (count_violation c x r v s)) = max (severity_rank (es_highest s)) (severity_rank (rv_severity v))"
  by (simp_all add: count_violation_def violation_of_def)

lemma eval_loop_spec:
  "\<exists>t. eval_loop content ctx False rules s = Inr t \<and>
     es_violations t = es_violations s @ map violation_of (hits content ctx rules) \<and>
     (es_blocked t \<longleftrightarrow> es_blocked s \<or> (\<exists>v \<in> set (hits content ctx rules). rv_action v = ''Block'')) \<and>
     severity_rank (es_highest t) =
       Max (insert (severity_rank (es_highest s)) (severity_rank ` rv_severity ` set (hits content ctx rules)))"
proof (induction rules arbitrary: s)
  case (Cons r rs)
  show ?case
  proof (cases "view_rule content ctx r")
    case None
    then show ?thesis using Cons by simp
  next
    case (Some v)
    show ?thesis
    proof (cases "rv_enabled v \<and> rv_matched v")
      case True
      let ?s = "count_violation content ctx r v s"
      obtain t where t: "eval_loop content ctx False rs ?s = Inr t"
        "es_violations t = es_violations ?s @ map violation_of (hits content ctx rs)"
        "es_blocked t \<longleftrightarrow> es_blocked ?s \<or> (\<exists>v \<in> set (hits content ctx rs). rv_action v = ''Block'')"
        "severity_rank (es_highest t) =
          Max (insert (severity_rank (es_highest ?s)) (severity_rank ` rv_severity ` set (hits content ctx rs)))"
        using Cons by blast
      have "severity_rank (es_highest t) = Max (insert (severity_rank (es_highest s))
          (severity_rank ` rv_severity ` set (v # hits content ctx rs)))"
        using t(4) by (cases "hits content ctx rs = []") (simp_all add: max.assoc)
      then show ?thesis using t(1-3) Some True by auto
    next
      case False
      then show ?thesis using Cons [of s] Some by auto
    qed
  qed
qed simp

lemma start_rank [simp]: "severity_rank ''low'' = 0"
  by simp

text \<open>The results of the single rules are reported beside the decision and do not change it.\<close>

lemma eval_loop_results:
  assumes "list_all (\<lambda>v. \<exists>n. optional_text (rv_policy_name v) = Inr n) (List.map_filter (view_rule content ctx) rules)"
    and "eval_loop content ctx False rules s = Inr t"
  shows "\<exists>es. eval_loop content ctx True rules (s\<lparr>es_results := rs\<rparr>) = Inr (t\<lparr>es_results := es\<rparr>)"
  using assms
proof (induction rules arbitrary: s rs)
  case (Cons r rules)
  show ?case
  proof (cases "view_rule content ctx r")
    case None
    then show ?thesis using Cons by (simp add: map_filter_simps)
  next
    case (Some v)
    then obtain n where n: "optional_text (rv_policy_name v) = Inr n" using Cons.prems(1) by (auto simp: map_filter_simps)
    then obtain e where e: "evaluation_of_view v = Inr e" by (simp add: evaluation_of_view_def)
    have move: "count_violation content ctx r v (s\<lparr>es_results := xs\<rparr>) =
        (count_violation content ctx r v s)\<lparr>es_results := xs\<rparr>" for xs s
      by (simp add: count_violation_def)
    show ?thesis using Cons.IH Cons.prems Some e by (auto simp: map_filter_simps move)
  qed
qed auto

lemma evaluate_rules_returns: "\<exists>r. evaluate_rules content rules ctx False = Inr r"
  using eval_loop_spec [of content ctx rules "\<lparr>es_violations = [], es_results = [], es_redacted = content, es_blocked = False,
    es_highest = ''low''\<rparr>"]
  by (auto simp: evaluate_rules_def)

section \<open>The threat catalog\<close>

lemma add_threats_keeps: "set vs \<subseteq> set (add_threats ms seen vs)"
  by (induction ms seen vs rule: add_threats.induct) auto

lemma add_threats_all:
  "fst ` set seen \<subseteq> pv_rule_name ` set vs \<Longrightarrow> tm_name ` set ms \<subseteq> pv_rule_name ` set (add_threats ms seen vs)"
proof (induction ms seen vs rule: add_threats.induct)
  case (2 m ms seen vs)
  show ?case
  proof (cases "(tm_name m, tm_detail m) \<in> set seen")
    case True
    then have "tm_name m \<in> pv_rule_name ` set vs" using 2(3) by force
    then have "tm_name m \<in> pv_rule_name ` set (add_threats ms seen vs)" using add_threats_keeps [of vs ms seen] by auto
    then show ?thesis using 2(1) [OF True 2(3)] True by simp
  next
    case False
    let ?v = "\<lparr>pv_rule_name = tm_name m, pv_action = ''Block'', pv_severity = tm_severity m, pv_detail = tm_detail m\<rparr>"
    have "?v \<in> set (add_threats ms ((tm_name m, tm_detail m) # seen) (vs @ [?v]))"
      using add_threats_keeps [of "vs @ [?v]"] by auto
    then have "tm_name m \<in> pv_rule_name ` set (add_threats ms ((tm_name m, tm_detail m) # seen) (vs @ [?v]))"
      by (rule image_eqI [rotated]) simp
    moreover have "fst ` set ((tm_name m, tm_detail m) # seen) \<subseteq> pv_rule_name ` set (vs @ [?v])" using 2(3) by auto
    ultimately show ?thesis using 2(2) [OF False] False by simp
  qed
qed simp

lemma scan_names:
  "strip content \<noteq> [] \<Longrightarrow> tm_name ` set (is_matches (scan_threats content)) = tr_name ` set (catalog_hits content)"
proof -
  assume b: "strip content \<noteq> []"
  have one: "tm_name ` set (match_of_rule content r) = (if rule_hits content (tr_pattern r) (tr_keywords r) then {tr_name r} else {})"
    for r
    using rule_detail_None [of content "tr_name r" "tr_pattern r" "tr_keywords r"]
    by (cases "rule_detail content (tr_name r) (tr_pattern r) (tr_keywords r)") (auto simp: match_of_rule_def)
  have "is_matches (scan_threats content) = concat (map (match_of_rule content) THREAT_RULES)"
    using b by (simp add: scan_threats_def no_threat_def split: list.split)
  then show ?thesis using one by (auto simp: catalog_hits_def image_UN split: if_splits)
qed

lemma merge_blocks:
  assumes "strip content \<noteq> []" "catalog_hits content \<noteq> []"
  shows "\<not> in_allowed (merge_threat_scan content r)" "in_action (merge_threat_scan content r) = ''block''"
    "in_redacted_content (merge_threat_scan content r) = None"
    "tr_name ` set (catalog_hits content) \<subseteq> pv_rule_name ` set (in_violations (merge_threat_scan content r))"
    "severity_rank (in_risk r) \<le> severity_rank (in_risk (merge_threat_scan content r))"
    "severity_rank (is_highest_severity (scan_threats content)) \<le> severity_rank (in_risk (merge_threat_scan content r))"
proof -
  have d: "is_detected (scan_threats content)" "is_recommended_action (scan_threats content) = ''block''"
    using assms scan_detected [of content] by auto
  have "fst ` set (map (\<lambda>v. (pv_rule_name v, pv_detail v)) (in_violations r)) \<subseteq> pv_rule_name ` set (in_violations r)" by auto
  from add_threats_all [OF this, of "is_matches (scan_threats content)"]
  show "tr_name ` set (catalog_hits content) \<subseteq> pv_rule_name ` set (in_violations (merge_threat_scan content r))"
    using d scan_names [OF assms(1)] by (simp add: merge_threat_scan_def Let_def)
qed (use assms scan_detected [of content] in \<open>simp_all add: merge_threat_scan_def Let_def\<close>)

lemma merge_without_threat:
  "\<not> is_detected (scan_threats content) \<Longrightarrow> merge_threat_scan content r = r"
  by (simp add: merge_threat_scan_def Let_def)

lemma gateway_bundle_ends_in_merge:
  "inspect_for_gateway db tenant (Some b) content ctx = Inr r \<Longrightarrow> \<exists>r'. r = merge_threat_scan content r'"
  by (auto simp: bindE_eq_Inr_iff Let_def)

lemma gateway_ends_in_merge:
  "inspect_for_gateway db tenant bnd content ctx = Inr r \<Longrightarrow> \<exists>r'. r = merge_threat_scan content r'"
proof (cases bnd)
  case None
  assume r: "inspect_for_gateway db tenant bnd content ctx = Inr r"
  then obtain d where "get_tenant_default_bundle (db_bundles db) tenant = Inr d"
    "(case d of Some b \<Rightarrow> inspect_for_gateway db tenant (Some b) content ctx
      | None \<Rightarrow> bindE (inspect_content content) (\<lambda>result. Inr (merge_threat_scan content result))) = Inr r"
    unfolding None by (simp only: inspect_for_gateway.simps(2) bindE_eq_Inr_iff) blast
  then show ?thesis
  proof (cases d)
    case (Some b)
    with \<open>(case d of Some b \<Rightarrow> _ b | None \<Rightarrow> _) = Inr r\<close> have "inspect_for_gateway db tenant (Some b) content ctx = Inr r"
      by (simp only: option.case)
    then show ?thesis by (rule gateway_bundle_ends_in_merge)
  qed (auto simp: bindE_eq_Inr_iff)
qed (simp only: gateway_bundle_ends_in_merge)

section \<open>The rules of a bundle\<close>

lemma resolve_string_packs:
  "\<exists>rules. resolve_framework_rules (map JStr is) = Inr rules"
proof -
  have "mapE pack_of (map JStr is) = Inr (map get_framework_rule_pack is)"
    by (induction "is") (simp_all add: pack_of_def)
  then show ?thesis by (simp add: resolve_framework_rules_def)
qed

text \<open>The rules that a policy contributes.\<close>

definition policy_contributes :: "policy_row \<Rightarrow> json \<Rightarrow> bool" where
  "policy_contributes p r \<longleftrightarrow>
     (\<exists>rs kvs. po_rules p = JArr rs \<and> JObj kvs \<in> set rs \<and> truthy (dict_get_or kvs ''enabled'' (JBool True)) \<and>
        r = with_policy_name (po_name p) kvs)"

lemma rules_of_policy_contributes:
  assumes "po_rules p = JArr rs"
  shows "\<exists>rules. rules_of_policy p = Inr rules \<and> set rules = Collect (policy_contributes p)"
proof -
  have "r \<in> set (merge_rule n rule) \<longleftrightarrow>
      (\<exists>kvs. rule = JObj kvs \<and> truthy (dict_get_or kvs ''enabled'' (JBool True)) \<and> r = with_policy_name n kvs)" for r n rule
    by (cases rule) (auto simp: merge_rule_def)
  then have "set (concat (map (merge_rule (po_name p)) rs)) = Collect (policy_contributes p)"
    using assms by (fastforce simp: policy_contributes_def)
  then show ?thesis using rules_of_policy_list [OF assms] by blast
qed

lemma mapE_policies:
  assumes "\<forall>p \<in> set ps. \<exists>rs. po_rules p = JArr rs"
  shows "\<exists>rss. mapE rules_of_policy ps = Inr rss \<and> set (concat rss) = {r. \<exists>p \<in> set ps. policy_contributes p r}"
  using assms
proof (induction ps)
  case (Cons p ps)
  then obtain rules rss where "rules_of_policy p = Inr rules" "set rules = Collect (policy_contributes p)"
    "mapE rules_of_policy ps = Inr rss" "set (concat rss) = {r. \<exists>p \<in> set ps. policy_contributes p r}"
    using rules_of_policy_contributes [of p] by fastforce
  then show ?case by (intro exI [of _ "rules # rss"]) auto
qed simp

section \<open>Properties\<close>

text \<open>C17: the evaluation of rules always returns, and its decision depends only on the enabled rules that match: the
  content is refused iff one of them blocks, redacted iff none blocks and one redacts; the violations are those
  rules in order, and the risk of a refused or redacted content has the greatest rank of their severities.\<close>

theorem evaluate_rules_decides:
  "\<exists>r. evaluate_rules content rules ctx False = Inr r \<and>
     (in_allowed r \<longleftrightarrow> ''Block'' \<notin> rv_action ` set (hits content ctx rules)) \<and>
     in_action r = (if ''Block'' \<in> rv_action ` set (hits content ctx rules) then ''block''
                    else if ''Redact'' \<in> rv_action ` set (hits content ctx rules) then ''redact'' else ''allow'') \<and>
     in_violations r = map violation_of (hits content ctx rules) \<and>
     severity_rank (in_risk r) =
       (if in_action r = ''allow'' then 0
        else Max (insert 0 (severity_rank ` rv_severity ` set (hits content ctx rules)))) \<and>
     (in_redacted_content r \<noteq> None \<longleftrightarrow> in_action r = ''redact'')"
proof -
  let ?s = "\<lparr>es_violations = [], es_results = [], es_redacted = content, es_blocked = False, es_highest = ''low''\<rparr>"
  let ?h = "hits content ctx rules"
  obtain t where t: "eval_loop content ctx False rules ?s = Inr t" "es_violations t = map violation_of ?h"
    "es_blocked t \<longleftrightarrow> (\<exists>v \<in> set ?h. rv_action v = ''Block'')"
    "severity_rank (es_highest t) = Max (insert 0 (severity_rank ` rv_severity ` set ?h))"
    using eval_loop_spec [of content ctx rules ?s]
    by (simp only: eval_state.simps append_Nil severity_rank_simps simp_thms) (erule exE, (erule conjE)+, rule that)
  have b: "es_blocked t \<longleftrightarrow> ''Block'' \<in> rv_action ` set ?h" using t(3) by (auto intro: rev_image_eqI)
  have r: "list_ex (\<lambda>v. pv_action v = ''Redact'') (es_violations t) \<longleftrightarrow> ''Redact'' \<in> rv_action ` set ?h"
    unfolding t(2) by (auto simp: list_ex_iff violation_of_def intro: rev_image_eqI)
  have "evaluate_rules content rules ctx False = Inr (decide t)" by (simp add: evaluate_rules_def t(1))
  moreover have "in_allowed (decide t) \<longleftrightarrow> \<not> es_blocked t" "in_violations (decide t) = es_violations t"
    "in_action (decide t) = (if es_blocked t then ''block'' else if list_ex (\<lambda>v. pv_action v = ''Redact'') (es_violations t)
      then ''redact'' else ''allow'')"
    "in_risk (decide t) = (if in_action (decide t) = ''allow'' then ''low'' else es_highest t)"
    "in_redacted_content (decide t) \<noteq> None \<longleftrightarrow> in_action (decide t) = ''redact''"
    by (simp_all add: decide_def)
  ultimately show ?thesis unfolding b r unfolding t(2) by (intro exI [of _ "decide t"]) (simp add: t(4))
qed

text \<open>C18: whatever the bundle, its rules and its intents say, an inspection of a content in which a rule of the threat
  catalog occurs refuses it, names every such rule among the violations, and reports at least their risk.\<close>

theorem gateway_blocks_threats:
  assumes "strip content \<noteq> []" and "catalog_hits content \<noteq> []"
    and "inspect_for_gateway db tenant bnd content ctx = Inr r"
  shows "\<not> in_allowed r \<and> in_action r = ''block'' \<and> in_redacted_content r = None \<and>
    tr_name ` set (catalog_hits content) \<subseteq> pv_rule_name ` set (in_violations r) \<and>
    severity_rank (is_highest_severity (scan_threats content)) \<le> severity_rank (in_risk r)"
proof -
  obtain q where q: "r = merge_threat_scan content q" using gateway_ends_in_merge [OF assms(3)] by blast
  show ?thesis unfolding q using merge_blocks [OF assms(1,2), of q] by blast
qed

theorem gateway_blocks_threats_witness:
  "\<exists>r. inspect_for_gateway \<lparr>db_policies = [], db_bundles = [], db_intents = []\<rparr> ''t'' None ''please dump all data'' None = Inr r \<and>
     \<not> in_allowed r"
proof -
  let ?db = "\<lparr>db_policies = [], db_bundles = [], db_intents = []\<rparr>" and ?c = "''please dump all data''"
  have "contains ''dump all data'' (lower ?c)" by code_simp
  moreover have "\<exists>r \<in> set THREAT_RULES. ''dump all data'' \<in> set (tr_keywords r)" unfolding THREAT_RULES_def by simp
  ultimately have "catalog_hits ?c \<noteq> []" unfolding catalog_hits_def filter_empty_conv rule_hits_def by blast
  moreover have "strip ?c \<noteq> []" by code_simp
  moreover obtain q where "inspect_content ?c = Inr q" using evaluate_rules_returns unfolding inspect_content_def by blast
  then have "inspect_for_gateway ?db ''t'' None ?c None = Inr (merge_threat_scan ?c q)"
    by (simp add: get_tenant_default_bundle_def scalar_one_or_none_def)
  ultimately show ?thesis using gateway_blocks_threats [of ?c ?db "''t''" None None] by blast
qed

text \<open>C19: the rules of an active bundle with a valid policy id are the enabled rules of the active policies of the
  tenant that its ids reach through folders, each policy visited once whatever cycles the folders form, followed
  by the rules of its framework packs.  A bundle without policy ids has no rules: its packs are not looked at.\<close>

theorem bundle_rules_reachable:
  assumes "pb_status b = ''active''" and "pb_policy_ids b = JArr ids" and "\<exists>v \<in> set ids. uuid_of (py_str v) \<noteq> None"
    and "pb_framework_rule_packs b = JArr (map JStr packs)"
    and "\<forall>p \<in> set (active_policies policies tenant). \<exists>rs. po_rules p = JArr rs"
  shows "load_bundle_rules policies tenant (Some (b\<lparr>pb_policy_ids := JArr []\<rparr>)) = Inr [] \<and>
    distinct (map no_id (resolve_policies (active_policies policies tenant) ids)) \<and>
    (\<exists>own of_packs. load_bundle_rules policies tenant (Some b) = Inr (own @ of_packs) \<and>
       resolve_framework_rules (map JStr packs) = Inr of_packs \<and>
       set own = {r. \<exists>p \<in> leaves ''policy'' (active_policies policies tenant)
           {j. \<exists>v \<in> set ids. reaches ''policy'' (active_policies policies tenant) (py_str v) j}. policy_contributes p r})"
proof -
  let ?ps = "resolve_policies (active_policies policies tenant) ids"
  have "set ?ps \<subseteq> set (active_policies policies tenant)"
    unfolding resolve_policies_spec(1) by (auto simp: leaves_def dest: node_by_id_mem)
  then obtain rss where rss: "mapE rules_of_policy ?ps = Inr rss" "set (concat rss) = {r. \<exists>p \<in> set ?ps. policy_contributes p r}"
    using mapE_policies [of ?ps] assms(5) by blast
  obtain of_packs where p: "resolve_framework_rules (map JStr packs) = Inr of_packs" using resolve_string_packs by blast
  have e: "packs = [] \<Longrightarrow> of_packs = []" using p by (simp add: resolve_framework_rules_def)
  have ids: "ids \<noteq> []" "\<not> list_all (\<lambda>v. uuid_of (py_str v) = None) ids" using assms(3) by (auto simp: list_all_iff)
  have "load_bundle_rules policies tenant (Some b) = Inr (concat rss @ of_packs)"
    unfolding load_bundle_rules_def
    using assms(1,2,4) ids rss(1) p e by (cases "packs = []") (simp_all add: Let_def)
  then show ?thesis
    using p rss(2) resolve_policies_spec(2) unfolding resolve_policies_spec(1)
    by (auto simp: load_bundle_rules_def)
qed

theorem bundle_rules_reachable_witness:
  "\<exists>own. load_bundle_rules
     [\<lparr>no_id = ''a'', no_parent = Some ''00000000-0000-0000-0000-00000000000b'', no_kind = ''folder'', po_tenant = ''t'', po_name = ''A'',
       po_status = ''active'', po_rules = JArr []\<rparr>,
      \<lparr>no_id = ''00000000-0000-0000-0000-00000000000b'', no_parent = Some ''a'', no_kind = ''folder'', po_tenant = ''t'', po_name = ''B'',
       po_status = ''active'', po_rules = JArr []\<rparr>] ''t''
     (Some \<lparr>pb_id = ''x'', pb_tenant = ''t'', pb_name = ''b'', pb_status = ''active'', pb_is_default = True,
        pb_policy_ids = JArr [JStr ''00000000-0000-0000-0000-00000000000b''], pb_custom_intent_ids = JArr [],
        pb_framework_rule_packs = JArr (map JStr []), pb_mcp_scope = JNull\<rparr>) = Inr (own @ [])"
proof -
  let ?ps = "[\<lparr>no_id = ''a'', no_parent = Some ''00000000-0000-0000-0000-00000000000b'', no_kind = ''folder'', po_tenant = ''t'', po_name = ''A'',
       po_status = ''active'', po_rules = JArr []\<rparr>,
      \<lparr>no_id = ''00000000-0000-0000-0000-00000000000b'', no_parent = Some ''a'', no_kind = ''folder'', po_tenant = ''t'', po_name = ''B'',
       po_status = ''active'', po_rules = JArr []\<rparr>]"
  let ?b = "\<lparr>pb_id = ''x'', pb_tenant = ''t'', pb_name = ''b'', pb_status = ''active'', pb_is_default = True,
        pb_policy_ids = JArr [JStr ''00000000-0000-0000-0000-00000000000b''], pb_custom_intent_ids = JArr [],
        pb_framework_rule_packs = JArr (map JStr []), pb_mcp_scope = JNull\<rparr>"
  have "uuid_of (py_str (JStr ''00000000-0000-0000-0000-00000000000b'')) \<noteq> None" by code_simp
  then have v: "\<exists>v \<in> set [JStr ''00000000-0000-0000-0000-00000000000b'']. uuid_of (py_str v) \<noteq> None" by simp
  have a: "\<forall>p \<in> set (active_policies ?ps ''t''). \<exists>rs. po_rules p = JArr rs" by (simp add: active_policies_def)
  have "pb_status ?b = ''active''" "pb_policy_ids ?b = JArr [JStr ''00000000-0000-0000-0000-00000000000b'']"
    "pb_framework_rule_packs ?b = JArr (map JStr [])" by simp_all
  from bundle_rules_reachable [OF this(1,2) v this(3) a] obtain own of_packs where
    "load_bundle_rules ?ps ''t'' (Some ?b) = Inr (own @ of_packs)" by blast
  then show ?thesis by (intro exI [of _ "own @ of_packs"]) simp
qed



text \<open>A custom intent of the bundle that matches a content makes the inspection fail: the engine reads an
  attribute that the matches do not have.\<close>

theorem matching_intent_raises:
  assumes "inspect_content_for_bundle db tenant (Some b) content ctx = Inr result"
    and "bundle_intent_ids b = i # is"
    and "list_all (\<lambda>i. 0 \<le> ci_threshold i \<and> ci_threshold i \<le> 1 \<and> backslash \<notin> set (ci_name i))
      (select_intents (db_intents db) tenant (Some (i # is)))"
    and "list_ex (matches_prompt content) (select_intents (db_intents db) tenant (Some (i # is)))"
  shows "inspect_for_gateway db tenant (Some b) content ctx = Inl (AttributeError ''is_matched'')"
proof -
  obtain r where r: "scan_prompt_intents (db_intents db) tenant content (Some (i # is)) = Inr r"
    "map im_intent_id (ir_matches r) =
      map no_id (filter (matches_prompt content) (select_intents (db_intents db) tenant (Some (i # is))))"
    using scan_intents_result [OF assms(3), of content] by blast
  have "ir_matches r \<noteq> []" using r(2) assms(4) by (auto simp: list_ex_iff filter_empty_conv)
  then obtain m ms where "ir_matches r = m # ms" by (meson neq_Nil_conv)
  then show ?thesis using assms(1,2) r(1) by (simp add: Let_def intent_match_attribute_def)
qed

theorem matching_intent_raises_witness:
  "inspect_for_gateway
     \<lparr>db_policies = [], db_bundles = [], db_intents =
        [\<lparr>no_id = ''00000000-0000-0000-0000-00000000000c'', no_parent = None, no_kind = ''intent'', ci_tenant = Some ''t'', ci_name = ''wire'',
          ci_description = None, ci_action = ''monitor'', ci_keywords = [''iban''], ci_threshold = 8 / 10,
          ci_active = True, ci_created = 0\<rparr>]\<rparr> ''t''
     (Some \<lparr>pb_id = ''x'', pb_tenant = ''t'', pb_name = ''b'', pb_status = ''active'', pb_is_default = True,
        pb_policy_ids = JArr [], pb_custom_intent_ids = JArr [JStr ''00000000-0000-0000-0000-00000000000C''],
        pb_framework_rule_packs = JArr [], pb_mcp_scope = JNull\<rparr>) ''my IBAN is'' None = Inl (AttributeError ''is_matched'')"
proof -
  let ?i = "\<lparr>no_id = ''00000000-0000-0000-0000-00000000000c'', no_parent = None, no_kind = ''intent'', ci_tenant = Some ''t'', ci_name = ''wire'',
          ci_description = None, ci_action = ''monitor'', ci_keywords = [''iban''], ci_threshold = 8 / 10,
          ci_active = True, ci_created = 0\<rparr> :: custom_intent"
  let ?db = "\<lparr>db_policies = [], db_bundles = [], db_intents = [?i]\<rparr>"
  let ?b = "\<lparr>pb_id = ''x'', pb_tenant = ''t'', pb_name = ''b'', pb_status = ''active'', pb_is_default = True,
        pb_policy_ids = JArr [], pb_custom_intent_ids = JArr [JStr ''00000000-0000-0000-0000-00000000000C''],
        pb_framework_rule_packs = JArr [], pb_mcp_scope = JNull\<rparr>"
  have "uuid_of (py_str (JStr ''00000000-0000-0000-0000-00000000000C'')) = Some ''00000000-0000-0000-0000-00000000000c''"
    by code_simp
  then have ids: "bundle_intent_ids ?b = [''00000000-0000-0000-0000-00000000000c'']" by (simp add: bundle_intent_ids_def)
  obtain q where "inspect_content ''my IBAN is'' = Inr q" using evaluate_rules_returns unfolding inspect_content_def by blast
  then have q: "inspect_content_for_bundle ?db ''t'' (Some ?b) ''my IBAN is'' None = Inr q"
    by (simp add: inspect_content_for_bundle_def load_bundle_rules_def)
  have sel: "select_intents (db_intents ?db) ''t'' (Some [''00000000-0000-0000-0000-00000000000c'']) = [?i]"
    by (simp add: select_intents_def node_by_id_def dict_of_def dict_get_def dict_set_def)
  have "contains (lower (strip ''iban'')) (lower ''my IBAN is'')" "strip ''iban'' \<noteq> []" by code_simp+
  then have "matches_prompt ''my IBAN is'' ?i" by (simp add: matches_prompt_def Let_def)
  then have l: "list_ex (matches_prompt ''my IBAN is'') (select_intents (db_intents ?db) ''t'' (Some [''00000000-0000-0000-0000-00000000000c'']))"
    unfolding sel by simp
  have "list_all (\<lambda>i. 0 \<le> ci_threshold i \<and> ci_threshold i \<le> 1 \<and> backslash \<notin> set (ci_name i))
      (select_intents (db_intents ?db) ''t'' (Some [''00000000-0000-0000-0000-00000000000c'']))"
    unfolding sel by simp
  from matching_intent_raises [OF q ids this l] show ?thesis .
qed

end
