(* ===== verification/PyEqual.thy ===== *)
theory PyEqual
  imports Complex_Main PyValue
begin

text \<open>
  Python's \<open>==\<close> on values that come from JSON: dictionaries are compared without regard to the order of
  their keys, \<open>True\<close> is equal to 1, and an integer is equal to the float of the same value.  A float is
  compared by the decimal value of its literal; \<open>NaN\<close> is equal to nothing, itself included.
\<close>

definition exponent_of :: "string \<Rightarrow> int" where
  "exponent_of s =
     (case s of
        [] \<Rightarrow> 0
      | _ # t \<Rightarrow>
          (let neg = startswith t ''-''; u = (if neg \<or> startswith t ''+'' then drop 1 t else t); n = int (nat_of_digits u) in
           if neg then - n else n))"

definition power10 :: "int \<Rightarrow> rat" where
  "power10 e = (if 0 \<le> e then 10 ^ nat e else 1 / 10 ^ nat (- e))"

definition float_value :: "string \<Rightarrow> rat option" where
  "float_value s =
     (if s \<in> {''NaN'', ''Infinity'', ''-Infinity''} then None
      else
        let neg = startswith s ''-'';
            u = (if neg then drop 1 s else s);
            whole = takeWhile is_digit u;
            v = dropWhile is_digit u;
            frac = (if startswith v ''.'' then takeWhile is_digit (drop 1 v) else []);
            w = (if startswith v ''.'' then dropWhile is_digit (drop 1 v) else v);
            x = of_nat (nat_of_digits (whole @ frac)) * power10 (exponent_of w - int (length frac))
        in Some (if neg then - x else x))"

text \<open>\<open>int(x)\<close> cuts a float off towards zero, reads a string as a decimal number and takes nothing else but numbers.\<close>

definition trunc :: "rat \<Rightarrow> int" where
  "trunc x = (if x < 0 then - \<lfloor>- x\<rfloor> else \<lfloor>x\<rfloor>)"

fun int_of_json :: "json \<Rightarrow> int result" where
  "int_of_json (JInt n) = Inr n"
| "int_of_json (JBool b) = Inr (if b then 1 else 0)"
| "int_of_json (JStr s) = py_int s"
| "int_of_json (JFloat s) =
     (case float_value s of
        Some x \<Rightarrow> Inr (trunc x)
      | None \<Rightarrow> if s = ''NaN'' then Inl (ValueError ''cannot convert float NaN to integer'')
                else Inl (OverflowError ''cannot convert float infinity to integer''))"
| "int_of_json _ = Inl (TypeError ''int() argument'')"

text \<open>Equal values have the same canonical form: keys sorted, numbers as reduced fractions.\<close>

definition number_form :: "rat \<Rightarrow> json" where
  "number_form x = (let (n, d) = quotient_of x in JArr [JNull, JInt n, JInt d])"

fun value_form :: "json \<Rightarrow> json" where
  "value_form JNull = JNull"
| "value_form (JBool b) = number_form (if b then 1 else 0)"
| "value_form (JInt i) = number_form (of_int i)"
| "value_form (JFloat s) = (case float_value s of None \<Rightarrow> JFloat s | Some x \<Rightarrow> number_form x)"
| "value_form (JStr s) = JStr s"
| "value_form (JArr vs) = JArr (JBool True # map value_form vs)"
| "value_form (JObj kvs) = JObj (map (\<lambda>(k, v). (k, value_form v)) kvs)"

fun has_nan :: "json \<Rightarrow> bool" where
  "has_nan (JFloat s) = (s = ''NaN'')"
| "has_nan (JArr vs) = list_ex has_nan vs"
| "has_nan (JObj kvs) = list_ex (\<lambda>(k, v). has_nan v) kvs"
| "has_nan _ = False"

definition py_eq :: "json \<Rightarrow> json \<Rightarrow> bool" where
  "py_eq a b \<longleftrightarrow> \<not> has_nan a \<and> sort_json (value_form a) = sort_json (value_form b)"

lemma py_eq_sym_form: "py_eq a b \<Longrightarrow> sort_json (value_form b) = sort_json (value_form a)"
  by (simp add: py_eq_def)

lemma py_eq_refl: "py_eq a a \<longleftrightarrow> \<not> has_nan a"
  by (simp add: py_eq_def)

lemma py_eq_int: "py_eq (JInt i) (JInt j) \<longleftrightarrow> i = j"
  by (auto simp: py_eq_def number_form_def quotient_of_int split: prod.splits)

lemma py_eq_true: "py_eq (JBool True) (JInt 1)"
  by (simp add: py_eq_def)

lemma py_eq_float_int: "py_eq (JFloat ''1.50e1'') (JInt 15)"
  by (simp add: py_eq_def) code_simp

end
