(* ===== verification/BackendToolSeq.thy ===== *)
theory BackendToolSeq
  imports PyState PyEqual PyRegexLiteral BackendCommon
begin

text \<open>
  \<open>backend/app/services/mcp_sequence_detector.py\<close>, and what uses it: the loop of
  \<open>gateway_service._execute_upstream\<close> that runs the tool calls of a model, with the lookup of a tool's server in
  \<open>mcp_multiplex_service.py\<close>.  The arguments of a call are JSON values compared by Python's \<open>==\<close>.  The
  upstream model and the invocation of a tool over the network are operations of a record, each a computation
  over the state of the outside world.
\<close>

section \<open>Taxonomy of tools\<close>

record sequence_pattern =
  sp_id :: string
  sp_name :: string
  sp_attack_pattern :: string
  sp_source :: string
  sp_target :: string
  sp_action :: string
  sp_risk_score :: int
  sp_explanation :: string

definition READ_SENSITIVE_TOOLS :: "string list" where
  "READ_SENSITIVE_TOOLS =
    [''read_file'', ''get_secret'', ''fetch_credentials'', ''dump_table'', ''query_sql'', ''cat_file'',
     ''download_file'', ''get_env'', ''read_key'', ''access_token'', ''read_database'', ''fetch_pii'',
     ''dump_secrets'', ''export_data'', ''view_file'']"

definition NETWORK_EGRESS_TOOLS :: "string list" where
  "NETWORK_EGRESS_TOOLS =
    [''http_post'', ''send_webhook'', ''curl'', ''fetch_url'', ''send_email'', ''post_message'', ''upload_file'',
     ''http_request'', ''request_post'', ''send_slack_message'', ''send_teams_message'', ''external_api_call'']"

definition CODE_EXEC_TOOLS :: "string list" where
  "CODE_EXEC_TOOLS =
    [''bash_exec'', ''shell_command'', ''eval'', ''run_code'', ''execute_script'', ''subprocess'', ''spawn_process'',
     ''terminal_cmd'', ''run_command'', ''exec_cmd'']"

definition INFRA_MUTATION_TOOLS :: "string list" where
  "INFRA_MUTATION_TOOLS =
    [''drop_table'', ''delete_bucket'', ''terminate_instance'', ''truncate_table'', ''rmdir'', ''destroy_infra'',
     ''purge_data'', ''delete_database'', ''delete_vm'']"

definition INFRA_DISCOVERY_TOOLS :: "string list" where
  "INFRA_DISCOVERY_TOOLS =
    [''list_instances'', ''describe_clusters'', ''get_iam_policy'', ''scan_ports'', ''list_databases'',
     ''list_tables'', ''get_cloud_resources'', ''describe_infra'']"

definition IAM_PRIVILEGE_TOOLS :: "string list" where
  "IAM_PRIVILEGE_TOOLS =
    [''grant_admin'', ''attach_policy'', ''create_user'', ''update_permissions'', ''modify_iam_role'',
     ''escalate_privilege'', ''add_sudo_user'']"

definition SEQUENCE_ATTACK_PATTERNS :: "sequence_pattern list" where
  "SEQUENCE_ATTACK_PATTERNS =
    [\<lparr>sp_id = ''SEQ-EXFIL-001'', sp_name = ''Multi-Step Data Exfiltration Chain'', sp_attack_pattern = ''EXFILTRATION_CHAIN'',
       sp_source = ''read_sensitive'', sp_target = ''network_egress'', sp_action = ''block'', sp_risk_score = 95,
       sp_explanation = ''Autonomous agent read sensitive data/secrets and immediately attempted outbound network egress.''\<rparr>,
     \<lparr>sp_id = ''SEQ-RCE-001'', sp_name = ''Remote Code Execution & Script Staging'', sp_attack_pattern = ''REMOTE_CODE_EXEC_CHAIN'',
       sp_source = ''read_sensitive'', sp_target = ''code_exec'', sp_action = ''block'', sp_risk_score = 90,
       sp_explanation = ''Autonomous agent accessed file system / scripts followed immediately by terminal / shell command execution.''\<rparr>,
     \<lparr>sp_id = ''SEQ-MUTATE-001'', sp_name = ''Discovery-to-Destructive Mutation Chain'', sp_attack_pattern = ''DESTRUCTIVE_MUTATION_CHAIN'',
       sp_source = ''infra_discovery'', sp_target = ''infra_mutation'', sp_action = ''request_approval'', sp_risk_score = 85,
       sp_explanation = ''Autonomous agent performed infrastructure discovery followed by destructive resource deletion.''\<rparr>,
     \<lparr>sp_id = ''SEQ-PRIVESC-001'', sp_name = ''Privilege Escalation Chain'', sp_attack_pattern = ''PRIVILEGE_ESCALATION_CHAIN'',
       sp_source = ''infra_discovery'', sp_target = ''iam_privilege'', sp_action = ''request_approval'', sp_risk_score = 80,
       sp_explanation = ''Autonomous agent probed IAM policies followed by elevated role / admin permission grant.''\<rparr>,
     \<lparr>sp_id = ''SEQ-LOOP-001'', sp_name = ''Runaway Agent Infinite Loop Breaker'', sp_attack_pattern = ''RUNAWAY_LOOP'',
       sp_source = ''identical_call'', sp_target = ''identical_call'', sp_action = ''block'', sp_risk_score = 70,
       sp_explanation = ''Agent triggered 3 identical consecutive tool calls with identical arguments.''\<rparr>]"

definition tool_categories :: "(string \<times> string list) list" where
  "tool_categories =
     [(''read_sensitive'', READ_SENSITIVE_TOOLS), (''network_egress'', NETWORK_EGRESS_TOOLS),
      (''code_exec'', CODE_EXEC_TOOLS), (''infra_mutation'', INFRA_MUTATION_TOOLS),
      (''infra_discovery'', INFRA_DISCOVERY_TOOLS), (''iam_privilege'', IAM_PRIVILEGE_TOOLS)]"

definition classify_tool :: "string \<Rightarrow> string list" where
  "classify_tool tool_name =
     (let lowered = lower (strip tool_name) in
      map fst (filter (\<lambda>(category, tool_set). list_ex (\<lambda>keyword. contains keyword lowered) tool_set \<or> lowered \<in> set tool_set)
        tool_categories))"

section \<open>Verdict on a sequence of calls\<close>

record tool_step =
  ts_name :: string
  ts_arguments :: json
  ts_status :: string

record sequence_verdict =
  sv_is_threat :: bool
  sv_attack_pattern :: "string option"
  sv_action :: string
  sv_risk_score :: int
  sv_risk_tier :: string
  sv_reason :: string
  sv_chain_length :: nat

definition threat :: "string \<Rightarrow> string \<Rightarrow> int \<Rightarrow> string \<Rightarrow> string \<Rightarrow> nat \<Rightarrow> sequence_verdict" where
  "threat pat action score tier reason n =
     \<lparr>sv_is_threat = True, sv_attack_pattern = Some pat, sv_action = action, sv_risk_score = score, sv_risk_tier = tier,
      sv_reason = reason, sv_chain_length = n\<rparr>"

definition sequence_verdict_to_dict :: "sequence_verdict \<Rightarrow> json" where
  "sequence_verdict_to_dict v =
     JObj [(''is_threat'', JBool (sv_is_threat v)),
       (''attack_pattern'', (case sv_attack_pattern v of None \<Rightarrow> JNull | Some p \<Rightarrow> JStr p)),
       (''action'', JStr (sv_action v)), (''risk_score'', JInt (sv_risk_score v)), (''risk_tier'', JStr (sv_risk_tier v)),
       (''reason'', JStr (sv_reason v)), (''chain_length'', JInt (int (sv_chain_length v)))]"

text \<open>A tool's name in single quotes.\<close>

definition quoted :: "string \<Rightarrow> string" where
  "quoted s = squote # s @ [squote]"

definition prior_categories :: "tool_step list \<Rightarrow> string list" where
  "prior_categories history = concat (map (\<lambda>s. classify_tool (ts_name s)) history)"

definition repeats_call :: "tool_step list \<Rightarrow> string \<Rightarrow> json \<Rightarrow> bool" where
  "repeats_call history tool args \<longleftrightarrow>
     2 \<le> length history \<and>
     list_all (\<lambda>s. ts_name s = tool \<and> py_eq (ts_arguments s) args) (drop (length history - 2) history)"

text \<open>\<open>current_args or {}\<close>\<close>

definition args_or_empty :: "json \<Rightarrow> json" where
  "args_or_empty args = (if truthy args then args else JObj [])"

definition evaluate_tool_sequence :: "tool_step list \<Rightarrow> string \<Rightarrow> json \<Rightarrow> sequence_verdict" where
  "evaluate_tool_sequence history current_tool current_args =
     (let n = length history + 1;
          curr = classify_tool current_tool;
          prior_tools = map ts_name history;
          prior = prior_categories history
      in
      if repeats_call history current_tool (args_or_empty current_args) then
        threat ''RUNAWAY_LOOP'' ''block'' 70 ''HIGH''
          (''Detected repetitive infinite loop: tool '' @ quoted current_tool @
           '' invoked 3 consecutive times with identical arguments.'') n
      else if ''read_sensitive'' \<in> set prior \<and> ''network_egress'' \<in> set curr then
        threat ''EXFILTRATION_CHAIN'' ''block'' 95 ''CRITICAL''
          (''Sequential exfiltration pattern detected: sensitive data read ('' @ join '', '' prior_tools @
           '') followed by outbound network egress ('' @ quoted current_tool @
           '').'') n
      else if ''read_sensitive'' \<in> set prior \<and> ''code_exec'' \<in> set curr then
        threat ''REMOTE_CODE_EXEC_CHAIN'' ''block'' 90 ''CRITICAL''
          (''Sequential code execution chain detected: local file/secret read followed by direct command execution ('' @ quoted current_tool @
           '').'') n
      else if ''infra_discovery'' \<in> set prior \<and> ''infra_mutation'' \<in> set curr then
        threat ''DESTRUCTIVE_MUTATION_CHAIN'' ''request_approval'' 85 ''HIGH''
          (''Destructive mutation sequence detected: infrastructure discovery followed by destructive action ('' @ quoted current_tool @
           ''). Human authorization required.'') n
      else if ''infra_discovery'' \<in> set prior \<and> ''iam_privilege'' \<in> set curr then
        threat ''PRIVILEGE_ESCALATION_CHAIN'' ''request_approval'' 80 ''HIGH''
          (''Privilege escalation sequence detected: IAM enumeration followed by permission modification ('' @ quoted current_tool @
           ''). Human authorization required.'') n
      else if ''infra_mutation'' \<in> set curr then
        threat ''DIRECT_DESTRUCTIVE_MUTATION'' ''request_approval'' 75 ''HIGH''
          (''Destructive tool invocation ('' @ quoted current_tool @
           '') requires human approval.'') n
      else
        \<lparr>sv_is_threat = False, sv_attack_pattern = None, sv_action = ''allow'', sv_risk_score = 10, sv_risk_tier = ''LOW'',
         sv_reason = ''Safe tool execution sequence.'', sv_chain_length = n\<rparr>)"

section \<open>The server of a tool\<close>

record mcp_server =
  ms_id :: uuid
  ms_tenant :: uuid
  ms_name :: string
  ms_tool_names :: json
  ms_transport :: string
  ms_endpoint_url :: "string option"
  ms_connection_config :: json

definition SLUG_RE :: pattern where
  "SLUG_RE = re_const no_flags ''[^a-z0-9]+''"

definition server_slug :: "string \<Rightarrow> string" where
  "server_slug name =
     (let slug = strip_chars ''_'' (p_sub SLUG_RE ''_'' (lower (strip name))) in if slug = [] then ''server'' else slug)"

definition qualify_tool_name :: "string \<Rightarrow> string \<Rightarrow> string" where
  "qualify_tool_name slug tool_name = slug @ ''__'' @ tool_name"

text \<open>\<open>name.split("__", 1)\<close>\<close>

fun parse_qualified_name :: "string \<Rightarrow> string option \<times> string" where
  "parse_qualified_name [] = (None, [])"
| "parse_qualified_name (c # s) =
     (if startswith (c # s) ''__'' then (Some [], drop 1 s)
      else
        case parse_qualified_name s of
          (None, _) \<Rightarrow> (None, c # s)
        | (Some slug, tool) \<Rightarrow> (Some (c # slug), tool))"

text \<open>\<open>v or []\<close>, iterated.\<close>

definition iter_or_empty :: "json \<Rightarrow> json list result" where
  "iter_or_empty v = (if truthy v then json_iter v else Inr [])"

definition schema_names :: "mcp_server \<Rightarrow> string list result" where
  "schema_names server =
     bindE (json_get_or (if truthy (ms_connection_config server) then ms_connection_config server else JObj []) ''tool_schemas'' JNull)
       (\<lambda>schemas. bindE (iter_or_empty schemas)
         (\<lambda>ss. Inr (concat (map (\<lambda>s. case s of
              JObj kvs \<Rightarrow> if truthy (dict_get_or kvs ''name'' JNull) then [py_str (dict_get_or kvs ''name'' JNull)] else []
            | _ \<Rightarrow> []) ss))))"

definition server_tools :: "mcp_server \<Rightarrow> (string list \<times> string list) result" where
  "server_tools server =
     bindE (iter_or_empty (ms_tool_names server))
       (\<lambda>ns. bindE (schema_names server) (\<lambda>ss. Inr (map py_str ns, ss)))"

fun find_on_slug :: "mcp_server list \<Rightarrow> string \<Rightarrow> string \<Rightarrow> (mcp_server \<times> string) option result" where
  "find_on_slug [] slug original = Inr None"
| "find_on_slug (server # servers) slug original =
     (if server_slug (ms_name server) = slug
      then bindE (server_tools server)
             (\<lambda>(names, schemas).
                if original \<in> set names \<or> original \<in> set schemas \<or> names = [] then Inr (Some (server, original))
                else find_on_slug servers slug original)
      else find_on_slug servers slug original)"

fun find_unqualified :: "mcp_server list \<Rightarrow> string \<Rightarrow> (mcp_server \<times> string) list result" where
  "find_unqualified [] original = Inr []"
| "find_unqualified (server # servers) original =
     bindE (server_tools server)
       (\<lambda>(names, schemas).
          bindE (find_unqualified servers original)
            (\<lambda>ms. Inr (if original \<in> set names \<or> original \<in> set schemas then (server, original) # ms else ms)))"

definition resolve_tool_target :: "mcp_server list \<Rightarrow> string \<Rightarrow> (mcp_server \<times> string) option result" where
  "resolve_tool_target servers tool_name =
     (let (slug, original) = parse_qualified_name tool_name in
      case slug of
        Some (c # s) \<Rightarrow> find_on_slug servers (c # s) original
      | _ \<Rightarrow> bindE (find_unqualified servers original)
               (\<lambda>ms. Inr (case ms of [m] \<Rightarrow> Some m | _ \<Rightarrow> None)))"

section \<open>The tool loop of the gateway\<close>

record chat_message =
  cm_role :: string
  cm_content :: string
  cm_tool_calls :: "json list option"
  cm_tool_call_id :: "string option"
  cm_name :: "string option"

record invoke_result =
  iv_ok :: bool
  iv_result :: json
  iv_message :: string

record 'w tool_ops =
  to_upstream :: "chat_message list \<Rightarrow> ('w, json \<times> string) eff"
  to_invoke :: "mcp_server \<Rightarrow> string \<Rightarrow> json \<Rightarrow> ('w, invoke_result) eff"

definition execute_mcp_tool_call :: "'w tool_ops \<Rightarrow> mcp_server list \<Rightarrow> string \<Rightarrow> json \<Rightarrow> ('w, string) eff" where
  "execute_mcp_tool_call ops servers tool_name arguments =
     bindS (liftS (resolve_tool_target servers tool_name))
       (\<lambda>target. case target of
          None \<Rightarrow> returnS (dumps (JObj [(''error'', JStr (''Unknown MCP tool: '' @ tool_name))]))
        | Some (server, original) \<Rightarrow>
            bindS (to_invoke ops server original arguments)
              (\<lambda>r. returnS (if iv_ok r then (if iv_result r \<noteq> JNull then dumps (iv_result r) else iv_message r)
                            else dumps (JObj [(''error'', JStr (iv_message r))]))))"

text \<open>\<open>fn = tc.get("function", {}) if isinstance(tc, dict) else {}\<close>; \<open>fn.get\<close> raises on anything but a dictionary.\<close>

definition call_name_args :: "json \<Rightarrow> (string \<times> json) result" where
  "call_name_args tc =
     (let fn = (case tc of JObj kvs \<Rightarrow> dict_get_or kvs ''function'' (JObj []) | _ \<Rightarrow> JObj []) in
      bindE (json_get_or fn ''name'' JNull)
        (\<lambda>name. bindE (json_get_or fn ''arguments'' JNull)
          (\<lambda>arguments. Inr (if truthy name then py_str name else [],
             (if truthy arguments
              then case arguments of JStr s \<Rightarrow> (case loads s of Some v \<Rightarrow> v | None \<Rightarrow> JObj []) | _ \<Rightarrow> JObj []
              else JObj [])))))"

definition opt_json :: "string option \<Rightarrow> json" where
  "opt_json p = (case p of None \<Rightarrow> JNull | Some s \<Rightarrow> JStr s)"

definition blocked_text :: "sequence_verdict \<Rightarrow> string" where
  "blocked_text v =
     dumps (JObj [(''error'', JStr (''[PYSETU GOVERNANCE BLOCKED] '' @ sv_reason v)), (''security_verdict'', JStr ''blocked''),
       (''attack_pattern'', opt_json (sv_attack_pattern v)), (''risk_score'', JInt (sv_risk_score v))])"

definition approval_text :: "sequence_verdict \<Rightarrow> string" where
  "approval_text v =
     dumps (JObj [(''status'', JStr ''pending_human_approval''),
       (''message'', JStr (''[PYSETU HUMAN APPROVAL REQUIRED] '' @ sv_reason v)),
       (''attack_pattern'', opt_json (sv_attack_pattern v)), (''risk_score'', JInt (sv_risk_score v))])"

text \<open>One tool call: the text of its result, and the step it adds to the history.\<close>

definition governed_call ::
  "'w tool_ops \<Rightarrow> mcp_server list \<Rightarrow> tool_step list \<Rightarrow> string \<Rightarrow> json \<Rightarrow> ('w, string \<times> tool_step) eff" where
  "governed_call ops servers history name args =
     (let v = evaluate_tool_sequence history name args;
          step = (\<lambda>status. \<lparr>ts_name = name, ts_arguments = args, ts_status = status\<rparr>)
      in
      if sv_is_threat v \<and> sv_action v = ''block'' then returnS (blocked_text v, step ''blocked'')
      else if sv_is_threat v \<and> sv_action v = ''request_approval'' then returnS (approval_text v, step ''pending_approval'')
      else bindS (execute_mcp_tool_call ops servers name args) (\<lambda>result_text. returnS (result_text, step ''allowed'')))"

record tool_loop_state =
  tl_messages :: "chat_message list"
  tl_history :: "tool_step list"
  tl_tool_calls :: nat

fun run_tool_calls :: "'w tool_ops \<Rightarrow> mcp_server list \<Rightarrow> json list \<Rightarrow> tool_loop_state \<Rightarrow> ('w, tool_loop_state) eff" where
  "run_tool_calls ops servers [] st = returnS st"
| "run_tool_calls ops servers (tc # tcs) st =
     bindS (liftS (call_name_args tc))
       (\<lambda>(name, args).
          bindS (governed_call ops servers (tl_history st) name args)
            (\<lambda>(result_text, step).
               bindS (liftS (json_get_or tc ''id'' JNull))
                 (\<lambda>tid. run_tool_calls ops servers tcs
                    (st\<lparr>tl_history := tl_history st @ [step],
                        tl_messages := tl_messages st @
                          [\<lparr>cm_role = ''tool'', cm_content = result_text, cm_tool_calls = None,
                            cm_tool_call_id = Some (if truthy tid then py_str tid else []), cm_name = Some name\<rparr>]\<rparr>))))"

text \<open>What the loop reads of an answer: \<open>data["choices"][0]\<close>, its message and its reason to finish.\<close>

record upstream_answer =
  ua_data :: json
  ua_model :: string
  ua_message :: json
  ua_finish_reason :: json
  ua_tool_calls :: json

definition read_answer :: "json \<times> string \<Rightarrow> upstream_answer result" where
  "read_answer = (\<lambda>(data, model_name).
     bindE (json_item data ''choices'')
       (\<lambda>choices. bindE (case choices of JArr (c # _) \<Rightarrow> Inr c | JArr [] \<Rightarrow> Inl (IndexError ''list index out of range'')
                          | JStr (c # _) \<Rightarrow> Inr (JStr [c]) | JStr [] \<Rightarrow> Inl (IndexError ''string index out of range'')
                          | JObj _ \<Rightarrow> Inl (KeyError ''0'') | _ \<Rightarrow> Inl (TypeError ''not subscriptable''))
         (\<lambda>choice. bindE (json_get_or choice ''message'' (JObj []))
           (\<lambda>message. bindE (json_get_or choice ''finish_reason'' (JStr ''stop''))
             (\<lambda>finish_reason. bindE (json_get_or message ''tool_calls'' JNull)
               (\<lambda>tool_calls. Inr \<lparr>ua_data = data, ua_model = model_name, ua_message = message,
                   ua_finish_reason = finish_reason, ua_tool_calls = tool_calls\<rparr>))))))"

text \<open>The model of a message takes a list of dictionaries as tool calls and a string as content.\<close>

definition assistant_message :: "upstream_answer \<Rightarrow> (chat_message \<times> json list) result" where
  "assistant_message a =
     (case ua_tool_calls a of
        JInt _ \<Rightarrow> Inl (TypeError ''len()'')
      | JBool _ \<Rightarrow> Inl (TypeError ''len()'')
      | JFloat _ \<Rightarrow> Inl (TypeError ''len()'')
      | JArr tcs \<Rightarrow>
          bindE (json_get_or (ua_message a) ''content'' JNull)
            (\<lambda>content. case (if truthy content then content else JStr []) of
               JStr text' \<Rightarrow>
                 if list_all is_dict tcs
                 then Inr (\<lparr>cm_role = ''assistant'', cm_content = text', cm_tool_calls = Some tcs, cm_tool_call_id = None,
                            cm_name = None\<rparr>, tcs)
                 else Inl (ValueError ''ChatMessage'')
             | _ \<Rightarrow> Inl (ValueError ''ChatMessage''))
      | _ \<Rightarrow> Inl (ValueError ''ChatMessage''))"

definition MAX_MCP_TOOL_ITERATIONS :: nat where
  "MAX_MCP_TOOL_ITERATIONS = 5"

definition wants_tools :: "upstream_answer \<Rightarrow> bool" where
  "wants_tools a \<longleftrightarrow> ua_finish_reason a = JStr ''tool_calls'' \<and> truthy (ua_tool_calls a)"

text \<open>The loop with the number of iterations left.\<close>

fun tool_loop ::
  "nat \<Rightarrow> 'w tool_ops \<Rightarrow> mcp_server list \<Rightarrow> upstream_answer \<Rightarrow> tool_loop_state \<Rightarrow> ('w, upstream_answer \<times> tool_loop_state) eff" where
  "tool_loop 0 ops servers a st = returnS (a, st)"
| "tool_loop (Suc n) ops servers a st =
     (if \<not> wants_tools a then returnS (a, st)
      else
        bindS (liftS (assistant_message a))
          (\<lambda>(m, tcs).
             bindS (run_tool_calls ops servers tcs
                 (st\<lparr>tl_tool_calls := tl_tool_calls st + length tcs, tl_messages := tl_messages st @ [m]\<rparr>))
               (\<lambda>st'. bindS (to_upstream ops (tl_messages st'))
                  (\<lambda>raw_answer. bindS (liftS (read_answer raw_answer)) (\<lambda>a'. tool_loop n ops servers a' st')))))"

definition upstream_with_tools ::
  "'w tool_ops \<Rightarrow> mcp_server list \<Rightarrow> chat_message list \<Rightarrow> ('w, upstream_answer \<times> tool_loop_state) eff" where
  "upstream_with_tools ops servers messages =
     bindS (to_upstream ops messages)
       (\<lambda>raw_answer. bindS (liftS (read_answer raw_answer))
          (\<lambda>a. tool_loop MAX_MCP_TOOL_ITERATIONS ops servers a
             \<lparr>tl_messages = messages, tl_history = [], tl_tool_calls = 0\<rparr>))"

section \<open>Lemmas\<close>

lemma not_threat_iff:
  "\<not> sv_is_threat (evaluate_tool_sequence history tool args) \<longleftrightarrow>
     \<not> repeats_call history tool (args_or_empty args) \<and>
     \<not> (''read_sensitive'' \<in> set (prior_categories history) \<and>
        (''network_egress'' \<in> set (classify_tool tool) \<or> ''code_exec'' \<in> set (classify_tool tool))) \<and>
     \<not> (''infra_discovery'' \<in> set (prior_categories history) \<and> ''iam_privilege'' \<in> set (classify_tool tool)) \<and>
     ''infra_mutation'' \<notin> set (classify_tool tool)"
  by (simp add: evaluate_tool_sequence_def threat_def Let_def)

lemma verdict_actions:
  "sv_is_threat (evaluate_tool_sequence history tool args) \<longleftrightarrow>
   sv_action (evaluate_tool_sequence history tool args) \<in> {''block'', ''request_approval''}"
  by (simp add: evaluate_tool_sequence_def threat_def Let_def)

section \<open>The history of the loop\<close>

text \<open>Every call that was executed was no threat given the calls before it.\<close>

definition governed :: "tool_step list \<Rightarrow> bool" where
  "governed h \<longleftrightarrow> (\<forall>j < length h. ts_status (h ! j) = ''allowed'' \<longrightarrow>
     \<not> sv_is_threat (evaluate_tool_sequence (take j h) (ts_name (h ! j)) (ts_arguments (h ! j))))"

lemma governed_Nil [simp]: "governed []"
  by (simp add: governed_def)

lemma governed_snoc:
  "governed h \<Longrightarrow>
   (ts_status step = ''allowed'' \<Longrightarrow> \<not> sv_is_threat (evaluate_tool_sequence h (ts_name step) (ts_arguments step))) \<Longrightarrow>
   governed (h @ [step])"
  unfolding governed_def by (simp add: nth_append less_Suc_eq)

lemma governed_call_step:
  "yields (\<lambda>(t, step). ts_name step = name \<and> ts_arguments step = args \<and>
     (ts_status step = ''allowed'' \<longrightarrow> \<not> sv_is_threat (evaluate_tool_sequence h name args)))
   (governed_call ops servers h name args)"
proof -
  have "\<not> sv_is_threat (evaluate_tool_sequence h name args)"
    if "\<not> (sv_is_threat (evaluate_tool_sequence h name args) \<and> sv_action (evaluate_tool_sequence h name args) = ''block'')"
      "\<not> (sv_is_threat (evaluate_tool_sequence h name args) \<and> sv_action (evaluate_tool_sequence h name args) = ''request_approval'')"
    using that verdict_actions by blast
  then show ?thesis
    unfolding governed_call_def Let_def by (auto intro!: yields_return yields_bind_any)
qed

lemma run_tool_calls_governed:
  "governed (tl_history st) \<Longrightarrow> yields (\<lambda>st'. governed (tl_history st')) (run_tool_calls ops servers tcs st)"
proof (induction tcs arbitrary: st)
  case (Cons tc tcs)
  show ?case
    unfolding run_tool_calls.simps
  proof (rule yields_bind_any, clarify)
    fix name args
    show "yields (\<lambda>st'. governed (tl_history st'))
      (bindS (governed_call ops servers (tl_history st) name args)
        (\<lambda>(result_text, step). bindS (liftS (json_get_or tc ''id'' JNull))
           (\<lambda>tid. run_tool_calls ops servers tcs
              (st\<lparr>tl_history := tl_history st @ [step],
                  tl_messages := tl_messages st @
                    [\<lparr>cm_role = ''tool'', cm_content = result_text, cm_tool_calls = None,
                      cm_tool_call_id = Some (if truthy tid then py_str tid else []), cm_name = Some name\<rparr>]\<rparr>))))"
    proof (rule yields_bind [OF governed_call_step])
      fix x :: "string \<times> tool_step"
      obtain t step where x: "x = (t, step)" by fastforce
      assume "case x of (t, step) \<Rightarrow> ts_name step = name \<and> ts_arguments step = args \<and>
        (ts_status step = ''allowed'' \<longrightarrow> \<not> sv_is_threat (evaluate_tool_sequence (tl_history st) name args))"
      then have "governed (tl_history st @ [step])" using Cons.prems by (auto simp: x intro: governed_snoc)
      then show "yields (\<lambda>st'. governed (tl_history st'))
        (case x of (result_text, step) \<Rightarrow> bindS (liftS (json_get_or tc ''id'' JNull))
           (\<lambda>tid. run_tool_calls ops servers tcs
              (st\<lparr>tl_history := tl_history st @ [step],
                  tl_messages := tl_messages st @
                    [\<lparr>cm_role = ''tool'', cm_content = result_text, cm_tool_calls = None,
                      cm_tool_call_id = Some (if truthy tid then py_str tid else []), cm_name = Some name\<rparr>]\<rparr>)))"
        unfolding x prod.case by (intro yields_bind_any Cons.IH) simp
    qed
  qed
qed (simp add: yields_return)

lemma tool_loop_governed:
  "governed (tl_history st) \<Longrightarrow> yields (\<lambda>(a, st'). governed (tl_history st')) (tool_loop n ops servers a st)"
proof (induction n arbitrary: a st)
  case (Suc n)
  show ?case
  proof (cases "wants_tools a")
    case True
    have "yields (\<lambda>(a, st'). governed (tl_history st'))
        (bindS (run_tool_calls ops servers tcs
            (st\<lparr>tl_tool_calls := tl_tool_calls st + length tcs, tl_messages := tl_messages st @ [m]\<rparr>))
          (\<lambda>st'. bindS (to_upstream ops (tl_messages st'))
             (\<lambda>raw_answer. bindS (liftS (read_answer raw_answer)) (\<lambda>a'. tool_loop n ops servers a' st'))))" for m tcs
      by (rule yields_bind [OF run_tool_calls_governed]) (use Suc in \<open>auto intro!: yields_bind_any\<close>)
    then show ?thesis
      using True unfolding tool_loop.simps by (simp only: simp_thms if_False) (rule yields_bind_any, clarify)
  qed (use Suc.prems in \<open>simp add: yields_def\<close>)
qed (simp add: yields_return)

lemma upstream_governed:
  "upstream_with_tools ops servers messages s = (Inr (a, st), s') \<Longrightarrow> governed (tl_history st)"
proof -
  assume r: "upstream_with_tools ops servers messages s = (Inr (a, st), s')"
  have "yields (\<lambda>(a, st'). governed (tl_history st')) (upstream_with_tools ops servers messages)"
    unfolding upstream_with_tools_def by (intro yields_bind_any tool_loop_governed) simp
  with r show ?thesis unfolding yields_def by fastforce
qed

lemma prior_take: "i < j \<Longrightarrow> j \<le> length h \<Longrightarrow> c \<in> set (classify_tool (ts_name (h ! i))) \<Longrightarrow> c \<in> set (prior_categories (take j h))"
  unfolding prior_categories_def by (force simp: in_set_conv_nth)

section \<open>Properties\<close>


definition demo_call :: "string \<Rightarrow> json" where
  "demo_call name = JObj [(''id'', JStr ''1''), (''function'', JObj [(''name'', JStr name), (''arguments'', JStr ''{}'')])]"

definition demo_ops :: "nat tool_ops" where
  "demo_ops =
     \<lparr>to_upstream = (\<lambda>ms n. (Inr (JObj [(''choices'', JArr [JObj
         [(''message'', JObj (if n = 0 then [(''tool_calls'', JArr [demo_call ''read_file'', demo_call ''list_tables''])] else [])),
          (''finish_reason'', JStr (if n = 0 then ''tool_calls'' else ''stop''))]])], ''m''), n + 1)),
      to_invoke = (\<lambda>server tool args n. (Inr \<lparr>iv_ok = True, iv_result = JNull, iv_message = ''ok''\<rparr>, n))\<rparr>"

lemma demo_loop:
  "(case upstream_with_tools demo_ops [] [] 0 of
      (Inr (a, st), s') \<Rightarrow> map (\<lambda>s. (ts_name s, ts_status s)) (tl_history st) =
        [(''read_file'', ''allowed''), (''list_tables'', ''allowed'')]
    | _ \<Rightarrow> False)"
  by code_simp


definition pattern_applies :: "sequence_pattern \<Rightarrow> tool_step list \<Rightarrow> string \<Rightarrow> json \<Rightarrow> bool" where
  "pattern_applies m history tool args \<longleftrightarrow>
     (if sp_source m = ''identical_call'' then repeats_call history tool (args_or_empty args)
      else sp_source m \<in> set (prior_categories history) \<and> sp_target m \<in> set (classify_tool tool))"

lemma exported_patterns:
  assumes "(src, tgt, p, c, r) \<in> {(''identical_call'', ''identical_call'', ''RUNAWAY_LOOP'', ''block'', 70),
    (''read_sensitive'', ''network_egress'', ''EXFILTRATION_CHAIN'', ''block'', 95),
    (''read_sensitive'', ''code_exec'', ''REMOTE_CODE_EXEC_CHAIN'', ''block'', 90),
    (''infra_discovery'', ''infra_mutation'', ''DESTRUCTIVE_MUTATION_CHAIN'', ''request_approval'', 85),
    (''infra_discovery'', ''iam_privilege'', ''PRIVILEGE_ESCALATION_CHAIN'', ''request_approval'', 80)}"
  shows "\<exists>m \<in> set SEQUENCE_ATTACK_PATTERNS. sp_source m = src \<and> sp_target m = tgt \<and> sp_attack_pattern m = p \<and>
    sp_action m = c \<and> sp_risk_score m = r"
  using assms unfolding SEQUENCE_ATTACK_PATTERNS_def by (elim insertE emptyE) simp_all

text \<open>The detector and the attack patterns exported for the edge agree: a call is a threat iff one of the exported
  patterns applies to it or the tool is destructive, and a threat with an exported pattern has the action
  and the risk score exported for it.\<close>

theorem detector_implements_patterns:
  "(sv_is_threat (evaluate_tool_sequence history tool args) \<longleftrightarrow>
      list_ex (\<lambda>m. pattern_applies m history tool args) SEQUENCE_ATTACK_PATTERNS \<or>
      ''infra_mutation'' \<in> set (classify_tool tool)) \<and>
   (sv_attack_pattern (evaluate_tool_sequence history tool args) \<in>
      {None, Some ''DIRECT_DESTRUCTIVE_MUTATION''} \<union>
      {Some (sp_attack_pattern m) | m. m \<in> set SEQUENCE_ATTACK_PATTERNS \<and> pattern_applies m history tool args \<and>
         sp_action m = sv_action (evaluate_tool_sequence history tool args) \<and>
         sp_risk_score m = sv_risk_score (evaluate_tool_sequence history tool args)})"
proof -
  have "sv_is_threat (evaluate_tool_sequence history tool args) \<longleftrightarrow>
      list_ex (\<lambda>m. pattern_applies m history tool args) SEQUENCE_ATTACK_PATTERNS \<or>
      ''infra_mutation'' \<in> set (classify_tool tool)"
    using not_threat_iff [of history tool args] by (auto simp: SEQUENCE_ATTACK_PATTERNS_def pattern_applies_def)
  moreover have "sv_attack_pattern (evaluate_tool_sequence history tool args) \<in>
      {None, Some ''DIRECT_DESTRUCTIVE_MUTATION''} \<union>
      {Some (sp_attack_pattern m) | m. m \<in> set SEQUENCE_ATTACK_PATTERNS \<and> pattern_applies m history tool args \<and>
         sp_action m = sv_action (evaluate_tool_sequence history tool args) \<and>
         sp_risk_score m = sv_risk_score (evaluate_tool_sequence history tool args)}"
  proof -
    let ?v = "evaluate_tool_sequence history tool args"
    let ?prior = "set (prior_categories history)" and ?curr = "set (classify_tool tool)"
    have exported: "sv_attack_pattern ?v \<in> {Some (sp_attack_pattern m) | m. m \<in> set SEQUENCE_ATTACK_PATTERNS \<and>
        pattern_applies m history tool args \<and> sp_action m = sv_action ?v \<and> sp_risk_score m = sv_risk_score ?v}"
      if v: "sv_attack_pattern ?v = Some p" "sv_action ?v = c" "sv_risk_score ?v = r" and e: "(src, tgt, p, c, r) \<in> {(''identical_call'', ''identical_call'', ''RUNAWAY_LOOP'', ''block'', 70),
          (''read_sensitive'', ''network_egress'', ''EXFILTRATION_CHAIN'', ''block'', 95),
          (''read_sensitive'', ''code_exec'', ''REMOTE_CODE_EXEC_CHAIN'', ''block'', 90),
          (''infra_discovery'', ''infra_mutation'', ''DESTRUCTIVE_MUTATION_CHAIN'', ''request_approval'', 85),
          (''infra_discovery'', ''iam_privilege'', ''PRIVILEGE_ESCALATION_CHAIN'', ''request_approval'', 80)}"
        and applies: "if src = ''identical_call'' then repeats_call history tool (args_or_empty args) else src \<in> ?prior \<and> tgt \<in> ?curr"
      for src tgt p c r
    proof -
      obtain m where "m \<in> set SEQUENCE_ATTACK_PATTERNS" "sp_source m = src" "sp_target m = tgt" "sp_attack_pattern m = p"
        "sp_action m = c" "sp_risk_score m = r"
        using exported_patterns [OF e] by blast
      then have "pattern_applies m history tool args" "Some (sp_attack_pattern m) = sv_attack_pattern ?v"
        "sp_action m = sv_action ?v" "sp_risk_score m = sv_risk_score ?v"
        using applies v by (auto simp: pattern_applies_def)
      then show ?thesis using \<open>m \<in> set SEQUENCE_ATTACK_PATTERNS\<close> by (intro CollectI exI [of _ m] conjI) simp_all
    qed
    have quiet: "sv_attack_pattern ?v \<in> {None, Some ''DIRECT_DESTRUCTIVE_MUTATION''}"
      if "\<not> repeats_call history tool (args_or_empty args)"
        "\<not> (''read_sensitive'' \<in> ?prior \<and> ''network_egress'' \<in> ?curr)" "\<not> (''read_sensitive'' \<in> ?prior \<and> ''code_exec'' \<in> ?curr)"
        "\<not> (''infra_discovery'' \<in> ?prior \<and> ''infra_mutation'' \<in> ?curr)"
        "\<not> (''infra_discovery'' \<in> ?prior \<and> ''iam_privilege'' \<in> ?curr)"
      using that by (simp add: evaluate_tool_sequence_def threat_def Let_def)
    consider (loop) "repeats_call history tool (args_or_empty args)"
      | (exfil) "\<not> repeats_call history tool (args_or_empty args)" "''read_sensitive'' \<in> ?prior" "''network_egress'' \<in> ?curr"
      | (exec) "\<not> repeats_call history tool (args_or_empty args)" "''read_sensitive'' \<in> ?prior" "''network_egress'' \<notin> ?curr"
          "''code_exec'' \<in> ?curr"
      | (mutate) "\<not> repeats_call history tool (args_or_empty args)"
          "\<not> (''read_sensitive'' \<in> ?prior \<and> (''network_egress'' \<in> ?curr \<or> ''code_exec'' \<in> ?curr))"
          "''infra_discovery'' \<in> ?prior" "''infra_mutation'' \<in> ?curr"
      | (privilege) "\<not> repeats_call history tool (args_or_empty args)"
          "\<not> (''read_sensitive'' \<in> ?prior \<and> (''network_egress'' \<in> ?curr \<or> ''code_exec'' \<in> ?curr))"
          "''infra_discovery'' \<in> ?prior" "''infra_mutation'' \<notin> ?curr" "''iam_privilege'' \<in> ?curr"
      | (none) "sv_attack_pattern ?v \<in> {None, Some ''DIRECT_DESTRUCTIVE_MUTATION''}"
      using quiet by blast
    then show ?thesis
    proof cases
      case loop
      then show ?thesis
        by (intro UnI2 exported [of "''RUNAWAY_LOOP''" "''block''" 70 "''identical_call''" "''identical_call''"])
          (simp_all add: evaluate_tool_sequence_def threat_def Let_def)
    next
      case exfil
      then show ?thesis
        by (intro UnI2 exported [of "''EXFILTRATION_CHAIN''" "''block''" 95 "''read_sensitive''" "''network_egress''"])
          (simp_all add: evaluate_tool_sequence_def threat_def Let_def)
    next
      case exec
      then show ?thesis
        by (intro UnI2 exported [of "''REMOTE_CODE_EXEC_CHAIN''" "''block''" 90 "''read_sensitive''" "''code_exec''"])
          (simp_all add: evaluate_tool_sequence_def threat_def Let_def)
    next
      case mutate
      then show ?thesis
        by (intro UnI2 exported [of "''DESTRUCTIVE_MUTATION_CHAIN''" "''request_approval''" 85 "''infra_discovery''" "''infra_mutation''"])
          (simp_all add: evaluate_tool_sequence_def threat_def Let_def)
    next
      case privilege
      then show ?thesis
        by (intro UnI2 exported [of "''PRIVILEGE_ESCALATION_CHAIN''" "''request_approval''" 80 "''infra_discovery''" "''iam_privilege''"])
          (simp_all add: evaluate_tool_sequence_def threat_def Let_def)
    next
      case none
      then show ?thesis by blast
    qed
  qed
  ultimately show ?thesis ..
qed

end
