(* ===== verification/BackendRbac.thy ===== *)
theory BackendRbac
  imports BackendCommon "HOL-Library.List_Lexorder"
begin

text \<open>
  \<open>backend/app/core/rbac.py\<close>: permissions, the permissions of each role, and the dependencies that guard the
  endpoints.  A dependency takes the user that authentication found and returns it or raises 403.
\<close>

section \<open>Permissions and roles\<close>

definition MANAGE_TENANTS :: string where "MANAGE_TENANTS = ''manage_tenants''"
definition MANAGE_USERS :: string where "MANAGE_USERS = ''manage_users''"
definition MANAGE_POLICIES :: string where "MANAGE_POLICIES = ''manage_policies''"
definition VIEW_AUDIT_LOGS :: string where "VIEW_AUDIT_LOGS = ''view_audit_logs''"
definition INGEST_AUDIT_LOGS :: string where "INGEST_AUDIT_LOGS = ''ingest_audit_logs''"
definition MANAGE_MCP :: string where "MANAGE_MCP = ''manage_mcp''"
definition USE_MCP :: string where "USE_MCP = ''use_mcp''"
definition USE_STUDIO :: string where "USE_STUDIO = ''use_studio''"
definition VIEW_COMPLIANCE :: string where "VIEW_COMPLIANCE = ''view_compliance''"
definition MANAGE_LLM_PROVIDERS :: string where "MANAGE_LLM_PROVIDERS = ''manage_llm_providers''"
definition MANAGE_AGENTS :: string where "MANAGE_AGENTS = ''manage_agents''"
definition VIEW_AGENTS :: string where "VIEW_AGENTS = ''view_agents''"

lemmas permission_names =
  MANAGE_TENANTS_def MANAGE_USERS_def MANAGE_POLICIES_def VIEW_AUDIT_LOGS_def INGEST_AUDIT_LOGS_def MANAGE_MCP_def
  USE_MCP_def USE_STUDIO_def VIEW_COMPLIANCE_def MANAGE_LLM_PROVIDERS_def MANAGE_AGENTS_def VIEW_AGENTS_def

definition ALL_PERMISSIONS :: "string list" where
  "ALL_PERMISSIONS =
     [MANAGE_TENANTS, MANAGE_USERS, MANAGE_POLICIES, VIEW_AUDIT_LOGS, INGEST_AUDIT_LOGS, MANAGE_MCP, USE_MCP, USE_STUDIO,
      VIEW_COMPLIANCE, MANAGE_LLM_PROVIDERS, MANAGE_AGENTS, VIEW_AGENTS]"

definition VALID_ROLES :: "string list" where
  "VALID_ROLES =
     [''platform_admin'', ''tenant_admin'', ''security_admin'', ''compliance_officer'', ''auditor'', ''developer'']"

definition ROLE_PERMISSIONS :: "(string \<times> string list) list" where
  "ROLE_PERMISSIONS =
     [(''platform_admin'', ALL_PERMISSIONS),
      (''tenant_admin'', filter (\<lambda>p. p \<noteq> MANAGE_TENANTS) ALL_PERMISSIONS),
      (''security_admin'',
         [MANAGE_POLICIES, VIEW_AUDIT_LOGS, INGEST_AUDIT_LOGS, MANAGE_MCP, USE_MCP, USE_STUDIO, MANAGE_LLM_PROVIDERS,
          MANAGE_AGENTS, VIEW_AGENTS]),
      (''compliance_officer'', [VIEW_AUDIT_LOGS, VIEW_COMPLIANCE, VIEW_AGENTS]),
      (''auditor'', [VIEW_AUDIT_LOGS, VIEW_COMPLIANCE, VIEW_AGENTS]),
      (''developer'', [USE_STUDIO, USE_MCP])]"

definition PERMISSION_LABELS :: "string dict" where
  "PERMISSION_LABELS =
     [(MANAGE_TENANTS, ''Manage tenants''), (MANAGE_USERS, ''Manage users''), (MANAGE_POLICIES, ''Manage policies''),
      (VIEW_AUDIT_LOGS, ''View audit logs''), (INGEST_AUDIT_LOGS, ''Ingest audit logs''),
      (MANAGE_MCP, ''Manage MCP servers''), (USE_MCP, ''Use MCP portal''), (USE_STUDIO, ''Use Governance Sandbox''),
      (VIEW_COMPLIANCE, ''View compliance''), (MANAGE_LLM_PROVIDERS, ''Manage LLM providers''),
      (MANAGE_AGENTS, ''Manage agents & endpoints''), (VIEW_AGENTS, ''View agents & endpoints'')]"

definition role_permissions :: "string \<Rightarrow> string list" where
  "role_permissions role = dict_get_or ROLE_PERMISSIONS role []"

definition role_has_permission :: "string \<Rightarrow> string \<Rightarrow> bool" where
  "role_has_permission role permission \<longleftrightarrow> permission \<in> set (role_permissions role)"

definition permissions_for_role :: "string \<Rightarrow> string list" where
  "permissions_for_role role = sort (role_permissions role)"

section \<open>Dependencies\<close>

record user =
  us_id :: uuid
  us_tenant :: uuid
  us_role :: string

definition require_permission :: "string \<Rightarrow> user \<Rightarrow> user result" where
  "require_permission permission u =
     (if \<not> role_has_permission (us_role u) permission
      then Inl (HTTPException 403 (''Permission required: '' @ permission)) else Inr u)"

definition require_any_permission :: "string list \<Rightarrow> user \<Rightarrow> user result" where
  "require_any_permission permissions u =
     (if \<not> list_ex (role_has_permission (us_role u)) permissions
      then Inl (HTTPException 403 (''One of these permissions required: '' @ join '', '' permissions)) else Inr u)"

definition require_roles :: "string list \<Rightarrow> user \<Rightarrow> user result" where
  "require_roles roles u =
     (if us_role u \<notin> set roles then Inl (HTTPException 403 ''Insufficient role privileges'') else Inr u)"

section \<open>The order of the roles\<close>

definition role_le :: "string \<Rightarrow> string \<Rightarrow> bool" where
  "role_le a b \<longleftrightarrow> set (role_permissions a) \<subseteq> set (role_permissions b)"

lemma valid_roles_known: "map fst ROLE_PERMISSIONS = VALID_ROLES"
  by (simp add: ROLE_PERMISSIONS_def VALID_ROLES_def)

lemma permissions_labelled: "map fst PERMISSION_LABELS = ALL_PERMISSIONS"
  by (simp add: PERMISSION_LABELS_def ALL_PERMISSIONS_def)

lemma permissions_distinct: "distinct ALL_PERMISSIONS" "list_all (\<lambda>(r, ps). distinct ps) ROLE_PERMISSIONS"
  by code_simp+

lemma role_permissions_simps:
  "role_permissions ''platform_admin'' = ALL_PERMISSIONS"
  "role_permissions ''tenant_admin'' = filter (\<lambda>p. p \<noteq> MANAGE_TENANTS) ALL_PERMISSIONS"
  "role \<notin> set VALID_ROLES \<Longrightarrow> role_permissions role = []"
  by (simp_all add: role_permissions_def ROLE_PERMISSIONS_def VALID_ROLES_def dict_get_or_def dict_get_def)

lemma tenant_roles_below_admin:
  "list_all (\<lambda>r. r = ''platform_admin'' \<or> list_all (\<lambda>p. p \<in> set (role_permissions ''tenant_admin'')) (role_permissions r)) VALID_ROLES"
  by code_simp

section \<open>Properties\<close>

text \<open>Only the platform administrator can pass a guard on tenants; below it the tenant administrator has every
  permission that any other role has, and a user whose role is unknown passes no guard.\<close>

theorem tenant_roles_confined:
  "(\<exists>v. require_permission MANAGE_TENANTS u = Inr v) = (us_role u = ''platform_admin'') \<and>
   (us_role u = ''platform_admin'' \<or> role_le (us_role u) ''tenant_admin'') \<and>
   (us_role u \<in> set VALID_ROLES \<or>
      require_any_permission ps u = Inl (HTTPException 403 (''One of these permissions required: '' @ join '', '' ps)))"
proof -
  have known: "us_role u = ''platform_admin'' \<or> role_le (us_role u) ''tenant_admin''"
  proof (cases "us_role u \<in> set VALID_ROLES")
    case True
    then show ?thesis using tenant_roles_below_admin by (auto simp: list_all_iff role_le_def)
  next
    case False
    then show ?thesis by (simp add: role_le_def role_permissions_simps)
  qed
  have "MANAGE_TENANTS \<notin> set (role_permissions ''tenant_admin'')" by (simp add: role_permissions_simps)
  moreover have "MANAGE_TENANTS \<in> set (role_permissions ''platform_admin'')"
    by (simp add: role_permissions_simps ALL_PERMISSIONS_def)
  ultimately have "role_has_permission (us_role u) MANAGE_TENANTS \<longleftrightarrow> us_role u = ''platform_admin''"
    using known by (auto simp: role_has_permission_def role_le_def)
  then have "(\<exists>v. require_permission MANAGE_TENANTS u = Inr v) = (us_role u = ''platform_admin'')"
    by (auto simp: require_permission_def)
  moreover have "us_role u \<notin> set VALID_ROLES \<Longrightarrow> list_ex (role_has_permission (us_role u)) ps = False"
    by (auto simp: list_ex_iff role_has_permission_def role_permissions_simps)
  ultimately show ?thesis using known by (auto simp: require_any_permission_def)
qed

end
