(* ===== verification/BackendUag.thy ===== *)
theory BackendUag
  imports BackendToolSeq BackendIntents
begin

text \<open>
  \<open>backend/app/modules/uag/\<close>: the universal gateway.  A request becomes a canonical prompt, the model asked for is
  resolved to the model and provider to call, the prompt is translated to the protocol of the provider, and
  the answer is given back in the protocol chosen for the client.  Floats of a request keep their literal; the
  clock readings and the fresh request id are arguments.
\<close>

section \<open>Requests, answers, prompts, traces\<close>

record chat_request =
  cr_model :: string
  cr_messages :: "chat_message list"
  cr_temperature :: json
  cr_max_tokens :: "int option"
  cr_stream :: bool
  cr_routing_context :: "json dict option"
  cr_user :: "string option"
  cr_metadata :: "json dict option"
  cr_tools :: "json list option"

record chat_choice =
  ch_index :: int
  ch_message :: chat_message
  ch_finish_reason :: string

record chat_usage =
  us_prompt_tokens :: int
  us_completion_tokens :: int
  us_total_tokens :: int

record chat_response =
  co_id :: string
  co_object :: string
  co_created :: int
  co_model :: string
  co_choices :: "chat_choice list"
  co_usage :: chat_usage
  co_pysetu :: "json dict option"

record canonical_prompt =
  cp_tenant_id :: string
  cp_request_id :: string
  cp_source_protocol :: string
  cp_target_provider :: string
  cp_target_protocol :: string
  cp_model :: string
  cp_requested_model :: string
  cp_messages :: "chat_message list"
  cp_tools :: "json list option"
  cp_system_prompt :: "string option"
  cp_temperature :: json
  cp_max_tokens :: "int option"
  cp_metadata :: "json dict"

record translation_trace =
  tt_source_protocol :: string
  tt_requested_model :: string
  tt_canonical_model :: string
  tt_target_provider :: string
  tt_target_protocol :: string
  tt_translated_model :: string
  tt_governance_actions :: "string list"
  tt_translation_ms :: rat
  tt_policy_applied :: "string option"
  tt_compatibility_score :: json
  tt_unsupported_features :: "string list"
  tt_client_response_protocol_source :: "string option"

section \<open>Canonical prompts\<close>

definition text_for_inspection :: "canonical_prompt \<Rightarrow> string" where
  "text_for_inspection c =
     join [newline]
       ((case cp_system_prompt c of Some s \<Rightarrow> (if s \<noteq> [] then [s] else []) | None \<Rightarrow> []) @
        map cm_content (filter (\<lambda>m. cm_role m \<in> {''user'', ''system''}) (cp_messages c)))"

definition with_model :: "canonical_prompt \<Rightarrow> string \<Rightarrow> canonical_prompt" where
  "with_model c model = c\<lparr>cp_model := model\<rparr>"

definition plain_message :: "chat_message \<Rightarrow> chat_message" where
  "plain_message m =
     \<lparr>cm_role = cm_role m, cm_content = cm_content m, cm_tool_calls = None, cm_tool_call_id = None, cm_name = None\<rparr>"

definition build_canonical_from_openai ::
  "chat_request \<Rightarrow> string \<Rightarrow> string \<Rightarrow> string \<Rightarrow> string \<Rightarrow> json dict option \<Rightarrow> string \<Rightarrow> canonical_prompt" where
  "build_canonical_from_openai request tenant_id source_protocol target_provider target_protocol metadata request_id =
     (let system_parts = map cm_content (filter (\<lambda>m. cm_role m = ''system'') (cr_messages request)) in
      \<lparr>cp_tenant_id = tenant_id, cp_request_id = request_id, cp_source_protocol = source_protocol,
       cp_target_provider = target_provider, cp_target_protocol = target_protocol, cp_model = cr_model request,
       cp_requested_model = cr_model request, cp_messages = map plain_message (cr_messages request), cp_tools = None,
       cp_system_prompt = (if system_parts \<noteq> [] then Some (join [newline] system_parts) else None),
       cp_temperature = cr_temperature request, cp_max_tokens = cr_max_tokens request,
       cp_metadata = dict_set ''routing_context'' (JObj (case cr_routing_context request of None \<Rightarrow> [] | Some d \<Rightarrow> d))
         (case metadata of None \<Rightarrow> [] | Some d \<Rightarrow> d)\<rparr>)"

definition apply_messages_to_request :: "chat_request \<Rightarrow> chat_message list \<Rightarrow> chat_request" where
  "apply_messages_to_request request messages = request\<lparr>cr_messages := messages\<rparr>"

section \<open>Traces\<close>

text \<open>The text of a float that has at most two decimals.\<close>

definition show_hundredths :: "rat \<Rightarrow> string" where
  "show_hundredths x =
     (let n = \<lfloor>\<bar>x\<bar> * 100\<rfloor>; whole = n div 100; f = n mod 100 in
      (if x < 0 then ''-'' else []) @ show_int whole @ ''.'' @
      (if f mod 10 = 0 then show_int (f div 10) else show_int (f div 10) @ show_int (f mod 10)))"

definition trace_to_dict :: "translation_trace \<Rightarrow> json" where
  "trace_to_dict t =
     JObj [(''source_protocol'', JStr (tt_source_protocol t)), (''requested_model'', JStr (tt_requested_model t)),
       (''canonical_model'', JStr (tt_canonical_model t)), (''target_provider'', JStr (tt_target_provider t)),
       (''target_protocol'', JStr (tt_target_protocol t)), (''translated_model'', JStr (tt_translated_model t)),
       (''governance_actions'', JArr (map JStr (tt_governance_actions t))),
       (''translation_ms'', JFloat (show_hundredths (round2 (tt_translation_ms t)))),
       (''policy_applied'', opt_json (tt_policy_applied t)), (''compatibility_score'', tt_compatibility_score t),
       (''unsupported_features'', JArr (map JStr (tt_unsupported_features t))),
       (''client_response_protocol_source'', opt_json (tt_client_response_protocol_source t))]"

definition attach_trace :: "chat_response \<Rightarrow> translation_trace \<Rightarrow> string \<Rightarrow> chat_response" where
  "attach_trace response trace model =
     response\<lparr>co_pysetu := Some (dict_set ''uag'' (trace_to_dict trace)
          (case co_pysetu response of None \<Rightarrow> [] | Some d \<Rightarrow> d)), co_model := model\<rparr>"

definition attach_translation_to_response :: "chat_response \<Rightarrow> translation_trace \<Rightarrow> chat_response" where
  "attach_translation_to_response response trace = attach_trace response trace (tt_requested_model trace)"

section \<open>Providers\<close>

record provider_definition =
  pr_name :: string
  pr_protocol :: string
  pr_upstream_key :: string
  pr_supports_streaming :: bool
  pr_supports_tools :: bool
  pr_supports_structured_output :: bool

definition provider_of :: "string \<Rightarrow> string \<Rightarrow> string \<Rightarrow> provider_definition" where
  "provider_of name protocol key =
     \<lparr>pr_name = name, pr_protocol = protocol, pr_upstream_key = key, pr_supports_streaming = True, pr_supports_tools = True,
      pr_supports_structured_output = False\<rparr>"

definition PROVIDER_REGISTRY :: "provider_definition dict" where
  "PROVIDER_REGISTRY =
     [(''openai'', provider_of ''openai'' ''openai'' ''openai''),
      (''azure_openai'', provider_of ''azure_openai'' ''azure_openai'' ''openai''),
      (''gemini'', provider_of ''gemini'' ''gemini'' ''gemini''),
      (''claude'', provider_of ''claude'' ''anthropic'' ''claude''),
      (''anthropic'', provider_of ''anthropic'' ''anthropic'' ''claude''),
      (''ollama'', provider_of ''ollama'' ''openai-compatible'' ''ollama''),
      (''vllm'', provider_of ''vllm'' ''openai-compatible'' ''ollama''),
      (''deepseek'', provider_of ''deepseek'' ''openai-compatible'' ''openai'')]"

definition DEFAULT_COMPATIBILITY_SCORES :: "((string \<times> string) \<times> string) list" where
  "DEFAULT_COMPATIBILITY_SCORES =
     [((''openai'', ''gemini''), ''0.98''), ((''openai'', ''claude''), ''0.96''), ((''openai'', ''ollama''), ''0.92''),
      ((''openai'', ''azure_openai''), ''0.99''), ((''gemini'', ''openai''), ''0.97''), ((''claude'', ''openai''), ''0.95'')]"

definition get_provider :: "string \<Rightarrow> provider_definition option" where
  "get_provider name = dict_get PROVIDER_REGISTRY (lower (strip name))"

definition compatibility_score :: "string \<Rightarrow> string \<Rightarrow> string" where
  "compatibility_score source_protocol target_provider =
     (let a = lower (strip source_protocol); b = lower (strip target_provider) in
      case dict_get DEFAULT_COMPATIBILITY_SCORES (a, b) of
        Some s \<Rightarrow> s
      | None \<Rightarrow> if a = b then ''1.0'' else ''0.85'')"

definition unsupported_features :: "string \<Rightarrow> string \<Rightarrow> string list" where
  "unsupported_features source_protocol target_provider =
     (case get_provider target_provider of
        None \<Rightarrow> [''Unknown target provider'']
      | Some target \<Rightarrow>
          (if source_protocol = ''openai'' \<and> pr_protocol target = ''gemini''
           then [''Function calling parity'', ''Structured outputs''] else []) @
          (if target_provider \<in> {''ollama'', ''vllm''} then [''Reasoning models'', ''Native tool schemas''] else []))"

definition resolve_target_protocol :: "string \<Rightarrow> string" where
  "resolve_target_protocol provider_name =
     (case get_provider provider_name of None \<Rightarrow> ''openai'' | Some p \<Rightarrow> pr_protocol p)"

section \<open>Resolution of the model\<close>

record uag_mapping =
  um_id :: uuid
  um_tenant :: uuid
  um_requested_model :: string
  um_actual_model :: string
  um_target_provider :: string
  um_emulate_protocol :: string
  um_enabled :: bool

record llm_provider =
  lp_tenant :: uuid
  lp_name :: string
  lp_provider_type :: string
  lp_is_active :: bool
  lp_model_aliases :: "json list"

definition DEFAULT_MAPPINGS :: "(string \<times> string) dict" where
  "DEFAULT_MAPPINGS =
     [(''gpt-4o'', (''gemini-1.5-pro'', ''gemini'')), (''gpt-4o-mini'', (''gemini-1.5-flash'', ''gemini'')),
      (''gpt-4'', (''llama3.2'', ''ollama''))]"

definition normalize_target_provider :: "string \<Rightarrow> string" where
  "normalize_target_provider provider_type =
     (let normalized = lower (strip provider_type) in
      if normalized \<in> {''custom'', ''openai-compatible'', ''openai_compatible''} then ''openai''
      else if normalized = ''google'' then ''gemini''
      else normalized)"

definition dashed :: "string \<Rightarrow> string" where
  "dashed s = replace_char CHR '' '' CHR ''-'' s"

definition alias_matches :: "string \<Rightarrow> json \<Rightarrow> bool" where
  "alias_matches normalized alias =
     (let a = lower (strip (py_str alias)) in a = normalized \<or> dashed a = dashed normalized)"

definition provider_answers :: "string \<Rightarrow> llm_provider \<Rightarrow> bool" where
  "provider_answers normalized p \<longleftrightarrow>
     list_ex (alias_matches normalized) (lp_model_aliases p) \<or> lower (strip (lp_name p)) = normalized"

definition resolve_provider_from_registry :: "llm_provider list \<Rightarrow> uuid \<Rightarrow> string \<Rightarrow> (string \<times> string) option" where
  "resolve_provider_from_registry providers tenant requested_model =
     map_option (\<lambda>p. (lp_name p, normalize_target_provider (lp_provider_type p)))
       (find (provider_answers (lower (strip requested_model)))
         (filter (\<lambda>p. lp_tenant p = tenant \<and> lp_is_active p) providers))"

record resolved_model =
  rm_actual_model :: string
  rm_target_provider :: string
  rm_mapping_id :: "string option"
  rm_emulate_protocol :: string

definition resolve_model_mapping :: "uag_mapping list \<Rightarrow> llm_provider list \<Rightarrow> uuid \<Rightarrow> string \<Rightarrow> resolved_model" where
  "resolve_model_mapping mappings providers tenant requested_model =
     (let normalized = lower (strip requested_model);
          unmapped = \<lparr>rm_actual_model = requested_model, rm_target_provider = ''openai'', rm_mapping_id = None,
                      rm_emulate_protocol = ''openai''\<rparr>
      in
      if normalized \<in> {[], ''auto''} then unmapped
      else
        case find (\<lambda>r. lower (strip (um_requested_model r)) = normalized)
               (filter (\<lambda>r. um_tenant r = tenant \<and> um_enabled r) mappings) of
          Some r \<Rightarrow>
            \<lparr>rm_actual_model = um_actual_model r, rm_target_provider = um_target_provider r, rm_mapping_id = Some (um_id r),
             rm_emulate_protocol = (if um_emulate_protocol r = [] then ''openai'' else um_emulate_protocol r)\<rparr>
        | None \<Rightarrow>
            case dict_get DEFAULT_MAPPINGS normalized of
              Some (m, p) \<Rightarrow> unmapped\<lparr>rm_actual_model := m, rm_target_provider := p\<rparr>
            | None \<Rightarrow>
                case resolve_provider_from_registry providers tenant requested_model of
                  Some (m, p) \<Rightarrow> unmapped\<lparr>rm_actual_model := m, rm_target_provider := p\<rparr>
                | None \<Rightarrow> unmapped)"

section \<open>Translation of requests\<close>

text \<open>\<open>canonical.temperature or 0.7\<close> and \<open>{...} if canonical.max_tokens else {}\<close>\<close>

definition temperature_or_default :: "canonical_prompt \<Rightarrow> json" where
  "temperature_or_default c = (if truthy (cp_temperature c) then cp_temperature c else JFloat ''0.7'')"

definition max_tokens_entry :: "string \<Rightarrow> canonical_prompt \<Rightarrow> json dict" where
  "max_tokens_entry key c = (case cp_max_tokens c of Some n \<Rightarrow> if n \<noteq> 0 then [(key, JInt n)] else [] | None \<Rightarrow> [])"

definition dump_message :: "chat_message \<Rightarrow> json" where
  "dump_message m =
     JObj [(''role'', JStr (cm_role m)), (''content'', JStr (cm_content m)),
       (''tool_calls'', (case cm_tool_calls m of None \<Rightarrow> JNull | Some tcs \<Rightarrow> JArr tcs)),
       (''tool_call_id'', opt_json (cm_tool_call_id m)), (''name'', opt_json (cm_name m))]"

definition openai_to_upstream :: "canonical_prompt \<Rightarrow> json dict" where
  "openai_to_upstream c =
     [(''model'', JStr (cp_model c)), (''messages'', JArr (map dump_message (cp_messages c))),
      (''temperature'', temperature_or_default c)] @ max_tokens_entry ''max_tokens'' c"

definition azure_to_upstream :: "canonical_prompt \<Rightarrow> json dict" where
  "azure_to_upstream c = dict_set ''azure_deployment'' (JStr (cp_model c)) (openai_to_upstream c)"

definition dialogue :: "canonical_prompt \<Rightarrow> chat_message list" where
  "dialogue c = filter (\<lambda>m. cm_role m \<noteq> ''system'') (cp_messages c)"

definition claude_to_upstream :: "canonical_prompt \<Rightarrow> json dict" where
  "claude_to_upstream c =
     [(''model'', JStr (cp_model c)),
      (''messages'', JArr (map (\<lambda>m. JObj [(''role'', JStr (cm_role m)), (''content'', JStr (cm_content m))]) (dialogue c))),
      (''max_tokens'', JInt (case cp_max_tokens c of Some n \<Rightarrow> if n \<noteq> 0 then n else 1024 | None \<Rightarrow> 1024)),
      (''temperature'', temperature_or_default c)] @
     (case cp_system_prompt c of Some s \<Rightarrow> if s \<noteq> [] then [(''system'', JStr s)] else [] | None \<Rightarrow> [])"

definition text_part :: "string \<Rightarrow> json" where
  "text_part s = JObj [(''text'', JStr s)]"

definition gemini_to_upstream :: "canonical_prompt \<Rightarrow> json dict" where
  "gemini_to_upstream c =
     [(''contents'', JArr (map (\<lambda>m. JObj [(''role'', JStr (if cm_role m = ''user'' then ''user'' else ''model'')),
         (''parts'', JArr [text_part (cm_content m)])]) (dialogue c)))] @
     (case cp_system_prompt c of
        Some s \<Rightarrow> if s \<noteq> [] then [(''systemInstruction'', JObj [(''parts'', JArr [text_part s])])] else []
      | None \<Rightarrow> []) @
     [(''generationConfig'', JObj ((''temperature'', temperature_or_default c) # max_tokens_entry ''maxOutputTokens'' c)),
      (''_gemini_model'', JStr (cp_model c))]"

datatype translator = OpenAITranslator | AzureOpenAITranslator | GeminiTranslator | ClaudeTranslator

definition TRANSLATORS :: "translator dict" where
  "TRANSLATORS =
     [(''openai'', OpenAITranslator), (''azure_openai'', AzureOpenAITranslator), (''gemini'', GeminiTranslator),
      (''anthropic'', ClaudeTranslator), (''claude'', ClaudeTranslator), (''openai-compatible'', OpenAITranslator)]"

definition get_translator :: "string \<Rightarrow> translator" where
  "get_translator protocol = dict_get_or TRANSLATORS (lower (strip protocol)) OpenAITranslator"

fun translate_to_upstream :: "translator \<Rightarrow> canonical_prompt \<Rightarrow> json dict" where
  "translate_to_upstream OpenAITranslator c = openai_to_upstream c"
| "translate_to_upstream AzureOpenAITranslator c = azure_to_upstream c"
| "translate_to_upstream GeminiTranslator c = gemini_to_upstream c"
| "translate_to_upstream ClaudeTranslator c = claude_to_upstream c"

definition translate_request :: "canonical_prompt \<Rightarrow> rat \<Rightarrow> json dict \<times> translation_trace" where
  "translate_request c elapsed_ms =
     (translate_to_upstream (get_translator (cp_target_protocol c)) c,
      \<lparr>tt_source_protocol = cp_source_protocol c, tt_requested_model = cp_requested_model c, tt_canonical_model = cp_model c,
       tt_target_provider = cp_target_provider c, tt_target_protocol = cp_target_protocol c, tt_translated_model = cp_model c,
       tt_governance_actions = [], tt_translation_ms = elapsed_ms, tt_policy_applied = None,
       tt_compatibility_score = JFloat (compatibility_score (cp_source_protocol c) (cp_target_provider c)),
       tt_unsupported_features = unsupported_features (cp_source_protocol c) (cp_target_provider c),
       tt_client_response_protocol_source = None\<rparr>)"

text \<open>A response object keeps everything but the model; all four translators do the same.\<close>

definition translate_response :: "canonical_prompt \<Rightarrow> chat_response \<Rightarrow> chat_response" where
  "translate_response c response = response\<lparr>co_model := cp_requested_model c\<rparr>"

section \<open>Answers in the protocol of the client\<close>

definition SUPPORTED_CLIENT_PROTOCOLS :: "string list" where
  "SUPPORTED_CLIENT_PROTOCOLS = [''openai'', ''gemini'', ''anthropic'', ''claude'']"

definition normalize_client_protocol :: "string \<Rightarrow> string" where
  "normalize_client_protocol protocol =
     (let lowered = lower (strip protocol) in
      if lowered = ''claude'' then ''anthropic''
      else if lowered \<in> set SUPPORTED_CLIENT_PROTOCOLS then lowered
      else ''openai'')"

definition resolve_client_response_protocol_with_source ::
  "string option \<Rightarrow> string option \<Rightarrow> string \<Rightarrow> string \<times> string" where
  "resolve_client_response_protocol_with_source mapping_protocol api_key_protocol tenant_protocol =
     (case mapping_protocol of
        Some (c # s) \<Rightarrow> (normalize_client_protocol (c # s), ''mapping'')
      | _ \<Rightarrow>
          case api_key_protocol of
            Some k \<Rightarrow>
              if k \<noteq> [] \<and> lower (strip k) \<notin> {[], ''inherit'', ''default'', ''auto''}
              then (normalize_client_protocol k, ''api_key'') else (normalize_client_protocol tenant_protocol, ''tenant'')
          | None \<Rightarrow> (normalize_client_protocol tenant_protocol, ''tenant''))"

definition resolve_client_response_protocol :: "string option \<Rightarrow> string option \<Rightarrow> string \<Rightarrow> string" where
  "resolve_client_response_protocol mapping_protocol api_key_protocol tenant_protocol =
     fst (resolve_client_response_protocol_with_source mapping_protocol api_key_protocol tenant_protocol)"

text \<open>\<open>model_dump(exclude_none=True)\<close> of a message, a choice, the usage and a response.\<close>

definition some_entry :: "string \<Rightarrow> json option \<Rightarrow> json dict" where
  "some_entry k v = (case v of None \<Rightarrow> [] | Some x \<Rightarrow> [(k, x)])"

text \<open>\<open>exclude_none\<close> also drops the entries that are None in the dictionaries of tool calls.\<close>

fun drop_none :: "json \<Rightarrow> json" where
  "drop_none (JObj kvs) = JObj (map (\<lambda>(k, v). (k, drop_none v)) (filter (\<lambda>(k, v). v \<noteq> JNull) kvs))"
| "drop_none (JArr vs) = JArr (map drop_none vs)"
| "drop_none v = v"

definition dump_message_set :: "chat_message \<Rightarrow> json" where
  "dump_message_set m =
     JObj ([(''role'', JStr (cm_role m)), (''content'', JStr (cm_content m))] @
       some_entry ''tool_calls'' (map_option (\<lambda>tcs. JArr (map drop_none tcs)) (cm_tool_calls m)) @
       some_entry ''tool_call_id'' (map_option JStr (cm_tool_call_id m)) @ some_entry ''name'' (map_option JStr (cm_name m)))"

definition serialize_openai :: "chat_response \<Rightarrow> json dict" where
  "serialize_openai r =
     [(''id'', JStr (co_id r)), (''object'', JStr (co_object r)), (''created'', JInt (co_created r)),
      (''model'', JStr (co_model r)),
      (''choices'', JArr (map (\<lambda>c. JObj [(''index'', JInt (ch_index c)), (''message'', dump_message_set (ch_message c)),
         (''finish_reason'', JStr (ch_finish_reason c))]) (co_choices r))),
      (''usage'', JObj [(''prompt_tokens'', JInt (us_prompt_tokens (co_usage r))),
         (''completion_tokens'', JInt (us_completion_tokens (co_usage r))), (''total_tokens'', JInt (us_total_tokens (co_usage r)))])]"

definition answer_text :: "chat_response \<Rightarrow> string" where
  "answer_text r = (case co_choices r of [] \<Rightarrow> [] | c # _ \<Rightarrow> cm_content (ch_message c))"

definition map_gemini_finish_reason :: "string \<Rightarrow> string" where
  "map_gemini_finish_reason reason =
     dict_get_or [(''stop'', ''STOP''), (''length'', ''MAX_TOKENS''), (''content_filter'', ''SAFETY'')] (lower reason) ''STOP''"

definition client_model :: "chat_response \<Rightarrow> canonical_prompt option \<Rightarrow> string" where
  "client_model r c = (case c of Some p \<Rightarrow> cp_requested_model p | None \<Rightarrow> co_model r)"

definition serialize_gemini :: "chat_response \<Rightarrow> canonical_prompt option \<Rightarrow> json dict" where
  "serialize_gemini r c =
     [(''candidates'', JArr [JObj
        [(''content'', JObj [(''parts'', JArr [text_part (answer_text r)]), (''role'', JStr ''model'')]),
         (''finishReason'', JStr (map_gemini_finish_reason
            (case co_choices r of [] \<Rightarrow> ''stop'' | ch # _ \<Rightarrow> ch_finish_reason ch))),
         (''index'', JInt 0)]]),
      (''usageMetadata'', JObj [(''promptTokenCount'', JInt (us_prompt_tokens (co_usage r))),
         (''candidatesTokenCount'', JInt (us_completion_tokens (co_usage r))),
         (''totalTokenCount'', JInt (us_total_tokens (co_usage r)))]),
      (''modelVersion'', JStr (client_model r c))]"

definition serialize_anthropic :: "chat_response \<Rightarrow> canonical_prompt option \<Rightarrow> json dict" where
  "serialize_anthropic r c =
     [(''id'', JStr (co_id r)), (''type'', JStr ''message''), (''role'', JStr ''assistant''), (''model'', JStr (client_model r c)),
      (''content'', JArr [JObj [(''type'', JStr ''text''), (''text'', JStr (answer_text r))]]),
      (''stop_reason'', JStr ''end_turn''),
      (''usage'', JObj [(''input_tokens'', JInt (us_prompt_tokens (co_usage r))),
         (''output_tokens'', JInt (us_completion_tokens (co_usage r)))])]"

definition serialize_gateway_response ::
  "string \<Rightarrow> chat_response \<Rightarrow> canonical_prompt option \<Rightarrow> bool \<Rightarrow> json dict" where
  "serialize_gateway_response protocol response canonical include_metadata =
     (let normalized = normalize_client_protocol protocol;
          body = (if normalized = ''gemini'' then serialize_gemini response canonical
                  else if normalized = ''anthropic'' then serialize_anthropic response canonical
                  else serialize_openai response)
      in case co_pysetu response of
           Some (e # es) \<Rightarrow> if include_metadata then dict_set ''pysetu'' (JObj (e # es)) body else body
         | _ \<Rightarrow> body)"

section \<open>The pipeline\<close>

record uag_pipeline_result =
  up_canonical :: canonical_prompt
  up_trace :: translation_trace
  up_translated_request :: chat_request
  up_client_response_protocol :: string

definition uag_client_protocol_setting :: "string option option \<Rightarrow> string" where
  "uag_client_protocol_setting integration =
     (case integration of
        None \<Rightarrow> ''openai''
      | Some p \<Rightarrow> normalize_client_protocol (case p of Some (c # s) \<Rightarrow> c # s | _ \<Rightarrow> ''openai''))"

record translation_policy_decision =
  tp_target_provider :: string
  tp_emulate_protocol :: string
  tp_policy_name :: "string option"

definition evaluate_translation_policies :: "string \<Rightarrow> translation_policy_decision" where
  "evaluate_translation_policies default_provider =
     \<lparr>tp_target_provider = default_provider, tp_emulate_protocol = ''openai'', tp_policy_name = None\<rparr>"

definition run_uag_pre_governance ::
  "string option option \<Rightarrow> uag_mapping list \<Rightarrow> llm_provider list \<Rightarrow> chat_request \<Rightarrow> uuid \<Rightarrow> string option \<Rightarrow> string \<Rightarrow> uag_pipeline_result"
where
  "run_uag_pre_governance integration mappings providers request tenant api_key_protocol request_id =
     (let resolved = resolve_model_mapping mappings providers tenant (cr_model request);
          mapping_protocol = (if rm_mapping_id resolved \<noteq> None then Some (rm_emulate_protocol resolved) else None);
          (client_protocol, protocol_source) =
            resolve_client_response_protocol_with_source mapping_protocol api_key_protocol (uag_client_protocol_setting integration);
          built = build_canonical_from_openai request tenant client_protocol ''openai'' ''openai'' None request_id;
          policy = evaluate_translation_policies (rm_target_provider resolved);
          provider = (if tp_target_provider policy \<noteq> [] then tp_target_provider policy else rm_target_provider resolved);
          canonical = built\<lparr>cp_source_protocol := client_protocol, cp_target_provider := provider,
            cp_target_protocol := resolve_target_protocol provider, cp_model := rm_actual_model resolved,
            cp_requested_model := cr_model request\<rparr>
      in
      \<lparr>up_canonical = canonical,
       up_trace =
         \<lparr>tt_source_protocol = client_protocol, tt_requested_model = cp_requested_model canonical,
          tt_canonical_model = cp_model canonical, tt_target_provider = cp_target_provider canonical,
          tt_target_protocol = cp_target_protocol canonical, tt_translated_model = cp_model canonical,
          tt_governance_actions = [], tt_translation_ms = 0, tt_policy_applied = tp_policy_name policy,
          tt_compatibility_score = JNull, tt_unsupported_features = [],
          tt_client_response_protocol_source = Some protocol_source\<rparr>,
       up_translated_request =
         \<lparr>cr_model = rm_actual_model resolved, cr_messages = cr_messages request, cr_temperature = cr_temperature request,
          cr_max_tokens = cr_max_tokens request, cr_stream = cr_stream request,
          cr_routing_context = cr_routing_context request, cr_user = None, cr_metadata = None, cr_tools = None\<rparr>,
       up_client_response_protocol = client_protocol\<rparr>)"

definition run_uag_post_upstream :: "canonical_prompt \<Rightarrow> translation_trace \<Rightarrow> chat_response \<Rightarrow> rat \<Rightarrow> chat_response" where
  "run_uag_post_upstream canonical trace response elapsed_ms =
     attach_trace (translate_response canonical response)
       (trace\<lparr>tt_translation_ms := tt_translation_ms trace + elapsed_ms\<rparr>) (cp_requested_model canonical)"

text \<open>\<open>detect_protocol\<close>: the headers are a plain dictionary, so their names are compared as they are.\<close>

definition header_set :: "string dict option \<Rightarrow> string \<Rightarrow> bool" where
  "header_set headers k = (case headers of None \<Rightarrow> False | Some h \<Rightarrow> dict_get_or h k [] \<noteq> [])"

definition detect_protocol :: "string \<Rightarrow> string \<Rightarrow> string dict option \<Rightarrow> string" where
  "detect_protocol source_protocol path headers =
     (if contains ''generatecontent'' (lower path) \<or> header_set headers ''x-goog-api-client'' then ''gemini''
      else if header_set headers ''anthropic-version'' then ''anthropic''
      else source_protocol)"

definition dump_request :: "chat_request \<Rightarrow> json" where
  "dump_request r =
     (let obj = (\<lambda>d. case d of None \<Rightarrow> JNull | Some d \<Rightarrow> JObj d) in
      JObj [(''model'', JStr (cr_model r)), (''messages'', JArr (map dump_message (cr_messages r))),
        (''temperature'', cr_temperature r), (''max_tokens'', (case cr_max_tokens r of None \<Rightarrow> JNull | Some n \<Rightarrow> JInt n)),
        (''stream'', JBool (cr_stream r)), (''routing_context'', obj (cr_routing_context r)), (''user'', opt_json (cr_user r)),
        (''metadata'', obj (cr_metadata r)), (''tools'', (case cr_tools r of None \<Rightarrow> JNull | Some ts \<Rightarrow> JArr ts))])"

definition simulate_translation ::
  "string option option \<Rightarrow> uag_mapping list \<Rightarrow> llm_provider list \<Rightarrow> chat_request \<Rightarrow> uuid \<Rightarrow> string \<Rightarrow> rat \<Rightarrow> json dict"
where
  "simulate_translation integration mappings providers request tenant request_id elapsed_ms =
     (let pipeline = run_uag_pre_governance integration mappings providers request tenant None request_id;
          c = up_canonical pipeline;
          (upstream_payload, trace) = translate_request c elapsed_ms
      in
      [(''original_request'', dump_request request),
       (''canonical'',
          JObj [(''source_protocol'', JStr (cp_source_protocol c)), (''requested_model'', JStr (cp_requested_model c)),
            (''model'', JStr (cp_model c)), (''target_provider'', JStr (cp_target_provider c)),
            (''target_protocol'', JStr (cp_target_protocol c)), (''messages'', JArr (map dump_message (cp_messages c)))]),
       (''translated_request'', JObj upstream_payload), (''trace'', trace_to_dict trace),
       (''client_response_protocol'', JStr (up_client_response_protocol pipeline))])"

end
