(* ===== verification/BackendUagFacts.thy ===== *)
theory BackendUagFacts
  imports BackendUag
begin

text \<open>
  What the universal gateway preserves: a provider reads the conversation of the request from the body made for its
  protocol, and a client reads the answer of the provider from the body made for its own.  Both readings are
  specifications: they follow the documented shape of each protocol, not the code.
\<close>

section \<open>Reading JSON\<close>

definition entry :: "string \<Rightarrow> json \<Rightarrow> json" where
  "entry k v = (case v of JObj d \<Rightarrow> dict_get_or d k JNull | _ \<Rightarrow> JNull)"

definition items :: "json \<Rightarrow> json list" where
  "items v = (case v of JArr vs \<Rightarrow> vs | _ \<Rightarrow> [])"

definition first_item :: "json \<Rightarrow> json" where
  "first_item v = (case items v of x # _ \<Rightarrow> x | [] \<Rightarrow> JNull)"

lemma entry_JObj [simp]: "entry k (JObj d) = dict_get_or d k JNull"
  by (simp add: entry_def)

lemma entry_JNull [simp]: "entry k JNull = JNull"
  by (simp add: entry_def)

lemma entry_set_other: "k \<noteq> k' \<Longrightarrow> dict_get_or (dict_set k' v d) k JNull = dict_get_or d k JNull"
  by (simp add: dict_get_or_def)

lemma items_simps [simp]: "items (JArr vs) = vs" "items JNull = []" "first_item (JArr (v # vs)) = v" "first_item JNull = JNull"
  by (simp_all add: items_def first_item_def)

declare dict_get_or_Cons [simp]

lemma dict_get_or_append:
  "dict_get_or (a @ b) k x = (if k \<in> fst ` set a then dict_get_or a k x else dict_get_or b k x)"
  by (induction a) force+

section \<open>What a client reads\<close>

text \<open>Model, text, tokens of the prompt and tokens of the answer.\<close>

definition client_reads :: "string \<Rightarrow> json \<Rightarrow> json list" where
  "client_reads protocol body =
     (if protocol = ''gemini'' then
        [entry ''modelVersion'' body,
         entry ''text'' (first_item (entry ''parts'' (entry ''content'' (first_item (entry ''candidates'' body))))),
         entry ''promptTokenCount'' (entry ''usageMetadata'' body),
         entry ''candidatesTokenCount'' (entry ''usageMetadata'' body)]
      else if protocol = ''anthropic'' then
        [entry ''model'' body, entry ''text'' (first_item (entry ''content'' body)),
         entry ''input_tokens'' (entry ''usage'' body), entry ''output_tokens'' (entry ''usage'' body)]
      else
        [entry ''model'' body, entry ''content'' (entry ''message'' (first_item (entry ''choices'' body))),
         entry ''prompt_tokens'' (entry ''usage'' body), entry ''completion_tokens'' (entry ''usage'' body)])"

definition answer_parts :: "string \<Rightarrow> chat_response \<Rightarrow> json list" where
  "answer_parts model r =
     [JStr model, JStr (answer_text r), JInt (us_prompt_tokens (co_usage r)), JInt (us_completion_tokens (co_usage r))]"

lemma client_reads_metadata: "client_reads p (JObj (dict_set ''pysetu'' m body)) = client_reads p (JObj body)"
  by (simp add: client_reads_def entry_set_other)

lemma client_reads_gemini: "client_reads ''gemini'' (JObj (serialize_gemini r c)) = answer_parts (client_model r c) r"
  by (simp add: client_reads_def serialize_gemini_def answer_parts_def text_part_def)

lemma client_reads_anthropic: "client_reads ''anthropic'' (JObj (serialize_anthropic r c)) = answer_parts (client_model r c) r"
  by (simp add: client_reads_def serialize_anthropic_def answer_parts_def)

lemma client_reads_openai:
  "p \<noteq> ''gemini'' \<Longrightarrow> p \<noteq> ''anthropic'' \<Longrightarrow> co_choices r \<noteq> [] \<Longrightarrow>
   client_reads p (JObj (serialize_openai r)) = answer_parts (co_model r) r"
  by (cases "co_choices r") (simp_all add: client_reads_def serialize_openai_def answer_parts_def answer_text_def dump_message_set_def)

lemma client_protocols: "normalize_client_protocol p \<in> {''openai'', ''gemini'', ''anthropic''}"
  by (auto simp: normalize_client_protocol_def SUPPORTED_CLIENT_PROTOCOLS_def Let_def)

lemma normalize_client_protocol_idem [simp]:
  "normalize_client_protocol (normalize_client_protocol p) = normalize_client_protocol p"
proof -
  have "normalize_client_protocol q = q" if "q \<in> {''openai'', ''gemini'', ''anthropic''}" for q
    using that by (elim insertE emptyE; hypsubst; code_simp)
  then show ?thesis using client_protocols by blast
qed

lemma resolved_protocol:
  "fst (resolve_client_response_protocol_with_source m k t) \<in> {''openai'', ''gemini'', ''anthropic''}"
  using client_protocols
  by (auto simp: resolve_client_response_protocol_with_source_def Let_def split: option.splits list.splits)

lemma client_reads_serialized:
  assumes "co_choices r \<noteq> []" "co_model r = client_model r c" "normalize_client_protocol p = p"
  shows "client_reads p (JObj (serialize_gateway_response p r c m)) = answer_parts (co_model r) r"
  using assms
  by (auto simp: serialize_gateway_response_def Let_def client_reads_metadata client_reads_gemini client_reads_anthropic
      client_reads_openai split: option.splits list.splits)

lemma pre_governance_models:
  "cp_requested_model (up_canonical (run_uag_pre_governance i ms ps req t k rid)) = cr_model req"
  by (simp add: run_uag_pre_governance_def Let_def split_beta)

lemma pre_governance_protocol:
  "normalize_client_protocol (up_client_response_protocol (run_uag_pre_governance i ms ps req t k rid)) =
   up_client_response_protocol (run_uag_pre_governance i ms ps req t k rid)"
proof -
  let ?p = "up_client_response_protocol (run_uag_pre_governance i ms ps req t k rid)"
  have "?p \<in> {''openai'', ''gemini'', ''anthropic''}"
    using resolved_protocol by (simp add: run_uag_pre_governance_def Let_def split_beta)
  moreover have "normalize_client_protocol q = q" if "q \<in> {''openai'', ''gemini'', ''anthropic''}" for q
    using that by (elim insertE emptyE; hypsubst; code_simp)
  ultimately show ?thesis by blast
qed

section \<open>What a provider reads\<close>

text \<open>The text of the system prompt, and the turns: whether the user speaks, and what is said.\<close>

definition system_text :: "string list \<Rightarrow> string" where
  "system_text parts = join [newline] parts"

definition provider_reads :: "translator \<Rightarrow> json \<Rightarrow> json \<times> (bool \<times> json) list" where
  "provider_reads tr body =
     (let turn = (\<lambda>content m. (entry ''role'' m = JStr ''user'', content m)) in
      case tr of
        GeminiTranslator \<Rightarrow>
          (entry ''text'' (first_item (entry ''parts'' (entry ''systemInstruction'' body))),
           map (turn (\<lambda>m. entry ''text'' (first_item (entry ''parts'' m)))) (items (entry ''contents'' body)))
      | ClaudeTranslator \<Rightarrow>
          (entry ''system'' body, map (turn (entry ''content'')) (items (entry ''messages'' body)))
      | _ \<Rightarrow>
          (let (sys, said) = partition (\<lambda>m. entry ''role'' m = JStr ''system'') (items (entry ''messages'' body)) in
           (if sys = [] \<or> join [newline] (map (\<lambda>m. case entry ''content'' m of JStr s \<Rightarrow> s | _ \<Rightarrow> []) sys) = [] then JNull
            else JStr (join [newline] (map (\<lambda>m. case entry ''content'' m of JStr s \<Rightarrow> s | _ \<Rightarrow> []) sys)),
            map (turn (entry ''content'')) said)))"

definition conversation :: "chat_message list \<Rightarrow> json \<times> (bool \<times> json) list" where
  "conversation ms =
     (let sys = join [newline] (map cm_content (filter (\<lambda>m. cm_role m = ''system'') ms)) in
      (if sys = [] then JNull else JStr sys,
       map (\<lambda>m. (cm_role m = ''user'', JStr (cm_content m))) (filter (\<lambda>m. cm_role m \<noteq> ''system'') ms)))"

lemma dump_message_entries [simp]:
  "entry ''role'' (dump_message m) = JStr (cm_role m)" "entry ''content'' (dump_message m) = JStr (cm_content m)"
  by (simp_all add: dump_message_def)

lemma plain_message_simps [simp]: "cm_role (plain_message m) = cm_role m" "cm_content (plain_message m) = cm_content m"
  by (simp_all add: plain_message_def)

lemma canonical_conversation:
  assumes "c = build_canonical_from_openai req t sp tp tpr meta rid"
  shows "(case cp_system_prompt c of Some (x # s) \<Rightarrow> JStr (x # s) | _ \<Rightarrow> JNull) = fst (conversation (cr_messages req))"
    "map (\<lambda>m. (cm_role m = ''user'', JStr (cm_content m))) (dialogue c) = snd (conversation (cr_messages req))"
    "conversation (cp_messages c) = conversation (cr_messages req)"
  using assms
  by (auto simp: build_canonical_from_openai_def Let_def conversation_def dialogue_def filter_map comp_def split: list.splits)

lemma openai_reads: "provider_reads OpenAITranslator (JObj (openai_to_upstream c)) = conversation (cp_messages c)"
  by (auto simp: provider_reads_def openai_to_upstream_def conversation_def Let_def filter_map comp_def)

lemma azure_reads: "provider_reads AzureOpenAITranslator (JObj (azure_to_upstream c)) = conversation (cp_messages c)"
proof -
  have "entry ''messages'' (JObj (azure_to_upstream c)) = entry ''messages'' (JObj (openai_to_upstream c))"
    by (simp add: azure_to_upstream_def entry_set_other)
  then show ?thesis using openai_reads [of c] by (simp add: provider_reads_def)
qed

lemma claude_reads:
  "provider_reads ClaudeTranslator (JObj (claude_to_upstream c)) =
   (case cp_system_prompt c of Some (x # s) \<Rightarrow> JStr (x # s) | _ \<Rightarrow> JNull,
    map (\<lambda>m. (cm_role m = ''user'', JStr (cm_content m))) (dialogue c))"
  by (auto simp: provider_reads_def claude_to_upstream_def comp_def split: option.splits list.splits)

lemma gemini_reads:
  "provider_reads GeminiTranslator (JObj (gemini_to_upstream c)) =
   (case cp_system_prompt c of Some (x # s) \<Rightarrow> JStr (x # s) | _ \<Rightarrow> JNull,
    map (\<lambda>m. (cm_role m = ''user'', JStr (cm_content m))) (dialogue c))"
  by (auto simp: provider_reads_def gemini_to_upstream_def text_part_def comp_def split: option.splits list.splits)

section \<open>Properties\<close>

text \<open>C22: whatever protocol the gateway resolves for a client, the client reads from the serialized body the model
  it asked for, the text the provider answered and the tokens the provider counted.\<close>

theorem answer_round_trip:
  assumes "result = run_uag_pre_governance integration mappings providers request tenant api_key_protocol rid"
    and "co_choices answer \<noteq> []"
    and "response = run_uag_post_upstream (up_canonical result) (up_trace result) answer ms"
  shows "client_reads (up_client_response_protocol result)
      (JObj (serialize_gateway_response (up_client_response_protocol result) response (Some (up_canonical result)) meta)) =
    answer_parts (cr_model request) answer"
proof -
  have r: "co_choices response = co_choices answer" "co_usage response = co_usage answer" "co_model response = cr_model request"
    by (simp_all add: assms(1,3) run_uag_post_upstream_def translate_response_def attach_trace_def pre_governance_models)
  then have "answer_parts (co_model response) response = answer_parts (cr_model request) answer"
    by (simp add: answer_parts_def answer_text_def)
  moreover have "co_model response = client_model response (Some (up_canonical result))"
    by (simp add: r(3) client_model_def assms(1) pre_governance_models)
  ultimately show ?thesis
    using client_reads_serialized [of response "Some (up_canonical result)"] r(1) assms(2) pre_governance_protocol
    by (simp add: assms(1))
qed

definition sample_request :: chat_request where
  "sample_request =
     \<lparr>cr_model = ''gpt-4o'',
      cr_messages = [\<lparr>cm_role = ''user'', cm_content = ''hi'', cm_tool_calls = None, cm_tool_call_id = None, cm_name = None\<rparr>],
      cr_temperature = JFloat ''0.7'', cr_max_tokens = None, cr_stream = False, cr_routing_context = None, cr_user = None,
      cr_metadata = None, cr_tools = None\<rparr>"

definition sample_answer :: chat_response where
  "sample_answer =
     \<lparr>co_id = ''chatcmpl-1'', co_object = ''chat.completion'', co_created = 0, co_model = ''gemini-1.5-pro'',
      co_choices = [\<lparr>ch_index = 0,
        ch_message = \<lparr>cm_role = ''assistant'', cm_content = ''hello'', cm_tool_calls = None, cm_tool_call_id = None, cm_name = None\<rparr>,
        ch_finish_reason = ''stop''\<rparr>],
      co_usage = \<lparr>us_prompt_tokens = 3, us_completion_tokens = 1, us_total_tokens = 4\<rparr>, co_pysetu = None\<rparr>"

theorem answer_round_trip_witness:
  "let result = run_uag_pre_governance None [] [] sample_request ''t'' (Some ''Claude'') ''req-1'';
       response = run_uag_post_upstream (up_canonical result) (up_trace result) sample_answer 1
   in client_reads (up_client_response_protocol result)
        (JObj (serialize_gateway_response (up_client_response_protocol result) response (Some (up_canonical result)) True)) =
      [JStr ''gpt-4o'', JStr ''hello'', JInt 3, JInt 1]"
proof -
  have "co_choices sample_answer \<noteq> []" by (simp add: sample_answer_def)
  from answer_round_trip [OF refl this refl, of None "[]" "[]" sample_request "''t''" "Some ''Claude''" "''req-1''" 1 True]
  show ?thesis by (simp add: Let_def answer_parts_def answer_text_def sample_answer_def sample_request_def)
qed

text \<open>C23: whatever the protocol of the target provider, the body sent upstream carries the conversation of the
  request: the system text, and every other message in order with its speaker and its content.\<close>

theorem translation_keeps_conversation:
  "provider_reads (get_translator protocol)
     (JObj (fst (translate_request ((build_canonical_from_openai request tenant source provider p meta rid)
        \<lparr>cp_target_protocol := protocol, cp_target_provider := target, cp_model := model\<rparr>) ms))) =
   conversation (cr_messages request)"
proof -
  define c where "c = build_canonical_from_openai request tenant source provider p meta rid"
  note k = canonical_conversation [OF c_def]
  have d: "dialogue (c\<lparr>cp_target_protocol := protocol, cp_target_provider := target, cp_model := model\<rparr>) = dialogue c"
    by (simp add: dialogue_def)
  show ?thesis
    unfolding c_def [symmetric]
    by (cases "get_translator protocol")
      (simp_all add: translate_request_def openai_reads azure_reads claude_reads gemini_reads d k)
qed

end
