(* ===== verification/BackendMcpTools.thy ===== *)
theory BackendMcpTools
  imports BackendToolSeq
begin

text \<open>
  The tools of MCP servers and who sees them: \<open>mcp_tool_risk_service.py\<close> (the risk of a tool and the overrides in
  the configuration of its server), \<open>mcp_agent_service.py\<close> (which client applications may use MCP, and which
  servers), the definitions of tools in \<open>mcp_rest_proxy_service.py\<close> and the catalogs of \<open>dynamic_tool_service.py\<close>.  The
  configuration of a server is the value of its JSON column: an object or null.
\<close>

section \<open>The risk of a tool\<close>

definition RISK_READ :: string where "RISK_READ = ''read''"
definition RISK_WRITE :: string where "RISK_WRITE = ''write''"
definition RISK_DESTRUCTIVE :: string where "RISK_DESTRUCTIVE = ''destructive''"

definition ALLOWED_RISKS :: "string list" where
  "ALLOWED_RISKS = [RISK_READ, RISK_WRITE, RISK_DESTRUCTIVE]"

lemmas risk_names = RISK_READ_def RISK_WRITE_def RISK_DESTRUCTIVE_def

definition TOKEN_RE :: pattern where
  "TOKEN_RE = re_const no_flags ''[a-z0-9]+''"

definition DESTRUCTIVE_TOKENS :: "string list" where
  "DESTRUCTIVE_TOKENS =
     [''delete'', ''destroy'', ''drop'', ''purge'', ''remove'', ''rm'', ''truncate'', ''unlink'', ''wipe'', ''kill'', ''revoke'', ''erase'']"

definition WRITE_TOKENS :: "string list" where
  "WRITE_TOKENS =
     [''create'', ''update'', ''write'', ''post'', ''send'', ''put'', ''patch'', ''insert'', ''set'', ''add'', ''upload'', ''move'',
      ''rename'', ''append'', ''edit'', ''replace'']"

definition READ_TOKENS :: "string list" where
  "READ_TOKENS =
     [''get'', ''list'', ''search'', ''read'', ''fetch'', ''find'', ''describe'', ''query'', ''lookup'', ''show'', ''view'', ''stat'']"

definition tokens :: "string \<Rightarrow> string list" where
  "tokens text =
     map m_text (re_finditer (p_regex TOKEN_RE) (p_flags TOKEN_RE)
       (replace_char CHR ''_'' CHR '' '' (replace_char CHR ''-'' CHR ''_'' (lower text))))"

definition meets :: "string list \<Rightarrow> string list \<Rightarrow> bool" where
  "meets xs ys \<longleftrightarrow> list_ex (\<lambda>x. x \<in> set ys) xs"

definition classify_tool_risk :: "string \<Rightarrow> string \<Rightarrow> string" where
  "classify_tool_risk name description =
     (let ts = tokens (name @ '' '' @ description) in
      if meets ts DESTRUCTIVE_TOKENS then RISK_DESTRUCTIVE
      else if meets ts WRITE_TOKENS then RISK_WRITE
      else if meets ts READ_TOKENS then RISK_READ
      else RISK_READ)"

section \<open>Overrides\<close>

record tool_override =
  ov_risk :: "string option"
  ov_hidden :: bool

definition config_or_empty :: "json \<Rightarrow> json dict" where
  "config_or_empty config = (case config of JObj kvs \<Rightarrow> kvs | _ \<Rightarrow> [])"

text \<open>\<open>str(v or "")\<close>\<close>

definition str_or_empty :: "json \<Rightarrow> string" where
  "str_or_empty v = (if truthy v then py_str v else [])"

definition normal_risk :: "string \<Rightarrow> string" where
  "normal_risk s = lower (strip s)"

definition override_of :: "json \<Rightarrow> tool_override option" where
  "override_of value =
     (case value of
        JObj kvs \<Rightarrow>
          (let risk = normal_risk (str_or_empty (dict_get_or kvs ''risk'' JNull)) in
           Some \<lparr>ov_risk = (if risk \<in> set ALLOWED_RISKS then Some risk else None),
                 ov_hidden = truthy (dict_get_or kvs ''hidden'' JNull)\<rparr>)
      | JStr s \<Rightarrow>
          if normal_risk s \<in> set ALLOWED_RISKS then Some \<lparr>ov_risk = Some (normal_risk s), ov_hidden = False\<rparr> else None
      | _ \<Rightarrow> None)"

fun read_overrides :: "json dict \<Rightarrow> tool_override dict \<Rightarrow> tool_override dict" where
  "read_overrides [] policies = policies"
| "read_overrides ((name, value) # kvs) policies =
     (let key = strip name in
      if key = [] then read_overrides kvs policies
      else
        case override_of value of
          None \<Rightarrow> read_overrides kvs policies
        | Some p \<Rightarrow> read_overrides kvs (dict_set key p policies))"

definition policies_from_config :: "json \<Rightarrow> tool_override dict" where
  "policies_from_config connection_config =
     (case dict_get_or (config_or_empty connection_config) ''tool_risk'' JNull of
        JObj stored \<Rightarrow> read_overrides stored []
      | _ \<Rightarrow> [])"

record tool_risk =
  tk_risk :: string
  tk_hidden :: bool

definition resolve_tool_policy :: "string \<Rightarrow> string \<Rightarrow> tool_override dict \<Rightarrow> tool_risk" where
  "resolve_tool_policy name description policies =
     (case dict_get policies name of
        Some p \<Rightarrow>
          \<lparr>tk_risk = (case ov_risk p of
               Some r \<Rightarrow> if r \<in> set ALLOWED_RISKS then r else classify_tool_risk name description
             | None \<Rightarrow> classify_tool_risk name description),
           tk_hidden = ov_hidden p\<rparr>
      | None \<Rightarrow> \<lparr>tk_risk = classify_tool_risk name description, tk_hidden = False\<rparr>)"

definition is_tool_hidden :: "tool_risk \<Rightarrow> bool \<Rightarrow> bool" where
  "is_tool_hidden policy auto_hide_destructive \<longleftrightarrow>
     tk_hidden policy \<or> auto_hide_destructive \<and> tk_risk policy = RISK_DESTRUCTIVE"

definition annotate_tool :: "tool_override dict \<Rightarrow> bool \<Rightarrow> json \<Rightarrow> json dict list" where
  "annotate_tool policies auto_hide_destructive tool =
     (case tool of
        JObj kvs \<Rightarrow>
          (let name = strip (str_or_empty (dict_get_or kvs ''name'' JNull));
               description = str_or_empty (dict_get_or kvs ''description'' JNull);
               policy = resolve_tool_policy name description policies;
               hidden = tk_hidden policy;
               auto_hidden = (\<not> hidden \<and> auto_hide_destructive \<and> tk_risk policy = RISK_DESTRUCTIVE)
           in
           if name = [] then []
           else
             [dict_set ''visible'' (JBool (\<not> (hidden \<or> auto_hidden)))
               (dict_set ''auto_hidden'' (JBool auto_hidden)
                 (dict_set ''hidden'' (JBool hidden)
                   (dict_set ''risk'' (JStr (tk_risk policy))
                     (dict_set ''description'' (JStr description) (dict_set ''name'' (JStr name) kvs)))))])
      | _ \<Rightarrow> [])"

definition annotate_tools :: "json list \<Rightarrow> tool_override dict \<Rightarrow> bool \<Rightarrow> json dict list" where
  "annotate_tools ts policies auto_hide_destructive = concat (map (annotate_tool policies auto_hide_destructive) ts)"

definition visible_tools :: "json list \<Rightarrow> tool_override dict \<Rightarrow> bool \<Rightarrow> json dict list" where
  "visible_tools ts policies auto_hide_destructive =
     filter (\<lambda>t. truthy (dict_get_or t ''visible'' JNull)) (annotate_tools ts policies auto_hide_destructive)"

text \<open>An update of the overrides; an unknown risk raises.\<close>

definition updated_risk :: "json dict \<Rightarrow> tool_override \<Rightarrow> tool_override result" where
  "updated_risk item current =
     (if dict_get_or item ''risk'' JNull = JNull then Inr current
      else
        let risk = normal_risk (py_str (dict_get_or item ''risk'' JNull)) in
        if risk \<in> set ALLOWED_RISKS then Inr (current\<lparr>ov_risk := Some risk\<rparr>)
        else Inl (ValueError ''risk must be one of: destructive, read, write''))"

definition updated_hidden :: "json dict \<Rightarrow> tool_override \<Rightarrow> tool_override" where
  "updated_hidden item current =
     (if dict_get_or item ''hidden'' JNull = JNull then current
      else current\<lparr>ov_hidden := truthy (dict_get_or item ''hidden'' JNull)\<rparr>)"

fun merge_tool_policies :: "tool_override dict \<Rightarrow> json list \<Rightarrow> tool_override dict result" where
  "merge_tool_policies merged [] = Inr merged"
| "merge_tool_policies merged (JObj item # updates) =
     (let name = strip (str_or_empty (dict_get_or item ''name'' JNull)) in
      if name = [] then merge_tool_policies merged updates
      else
        bindE (updated_risk item (dict_get_or merged name \<lparr>ov_risk = None, ov_hidden = False\<rparr>))
          (\<lambda>current. merge_tool_policies (dict_set name (updated_hidden item current) merged) updates))"
| "merge_tool_policies merged (_ # updates) = merge_tool_policies merged updates"

definition stored_override :: "tool_override \<Rightarrow> json" where
  "stored_override p =
     JObj ((''hidden'', JBool (ov_hidden p)) #
       (case ov_risk p of Some r \<Rightarrow> if r \<in> set ALLOWED_RISKS then [(''risk'', JStr r)] else [] | None \<Rightarrow> []))"

definition apply_policies_to_config :: "json \<Rightarrow> tool_override dict \<Rightarrow> json" where
  "apply_policies_to_config connection_config policies =
     JObj (dict_set ''tool_risk'' (JObj (map (\<lambda>(name, p). (name, stored_override p)) policies)) (config_or_empty connection_config))"

definition tool_description :: "mcp_server \<Rightarrow> string \<Rightarrow> string" where
  "tool_description server tool_name =
     (case dict_get_or (config_or_empty (ms_connection_config server)) ''tool_schemas'' JNull of
        JArr schemas \<Rightarrow>
          (case find (\<lambda>s. case s of JObj kvs \<Rightarrow> str_or_empty (dict_get_or kvs ''name'' JNull) = tool_name | _ \<Rightarrow> False) schemas of
             Some (JObj kvs) \<Rightarrow> str_or_empty (dict_get_or kvs ''description'' JNull)
           | _ \<Rightarrow> [])
      | _ \<Rightarrow> [])"

definition tool_is_visible :: "mcp_server \<Rightarrow> string \<Rightarrow> bool \<Rightarrow> bool" where
  "tool_is_visible server tool_name auto_hide_destructive \<longleftrightarrow>
     \<not> is_tool_hidden
         (resolve_tool_policy tool_name (tool_description server tool_name) (policies_from_config (ms_connection_config server)))
         auto_hide_destructive"

section \<open>Client applications\<close>

definition KNOWN_AGENTS :: "string list" where
  "KNOWN_AGENTS = [''claude'', ''openai'', ''gemini'', ''cursor'', ''unknown'']"

definition DEFAULT_AGENT_TOGGLES :: "bool dict" where
  "DEFAULT_AGENT_TOGGLES = map (\<lambda>slug. (slug, True)) KNOWN_AGENTS"

definition agent_aliases :: "string dict" where
  "agent_aliases =
     [(''chatgpt'', ''openai''), (''gpt'', ''openai''), (''anthropic'', ''claude''), (''google'', ''gemini''),
      (''google_gemini'', ''gemini'')]"

definition normalize_agent_slug :: "string \<Rightarrow> string" where
  "normalize_agent_slug value =
     (let slug = replace_char CHR '' '' CHR ''_'' (replace_char CHR ''-'' CHR ''_'' (lower (strip value))) in
      dict_get_or agent_aliases slug slug)"

definition classify_user_agent :: "string \<Rightarrow> string" where
  "classify_user_agent user_agent =
     (let ua = lower user_agent in
      if strip ua = [] then ''unknown''
      else if contains ''claude'' ua \<or> contains ''anthropic'' ua then ''claude''
      else if contains ''openai'' ua \<or> contains ''chatgpt'' ua \<or> contains ''gpt-'' ua then ''openai''
      else if contains ''gemini'' ua \<or> contains ''google-ai'' ua \<or> contains ''bard'' ua then ''gemini''
      else if contains ''cursor'' ua then ''cursor''
      else if contains ''pysetu'' ua then ''unknown''
      else ''unknown'')"

definition named_agent :: "json \<Rightarrow> string option" where
  "named_agent tool =
     (case tool of
        JStr s \<Rightarrow> if strip s \<noteq> [] \<and> normalize_agent_slug s \<in> set KNOWN_AGENTS then Some (normalize_agent_slug s) else None
      | _ \<Rightarrow> None)"

definition detect_agent :: "string option \<Rightarrow> json \<Rightarrow> string" where
  "detect_agent user_agent metadata =
     (let meta = config_or_empty metadata in
      case first_some (\<lambda>key. named_agent (dict_get_or meta key JNull)) [''agent'', ''client_agent'', ''mcp_agent''] of
        Some slug \<Rightarrow> slug
      | None \<Rightarrow>
          case dict_get_or meta ''user_agent'' JNull of
            JStr hint \<Rightarrow>
              if strip hint \<noteq> [] then classify_user_agent hint
              else classify_user_agent (case user_agent of None \<Rightarrow> [] | Some u \<Rightarrow> u)
          | _ \<Rightarrow> classify_user_agent (case user_agent of None \<Rightarrow> [] | Some u \<Rightarrow> u))"

definition toggle_of :: "json option \<Rightarrow> bool option" where
  "toggle_of value =
     (case value of
        Some (JBool b) \<Rightarrow> Some b
      | Some (JObj kvs) \<Rightarrow> map_option truthy (dict_get kvs ''enabled'')
      | _ \<Rightarrow> None)"

definition toggles_from_tenant :: "json \<Rightarrow> bool dict" where
  "toggles_from_tenant tool =
     (case tool of
        JObj kvs \<Rightarrow>
          foldl (\<lambda>merged slug. case toggle_of (dict_get kvs slug) of None \<Rightarrow> merged | Some b \<Rightarrow> dict_set slug b merged)
            DEFAULT_AGENT_TOGGLES KNOWN_AGENTS
      | _ \<Rightarrow> DEFAULT_AGENT_TOGGLES)"

definition merge_agent_toggles :: "json \<Rightarrow> bool dict \<Rightarrow> bool dict" where
  "merge_agent_toggles existing patch =
     foldl (\<lambda>merged slug. case dict_get patch slug of None \<Rightarrow> merged | Some b \<Rightarrow> dict_set slug b merged)
       (toggles_from_tenant existing) KNOWN_AGENTS"

definition known_slug :: "string \<Rightarrow> string" where
  "known_slug agent =
     (let slug = normalize_agent_slug agent in if slug \<in> set KNOWN_AGENTS then slug else ''unknown'')"

definition is_mcp_enabled_for_agent :: "bool dict \<Rightarrow> string \<Rightarrow> bool" where
  "is_mcp_enabled_for_agent toggles agent = dict_get_or toggles (known_slug agent) True"

definition server_allows_agent :: "mcp_server \<Rightarrow> string \<Rightarrow> bool" where
  "server_allows_agent server agent =
     (case ms_connection_config server of
        JObj kvs \<Rightarrow>
          (case dict_get_or kvs ''allowed_agents'' JNull of
             JArr (a # as) \<Rightarrow> known_slug agent \<in> set (map (\<lambda>item. normalize_agent_slug (py_str item)) (a # as))
           | _ \<Rightarrow> True)
      | _ \<Rightarrow> True)"

definition filter_servers_for_agent :: "mcp_server list \<Rightarrow> string \<Rightarrow> bool dict \<Rightarrow> mcp_server list" where
  "filter_servers_for_agent servers agent toggles =
     (if \<not> is_mcp_enabled_for_agent toggles agent then [] else filter (\<lambda>s. server_allows_agent s agent) servers)"

definition apply_allowed_agents_to_config :: "json \<Rightarrow> json list option \<Rightarrow> json dict" where
  "apply_allowed_agents_to_config connection_config allowed_agents =
     (case allowed_agents of
        None \<Rightarrow> config_or_empty connection_config
      | Some items \<Rightarrow>
          let cleaned = map (\<lambda>item. normalize_agent_slug (py_str item)) (filter (\<lambda>item. strip (py_str item) \<noteq> []) items) in
          dict_set ''allowed_agents'' (JArr (map JStr (filter (\<lambda>slug. slug \<in> set KNOWN_AGENTS) cleaned)))
            (config_or_empty connection_config))"

definition agent_labels :: "string dict" where
  "agent_labels =
     [(''claude'', ''Claude / Anthropic''), (''openai'', ''OpenAI / ChatGPT''), (''gemini'', ''Google Gemini''),
      (''cursor'', ''Cursor''), (''unknown'', ''Other clients'')]"

definition public_agent_settings :: "bool dict \<Rightarrow> json dict list" where
  "public_agent_settings toggles =
     map (\<lambda>slug. [(''slug'', JStr slug), (''label'', JStr (dict_get_or agent_labels slug [])),
                  (''enabled'', JBool (dict_get_or toggles slug True))]) KNOWN_AGENTS"

section \<open>Tools of a server\<close>

definition PATH_PARAM_RE :: pattern where
  "PATH_PARAM_RE = re_const no_flags ([backslash] @ ''{([^}]+)'' @ [backslash] @ ''}'')"

definition path_params :: "string \<Rightarrow> string list" where
  "path_params path =
     concat (map (\<lambda>m. case m_group m 1 of Some s \<Rightarrow> [s] | None \<Rightarrow> [])
       (re_finditer (p_regex PATH_PARAM_RE) (p_flags PATH_PARAM_RE) path))"

definition get_rest_spec :: "mcp_server \<Rightarrow> json dict option" where
  "get_rest_spec server =
     (case dict_get_or (config_or_empty (ms_connection_config server)) ''rest_spec'' JNull of JObj spec \<Rightarrow> Some spec | _ \<Rightarrow> None)"

definition rest_schema :: "string \<Rightarrow> json" where
  "rest_schema path =
     (let params = path_params path in
      JObj ((''type'', JStr ''object'') #
        (if params = [] then []
         else [(''properties'', JObj (dict_of (map (\<lambda>p. (p, JObj [(''type'', JStr ''string''),
                  (''description'', JStr (''Path parameter '' @ p))])) params))),
               (''required'', JArr (map JStr params))])))"

definition rest_tool :: "json \<Rightarrow> json list" where
  "rest_tool op =
     (case op of
        JObj kvs \<Rightarrow>
          (let name = str_or_empty (dict_get_or kvs ''name'' JNull);
               path = str_or_empty (dict_get_or kvs ''path'' JNull);
               description = dict_get_or kvs ''description'' JNull
           in
           if name = [] then []
           else [JObj [(''name'', JStr name),
             (''description'', JStr (if truthy description then py_str description
                else py_str (dict_get_or kvs ''method'' JNull) @ '' '' @ path)),
             (''inputSchema'', rest_schema path)]])
      | _ \<Rightarrow> [])"

definition discover_rest_tools :: "mcp_server \<Rightarrow> json list result" where
  "discover_rest_tools server =
     (case get_rest_spec server of
        None \<Rightarrow> Inr []
      | Some spec \<Rightarrow>
          if spec = [] then Inr []
          else bindE (iter_or_empty (dict_get_or spec ''operations'' JNull)) (\<lambda>ops. Inr (concat (map rest_tool ops))))"

section \<open>Catalogs\<close>

text \<open>\<open>_normalize_tool\<close> reads \<open>tool["name"]\<close>, else the name of \<open>tool["function"]\<close>, which has to be an object then.\<close>

record tool_def =
  td_name :: string
  td_description :: string
  td_schema :: json

definition or_json :: "json \<Rightarrow> json \<Rightarrow> json" where
  "or_json a b = (if truthy a then a else b)"

definition object_schema :: json where
  "object_schema = JObj [(''type'', JStr ''object'')]"

definition normalize_tool :: "json dict \<Rightarrow> tool_def result" where
  "normalize_tool tool =
     bindE (if truthy (dict_get_or tool ''name'' JNull) then Inr (dict_get_or tool ''name'' JNull)
            else json_get_or (dict_get_or tool ''function'' (JObj [])) ''name'' JNull)
       (\<lambda>n. let name = str_or_empty n in
          case (dict_get_or tool ''type'' JNull, dict_get_or tool ''function'' JNull) of
            (JStr t, JObj fn) \<Rightarrow>
              if t = ''function'' then
                Inr \<lparr>td_name = (if truthy (dict_get_or fn ''name'' JNull) then py_str (dict_get_or fn ''name'' JNull) else name),
                     td_description = str_or_empty (dict_get_or fn ''description'' JNull),
                     td_schema = or_json (dict_get_or fn ''parameters'' JNull) object_schema\<rparr>
              else
                Inr \<lparr>td_name = name, td_description = str_or_empty (dict_get_or tool ''description'' JNull),
                     td_schema = or_json (dict_get_or tool ''inputSchema'' JNull)
                       (or_json (dict_get_or tool ''input_schema'' JNull) object_schema)\<rparr>
          | _ \<Rightarrow>
              Inr \<lparr>td_name = name, td_description = str_or_empty (dict_get_or tool ''description'' JNull),
                   td_schema = or_json (dict_get_or tool ''inputSchema'' JNull)
                     (or_json (dict_get_or tool ''input_schema'' JNull) object_schema)\<rparr>)"

definition tool_json :: "tool_def \<Rightarrow> json" where
  "tool_json t =
     JObj [(''name'', JStr (td_name t)), (''description'', JStr (td_description t)), (''inputSchema'', td_schema t)]"

text \<open>Tools with a name that is new; entries that are not objects are skipped.\<close>

fun collect_tools :: "string list \<Rightarrow> json list \<Rightarrow> tool_def list result" where
  "collect_tools seen [] = Inr []"
| "collect_tools seen (JObj tool # tools) =
     bindE (normalize_tool tool)
       (\<lambda>t. if td_name t \<noteq> [] \<and> td_name t \<notin> set seen
            then bindE (collect_tools (td_name t # seen) tools) (\<lambda>ts. Inr (t # ts))
            else collect_tools seen tools)"
| "collect_tools seen (_ # tools) = collect_tools seen tools"

definition bare_tool :: "string \<Rightarrow> tool_def" where
  "bare_tool name = \<lparr>td_name = name, td_description = [], td_schema = object_schema\<rparr>"

definition tools_from_server :: "mcp_server \<Rightarrow> tool_def list result" where
  "tools_from_server server =
     (if ms_transport server = ''rest_proxy'' then bindE (discover_rest_tools server) (collect_tools [])
      else
        case dict_get_or (config_or_empty (ms_connection_config server)) ''tool_schemas'' JNull of
          JArr (s # schemas) \<Rightarrow> collect_tools [] (s # schemas)
        | _ \<Rightarrow>
            bindE (iter_or_empty (ms_tool_names server))
              (\<lambda>names. Inr (map bare_tool (dedup_from [[]] (map py_str names)))))"

definition tool_name_of :: "json dict \<Rightarrow> string" where
  "tool_name_of t = py_str (dict_get_or t ''name'' JNull)"

fun fresh_tools :: "string list \<Rightarrow> json dict list \<Rightarrow> json dict list" where
  "fresh_tools seen [] = []"
| "fresh_tools seen (t # ts) =
     (if tool_name_of t \<noteq> [] \<and> tool_name_of t \<notin> set seen then t # fresh_tools (tool_name_of t # seen) ts
      else fresh_tools seen ts)"

definition selected_tools :: "mcp_server \<Rightarrow> bool \<Rightarrow> bool \<Rightarrow> json dict list result" where
  "selected_tools server include_hidden auto_hide_destructive =
     bindE (tools_from_server server)
       (\<lambda>tool. let policies = policies_from_config (ms_connection_config server) in
          Inr (if include_hidden then annotate_tools (map tool_json tool) policies auto_hide_destructive
               else visible_tools (map tool_json tool) policies auto_hide_destructive))"

definition catalog_from_servers :: "mcp_server list \<Rightarrow> bool \<Rightarrow> bool \<Rightarrow> json dict list result" where
  "catalog_from_servers servers include_hidden auto_hide_destructive =
     bindE (mapE (\<lambda>s. selected_tools s include_hidden auto_hide_destructive) servers)
       (\<lambda>tss. Inr (fresh_tools [] (concat tss)))"

end
