(* ===== verification/BackendMcpAccess.thy ===== *)
theory BackendMcpAccess
  imports BackendMcpTools BackendBundle BackendRbac "HOL-Library.Product_Lexorder"
begin

text \<open>
  Who may call which MCP tool: \<open>mcp_tool_policy_service.py\<close> (the table of per-tool policies), \<open>mcp_security_service.py\<close>
  (deny rules, and the header that carries the identity of the user to a server), and \<open>mcp_access_service.py\<close>, which
  combines both with the scope of the policy bundle.  A database gives a new row its id and its times.
\<close>

section \<open>Per-tool policies\<close>

record mcp_tool_policy =
  mp_id :: uuid
  mp_tenant :: uuid
  mp_server :: uuid
  mp_tool :: string
  mp_action :: string
  mp_risk_score :: int
  mp_reason :: string
  mp_created_at :: "string option"
  mp_updated_at :: "string option"

definition ALLOWED_ACTIONS :: "string list" where
  "ALLOWED_ACTIONS = [''allow'', ''approval'', ''block'']"

definition policy_key :: "uuid \<Rightarrow> uuid \<Rightarrow> string \<Rightarrow> mcp_tool_policy \<Rightarrow> bool" where
  "policy_key tenant server tool p \<longleftrightarrow> mp_tenant p = tenant \<and> mp_server p = server \<and> mp_tool p = tool"

definition upsert_tool_policy ::
  "mcp_tool_policy list \<Rightarrow> uuid \<Rightarrow> uuid \<Rightarrow> string \<Rightarrow> string \<Rightarrow> int \<Rightarrow> string \<Rightarrow> uuid \<Rightarrow> string \<Rightarrow> mcp_tool_policy list result"
where
  "upsert_tool_policy rows tenant server tool action risk_score reason new_id now =
     (if action \<notin> set ALLOWED_ACTIONS then Inl (ValueError ''action must be one of: allow, approval, block'')
      else
        bindE (scalar_one_or_none (filter (policy_key tenant server tool) rows))
          (\<lambda>found. Inr (case found of
             None \<Rightarrow> rows @
               [\<lparr>mp_id = new_id, mp_tenant = tenant, mp_server = server, mp_tool = tool, mp_action = action,
                 mp_risk_score = risk_score, mp_reason = reason, mp_created_at = Some now, mp_updated_at = Some now\<rparr>]
           | Some _ \<Rightarrow>
               map (\<lambda>p. if policy_key tenant server tool p
                        then p\<lparr>mp_action := action, mp_risk_score := risk_score, mp_reason := reason, mp_updated_at := Some now\<rparr>
                        else p) rows)))"

definition delete_tool_policy :: "mcp_tool_policy list \<Rightarrow> uuid \<Rightarrow> uuid \<Rightarrow> bool \<times> mcp_tool_policy list" where
  "delete_tool_policy rows tenant policy_id =
     (let gone = (\<lambda>p. mp_tenant p = tenant \<and> mp_id p = policy_id) in
      (list_ex gone rows, filter (\<lambda>p. \<not> gone p) rows))"

definition resolve_tool_action ::
  "mcp_tool_policy list \<Rightarrow> uuid \<Rightarrow> uuid \<Rightarrow> string \<Rightarrow> (string \<times> mcp_tool_policy option) result" where
  "resolve_tool_action rows tenant server tool =
     bindE (scalar_one_or_none (filter (policy_key tenant server tool) rows))
       (\<lambda>found. Inr (case found of None \<Rightarrow> (''allow'', None) | Some p \<Rightarrow> (mp_action p, Some p)))"

definition policies_for_server :: "mcp_tool_policy list \<Rightarrow> uuid \<Rightarrow> uuid \<Rightarrow> mcp_tool_policy dict" where
  "policies_for_server rows tenant server =
     dict_of (map (\<lambda>p. (mp_tool p, p)) (filter (\<lambda>p. mp_tenant p = tenant \<and> mp_server p = server) rows))"

definition policy_to_dict :: "mcp_tool_policy \<Rightarrow> json" where
  "policy_to_dict p =
     JObj [(''id'', JStr (mp_id p)), (''tenant_id'', JStr (mp_tenant p)), (''server_id'', JStr (mp_server p)),
       (''tool_name'', JStr (mp_tool p)), (''action'', JStr (mp_action p)), (''risk_score'', JInt (mp_risk_score p)),
       (''reason'', JStr (mp_reason p)), (''created_at'', opt_json (mp_created_at p)), (''updated_at'', opt_json (mp_updated_at p))]"

section \<open>Deny rules\<close>

record deny_rule =
  de_id :: uuid
  de_tenant :: uuid
  de_role :: string
  de_server :: uuid
  de_tool :: string
  de_reason :: string

text \<open>The rules of a tenant with the name of their server; the join drops a rule without a server.\<close>

definition list_deny_rules :: "deny_rule list \<Rightarrow> mcp_server list \<Rightarrow> uuid \<Rightarrow> (deny_rule \<times> string) list" where
  "list_deny_rules rules servers tenant =
     sort_key (\<lambda>(r, _). (de_role r, de_tool r))
       (concat (map (\<lambda>r. map (\<lambda>s. (r, ms_name s)) (filter (\<lambda>s. ms_id s = de_server r) servers))
          (filter (\<lambda>r. de_tenant r = tenant) rules)))"

text \<open>The table has one rule per tenant, role, server and tool; the insertion of another one fails.\<close>

definition add_deny_rule :: "deny_rule list \<Rightarrow> uuid \<Rightarrow> string \<Rightarrow> string \<Rightarrow> string \<Rightarrow> string \<Rightarrow> uuid \<Rightarrow> deny_rule list result" where
  "add_deny_rule rules tenant role server tool reason new_id =
     (case uuid_of server of
        None \<Rightarrow> Inl (ValueError ''badly formed hexadecimal UUID string'')
      | Some u \<Rightarrow>
          if list_ex (\<lambda>r. de_tenant r = tenant \<and> de_role r = role \<and> de_server r = u \<and> de_tool r = tool) rules
          then Inl (IntegrityError ''uq_mcp_tool_deny_tenant_role_tool'')
          else Inr (rules @
            [\<lparr>de_id = new_id, de_tenant = tenant, de_role = role, de_server = u, de_tool = tool, de_reason = reason\<rparr>]))"

definition remove_deny_rule :: "deny_rule list \<Rightarrow> uuid \<Rightarrow> uuid \<Rightarrow> bool \<times> deny_rule list" where
  "remove_deny_rule rules tenant rule_id =
     (let gone = (\<lambda>r. de_id r = rule_id \<and> de_tenant r = tenant) in (list_ex gone rules, filter (\<lambda>r. \<not> gone r) rules))"

text \<open>\<open>casefold\<close> of ASCII text is \<open>lower\<close>.\<close>

definition is_tool_denied :: "deny_rule list \<Rightarrow> string \<Rightarrow> uuid \<Rightarrow> string \<Rightarrow> bool" where
  "is_tool_denied rules role server tool \<longleftrightarrow>
     list_ex (\<lambda>r. de_role r = role \<and> de_server r = server \<and> lower (de_tool r) = lower tool) rules"

section \<open>The identity of the user in a header\<close>

record sso_config =
  so_tenant :: uuid
  so_server :: uuid
  so_enabled :: bool
  so_header_name :: string
  so_header_format :: string
  so_claim_extract :: string

definition header_name_char :: "char \<Rightarrow> bool" where
  "header_name_char c \<longleftrightarrow> is_alpha c \<or> is_digit c \<or> c \<in> set (''!#$%&*+.^_`|~-'' @ [squote])"

definition claim_name_char :: "char \<Rightarrow> bool" where
  "claim_name_char c \<longleftrightarrow> is_alpha c \<or> is_digit c \<or> c \<in> set ''_.-''"

fun count_str :: "nat \<Rightarrow> string \<Rightarrow> string \<Rightarrow> nat" where
  "count_str k t [] = 0"
| "count_str (Suc k) t (c # s) = count_str k t s"
| "count_str 0 t (c # s) = (if startswith (c # s) t then Suc (count_str (length t - 1) t s) else count_str 0 t s)"

text \<open>Both patterns are one class repeated from start to end; \<open>fullmatch\<close> leaves no newline at the end.\<close>

definition validate_sso_config :: "string \<Rightarrow> string \<Rightarrow> string \<Rightarrow> unit result" where
  "validate_sso_config header_name header_format claim_extract =
     (if strip header_name = [] \<or> \<not> list_all header_name_char (strip header_name)
      then Inl (ValueError ''Invalid HTTP header name'')
      else if count_str 0 ''{token}'' header_format \<noteq> 1
      then Inl (ValueError ''Header format must contain exactly one {token} placeholder'')
      else if \<not> list_all claim_name_char (strip claim_extract) then Inl (ValueError ''Invalid token claim name'')
      else Inr ())"

definition injected_headers :: "sso_config \<Rightarrow> string \<Rightarrow> json dict option \<Rightarrow> string dict result" where
  "injected_headers config access_token claims =
     (if \<not> so_enabled config then Inr []
      else
        bindE (if so_claim_extract config = [] then Inr access_token
               else
                 case dict_get_or (case claims of None \<Rightarrow> [] | Some d \<Rightarrow> d) (so_claim_extract config) JNull of
                   JNull \<Rightarrow> Inl (ValueError ''Configured token claim is missing or not scalar'')
                 | JArr _ \<Rightarrow> Inl (ValueError ''Configured token claim is missing or not scalar'')
                 | JObj _ \<Rightarrow> Inl (ValueError ''Configured token claim is missing or not scalar'')
                 | v \<Rightarrow> Inr (py_str v))
          (\<lambda>token. Inr [(so_header_name config, replace_str ''{token}'' token (so_header_format config))]))"

definition get_sso_config :: "sso_config list \<Rightarrow> uuid \<Rightarrow> uuid \<Rightarrow> sso_config option result" where
  "get_sso_config rows tenant server = scalar_one_or_none (filter (\<lambda>c. so_tenant c = tenant \<and> so_server c = server) rows)"

definition upsert_sso_config ::
  "sso_config list \<Rightarrow> uuid \<Rightarrow> uuid \<Rightarrow> bool \<Rightarrow> string \<Rightarrow> string \<Rightarrow> string \<Rightarrow> sso_config list result" where
  "upsert_sso_config rows tenant server enabled header_name header_format claim_extract =
     (let n = strip header_name; f = strip header_format; c = strip claim_extract;
          row = \<lparr>so_tenant = tenant, so_server = server, so_enabled = enabled, so_header_name = n, so_header_format = f,
                 so_claim_extract = c\<rparr>
      in
      bindE (validate_sso_config n f c)
        (\<lambda>_. bindE (get_sso_config rows tenant server)
          (\<lambda>found. Inr (case found of
             None \<Rightarrow> rows @ [row]
           | Some _ \<Rightarrow> map (\<lambda>r. if so_tenant r = tenant \<and> so_server r = server then row else r) rows))))"

section \<open>The scope of a bundle\<close>

definition CLIENT_KEY_ROLE :: string where "CLIENT_KEY_ROLE = ''client_key''"

definition resolve_actor_role :: "user option \<Rightarrow> string" where
  "resolve_actor_role u = (case u of Some v \<Rightarrow> if us_role v \<noteq> [] then us_role v else CLIENT_KEY_ROLE | None \<Rightarrow> CLIENT_KEY_ROLE)"

record mcp_scope =
  sc_mode :: string
  sc_entries :: "json list"

definition parse_mcp_scope :: "policy_bundle option \<Rightarrow> mcp_scope" where
  "parse_mcp_scope bundle =
     (case map_option pb_mcp_scope bundle of
        Some (JObj (kv # kvs)) \<Rightarrow>
          (let mode = dict_get_or (kv # kvs) ''mode'' JNull in
           \<lparr>sc_mode = lower (strip (if truthy mode then py_str mode else ''all'')),
            sc_entries = list_or_empty (dict_get_or (kv # kvs) ''entries'' JNull)\<rparr>)
      | _ \<Rightarrow> \<lparr>sc_mode = ''all'', sc_entries = []\<rparr>)"

definition entry_ids :: "json \<Rightarrow> string list" where
  "entry_ids e =
     (case e of
        JObj kvs \<Rightarrow> if truthy (dict_get_or kvs ''server_id'' JNull) then [py_str (dict_get_or kvs ''server_id'' JNull)] else []
      | _ \<Rightarrow> [])"

definition filter_servers_for_bundle :: "mcp_server list \<Rightarrow> policy_bundle option \<Rightarrow> mcp_server list" where
  "filter_servers_for_bundle servers bundle =
     (let scope = parse_mcp_scope bundle in
      if sc_mode scope \<noteq> ''allowlist'' then servers
      else filter (\<lambda>s. ms_id s \<in> set (concat (map entry_ids (sc_entries scope)))) servers)"

definition entry_for_server :: "mcp_scope \<Rightarrow> uuid \<Rightarrow> json dict option" where
  "entry_for_server scope server =
     first_some (\<lambda>e. case e of
         JObj kvs \<Rightarrow> if py_str (dict_get_or kvs ''server_id'' JNull) = server then Some kvs else None
       | _ \<Rightarrow> None) (sc_entries scope)"

definition is_tool_in_bundle_scope :: "policy_bundle option \<Rightarrow> uuid \<Rightarrow> string \<Rightarrow> (bool \<times> string) result" where
  "is_tool_in_bundle_scope bundle server tool =
     (let scope = parse_mcp_scope bundle in
      if sc_mode scope \<noteq> ''allowlist'' then Inr (True, [])
      else
        case entry_for_server scope server of
          None \<Rightarrow> Inr (False, ''MCP server not allowed by policy bundle'')
        | Some entry \<Rightarrow>
            if \<not> truthy (dict_get_or entry ''tool_names'' JNull) then Inr (True, [])
            else
              bindE (json_iter (dict_get_or entry ''tool_names'' JNull))
                (\<lambda>names. Inr (if lower tool \<in> set (map (\<lambda>n. lower (py_str n)) names) then (True, [])
                              else (False, ''Tool '' @ quoted tool @ '' not allowed by policy bundle''))))"

definition check_tool_access ::
  "policy_bundle option \<Rightarrow> deny_rule list \<Rightarrow> string \<Rightarrow> mcp_server \<Rightarrow> string \<Rightarrow> (bool \<times> string) result" where
  "check_tool_access bundle deny_rules actor_role server tool =
     bindE (is_tool_in_bundle_scope bundle (ms_id server) tool)
       (\<lambda>(allowed, reason).
          Inr (if \<not> allowed then (False, reason)
               else if is_tool_denied deny_rules actor_role (ms_id server) tool
               then (False, ''Tool '' @ quoted tool @ '' denied for role '' @ quoted actor_role)
               else (True, [])))"

text \<open>The action, the reason and the policy; an action that is neither block nor approval lets the call through.\<close>

definition check_tool_policy_action ::
  "mcp_tool_policy list \<Rightarrow> uuid \<Rightarrow> policy_bundle option \<Rightarrow> deny_rule list \<Rightarrow> string \<Rightarrow> mcp_server \<Rightarrow> string \<Rightarrow>
   (string \<times> string \<times> mcp_tool_policy option) result" where
  "check_tool_policy_action rows tenant bundle deny_rules actor_role server tool =
     bindE (check_tool_access bundle deny_rules actor_role server tool)
       (\<lambda>(allowed, reason).
          if \<not> allowed then Inr (''block'', reason, None)
          else
            bindE (resolve_tool_action rows tenant (ms_id server) tool)
              (\<lambda>(action, policy). Inr
                 (if action = ''block'' then (''block'', ''Tool '' @ quoted tool @ '' blocked by governance policy'', policy)
                  else if action = ''approval'' then (''approval'', ''Tool '' @ quoted tool @ '' requires approval'', policy)
                  else (''allow'', [], policy))))"

text \<open>\<open>server_by_slug\<close> keeps the last server of a slug.\<close>

definition server_by_slug :: "mcp_server list \<Rightarrow> mcp_server dict" where
  "server_by_slug servers = dict_of (map (\<lambda>s. (server_slug (ms_name s), s)) servers)"

fun filter_multiplex_catalog ::
  "json dict list \<Rightarrow> mcp_server list \<Rightarrow> policy_bundle option \<Rightarrow> deny_rule list \<Rightarrow> string \<Rightarrow> json dict list result" where
  "filter_multiplex_catalog [] servers bundle deny_rules actor_role = Inr []"
| "filter_multiplex_catalog (tool # catalog) servers bundle deny_rules actor_role =
     (case parse_qualified_name (str_or_empty (dict_get_or tool ''name'' JNull)) of
        (Some (c # slug), original) \<Rightarrow>
          (case dict_get (server_by_slug servers) (c # slug) of
             None \<Rightarrow> filter_multiplex_catalog catalog servers bundle deny_rules actor_role
           | Some server \<Rightarrow>
               bindE (check_tool_access bundle deny_rules actor_role server original)
                 (\<lambda>(allowed, _). bindE (filter_multiplex_catalog catalog servers bundle deny_rules actor_role)
                    (\<lambda>ts. Inr (if allowed then tool # ts else ts))))
      | _ \<Rightarrow> filter_multiplex_catalog catalog servers bundle deny_rules actor_role)"

end
