(* ===== verification/PyUrl.thy ===== *)
theory PyUrl
  imports PyValue
begin

text \<open>
  What the program uses of \<open>urllib.parse\<close> and \<open>ipaddress\<close> (Python 3.12): the host of a URL, and whether the text of
  an address denotes a private one.  An address is a number; a network is its first address and the length of
  its prefix.
\<close>

section \<open>Addresses\<close>

text \<open>\<open>IPv4Address\<close>: four decimal octets, without leading zeros.\<close>

definition decimal :: "string \<Rightarrow> int" where
  "decimal s = foldl (\<lambda>acc c. 10 * acc + int (ordc c - 48)) 0 s"

definition octet :: "string \<Rightarrow> int option" where
  "octet s =
     (if s = [] \<or> \<not> list_all is_digit s \<or> 3 < length s \<or> s \<noteq> ''0'' \<and> hd s = CHR ''0'' \<or> 255 < decimal s then None
      else Some (decimal s))"

definition of_octets :: "int list \<Rightarrow> int" where
  "of_octets ns = foldl (\<lambda>acc n. 256 * acc + n) 0 ns"

definition all_some :: "'a option list \<Rightarrow> 'a list option" where
  "all_some xs = (if list_all (\<lambda>x. x \<noteq> None) xs then Some (map the xs) else None)"

definition ipv4_of :: "string \<Rightarrow> int option" where
  "ipv4_of s =
     (let parts = split_char CHR ''.'' s in
      if length parts \<noteq> 4 then None else map_option of_octets (all_some (map octet parts)))"

text \<open>\<open>IPv6Address\<close>: groups of hexadecimal digits between colons, one run of zero groups may be left out, and
  the last two groups may be written as an IPv4 address.\<close>

definition hex_value :: "char \<Rightarrow> int option" where
  "hex_value c =
     (if is_digit c then Some (int (ordc c) - 48)
      else if 97 \<le> ordc c \<and> ordc c \<le> 102 then Some (int (ordc c) - 87)
      else if 65 \<le> ordc c \<and> ordc c \<le> 70 then Some (int (ordc c) - 55)
      else None)"

definition hextet :: "string \<Rightarrow> int option" where
  "hextet s =
     (if s = [] \<or> 4 < length s then None
      else map_option (foldl (\<lambda>acc n. 16 * acc + n) 0) (all_some (map hex_value s)))"

text \<open>The groups, with an IPv4 address at the end as two numbers.\<close>

definition ipv6_groups :: "string \<Rightarrow> int option list option" where
  "ipv6_groups s =
     (let parts = split_char CHR '':'' s;
          group = (\<lambda>p. if p = [] then Some None else map_option Some (hextet p))
      in
      if length parts < 3 then None
      else if CHR ''.'' \<in> set (last parts) then
        case ipv4_of (last parts) of
          None \<Rightarrow> None
        | Some n \<Rightarrow> map_option (\<lambda>gs. gs @ [Some (n div 65536), Some (n mod 65536)]) (all_some (map group (butlast parts)))
      else all_some (map group parts))"

definition of_groups :: "int list \<Rightarrow> int" where
  "of_groups ns = foldl (\<lambda>acc n. 65536 * acc + n) 0 ns"

text \<open>The positions of the empty groups other than the first and the last one.\<close>

definition inner_gaps :: "int option list \<Rightarrow> nat list" where
  "inner_gaps gs = filter (\<lambda>i. gs ! i = None) [1..<length gs - 1]"

definition ipv6_number :: "int option list \<Rightarrow> int option" where
  "ipv6_number gs =
     (if 9 < length gs then None
      else
        case inner_gaps gs of
          [] \<Rightarrow> if length gs \<noteq> 8 \<or> hd gs = None \<or> last gs = None then None else map_option of_groups (all_some gs)
        | [i] \<Rightarrow>
            (let front = take i gs; back = drop (Suc i) gs;
                 front' = (if hd gs = None then tl front else front);
                 back' = (if last gs = None then butlast back else back)
             in
             if hd gs = None \<and> front' \<noteq> [] \<or> last gs = None \<and> back' \<noteq> [] \<or> 8 - (length front' + length back') < 1 then None
             else
               map_option of_groups
                 (all_some (front' @ replicate (8 - (length front' + length back')) (Some 0) @ back')))
        | _ \<Rightarrow> None)"

definition ipv6_of :: "string \<Rightarrow> int option" where
  "ipv6_of s =
     (let addr = takeWhile (\<lambda>c. c \<noteq> CHR ''%'') s; scope = dropWhile (\<lambda>c. c \<noteq> CHR ''%'') s in
      if CHR ''/'' \<in> set s \<or> scope \<noteq> [] \<and> (tl scope = [] \<or> CHR ''%'' \<in> set (tl scope)) then None
      else case ipv6_groups addr of None \<Rightarrow> None | Some gs \<Rightarrow> ipv6_number gs)"

datatype ip = IPv4 int | IPv6 int

definition ip_address :: "string \<Rightarrow> ip option" where
  "ip_address s =
     (case ipv4_of s of
        Some n \<Rightarrow> Some (IPv4 n)
      | None \<Rightarrow> map_option IPv6 (ipv6_of s))"

section \<open>Networks\<close>

definition in_net :: "nat \<Rightarrow> int \<Rightarrow> int \<times> nat \<Rightarrow> bool" where
  "in_net width n net = (n div 2 ^ (width - snd net) = fst net div 2 ^ (width - snd net))"

definition private_networks4 :: "(int \<times> nat) list" where
  "private_networks4 =
     [(of_octets [0, 0, 0, 0], 8), (of_octets [10, 0, 0, 0], 8), (of_octets [127, 0, 0, 0], 8), (of_octets [169, 254, 0, 0], 16),
      (of_octets [172, 16, 0, 0], 12), (of_octets [192, 0, 0, 0], 24), (of_octets [192, 0, 0, 170], 31),
      (of_octets [192, 0, 2, 0], 24), (of_octets [192, 168, 0, 0], 16), (of_octets [198, 18, 0, 0], 15),
      (of_octets [198, 51, 100, 0], 24), (of_octets [203, 0, 113, 0], 24), (of_octets [240, 0, 0, 0], 4),
      (of_octets [255, 255, 255, 255], 32)]"

definition private_exceptions4 :: "(int \<times> nat) list" where
  "private_exceptions4 = [(of_octets [192, 0, 0, 9], 32), (of_octets [192, 0, 0, 10], 32)]"

definition net6 :: "int list \<Rightarrow> nat \<Rightarrow> int \<times> nat" where
  "net6 groups len = (of_groups (take 8 (groups @ replicate 8 0)), len)"

definition private_networks6 :: "(int \<times> nat) list" where
  "private_networks6 =
     [(1, 128), (0, 128), net6 [0, 0, 0, 0, 0, 0xffff] 96, net6 [0x64, 0xff9b, 1] 48, net6 [0x100] 64, net6 [0x2001] 23,
      net6 [0x2001, 0xdb8] 32, net6 [0x2002] 16, net6 [0x3fff] 20, net6 [0xfc00] 7, net6 [0xfe80] 10]"

definition private_exceptions6 :: "(int \<times> nat) list" where
  "private_exceptions6 =
     [net6 [0x2001, 1, 0, 0, 0, 0, 0, 1] 128, net6 [0x2001, 1, 0, 0, 0, 0, 0, 2] 128, net6 [0x2001, 3] 32,
      net6 [0x2001, 4, 0x112] 48, net6 [0x2001, 0x20] 28, net6 [0x2001, 0x30] 28]"

definition is_private4 :: "int \<Rightarrow> bool" where
  "is_private4 n \<longleftrightarrow> list_ex (in_net 32 n) private_networks4 \<and> \<not> list_ex (in_net 32 n) private_exceptions4"

fun is_private :: "ip \<Rightarrow> bool" where
  "is_private (IPv4 n) = is_private4 n"
| "is_private (IPv6 n) =
     (if n div 2 ^ 32 = 0xffff then is_private4 (n mod 2 ^ 32)
      else list_ex (in_net 128 n) private_networks6 \<and> \<not> list_ex (in_net 128 n) private_exceptions6)"

fun is_loopback :: "ip \<Rightarrow> bool" where
  "is_loopback (IPv4 n) = in_net 32 n (of_octets [127, 0, 0, 0], 8)"
| "is_loopback (IPv6 n) = (n = 1)"

fun is_link_local :: "ip \<Rightarrow> bool" where
  "is_link_local (IPv4 n) = in_net 32 n (of_octets [169, 254, 0, 0], 16)"
| "is_link_local (IPv6 n) = in_net 128 n (net6 [0xfe80] 10)"

section \<open>Hosts of URLs\<close>

definition before_char :: "char \<Rightarrow> string \<Rightarrow> string" where
  "before_char d s = takeWhile (\<lambda>c. c \<noteq> d) s"

definition after_char :: "char \<Rightarrow> string \<Rightarrow> string" where
  "after_char d s = drop 1 (dropWhile (\<lambda>c. c \<noteq> d) s)"

text \<open>\<open>s.rpartition('@')[2]\<close>\<close>

definition after_last :: "char \<Rightarrow> string \<Rightarrow> string" where
  "after_last d s = rev (before_char d (rev s))"

definition scheme_char :: "char \<Rightarrow> bool" where
  "scheme_char c \<longleftrightarrow> is_alpha c \<or> is_digit c \<or> c \<in> set ''+-.''"

text \<open>\<open>urlsplit\<close> drops white space in front, and tabs and line breaks everywhere; then the scheme.\<close>

definition after_scheme :: "string \<Rightarrow> string" where
  "after_scheme url =
     (let s = filter (\<lambda>c. ordc c \<notin> {9, 10, 13}) (dropWhile (\<lambda>c. ordc c \<le> 32) url);
          scheme = before_char CHR '':'' s
      in
      if CHR '':'' \<in> set s \<and> scheme \<noteq> [] \<and> is_alpha (hd s) \<and> list_all scheme_char scheme
      then after_char CHR '':'' s else s)"

definition ipv_future :: "string \<Rightarrow> bool" where
  "ipv_future s \<longleftrightarrow>
     (let hex = before_char CHR ''.'' (drop 1 s); tail = after_char CHR ''.'' s in
      hex \<noteq> [] \<and> list_all (\<lambda>c. hex_value c \<noteq> None) hex \<and> CHR ''.'' \<in> set s \<and> tail \<noteq> [] \<and> newline \<notin> set tail)"

definition bracketed_ok :: "string \<Rightarrow> bool" where
  "bracketed_ok host \<longleftrightarrow>
     (if startswith host ''v'' then ipv_future host
      else case ip_address host of Some (IPv6 _) \<Rightarrow> True | _ \<Rightarrow> False)"

definition netloc_ok :: "string \<Rightarrow> bool" where
  "netloc_ok netloc \<longleftrightarrow>
     (if CHR ''['' \<in> set netloc \<and> CHR '']'' \<in> set netloc then
        let h = after_last CHR ''@'' netloc; inner = after_char CHR ''['' h; port = after_char CHR '']'' inner in
        if CHR ''['' \<in> set h
        then before_char CHR ''['' h = [] \<and> (port = [] \<or> startswith port '':'') \<and> bracketed_ok (before_char CHR '']'' inner)
        else bracketed_ok (before_char CHR '':'' h)
      else CHR ''['' \<notin> set netloc \<and> CHR '']'' \<notin> set netloc)"

definition url_netloc :: "string \<Rightarrow> string result" where
  "url_netloc url =
     (let u = after_scheme url;
          netloc = (if startswith u ''//'' then takeWhile (\<lambda>c. c \<notin> set ''/?#'') (drop 2 u) else [])
      in if netloc_ok netloc then Inr netloc else Inl (ValueError ''Invalid IPv6 URL''))"

definition netloc_host :: "string \<Rightarrow> string" where
  "netloc_host netloc =
     (let h = after_last CHR ''@'' netloc;
          host = (if CHR ''['' \<in> set h then before_char CHR '']'' (after_char CHR ''['' h) else before_char CHR '':'' h)
      in lower (before_char CHR ''%'' host) @ dropWhile (\<lambda>c. c \<noteq> CHR ''%'') host)"

definition url_hostname :: "string \<Rightarrow> string result" where
  "url_hostname url = bindE (url_netloc url) (\<lambda>n. Inr (netloc_host n))"

section \<open>Facts\<close>

lemma ip_address_needs_punctuation:
  assumes "CHR ''.'' \<notin> set s" and "CHR '':'' \<notin> set s"
  shows "ip_address s = None"
proof -
  have "ipv4_of s = None" using split_char_no [OF assms(1)] by (simp add: ipv4_of_def)
  moreover have "split_char CHR '':'' (takeWhile P s) = [takeWhile P s]" for P
    using assms(2) by (intro split_char_no) (auto dest: set_takeWhileD)
  ultimately show ?thesis by (simp add: ip_address_def ipv6_of_def ipv6_groups_def Let_def)
qed

lemma addresses:
  "ip_address ''127.0.0.1'' = Some (IPv4 2130706433)"
  "ip_address ''::1'' = Some (IPv6 1)"
  "ip_address ''fe80::1%eth0'' = Some (IPv6 0xfe800000000000000000000000000001)"
  "ip_address ''::ffff:10.0.0.1'' = Some (IPv6 0xffff0a000001)"
  "ip_address ''1::2::3'' = None"
  "ip_address ''010.0.0.1'' = None"
  by code_simp+

lemma hosts:
  "url_hostname ''http://user@[::1]:80/x'' = Inr ''::1''"
  "url_hostname ''HTTPS://Example.COM:443?q#f'' = Inr ''example.com''"
  "url_hostname ''http://[x]/'' = Inl (ValueError ''Invalid IPv6 URL'')"
  by code_simp+

end
