(* ===== verification/BackendMcpUrl.thy ===== *)
theory BackendMcpUrl
  imports BackendMcpTools PyUrl PyGlob
begin

text \<open>
  \<open>backend/app/services/mcp_url_filter_service.py\<close>: the tenant's filter on the URLs that MCP tools may fetch.  The
  settings are a JSON value; \<open>merge_url_filters\<close> completes them.  The classification service of a vendor is an
  operation over the state of the outside world that may raise.
\<close>

section \<open>Settings\<close>

definition WEB_SEARCH_TOOLS :: "string list" where
  "WEB_SEARCH_TOOLS = [''brave_web_search'', ''brave_local_search'', ''web_search'', ''search'', ''google_search'']"

definition FETCH_TOOLS :: "string list" where
  "FETCH_TOOLS = [''fetch'', ''http_fetch'', ''get_url'', ''browse'']"

definition URL_ARGUMENT_KEYS :: "string list" where
  "URL_ARGUMENT_KEYS = [''url'', ''uri'', ''href'', ''link'', ''website'', ''target_url'']"

definition SUPPORTED_VENDORS :: "string list" where
  "SUPPORTED_VENDORS = [''none'', ''zscaler'', ''fortigate'', ''cisco'', ''custom'']"

record url_policy =
  uf_enabled :: bool
  uf_mode :: string
  uf_patterns :: "string list"
  uf_block_private_ips :: bool
  uf_web_search_enabled :: bool
  uf_vendor :: string
  uf_vendor_endpoint :: string

definition DEFAULT_MCP_URL_FILTERS :: "json dict" where
  "DEFAULT_MCP_URL_FILTERS =
     [(''enabled'', JBool True), (''mode'', JStr ''denylist''),
      (''patterns'', JArr [JStr ''*.onion'', JStr ''localhost'', JStr ''127.0.0.1'']), (''block_private_ips'', JBool True),
      (''web_search_enabled'', JBool True), (''vendor'', JStr ''none''), (''vendor_endpoint'', JStr [])]"

text \<open>The value of a setting: that of the tenant when it is there, else the default.\<close>

definition setting :: "json \<Rightarrow> string \<Rightarrow> json" where
  "setting v key = dict_get_or (config_or_empty v) key (dict_get_or DEFAULT_MCP_URL_FILTERS key JNull)"

definition str_or :: "string \<Rightarrow> json \<Rightarrow> string" where
  "str_or d v = (if truthy v then py_str v else d)"

definition merge_url_filters :: "json \<Rightarrow> url_policy" where
  "merge_url_filters v =
     (let mode = lower (strip (str_or ''denylist'' (setting v ''mode'')));
          vendor = lower (strip (str_or ''none'' (setting v ''vendor'')))
      in
      \<lparr>uf_enabled = truthy (setting v ''enabled''),
       uf_mode = (if mode = ''allowlist'' then ''allowlist'' else ''denylist''),
       uf_patterns = (case setting v ''patterns'' of
          JArr items \<Rightarrow> map (\<lambda>i. strip (py_str i)) (filter (\<lambda>i. strip (py_str i) \<noteq> []) items) | _ \<Rightarrow> []),
       uf_block_private_ips = truthy (setting v ''block_private_ips''),
       uf_web_search_enabled = truthy (setting v ''web_search_enabled''),
       uf_vendor = (if vendor \<in> set SUPPORTED_VENDORS then vendor else ''none''),
       uf_vendor_endpoint = strip (str_or [] (setting v ''vendor_endpoint''))\<rparr>)"

text \<open>The merged settings as the dictionary the code passes on and merges again.\<close>

definition url_policy_dict :: "url_policy \<Rightarrow> json dict" where
  "url_policy_dict p =
     [(''enabled'', JBool (uf_enabled p)), (''mode'', JStr (uf_mode p)), (''patterns'', JArr (map JStr (uf_patterns p))),
      (''block_private_ips'', JBool (uf_block_private_ips p)), (''web_search_enabled'', JBool (uf_web_search_enabled p)),
      (''vendor'', JStr (uf_vendor p)), (''vendor_endpoint'', JStr (uf_vendor_endpoint p))]"

definition public_url_filters :: "json \<Rightarrow> bool \<Rightarrow> json dict" where
  "public_url_filters policy vendor_configured =
     dict_set ''vendor_configured'' (JBool vendor_configured) (url_policy_dict (merge_url_filters policy))"

section \<open>The URLs of a call\<close>

definition is_web_or_fetch_tool :: "string \<Rightarrow> bool" where
  "is_web_or_fetch_tool tool_name =
     (let key = lower (strip tool_name) in key \<in> set WEB_SEARCH_TOOLS \<or> key \<in> set FETCH_TOOLS)"

definition url_argument :: "json dict \<Rightarrow> string \<Rightarrow> string list" where
  "url_argument arguments key =
     (case dict_get_or arguments key JNull of JStr s \<Rightarrow> if strip s \<noteq> [] then [strip s] else [] | _ \<Rightarrow> [])"

definition listed_urls :: "json \<Rightarrow> string list" where
  "listed_urls v =
     (case v of
        JArr items \<Rightarrow>
          concat (map (\<lambda>i. case i of
             JStr s \<Rightarrow> if startswith s ''http://'' \<or> startswith s ''https://'' then [strip s] else [] | _ \<Rightarrow> []) items)
      | _ \<Rightarrow> [])"

definition extract_urls_from_arguments :: "json \<Rightarrow> string list" where
  "extract_urls_from_arguments arguments =
     (case arguments of
        JObj kvs \<Rightarrow> concat (map (url_argument kvs) URL_ARGUMENT_KEYS) @ concat (map (\<lambda>(_, v). listed_urls v) kvs)
      | _ \<Rightarrow> [])"

definition host_from_url :: "string \<Rightarrow> string result" where
  "host_from_url url =
     bindE (url_hostname (if contains ''://'' url then url else ''https://'' @ url)) (\<lambda>h. Inr (lower (strip h)))"

definition is_private_host :: "string \<Rightarrow> bool" where
  "is_private_host host =
     (if host = [] then True
      else if host \<in> {''localhost'', ''127.0.0.1'', ''::1''} then True
      else case ip_address host of Some ip \<Rightarrow> is_private ip \<or> is_loopback ip \<or> is_link_local ip | None \<Rightarrow> False)"

definition pattern_matches :: "string \<Rightarrow> string \<Rightarrow> bool result" where
  "pattern_matches host pattern =
     (let needle = lower (strip pattern) in
      if needle = [] then Inr False
      else
        bindE (if contains ''://'' needle then host_from_url needle else Inr needle)
          (\<lambda>needle. Inr
             (if startswith needle ''*.'' then host = drop 2 needle \<or> endswith host (drop 1 needle)
              else if contains ''*'' needle then fnmatch host needle
              else host = needle \<or> endswith host (''.'' @ needle))))"

text \<open>\<open>any(...)\<close> stops at the first pattern that matches.\<close>

fun any_pattern :: "string \<Rightarrow> string list \<Rightarrow> bool result" where
  "any_pattern host [] = Inr False"
| "any_pattern host (p # ps) = bindE (pattern_matches host p) (\<lambda>m. if m then Inr True else any_pattern host ps)"

definition url_allowed :: "url_policy \<Rightarrow> string \<Rightarrow> bool result" where
  "url_allowed p url =
     (if \<not> uf_enabled p then Inr True
      else
        bindE (host_from_url url)
          (\<lambda>host.
             if host = [] then Inr (uf_mode p \<noteq> ''allowlist'')
             else if uf_block_private_ips p \<and> is_private_host host then Inr (uf_mode p = ''allowlist'')
             else bindE (any_pattern host (uf_patterns p))
                    (\<lambda>matched. Inr (if uf_mode p = ''allowlist'' then matched else \<not> matched))))"

definition url_matches_policy :: "string \<Rightarrow> json \<Rightarrow> bool result" where
  "url_matches_policy url policy = url_allowed (merge_url_filters policy) url"

section \<open>The vendor\<close>

text \<open>The request to the endpoint of the vendor, with the API key if there is one: the body of the answer, or an
  exception.\<close>

type_synonym 'w vendor = "string \<Rightarrow> string \<Rightarrow> string \<Rightarrow> string option \<Rightarrow> ('w, json) eff"

text \<open>\<open>str(exc)\<close>: the message of an exception.\<close>

fun error_message :: "py_error \<Rightarrow> string" where
  "error_message (ValueError m) = m"
| "error_message (TypeError m) = m"
| "error_message (KeyError m) = m"
| "error_message (NameError m) = m"
| "error_message (OSError m) = m"
| "error_message (RuntimeError m) = m"
| "error_message (ControlPlaneError m) = m"
| "error_message (AttributeError m) = m"
| "error_message (IndexError m) = m"
| "error_message (OverflowError m) = m"
| "error_message (IntegrityError m) = m"
| "error_message (TimeoutException m) = m"
| "error_message (HTTPError m) = m"
| "error_message (McpClientError m) = m"
| "error_message (HTTPException n m) = m"

definition vendor_verdict :: "string \<Rightarrow> json \<Rightarrow> bool option \<times> string" where
  "vendor_verdict vendor body =
     (case body of
        JObj kvs \<Rightarrow>
          (case dict_get kvs ''allowed'' of
             Some v \<Rightarrow>
               (Some (truthy v), str_or (''Blocked by '' @ vendor @ '' integration'') (dict_get_or kvs ''reason'' JNull))
           | None \<Rightarrow> (Some False, ''Vendor '' @ vendor @ '' returned an invalid response''))
      | _ \<Rightarrow> (Some False, ''Vendor '' @ vendor @ '' returned an invalid response''))"

definition query_vendor ::
  "'w vendor \<Rightarrow> string \<Rightarrow> url_policy \<Rightarrow> string option \<Rightarrow> ('w, bool option \<times> string) eff" where
  "query_vendor classify url p vendor_api_key =
     (if uf_vendor p = ''none'' \<or> uf_vendor_endpoint p = [] then returnS (None, [])
      else
        tryS (bindS (classify (uf_vendor_endpoint p) url (uf_vendor p) vendor_api_key)
               (\<lambda>body. returnS (vendor_verdict (uf_vendor p) body)))
          (\<lambda>e. Some (returnS (Some False, ''Vendor URL filter check failed: '' @ error_message e))))"

fun check_urls :: "'w vendor \<Rightarrow> url_policy \<Rightarrow> string option \<Rightarrow> string list \<Rightarrow> ('w, bool \<times> string) eff" where
  "check_urls classify p vendor_api_key [] = returnS (True, [])"
| "check_urls classify p vendor_api_key (url # urls) =
     bindS (liftS (url_allowed p url))
       (\<lambda>ok. if \<not> ok then returnS (False, ''URL blocked by tenant policy: '' @ url)
         else
           bindS (query_vendor classify url p vendor_api_key)
             (\<lambda>(vendor_result, vendor_reason).
                if vendor_result = Some False
                then returnS (False, if vendor_reason \<noteq> [] then vendor_reason else ''URL blocked by vendor filter: '' @ url)
                else check_urls classify p vendor_api_key urls))"

definition evaluate_tool_access ::
  "'w vendor \<Rightarrow> string \<Rightarrow> json \<Rightarrow> json \<Rightarrow> string option \<Rightarrow> ('w, bool \<times> string) eff" where
  "evaluate_tool_access classify tool_name arguments policy vendor_api_key =
     (let name = lower (strip tool_name); p = merge_url_filters policy; urls = extract_urls_from_arguments arguments in
      if \<not> uf_enabled p then returnS (True, [])
      else if name \<in> set WEB_SEARCH_TOOLS then
        (if uf_web_search_enabled p then returnS (True, [])
         else returnS (False, ''Web search MCP tools are disabled by URL filter policy''))
      else if name \<notin> set FETCH_TOOLS \<and> urls = [] then returnS (True, [])
      else if urls = [] \<and> name \<in> set FETCH_TOOLS then returnS (False, ''Fetch tool requires a URL argument'')
      else check_urls classify p vendor_api_key urls)"

definition probe_url :: "string \<Rightarrow> json \<Rightarrow> json dict result" where
  "probe_url url policy =
     bindE (url_matches_policy url policy)
       (\<lambda>allowed. bindE (host_from_url url)
         (\<lambda>host. Inr [(''url'', JStr url), (''host'', JStr host), (''allowed'', JBool allowed),
            (''mode'', JStr (uf_mode (merge_url_filters policy))), (''private_host'', JBool (is_private_host host))]))"

end
