(* ===== verification/BackendTable.thy ===== *)
theory BackendTable
  imports BackendCommon
begin

text \<open>
  Tables with a unique key.  The services look a row up by its key with \<open>scalar_one_or_none\<close>, which raises when two
  rows match, then add a row or change the one found.  \<open>keyed_update\<close> states what a change of the row of \<open>k\<close> has to
  respect; what follows from it is that the key stays unique, that the lookup after the change finds the new row, and that
  the other rows stay.
\<close>

definition unique_by :: "('r \<Rightarrow> 'k) \<Rightarrow> 'r list \<Rightarrow> bool" where
  "unique_by key rows \<longleftrightarrow> distinct (map key rows)"

lemma unique_by_Nil [simp]: "unique_by key []"
  by (simp add: unique_by_def)

lemma unique_by_Cons [simp]: "unique_by key (r # rows) \<longleftrightarrow> key r \<notin> key ` set rows \<and> unique_by key rows"
  by (simp add: unique_by_def)

lemma unique_snoc: "unique_by key (rows @ [r]) \<longleftrightarrow> unique_by key rows \<and> key r \<notin> key ` set rows"
  by (auto simp: unique_by_def)

lemma unique_filter [intro]: "unique_by key rows \<Longrightarrow> unique_by key (filter P rows)"
  by (induction rows) auto

text \<open>At most one row has a given key.\<close>

lemma rows_of_key:
  assumes "unique_by key rows"
  shows "filter (\<lambda>r. key r = k) rows = [] \<and> k \<notin> key ` set rows \<or>
    (\<exists>r \<in> set rows. filter (\<lambda>r. key r = k) rows = [r] \<and> key r = k)"
  using assms
proof (induction rows)
  case (Cons r rows)
  then show ?case
    by (cases "key r = k") (auto simp: filter_empty_conv rev_image_eqI)
qed simp

lemma find_of_filter: "find P rows = (case filter P rows of [] \<Rightarrow> None | r # _ \<Rightarrow> Some r)"
  by (induction rows) auto

lemma lookup_of_key:
  assumes "unique_by key rows"
  shows "scalar_one_or_none (filter (\<lambda>r. key r = k) rows) =
    Inr (find (\<lambda>r. key r = k) rows)"
  using rows_of_key [OF assms, of k] by (auto simp: scalar_one_or_none_def find_of_filter)

lemma find_key_Some: "find (\<lambda>r. key r = k) rows = Some r \<Longrightarrow> r \<in> set rows \<and> key r = k"
  by (auto simp: find_Some_iff)

lemma find_key_None: "find (\<lambda>r. key r = k) rows = None \<longleftrightarrow> k \<notin> key ` set rows"
  by (auto simp: find_None_iff)

lemma find_unique:
  assumes "unique_by key rows" and "r \<in> set rows"
  shows "find (\<lambda>x. key x = key r) rows = Some r"
  using assms by (induction rows) (auto simp: rev_image_eqI)

locale keyed_update =
  fixes key :: "'r \<Rightarrow> 'k" and k :: 'k and change :: "'r \<Rightarrow> 'r"
  assumes key_change: "key r = k \<Longrightarrow> key (change r) = k"
begin

definition updated :: "'r list \<Rightarrow> 'r list" where
  "updated rows = map (\<lambda>r. if key r = k then change r else r) rows"

lemma keys_changed: "map key (updated rows) = map key rows"
  by (simp add: updated_def key_change)

lemma unique_changed: "unique_by key rows \<Longrightarrow> unique_by key (updated rows)"
  unfolding unique_by_def keys_changed .

lemma rows_changed: "filter (\<lambda>r. key r = k) (updated rows) = map change (filter (\<lambda>r. key r = k) rows)"
  by (induction rows) (auto simp: key_change updated_def)

lemma others_unchanged: "filter (\<lambda>r. key r \<noteq> k) (updated rows) = filter (\<lambda>r. key r \<noteq> k) rows"
  by (induction rows) (auto simp: key_change updated_def)

lemma find_changed: "find (\<lambda>r. key r = k) (updated rows) = map_option change (find (\<lambda>r. key r = k) rows)"
  by (induction rows) (auto simp: key_change updated_def)

text \<open>What an operation that adds the row of \<open>k\<close> or changes it does to the table.\<close>

lemma upserted:
  assumes "unique_by key rows" and "key new = k"
    and "rows' = (case find (\<lambda>r. key r = k) rows of None \<Rightarrow> rows @ [new] | Some _ \<Rightarrow> updated rows)"
    and "row = (case find (\<lambda>r. key r = k) rows of None \<Rightarrow> new | Some r \<Rightarrow> change r)"
  shows "unique_by key rows' \<and> filter (\<lambda>r. key r = k) rows' = [row] \<and>
    filter (\<lambda>r. key r \<noteq> k) rows' = filter (\<lambda>r. key r \<noteq> k) rows"
proof (cases "find (\<lambda>r. key r = k) rows")
  case None
  then have fresh: "k \<notin> key ` set rows" by (simp add: find_key_None)
  then have "filter (\<lambda>r. key r = k) rows = []" by (auto simp: filter_empty_conv)
  then show ?thesis using assms None fresh by (simp add: unique_snoc)
next
  case (Some r)
  then have "filter (\<lambda>r. key r = k) rows = [r]" using rows_of_key [OF assms(1), of k] by (auto simp: find_of_filter)
  then show ?thesis using assms Some unique_changed [of rows] by (simp add: rows_changed others_unchanged)
qed

end

lemma find_snoc:
  "find P (rows @ [r]) = (case find P rows of Some x \<Rightarrow> Some x | None \<Rightarrow> if P r then Some r else None)"
  by (induction rows) auto

end
