(* ===== verification/BackendMcpFacts.thy ===== *)
theory BackendMcpFacts
  imports BackendMcpAccess BackendMcpUrl BackendTable
begin

text \<open>
  What holds of the governance of MCP tools: the overrides of a server survive being stored, the tools a client is shown
  are those it may call, a per-tool policy takes effect at once and only on its tool, and what a call that passes the
  URL filter may reach.
\<close>

section \<open>Overrides\<close>

definition good_override :: "string \<times> tool_override \<Rightarrow> bool" where
  "good_override np \<longleftrightarrow> fst np \<noteq> [] \<and> strip (fst np) = fst np \<and>
     (case ov_risk (snd np) of Some r \<Rightarrow> r \<in> set ALLOWED_RISKS | None \<Rightarrow> True)"

definition good_overrides :: "tool_override dict \<Rightarrow> bool" where
  "good_overrides ps \<longleftrightarrow> wf_dict ps \<and> list_all good_override ps"

lemma strip_ends: "strip s \<noteq> [] \<Longrightarrow> \<not> is_space (hd (strip s)) \<and> \<not> is_space (last (strip s))"
proof -
  let ?t = "dropWhile is_space (rev (lstrip s))"
  assume "strip s \<noteq> []"
  then have t: "?t \<noteq> []" and s: "strip s = rev ?t" by (simp_all add: strip_def rstrip_def)
  obtain u where u: "rev (lstrip s) = u @ ?t" by (metis takeWhile_dropWhile_id)
  then have "lstrip s = rev ?t @ rev u" by (metis rev_append rev_rev_ident)
  then have "hd (lstrip s) = hd (rev ?t)" and "lstrip s \<noteq> []" using t by (metis hd_append2 rev_is_Nil_conv, metis append_is_Nil_conv rev_is_Nil_conv)
  then have "\<not> is_space (hd (rev ?t))" using hd_dropWhile [of is_space s] by (simp add: lstrip_def)
  moreover have "\<not> is_space (hd ?t)" by (rule hd_dropWhile [OF t])
  ultimately show ?thesis using t by (simp add: s last_rev)
qed

lemma strip_idem [simp]: "strip (strip s) = strip s"
proof (cases "strip s = []")
  case True
  show ?thesis unfolding True by (simp add: strip_def lstrip_def rstrip_def)
qed (use strip_ends [of s] in \<open>simp add: strip_solid\<close>)

lemma list_all_dict_set:
  "list_all P d \<Longrightarrow> P (k, v) \<Longrightarrow> list_all P (dict_set k v d)"
  unfolding dict_set_def by (induction d) auto

lemma good_overrides_set: "good_overrides ps \<Longrightarrow> good_override (n, p) \<Longrightarrow> good_overrides (dict_set n p ps)"
  by (simp add: good_overrides_def list_all_dict_set)

lemma good_overrides_get:
  "good_overrides ps \<Longrightarrow> dict_get ps n = Some p \<Longrightarrow> good_override (n, p)"
  by (auto simp: good_overrides_def list_all_iff dest: dict_get_mem)

lemma override_of_good: "override_of v = Some p \<Longrightarrow> strip name \<noteq> [] \<Longrightarrow> good_override (strip name, p)"
  by (auto simp: override_of_def good_override_def Let_def split: json.splits if_splits)

lemma read_overrides_good: "good_overrides ps \<Longrightarrow> good_overrides (read_overrides kvs ps)"
proof (induction kvs ps rule: read_overrides.induct)
  case (2 name v kvs ps)
  then show ?case
    by (cases "override_of v"; cases "strip name = []") (auto simp: good_overrides_set override_of_good Let_def)
qed simp

lemma policies_from_config_good: "good_overrides (policies_from_config c)"
proof -
  have "good_overrides []" by (simp add: good_overrides_def)
  then show ?thesis unfolding policies_from_config_def by (auto intro: read_overrides_good split: json.split)
qed

lemma updated_risk_good:
  "updated_risk item current = Inr current' \<Longrightarrow> good_override (n, current) \<Longrightarrow> good_override (n, updated_hidden item current')"
  by (auto simp: updated_risk_def updated_hidden_def good_override_def Let_def split: if_splits)

lemma merge_tool_policies_good:
  "good_overrides ps \<Longrightarrow> merge_tool_policies ps updates = Inr ps' \<Longrightarrow> good_overrides ps'"
proof (induction ps updates rule: merge_tool_policies.induct)
  case (2 ps item updates)
  let ?n = "strip (str_or_empty (dict_get_or item ''name'' JNull))"
  let ?c = "dict_get_or ps ?n \<lparr>ov_risk = None, ov_hidden = False\<rparr>"
  show ?case
  proof (cases "?n = []")
    case False
    then have c: "good_override (?n, ?c)"
      using good_overrides_get [OF "2.prems"(1), of ?n]
      by (auto simp: dict_get_or_def good_override_def split: option.split)
    obtain current where "updated_risk item ?c = Inr current"
      "merge_tool_policies (dict_set ?n (updated_hidden item current) ps) updates = Inr ps'"
      using "2.prems"(2) False by (auto simp: Let_def bindE_eq_Inr_iff)
    then show ?thesis
      using "2.IH"(2) False good_overrides_set [OF "2.prems"(1) updated_risk_good [OF _ c]] by auto
  qed (use 2 in simp)
qed auto

text \<open>Reading back what was stored.\<close>

lemma allowed_risks_normal: "r \<in> set ALLOWED_RISKS \<Longrightarrow> normal_risk r = r \<and> r \<noteq> []"
proof -
  have "list_all (\<lambda>r. normal_risk r = r \<and> r \<noteq> []) ALLOWED_RISKS" by code_simp
  then show "r \<in> set ALLOWED_RISKS \<Longrightarrow> normal_risk r = r \<and> r \<noteq> []" by (simp add: list_all_iff)
qed

lemma override_of_stored: "good_override (n, p) \<Longrightarrow> override_of (stored_override p) = Some p"
proof (cases "ov_risk p")
  case None
  moreover have "normal_risk [] = []" by code_simp
  moreover have "[] \<notin> set ALLOWED_RISKS" by code_simp
  ultimately show ?thesis
    by (simp add: stored_override_def override_of_def dict_get_or_def dict_get_def str_or_empty_def)
next
  case (Some r)
  moreover assume "good_override (n, p)"
  ultimately have "r \<in> set ALLOWED_RISKS" "ov_risk p = Some r" by (auto simp: good_override_def)
  then show ?thesis
    using allowed_risks_normal [of r]
    by (simp add: stored_override_def override_of_def dict_get_or_def dict_get_def str_or_empty_def)
qed

lemma read_stored:
  "wf_dict (qs @ ps) \<Longrightarrow> list_all good_override ps \<Longrightarrow>
   read_overrides (map (\<lambda>(n, p). (n, stored_override p)) ps) qs = qs @ ps"
proof (induction ps arbitrary: qs)
  case (Cons np ps)
  obtain n p where np: "np = (n, p)" by (cases np)
  then have "n \<notin> fst ` set qs" using Cons.prems(1) by (auto simp: wf_dict_def)
  moreover have "override_of (stored_override p) = Some p" "strip n = n" "n \<noteq> []"
    using Cons.prems(2) override_of_stored [of n p] by (auto simp: np good_override_def)
  ultimately show ?case
    using Cons.IH [of "qs @ [(n, p)]"] Cons.prems by (simp add: np dict_set_fresh Let_def)
qed simp

lemma stored_policies:
  "good_overrides ps \<Longrightarrow> policies_from_config (apply_policies_to_config c ps) = ps"
  using read_stored [of "[]" ps]
  by (simp add: policies_from_config_def apply_policies_to_config_def config_or_empty_def dict_get_or_def good_overrides_def)

section \<open>Listed and callable tools\<close>

text \<open>The schemas a server reports: names with a description.\<close>

definition reported :: "string \<times> string \<Rightarrow> json" where
  "reported nd = JObj [(''name'', JStr (fst nd)), (''description'', JStr (snd nd))]"

definition good_specs :: "(string \<times> string) list \<Rightarrow> bool" where
  "good_specs specs \<longleftrightarrow> wf_dict specs \<and> list_all (\<lambda>(n, _). n \<noteq> [] \<and> strip n = n) specs"

lemma str_or_empty_str [simp]: "str_or_empty (JStr s) = s"
  by (simp add: str_or_empty_def)

definition def_of :: "string \<times> string \<Rightarrow> tool_def" where
  "def_of nd = \<lparr>td_name = fst nd, td_description = snd nd, td_schema = object_schema\<rparr>"

lemma normalize_reported:
  "fst nd \<noteq> [] \<Longrightarrow> normalize_tool [(''name'', JStr (fst nd)), (''description'', JStr (snd nd))] = Inr (def_of nd)"
  by (simp add: normalize_tool_def def_of_def dict_get_or_def dict_get_def or_json_def object_schema_def)

lemma collect_reported:
  "good_specs specs \<Longrightarrow> fst ` set specs \<inter> set seen = {} \<Longrightarrow>
   collect_tools seen (map reported specs) = Inr (map def_of specs)"
proof (induction specs arbitrary: seen)
  case (Cons nd specs)
  have "good_specs specs" "fst nd \<noteq> []" "fst nd \<notin> fst ` set specs"
    using Cons.prems(1) by (auto simp: good_specs_def wf_dict_def)
  then show ?case
    using Cons.IH [of "fst nd # seen"] Cons.prems(2) normalize_reported [of nd]
    by (simp add: reported_def def_of_def)
qed simp

lemma description_reported:
  assumes "good_specs specs" and "(n, d) \<in> set specs"
    and "dict_get_or (config_or_empty (ms_connection_config server)) ''tool_schemas'' JNull = JArr (map reported specs)"
  shows "tool_description server n = d"
proof -
  have "find (\<lambda>s. case s of JObj kvs \<Rightarrow> str_or_empty (dict_get_or kvs ''name'' JNull) = n | _ \<Rightarrow> False) (map reported specs) =
      Some (reported (n, d))"
    using assms(1,2)
    by (induction specs) (auto simp: reported_def dict_get_or_def dict_get_def good_specs_def wf_dict_def rev_image_eqI)
  then show ?thesis
    unfolding tool_description_def assms(3) json.case by (simp add: reported_def dict_get_or_simps)
qed

lemma annotate_reported:
  assumes "n \<noteq> []" and "strip n = n"
  shows "\<exists>t. annotate_tool policies auto (tool_json (def_of (n, d))) = [t] \<and> tool_name_of t = n \<and>
    (truthy (dict_get_or t ''visible'' JNull) \<longleftrightarrow> \<not> is_tool_hidden (resolve_tool_policy n d policies) auto)"
  using assms
  by (auto simp: annotate_tool_def tool_json_def def_of_def dict_get_or_simps Let_def tool_name_of_def is_tool_hidden_def)

lemma visible_reported:
  assumes "good_specs specs"
  shows "map tool_name_of (visible_tools (map tool_json (map def_of specs)) policies auto) =
    map fst (filter (\<lambda>(n, d). \<not> is_tool_hidden (resolve_tool_policy n d policies) auto) specs)"
  using assms
proof (induction specs)
  case (Cons nd specs)
  obtain n d where nd: "nd = (n, d)" by (cases nd)
  have "good_specs specs" "n \<noteq> []" "strip n = n" using Cons.prems by (auto simp: good_specs_def wf_dict_def nd)
  then show ?case
    using Cons.IH annotate_reported [of n policies auto d] by (auto simp: nd visible_tools_def annotate_tools_def)
qed (simp add: visible_tools_def annotate_tools_def)

section \<open>The table of per-tool policies\<close>

definition tool_policy_key :: "mcp_tool_policy \<Rightarrow> uuid \<times> uuid \<times> string" where
  "tool_policy_key p = (mp_tenant p, mp_server p, mp_tool p)"

definition changed_policy :: "string \<Rightarrow> int \<Rightarrow> string \<Rightarrow> string \<Rightarrow> mcp_tool_policy \<Rightarrow> mcp_tool_policy" where
  "changed_policy action risk_score reason now p =
     p\<lparr>mp_action := action, mp_risk_score := risk_score, mp_reason := reason, mp_updated_at := Some now\<rparr>"

lemma policy_key_iff: "policy_key t s n p \<longleftrightarrow> tool_policy_key p = (t, s, n)"
  by (simp add: policy_key_def tool_policy_key_def)

interpretation tool_policies: keyed_update tool_policy_key "(tenant, server, tool)" "changed_policy action risk_score reason now"
  by unfold_locales (simp add: tool_policy_key_def changed_policy_def)

lemma tool_policy_upserted:
  assumes "unique_by tool_policy_key rows" and "action \<in> set ALLOWED_ACTIONS"
  shows "\<exists>rows' p. upsert_tool_policy rows tenant server tool action risk_score reason new_id now = Inr rows' \<and>
    mp_action p = action \<and> unique_by tool_policy_key rows' \<and> filter (policy_key tenant server tool) rows' = [p] \<and>
    filter (\<lambda>q. \<not> policy_key tenant server tool q) rows' = filter (\<lambda>q. \<not> policy_key tenant server tool q) rows"
proof -
  let ?k = "(tenant, server, tool)"
  let ?new = "\<lparr>mp_id = new_id, mp_tenant = tenant, mp_server = server, mp_tool = tool, mp_action = action,
    mp_risk_score = risk_score, mp_reason = reason, mp_created_at = Some now, mp_updated_at = Some now\<rparr>"
  let ?found = "find (\<lambda>p. tool_policy_key p = ?k) rows"
  define p where "p = (case ?found of None \<Rightarrow> ?new | Some q \<Rightarrow> changed_policy action risk_score reason now q)"
  define rows' where "rows' = (case ?found of None \<Rightarrow> rows @ [?new]
    | Some _ \<Rightarrow> tool_policies.updated tenant server tool action risk_score reason now rows)"
  have "tool_policy_key ?new = ?k" by (simp add: tool_policy_key_def)
  from tool_policies.upserted [OF assms(1) this rows'_def p_def]
  have "unique_by tool_policy_key rows' \<and> filter (policy_key tenant server tool) rows' = [p] \<and>
    filter (\<lambda>q. \<not> policy_key tenant server tool q) rows' = filter (\<lambda>q. \<not> policy_key tenant server tool q) rows"
    by (simp add: policy_key_iff [abs_def])
  moreover have "upsert_tool_policy rows tenant server tool action risk_score reason new_id now = Inr rows'"
    using assms(2) unfolding upsert_tool_policy_def policy_key_iff lookup_of_key [OF assms(1)] rows'_def tool_policies.updated_def
      changed_policy_def by (simp cong: option.case_cong)
  moreover have "mp_action p = action" by (simp add: p_def changed_policy_def split: option.split)
  ultimately show ?thesis by blast
qed

lemma other_rows:
  assumes "filter (\<lambda>q. \<not> policy_key t s n q) rows' = filter (\<lambda>q. \<not> policy_key t s n q) rows" and "(t, s, n) \<noteq> (t', s', n')"
  shows "filter (policy_key t' s' n') rows' = filter (policy_key t' s' n') rows"
proof -
  have "filter (policy_key t' s' n') xs = filter (policy_key t' s' n') (filter (\<lambda>q. \<not> policy_key t s n q) xs)" for xs
    using assms(2) by (auto simp: policy_key_def intro: filter_cong)
  then show ?thesis using assms(1) by metis
qed

section \<open>The URL filter\<close>

lemma check_urls_passed:
  "check_urls classify p key urls w = (Inr (True, reason), w') \<Longrightarrow> url \<in> set urls \<Longrightarrow> url_allowed p url = Inr True"
proof (induction urls arbitrary: w)
  case (Cons u urls)
  obtain ok where ok: "url_allowed p u = Inr ok" using Cons.prems(1) by (auto simp: bindS_eq_Inr)
  then have "ok" using Cons.prems(1) by (cases ok) (auto simp: bindS_eq_Inr)
  obtain vr reason' w1 where v: "query_vendor classify u p key w = (Inr (vr, reason'), w1)"
    using Cons.prems(1) ok \<open>ok\<close> by (auto simp: bindS_eq_Inr)
  then have "check_urls classify p key urls w1 = (Inr (True, reason), w')"
    using Cons.prems(1) ok \<open>ok\<close> by (auto simp: bindS_eq_Inr split: if_splits)
  then show ?case using Cons.IH Cons.prems(2) ok \<open>ok\<close> by auto
qed simp

lemma denylist_allowed:
  assumes "url_allowed p url = Inr True" and "uf_enabled p" and "uf_mode p = ''denylist''" and "host_from_url url = Inr host"
    and "host \<noteq> []"
  shows "\<not> (uf_block_private_ips p \<and> is_private_host host) \<and> any_pattern host (uf_patterns p) = Inr False"
  using assms by (auto simp: url_allowed_def bindE_eq_Inr_iff split: if_splits)

section \<open>Properties\<close>

text \<open>The overrides an administrator saves, merged with those the server had, are read back as they were saved,
  and saving nothing leaves what is read unchanged.\<close>

theorem overrides_saved:
  assumes "merge_tool_policies (policies_from_config config) updates = Inr policies"
  shows "policies_from_config (apply_policies_to_config config policies) = policies \<and>
    policies_from_config (apply_policies_to_config config (policies_from_config config)) = policies_from_config config"
  using merge_tool_policies_good [OF policies_from_config_good assms] policies_from_config_good
  by (simp add: stored_policies)

theorem overrides_saved_witness:
  "let config = JObj [(''tool_risk'', JObj [('' run '', JStr ''WRITE''), (''other'', JInt 3)])];
       updates = [JObj [(''name'', JStr ''run''), (''hidden'', JBool True)], JObj [(''name'', JStr ''rm''), (''risk'', JStr ''read'')]];
       policies = [(''run'', \<lparr>ov_risk = Some ''write'', ov_hidden = True\<rparr>), (''rm'', \<lparr>ov_risk = Some ''read'', ov_hidden = False\<rparr>)]
   in merge_tool_policies (policies_from_config config) updates = Inr policies \<and>
      policies_from_config (apply_policies_to_config config policies) = policies"
proof -
  have "merge_tool_policies (policies_from_config (JObj [(''tool_risk'', JObj [('' run '', JStr ''WRITE''), (''other'', JInt 3)])]))
      [JObj [(''name'', JStr ''run''), (''hidden'', JBool True)], JObj [(''name'', JStr ''rm''), (''risk'', JStr ''read'')]] =
      Inr [(''run'', \<lparr>ov_risk = Some ''write'', ov_hidden = True\<rparr>), (''rm'', \<lparr>ov_risk = Some ''read'', ov_hidden = False\<rparr>)]"
    by code_simp
  from this overrides_saved [OF this] show ?thesis by simp
qed


definition demo_server :: mcp_server where
  "demo_server =
     \<lparr>ms_id = ''srv'', ms_tenant = ''t'', ms_name = ''Files'', ms_tool_names = JArr [], ms_transport = ''http'',
      ms_endpoint_url = None, ms_connection_config = JObj [(''tool_schemas'', JArr (map reported [(''get'', []), (''wipe'', []), (''add'', [])])),
        (''tool_risk'', JObj [(''add'', JObj [(''hidden'', JBool True)])])]\<rparr>"


text \<open>C25: a per-tool policy takes effect on the next check and only on its tool: with unique rows the upsert succeeds and
  keeps them unique, the tool is then blocked, sent to approval or allowed as the policy says whenever the scope and the
  deny rules allow it, and the action of every other tool stays.\<close>

theorem tool_policy_takes_effect:
  assumes "unique_by tool_policy_key rows" and "action \<in> set ALLOWED_ACTIONS"
    and "check_tool_access bundle deny_rules actor_role server tool = Inr (allowed, reason0)"
  shows "\<exists>rows' answer. upsert_tool_policy rows tenant (ms_id server) tool action risk_score reason new_id now = Inr rows' \<and>
    unique_by tool_policy_key rows' \<and>
    check_tool_policy_action rows' tenant bundle deny_rules actor_role server tool = Inr answer \<and>
    fst answer = (if allowed then action else ''block'') \<and>
    (\<forall>t s n. (t, s, n) \<noteq> (tenant, ms_id server, tool) \<longrightarrow> resolve_tool_action rows' t s n = resolve_tool_action rows t s n)"
proof -
  obtain rows' p where u: "upsert_tool_policy rows tenant (ms_id server) tool action risk_score reason new_id now = Inr rows'"
    "mp_action p = action" "unique_by tool_policy_key rows'" "filter (policy_key tenant (ms_id server) tool) rows' = [p]"
    "filter (\<lambda>q. \<not> policy_key tenant (ms_id server) tool q) rows' = filter (\<lambda>q. \<not> policy_key tenant (ms_id server) tool q) rows"
    using tool_policy_upserted [OF assms(1,2)] by blast
  have "resolve_tool_action rows' tenant (ms_id server) tool = Inr (action, Some p)"
    by (simp add: resolve_tool_action_def u(2,4) scalar_one_or_none_def)
  moreover have "action = ''allow'' \<or> action = ''approval'' \<or> action = ''block''"
    using assms(2) by (simp add: ALLOWED_ACTIONS_def)
  ultimately have "\<exists>answer. check_tool_policy_action rows' tenant bundle deny_rules actor_role server tool = Inr answer \<and>
      fst answer = (if allowed then action else ''block'')"
    by (auto simp: check_tool_policy_action_def assms(3))
  moreover have "resolve_tool_action rows' t s n = resolve_tool_action rows t s n" if "(t, s, n) \<noteq> (tenant, ms_id server, tool)"
    for t s n unfolding resolve_tool_action_def by (simp only: other_rows [OF u(5) not_sym [OF that]])
  ultimately show ?thesis using u(1,3) by blast
qed

theorem tool_policy_takes_effect_witness:
  "\<exists>rows' answer. upsert_tool_policy [] ''t'' ''srv'' ''get'' ''approval'' 40 [] ''p1'' ''now'' = Inr rows' \<and>
    check_tool_policy_action rows' ''t'' None [] ''viewer'' demo_server ''get'' = Inr answer \<and> fst answer = ''approval''"
proof -
  have "check_tool_access None [] ''viewer'' demo_server ''get'' = Inr (True, [])" by code_simp
  moreover have "''approval'' \<in> set ALLOWED_ACTIONS" by code_simp
  moreover have "ms_id demo_server = ''srv''" by (simp add: demo_server_def)
  ultimately show ?thesis
    using tool_policy_takes_effect [of "[]" "''approval''" None "[]" "''viewer''" demo_server "''get''" True "[]" "''t''" 40 "[]"
      "''p1''" "''now''"] by auto
qed



text \<open>In allowlist mode the blocking of private addresses lets them all through, whatever the patterns are: a fetch
  of the address of a cloud metadata service passes an allowlist of one public host.\<close>

theorem allowlist_private_hosts_pass:
  assumes "host_from_url url = Inr host" and "host \<noteq> []" and "is_private_host host"
    and "p = merge_url_filters policy" and "uf_mode p = ''allowlist''" and "uf_block_private_ips p"
  shows "url_matches_policy url policy = Inr True"
  using assms by (simp add: url_matches_policy_def url_allowed_def)

theorem allowlist_private_hosts_pass_witness:
  "url_matches_policy ''http://169.254.169.254/latest''
     (JObj [(''mode'', JStr ''allowlist''), (''patterns'', JArr [JStr ''example.com''])]) = Inr True"
proof -
  let ?policy = "JObj [(''mode'', JStr ''allowlist''), (''patterns'', JArr [JStr ''example.com''])]"
  have "host_from_url ''http://169.254.169.254/latest'' = Inr ''169.254.169.254''" "is_private_host ''169.254.169.254''"
    "uf_mode (merge_url_filters ?policy) = ''allowlist''" "uf_block_private_ips (merge_url_filters ?policy)"
    by code_simp+
  then show ?thesis using allowlist_private_hosts_pass [of "''http://169.254.169.254/latest''" "''169.254.169.254''" _ ?policy] by simp
qed

end
