(* ===== verification/BackendAgentic.thy ===== *)
theory BackendAgentic
  imports PyEqual BackendTree BackendGuardian "HOL-Library.List_Lexorder"
begin

text \<open>
  The control plane of endpoints and agents: \<open>agentic_service.py\<close> (registration, risk scores, security events and
  their audit rows, approvals), \<open>mcp_tool_chain_service.py\<close> (chain events, their risk and their graph) and
  \<open>exfiltration_detection_service.py\<close>.  The database is a record of tables; \<open>ad_ids\<close> gives the ids of new rows, counted
  by \<open>ad_next\<close>, and \<open>ad_now\<close> the time in seconds.
\<close>

section \<open>Risk\<close>

definition AGENT_TYPE_BASE_RISK :: "int dict" where
  "AGENT_TYPE_BASE_RISK =
     [(''coding_agent'', 30), (''ide_copilot'', 25), (''enterprise_copilot'', 30), (''teams_agent'', 35),
      (''copilot_studio_agent'', 35), (''autonomous_agent'', 55), (''mcp_agent'', 40), (''rag_agent'', 20),
      (''custom_agent'', 30), (''local_llm_agent'', 15)]"

definition TOOL_RISK_KEYWORDS :: "int dict" where
  "TOOL_RISK_KEYWORDS =
     [(''delete'', 25), (''remove'', 20), (''exec'', 25), (''shell'', 25), (''write'', 15), (''push'', 15), (''deploy'', 20),
      (''apply'', 15), (''destroy'', 30), (''admin'', 20)]"

definition SENSITIVE_DATA_KEYWORDS :: "int dict" where
  "SENSITIVE_DATA_KEYWORDS =
     [(''ssh'', 20), (''aws'', 15), (''credentials'', 25), (''secret'', 25), (''.env'', 25), (''pii'', 20), (''phi'', 25),
      (''pci'', 25), (''customer'', 20), (''production'', 20)]"

definition RISK_BAND_LABELS :: "(int \<times> int \<times> string) list" where
  "RISK_BAND_LABELS = [(80, 100, ''critical''), (60, 79, ''high''), (30, 59, ''medium''), (0, 29, ''low'')]"

definition risk_band :: "int \<Rightarrow> string" where
  "risk_band score =
     (case find (\<lambda>(low, high, _). low \<le> score \<and> score \<le> high) RISK_BAND_LABELS of
        Some (_, _, label) \<Rightarrow> label
      | None \<Rightarrow> ''low'')"

text \<open>The weight of the first keyword that occurs in a name.\<close>

definition keyword_weight :: "int dict \<Rightarrow> string \<Rightarrow> int" where
  "keyword_weight keywords name =
     (case find (\<lambda>(k, _). contains k (lower name)) keywords of Some (_, w) \<Rightarrow> w | None \<Rightarrow> 0)"

definition BROAD_PERMISSIONS :: "string list" where
  "BROAD_PERMISSIONS = [''admin'', ''root'', ''sudo'', ''write'', ''delete'', ''all'']"

definition compute_agent_risk_score :: "string \<Rightarrow> string list \<Rightarrow> string list \<Rightarrow> string list \<Rightarrow> string list \<Rightarrow> int" where
  "compute_agent_risk_score agent_type tools mcp_servers data_sources permissions =
     clamp100
       (dict_get_or AGENT_TYPE_BASE_RISK agent_type 30 + sum_list (map (keyword_weight TOOL_RISK_KEYWORDS) tools) +
        (if mcp_servers \<noteq> [] then min 15 (5 * int (length mcp_servers)) else 0) +
        sum_list (map (keyword_weight SENSITIVE_DATA_KEYWORDS) data_sources) +
        (if list_ex (\<lambda>p. lower p \<in> set BROAD_PERMISSIONS) permissions then 15 else 0))"

section \<open>Tables\<close>

record endpoint =
  en_id :: uuid
  en_tenant :: uuid
  en_hostname :: string
  en_os_name :: string
  en_os_version :: string
  en_agent_version :: string
  en_status :: string
  en_last_seen_at :: "int option"
  en_metadata :: "json dict"

record agent_inventory =
  ai_id :: uuid
  ai_tenant :: uuid
  ai_endpoint :: "uuid option"
  ai_name :: string
  ai_agent_type :: string
  ai_vendor :: string
  ai_version :: string
  ai_user_name :: string
  ai_status :: string
  ai_risk_score :: int
  ai_data_sources :: "string list"
  ai_tools :: "string list"
  ai_mcp_servers :: "string list"
  ai_permissions :: "string list"
  ai_last_activity_at :: int

record sanctioned_tool =
  st_id :: uuid
  st_tenant :: uuid
  st_name :: string
  st_added_by :: string

record audit_log =
  au_id :: uuid
  au_tenant :: uuid
  au_timestamp :: int
  au_actor :: string
  au_action :: string
  au_resource :: string
  au_status :: string
  au_risk :: string
  au_details :: string
  au_usage_metadata :: json
  au_source :: string

record security_event =
  se_id :: uuid
  se_tenant :: uuid
  se_endpoint :: "uuid option"
  se_agent :: "uuid option"
  se_audit_log :: uuid
  se_source :: string
  se_event_type :: string
  se_user_name :: string
  se_tool :: string
  se_action :: string
  se_resource :: string
  se_classification :: "string list"
  se_decision :: string
  se_risk_score :: int
  se_policy_id :: "string option"
  se_policy_name :: string
  se_metadata :: "json dict"

record approval =
  ap_id :: uuid
  ap_tenant :: uuid
  ap_security_event :: "uuid option"
  ap_endpoint :: "uuid option"
  ap_agent :: "uuid option"
  ap_user_name :: string
  ap_tool :: string
  ap_action :: string
  ap_resource :: string
  ap_classification :: "string list"
  ap_risk_score :: int
  ap_reason :: string
  ap_policy_id :: "string option"
  ap_policy_name :: string
  ap_status :: string
  ap_decided_by :: string
  ap_decided_at :: "int option"
  ap_expires_at :: int
  ap_created_at :: int

record chain_event =
  ch_id :: uuid
  ch_tenant :: uuid
  ch_security_event :: "uuid option"
  ch_approval :: "uuid option"
  ch_source_agent :: "uuid option"
  ch_target_agent :: "uuid option"
  ch_endpoint :: "uuid option"
  ch_server :: "uuid option"
  ch_server_name :: string
  ch_tool_name :: string
  ch_tool_risk :: string
  ch_data_source :: string
  ch_external_service :: string
  ch_decision :: string
  ch_risk_score :: int
  ch_policy_id :: "string option"
  ch_policy_name :: string
  ch_metadata :: json
  ch_created_at :: int

record agentic_db =
  ad_endpoints :: "endpoint list"
  ad_agents :: "agent_inventory list"
  ad_sanctioned :: "sanctioned_tool list"
  ad_audit :: "audit_log list"
  ad_events :: "security_event list"
  ad_approvals :: "approval list"
  ad_chain :: "chain_event list"
  ad_ids :: "nat \<Rightarrow> uuid"
  ad_next :: nat
  ad_now :: int

definition fresh_id :: "agentic_db \<Rightarrow> uuid \<times> agentic_db" where
  "fresh_id db = (ad_ids db (ad_next db), db\<lparr>ad_next := Suc (ad_next db)\<rparr>)"

section \<open>Endpoints and agents\<close>

record endpoint_request =
  er_hostname :: string
  er_os_name :: string
  er_os_version :: string
  er_agent_version :: string
  er_metadata :: "json dict"

definition endpoint_key :: "uuid \<Rightarrow> string \<Rightarrow> endpoint \<Rightarrow> bool" where
  "endpoint_key tenant hostname e \<longleftrightarrow> en_tenant e = tenant \<and> en_hostname e = hostname"

definition or_str :: "string \<Rightarrow> string \<Rightarrow> string" where
  "or_str a b = (if a \<noteq> [] then a else b)"

definition updated_endpoint :: "endpoint_request \<Rightarrow> int \<Rightarrow> endpoint \<Rightarrow> endpoint" where
  "updated_endpoint p now e =
     e\<lparr>en_os_name := or_str (er_os_name p) (en_os_name e), en_os_version := or_str (er_os_version p) (en_os_version e),
       en_agent_version := or_str (er_agent_version p) (en_agent_version e), en_status := ''online'',
       en_last_seen_at := Some now, en_metadata := (if er_metadata p \<noteq> [] then er_metadata p else en_metadata e)\<rparr>"

definition register_endpoint :: "uuid \<Rightarrow> endpoint_request \<Rightarrow> agentic_db \<Rightarrow> (endpoint \<times> agentic_db) result" where
  "register_endpoint tenant p db =
     bindE (scalar_one_or_none (filter (endpoint_key tenant (er_hostname p)) (ad_endpoints db)))
       (\<lambda>found. Inr (case found of
          None \<Rightarrow>
            (let (i, db') = fresh_id db;
                 e = \<lparr>en_id = i, en_tenant = tenant, en_hostname = er_hostname p, en_os_name = er_os_name p,
                      en_os_version = er_os_version p, en_agent_version = er_agent_version p, en_status = ''online'',
                      en_last_seen_at = Some (ad_now db), en_metadata = er_metadata p\<rparr>
             in (e, db'\<lparr>ad_endpoints := ad_endpoints db @ [e]\<rparr>))
        | Some e \<Rightarrow>
            (updated_endpoint p (ad_now db) e,
             db\<lparr>ad_endpoints := map (\<lambda>x. if endpoint_key tenant (er_hostname p) x then updated_endpoint p (ad_now db) x else x)
                  (ad_endpoints db)\<rparr>)))"

definition heartbeat_endpoint :: "uuid \<Rightarrow> string \<Rightarrow> string option \<Rightarrow> agentic_db \<Rightarrow> agentic_db" where
  "heartbeat_endpoint endpoint_id status agent_version db =
     db\<lparr>ad_endpoints := map (\<lambda>e. if en_id e = endpoint_id
          then e\<lparr>en_status := status, en_last_seen_at := Some (ad_now db),
                 en_agent_version := (case agent_version of Some v \<Rightarrow> or_str v (en_agent_version e) | None \<Rightarrow> en_agent_version e)\<rparr>
          else e) (ad_endpoints db)\<rparr>"

record agent_request =
  ar_endpoint_id :: "string option"
  ar_name :: string
  ar_agent_type :: string
  ar_vendor :: string
  ar_version :: string
  ar_user_name :: string
  ar_status :: string
  ar_data_sources :: "string list"
  ar_tools :: "string list"
  ar_mcp_servers :: "string list"
  ar_permissions :: "string list"

text \<open>\<open>uuid.UUID(s) if s else None\<close>\<close>

definition optional_uuid :: "string option \<Rightarrow> uuid option result" where
  "optional_uuid s =
     (case s of
        Some (c # t) \<Rightarrow>
          (case uuid_of (c # t) of None \<Rightarrow> Inl (ValueError ''badly formed hexadecimal UUID string'') | Some u \<Rightarrow> Inr (Some u))
      | _ \<Rightarrow> Inr None)"

definition agent_key :: "uuid \<Rightarrow> uuid option \<Rightarrow> string \<Rightarrow> agent_inventory \<Rightarrow> bool" where
  "agent_key tenant endpoint name a \<longleftrightarrow> ai_tenant a = tenant \<and> ai_endpoint a = endpoint \<and> ai_name a = name"

definition agent_of_request :: "uuid \<Rightarrow> uuid \<Rightarrow> uuid option \<Rightarrow> agent_request \<Rightarrow> int \<Rightarrow> agent_inventory" where
  "agent_of_request i tenant endpoint p now =
     \<lparr>ai_id = i, ai_tenant = tenant, ai_endpoint = endpoint, ai_name = ar_name p, ai_agent_type = ar_agent_type p,
      ai_vendor = ar_vendor p, ai_version = ar_version p, ai_user_name = ar_user_name p, ai_status = ar_status p,
      ai_risk_score = compute_agent_risk_score (ar_agent_type p) (ar_tools p) (ar_mcp_servers p) (ar_data_sources p)
        (ar_permissions p),
      ai_data_sources = ar_data_sources p, ai_tools = ar_tools p, ai_mcp_servers = ar_mcp_servers p,
      ai_permissions = ar_permissions p, ai_last_activity_at = now\<rparr>"

definition upsert_agent :: "uuid \<Rightarrow> agent_request \<Rightarrow> agentic_db \<Rightarrow> (agent_inventory \<times> agentic_db) result" where
  "upsert_agent tenant p db =
     bindE (optional_uuid (ar_endpoint_id p))
       (\<lambda>endpoint. bindE (scalar_one_or_none (filter (agent_key tenant endpoint (ar_name p)) (ad_agents db)))
         (\<lambda>found. Inr (case found of
            None \<Rightarrow>
              (let (i, db') = fresh_id db; a = agent_of_request i tenant endpoint p (ad_now db)
               in (a, db'\<lparr>ad_agents := ad_agents db @ [a]\<rparr>))
          | Some a \<Rightarrow>
              (let a' = agent_of_request (ai_id a) tenant endpoint p (ad_now db)
               in (a', db\<lparr>ad_agents := map (\<lambda>x. if agent_key tenant endpoint (ar_name p) x then a' else x) (ad_agents db)\<rparr>)))))"

section \<open>Sanctioned tools\<close>

definition list_sanctioned_tools :: "agentic_db \<Rightarrow> uuid \<Rightarrow> sanctioned_tool list" where
  "list_sanctioned_tools db tenant = sort_key st_name (filter (\<lambda>t. st_tenant t = tenant) (ad_sanctioned db))"

definition add_sanctioned_tool :: "uuid \<Rightarrow> string \<Rightarrow> string \<Rightarrow> agentic_db \<Rightarrow> (sanctioned_tool \<times> agentic_db) result" where
  "add_sanctioned_tool tenant name added_by db =
     bindE (scalar_one_or_none
         (filter (\<lambda>t. st_tenant t = tenant \<and> lower (st_name t) = lower (strip name)) (ad_sanctioned db)))
       (\<lambda>found. Inr (case found of
          Some t \<Rightarrow> (t, db)
        | None \<Rightarrow>
            (let (i, db') = fresh_id db; t = \<lparr>st_id = i, st_tenant = tenant, st_name = strip name, st_added_by = added_by\<rparr>
             in (t, db'\<lparr>ad_sanctioned := ad_sanctioned db @ [t]\<rparr>))))"

definition remove_sanctioned_tool :: "uuid \<Rightarrow> uuid \<Rightarrow> agentic_db \<Rightarrow> bool \<times> agentic_db" where
  "remove_sanctioned_tool tenant tool_id db =
     (case find (\<lambda>t. st_id t = tool_id) (ad_sanctioned db) of
        None \<Rightarrow> (False, db)
      | Some t \<Rightarrow>
          if st_tenant t \<noteq> tenant then (False, db)
          else (True, db\<lparr>ad_sanctioned := filter (\<lambda>x. st_id x \<noteq> tool_id) (ad_sanctioned db)\<rparr>))"

definition discovered_names :: "json dict \<Rightarrow> string list result" where
  "discovered_names metadata =
     (let discovered = dict_get_or metadata ''discovered'' JNull in
      bindE (if truthy discovered then json_iter discovered else Inr [])
        (\<lambda>items. Inr (concat (map (\<lambda>item. case item of
             JObj kvs \<Rightarrow>
               (let name = dict_get_or kvs ''name'' JNull in if truthy name then [strip (py_str name)] else [])
           | _ \<Rightarrow> []) items))))"

definition classify_discovery :: "agentic_db \<Rightarrow> uuid \<Rightarrow> json dict \<Rightarrow> (string \<times> string list) result" where
  "classify_discovery db tenant metadata =
     bindE (discovered_names metadata)
       (\<lambda>names.
          let sanctioned = map (\<lambda>t. lower (st_name t)) (list_sanctioned_tools db tenant);
              unsanctioned = sort (dedup_from [] (filter (\<lambda>n. lower n \<notin> set sanctioned) names))
          in Inr (if unsanctioned \<noteq> [] then (''bypassed'', unsanctioned) else (''logged'', [])))"

section \<open>Security events\<close>

record event_request =
  ev_endpoint_id :: "string option"
  ev_agent_id :: "string option"
  ev_source :: string
  ev_event_type :: string
  ev_user_name :: string
  ev_tool :: string
  ev_action :: string
  ev_resource :: string
  ev_classification :: "string list"
  ev_decision :: string
  ev_risk_score :: int
  ev_policy_id :: "string option"
  ev_policy_name :: string
  ev_metadata :: "json dict"

definition DISCOVERY_EVENT_TYPES :: "string list" where
  "DISCOVERY_EVENT_TYPES = [''discovery'', ''mcp_discovery'']"

definition audit_status :: "string \<Rightarrow> string" where
  "audit_status decision =
     (if decision = ''allowed'' then ''allowed''
      else if decision \<in> {''blocked'', ''redacted'', ''approval'', ''bypassed''} then decision
      else ''logged'')"

definition event_details :: "event_request \<Rightarrow> string list \<Rightarrow> string" where
  "event_details p unsanctioned =
     take 4000
       (''source='' @ ev_source p @ ''; event_type='' @ ev_event_type p @ ''; tool='' @ or_str (ev_tool p) ''unknown'' @
        ''; classification='' @ or_str (join '', '' (ev_classification p)) ''none'' @
        (if unsanctioned \<noteq> [] then ''; unsanctioned_tools='' @ join '', '' unsanctioned else []))"

definition event_usage :: "event_request \<Rightarrow> string list \<Rightarrow> json" where
  "event_usage p unsanctioned =
     JObj [(''source'', JStr (ev_source p)), (''event_type'', JStr (ev_event_type p)), (''tool'', JStr (ev_tool p)),
       (''classification'', JArr (map JStr (ev_classification p))),
       (''policy_id'', (case ev_policy_id p of None \<Rightarrow> JNull | Some i \<Rightarrow> JStr i)), (''policy_name'', JStr (ev_policy_name p)),
       (''unsanctioned_tools'', JArr (map JStr unsanctioned))]"

definition insert_audit :: "(uuid \<Rightarrow> audit_log) \<Rightarrow> agentic_db \<Rightarrow> audit_log \<times> agentic_db" where
  "insert_audit row db = (let (i, db') = fresh_id db in (row i, db'\<lparr>ad_audit := ad_audit db @ [row i]\<rparr>))"

definition insert_event :: "(uuid \<Rightarrow> security_event) \<Rightarrow> agentic_db \<Rightarrow> security_event \<times> agentic_db" where
  "insert_event row db = (let (i, db') = fresh_id db in (row i, db'\<lparr>ad_events := ad_events db @ [row i]\<rparr>))"

definition insert_approval :: "(uuid \<Rightarrow> approval) \<Rightarrow> agentic_db \<Rightarrow> agentic_db" where
  "insert_approval row db = (let (i, db') = fresh_id db in db'\<lparr>ad_approvals := ad_approvals db @ [row i]\<rparr>)"

definition approval_of_event :: "uuid \<Rightarrow> uuid option \<Rightarrow> uuid option \<Rightarrow> event_request \<Rightarrow> uuid \<Rightarrow> int \<Rightarrow> uuid \<Rightarrow> approval" where
  "approval_of_event tenant endpoint agent p event_id now i =
     \<lparr>ap_id = i, ap_tenant = tenant, ap_security_event = Some event_id, ap_endpoint = endpoint, ap_agent = agent,
      ap_user_name = ev_user_name p, ap_tool = ev_tool p, ap_action = ev_action p, ap_resource = ev_resource p,
      ap_classification = ev_classification p, ap_risk_score = ev_risk_score p, ap_reason = [], ap_policy_id = ev_policy_id p,
      ap_policy_name = ev_policy_name p, ap_status = ''pending'', ap_decided_by = [], ap_decided_at = None,
      ap_expires_at = now + 86400, ap_created_at = now\<rparr>"

definition audit_of_event :: "uuid \<Rightarrow> event_request \<Rightarrow> string \<Rightarrow> string \<Rightarrow> string list \<Rightarrow> int \<Rightarrow> uuid \<Rightarrow> audit_log" where
  "audit_of_event tenant p actor decision unsanctioned now i =
     \<lparr>au_id = i, au_tenant = tenant, au_timestamp = now, au_actor = or_str actor (ev_user_name p),
      au_action = take 100 (''endpoint.'' @ ev_action p), au_resource = or_str (ev_resource p) ''-'',
      au_status = audit_status decision, au_risk = (if unsanctioned \<noteq> [] then ''high'' else risk_band (ev_risk_score p)),
      au_details = event_details p unsanctioned, au_usage_metadata = event_usage p unsanctioned,
      au_source = or_str (ev_source p) ''endpoint''\<rparr>"

definition event_of_request ::
  "uuid \<Rightarrow> uuid option \<Rightarrow> uuid option \<Rightarrow> event_request \<Rightarrow> string \<Rightarrow> string list \<Rightarrow> uuid \<Rightarrow> uuid \<Rightarrow> security_event"
where
  "event_of_request tenant endpoint agent p decision unsanctioned audit_id i =
     \<lparr>se_id = i, se_tenant = tenant, se_endpoint = endpoint, se_agent = agent, se_audit_log = audit_id,
      se_source = ev_source p, se_event_type = ev_event_type p, se_user_name = ev_user_name p, se_tool = ev_tool p,
      se_action = ev_action p, se_resource = ev_resource p, se_classification = ev_classification p, se_decision = decision,
      se_risk_score = (if unsanctioned \<noteq> [] then 70 else ev_risk_score p), se_policy_id = ev_policy_id p,
      se_policy_name = ev_policy_name p, se_metadata = ev_metadata p\<rparr>"

definition record_security_event ::
  "uuid \<Rightarrow> event_request \<Rightarrow> string \<Rightarrow> agentic_db \<Rightarrow> (security_event \<times> audit_log \<times> agentic_db) result" where
  "record_security_event tenant p actor db =
     bindE (optional_uuid (ev_endpoint_id p))
       (\<lambda>endpoint. bindE (optional_uuid (ev_agent_id p))
         (\<lambda>agent. bindE (if ev_event_type p \<in> set DISCOVERY_EVENT_TYPES then classify_discovery db tenant (ev_metadata p)
                        else Inr (ev_decision p, []))
           (\<lambda>(decision, unsanctioned).
              let (audit, db1) = insert_audit (audit_of_event tenant p actor decision unsanctioned (ad_now db)) db;
                  (event, db2) = insert_event
                    (event_of_request tenant endpoint agent p decision unsanctioned (au_id audit)) db1;
                  db3 = (if ev_decision p = ''approval''
                         then insert_approval (approval_of_event tenant endpoint agent p (se_id event) (ad_now db)) db2 else db2)
              in Inr (event, audit, db3))))"

definition count_by :: "('a \<Rightarrow> string) \<Rightarrow> 'a list \<Rightarrow> int dict" where
  "count_by f xs = map (\<lambda>k. (k, int (length (filter (\<lambda>x. f x = k) xs)))) (dedup_from [] (map f xs))"

definition security_event_summary :: "agentic_db \<Rightarrow> uuid \<Rightarrow> json dict" where
  "security_event_summary db tenant =
     (let rows = filter (\<lambda>e. se_tenant e = tenant) (ad_events db);
          by_decision = count_by se_decision rows;
          counts = (\<lambda>d. JObj (map (\<lambda>(k, n). (k, JInt n)) d))
      in
      [(''total'', JInt (int (length rows))), (''blocked'', JInt (dict_get_or by_decision ''blocked'' 0)),
       (''redacted'', JInt (dict_get_or by_decision ''redacted'' 0)), (''allowed'', JInt (dict_get_or by_decision ''allowed'' 0)),
       (''bypassed'', JInt (dict_get_or by_decision ''bypassed'' 0)),
       (''high_risk'', JInt (int (length (filter (\<lambda>e. 60 \<le> se_risk_score e) rows)))), (''by_decision'', counts by_decision),
       (''by_type'', counts (count_by se_event_type rows))])"

section \<open>Approvals\<close>

text \<open>Newest first; rows of the same time in the order of the table.\<close>

definition list_approvals :: "agentic_db \<Rightarrow> uuid \<Rightarrow> string option \<Rightarrow> approval list" where
  "list_approvals db tenant status_filter =
     sort_key (\<lambda>a. - ap_created_at a)
       (filter (\<lambda>a. ap_tenant a = tenant \<and>
          (case status_filter of Some (c # s) \<Rightarrow> c # s = ''all'' \<or> ap_status a = c # s | _ \<Rightarrow> True)) (ad_approvals db))"

definition decide_approval :: "uuid \<Rightarrow> string \<Rightarrow> string \<Rightarrow> string \<Rightarrow> agentic_db \<Rightarrow> agentic_db" where
  "decide_approval approval_id decision decided_by reason db =
     db\<lparr>ad_approvals := map (\<lambda>a. if ap_id a = approval_id
          then a\<lparr>ap_status := decision, ap_decided_by := decided_by, ap_decided_at := Some (ad_now db),
                 ap_reason := or_str reason (ap_reason a)\<rparr>
          else a) (ad_approvals db)\<rparr>"

section \<open>Rules on files\<close>

definition file_rule :: "string \<Rightarrow> string \<Rightarrow> string \<Rightarrow> string dict" where
  "file_rule pattern classification action =
     [(''pattern'', pattern), (''classification'', classification), (''action'', action)]"

definition DEFAULT_FILE_GOVERNANCE_RULES :: "string dict list" where
  "DEFAULT_FILE_GOVERNANCE_RULES =
     [file_rule ''.env'' ''*'' ''block'', file_rule ''.env.*'' ''*'' ''block'', file_rule ''*.pem'' ''*'' ''block'',
      file_rule ''*.key'' ''*'' ''block'', file_rule ''credentials.*'' ''*'' ''block'', file_rule ''~/.ssh/**'' ''*'' ''block'',
      file_rule ''~/.aws/**'' ''*'' ''block'', file_rule ''*.sql'' ''PII'' ''redact'', file_rule ''src/**'' ''*'' ''allow'',
      file_rule ''tests/**'' ''*'' ''allow'']"

text \<open>The argument is the column \<open>file_governance_rules\<close> of the bundle, None when there is no bundle.\<close>

definition file_governance_rules_for_bundle :: "json option \<Rightarrow> string dict list" where
  "file_governance_rules_for_bundle column =
     (case column of
        Some (JArr (r # rs)) \<Rightarrow>
          (let rules = concat (map (\<lambda>rule. case rule of
                 JObj kvs \<Rightarrow>
                   if truthy (dict_get_or kvs ''pattern'' JNull)
                   then [file_rule (py_str (dict_get_or kvs ''pattern'' (JStr []))) (py_str (dict_get_or kvs ''classification'' (JStr ''*'')))
                           (py_str (dict_get_or kvs ''action'' (JStr ''allow'')))]
                   else []
               | _ \<Rightarrow> []) (r # rs))
           in if rules \<noteq> [] then rules else DEFAULT_FILE_GOVERNANCE_RULES)
      | _ \<Rightarrow> DEFAULT_FILE_GOVERNANCE_RULES)"

section \<open>Tool chains\<close>

definition TOOL_RISK_BASE :: "int dict" where
  "TOOL_RISK_BASE = [(''read'', 10), (''write'', 30), (''destructive'', 50)]"

definition TRUSTED_EXTERNAL_SERVICES :: "string list" where
  "TRUSTED_EXTERNAL_SERVICES =
     [''github'', ''gitlab'', ''jira'', ''confluence'', ''slack'', ''teams'', ''salesforce'', ''servicenow'', ''datadog'',
      ''splunk'', ''pagerduty'', ''aws'', ''azure'', ''gcp'']"

definition trusted_service :: "string \<Rightarrow> bool" where
  "trusted_service service \<longleftrightarrow> list_ex (\<lambda>v. contains v (lower service)) TRUSTED_EXTERNAL_SERVICES"

definition compute_chain_risk_score :: "string \<Rightarrow> string \<Rightarrow> string \<Rightarrow> int \<Rightarrow> rat \<Rightarrow> int" where
  "compute_chain_risk_score tool_risk data_source external_service agent_risk mcp_server_risk =
     clamp100
       (dict_get_or TOOL_RISK_BASE tool_risk 10 + keyword_weight SENSITIVE_DATA_KEYWORDS data_source +
        (if external_service \<noteq> [] \<and> \<not> trusted_service external_service then 15 else 0) +
        max 0 (min 15 (agent_risk div 7)) + max 0 (min 10 (trunc mcp_server_risk)))"

definition agent_named :: "agentic_db \<Rightarrow> uuid \<Rightarrow> string \<Rightarrow> uuid option" where
  "agent_named db tenant name =
     map_option ai_id (find (\<lambda>a. ai_tenant a = tenant \<and> ai_name a = name) (ad_agents db))"

definition resolve_source_agent :: "agentic_db \<Rightarrow> uuid \<Rightarrow> string \<Rightarrow> uuid option" where
  "resolve_source_agent db tenant actor =
     (if actor = [] then None
      else
        let candidate = (if startswith actor ''client-key:'' then drop (length ''client-key:'') actor else actor) in
        case agent_named db tenant candidate of Some i \<Rightarrow> Some i | None \<Rightarrow> agent_named db tenant actor)"

definition record_mcp_chain_event :: "(uuid \<Rightarrow> int \<Rightarrow> chain_event) \<Rightarrow> agentic_db \<Rightarrow> chain_event \<times> agentic_db" where
  "record_mcp_chain_event row db =
     (let (i, db') = fresh_id db; e = row i (ad_now db) in (e, db'\<lparr>ad_chain := ad_chain db @ [e]\<rparr>))"

definition list_chain_events :: "agentic_db \<Rightarrow> uuid \<Rightarrow> nat \<Rightarrow> string option \<Rightarrow> chain_event list" where
  "list_chain_events db tenant limit decision =
     take limit (sort_key (\<lambda>e. - ch_created_at e)
       (filter (\<lambda>e. ch_tenant e = tenant \<and>
          (case decision of Some (c # s) \<Rightarrow> c # s = ''all'' \<or> ch_decision e = c # s | _ \<Rightarrow> True)) (ad_chain db)))"

definition chain_summary :: "agentic_db \<Rightarrow> uuid \<Rightarrow> json dict" where
  "chain_summary db tenant =
     (let rows = filter (\<lambda>e. ch_tenant e = tenant) (ad_chain db);
          by_decision = count_by ch_decision rows;
          counts = (\<lambda>d. JObj (map (\<lambda>(k, n). (k, JInt n)) d))
      in
      [(''total'', JInt (int (length rows))), (''allowed'', JInt (dict_get_or by_decision ''allowed'' 0)),
       (''blocked'', JInt (dict_get_or by_decision ''blocked'' 0)), (''approval'', JInt (dict_get_or by_decision ''approval'' 0)),
       (''high_risk'', JInt (int (length (filter (\<lambda>e. 60 \<le> ch_risk_score e) rows)))), (''by_decision'', counts by_decision),
       (''by_tool_risk'', counts (count_by ch_tool_risk rows)),
       (''by_external_service'', counts (count_by ch_external_service (filter (\<lambda>e. ch_external_service e \<noteq> []) rows)))])"

text \<open>The graph: nodes by their id with the greatest risk of the events they appear in, and the edges of each event.\<close>

record graph_node =
  gn_label :: string
  gn_type :: string
  gn_risk :: int

record graph_edge =
  ge_from :: string
  ge_to :: string
  ge_label :: string
  ge_risk :: int

definition node_id :: "string \<Rightarrow> string \<Rightarrow> string" where
  "node_id node_type label = node_type @ '':'' @ label"

definition add_node :: "string \<Rightarrow> string \<Rightarrow> int \<Rightarrow> graph_node dict \<Rightarrow> graph_node dict" where
  "add_node node_type label risk nodes =
     (if label = [] then nodes
      else
        case dict_get nodes (node_id node_type label) of
          None \<Rightarrow> dict_set (node_id node_type label) \<lparr>gn_label = label, gn_type = node_type, gn_risk = risk\<rparr> nodes
        | Some n \<Rightarrow> dict_set (node_id node_type label) (n\<lparr>gn_risk := max (gn_risk n) risk\<rparr>) nodes)"

definition agent_label :: "uuid option \<Rightarrow> string" where
  "agent_label i = ''Agent ('' @ (case i of Some u \<Rightarrow> take 8 u | None \<Rightarrow> ''unknown'') @ '')''"

definition event_nodes :: "chain_event \<Rightarrow> (string \<times> string) list" where
  "event_nodes e =
     [(''agent'', agent_label (ch_source_agent e)), (''agent'', agent_label (ch_target_agent e)),
      (''mcp_server'', or_str (ch_server_name e) ''mcp:unknown''), (''tool'', or_str (ch_tool_name e) ''tool:unknown''),
      (''data_source'', or_str (ch_data_source e) ''data:unknown''),
      (''external_service'', or_str (ch_external_service e) ''external:unknown'')]"

definition event_edges :: "chain_event \<Rightarrow> graph_edge list" where
  "event_edges e =
     (let ids = map (\<lambda>(t, l). node_id t l) (event_nodes e);
          edge = (\<lambda>a b label. \<lparr>ge_from = ids ! a, ge_to = ids ! b, ge_label = label, ge_risk = ch_risk_score e\<rparr>)
      in [edge 0 1 ''calls'', edge 1 2 ''uses'', edge 2 3 ''invokes'', edge 3 4 ''reads'', edge 3 5 ''calls''])"

definition chain_graph :: "agentic_db \<Rightarrow> uuid \<Rightarrow> nat \<Rightarrow> graph_node dict \<times> graph_edge list" where
  "chain_graph db tenant limit =
     (let events = list_chain_events db tenant limit None in
      (foldl (\<lambda>nodes e. foldl (\<lambda>nodes (t, l). add_node t l (ch_risk_score e) nodes) nodes (event_nodes e)) [] events,
       concat (map event_edges events)))"

section \<open>Exfiltration\<close>

definition EXFIL_TYPE_BASE_RISK :: "int dict" where
  "EXFIL_TYPE_BASE_RISK = [(''large_read'', 40), (''rapid_read'', 50), (''sensitive_boundary_exit'', 70)]"

definition LARGE_READ_THRESHOLD_BYTES :: int where "LARGE_READ_THRESHOLD_BYTES = 10 * 1024 * 1024"
definition RAPID_READ_EVENT_THRESHOLD :: int where "RAPID_READ_EVENT_THRESHOLD = 20"

definition SENSITIVITY_RISK :: "int dict" where
  "SENSITIVITY_RISK = [(''low'', 0), (''medium'', 10), (''high'', 20), (''critical'', 30)]"

record exfil_finding =
  xf_type :: string
  xf_resource :: string
  xf_tool :: string
  xf_bytes_read :: int
  xf_event_count :: int
  xf_window_seconds :: int
  xf_sensitivity :: string
  xf_risk_score :: int
  xf_description :: string

definition compute_exfil_risk_score :: "string \<Rightarrow> int \<Rightarrow> int \<Rightarrow> string \<Rightarrow> int" where
  "compute_exfil_risk_score exfil_type bytes_read event_count sensitivity =
     clamp100
       (dict_get_or EXFIL_TYPE_BASE_RISK exfil_type 40 + dict_get_or SENSITIVITY_RISK sensitivity 0 +
        (if 100 * 1024 * 1024 \<le> bytes_read then 15 else if 50 * 1024 * 1024 \<le> bytes_read then 10 else 0) +
        (if 100 \<le> event_count then 10 else if 50 \<le> event_count then 5 else 0))"

definition detect_large_read :: "uuid \<Rightarrow> string \<Rightarrow> string \<Rightarrow> int \<Rightarrow> int \<Rightarrow> exfil_finding option" where
  "detect_large_read agent_id resource tool bytes_read threshold =
     (if bytes_read < threshold then None
      else Some \<lparr>xf_type = ''large_read'', xf_resource = resource, xf_tool = tool, xf_bytes_read = bytes_read,
        xf_event_count = 1, xf_window_seconds = 0, xf_sensitivity = [],
        xf_risk_score = compute_exfil_risk_score ''large_read'' bytes_read 0 [],
        xf_description = ''Agent '' @ agent_id @ '' read '' @ show_int bytes_read @ '' bytes from '' @ resource @ '' in a single operation''\<rparr>)"

definition detect_rapid_read :: "uuid \<Rightarrow> string \<Rightarrow> string \<Rightarrow> int \<Rightarrow> int \<Rightarrow> int \<Rightarrow> exfil_finding option" where
  "detect_rapid_read agent_id resource tool event_count window_seconds threshold =
     (if event_count < threshold \<or> window_seconds \<le> 0 then None
      else Some \<lparr>xf_type = ''rapid_read'', xf_resource = resource, xf_tool = tool, xf_bytes_read = 0,
        xf_event_count = event_count, xf_window_seconds = window_seconds, xf_sensitivity = [],
        xf_risk_score = compute_exfil_risk_score ''rapid_read'' 0 event_count [],
        xf_description = ''Agent '' @ agent_id @ '' performed '' @ show_int event_count @ '' reads on '' @ resource @ '' in '' @
          show_int window_seconds @ ''s''\<rparr>)"

definition detect_sensitive_boundary_exit :: "uuid \<Rightarrow> string \<Rightarrow> string \<Rightarrow> string \<Rightarrow> string \<Rightarrow> exfil_finding option" where
  "detect_sensitive_boundary_exit agent_id resource tool sensitivity external_service =
     (if sensitivity = [] \<or> sensitivity = ''low'' then None
      else if external_service = [] then None
      else if trusted_service external_service then None
      else Some \<lparr>xf_type = ''sensitive_boundary_exit'', xf_resource = resource, xf_tool = tool, xf_bytes_read = 0,
        xf_event_count = 1, xf_window_seconds = 0, xf_sensitivity = sensitivity,
        xf_risk_score = compute_exfil_risk_score ''sensitive_boundary_exit'' 0 0 sensitivity,
        xf_description = ''Agent '' @ agent_id @ '' sent '' @ sensitivity @ ''-sensitive data from '' @ resource @ '' to '' @ external_service\<rparr>)"

definition acknowledge_exfil :: "exfil_event list \<Rightarrow> uuid \<Rightarrow> uuid \<Rightarrow> (exfil_event option \<times> exfil_event list) result" where
  "acknowledge_exfil rows tenant exfil_id =
     bindE (scalar_one_or_none (filter (\<lambda>e. ef_tenant e = tenant \<and> ef_id e = exfil_id) rows))
       (\<lambda>found. Inr (case found of
          None \<Rightarrow> (None, rows)
        | Some e \<Rightarrow> (Some (e\<lparr>ef_status := ''acknowledged''\<rparr>),
            map (\<lambda>x. if ef_tenant x = tenant \<and> ef_id x = exfil_id then x\<lparr>ef_status := ''acknowledged''\<rparr> else x) rows)))"

definition exfil_summary :: "exfil_event list \<Rightarrow> uuid \<Rightarrow> json dict" where
  "exfil_summary rows tenant =
     (let events = filter (\<lambda>e. ef_tenant e = tenant) rows; open_events = filter (\<lambda>e. ef_status e = ''open'') events in
      [(''total'', JInt (int (length events))), (''open'', JInt (int (length open_events))),
       (''high_risk'', JInt (int (length (filter (\<lambda>e. 60 \<le> ef_risk_score e) open_events)))),
       (''by_type'', JObj (map (\<lambda>(k, n). (k, JInt n)) (count_by ef_exfil_type open_events)))])"

end
