(* ===== verification/BackendAgenticFacts.thy ===== *)
theory BackendAgenticFacts
  imports BackendAgentic BackendTable "HOL-Library.Multiset"
begin

text \<open>
  What holds of the control plane: endpoints and agents stay unique however often they register, risk scores are
  bounded and grow with what an agent can reach, and what becomes of a reported event.
\<close>

section \<open>Registration\<close>

definition endpoint_id_key :: "endpoint \<Rightarrow> uuid \<times> string" where
  "endpoint_id_key e = (en_tenant e, en_hostname e)"

definition agent_id_key :: "agent_inventory \<Rightarrow> uuid \<times> uuid option \<times> string" where
  "agent_id_key a = (ai_tenant a, ai_endpoint a, ai_name a)"

lemma endpoint_key_iff: "endpoint_key t h e \<longleftrightarrow> endpoint_id_key e = (t, h)"
  by (simp add: endpoint_key_def endpoint_id_key_def)

interpretation endpoints: keyed_update endpoint_id_key "(tenant, er_hostname p)" "updated_endpoint p now"
  by unfold_locales (simp add: endpoint_id_key_def updated_endpoint_def)

definition new_endpoint :: "uuid \<Rightarrow> endpoint_request \<Rightarrow> agentic_db \<Rightarrow> endpoint" where
  "new_endpoint tenant p db =
     \<lparr>en_id = ad_ids db (ad_next db), en_tenant = tenant, en_hostname = er_hostname p, en_os_name = er_os_name p,
      en_os_version = er_os_version p, en_agent_version = er_agent_version p, en_status = ''online'',
      en_last_seen_at = Some (ad_now db), en_metadata = er_metadata p\<rparr>"

lemma register_endpoint_result:
  assumes "unique_by endpoint_id_key (ad_endpoints db)"
  shows "register_endpoint tenant p db =
    Inr (case find (\<lambda>e. endpoint_id_key e = (tenant, er_hostname p)) (ad_endpoints db) of
       None \<Rightarrow>
         (new_endpoint tenant p db,
          db\<lparr>ad_next := Suc (ad_next db), ad_endpoints := ad_endpoints db @ [new_endpoint tenant p db]\<rparr>)
     | Some e \<Rightarrow>
         (updated_endpoint p (ad_now db) e,
          db\<lparr>ad_endpoints := endpoints.updated tenant p (ad_now db) (ad_endpoints db)\<rparr>))"
  unfolding register_endpoint_def endpoint_key_iff lookup_of_key [OF assms] endpoints.updated_def new_endpoint_def
  by (simp add: fresh_id_def Let_def split: option.split)

interpretation agents: keyed_update agent_id_key "(tenant, endpoint, ar_name p)"
    "\<lambda>a. agent_of_request (ai_id a) tenant endpoint p now"
  by unfold_locales (simp add: agent_id_key_def agent_of_request_def)

lemma agent_key_iff: "agent_key t i n a \<longleftrightarrow> agent_id_key a = (t, i, n)"
  by (simp add: agent_key_def agent_id_key_def)

lemma replace_found:
  assumes "unique_by key rows" and "find (\<lambda>r. key r = k) rows = Some a"
  shows "map (\<lambda>x. if key x = k then g a else x) rows = map (\<lambda>x. if key x = k then g x else x) rows"
proof (rule map_cong)
  fix x assume "x \<in> set rows"
  then have "x = a" if "key x = k" using find_unique [OF assms(1)] assms(2) that by auto
  then show "(if key x = k then g a else x) = (if key x = k then g x else x)" by auto
qed simp

definition new_agent :: "uuid \<Rightarrow> uuid option \<Rightarrow> agent_request \<Rightarrow> agentic_db \<Rightarrow> agent_inventory" where
  "new_agent tenant endpoint p db = agent_of_request (ad_ids db (ad_next db)) tenant endpoint p (ad_now db)"

lemma upsert_agent_result:
  assumes "unique_by agent_id_key (ad_agents db)" and "optional_uuid (ar_endpoint_id p) = Inr endpoint"
  shows "upsert_agent tenant p db =
    Inr (case find (\<lambda>a. agent_id_key a = (tenant, endpoint, ar_name p)) (ad_agents db) of
       None \<Rightarrow>
         (new_agent tenant endpoint p db,
          db\<lparr>ad_next := Suc (ad_next db), ad_agents := ad_agents db @ [new_agent tenant endpoint p db]\<rparr>)
     | Some a \<Rightarrow>
         (agent_of_request (ai_id a) tenant endpoint p (ad_now db),
          db\<lparr>ad_agents := agents.updated tenant endpoint p (ad_now db) (ad_agents db)\<rparr>))"
  unfolding upsert_agent_def assms(2) agent_key_iff bindE_Inr lookup_of_key [OF assms(1)] agents.updated_def new_agent_def
  using replace_found [OF assms(1), of "(tenant, endpoint, ar_name p)" _ "\<lambda>a. agent_of_request (ai_id a) tenant endpoint p (ad_now db)"]
  by (cases "find (\<lambda>a. agent_id_key a = (tenant, endpoint, ar_name p)) (ad_agents db)") (simp_all add: fresh_id_def Let_def)

section \<open>Unique keys\<close>

definition sanctioned_key :: "sanctioned_tool \<Rightarrow> uuid \<times> string" where
  "sanctioned_key t = (st_tenant t, lower (st_name t))"

definition inventory_ok :: "agentic_db \<Rightarrow> bool" where
  "inventory_ok db \<longleftrightarrow> unique_by endpoint_id_key (ad_endpoints db) \<and> unique_by agent_id_key (ad_agents db) \<and>
     unique_by sanctioned_key (ad_sanctioned db)"

lemma endpoint_registered:
  assumes "unique_by endpoint_id_key (ad_endpoints db)" and "register_endpoint tenant p db = Inr (e, db')"
  shows "unique_by endpoint_id_key (ad_endpoints db') \<and> filter (endpoint_key tenant (er_hostname p)) (ad_endpoints db') = [e] \<and>
    filter (\<lambda>x. \<not> endpoint_key tenant (er_hostname p) x) (ad_endpoints db') =
      filter (\<lambda>x. \<not> endpoint_key tenant (er_hostname p) x) (ad_endpoints db) \<and>
    ad_agents db' = ad_agents db \<and> ad_sanctioned db' = ad_sanctioned db"
proof -
  let ?k = "(tenant, er_hostname p)"
  have new: "endpoint_id_key (new_endpoint tenant p db) = ?k" by (simp add: endpoint_id_key_def new_endpoint_def)
  show ?thesis
    using endpoints.upserted [OF assms(1) new refl refl, of "ad_now db"] assms(2)
    unfolding register_endpoint_result [OF assms(1)] endpoint_key_iff [abs_def]
    by (cases "find (\<lambda>e. endpoint_id_key e = ?k) (ad_endpoints db)") auto
qed

lemma agent_upserted:
  assumes "unique_by agent_id_key (ad_agents db)" and "upsert_agent tenant p db = Inr (a, db')"
    and "optional_uuid (ar_endpoint_id p) = Inr endpoint"
  shows "unique_by agent_id_key (ad_agents db') \<and> filter (agent_key tenant endpoint (ar_name p)) (ad_agents db') = [a] \<and>
    filter (\<lambda>x. \<not> agent_key tenant endpoint (ar_name p) x) (ad_agents db') =
      filter (\<lambda>x. \<not> agent_key tenant endpoint (ar_name p) x) (ad_agents db) \<and>
    ad_endpoints db' = ad_endpoints db \<and> ad_sanctioned db' = ad_sanctioned db"
proof -
  let ?k = "(tenant, endpoint, ar_name p)"
  have new: "agent_id_key (new_agent tenant endpoint p db) = ?k"
    by (simp add: agent_id_key_def agent_of_request_def new_agent_def)
  show ?thesis
    using agents.upserted [OF assms(1) new refl refl, of "ad_now db"] assms(2)
    unfolding upsert_agent_result [OF assms(1,3)] agent_key_iff [abs_def]
    by (cases "find (\<lambda>a. agent_id_key a = ?k) (ad_agents db)") auto
qed

section \<open>Scores\<close>

lemma keyword_weight_nonneg: "list_all (\<lambda>(_, w). 0 \<le> w) ks \<Longrightarrow> 0 \<le> keyword_weight ks name"
  unfolding keyword_weight_def by (induction ks) auto

lemma keyword_weights: "0 \<le> keyword_weight TOOL_RISK_KEYWORDS x" "0 \<le> keyword_weight SENSITIVE_DATA_KEYWORDS x"
  by (rule keyword_weight_nonneg; simp add: TOOL_RISK_KEYWORDS_def SENSITIVE_DATA_KEYWORDS_def)+

lemma sum_weights_nonneg: "(\<And>x. 0 \<le> (f x :: int)) \<Longrightarrow> 0 \<le> (\<Sum>x \<in># M. f x)"
  by (induction M) auto

lemma sum_weights_mset:
  assumes "mset xs \<subseteq># mset ys" and "\<And>x. 0 \<le> (f x :: int)"
  shows "sum_list (map f xs) \<le> sum_list (map f ys)"
proof -
  obtain M where M: "mset ys = mset xs + M" using assms(1) by (auto simp: subset_mset.le_iff_add)
  have sums: "sum_list (map f zs) = (\<Sum>x \<in># mset zs. f x)" for zs by (metis mset_map sum_mset_sum_list)
  show ?thesis using sum_weights_nonneg [of f M] assms(2) by (simp add: sums M)
qed

lemma risk_band_cases:
  "0 \<le> score \<Longrightarrow> score \<le> 100 \<Longrightarrow>
   risk_band score = (if 80 \<le> score then ''critical'' else if 60 \<le> score then ''high'' else if 30 \<le> score then ''medium'' else ''low'')"
  by (simp add: risk_band_def RISK_BAND_LABELS_def)

section \<open>Events\<close>

definition unsanctioned :: "agentic_db \<Rightarrow> uuid \<Rightarrow> string \<Rightarrow> bool" where
  "unsanctioned db tenant name \<longleftrightarrow>
     list_all (\<lambda>t. st_tenant t = tenant \<longrightarrow> lower (st_name t) \<noteq> lower name) (ad_sanctioned db)"

lemma classify_discovery_result:
  assumes "discovered_names m = Inr names"
  shows "classify_discovery db tenant m =
     Inr (if list_ex (unsanctioned db tenant) names
          then (''bypassed'', sort (dedup_from [] (filter (unsanctioned db tenant) names))) else (''logged'', []))"
proof -
  have eq: "lower n \<notin> set (map (\<lambda>t. lower (st_name t)) (list_sanctioned_tools db tenant)) \<longleftrightarrow> unsanctioned db tenant n" for n
    by (auto simp: list_sanctioned_tools_def unsanctioned_def list_all_iff image_iff)
  have "sort (dedup_from [] bad) = [] \<longleftrightarrow> bad = []" for bad :: "string list"
    by (metis set_dedup_from set_sort set_empty Diff_empty empty_set)
  moreover have "filter P names = [] \<longleftrightarrow> \<not> list_ex P names" for P
    by (auto simp: filter_empty_conv list_ex_iff)
  ultimately show ?thesis using assms unfolding classify_discovery_def by (simp add: Let_def eq del: set_map)
qed

section \<open>Runs of the control plane\<close>

text \<open>The operations of the three services on the tables, in any order, and time.\<close>

inductive control_step :: "agentic_db \<Rightarrow> agentic_db \<Rightarrow> bool" where
  registered: "register_endpoint tenant p db = Inr (e, db') \<Longrightarrow> control_step db db'"
| beaten: "control_step db (heartbeat_endpoint endpoint_id status agent_version db)"
| upserted: "upsert_agent tenant q db = Inr (a, db') \<Longrightarrow> control_step db db'"
| sanctioned: "add_sanctioned_tool tenant name added_by db = Inr (t, db') \<Longrightarrow> control_step db db'"
| removed: "control_step db (snd (remove_sanctioned_tool tenant tool_id db))"
| event: "record_security_event tenant v actor db = Inr (e, audit, db') \<Longrightarrow> control_step db db'"
| decided: "control_step db (decide_approval approval_id decision decided_by reason db)"
| chained: "control_step db (snd (record_mcp_chain_event row db))"
| waited: "control_step db (db\<lparr>ad_now := later\<rparr>)"

definition fresh_db :: "(nat \<Rightarrow> uuid) \<Rightarrow> int \<Rightarrow> agentic_db" where
  "fresh_db ids now =
     \<lparr>ad_endpoints = [], ad_agents = [], ad_sanctioned = [], ad_audit = [], ad_events = [], ad_approvals = [], ad_chain = [],
      ad_ids = ids, ad_next = 0, ad_now = now\<rparr>"

definition new_sanctioned :: "uuid \<Rightarrow> string \<Rightarrow> string \<Rightarrow> agentic_db \<Rightarrow> sanctioned_tool" where
  "new_sanctioned tenant name added_by db =
     \<lparr>st_id = ad_ids db (ad_next db), st_tenant = tenant, st_name = strip name, st_added_by = added_by\<rparr>"

lemma add_sanctioned_tool_result:
  assumes "unique_by sanctioned_key (ad_sanctioned db)"
  shows "add_sanctioned_tool tenant name by db =
    Inr (case find (\<lambda>t. sanctioned_key t = (tenant, lower (strip name))) (ad_sanctioned db) of
       None \<Rightarrow>
         (new_sanctioned tenant name by db,
          db\<lparr>ad_next := Suc (ad_next db), ad_sanctioned := ad_sanctioned db @ [new_sanctioned tenant name by db]\<rparr>)
     | Some t \<Rightarrow> (t, db))"
proof -
  have key: "st_tenant t = tenant \<and> lower (st_name t) = lower (strip name) \<longleftrightarrow> sanctioned_key t = (tenant, lower (strip name))"
    for t by (simp add: sanctioned_key_def)
  show ?thesis
    unfolding add_sanctioned_tool_def key lookup_of_key [OF assms(1)] bindE_Inr new_sanctioned_def
    by (simp add: fresh_id_def Let_def cong: option.case_cong)
qed

lemma tool_sanctioned:
  assumes "unique_by sanctioned_key (ad_sanctioned db)" and "add_sanctioned_tool tenant name by db = Inr (t, db')"
  shows "sanctioned_key t = (tenant, lower (strip name)) \<and> unique_by sanctioned_key (ad_sanctioned db') \<and>
    t \<in> set (ad_sanctioned db') \<and> ad_endpoints db' = ad_endpoints db \<and> ad_agents db' = ad_agents db"
proof (cases "find (\<lambda>t. sanctioned_key t = (tenant, lower (strip name))) (ad_sanctioned db)")
  case None
  then show ?thesis
    using find_key_None [of sanctioned_key "(tenant, lower (strip name))" "ad_sanctioned db"] assms
    unfolding add_sanctioned_tool_result [OF assms(1)] by (auto simp: unique_snoc sanctioned_key_def new_sanctioned_def)
next
  case (Some u)
  then show ?thesis
    using find_key_Some [OF Some] assms unfolding add_sanctioned_tool_result [OF assms(1)] by auto
qed

lemma record_security_event_result:
  "record_security_event tenant p actor db = Inr (event, audit, db') \<longleftrightarrow>
   (\<exists>endpoint agent decision bad.
      optional_uuid (ev_endpoint_id p) = Inr endpoint \<and> optional_uuid (ev_agent_id p) = Inr agent \<and>
      (if ev_event_type p \<in> set DISCOVERY_EVENT_TYPES then classify_discovery db tenant (ev_metadata p)
       else Inr (ev_decision p, [])) = Inr (decision, bad) \<and>
      audit = audit_of_event tenant p actor decision bad (ad_now db) (ad_ids db (ad_next db)) \<and>
      event = event_of_request tenant endpoint agent p decision bad (au_id audit) (ad_ids db (Suc (ad_next db))) \<and>
      db' = db\<lparr>ad_next := (if ev_decision p = ''approval'' then 3 else 2) + ad_next db, ad_audit := ad_audit db @ [audit],
        ad_events := ad_events db @ [event],
        ad_approvals := ad_approvals db @ (if ev_decision p = ''approval''
          then [approval_of_event tenant endpoint agent p (se_id event) (ad_now db) (ad_ids db (Suc (Suc (ad_next db))))]
          else [])\<rparr>)"
  unfolding record_security_event_def bindE_eq_Inr_iff
  by (auto simp: insert_audit_def insert_event_def insert_approval_def fresh_id_def Let_def split_paired_Ex simp del: ex_simps)

lemma control_step_ok: "control_step db db' \<Longrightarrow> inventory_ok db \<Longrightarrow> inventory_ok db'"
proof (induction rule: control_step.induct)
  case (registered tenant p db e db')
  then show ?case using endpoint_registered [of db tenant p e db'] by (simp add: inventory_ok_def)
next
  case (beaten db endpoint_id status agent_version)
  have "map endpoint_id_key (ad_endpoints (heartbeat_endpoint endpoint_id status agent_version db)) =
      map endpoint_id_key (ad_endpoints db)"
    by (simp add: heartbeat_endpoint_def endpoint_id_key_def)
  then show ?case using beaten unfolding inventory_ok_def unique_by_def by (simp only:) (simp add: heartbeat_endpoint_def)
next
  case (upserted tenant q db a db')
  then obtain endpoint where "optional_uuid (ar_endpoint_id q) = Inr endpoint"
    by (auto simp: upsert_agent_def bindE_eq_Inr_iff)
  then show ?case using agent_upserted [of db tenant q a db' endpoint] upserted by (simp add: inventory_ok_def)
next
  case (sanctioned tenant name added_by db t db')
  then show ?case using tool_sanctioned [of db tenant name added_by t db'] by (simp add: inventory_ok_def)
next
  case (removed db tenant tool_id)
  then show ?case by (auto simp: inventory_ok_def remove_sanctioned_tool_def split: option.split)
next
  case (event tenant v actor db e audit db')
  then show ?case by (auto simp: inventory_ok_def record_security_event_result)
next
  case (chained db row)
  then show ?case by (simp add: inventory_ok_def record_mcp_chain_event_def fresh_id_def Let_def)
qed (simp_all add: inventory_ok_def decide_approval_def)

lemma control_run_ok: "control_step\<^sup>*\<^sup>* (fresh_db ids now) db \<Longrightarrow> inventory_ok db"
proof (induction rule: rtranclp_induct)
  case base
  then show ?case by (simp add: inventory_ok_def fresh_db_def)
qed (rule control_step_ok)

section \<open>Properties\<close>


definition demo_request :: endpoint_request where
  "demo_request = \<lparr>er_hostname = ''laptop'', er_os_name = [], er_os_version = ''7'', er_agent_version = ''1.1'', er_metadata = []\<rparr>"


text \<open>The score of an agent lies between 0 and 100, and it never falls when the agent gains a tool, a server, a data
  source or a permission.\<close>

theorem agent_risk_grows:
  assumes "mset tools \<subseteq># mset tools'" "length servers \<le> length servers'" "mset sources \<subseteq># mset sources'"
    "set permissions \<subseteq> set permissions'"
  shows "0 \<le> compute_agent_risk_score agent_type tools servers sources permissions \<and>
    compute_agent_risk_score agent_type tools servers sources permissions \<le>
      compute_agent_risk_score agent_type tools' servers' sources' permissions' \<and>
    compute_agent_risk_score agent_type tools' servers' sources' permissions' \<le> 100"
proof -
  have "sum_list (map (keyword_weight TOOL_RISK_KEYWORDS) tools) \<le> sum_list (map (keyword_weight TOOL_RISK_KEYWORDS) tools')"
    "sum_list (map (keyword_weight SENSITIVE_DATA_KEYWORDS) sources) \<le> sum_list (map (keyword_weight SENSITIVE_DATA_KEYWORDS) sources')"
    using assms(1,3) by (auto intro: sum_weights_mset keyword_weights)
  moreover have "(if servers \<noteq> [] then min 15 (5 * int (length servers)) else 0) \<le>
      (if servers' \<noteq> [] then min 15 (5 * int (length servers')) else 0)"
    using assms(2) by auto
  moreover have "(if list_ex (\<lambda>p. lower p \<in> set BROAD_PERMISSIONS) permissions then 15 else 0 :: int) \<le>
      (if list_ex (\<lambda>p. lower p \<in> set BROAD_PERMISSIONS) permissions' then 15 else 0)"
    using assms(4) by (auto simp: list_ex_iff)
  ultimately show ?thesis
    unfolding compute_agent_risk_score_def by (intro conjI clamp100_bounds clamp100_mono add_mono order_refl)
qed

theorem agent_risk_grows_witness:
  "compute_agent_risk_score ''mcp_agent'' [''read_file''] [] [] [] = 40 \<and>
   compute_agent_risk_score ''mcp_agent'' [''run_shell'', ''read_file''] [''github''] [''customer db''] [''admin''] = 100 \<and>
   compute_agent_risk_score ''mcp_agent'' [''read_file''] [] [] [] \<le>
     compute_agent_risk_score ''mcp_agent'' [''run_shell'', ''read_file''] [''github''] [''customer db''] [''admin'']"
proof -
  have "compute_agent_risk_score ''mcp_agent'' [''read_file''] [] [] [] = 40" by code_simp
  moreover have "compute_agent_risk_score ''mcp_agent'' [''run_shell'', ''read_file''] [''github''] [''customer db''] [''admin''] = 100"
    by code_simp
  ultimately show ?thesis
    using agent_risk_grows [of "[''read_file'']" "[''run_shell'', ''read_file'']" "[]" "[''github'']" "[]" "[''customer db'']" "[]"
      "[''admin'']" "''mcp_agent''"] by simp
qed

text \<open>C28: a recorded event adds one event and one audit row that names it and carries its decision, and a pending approval
  that lasts a day exactly when the client asked for one.  The decision is the client's, except for a report of
  discovered tools: that one is bypassed when a tool is not sanctioned by the tenant, else logged.\<close>

theorem event_recorded:
  assumes "record_security_event tenant p actor db = Inr (event, audit, db')"
  shows "ad_events db' = ad_events db @ [event] \<and> ad_audit db' = ad_audit db @ [audit] \<and>
    se_audit_log event = au_id audit \<and> se_tenant event = tenant \<and> au_tenant audit = tenant \<and>
    au_status audit = audit_status (se_decision event) \<and>
    (if ev_decision p = ''approval''
     then \<exists>a. ad_approvals db' = ad_approvals db @ [a] \<and> ap_status a = ''pending'' \<and> ap_security_event a = Some (se_id event) \<and>
            ap_tenant a = tenant \<and> ap_expires_at a = ad_now db + 86400
     else ad_approvals db' = ad_approvals db) \<and>
    (if ev_event_type p \<in> set DISCOVERY_EVENT_TYPES
     then \<exists>names. discovered_names (ev_metadata p) = Inr names \<and>
            se_decision event = (if list_ex (unsanctioned db tenant) names then ''bypassed'' else ''logged'')
     else se_decision event = ev_decision p)"
proof -
  obtain endpoint agent decision bad where r:
    "(if ev_event_type p \<in> set DISCOVERY_EVENT_TYPES then classify_discovery db tenant (ev_metadata p)
      else Inr (ev_decision p, [])) = Inr (decision, bad)"
    "audit = audit_of_event tenant p actor decision bad (ad_now db) (ad_ids db (ad_next db))"
    "event = event_of_request tenant endpoint agent p decision bad (au_id audit) (ad_ids db (Suc (ad_next db)))"
    "ad_audit db' = ad_audit db @ [audit]" "ad_events db' = ad_events db @ [event]"
    "ad_approvals db' = ad_approvals db @ (if ev_decision p = ''approval''
       then [approval_of_event tenant endpoint agent p (se_id event) (ad_now db) (ad_ids db (Suc (Suc (ad_next db))))] else [])"
    using assms unfolding record_security_event_result by auto
  have "\<exists>names. discovered_names (ev_metadata p) = Inr names"
    if "ev_event_type p \<in> set DISCOVERY_EVENT_TYPES"
    using r(1) that by (auto simp: classify_discovery_def bindE_eq_Inr_iff)
  then have "if ev_event_type p \<in> set DISCOVERY_EVENT_TYPES
     then \<exists>names. discovered_names (ev_metadata p) = Inr names \<and>
            decision = (if list_ex (unsanctioned db tenant) names then ''bypassed'' else ''logged'')
     else decision = ev_decision p"
    using r(1) classify_discovery_result [of "ev_metadata p" _ db tenant] by (auto split: if_splits)
  then show ?thesis
    by (simp add: r audit_of_event_def event_of_request_def approval_of_event_def)
qed

definition demo_report :: event_request where
  "demo_report =
     \<lparr>ev_endpoint_id = None, ev_agent_id = None, ev_source = ''endpoint'', ev_event_type = ''discovery'', ev_user_name = ''ann'',
      ev_tool = [], ev_action = ''scan'', ev_resource = [], ev_classification = [], ev_decision = ''allowed'', ev_risk_score = 0,
      ev_policy_id = None, ev_policy_name = [],
      ev_metadata = [(''discovered'', JArr [JObj [(''name'', JStr ''cursor'')], JObj [(''name'', JStr ''Rogue'')]])]\<rparr>"

definition demo_sanctions :: agentic_db where
  "demo_sanctions = fresh_db (\<lambda>n. replicate n CHR ''i'') 0
     \<lparr>ad_sanctioned := [\<lparr>st_id = ''s1'', st_tenant = ''t'', st_name = ''Cursor'', st_added_by = ''ann''\<rparr>]\<rparr>"

theorem event_recorded_witness:
  "\<exists>event audit db'. record_security_event ''t'' demo_report [] demo_sanctions = Inr (event, audit, db') \<and>
    se_decision event = ''bypassed'' \<and> au_status audit = ''bypassed'' \<and> ad_approvals db' = []"
proof -
  have names: "discovered_names (ev_metadata demo_report) = Inr [''cursor'', ''Rogue'']" by code_simp
  have bad: "unsanctioned demo_sanctions ''t'' ''Rogue''" by code_simp
  have ids: "optional_uuid (ev_endpoint_id demo_report) = Inr None" "optional_uuid (ev_agent_id demo_report) = Inr None"
    "ev_event_type demo_report \<in> set DISCOVERY_EVENT_TYPES"
    by (simp_all add: demo_report_def optional_uuid_def DISCOVERY_EVENT_TYPES_def)
  have "record_security_event ''t'' demo_report [] demo_sanctions \<noteq> Inl e" for e
    unfolding record_security_event_def ids bindE_Inr if_P [OF ids(3)] classify_discovery_result [OF names]
    by (simp split: prod.split)
  then obtain event audit db' where run: "record_security_event ''t'' demo_report [] demo_sanctions = Inr (event, audit, db')"
    by (cases "record_security_event ''t'' demo_report [] demo_sanctions") auto
  show ?thesis
    using event_recorded [OF run] run names bad
    by (auto simp: demo_report_def demo_sanctions_def fresh_db_def DISCOVERY_EVENT_TYPES_def audit_status_def)
qed

end
