(* ===== verification/BackendSecrets.thy ===== *)
theory BackendSecrets
  imports BackendMcpTools PyEqual
begin

text \<open>
  Secrets and the tokens of MCP servers: \<open>secrets_service.py\<close> (a secret lives in the vault when it is enabled, else in its
  column), \<open>mcp_oauth_broker_service.py\<close> (the OAuth credentials of a server and the token made from them) and the
  connections of users in \<open>mcp_portal_service.py\<close>.  The vault is its key-value store and whether a client of it can be had; times
  are microseconds since 1970.
\<close>

section \<open>Secrets\<close>

record vault =
  va_enabled :: bool
  va_up :: bool
  va_store :: "string dict"

definition tenant_secret_path :: "uuid \<Rightarrow> string \<Rightarrow> string" where
  "tenant_secret_path tenant secret_name = ''pysetu/tenants/'' @ tenant @ ''/integrations/'' @ secret_name"

definition provider_secret_path :: "uuid \<Rightarrow> uuid \<Rightarrow> string" where
  "provider_secret_path tenant provider = ''pysetu/tenants/'' @ tenant @ ''/providers/'' @ provider @ ''/api_key''"

definition mcp_oauth_secret_path :: "uuid \<Rightarrow> uuid \<Rightarrow> string \<Rightarrow> string" where
  "mcp_oauth_secret_path tenant server secret_name = ''pysetu/tenants/'' @ tenant @ ''/mcp/'' @ server @ ''/oauth/'' @ secret_name"

definition user_mcp_secret_path :: "uuid \<Rightarrow> uuid \<Rightarrow> uuid \<Rightarrow> string" where
  "user_mcp_secret_path tenant user server = ''pysetu/tenants/'' @ tenant @ ''/users/'' @ user @ ''/mcp/'' @ server @ ''/access_token''"

definition vault_down :: py_error where
  "vault_down = RuntimeError ''Vault authentication failed''"

definition vault_read :: "vault \<Rightarrow> string \<Rightarrow> string option result" where
  "vault_read v path =
     (if \<not> va_up v then Inl vault_down
      else Inr (case dict_get (va_store v) path of Some (c # s) \<Rightarrow> Some (c # s) | _ \<Rightarrow> None))"

text \<open>An empty value deletes the secret.\<close>

definition vault_write :: "vault \<Rightarrow> string \<Rightarrow> string option \<Rightarrow> vault result" where
  "vault_write v path secret =
     (if \<not> va_up v then Inl vault_down
      else Inr (case secret of
          Some (c # s) \<Rightarrow> v\<lparr>va_store := dict_set path (c # s) (va_store v)\<rparr>
        | _ \<Rightarrow> v\<lparr>va_store := filter (\<lambda>(k, _). k \<noteq> path) (va_store v)\<rparr>))"

text \<open>What all four pairs of functions do: read the vault and fall back to the column; write the vault and empty
  the column.\<close>

definition get_secret :: "vault \<Rightarrow> string \<Rightarrow> string option \<Rightarrow> string option result" where
  "get_secret v path db_value =
     (if va_enabled v
      then bindE (vault_read v path) (\<lambda>found. Inr (case found of Some s \<Rightarrow> Some s | None \<Rightarrow> db_value))
      else Inr db_value)"

definition set_secret :: "vault \<Rightarrow> string \<Rightarrow> string option \<Rightarrow> (string option \<times> vault) result" where
  "set_secret v path secret =
     (if va_enabled v then bindE (vault_write v path secret) (\<lambda>v'. Inr (None, v')) else Inr (secret, v))"

definition get_provider_secret :: "vault \<Rightarrow> uuid \<Rightarrow> uuid \<Rightarrow> string option \<Rightarrow> string option result" where
  "get_provider_secret v tenant provider api_key = get_secret v (provider_secret_path tenant provider) api_key"

definition set_provider_secret :: "vault \<Rightarrow> uuid \<Rightarrow> uuid \<Rightarrow> string option \<Rightarrow> (string option \<times> vault) result" where
  "set_provider_secret v tenant provider secret = set_secret v (provider_secret_path tenant provider) secret"

definition get_mcp_oauth_secret :: "vault \<Rightarrow> uuid \<Rightarrow> uuid \<Rightarrow> string \<Rightarrow> string option \<Rightarrow> string option result" where
  "get_mcp_oauth_secret v tenant server secret_name db_value = get_secret v (mcp_oauth_secret_path tenant server secret_name) db_value"

definition set_mcp_oauth_secret :: "vault \<Rightarrow> uuid \<Rightarrow> uuid \<Rightarrow> string \<Rightarrow> string option \<Rightarrow> (string option \<times> vault) result" where
  "set_mcp_oauth_secret v tenant server secret_name secret = set_secret v (mcp_oauth_secret_path tenant server secret_name) secret"

definition get_user_mcp_secret :: "vault \<Rightarrow> uuid \<Rightarrow> uuid \<Rightarrow> uuid \<Rightarrow> string option \<Rightarrow> string option result" where
  "get_user_mcp_secret v tenant user server db_value = get_secret v (user_mcp_secret_path tenant user server) db_value"

definition set_user_mcp_secret :: "vault \<Rightarrow> uuid \<Rightarrow> uuid \<Rightarrow> uuid \<Rightarrow> string option \<Rightarrow> (string option \<times> vault) result" where
  "set_user_mcp_secret v tenant user server secret = set_secret v (user_mcp_secret_path tenant user server) secret"

text \<open>The integrations of a tenant, with the columns that hold secrets.  \<open>setattr\<close> on a name that is no column
  leaves the row in the database as it is.\<close>

record tenant_integration =
  ti_tenant :: uuid
  ti_secrets :: "string option dict"

definition INTEGRATION_SECRETS :: "string list" where
  "INTEGRATION_SECRETS = [''openai_api_key'', ''gemini_api_key'', ''ai_assist_api_key'', ''pinecone_api_key'']"

definition MCP_URL_FILTER_VENDOR_KEY :: string where "MCP_URL_FILTER_VENDOR_KEY = ''mcp_url_filter_vendor_key''"

definition new_integration :: "uuid \<Rightarrow> tenant_integration" where
  "new_integration tenant = \<lparr>ti_tenant = tenant, ti_secrets = map (\<lambda>n. (n, None)) INTEGRATION_SECRETS\<rparr>"

definition get_tenant_secret :: "vault \<Rightarrow> 'a tenant_integration_scheme list \<Rightarrow> uuid \<Rightarrow> string \<Rightarrow> string option result" where
  "get_tenant_secret v rows tenant secret_name =
     bindE (if va_enabled v then vault_read v (tenant_secret_path tenant secret_name) else Inr None)
       (\<lambda>found. case found of
          Some s \<Rightarrow> Inr (Some s)
        | None \<Rightarrow>
            bindE (scalar_one_or_none (filter (\<lambda>r. ti_tenant r = tenant) rows))
              (\<lambda>row. Inr (case row of None \<Rightarrow> None | Some r \<Rightarrow> dict_get_or (ti_secrets r) secret_name None)))"

definition with_secret ::
  "string \<Rightarrow> string option \<Rightarrow> 'a tenant_integration_scheme \<Rightarrow> 'a tenant_integration_scheme" where
  "with_secret secret_name secret r =
     (if dict_get (ti_secrets r) secret_name = None then r
      else r\<lparr>ti_secrets := dict_set secret_name secret (ti_secrets r)\<rparr>)"

definition set_tenant_secret ::
  "vault \<Rightarrow> tenant_integration list \<Rightarrow> uuid \<Rightarrow> string \<Rightarrow> string option \<Rightarrow> (vault \<times> tenant_integration list) result" where
  "set_tenant_secret v rows tenant secret_name secret =
     bindE (scalar_one_or_none (filter (\<lambda>r. ti_tenant r = tenant) rows))
       (\<lambda>row. let rows = (case row of None \<Rightarrow> rows @ [new_integration tenant] | Some _ \<Rightarrow> rows) in
          bindE (set_secret v (tenant_secret_path tenant secret_name) secret)
            (\<lambda>(column, v'). Inr (v', map (\<lambda>r. if ti_tenant r = tenant then with_secret secret_name column r else r) rows)))"

section \<open>OAuth credentials\<close>

definition ALLOWED_GRANT_TYPES :: "string list" where
  "ALLOWED_GRANT_TYPES = [''client_credentials'', ''refresh_token'', ''static'']"

record oauth_state =
  os_enabled :: bool
  os_grant_type :: string
  os_token_url :: string
  os_client_id :: string
  os_scopes :: string
  os_expires :: "int option"
  os_client_secret :: "string option"
  os_refresh_token :: "string option"
  os_access_token :: "string option"

record token_grant =
  tg_access_token :: string
  tg_refresh_token :: "string option"
  tg_expires_in :: int

definition new_oauth_state :: oauth_state where
  "new_oauth_state =
     \<lparr>os_enabled = False, os_grant_type = ''client_credentials'', os_token_url = [], os_client_id = [], os_scopes = [],
      os_expires = None, os_client_secret = None, os_refresh_token = None, os_access_token = None\<rparr>"

definition seconds :: "int \<Rightarrow> int" where
  "seconds n = n * 1000000"

definition token_is_fresh :: "int option \<Rightarrow> int \<Rightarrow> bool" where
  "token_is_fresh expires_at now \<longleftrightarrow> (case expires_at of None \<Rightarrow> False | Some e \<Rightarrow> now + seconds 60 < e)"

text \<open>\<open>(s or "").strip()\<close>\<close>

definition stripped :: "string option \<Rightarrow> string" where
  "stripped s = (case s of None \<Rightarrow> [] | Some t \<Rightarrow> strip t)"

definition needs_token_fetch :: "oauth_state \<Rightarrow> int \<Rightarrow> bool" where
  "needs_token_fetch st now \<longleftrightarrow>
     os_enabled st \<and> os_grant_type st \<noteq> ''static'' \<and>
     (stripped (os_access_token st) = [] \<or> \<not> token_is_fresh (os_expires st) now)"

definition build_token_form :: "oauth_state \<Rightarrow> string dict result" where
  "build_token_form st =
     (let grant = lower (strip (if os_grant_type st \<noteq> [] then os_grant_type st else ''client_credentials''));
          form = [(''grant_type'', grant), (''client_id'', os_client_id st)] @
            (case os_client_secret st of Some (c # s) \<Rightarrow> [(''client_secret'', c # s)] | _ \<Rightarrow> []) @
            (if strip (os_scopes st) \<noteq> [] then [(''scope'', strip (os_scopes st))] else [])
      in
      if grant = ''static'' then Inl (ValueError ''Static grant does not fetch tokens from an IdP'')
      else if grant \<notin> set ALLOWED_GRANT_TYPES then Inl (ValueError (''Unsupported grant type: '' @ grant))
      else if grant = ''refresh_token'' then
        if stripped (os_refresh_token st) = [] then Inl (ValueError ''Refresh token is required for refresh_token grant'')
        else Inr (form @ [(''refresh_token'', stripped (os_refresh_token st))])
      else Inr form)"

definition text_of :: "json \<Rightarrow> string option" where
  "text_of v = (case v of JStr s \<Rightarrow> if strip s \<noteq> [] then Some (strip s) else None | _ \<Rightarrow> None)"

definition time_to_live :: "json \<Rightarrow> int result" where
  "time_to_live v =
     (case int_of_json v of
        Inr n \<Rightarrow> Inr (max 60 n)
      | Inl (TypeError _) \<Rightarrow> Inr 3600
      | Inl (ValueError _) \<Rightarrow> Inr 3600
      | Inl e \<Rightarrow> Inl e)"

definition parse_token_response :: "json dict \<Rightarrow> token_grant result" where
  "parse_token_response payload =
     (case text_of (dict_get_or payload ''access_token'' JNull) of
        None \<Rightarrow> Inl (ValueError ''Token response missing access_token'')
      | Some access \<Rightarrow>
          bindE (time_to_live (dict_get_or payload ''expires_in'' (JInt 3600)))
            (\<lambda>ttl. Inr \<lparr>tg_access_token = access, tg_refresh_token = text_of (dict_get_or payload ''refresh_token'' JNull),
               tg_expires_in = ttl\<rparr>))"

text \<open>Dates end with the year 9999.\<close>

definition MAX_TIME :: int where "MAX_TIME = seconds 253402300800"

definition apply_token_grant :: "oauth_state \<Rightarrow> token_grant \<Rightarrow> int \<Rightarrow> oauth_state result" where
  "apply_token_grant st grant now =
     (let expires = now + seconds (tg_expires_in grant) in
      if MAX_TIME \<le> expires then Inl (OverflowError ''date value out of range'')
      else Inr (st\<lparr>os_access_token := Some (tg_access_token grant),
        os_refresh_token := (case tg_refresh_token grant of Some r \<Rightarrow> Some r | None \<Rightarrow> os_refresh_token st),
        os_expires := Some expires\<rparr>))"

definition has_text :: "string option \<Rightarrow> bool" where
  "has_text s \<longleftrightarrow> (case s of Some (c # t) \<Rightarrow> True | _ \<Rightarrow> False)"

definition not_configured :: "json dict" where
  "not_configured =
     [(''configured'', JBool False), (''enabled'', JBool False), (''grant_type'', JStr ''client_credentials''),
      (''token_url'', JStr []), (''client_id'', JStr []), (''scopes'', JStr []), (''has_client_secret'', JBool False),
      (''has_refresh_token'', JBool False), (''has_access_token'', JBool False), (''token_expires_at'', JNull),
      (''token_fresh'', JBool False)]"

definition public_oauth_status :: "(int \<Rightarrow> string) \<Rightarrow> int \<Rightarrow> oauth_state option \<Rightarrow> json dict" where
  "public_oauth_status isoformat now state =
     (case state of
        Some st \<Rightarrow>
          if os_client_id st \<noteq> [] \<or> os_token_url st \<noteq> [] \<or> has_text (os_access_token st) then
            [(''configured'', JBool True), (''enabled'', JBool (os_enabled st)), (''grant_type'', JStr (os_grant_type st)),
             (''token_url'', JStr (os_token_url st)), (''client_id'', JStr (os_client_id st)), (''scopes'', JStr (os_scopes st)),
             (''has_client_secret'', JBool (has_text (os_client_secret st))),
             (''has_refresh_token'', JBool (has_text (os_refresh_token st))),
             (''has_access_token'', JBool (has_text (os_access_token st))),
             (''token_expires_at'', opt_json (map_option isoformat (os_expires st))),
             (''token_fresh'', JBool (token_is_fresh (os_expires st) now))]
          else not_configured
      | None \<Rightarrow> not_configured)"

definition authorization_header :: "string \<Rightarrow> string" where
  "authorization_header access_token =
     (let token = strip access_token in if startswith (lower token) ''bearer '' then token else ''Bearer '' @ token)"

definition resolve_access_token_local :: "oauth_state option \<Rightarrow> int \<Rightarrow> string option" where
  "resolve_access_token_local state now =
     (case state of
        None \<Rightarrow> None
      | Some st \<Rightarrow>
          if \<not> os_enabled st \<or> stripped (os_access_token st) = [] then None
          else if os_grant_type st = ''static'' \<or> token_is_fresh (os_expires st) now then Some (stripped (os_access_token st))
          else None)"

section \<open>Stored credentials\<close>

record oauth_row =
  oc_tenant :: uuid
  oc_server :: uuid
  oc_enabled :: bool
  oc_grant_type :: string
  oc_token_url :: string
  oc_client_id :: string
  oc_scopes :: string
  oc_expires :: "int option"
  oc_client_secret :: "string option"
  oc_refresh_token :: "string option"
  oc_access_token :: "string option"

record user_connection =
  uc_tenant :: uuid
  uc_user :: uuid
  uc_server :: uuid
  uc_access_token :: "string option"
  uc_connected_at :: int

text \<open>What the broker and the portal work on: the vault, the two tables, the time, and the outside world of the token
  endpoints.\<close>

record 'w broker =
  bk_vault :: vault
  bk_oauth :: "oauth_row list"
  bk_conns :: "user_connection list"
  bk_now :: int
  bk_world :: 'w

definition oauth_key :: "uuid \<Rightarrow> uuid \<Rightarrow> oauth_row \<Rightarrow> bool" where
  "oauth_key tenant server r \<longleftrightarrow> oc_tenant r = tenant \<and> oc_server r = server"

definition hydrate_secrets :: "vault \<Rightarrow> oauth_row \<Rightarrow> oauth_state result" where
  "hydrate_secrets v r =
     bindE (get_mcp_oauth_secret v (oc_tenant r) (oc_server r) ''client_secret'' (oc_client_secret r))
       (\<lambda>client_secret. bindE (get_mcp_oauth_secret v (oc_tenant r) (oc_server r) ''refresh_token'' (oc_refresh_token r))
         (\<lambda>refresh_token. bindE (get_mcp_oauth_secret v (oc_tenant r) (oc_server r) ''access_token'' (oc_access_token r))
           (\<lambda>access_token. Inr
             \<lparr>os_enabled = oc_enabled r,
              os_grant_type = (if oc_grant_type r \<noteq> [] then oc_grant_type r else ''client_credentials''),
              os_token_url = oc_token_url r, os_client_id = oc_client_id r, os_scopes = oc_scopes r, os_expires = oc_expires r,
              os_client_secret = client_secret, os_refresh_token = refresh_token, os_access_token = access_token\<rparr>)))"

definition load_oauth_state :: "vault \<Rightarrow> oauth_row list \<Rightarrow> uuid \<Rightarrow> uuid \<Rightarrow> oauth_state option result" where
  "load_oauth_state v rows tenant server =
     bindE (scalar_one_or_none (filter (oauth_key tenant server) rows))
       (\<lambda>row. case row of None \<Rightarrow> Inr None | Some r \<Rightarrow> bindE (hydrate_secrets v r) (\<lambda>st. Inr (Some st)))"

text \<open>The three secrets are written one after another; when a write fails the row is rolled back and the vault keeps what
  was written before.\<close>

definition put_secret :: "uuid \<Rightarrow> uuid \<Rightarrow> string \<Rightarrow> string option \<Rightarrow> ('w broker, string option) eff" where
  "put_secret tenant server secret_name secret s =
     (case set_mcp_oauth_secret (bk_vault s) tenant server secret_name secret of
        Inl e \<Rightarrow> (Inl e, s)
      | Inr (column, v) \<Rightarrow> (Inr column, s\<lparr>bk_vault := v\<rparr>))"

definition keep_or_set :: "json \<Rightarrow> string option \<Rightarrow> string option" where
  "keep_or_set incoming current =
     (case incoming of
        JNull \<Rightarrow> current
      | JStr t \<Rightarrow> if strip t = [] then current else Some (strip t)
      | v \<Rightarrow> if truthy v then Some (strip (py_str v)) else None)"

definition text_or :: "json \<Rightarrow> string \<Rightarrow> string" where
  "text_or v current = strip (if truthy v then py_str v else current)"

definition merged_oauth_state :: "json dict \<Rightarrow> oauth_state option \<Rightarrow> string \<Rightarrow> oauth_state" where
  "merged_oauth_state payload found grant =
     (let existing = (case found of None \<Rightarrow> new_oauth_state | Some st \<Rightarrow> st);
          get = (\<lambda>k. dict_get_or payload k JNull)
      in
      \<lparr>os_enabled = (if get ''enabled'' \<noteq> JNull then truthy (get ''enabled'') else found = None \<or> os_enabled existing),
       os_grant_type = grant, os_token_url = text_or (get ''token_url'') (os_token_url existing),
       os_client_id = text_or (get ''client_id'') (os_client_id existing),
       os_scopes = (if get ''scopes'' \<noteq> JNull then strip (py_str (get ''scopes'')) else strip (os_scopes existing)),
       os_expires = os_expires existing, os_client_secret = keep_or_set (get ''client_secret'') (os_client_secret existing),
       os_refresh_token = keep_or_set (get ''refresh_token'') (os_refresh_token existing),
       os_access_token = keep_or_set (get ''access_token'') (os_access_token existing)\<rparr>)"

definition check_oauth_state :: "oauth_state \<Rightarrow> unit result" where
  "check_oauth_state st =
     (if os_grant_type st = ''static'' then
        if has_text (os_access_token st) then Inr () else Inl (ValueError ''Access token is required for static grant'')
      else if os_token_url st = [] then Inl (ValueError ''Token URL is required'')
      else if os_client_id st = [] then Inl (ValueError ''Client ID is required'')
      else Inr ())"

definition row_of_state :: "uuid \<Rightarrow> uuid \<Rightarrow> oauth_state \<Rightarrow> string option \<Rightarrow> string option \<Rightarrow> string option \<Rightarrow> oauth_row" where
  "row_of_state tenant server st client_secret refresh_token access_token =
     \<lparr>oc_tenant = tenant, oc_server = server, oc_enabled = os_enabled st, oc_grant_type = os_grant_type st,
      oc_token_url = os_token_url st, oc_client_id = os_client_id st, oc_scopes = os_scopes st, oc_expires = os_expires st,
      oc_client_secret = client_secret, oc_refresh_token = refresh_token, oc_access_token = access_token\<rparr>"

definition store_row :: "oauth_row \<Rightarrow> oauth_row list \<Rightarrow> oauth_row list" where
  "store_row r rows =
     (if list_ex (oauth_key (oc_tenant r) (oc_server r)) rows
      then map (\<lambda>x. if oauth_key (oc_tenant r) (oc_server r) x then r else x) rows else rows @ [r])"

definition save_oauth_state :: "uuid \<Rightarrow> uuid \<Rightarrow> json dict \<Rightarrow> ('w broker, oauth_state) eff" where
  "save_oauth_state tenant server payload =
     (let grant = lower (strip (str_or_empty (or_json (dict_get_or payload ''grant_type'' JNull) (JStr ''client_credentials'')))) in
      if grant \<notin> set ALLOWED_GRANT_TYPES
      then raiseS (ValueError ''grant_type must be one of: client_credentials, refresh_token, static'')
      else
        bindS (getS id)
          (\<lambda>s. bindS (liftS (load_oauth_state (bk_vault s) (bk_oauth s) tenant server))
            (\<lambda>found. let st = merged_oauth_state payload found grant in
              bindS (liftS (check_oauth_state st))
                (\<lambda>_. bindS (put_secret tenant server ''client_secret'' (os_client_secret st))
                  (\<lambda>c. bindS (put_secret tenant server ''refresh_token'' (os_refresh_token st))
                    (\<lambda>r. bindS (put_secret tenant server ''access_token'' (os_access_token st))
                      (\<lambda>a. let row = row_of_state tenant server st c r a in
                         bindS (modifyS (\<lambda>s. s\<lparr>bk_oauth := store_row row (bk_oauth s)\<rparr>))
                           (\<lambda>_. bindS (getS bk_vault) (\<lambda>v. liftS (hydrate_secrets v row))))))))))"

definition persist_token_state :: "uuid \<Rightarrow> uuid \<Rightarrow> oauth_state \<Rightarrow> ('w broker, unit) eff" where
  "persist_token_state tenant server st =
     bindS (getS bk_oauth)
       (\<lambda>rows. bindS (liftS (scalar_one_or_none (filter (oauth_key tenant server) rows)))
         (\<lambda>row. case row of
            None \<Rightarrow> returnS ()
          | Some _ \<Rightarrow>
              bindS (put_secret tenant server ''refresh_token'' (os_refresh_token st))
                (\<lambda>r. bindS (put_secret tenant server ''access_token'' (os_access_token st))
                  (\<lambda>a. modifyS (\<lambda>s. s\<lparr>bk_oauth := map (\<lambda>x. if oauth_key tenant server x
                     then x\<lparr>oc_expires := os_expires st, oc_refresh_token := r, oc_access_token := a\<rparr> else x) (bk_oauth s)\<rparr>)))))"

definition delete_oauth_state :: "uuid \<Rightarrow> uuid \<Rightarrow> ('w broker, bool) eff" where
  "delete_oauth_state tenant server =
     bindS (getS bk_oauth)
       (\<lambda>rows. bindS (liftS (scalar_one_or_none (filter (oauth_key tenant server) rows)))
         (\<lambda>row. case row of
            None \<Rightarrow> returnS False
          | Some _ \<Rightarrow>
              bindS (put_secret tenant server ''client_secret'' None)
                (\<lambda>_. bindS (put_secret tenant server ''refresh_token'' None)
                  (\<lambda>_. bindS (put_secret tenant server ''access_token'' None)
                    (\<lambda>_. bindS (modifyS (\<lambda>s. s\<lparr>bk_oauth := filter (\<lambda>x. \<not> oauth_key tenant server x) (bk_oauth s)\<rparr>))
                       (\<lambda>_. returnS True))))))"

section \<open>Tokens\<close>

text \<open>The request to a token endpoint: the form goes out, and the JSON of a successful answer comes back.\<close>

type_synonym 'w idp = "string \<Rightarrow> string dict \<Rightarrow> ('w, json) eff"

definition outside :: "('w, 'a) eff \<Rightarrow> ('w broker, 'a) eff" where
  "outside m s = (case m (bk_world s) of (r, w) \<Rightarrow> (r, s\<lparr>bk_world := w\<rparr>))"

definition fetch_and_apply_token :: "'w idp \<Rightarrow> oauth_state \<Rightarrow> ('w broker, oauth_state) eff" where
  "fetch_and_apply_token idp st =
     (if strip (os_token_url st) = [] then raiseS (ValueError ''Token URL is required'')
      else
        bindS (liftS (build_token_form st))
          (\<lambda>form. bindS (outside (idp (strip (os_token_url st)) form))
            (\<lambda>body. case body of
               JObj payload \<Rightarrow>
                 bindS (getS bk_now) (\<lambda>now. liftS (bindE (parse_token_response payload) (\<lambda>grant. apply_token_grant st grant now)))
             | _ \<Rightarrow> raiseS (ValueError ''Token endpoint did not return JSON object''))))"

definition none_if_empty :: "string \<Rightarrow> string option" where
  "none_if_empty s = (if s = [] then None else Some s)"

definition resolve_mcp_access_token :: "'w idp \<Rightarrow> mcp_server \<Rightarrow> ('w broker, string option) eff" where
  "resolve_mcp_access_token idp server =
     bindS (getS id)
       (\<lambda>s. bindS (liftS (load_oauth_state (bk_vault s) (bk_oauth s) (ms_tenant server) (ms_id server)))
         (\<lambda>state. case state of
            None \<Rightarrow> returnS None
          | Some st \<Rightarrow>
              if \<not> os_enabled st then returnS None
              else
                (case resolve_access_token_local (Some st) (bk_now s) of
                  Some token \<Rightarrow> returnS (Some token)
                | None \<Rightarrow>
                    if \<not> needs_token_fetch st (bk_now s) then returnS (os_access_token st)
                    else
                      tryS (bindS (fetch_and_apply_token idp st)
                             (\<lambda>updated. bindS (persist_token_state (ms_tenant server) (ms_id server) updated)
                               (\<lambda>_. returnS (os_access_token updated))))
                        (\<lambda>_. Some (returnS (none_if_empty (stripped (os_access_token st))))))))"

section \<open>Connections of users\<close>

definition portal_visible :: "mcp_server \<Rightarrow> bool" where
  "portal_visible server \<longleftrightarrow>
     dict_get (config_or_empty (ms_connection_config server)) ''portal_visible'' \<noteq> Some (JBool False)"

definition set_portal_visible :: "mcp_server \<Rightarrow> bool \<Rightarrow> mcp_server" where
  "set_portal_visible server visible =
     server\<lparr>ms_connection_config :=
       JObj (dict_set ''portal_visible'' (JBool visible) (config_or_empty (ms_connection_config server)))\<rparr>"

definition catalog_slug_for_server :: "mcp_server \<Rightarrow> string option" where
  "catalog_slug_for_server server =
     map_option lower (text_of (dict_get_or (config_or_empty (ms_connection_config server)) ''catalog_slug'' JNull))"

text \<open>The catalog entry of a slug is a parameter.\<close>

definition server_auth_required :: "(string \<Rightarrow> json dict option) \<Rightarrow> mcp_server \<Rightarrow> bool" where
  "server_auth_required get_catalog_entry server =
     (case (case catalog_slug_for_server server of None \<Rightarrow> None | Some slug \<Rightarrow> get_catalog_entry slug) of
        Some entry \<Rightarrow> truthy (dict_get_or entry ''auth_required'' JNull)
      | None \<Rightarrow> truthy (dict_get_or (config_or_empty (ms_connection_config server)) ''auth_required'' JNull))"

definition connection_status :: "bool \<Rightarrow> bool \<Rightarrow> bool \<Rightarrow> string" where
  "connection_status auth_required user_connected tenant_token_available =
     (if \<not> auth_required then ''ready''
      else if user_connected \<or> tenant_token_available then ''connected''
      else ''needs_auth'')"

definition connection_key :: "uuid \<Rightarrow> uuid \<Rightarrow> user_connection \<Rightarrow> bool" where
  "connection_key user server c \<longleftrightarrow> uc_user c = user \<and> uc_server c = server"

definition load_user_connection :: "user_connection list \<Rightarrow> uuid \<Rightarrow> uuid \<Rightarrow> user_connection option result" where
  "load_user_connection conns user server = scalar_one_or_none (filter (connection_key user server) conns)"

definition user_token :: "vault \<Rightarrow> user_connection list \<Rightarrow> uuid \<Rightarrow> uuid \<Rightarrow> uuid \<Rightarrow> string option result" where
  "user_token v conns tenant user server =
     bindE (load_user_connection conns user server)
       (\<lambda>row. case row of
          None \<Rightarrow> Inr None
        | Some c \<Rightarrow> bindE (get_user_mcp_secret v tenant user server (uc_access_token c)) (\<lambda>t. Inr (none_if_empty (stripped t))))"

definition user_has_token :: "vault \<Rightarrow> user_connection list \<Rightarrow> uuid \<Rightarrow> uuid \<Rightarrow> uuid \<Rightarrow> bool result" where
  "user_has_token v conns tenant user server = bindE (user_token v conns tenant user server) (\<lambda>t. Inr (t \<noteq> None))"

definition tenant_has_token :: "vault \<Rightarrow> oauth_row list \<Rightarrow> int \<Rightarrow> mcp_server \<Rightarrow> bool result" where
  "tenant_has_token v rows now server =
     bindE (load_oauth_state v rows (ms_tenant server) (ms_id server))
       (\<lambda>state. Inr (case state of
          None \<Rightarrow> False
        | Some st \<Rightarrow> os_enabled st \<and> has_text (resolve_access_token_local (Some st) now)))"

definition connect_user_token :: "uuid \<Rightarrow> uuid \<Rightarrow> uuid \<Rightarrow> string \<Rightarrow> ('w broker, unit) eff" where
  "connect_user_token tenant user server access_token =
     (if strip access_token = [] then raiseS (ValueError ''Access token is required'')
      else
        bindS (getS id)
          (\<lambda>s. bindS (liftS (load_user_connection (bk_conns s) user server))
            (\<lambda>row. bindS (liftS (set_user_mcp_secret (bk_vault s) tenant user server (Some (strip access_token))))
              (\<lambda>(column, v). modifyS (\<lambda>s. s\<lparr>bk_vault := v, bk_conns := (case row of
                  None \<Rightarrow> bk_conns s @ [\<lparr>uc_tenant = tenant, uc_user = user, uc_server = server, uc_access_token = column,
                    uc_connected_at = bk_now s\<rparr>]
                | Some _ \<Rightarrow> map (\<lambda>c. if connection_key user server c
                    then c\<lparr>uc_connected_at := bk_now s, uc_access_token := column\<rparr> else c) (bk_conns s))\<rparr>)))))"

definition disconnect_user :: "uuid \<Rightarrow> uuid \<Rightarrow> uuid \<Rightarrow> ('w broker, bool) eff" where
  "disconnect_user tenant user server =
     bindS (getS id)
       (\<lambda>s. bindS (liftS (load_user_connection (bk_conns s) user server))
         (\<lambda>row. case row of
            None \<Rightarrow> returnS False
          | Some _ \<Rightarrow>
              bindS (liftS (set_user_mcp_secret (bk_vault s) tenant user server None))
                (\<lambda>(_, v). bindS (modifyS (\<lambda>s. s\<lparr>bk_vault := v,
                     bk_conns := filter (\<lambda>c. \<not> connection_key user server c) (bk_conns s)\<rparr>))
                   (\<lambda>_. returnS True))))"

definition resolve_user_mcp_access_token :: "vault \<Rightarrow> user_connection list \<Rightarrow> uuid \<Rightarrow> mcp_server \<Rightarrow> string option result" where
  "resolve_user_mcp_access_token v conns user server = user_token v conns (ms_tenant server) user (ms_id server)"

definition resolve_effective_mcp_access_token :: "'w idp \<Rightarrow> mcp_server \<Rightarrow> uuid option \<Rightarrow> ('w broker, string option) eff" where
  "resolve_effective_mcp_access_token idp server user =
     bindS (getS id)
       (\<lambda>s. bindS (liftS (case user of None \<Rightarrow> Inr None
              | Some u \<Rightarrow> resolve_user_mcp_access_token (bk_vault s) (bk_conns s) u server))
         (\<lambda>token. case token of Some t \<Rightarrow> returnS (Some t) | None \<Rightarrow> resolve_mcp_access_token idp server))"

end
