(* ===== verification/BackendMcpClient.thy ===== *)
theory BackendMcpClient
  imports BackendSecrets BackendBundle
begin

text \<open>
  Calls of MCP servers: \<open>mcp_transport.py\<close> (time limit and headers), \<open>mcp_client_service.py\<close> (sessions, discovery and invocation
  over JSON-RPC) and the invocation part of \<open>mcp_rest_proxy_service.py\<close>.  The HTTP client, the clock, the ids of sessions and the
  text form of times are operations of the outside world; a request that fails raises one of the exceptions of
  the HTTP library.
\<close>

section \<open>Transport\<close>

definition resolve_timeout_sec :: "json \<Rightarrow> int result" where
  "resolve_timeout_sec connection_config =
     (let timeout_sec = (case int_of_json (dict_get_or (config_or_empty connection_config) ''timeout_sec'' (JInt 30)) of
          Inl (TypeError _) \<Rightarrow> Inr 30
        | Inl (ValueError _) \<Rightarrow> Inr 30
        | r \<Rightarrow> r)
      in bindE timeout_sec (\<lambda>t. Inr (max 5 (min t 120))))"

definition build_mcp_headers :: "json \<Rightarrow> bool \<Rightarrow> string option \<Rightarrow> string dict" where
  "build_mcp_headers connection_config json_rpc access_token =
     (let headers = [(''Accept'', ''application/json, text/event-stream''), (''User-Agent'', ''PySetu-MCP/1.0'')] @
            (if json_rpc then [(''Content-Type'', ''application/json'')] else []);
          headers = (case text_of (dict_get_or (config_or_empty connection_config) ''auth_header'' JNull) of
            Some h \<Rightarrow> dict_set ''Authorization'' h headers | None \<Rightarrow> headers)
      in
      if stripped access_token \<noteq> [] then dict_set ''Authorization'' (authorization_header (stripped access_token)) headers
      else headers)"

record rest_answer =
  ra_status :: int
  ra_body :: "json option"
  ra_text :: string

text \<open>\<open>post\<close> is the request with the check of its status; \<open>None\<close> is a body that is not JSON.  Times are
  microseconds; the clock may be read more often than in the code, which changes nothing else.\<close>

record 'w http =
  ht_post :: "string \<Rightarrow> string dict \<Rightarrow> json \<Rightarrow> int \<Rightarrow> ('w, json option) eff"
  ht_request :: "string \<Rightarrow> string \<Rightarrow> json dict \<Rightarrow> bool \<Rightarrow> string dict \<Rightarrow> int \<Rightarrow> ('w, rest_answer) eff"
  ht_clock :: "('w, int) eff"
  ht_uuid :: "('w, string) eff"
  ht_isoformat :: "int \<Rightarrow> string"
  ht_fromisoformat :: "string \<Rightarrow> int option"

definition latency_ms :: "int \<Rightarrow> int \<Rightarrow> int" where
  "latency_ms started now = max 1 ((now - started) div 1000)"

section \<open>Sessions\<close>

definition MCP_PROTOCOL_VERSION :: string where "MCP_PROTOCOL_VERSION = ''2024-11-05''"
definition SESSION_TTL_SEC :: int where "SESSION_TTL_SEC = 1800"

definition parse_timestamp :: "'w http \<Rightarrow> json \<Rightarrow> int option result" where
  "parse_timestamp http v =
     (if \<not> truthy v then Inr None
      else case v of
          JStr s \<Rightarrow> Inr (ht_fromisoformat http (replace_str ''Z'' ''+00:00'' s))
        | _ \<Rightarrow> Inl (AttributeError ''replace''))"

definition session_is_active :: "'w http \<Rightarrow> int \<Rightarrow> json \<Rightarrow> bool result" where
  "session_is_active http now session =
     (if \<not> truthy session then Inr False
      else
        bindE (json_get_or session ''state'' JNull)
          (\<lambda>state. if state \<noteq> JStr ''initialized'' then Inr False
             else
               bindE (bindE (json_get_or session ''last_used_at'' JNull) (parse_timestamp http))
                 (\<lambda>used. bindE (case used of Some t \<Rightarrow> Inr (Some t)
                    | None \<Rightarrow> bindE (json_get_or session ''initialized_at'' JNull) (parse_timestamp http))
                   (\<lambda>reference. Inr (case reference of None \<Rightarrow> False | Some t \<Rightarrow> now - t < seconds SESSION_TTL_SEC)))))"

definition touch_session :: "'w http \<Rightarrow> int \<Rightarrow> json dict \<Rightarrow> bool \<Rightarrow> json dict" where
  "touch_session http now session reused =
     dict_set ''reused'' (JBool reused) (dict_set ''last_used_at'' (JStr (ht_isoformat http now)) session)"

definition jsonrpc_payload :: "int option \<Rightarrow> string \<Rightarrow> json option \<Rightarrow> json" where
  "jsonrpc_payload request_id method params =
     JObj ([(''jsonrpc'', JStr ''2.0'')] @ (case request_id of None \<Rightarrow> [] | Some i \<Rightarrow> [(''id'', JInt i)]) @
       [(''method'', JStr method)] @ (case params of None \<Rightarrow> [] | Some p \<Rightarrow> [(''params'', p)]))"

definition rpc_error :: "json \<Rightarrow> py_error" where
  "rpc_error error =
     (let message = (case error of JObj kvs \<Rightarrow> dict_get_or kvs ''message'' JNull | v \<Rightarrow> JStr (py_str v))
      in McpClientError (if truthy message then py_str message else ''JSON-RPC error''))"

definition rpc_result :: "json option \<Rightarrow> json dict result" where
  "rpc_result body =
     (case body of
        None \<Rightarrow> Inl (ValueError ''Expecting value'')
      | Some (JObj data) \<Rightarrow>
          if truthy (dict_get_or data ''error'' JNull) then Inl (rpc_error (dict_get_or data ''error'' JNull))
          else Inr (config_or_empty (dict_get_or data ''result'' JNull))
      | Some _ \<Rightarrow> Inl (McpClientError ''Invalid JSON-RPC response''))"

definition jsonrpc ::
  "'w http \<Rightarrow> int \<Rightarrow> string \<Rightarrow> string dict \<Rightarrow> int \<Rightarrow> string \<Rightarrow> json \<Rightarrow> ('w, json dict) eff" where
  "jsonrpc http timeout url headers request_id method params =
     bindS (ht_post http url headers (jsonrpc_payload (Some request_id) method (Some params)) timeout)
       (\<lambda>body. liftS (rpc_result body))"

definition jsonrpc_notification :: "'w http \<Rightarrow> int \<Rightarrow> string \<Rightarrow> string dict \<Rightarrow> string \<Rightarrow> ('w, unit) eff" where
  "jsonrpc_notification http timeout url headers method =
     bindS (ht_post http url headers (jsonrpc_payload None method None) timeout) (\<lambda>_. returnS ())"

definition establish_mcp_session :: "'w http \<Rightarrow> int \<Rightarrow> string \<Rightarrow> string dict \<Rightarrow> ('w, json dict) eff" where
  "establish_mcp_session http timeout url headers =
     bindS (ht_uuid http)
       (\<lambda>session_id. bindS (jsonrpc http timeout url headers 1 ''initialize''
            (JObj [(''protocolVersion'', JStr MCP_PROTOCOL_VERSION), (''capabilities'', JObj []),
              (''clientInfo'', JObj [(''name'', JStr ''pysetu''), (''version'', JStr ''1.0'')])]))
         (\<lambda>init_result. bindS (jsonrpc_notification http timeout url headers ''notifications/initialized'')
           (\<lambda>_. bindS (ht_clock http)
             (\<lambda>initialized_at. bindS (ht_clock http)
               (\<lambda>now. returnS (touch_session http now
                  [(''state'', JStr ''initialized''), (''session_id'', JStr session_id),
                   (''initialized_at'', JStr (ht_isoformat http initialized_at)),
                   (''protocol_version'', dict_get_or init_result ''protocolVersion'' (JStr MCP_PROTOCOL_VERSION)),
                   (''server_info'', dict_get_or init_result ''serverInfo'' JNull),
                   (''capabilities'', dict_get_or init_result ''capabilities'' JNull)] False))))))"

definition ensure_mcp_session :: "'w http \<Rightarrow> int \<Rightarrow> mcp_server \<Rightarrow> string \<Rightarrow> string dict \<Rightarrow> ('w, json dict \<times> bool) eff" where
  "ensure_mcp_session http timeout server endpoint headers =
     bindS (ht_clock http)
       (\<lambda>now. let existing = dict_get_or (config_or_empty (ms_connection_config server)) ''mcp_session'' JNull in
          bindS (liftS (session_is_active http now existing))
            (\<lambda>active. if active then returnS (touch_session http now (config_or_empty existing) True, True)
               else bindS (establish_mcp_session http timeout endpoint headers) (\<lambda>session. returnS (session, False))))"

section \<open>REST calls\<close>

definition find_operation :: "json dict \<Rightarrow> string \<Rightarrow> json dict option result" where
  "find_operation spec tool_name =
     bindE (iter_or_empty (dict_get_or spec ''operations'' JNull))
       (\<lambda>ops. Inr (first_some (\<lambda>op. case op of
            JObj kvs \<Rightarrow> if str_or_empty (dict_get_or kvs ''name'' JNull) = tool_name then Some kvs else None
          | _ \<Rightarrow> None) ops))"

text \<open>\<open>remaining.pop(key, None)\<close> for each placeholder in turn: a name that occurs twice has its value in the first place
  only.\<close>

fun substitute_matches :: "string \<Rightarrow> nat \<Rightarrow> rmatch_obj list \<Rightarrow> json dict \<Rightarrow> string \<times> json dict" where
  "substitute_matches path pos [] remaining = (drop pos path, remaining)"
| "substitute_matches path pos (m # ms) remaining =
     (let key = (case m_group m 1 of Some k \<Rightarrow> k | None \<Rightarrow> []);
          part = (case dict_get_or remaining key JNull of JNull \<Rightarrow> m_text m | v \<Rightarrow> py_str v);
          (tail, left) = substitute_matches path (length (m_before m) + length (m_text m)) ms
            (filter (\<lambda>(k, _). k \<noteq> key) remaining)
      in (take (length (m_before m) - pos) (drop pos path) @ part @ tail, left))"

definition substitute_path :: "string \<Rightarrow> json dict \<Rightarrow> string \<times> json dict" where
  "substitute_path path arguments =
     substitute_matches path 0 (re_finditer (p_regex PATH_PARAM_RE) (p_flags PATH_PARAM_RE) path) arguments"

definition join_url :: "string \<Rightarrow> string \<Rightarrow> string" where
  "join_url base_url path = rstrip_chars ''/'' base_url @ ''/'' @ dropWhile (\<lambda>c. c = CHR ''/'') path"

definition invoke_rest_tool ::
  "'w http \<Rightarrow> mcp_server \<Rightarrow> string \<Rightarrow> json dict \<Rightarrow> string option \<Rightarrow> ('w, bool \<times> string \<times> json) eff" where
  "invoke_rest_tool http server tool_name arguments access_token =
     (case get_rest_spec server of
        None \<Rightarrow> returnS (False, ''No REST spec stored for this server.'', JNull)
      | Some spec \<Rightarrow>
          let base_url = strip (str_or_empty (dict_get_or spec ''base_url'' JNull)) in
          if spec = [] then returnS (False, ''No REST spec stored for this server.'', JNull)
          else if base_url = [] then returnS (False, ''No base URL configured for this server.'', JNull)
          else
            bindS (liftS (find_operation spec tool_name))
              (\<lambda>op. case op of
                 None \<Rightarrow> returnS (False, ''Unknown tool: '' @ tool_name, JNull)
               | Some op \<Rightarrow>
                   let method_name = dict_get_or op ''method'' JNull;
                       method = upper (if truthy method_name then py_str method_name else ''GET'');
                       (path, query_args) = substitute_path (str_or_empty (dict_get_or op ''path'' JNull)) arguments;
                       missing = path_params path;
                       headers = [(''Accept'', ''application/json'')] @
                         (if has_text access_token then [(''Authorization'', ''Bearer '' @ the access_token)] else [])
                   in
                   if missing \<noteq> [] then returnS (False, ''Missing required path parameter(s): '' @ join '', '' missing @ ''.'', JNull)
                   else
                     bindS (liftS (resolve_timeout_sec (ms_connection_config server)))
                       (\<lambda>timeout_sec.
                          tryS (bindS (ht_request http method (join_url base_url path) query_args
                                   (method \<notin> {''GET'', ''HEAD'', ''DELETE''}) headers timeout_sec)
                                 (\<lambda>answer. returnS
                                    (if 400 \<le> ra_status answer
                                     then (False, ''REST call returned HTTP '' @ show_int (ra_status answer) @ ''.'', JNull)
                                     else (True, ''REST '' @ method @ '' '' @ path @ '' -> HTTP '' @ show_int (ra_status answer) @ ''.'',
                                       (case ra_body answer of Some v \<Rightarrow> v | None \<Rightarrow> JObj [(''text'', JStr (ra_text answer))])))))
                            (\<lambda>e. case e of
                               TimeoutException _ \<Rightarrow>
                                 Some (returnS (False, ''REST call timed out after '' @ show_int timeout_sec @ ''s.'', JNull))
                             | HTTPError m \<Rightarrow> Some (returnS (False, ''REST call failed: '' @ m, JNull))
                             | _ \<Rightarrow> None))))"

section \<open>Discovery and invocation\<close>

record mcp_discover = 
  dr_ok :: bool
  dr_tool_names :: json
  dr_message :: string
  dr_latency_ms :: int
  dr_skipped :: bool
  dr_session :: "json dict option"
  dr_tool_schemas :: "json list option"

definition discover_result :: "bool \<Rightarrow> json \<Rightarrow> string \<Rightarrow> mcp_discover" where
  "discover_result ok tool_names message =
     \<lparr>dr_ok = ok, dr_tool_names = tool_names, dr_message = message, dr_latency_ms = 0, dr_skipped = False, dr_session = None,
      dr_tool_schemas = None\<rparr>"

record mcp_invoke = invoke_result +
  iv_latency_ms :: int
  iv_session :: "json dict option"
  iv_skipped :: bool

definition invoke_failed :: "string \<Rightarrow> mcp_invoke" where
  "invoke_failed message =
     \<lparr>iv_ok = False, iv_result = JNull, iv_message = message, iv_latency_ms = 0, iv_session = None, iv_skipped = False\<rparr>"

definition transport_of :: "mcp_server \<Rightarrow> string" where
  "transport_of server = lower (strip (if ms_transport server \<noteq> [] then ms_transport server else ''sse''))"

definition listed_schema :: "json \<Rightarrow> json list" where
  "listed_schema tool =
     (case tool of
        JObj kvs \<Rightarrow>
          if truthy (dict_get_or kvs ''name'' JNull)
          then [JObj [(''name'', JStr (py_str (dict_get_or kvs ''name'' JNull))), (''description'', dict_get_or kvs ''description'' JNull),
            (''inputSchema'', or_json (dict_get_or kvs ''inputSchema'' JNull) (dict_get_or kvs ''input_schema'' JNull))]]
          else []
      | _ \<Rightarrow> [])"

definition schema_name :: "json \<Rightarrow> json" where
  "schema_name schema = dict_get_or (config_or_empty schema) ''name'' JNull"

definition session_prefix :: "bool \<Rightarrow> string" where
  "session_prefix reused = (if reused then ''Reused MCP session;'' else ''MCP session established;'')"

definition discover_over_http ::
  "'w http \<Rightarrow> mcp_server \<Rightarrow> string \<Rightarrow> string dict \<Rightarrow> int \<Rightarrow> int \<Rightarrow> ('w, mcp_discover) eff" where
  "discover_over_http http server endpoint headers timeout_sec started =
     bindS (ensure_mcp_session http timeout_sec server endpoint headers)
       (\<lambda>(session, reused). bindS (jsonrpc http timeout_sec endpoint headers 2 ''tools/list'' (JObj []))
         (\<lambda>tools_result. bindS (ht_clock http)
           (\<lambda>now.
              let schemas = concat (map listed_schema (list_or_empty (dict_get_or tools_result ''tools'' (JArr []))));
                  found = \<lparr>dr_ok = schemas \<noteq> [], dr_tool_names = JArr (map schema_name schemas),
                    dr_message = (if schemas = [] then session_prefix reused @ '' no tools were returned by tools/list.''
                      else session_prefix reused @ '' discovered '' @ show_nat (length schemas) @ '' tool(s).''),
                    dr_latency_ms = latency_ms started now, dr_skipped = False, dr_session = Some session,
                    dr_tool_schemas = (if schemas = [] then None else Some schemas)\<rparr>
              in returnS found)))"

definition discover_mcp_tools :: "'w http \<Rightarrow> mcp_server \<Rightarrow> string option \<Rightarrow> ('w, mcp_discover) eff" where
  "discover_mcp_tools http server access_token =
     (let endpoint = stripped (ms_endpoint_url server) in
      if transport_of server = ''stdio'' then
        bindS (liftS (iter_or_empty (ms_tool_names server)))
          (\<lambda>names. returnS ((discover_result True (JArr names)
             ''Stdio transport uses a local MCP agent; remote tool discovery skipped.'')\<lparr>dr_skipped := True\<rparr>))
      else if transport_of server = ''rest_proxy'' then
        bindS (liftS (discover_rest_tools server))
          (\<lambda>ts. returnS
             (if ts = [] then discover_result False (JArr []) ''No REST spec stored for this server.''
              else (discover_result True (JArr (map schema_name ts))
                  (''REST proxy: '' @ show_nat (length ts) @ '' tool(s) from spec.''))\<lparr>dr_tool_schemas := Some ts\<rparr>))
      else if endpoint = [] then returnS (discover_result False (JArr []) ''No endpoint URL configured for this server.'')
      else
        bindS (liftS (resolve_timeout_sec (ms_connection_config server)))
          (\<lambda>timeout_sec. bindS (ht_clock http)
            (\<lambda>started.
               tryS (discover_over_http http server endpoint (build_mcp_headers (ms_connection_config server) True access_token)
                       timeout_sec started)
                 (\<lambda>e. case e of
                    TimeoutException _ \<Rightarrow>
                      Some (returnS ((discover_result False (JArr []) (''Tool discovery timed out after '' @ show_int timeout_sec @ ''s.''))
                        \<lparr>dr_latency_ms := timeout_sec * 1000\<rparr>))
                  | HTTPError m \<Rightarrow> Some (returnS (discover_result False (JArr []) (''HTTP error: '' @ m)))
                  | McpClientError m \<Rightarrow> Some (returnS (discover_result False (JArr []) m))
                  | _ \<Rightarrow> None))))"

definition invoke_over_http ::
  "'w http \<Rightarrow> mcp_server \<Rightarrow> string \<Rightarrow> string dict \<Rightarrow> string \<Rightarrow> json dict \<Rightarrow> int \<Rightarrow> int \<Rightarrow> ('w, mcp_invoke) eff" where
  "invoke_over_http http server endpoint headers tool_name arguments timeout_sec started =
     bindS (ensure_mcp_session http timeout_sec server endpoint headers)
       (\<lambda>(session, reused). bindS (jsonrpc http timeout_sec endpoint headers 3 ''tools/call''
            (JObj [(''name'', JStr tool_name), (''arguments'', JObj arguments)]))
         (\<lambda>tool_result. bindS (ht_clock http)
           (\<lambda>now. returnS \<lparr>iv_ok = True, iv_result = JObj tool_result,
              iv_message = session_prefix reused @ '' invoked '' @ tool_name @ ''.'', iv_latency_ms = latency_ms started now,
              iv_session = Some session, iv_skipped = False\<rparr>)))"

definition invoke_mcp_tool ::
  "'w http \<Rightarrow> mcp_server \<Rightarrow> string \<Rightarrow> json dict \<Rightarrow> string option \<Rightarrow> ('w, mcp_invoke) eff" where
  "invoke_mcp_tool http server tool_name arguments access_token =
     (let endpoint = stripped (ms_endpoint_url server) in
      if transport_of server = ''stdio'' then
        returnS ((invoke_failed ''Stdio transport uses a local MCP agent; remote tool invocation skipped.'')\<lparr>iv_skipped := True\<rparr>)
      else if transport_of server = ''rest_proxy'' then
        bindS (ht_clock http)
          (\<lambda>started. bindS (invoke_rest_tool http server tool_name arguments access_token)
            (\<lambda>(ok, message, value). bindS (ht_clock http)
              (\<lambda>now. returnS \<lparr>iv_ok = ok, iv_result = value, iv_message = message, iv_latency_ms = latency_ms started now,
                 iv_session = None, iv_skipped = False\<rparr>)))
      else if endpoint = [] then returnS (invoke_failed ''No endpoint URL configured for this server.'')
      else if strip tool_name = [] then returnS (invoke_failed ''Tool name is required.'')
      else
        bindS (liftS (resolve_timeout_sec (ms_connection_config server)))
          (\<lambda>timeout_sec. bindS (ht_clock http)
            (\<lambda>started.
               tryS (invoke_over_http http server endpoint (build_mcp_headers (ms_connection_config server) True access_token)
                       (strip tool_name) arguments timeout_sec started)
                 (\<lambda>e. case e of
                    TimeoutException _ \<Rightarrow>
                      Some (returnS ((invoke_failed (''Tool invocation timed out after '' @ show_int timeout_sec @ ''s.''))
                        \<lparr>iv_latency_ms := timeout_sec * 1000\<rparr>))
                  | HTTPError m \<Rightarrow> Some (returnS (invoke_failed (''HTTP error: '' @ m)))
                  | McpClientError m \<Rightarrow> Some (returnS (invoke_failed m))
                  | _ \<Rightarrow> None))))"

text \<open>What is stored of a discovery: the session and the schemas in the configuration, and the names of the tools.\<close>

definition apply_discovered_tools :: "mcp_server \<Rightarrow> mcp_discover \<Rightarrow> mcp_server" where
  "apply_discovered_tools server found =
     (let config = config_or_empty (ms_connection_config server);
          config = (case dr_session found of Some (kv # s) \<Rightarrow> dict_set ''mcp_session'' (JObj (kv # s)) config | _ \<Rightarrow> config);
          config = (case dr_tool_schemas found of Some (s # ss) \<Rightarrow> dict_set ''tool_schemas'' (JArr (s # ss)) config | _ \<Rightarrow> config);
          changed = (case dr_session found of Some (_ # _) \<Rightarrow> True | _ \<Rightarrow> False) \<or>
            (case dr_tool_schemas found of Some (_ # _) \<Rightarrow> True | _ \<Rightarrow> False);
          server' = (if changed then server\<lparr>ms_connection_config := JObj config\<rparr> else server)
      in if \<not> dr_ok found \<or> dr_skipped found then server' else server'\<lparr>ms_tool_names := dr_tool_names found\<rparr>)"

end
