(* ===== verification/BackendMcpGateway.thy ===== *)
theory BackendMcpGateway
  imports BackendMcpAccess BackendMcpUrl BackendMcpClient BackendAgentic BackendPolicy
begin

text \<open>
  The MCP gateway: \<open>mcp_multiplex_service.py\<close> (one JSON-RPC endpoint for all servers of a tenant), \<open>mcp_audit_service.py\<close> and the
  handler \<open>_handle_mcp_multiplex\<close> of \<open>api/v1/gateway.py\<close>, which ties the access rules, the policy engine, the URL filter, the tokens and
  the client together.  The dispatch of security incidents, which may fail without effect on the call, is left
  out, and so are the metrics of servers.
\<close>

section \<open>The multiplexer\<close>

definition MULTIPLEX_SERVER_NAME :: string where "MULTIPLEX_SERVER_NAME = ''pysetu-mcp-multiplex''"

definition multiplex_tool :: "mcp_server \<Rightarrow> json dict \<Rightarrow> json dict" where
  "multiplex_tool server tool =
     (let name = tool_name_of tool in
      [(''name'', JStr (qualify_tool_name (server_slug (ms_name server)) name)),
       (''description'', or_json (dict_get_or tool ''description'' JNull) (JStr (ms_name server @ '' / '' @ name))),
       (''inputSchema'', or_json (dict_get_or tool ''inputSchema'' JNull) object_schema)])"

definition build_multiplex_catalog :: "mcp_server list \<Rightarrow> bool \<Rightarrow> json dict list result" where
  "build_multiplex_catalog servers auto_hide_destructive =
     bindE (mapE (\<lambda>s. bindE (catalog_from_servers [s] False auto_hide_destructive) (\<lambda>ts. Inr (map (multiplex_tool s) ts))) servers)
       (\<lambda>tss. Inr (concat tss))"

definition jsonrpc_result :: "json \<Rightarrow> json \<Rightarrow> json dict" where
  "jsonrpc_result request_id answer = [(''jsonrpc'', JStr ''2.0''), (''id'', request_id), (''result'', answer)]"

definition jsonrpc_error :: "json \<Rightarrow> int \<Rightarrow> string \<Rightarrow> json dict" where
  "jsonrpc_error request_id code message =
     [(''jsonrpc'', JStr ''2.0''), (''id'', request_id), (''error'', JObj [(''code'', JInt code), (''message'', JStr message)])]"

definition rpc_method :: "json dict \<Rightarrow> string" where
  "rpc_method payload = str_or_empty (dict_get_or payload ''method'' JNull)"

definition tools_json :: "json dict list \<Rightarrow> json" where
  "tools_json ts = JObj [(''tools'', JArr (map JObj ts))]"

definition handle_jsonrpc :: "json dict \<Rightarrow> mcp_server list \<Rightarrow> bool \<Rightarrow> json dict result" where
  "handle_jsonrpc payload servers auto_hide_destructive =
     (let request_id = dict_get_or payload ''id'' JNull; method = rpc_method payload in
      if method \<in> {''initialize'', ''notifications/initialized''} then
        Inr (jsonrpc_result request_id
          (JObj [(''protocolVersion'', JStr MCP_PROTOCOL_VERSION),
            (''capabilities'', JObj [(''tools'', JObj [(''listChanged'', JBool False)])]),
            (''serverInfo'', JObj [(''name'', JStr MULTIPLEX_SERVER_NAME), (''version'', JStr ''1.0'')])]))
      else if method = ''ping'' then Inr (jsonrpc_result request_id (JObj []))
      else if method = ''tools/list'' then
        bindE (build_multiplex_catalog servers auto_hide_destructive) (\<lambda>ts. Inr (jsonrpc_result request_id (tools_json ts)))
      else if method = ''tools/call'' then Inr (jsonrpc_error request_id (-32603) ''tools/call must be handled asynchronously'')
      else Inr (jsonrpc_error request_id (-32601) (''Method not found: '' @ method)))"

text \<open>The operations a tool call is handled with: the token of a server, the check before and the inspection after the
  call, which may be missing, the URL filter and the call itself.\<close>

record 's call_hooks =
  hk_token :: "(mcp_server \<Rightarrow> ('s, string option) eff) option"
  hk_before :: "(mcp_server \<Rightarrow> string \<Rightarrow> json dict \<Rightarrow> ('s, bool \<times> string \<times> string option) eff) option"
  hk_after :: "(mcp_server \<Rightarrow> string \<Rightarrow> string \<Rightarrow> ('s, bool \<times> string \<times> string) eff) option"
  hk_url :: "string \<Rightarrow> json dict \<Rightarrow> ('s, bool \<times> string) eff"
  hk_invoke :: "mcp_server \<Rightarrow> string \<Rightarrow> json dict \<Rightarrow> string option \<Rightarrow> ('s, mcp_invoke) eff"

definition refused_call :: "json \<Rightarrow> string \<Rightarrow> string option \<Rightarrow> json dict" where
  "refused_call request_id reason approval_request_id =
     (case approval_request_id of
        Some (c # i) \<Rightarrow>
          [(''jsonrpc'', JStr ''2.0''), (''id'', request_id),
           (''error'', JObj [(''code'', JInt (-32005)), (''message'', JStr (or_str reason ''Tool requires approval'')),
             (''data'', JObj [(''approval_request_id'', JStr (c # i))])])]
      | _ \<Rightarrow> jsonrpc_error request_id (-32003) (or_str reason ''Tool invocation blocked by policy''))"

definition call_answer :: "json \<Rightarrow> mcp_server \<Rightarrow> string \<Rightarrow> mcp_invoke \<Rightarrow> string \<Rightarrow> json dict" where
  "call_answer request_id server original answer result_text =
     jsonrpc_result request_id
       (JObj [(''content'', JArr [JObj [(''type'', JStr ''text''), (''text'', JStr result_text)]]), (''isError'', JBool False),
         (''structuredContent'', (if result_text = py_str (iv_result answer) then iv_result answer else JStr result_text)),
         (''_pysetu'', JObj [(''server'', JStr (ms_name server)), (''tool'', JStr original), (''latency_ms'', JInt (iv_latency_ms answer))])])"

definition invoke_and_inspect ::
  "'s call_hooks \<Rightarrow> json \<Rightarrow> mcp_server \<Rightarrow> string \<Rightarrow> json dict \<Rightarrow> ('s, json dict) eff" where
  "invoke_and_inspect hooks request_id server original arguments =
     bindS (case hk_token hooks of None \<Rightarrow> returnS None | Some f \<Rightarrow> f server)
       (\<lambda>token. bindS (hk_invoke hooks server original arguments token)
         (\<lambda>answer.
            if \<not> iv_ok answer then returnS (jsonrpc_error request_id (-32000) (iv_message answer))
            else
              bindS (case hk_after hooks of
                  None \<Rightarrow> returnS (True, [], py_str (iv_result answer))
                | Some f \<Rightarrow> f server original (py_str (iv_result answer)))
                (\<lambda>(ok, reason, result_text). returnS
                   (if \<not> ok then jsonrpc_error request_id (-32004) (or_str reason ''Tool response blocked by policy'')
                    else call_answer request_id server original answer result_text))))"

definition checked_call ::
  "'s call_hooks \<Rightarrow> bool \<Rightarrow> json \<Rightarrow> mcp_server \<Rightarrow> string \<Rightarrow> json dict \<Rightarrow> ('s, json dict) eff" where
  "checked_call hooks auto_hide_destructive request_id server original arguments =
     (if \<not> tool_is_visible server original auto_hide_destructive
      then returnS (jsonrpc_error request_id (-32001) (''Tool is hidden by risk policy: '' @ original))
      else
        bindS (case hk_before hooks of None \<Rightarrow> returnS (True, [], None) | Some f \<Rightarrow> f server original arguments)
          (\<lambda>(allowed, reason, approval_request_id).
             if \<not> allowed then returnS (refused_call request_id reason approval_request_id)
             else
               bindS (hk_url hooks original arguments)
                 (\<lambda>(url_ok, url_reason).
                    if \<not> url_ok then returnS (jsonrpc_error request_id (-32002) (or_str url_reason ''URL blocked by policy''))
                    else invoke_and_inspect hooks request_id server original arguments)))"

definition call_params :: "json dict \<Rightarrow> string \<times> json dict" where
  "call_params payload =
     (let params = config_or_empty (dict_get_or payload ''params'' JNull) in
      (strip (str_or_empty (dict_get_or params ''name'' JNull)), config_or_empty (dict_get_or params ''arguments'' JNull)))"

definition handle_tools_call :: "'s call_hooks \<Rightarrow> json dict \<Rightarrow> mcp_server list \<Rightarrow> bool \<Rightarrow> ('s, json dict) eff" where
  "handle_tools_call hooks payload servers auto_hide_destructive =
     (let request_id = dict_get_or payload ''id'' JNull; (tool_name, arguments) = call_params payload in
      if tool_name = [] then returnS (jsonrpc_error request_id (-32602) ''Tool name is required'')
      else
        bindS (liftS (resolve_tool_target servers tool_name))
          (\<lambda>target. case target of
             None \<Rightarrow> returnS (jsonrpc_error request_id (-32602) (''Unknown tool: '' @ tool_name))
           | Some (server, original) \<Rightarrow> checked_call hooks auto_hide_destructive request_id server original arguments))"

definition dispatch_mcp_request ::
  "'s call_hooks \<Rightarrow> (json dict list \<Rightarrow> json dict list result) option \<Rightarrow> json dict \<Rightarrow> mcp_server list \<Rightarrow> bool \<Rightarrow> ('s, json dict) eff"
where
  "dispatch_mcp_request hooks catalog_filter payload servers auto_hide_destructive =
     (if rpc_method payload = ''tools/call'' then handle_tools_call hooks payload servers auto_hide_destructive
      else
        case (if rpc_method payload = ''tools/list'' then catalog_filter else None) of
          Some f \<Rightarrow>
            liftS (bindE (build_multiplex_catalog servers auto_hide_destructive)
              (\<lambda>catalog. bindE (f catalog)
                (\<lambda>ts. Inr (jsonrpc_result (dict_get_or payload ''id'' JNull) (tools_json ts)))))
        | None \<Rightarrow> liftS (handle_jsonrpc payload servers auto_hide_destructive))"

section \<open>The caller and the tenant\<close>

record gateway_ctx =
  gc_tenant :: uuid
  gc_actor :: string
  gc_user :: "user option"
  gc_client_api_key_id :: "uuid option"
  gc_client_api_key_name :: "string option"
  gc_policy_bundle_id :: "uuid option"
  gc_policy_bundle_name :: "string option"

record tenant_mcp =
  tm_tenant :: uuid
  tm_auto_hide_destructive :: bool
  tm_agent_toggles :: json
  tm_url_filters :: json

text \<open>The rows the handler only reads, and the trace of the request.\<close>

record mcp_tables =
  mt_policy_db :: policy_db
  mt_servers :: "mcp_server list"
  mt_tenants :: "tenant_mcp list"
  mt_deny_rules :: "deny_rule list"
  mt_tool_policies :: "mcp_tool_policy list"
  mt_integrations :: "tenant_integration list"
  mt_trace_id :: "string option"

record 'w gateway =
  gw_db :: agentic_db
  gw_broker :: "'w broker"

definition in_broker :: "('w broker, 'a) eff \<Rightarrow> ('w gateway, 'a) eff" where
  "in_broker m s = (case m (gw_broker s) of (r, b) \<Rightarrow> (r, s\<lparr>gw_broker := b\<rparr>))"

definition in_world :: "('w, 'a) eff \<Rightarrow> ('w gateway, 'a) eff" where
  "in_world m = in_broker (outside m)"

definition on_db :: "(agentic_db \<Rightarrow> 'a \<times> agentic_db) \<Rightarrow> ('w gateway, 'a) eff" where
  "on_db f s = (case f (gw_db s) of (x, db) \<Rightarrow> (Inr x, s\<lparr>gw_db := db\<rparr>))"

section \<open>Audit\<close>

definition build_compliance_metadata ::
  "gateway_ctx \<Rightarrow> uuid \<Rightarrow> string \<Rightarrow> string \<Rightarrow> string list \<Rightarrow> json" where
  "build_compliance_metadata ctx server_id tool_name deny_reason inspect_actions =
     JObj ([(''auth_type'', JStr (if has_text (gc_client_api_key_id ctx) then ''client_key'' else ''jwt'')),
       (''client_api_key_id'', opt_json (gc_client_api_key_id ctx)), (''policy_bundle_id'', opt_json (gc_policy_bundle_id ctx)),
       (''policy_bundle_name'', opt_json (gc_policy_bundle_name ctx))] @
       (if server_id \<noteq> [] then [(''mcp_server_id'', JStr server_id)] else []) @
       (if tool_name \<noteq> [] then [(''tool_name'', JStr tool_name)] else []) @
       (if deny_reason \<noteq> [] then [(''deny_reason'', JStr deny_reason)] else []) @
       (if inspect_actions \<noteq> [] then [(''inspect_actions'', JArr (map JStr inspect_actions))] else []))"

definition labelled :: "string \<Rightarrow> string option \<Rightarrow> string \<Rightarrow> string" where
  "labelled label text details = (case text of Some (c # t) \<Rightarrow> label @ ''='' @ (c # t) @ ''; '' @ details | _ \<Rightarrow> details)"

definition audit_details :: "gateway_ctx \<Rightarrow> string option \<Rightarrow> string \<Rightarrow> int \<Rightarrow> string" where
  "audit_details ctx trace_id details latency =
     labelled ''client_key'' (gc_client_api_key_name ctx)
       (labelled ''bundle'' (gc_policy_bundle_name ctx)
         (labelled ''trace_id'' trace_id
           (if latency \<noteq> 0 then ''latency_ms='' @ show_int latency @ ''; '' @ details else details)))"

definition log_mcp_tool_invoke ::
  "gateway_ctx \<Rightarrow> string option \<Rightarrow> mcp_server \<Rightarrow> string \<Rightarrow> string \<Rightarrow> string \<Rightarrow> string \<Rightarrow> int \<Rightarrow> json \<Rightarrow> ('w gateway, audit_log) eff" where
  "log_mcp_tool_invoke ctx trace_id server tool_name status risk details latency compliance =
     on_db (\<lambda>db. insert_audit
       (\<lambda>i. \<lparr>au_id = i, au_tenant = gc_tenant ctx, au_timestamp = ad_now db, au_actor = gc_actor ctx, au_action = ''MCP Tool Invoke'',
             au_resource = ms_name server @ ''/'' @ tool_name, au_status = status, au_risk = risk,
             au_details = audit_details ctx trace_id details latency,
             au_usage_metadata = JObj [(''compliance_metadata'', compliance)], au_source = ''internal''\<rparr>) db)"

definition gateway_chain_event ::
  "gateway_ctx \<Rightarrow> uuid option \<Rightarrow> uuid option \<Rightarrow> uuid option \<Rightarrow> mcp_server \<Rightarrow> string \<Rightarrow> string \<Rightarrow> string \<Rightarrow> int \<Rightarrow>
   string option \<Rightarrow> string \<Rightarrow> json \<Rightarrow> uuid \<Rightarrow> int \<Rightarrow> chain_event" where
  "gateway_chain_event ctx event approval source_agent server tool_name tool_risk decision risk policy_id policy_name metadata i now =
     \<lparr>ch_id = i, ch_tenant = gc_tenant ctx, ch_security_event = event, ch_approval = approval, ch_source_agent = source_agent,
      ch_target_agent = None, ch_endpoint = None, ch_server = Some (ms_id server), ch_server_name = ms_name server,
      ch_tool_name = tool_name, ch_tool_risk = tool_risk, ch_data_source = [], ch_external_service = [], ch_decision = decision,
      ch_risk_score = risk, ch_policy_id = policy_id, ch_policy_name = policy_name, ch_metadata = metadata, ch_created_at = now\<rparr>"

text \<open>The limits of \<open>SecurityEventIngestRequest\<close>.\<close>

definition event_request_valid :: "event_request \<Rightarrow> bool" where
  "event_request_valid p \<longleftrightarrow>
     length (ev_source p) \<le> 64 \<and> length (ev_event_type p) \<le> 64 \<and> length (ev_user_name p) \<le> 255 \<and> length (ev_tool p) \<le> 255 \<and>
     ev_action p \<noteq> [] \<and> length (ev_action p) \<le> 128 \<and> length (ev_resource p) \<le> 1024 \<and> 0 \<le> ev_risk_score p \<and>
     ev_risk_score p \<le> 100 \<and> (case ev_policy_id p of None \<Rightarrow> True | Some i \<Rightarrow> length i \<le> 64) \<and> length (ev_policy_name p) \<le> 255"

definition approval_request :: "gateway_ctx \<Rightarrow> mcp_server \<Rightarrow> string \<Rightarrow> json dict \<Rightarrow> mcp_tool_policy option \<Rightarrow> event_request" where
  "approval_request ctx server tool_name arguments policy =
     \<lparr>ev_endpoint_id = None, ev_agent_id = None, ev_source = ''mcp'', ev_event_type = ''mcp_tool'', ev_user_name = gc_actor ctx,
      ev_tool = tool_name, ev_action = take 128 (''mcp.'' @ tool_name), ev_resource = ms_name server @ ''/'' @ tool_name,
      ev_classification = [''mcp'', ''approval''], ev_decision = ''approval'',
      ev_risk_score = (case policy of None \<Rightarrow> 0 | Some p \<Rightarrow> mp_risk_score p),
      ev_policy_id = (case policy of None \<Rightarrow> None | Some p \<Rightarrow> none_if_empty (mp_id p)),
      ev_policy_name = (case policy of None \<Rightarrow> tool_name | Some p \<Rightarrow> or_str (mp_tool p) tool_name),
      ev_metadata = [(''server'', JStr (ms_name server)), (''arguments'', JObj arguments)]\<rparr>"

definition create_mcp_approval ::
  "gateway_ctx \<Rightarrow> mcp_server \<Rightarrow> string \<Rightarrow> json dict \<Rightarrow> mcp_tool_policy option \<Rightarrow> agentic_db \<Rightarrow> (string \<times> agentic_db) result" where
  "create_mcp_approval ctx server tool_name arguments policy db =
     (let p = approval_request ctx server tool_name arguments policy in
      if \<not> event_request_valid p then Inl (ValueError ''SecurityEventIngestRequest'')
      else
        bindE (record_security_event (gc_tenant ctx) p (gc_actor ctx) db)
          (\<lambda>(event, _, db1). bindE (scalar_one_or_none (filter (\<lambda>a. ap_security_event a = Some (se_id event)) (ad_approvals db1)))
            (\<lambda>row.
               let (_, db2) = record_mcp_chain_event
                     (gateway_chain_event ctx (Some (se_id event)) (map_option ap_id row)
                        (resolve_source_agent db1 (gc_tenant ctx) (gc_actor ctx)) server tool_name ''write'' ''approval''
                        (compute_chain_risk_score ''write'' [] [] (ev_risk_score p) 0) (ev_policy_id p) (ev_policy_name p)
                        (JObj [(''arguments'', JObj arguments)])) db1
               in Inr (case row of None \<Rightarrow> [] | Some a \<Rightarrow> ap_id a, db2))))"

section \<open>The handler\<close>

definition load_bundle :: "policy_bundle list \<Rightarrow> uuid option \<Rightarrow> policy_bundle option result" where
  "load_bundle bundles bundle_id =
     (if \<not> has_text bundle_id then Inr None else scalar_one_or_none (filter (\<lambda>b. Some (pb_id b) = bundle_id) bundles))"

definition bundle_of :: "mcp_tables \<Rightarrow> gateway_ctx \<Rightarrow> policy_bundle option result" where
  "bundle_of tables ctx =
     bindE (load_bundle (db_bundles (mt_policy_db tables)) (gc_policy_bundle_id ctx))
       (\<lambda>b. if b = None \<and> gc_policy_bundle_id ctx = None
            then get_tenant_default_bundle (db_bundles (mt_policy_db tables)) (gc_tenant ctx) else Inr b)"

definition deny_rules_of :: "mcp_tables \<Rightarrow> gateway_ctx \<Rightarrow> deny_rule list" where
  "deny_rules_of tables ctx = map fst (list_deny_rules (mt_deny_rules tables) (mt_servers tables) (gc_tenant ctx))"

definition tenant_of :: "mcp_tables \<Rightarrow> gateway_ctx \<Rightarrow> tenant_mcp option result" where
  "tenant_of tables ctx = scalar_one_or_none (filter (\<lambda>t. tm_tenant t = gc_tenant ctx) (mt_tenants tables))"

definition auto_hide :: "tenant_mcp option \<Rightarrow> bool" where
  "auto_hide tenant = (case tenant of None \<Rightarrow> False | Some t \<Rightarrow> tm_auto_hide_destructive t)"

definition url_filters_of :: "tenant_mcp option \<Rightarrow> json" where
  "url_filters_of tenant = (case tenant of None \<Rightarrow> JNull | Some t \<Rightarrow> tm_url_filters t)"

definition servers_of ::
  "mcp_tables \<Rightarrow> gateway_ctx \<Rightarrow> string option \<Rightarrow> tenant_mcp option \<Rightarrow> policy_bundle option \<Rightarrow> mcp_server list" where
  "servers_of tables ctx user_agent tenant bundle =
     filter_servers_for_bundle
       (filter_servers_for_agent (filter (\<lambda>s. ms_tenant s = gc_tenant ctx) (mt_servers tables)) (detect_agent user_agent JNull)
          (toggles_from_tenant (case tenant of None \<Rightarrow> JNull | Some t \<Rightarrow> tm_agent_toggles t)))
       bundle"

definition violations_text :: "inspection \<Rightarrow> string \<Rightarrow> string" where
  "violations_text r default_text = or_str (join ''; '' (map pv_detail (in_violations r))) default_text"

definition inspected_text :: "string \<Rightarrow> json dict \<Rightarrow> string" where
  "inspected_text tool_name arguments = dumps (JObj [(''tool'', JStr tool_name), (''arguments'', JObj arguments)])"

definition log_blocked ::
  "gateway_ctx \<Rightarrow> string option \<Rightarrow> mcp_server \<Rightarrow> string \<Rightarrow> string \<Rightarrow> string \<Rightarrow> string \<Rightarrow> string list \<Rightarrow> ('w gateway, audit_log) eff" where
  "log_blocked ctx trace_id server tool_name risk details reason actions =
     log_mcp_tool_invoke ctx trace_id server tool_name ''blocked'' risk details 0
       (build_compliance_metadata ctx (ms_id server) tool_name reason actions)"

definition before_invoke ::
  "mcp_tables \<Rightarrow> gateway_ctx \<Rightarrow> policy_bundle option \<Rightarrow> mcp_server \<Rightarrow> string \<Rightarrow> json dict \<Rightarrow> ('w gateway, bool \<times> string \<times> string option) eff"
where
  "before_invoke tables ctx bundle server tool_name arguments =
     bindS (liftS (check_tool_policy_action (mt_tool_policies tables) (gc_tenant ctx) bundle (deny_rules_of tables ctx)
         (resolve_actor_role (gc_user ctx)) server tool_name))
       (\<lambda>(action, reason, policy).
          if action = ''block'' then
            bindS (log_blocked ctx (mt_trace_id tables) server tool_name ''high'' reason reason [])
              (\<lambda>_. returnS (False, reason, None))
          else if action = ''approval'' then
            bindS (getS gw_db)
              (\<lambda>db. bindS (liftS (create_mcp_approval ctx server tool_name arguments policy db))
                (\<lambda>(approval_request_id, db'). bindS (modifyS (\<lambda>s. s\<lparr>gw_db := db'\<rparr>))
                  (\<lambda>_. returnS (False, reason, Some approval_request_id))))
          else
            bindS (liftS (inspect_for_gateway (mt_policy_db tables) (gc_tenant ctx) bundle (inspected_text tool_name arguments) None))
              (\<lambda>ingress.
                 if \<not> in_allowed ingress then
                   let detail = violations_text ingress ''Policy violation on tool arguments'' in
                   bindS (log_blocked ctx (mt_trace_id tables) server tool_name (in_risk ingress) detail detail
                       [or_str (in_action ingress) ''block''])
                     (\<lambda>_. returnS (False, detail, None))
                 else returnS (True, [], None)))"

definition after_invoke ::
  "mcp_tables \<Rightarrow> gateway_ctx \<Rightarrow> policy_bundle option \<Rightarrow> mcp_server \<Rightarrow> string \<Rightarrow> string \<Rightarrow> ('w gateway, bool \<times> string \<times> string) eff" where
  "after_invoke tables ctx bundle server tool_name result_text =
     bindS (liftS (inspect_for_gateway (mt_policy_db tables) (gc_tenant ctx) bundle result_text None))
       (\<lambda>egress.
          if \<not> in_allowed egress then
            let detail = violations_text egress ''Policy violation on tool response'' in
            bindS (log_blocked ctx (mt_trace_id tables) server tool_name (in_risk egress) (''egress: '' @ detail) detail
                [or_str (in_action egress) ''block''])
              (\<lambda>_. returnS (False, detail, result_text))
          else
            returnS (True, [], (case in_redacted_content egress of Some (c # t) \<Rightarrow> c # t | _ \<Rightarrow> result_text)))"

record 'w outside_ops =
  ou_http :: "'w http"
  ou_idp :: "'w idp"
  ou_vendor :: "'w vendor"

definition gateway_hooks ::
  "'w outside_ops \<Rightarrow> mcp_tables \<Rightarrow> gateway_ctx \<Rightarrow> policy_bundle option \<Rightarrow> json \<Rightarrow> string option \<Rightarrow> 'w gateway call_hooks" where
  "gateway_hooks ops tables ctx bundle url_filters vendor_key =
     \<lparr>hk_token = Some (\<lambda>server. in_broker (resolve_effective_mcp_access_token (ou_idp ops) server (map_option us_id (gc_user ctx)))),
      hk_before = Some (before_invoke tables ctx bundle), hk_after = Some (after_invoke tables ctx bundle),
      hk_url = (\<lambda>tool_name arguments. in_world (evaluate_tool_access (ou_vendor ops) tool_name (JObj arguments) url_filters vendor_key)),
      hk_invoke = (\<lambda>server tool_name arguments token. in_world (invoke_mcp_tool (ou_http ops) server tool_name arguments token))\<rparr>"

text \<open>The audit row and the chain event of a call that went through; the server is the first one of the name.\<close>

definition log_allowed :: "mcp_tables \<Rightarrow> gateway_ctx \<Rightarrow> mcp_server list \<Rightarrow> json dict \<Rightarrow> ('w gateway, unit) eff" where
  "log_allowed tables ctx servers response =
     (let meta = config_or_empty (dict_get_or (config_or_empty (dict_get_or response ''result'' JNull)) ''_pysetu'' JNull);
          tool_name = dict_get_or meta ''tool'' JNull
      in
      bindS (liftS (int_of_json (or_json (dict_get_or meta ''latency_ms'' JNull) (JInt 0))))
        (\<lambda>latency.
           case find (\<lambda>s. JStr (ms_name s) = dict_get_or meta ''server'' JNull) servers of
             None \<Rightarrow> returnS ()
           | Some server \<Rightarrow>
               if \<not> truthy tool_name then returnS ()
               else
                 let tool = py_str tool_name; tool_risk = classify_tool_risk tool [] in
                 bindS (log_mcp_tool_invoke ctx (mt_trace_id tables) server tool ''allowed'' ''low'' ''multiplex tools/call'' latency
                     (build_compliance_metadata ctx (ms_id server) tool [] []))
                   (\<lambda>_. bindS (getS gw_db)
                     (\<lambda>db. bindS (on_db (record_mcp_chain_event
                          (gateway_chain_event ctx None None (resolve_source_agent db (gc_tenant ctx) (gc_actor ctx)) server tool
                             tool_risk ''allowed'' (compute_chain_risk_score tool_risk [] [] 0 0) None []
                             (JObj [(''latency_ms'', JInt latency)]))))
                        (\<lambda>_. returnS ())))))"

definition handle_mcp_multiplex ::
  "'w outside_ops \<Rightarrow> mcp_tables \<Rightarrow> gateway_ctx \<Rightarrow> string option \<Rightarrow> json option \<Rightarrow> ('w gateway, json dict) eff" where
  "handle_mcp_multiplex ops tables ctx user_agent body =
     (case body of
        None \<Rightarrow> raiseS (HTTPException 400 ''Invalid JSON-RPC body'')
      | Some (JObj payload) \<Rightarrow>
          bindS (liftS (bundle_of tables ctx))
            (\<lambda>bundle. bindS (liftS (tenant_of tables ctx))
              (\<lambda>tenant.
                 let servers = servers_of tables ctx user_agent tenant bundle;
                     catalog_filter = (\<lambda>catalog. filter_multiplex_catalog catalog servers bundle (deny_rules_of tables ctx)
                       (resolve_actor_role (gc_user ctx)))
                 in
                 bindS (getS (\<lambda>s. bk_vault (gw_broker s)))
                   (\<lambda>v. bindS (liftS (get_tenant_secret v (mt_integrations tables) (gc_tenant ctx) MCP_URL_FILTER_VENDOR_KEY))
                     (\<lambda>vendor_key. bindS
                        (dispatch_mcp_request
                           (gateway_hooks ops tables ctx bundle (url_filters_of tenant) vendor_key)
                           (Some catalog_filter) payload servers (auto_hide tenant))
                        (\<lambda>response.
                           if rpc_method payload = ''tools/call'' \<and> dict_get response ''error'' = None
                           then bindS (log_allowed tables ctx servers response) (\<lambda>_. returnS response)
                           else returnS response)))))
      | Some _ \<Rightarrow> raiseS (HTTPException 400 ''JSON-RPC payload must be an object''))"

end
