(* ===== verification/BackendSecretsFacts.thy ===== *)
theory BackendSecretsFacts
  imports BackendSecrets
begin

text \<open>
  What holds of secrets and tokens: a secret is read back as it was written and touches no other, the credentials of a
  server survive being saved and never stay in the database while the vault is enabled, and asking for a token
  of a server never fails on its identity provider.
\<close>

section \<open>Secrets\<close>

definition kept :: "vault \<Rightarrow> string option \<Rightarrow> string option" where
  "kept v secret = (if va_enabled v \<and> secret = Some [] then None else secret)"

lemma dict_get_filter: "dict_get (filter (\<lambda>(k, _). k \<noteq> path) d) k = (if k = path then None else dict_get d k)"
  by (induction d) (auto simp: dict_get_def)

lemma dict_get_dropped [simp]: "k \<noteq> path \<Longrightarrow> dict_get (filter (\<lambda>(k, _). k \<noteq> path) d) k = dict_get d k"
  "dict_get (filter (\<lambda>(k, _). k \<noteq> path) d) path = None"
  by (simp_all add: dict_get_filter)

lemma vault_write_read:
  "vault_write v path secret = Inr v' \<Longrightarrow>
   va_enabled v' = va_enabled v \<and> va_up v' = va_up v \<and>
   vault_read v' path' =
     (if path' = path then Inr (if secret = Some [] then None else secret) else vault_read v path')"
proof (cases secret)
  case None
  then show "vault_write v path secret = Inr v' \<Longrightarrow> ?thesis" by (auto simp: vault_write_def vault_read_def split: if_splits)
next
  case (Some s)
  then show "vault_write v path secret = Inr v' \<Longrightarrow> ?thesis"
    by (cases s) (auto simp: vault_write_def vault_read_def split: if_splits)
qed

lemma get_after_set:
  assumes "set_secret v path secret = Inr (column, v')"
  shows "get_secret v' path column = Inr (kept v secret)"
    and "path' \<noteq> path \<Longrightarrow> get_secret v' path' db_value = get_secret v path' db_value"
    and "va_enabled v' = va_enabled v" and "va_enabled v \<Longrightarrow> column = None"
  using assms vault_write_read [of v path secret v']
  by (auto simp: set_secret_def get_secret_def kept_def bindE_eq_Inr_iff split: if_splits option.split)

section \<open>Paths\<close>

lemma slash_split:
  "CHR ''/'' \<notin> set a \<Longrightarrow> CHR ''/'' \<notin> set b \<Longrightarrow> a @ CHR ''/'' # x = b @ CHR ''/'' # y \<longleftrightarrow> a = b \<and> x = y"
proof (induction a arbitrary: b)
  case Nil
  then show ?case by (cases b) auto
next
  case (Cons c a)
  then show ?case by (cases b) auto
qed

lemma oauth_path_inj:
  assumes "CHR ''/'' \<notin> set t" "CHR ''/'' \<notin> set t'" "CHR ''/'' \<notin> set s" "CHR ''/'' \<notin> set s'"
  shows "mcp_oauth_secret_path t s n = mcp_oauth_secret_path t' s' n' \<longleftrightarrow> t = t' \<and> s = s' \<and> n = n'"
  using slash_split [OF assms(1,2)] slash_split [OF assms(3,4)] by (auto simp: mcp_oauth_secret_path_def)

lemma oauth_path_name: "mcp_oauth_secret_path t s n = mcp_oauth_secret_path t s n' \<longleftrightarrow> n = n'"
  by (simp add: mcp_oauth_secret_path_def)

lemma put_secret_result:
  assumes "put_secret tenant server n secret s = (Inr column, s')"
  shows "\<exists>v. set_secret (bk_vault s) (mcp_oauth_secret_path tenant server n) secret = Inr (column, v) \<and> s' = s\<lparr>bk_vault := v\<rparr>"
  using assms by (auto simp: put_secret_def set_mcp_oauth_secret_def split: sum.splits)

text \<open>The three writes of a save.\<close>

lemma three_secrets:
  assumes "set_secret v0 (mcp_oauth_secret_path t n ''client_secret'') x = Inr (c, v1)"
    and "set_secret v1 (mcp_oauth_secret_path t n ''refresh_token'') y = Inr (r, v2)"
    and "set_secret v2 (mcp_oauth_secret_path t n ''access_token'') z = Inr (a, v3)"
  shows "get_mcp_oauth_secret v3 t n ''client_secret'' c = Inr (kept v0 x) \<and>
    get_mcp_oauth_secret v3 t n ''refresh_token'' r = Inr (kept v0 y) \<and>
    get_mcp_oauth_secret v3 t n ''access_token'' a = Inr (kept v0 z) \<and>
    (va_enabled v0 \<longrightarrow> c = None \<and> r = None \<and> a = None) \<and>
    (\<forall>path d. path \<notin> mcp_oauth_secret_path t n ` {''client_secret'', ''refresh_token'', ''access_token''} \<longrightarrow>
       get_secret v3 path d = get_secret v0 path d)"
proof -
  have e: "va_enabled v1 = va_enabled v0" "va_enabled v2 = va_enabled v0"
    using get_after_set(3) [OF assms(1)] get_after_set(3) [OF assms(2)] by simp_all
  have k: "kept v1 = kept v0" "kept v2 = kept v0" by (simp_all add: kept_def [abs_def] e)
  show ?thesis
    using get_after_set [OF assms(1)] get_after_set [OF assms(2)] get_after_set [OF assms(3)]
    by (auto simp: get_mcp_oauth_secret_def oauth_path_name e k)
qed

section \<open>Rows\<close>

lemma store_row_key:
  assumes "length (filter (oauth_key (oc_tenant r) (oc_server r)) rows) \<le> 1"
  shows "filter (oauth_key (oc_tenant r) (oc_server r)) (store_row r rows) = [r]"
proof (cases "list_ex (oauth_key (oc_tenant r) (oc_server r)) rows")
  case True
  have "filter P (map (\<lambda>x. if P x then r else x) rows) = map (\<lambda>_. r) (filter P rows)" if "P r" for P
    using that by (induction rows) auto
  moreover have "oauth_key (oc_tenant r) (oc_server r) r" by (simp add: oauth_key_def)
  moreover obtain x where "filter (oauth_key (oc_tenant r) (oc_server r)) rows = [x]"
    using True assms by (cases "filter (oauth_key (oc_tenant r) (oc_server r)) rows") (auto simp: list_ex_iff filter_empty_conv)
  ultimately show ?thesis using True by (simp add: store_row_def)
next
  case False
  then show ?thesis by (auto simp: store_row_def list_ex_iff filter_empty_conv oauth_key_def)
qed

lemma store_row_other:
  assumes "(t, s) \<noteq> (oc_tenant r, oc_server r)"
  shows "filter (oauth_key t s) (store_row r rows) = filter (oauth_key t s) rows"
proof -
  have none: "\<not> oauth_key t s r" "oauth_key (oc_tenant r) (oc_server r) x \<Longrightarrow> \<not> oauth_key t s x" for x
    using assms by (auto simp: oauth_key_def)
  have "filter P (map (\<lambda>x. if Q x then r else x) rows) = filter P rows" if "\<not> P r" "\<And>x. Q x \<Longrightarrow> \<not> P x" for P Q
    using that by (induction rows) auto
  from this [of "oauth_key t s" "oauth_key (oc_tenant r) (oc_server r)"] none show ?thesis by (simp add: store_row_def)
qed

lemma scalar_found_length: "scalar_one_or_none rows = Inr found \<Longrightarrow> length rows \<le> 1"
  by (auto simp: scalar_one_or_none_def split: list.splits)

definition grant_of :: "json dict \<Rightarrow> string" where
  "grant_of payload = lower (strip (str_or_empty (or_json (dict_get_or payload ''grant_type'' JNull) (JStr ''client_credentials''))))"

definition stored_state :: "vault \<Rightarrow> oauth_state \<Rightarrow> oauth_state" where
  "stored_state v st = st\<lparr>os_client_secret := kept v (os_client_secret st), os_refresh_token := kept v (os_refresh_token st),
     os_access_token := kept v (os_access_token st)\<rparr>"

text \<open>What a successful save did.\<close>

lemma save_steps:
  assumes "save_oauth_state tenant server payload s = (Inr st, s')"
  obtains found v1 v2 c r a where
    "load_oauth_state (bk_vault s) (bk_oauth s) tenant server = Inr found"
    "grant_of payload \<in> set ALLOWED_GRANT_TYPES"
    "set_secret (bk_vault s) (mcp_oauth_secret_path tenant server ''client_secret'')
       (os_client_secret (merged_oauth_state payload found (grant_of payload))) = Inr (c, v1)"
    "set_secret v1 (mcp_oauth_secret_path tenant server ''refresh_token'')
       (os_refresh_token (merged_oauth_state payload found (grant_of payload))) = Inr (r, v2)"
    "set_secret v2 (mcp_oauth_secret_path tenant server ''access_token'')
       (os_access_token (merged_oauth_state payload found (grant_of payload))) = Inr (a, bk_vault s')"
    "bk_oauth s' = store_row (row_of_state tenant server (merged_oauth_state payload found (grant_of payload)) c r a) (bk_oauth s)"
    "hydrate_secrets (bk_vault s') (row_of_state tenant server (merged_oauth_state payload found (grant_of payload)) c r a) = Inr st"
proof -
  have grant: "grant_of payload \<in> set ALLOWED_GRANT_TYPES"
    using assms by (auto simp: save_oauth_state_def grant_of_def Let_def split: if_splits)
  from assms grant show ?thesis
    unfolding save_oauth_state_def grant_of_def [symmetric] Let_def
    by (auto simp: bindS_eq_Inr dest!: put_secret_result intro!: that)
qed

lemma hydrate_elsewhere:
  assumes "\<forall>path d. path \<notin> mcp_oauth_secret_path t n ` {''client_secret'', ''refresh_token'', ''access_token''} \<longrightarrow>
      get_secret v' path d = get_secret v path d"
    and "(oc_tenant r, oc_server r) \<noteq> (t, n)"
    and "\<forall>i \<in> {t, n, oc_tenant r, oc_server r}. CHR ''/'' \<notin> set i"
  shows "hydrate_secrets v' r = hydrate_secrets v r"
proof -
  have "get_secret v' (mcp_oauth_secret_path (oc_tenant r) (oc_server r) name) d =
      get_secret v (mcp_oauth_secret_path (oc_tenant r) (oc_server r) name) d" for name d
    using assms oauth_path_inj [of "oc_tenant r" t "oc_server r" n name] by auto
  then show ?thesis by (simp add: hydrate_secrets_def get_mcp_oauth_secret_def)
qed

lemma load_elsewhere:
  assumes "filter (oauth_key t' n') rows' = filter (oauth_key t' n') rows"
    and "\<And>r. r \<in> set rows \<Longrightarrow> oauth_key t' n' r \<Longrightarrow> hydrate_secrets v' r = hydrate_secrets v r"
  shows "load_oauth_state v' rows' t' n' = load_oauth_state v rows t' n'"
proof (cases "\<exists>r. filter (oauth_key t' n') rows = [r]")
  case True
  then obtain r where r: "filter (oauth_key t' n') rows = [r]" by blast
  have "r \<in> set (filter (oauth_key t' n') rows)" by (simp add: r)
  then have "r \<in> set rows" "oauth_key t' n' r" by auto
  then show ?thesis using assms(2) by (simp add: load_oauth_state_def assms(1) r scalar_one_or_none_def)
next
  case False
  then have "load_oauth_state v1 rows1 t' n' = load_oauth_state v2 rows t' n'"
    if "filter (oauth_key t' n') rows1 = filter (oauth_key t' n') rows" for v1 v2 rows1
    unfolding load_oauth_state_def that
    by (cases "filter (oauth_key t' n') rows"; cases "tl (filter (oauth_key t' n') rows)") (auto simp: scalar_one_or_none_def)
  then show ?thesis using assms(1) by blast
qed

lemma hydrate_row:
  assumes "os_grant_type st \<noteq> []"
    and "get_mcp_oauth_secret v t n ''client_secret'' c = Inr c'" "get_mcp_oauth_secret v t n ''refresh_token'' r = Inr r'"
      "get_mcp_oauth_secret v t n ''access_token'' a = Inr a'"
  shows "hydrate_secrets v (row_of_state t n st c r a) =
    Inr (st\<lparr>os_client_secret := c', os_refresh_token := r', os_access_token := a'\<rparr>)"
  using assms by (simp add: hydrate_secrets_def row_of_state_def)

section \<open>Properties\<close>

text \<open>C30: saving the credentials of a server stores what was asked for, each secret that was left out being kept, and they
  are loaded back as they were saved.  With the vault enabled no secret of theirs is in the database, and the credentials of
  every other server are loaded as before.\<close>

theorem credentials_saved:
  assumes "save_oauth_state tenant server payload s = (Inr st, s')"
  shows "\<exists>found. load_oauth_state (bk_vault s) (bk_oauth s) tenant server = Inr found \<and>
    st = stored_state (bk_vault s) (merged_oauth_state payload found (grant_of payload)) \<and>
    load_oauth_state (bk_vault s') (bk_oauth s') tenant server = Inr (Some st) \<and>
    (va_enabled (bk_vault s) \<longrightarrow>
      (\<forall>r \<in> set (bk_oauth s'). oauth_key tenant server r \<longrightarrow>
        oc_client_secret r = None \<and> oc_refresh_token r = None \<and> oc_access_token r = None)) \<and>
    (\<forall>t n. (t, n) \<noteq> (tenant, server) \<and> (\<forall>i \<in> {t, n, tenant, server}. CHR ''/'' \<notin> set i) \<longrightarrow>
      load_oauth_state (bk_vault s') (bk_oauth s') t n = load_oauth_state (bk_vault s) (bk_oauth s) t n)"
proof -
  from assms obtain found v1 v2 c r a where load: "load_oauth_state (bk_vault s) (bk_oauth s) tenant server = Inr found"
    and grant: "grant_of payload \<in> set ALLOWED_GRANT_TYPES"
    and sets: "set_secret (bk_vault s) (mcp_oauth_secret_path tenant server ''client_secret'')
       (os_client_secret (merged_oauth_state payload found (grant_of payload))) = Inr (c, v1)"
      "set_secret v1 (mcp_oauth_secret_path tenant server ''refresh_token'')
       (os_refresh_token (merged_oauth_state payload found (grant_of payload))) = Inr (r, v2)"
      "set_secret v2 (mcp_oauth_secret_path tenant server ''access_token'')
       (os_access_token (merged_oauth_state payload found (grant_of payload))) = Inr (a, bk_vault s')"
    and rows: "bk_oauth s' = store_row (row_of_state tenant server (merged_oauth_state payload found (grant_of payload)) c r a) (bk_oauth s)"
    and st: "hydrate_secrets (bk_vault s') (row_of_state tenant server (merged_oauth_state payload found (grant_of payload)) c r a) = Inr st"
    by (rule save_steps)
  let ?m = "merged_oauth_state payload found (grant_of payload)"
  let ?row = "row_of_state tenant server ?m c r a"
  note three = three_secrets [OF sets]
  have "os_grant_type ?m \<noteq> []" using grant by (auto simp: merged_oauth_state_def Let_def ALLOWED_GRANT_TYPES_def)
  then have state: "st = stored_state (bk_vault s) ?m"
    using st three hydrate_row [of ?m "bk_vault s'" tenant server] by (auto simp: stored_state_def)
  have one: "filter (oauth_key tenant server) (bk_oauth s') = [?row]"
  proof -
    obtain row where "scalar_one_or_none (filter (oauth_key tenant server) (bk_oauth s)) = Inr row"
      using load by (auto simp: load_oauth_state_def bindE_eq_Inr_iff)
    from store_row_key [of ?row "bk_oauth s"] scalar_found_length [OF this] show ?thesis
      by (simp add: rows row_of_state_def)
  qed
  have loaded: "load_oauth_state (bk_vault s') (bk_oauth s') tenant server = Inr (Some st)"
    by (simp add: load_oauth_state_def one scalar_one_or_none_def st)
  have hidden: "oc_client_secret x = c \<and> oc_refresh_token x = r \<and> oc_access_token x = a"
    if "x \<in> set (bk_oauth s')" "oauth_key tenant server x" for x
  proof -
    have "x = ?row" using that arg_cong [OF one, of set] by auto
    then show ?thesis by (simp add: row_of_state_def)
  qed
  have others: "load_oauth_state (bk_vault s') (bk_oauth s') t n = load_oauth_state (bk_vault s) (bk_oauth s) t n"
    if "(t, n) \<noteq> (tenant, server)" "\<forall>i \<in> {t, n, tenant, server}. CHR ''/'' \<notin> set i" for t n
  proof (rule load_elsewhere)
    show "filter (oauth_key t n) (bk_oauth s') = filter (oauth_key t n) (bk_oauth s)"
      unfolding rows by (rule store_row_other) (use that in \<open>simp add: row_of_state_def\<close>)
    fix x assume "x \<in> set (bk_oauth s)" "oauth_key t n x"
    then show "hydrate_secrets (bk_vault s') x = hydrate_secrets (bk_vault s) x"
      using that three by (intro hydrate_elsewhere [of tenant server]) (auto simp: oauth_key_def)
  qed
  show ?thesis using load state loaded hidden others three by blast
qed

definition demo_broker :: "unit broker" where
  "demo_broker =
     \<lparr>bk_vault = \<lparr>va_enabled = True, va_up = True, va_store = []\<rparr>, bk_oauth = [], bk_conns = [], bk_now = 0, bk_world = ()\<rparr>"

definition demo_credentials :: "json dict" where
  "demo_credentials = [(''grant_type'', JStr ''static''), (''access_token'', JStr '' tok '')]"

theorem credentials_saved_witness:
  "\<exists>st s'. save_oauth_state ''t'' ''srv'' demo_credentials demo_broker = (Inr st, s') \<and> os_access_token st = Some ''tok'' \<and>
    load_oauth_state (bk_vault s') (bk_oauth s') ''t'' ''srv'' = Inr (Some st) \<and>
    (\<forall>r \<in> set (bk_oauth s'). oauth_key ''t'' ''srv'' r \<longrightarrow> oc_access_token r = None)"
proof -
  have "fst (save_oauth_state ''t'' ''srv'' demo_credentials demo_broker) =
      Inr \<lparr>os_enabled = True, os_grant_type = ''static'', os_token_url = [], os_client_id = [], os_scopes = [], os_expires = None,
        os_client_secret = None, os_refresh_token = None, os_access_token = Some ''tok''\<rparr>"
    by code_simp
  then obtain st s' where run: "save_oauth_state ''t'' ''srv'' demo_credentials demo_broker = (Inr st, s')"
    "os_access_token st = Some ''tok''"
    by (cases "save_oauth_state ''t'' ''srv'' demo_credentials demo_broker") auto
  from credentials_saved [OF run(1)] run show ?thesis by (auto simp: demo_broker_def)
qed

text \<open>Once its credentials are loaded, asking for the token of a server never fails: a disabled server gives none, a
  static or fresh token is returned without a request, and when the identity provider fails the old token is returned
  and nothing stored changes.\<close>

theorem token_resolution_total:
  assumes "load_oauth_state (bk_vault s) (bk_oauth s) (ms_tenant server) (ms_id server) = Inr found"
  shows "\<exists>token s'. resolve_mcp_access_token idp server s = (Inr token, s') \<and>
    (case found of
       None \<Rightarrow> token = None \<and> s' = s
     | Some st \<Rightarrow>
         (\<not> os_enabled st \<longrightarrow> token = None \<and> s' = s) \<and>
         (os_enabled st \<and> stripped (os_access_token st) \<noteq> [] \<and>
            (os_grant_type st = ''static'' \<or> token_is_fresh (os_expires st) (bk_now s)) \<longrightarrow>
          token = Some (stripped (os_access_token st)) \<and> s' = s) \<and>
         (needs_token_fetch st (bk_now s) \<and> (\<forall>url form w. \<exists>e w'. idp url form w = (Inl e, w')) \<longrightarrow>
          token = none_if_empty (stripped (os_access_token st)) \<and> bk_vault s' = bk_vault s \<and> bk_oauth s' = bk_oauth s))"
proof (cases found)
  case None
  then show ?thesis by (simp add: resolve_mcp_access_token_def bindS_def assms)
next
  case (Some st)
  let ?local = "resolve_access_token_local (Some st) (bk_now s)"
  let ?fetch = "bindS (fetch_and_apply_token idp st) (\<lambda>updated. bindS (persist_token_state (ms_tenant server) (ms_id server) updated)
    (\<lambda>_. returnS (os_access_token updated)))"
  have run: "resolve_mcp_access_token idp server s =
      (if \<not> os_enabled st then (Inr None, s)
       else case ?local of
         Some token \<Rightarrow> (Inr (Some token), s)
       | None \<Rightarrow> if \<not> needs_token_fetch st (bk_now s) then (Inr (os_access_token st), s)
           else tryS ?fetch (\<lambda>_. Some (returnS (none_if_empty (stripped (os_access_token st))))) s)"
    unfolding resolve_mcp_access_token_def Some by (simp add: bindS_def assms Some split: option.split)
  have local: "?local = (if os_enabled st \<and> stripped (os_access_token st) \<noteq> [] \<and>
      (os_grant_type st = ''static'' \<or> token_is_fresh (os_expires st) (bk_now s)) then Some (stripped (os_access_token st)) else None)"
    by (auto simp: resolve_access_token_local_def)
  have failing: "\<exists>e s'. ?fetch s = (Inl e, s') \<and> bk_vault s' = bk_vault s \<and> bk_oauth s' = bk_oauth s"
    if fails: "\<forall>url form w. \<exists>e w'. idp url form w = (Inl e, w')"
  proof -
    have "\<exists>e s'. fetch_and_apply_token idp st s = (Inl e, s') \<and> bk_vault s' = bk_vault s \<and> bk_oauth s' = bk_oauth s"
    proof (cases "strip (os_token_url st) = [] \<or> (\<exists>e. build_token_form st = Inl e)")
      case True
      then show ?thesis by (auto simp: fetch_and_apply_token_def bindS_def)
    next
      case False
      then obtain form where "build_token_form st = Inr form" by (cases "build_token_form st") auto
      moreover obtain e w' where "idp (strip (os_token_url st)) form (bk_world s) = (Inl e, w')" using fails by blast
      ultimately show ?thesis using False by (auto simp: fetch_and_apply_token_def bindS_def outside_def)
    qed
    then show ?thesis by (auto simp: bindS_def)
  qed
  have "\<exists>token s'. tryS ?fetch (\<lambda>_. Some (returnS (none_if_empty (stripped (os_access_token st))))) s = (Inr token, s') \<and>
      ((\<forall>url form w. \<exists>e w'. idp url form w = (Inl e, w')) \<longrightarrow>
        token = none_if_empty (stripped (os_access_token st)) \<and> bk_vault s' = bk_vault s \<and> bk_oauth s' = bk_oauth s)"
    using failing by (cases "?fetch s"; cases "fst (?fetch s)") (auto simp: tryS_def)
  then show ?thesis
    unfolding run local Some by (auto simp: needs_token_fetch_def)
qed

theorem token_resolution_total_witness:
  "\<exists>s'. resolve_mcp_access_token (\<lambda>url form w. (Inl (OSError ''unreachable''), w))
      \<lparr>ms_id = ''srv'', ms_tenant = ''t'', ms_name = ''Files'', ms_tool_names = JNull, ms_transport = ''http'', ms_endpoint_url = None,
       ms_connection_config = JNull\<rparr>
      \<lparr>bk_vault = \<lparr>va_enabled = False, va_up = False, va_store = []\<rparr>,
       bk_oauth = [\<lparr>oc_tenant = ''t'', oc_server = ''srv'', oc_enabled = True, oc_grant_type = ''client_credentials'',
         oc_token_url = ''https://idp/token'', oc_client_id = ''c'', oc_scopes = [], oc_expires = Some 0, oc_client_secret = None,
         oc_refresh_token = None, oc_access_token = Some ''old''\<rparr>],
       bk_conns = [], bk_now = 0, bk_world = ()\<rparr> = (Inr (Some ''old''), s')"
  (is "\<exists>s'. resolve_mcp_access_token ?idp ?server ?s = _")
proof -
  let ?st = "\<lparr>os_enabled = True, os_grant_type = ''client_credentials'', os_token_url = ''https://idp/token'', os_client_id = ''c'',
    os_scopes = [], os_expires = Some 0, os_client_secret = None, os_refresh_token = None, os_access_token = Some ''old''\<rparr>"
  have "load_oauth_state (bk_vault ?s) (bk_oauth ?s) (ms_tenant ?server) (ms_id ?server) = Inr (Some ?st)"
    "needs_token_fetch ?st (bk_now ?s)" "none_if_empty (stripped (os_access_token ?st)) = Some ''old''"
    by code_simp+
  then show ?thesis using token_resolution_total [of ?s ?server "Some ?st" ?idp] by auto
qed

text \<open>The API key of the URL filter has no column: without the vault it is lost as soon as it is saved.\<close>

lemma vendor_key_lost:
  assumes "\<not> va_enabled v" and "set_tenant_secret v rows tenant MCP_URL_FILTER_VENDOR_KEY (Some key) = Inr (v', rows')"
    and "\<forall>r \<in> set rows. dict_get (ti_secrets r) MCP_URL_FILTER_VENDOR_KEY = None"
  shows "get_tenant_secret v' rows' tenant MCP_URL_FILTER_VENDOR_KEY = Inr None"
proof -
  obtain row where row: "scalar_one_or_none (filter (\<lambda>r. ti_tenant r = tenant) rows) = Inr row"
    using assms(2) by (auto simp: set_tenant_secret_def bindE_eq_Inr_iff)
  let ?rows = "case row of None \<Rightarrow> rows @ [new_integration tenant] | Some _ \<Rightarrow> rows"
  have "dict_get (ti_secrets (new_integration tenant)) MCP_URL_FILTER_VENDOR_KEY = None"
    by (simp add: new_integration_def INTEGRATION_SECRETS_def MCP_URL_FILTER_VENDOR_KEY_def dict_get_def)
  then have columns: "\<forall>r \<in> set ?rows. dict_get (ti_secrets r) MCP_URL_FILTER_VENDOR_KEY = None"
    using assms(3) by (auto split: option.split)
  have v: "v' = v" and "rows' = map (\<lambda>r. if ti_tenant r = tenant then with_secret MCP_URL_FILTER_VENDOR_KEY (Some key) r else r) ?rows"
    using assms(1,2) row by (auto simp: set_tenant_secret_def set_secret_def Let_def)
  then have same: "rows' = ?rows"
    using columns by (auto simp: with_secret_def intro!: map_idI)
  obtain found where "scalar_one_or_none (filter (\<lambda>r. ti_tenant r = tenant) ?rows) = Inr found"
    "\<forall>r. found = Some r \<longrightarrow> r \<in> set ?rows"
  proof (cases row)
    case None
    then have "filter (\<lambda>r. ti_tenant r = tenant) rows = []" using row by (auto simp: scalar_one_or_none_def split: list.splits)
    with None that [of "Some (new_integration tenant)"] show ?thesis by (simp add: scalar_one_or_none_def new_integration_def)
  next
    case (Some r)
    then have "filter (\<lambda>r. ti_tenant r = tenant) rows = [r]" using row by (auto simp: scalar_one_or_none_def split: list.splits)
    from arg_cong [OF this, of set] Some row that [of "Some r"] show ?thesis by auto
  qed
  then show ?thesis
    using columns assms(1) by (auto simp: get_tenant_secret_def v same dict_get_or_def split: option.splits)
qed

end
