(* ===== verification/BackendMcpGatewayFacts.thy ===== *)
theory BackendMcpGatewayFacts
  imports BackendMcpGateway BackendSecretsFacts
begin

text \<open>
  What the MCP gateway guarantees: nothing reaches a server but the calls of tools that are visible, in scope, not denied, not
  blocked, inspected and free of blocked URLs.  The proof follows the structure of the handler with the rules \<open>keeps\<close> for relations
  on the outside world.
\<close>

section \<open>Relations on the outside world\<close>

lemma keeps_bind_yields:
  assumes "transp R" and "keeps R m" and "yields Q m" and "\<And>x. Q x \<Longrightarrow> keeps R (f x)"
  shows "keeps R (bindS m f)"
  unfolding keeps_def
proof
  fix s
  obtain r s' where m: "m s = (r, s')" by fastforce
  have R: "R s s'" using keeps_run [OF assms(2) m] .
  show "R s (snd (bindS m f s))"
  proof (cases r)
    case (Inl e)
    then show ?thesis using R m by (simp add: bindS_Inl)
  next
    case (Inr x)
    then have "Q x" using assms(3) m unfolding yields_def by blast
    then show ?thesis using R m Inr keepsD [OF assms(4), of x s'] transpD [OF assms(1)] by (auto simp: bindS_Inr)
  qed
qed

definition on_world :: "('w \<Rightarrow> 'w \<Rightarrow> bool) \<Rightarrow> 'w broker \<Rightarrow> 'w broker \<Rightarrow> bool" where
  "on_world R b b' \<longleftrightarrow> R (bk_world b) (bk_world b')"

definition on_gateway :: "('w \<Rightarrow> 'w \<Rightarrow> bool) \<Rightarrow> 'w gateway \<Rightarrow> 'w gateway \<Rightarrow> bool" where
  "on_gateway R s s' \<longleftrightarrow> on_world R (gw_broker s) (gw_broker s')"

lemma on_world_order [simp]: "reflp R \<Longrightarrow> reflp (on_world R)" "transp R \<Longrightarrow> transp (on_world R)"
  unfolding on_world_def by (rule reflpI, erule reflpD) (rule transpI, erule transpD)

lemma on_gateway_order [simp]: "reflp R \<Longrightarrow> reflp (on_gateway R)" "transp R \<Longrightarrow> transp (on_gateway R)"
  unfolding on_gateway_def on_world_def by (rule reflpI, erule reflpD) (rule transpI, erule transpD)

lemma keeps_outside: "keeps R m \<Longrightarrow> keeps (on_world R) (outside m)"
  by (simp add: keeps_def outside_def on_world_def split: prod.split) (metis snd_conv)

lemma keeps_in_broker: "keeps (on_world R) m \<Longrightarrow> keeps (on_gateway R) (in_broker m)"
  by (simp add: keeps_def in_broker_def on_gateway_def split: prod.split) (metis snd_conv)

lemma keeps_in_world: "keeps R m \<Longrightarrow> keeps (on_gateway R) (in_world m)"
  unfolding in_world_def by (intro keeps_in_broker keeps_outside)

lemma keeps_on_db: "reflp R \<Longrightarrow> keeps (on_gateway R) (on_db f)"
  by (simp add: keeps_def on_db_def on_gateway_def on_world_def reflpD split: prod.split)

section \<open>Tokens and URLs\<close>

lemma keeps_put_secret: "reflp R \<Longrightarrow> keeps (on_world R) (put_secret t n name secret)"
  by (simp add: keeps_def put_secret_def on_world_def reflpD split: sum.split)

lemma keeps_same_world: "reflp R \<Longrightarrow> (\<And>s. bk_world (f s) = bk_world s) \<Longrightarrow> keeps (on_world R) (modifyS f)"
  by (simp add: keeps_def on_world_def reflpD)

lemma keeps_persist:
  assumes [simp]: "reflp R" "transp R"
  shows "keeps (on_world R) (persist_token_state t n st)"
  unfolding persist_token_state_def
  by (intro keeps_bind keeps_get keeps_lift on_world_order assms)
     (auto split: option.split intro!: keeps_bind keeps_put_secret keeps_return keeps_same_world)

lemma keeps_fetch:
  assumes [simp]: "reflp R" "transp R" and "\<And>url form. keeps R (idp url form)"
  shows "keeps (on_world R) (fetch_and_apply_token idp st)"
  unfolding fetch_and_apply_token_def
  by (intro keeps_if keeps_raise keeps_bind keeps_lift keeps_outside on_world_order assms)
     (auto split: json.split intro!: keeps_bind keeps_get keeps_lift keeps_raise)

lemma keeps_tokens:
  assumes [simp]: "reflp R" "transp R" and "\<And>url form. keeps R (idp url form)"
  shows "keeps (on_world R) (resolve_effective_mcp_access_token idp server user)"
proof -
  have "keeps (on_world R) (resolve_mcp_access_token idp server)"
    unfolding resolve_mcp_access_token_def
    by (intro keeps_bind keeps_get keeps_lift on_world_order assms)
       (auto split: option.split intro!: keeps_return keeps_try keeps_bind keeps_fetch keeps_persist assms)
  then show ?thesis
    unfolding resolve_effective_mcp_access_token_def
    by (intro keeps_bind keeps_get keeps_lift on_world_order assms) (auto split: option.split intro!: keeps_return)
qed

lemma keeps_query:
  assumes [simp]: "reflp R" "transp R" and "\<And>e u v key. keeps R (classify e u v key)"
  shows "keeps R (query_vendor classify url p key)"
  unfolding query_vendor_def by (auto intro!: keeps_return keeps_try keeps_bind assms)

lemma keeps_check_urls:
  assumes [simp]: "reflp R" "transp R" and "\<And>e u v key. keeps R (classify e u v key)"
  shows "keeps R (check_urls classify p key urls)"
  by (induction urls) (auto simp del: returnS_apply intro!: keeps_return keeps_bind keeps_lift keeps_query assms)

lemma keeps_url_filter:
  assumes [simp]: "reflp R" "transp R" and "\<And>e u v key. keeps R (classify e u v key)"
  shows "keeps R (evaluate_tool_access classify tool arguments policy key)"
  unfolding evaluate_tool_access_def Let_def by (auto intro!: keeps_return keeps_check_urls assms)

section \<open>The target of a call\<close>

lemma find_on_slug_member: "find_on_slug servers slug name = Inr (Some (server, tool)) \<Longrightarrow> server \<in> set servers"
  by (induction servers) (auto simp: bindE_eq_Inr_iff split: if_splits)

lemma find_unqualified_member: "find_unqualified servers name = Inr ms \<Longrightarrow> (server, tool) \<in> set ms \<Longrightarrow> server \<in> set servers"
  by (induction servers arbitrary: ms) (auto simp: bindE_eq_Inr_iff split: if_splits)

lemma sole_member: "(case ms of [m] \<Rightarrow> Some m | _ \<Rightarrow> None) = Some x \<Longrightarrow> x \<in> set ms"
  by (cases ms; cases "tl ms") auto

lemma target_member: "resolve_tool_target servers name = Inr (Some (server, tool)) \<Longrightarrow> server \<in> set servers"
  unfolding resolve_tool_target_def Let_def
  by (cases "parse_qualified_name name"; cases "fst (parse_qualified_name name)"; cases "the (fst (parse_qualified_name name))")
     (auto simp: bindE_eq_Inr_iff intro: find_on_slug_member dest: sole_member find_unqualified_member)

section \<open>Permitted calls\<close>

text \<open>Everything a call has to pass: the server is in scope for the agent and the bundle, the tool is visible, the policies of
  tools allow it, the inspection of its arguments allows it and so does the URL filter.\<close>

definition passes_policy ::
  "mcp_tables \<Rightarrow> gateway_ctx \<Rightarrow> policy_bundle option \<Rightarrow> mcp_server \<Rightarrow> string \<Rightarrow> json dict \<Rightarrow> bool" where
  "passes_policy tables ctx bundle server tool arguments \<longleftrightarrow>
     (\<exists>action reason policy ingress.
        check_tool_policy_action (mt_tool_policies tables) (gc_tenant ctx) bundle (deny_rules_of tables ctx)
          (resolve_actor_role (gc_user ctx)) server tool = Inr (action, reason, policy) \<and>
        action \<noteq> ''block'' \<and> action \<noteq> ''approval'' \<and>
        inspect_for_gateway (mt_policy_db tables) (gc_tenant ctx) bundle (inspected_text tool arguments) None = Inr ingress \<and>
        in_allowed ingress)"

definition passes_urls ::
  "'w outside_ops \<Rightarrow> tenant_mcp option \<Rightarrow> string option \<Rightarrow> string \<Rightarrow> json dict \<Rightarrow> bool" where
  "passes_urls ops tenant vendor_key tool arguments \<longleftrightarrow>
     (\<exists>w w' reason. evaluate_tool_access (ou_vendor ops) tool (JObj arguments)
        (url_filters_of tenant) vendor_key w = (Inr (True, reason), w'))"

definition permitted ::
  "'w outside_ops \<Rightarrow> mcp_tables \<Rightarrow> gateway_ctx \<Rightarrow> string option \<Rightarrow> mcp_server \<Rightarrow> string \<Rightarrow> json dict \<Rightarrow> bool" where
  "permitted ops tables ctx user_agent server tool arguments \<longleftrightarrow>
     (\<exists>bundle tenant vault vendor_key. bundle_of tables ctx = Inr bundle \<and> tenant_of tables ctx = Inr tenant \<and>
        get_tenant_secret vault (mt_integrations tables) (gc_tenant ctx) MCP_URL_FILTER_VENDOR_KEY = Inr vendor_key \<and>
        server \<in> set (servers_of tables ctx user_agent tenant bundle) \<and> tool_is_visible server tool (auto_hide tenant) \<and>
        passes_policy tables ctx bundle server tool arguments \<and> passes_urls ops tenant vendor_key tool arguments)"

lemma keeps_log: "reflp R \<Longrightarrow> keeps (on_gateway R) (log_mcp_tool_invoke ctx tr server tool status risk details lat c)"
  unfolding log_mcp_tool_invoke_def by (rule keeps_on_db)

lemma keeps_log_blocked: "reflp R \<Longrightarrow> keeps (on_gateway R) (log_blocked ctx tr server tool risk details reason actions)"
  unfolding log_blocked_def by (rule keeps_log)

lemma keeps_set_db: "reflp R \<Longrightarrow> keeps (on_gateway R) (modifyS (\<lambda>s. s\<lparr>gw_db := db\<rparr>))"
  by (rule keeps_modify) (simp add: on_gateway_def on_world_def reflpD)

lemma keeps_before:
  assumes [simp]: "reflp R" "transp R"
  shows "keeps (on_gateway R) (before_invoke tables ctx bundle server tool arguments)"
  unfolding before_invoke_def
  by (auto simp: Let_def intro!: keeps_bind keeps_lift keeps_return keeps_get keeps_log_blocked keeps_set_db)

lemma before_passes:
  "yields (\<lambda>(allowed, _, _). allowed \<longrightarrow> passes_policy tables ctx bundle server tool arguments)
     (before_invoke tables ctx bundle server tool arguments)"
  unfolding yields_def before_invoke_def
  by (auto simp: bindS_eq_Inr Let_def passes_policy_def split: if_splits)

lemma keeps_after:
  assumes [simp]: "reflp R" "transp R"
  shows "keeps (on_gateway R) (after_invoke tables ctx bundle server tool result_text)"
  unfolding after_invoke_def by (auto simp: Let_def intro!: keeps_bind keeps_lift keeps_return keeps_log_blocked)

lemma keeps_log_allowed:
  assumes [simp]: "reflp R" "transp R"
  shows "keeps (on_gateway R) (log_allowed tables ctx servers response)"
  unfolding log_allowed_def Let_def
  by (intro keeps_bind keeps_lift on_gateway_order assms)
     (auto split: option.split intro!: keeps_bind keeps_return keeps_log keeps_get keeps_on_db)

section \<open>The whole handler\<close>

lemma keeps_invoke_and_inspect:
  assumes [simp]: "reflp R" "transp R"
    and "\<And>url form. keeps R (ou_idp ops url form)"
    and "\<And>token. keeps R (invoke_mcp_tool (ou_http ops) server tool arguments token)"
  shows "keeps (on_gateway R) (invoke_and_inspect (gateway_hooks ops tables ctx bundle filters key) request server tool arguments)"
  unfolding invoke_and_inspect_def gateway_hooks_def
  by (auto intro!: keeps_bind keeps_return keeps_in_broker keeps_tokens keeps_in_world keeps_after assms)

lemma keeps_checked_call:
  assumes [simp]: "reflp R" "transp R"
    and idp: "\<And>url form. keeps R (ou_idp ops url form)" and vendor: "\<And>e u v key. keeps R (ou_vendor ops e u v key)"
    and invoke: "\<And>token. tool_is_visible server tool (auto_hide tenant) \<Longrightarrow> passes_policy tables ctx bundle server tool arguments \<Longrightarrow>
      passes_urls ops tenant key tool arguments \<Longrightarrow> keeps R (invoke_mcp_tool (ou_http ops) server tool arguments token)"
  shows "keeps (on_gateway R)
     (checked_call (gateway_hooks ops tables ctx bundle (url_filters_of tenant) key)
        (auto_hide tenant) request server tool arguments)" (is "keeps _ (checked_call ?hooks _ _ _ _ _)")
proof (cases "tool_is_visible server tool (auto_hide tenant)")
  case True
  have url: "yields (\<lambda>(ok, _). ok \<longrightarrow> passes_urls ops tenant key tool arguments) (hk_url ?hooks tool arguments)"
    by (auto simp: yields_def gateway_hooks_def passes_urls_def in_world_def in_broker_def outside_def split: prod.splits)
      blast
  have urls_kept: "keeps (on_gateway R) (hk_url ?hooks tool arguments)"
    by (simp add: gateway_hooks_def keeps_in_world keeps_url_filter vendor)
  have before: "hk_before ?hooks = Some (before_invoke tables ctx bundle)" by (simp add: gateway_hooks_def)
  have "keeps (on_gateway R) (invoke_and_inspect ?hooks request server tool arguments)"
    if "passes_policy tables ctx bundle server tool arguments" "passes_urls ops tenant key tool arguments"
    by (rule keeps_invoke_and_inspect) (simp_all add: idp invoke True that)
  then show ?thesis
    unfolding checked_call_def before option.case using True
    by (auto intro!: keeps_return keeps_bind_yields [OF _ keeps_before before_passes] keeps_bind_yields [OF _ urls_kept url])
qed (simp add: checked_call_def keeps_return)

lemma keeps_tools_call:
  assumes [simp]: "reflp R" "transp R"
    and idp: "\<And>url form. keeps R (ou_idp ops url form)" and vendor: "\<And>e u v key. keeps R (ou_vendor ops e u v key)"
    and invoke: "\<And>server tool arguments token. server \<in> set servers \<Longrightarrow> tool_is_visible server tool (auto_hide tenant) \<Longrightarrow>
      passes_policy tables ctx bundle server tool arguments \<Longrightarrow> passes_urls ops tenant key tool arguments \<Longrightarrow>
      keeps R (invoke_mcp_tool (ou_http ops) server tool arguments token)"
  shows "keeps (on_gateway R)
     (handle_tools_call (gateway_hooks ops tables ctx bundle (url_filters_of tenant) key)
        payload servers (auto_hide tenant))"
proof -
  have found: "yields (\<lambda>target. \<forall>(server, tool) \<in> set_option target. server \<in> set servers) (liftS (resolve_tool_target servers name))"
    for name by (rule yields_lift) (auto intro: target_member)
  show ?thesis
    unfolding handle_tools_call_def Let_def
    by (auto split: prod.split option.split intro!: keeps_return keeps_bind_yields [OF _ keeps_lift found]
      keeps_checked_call [OF assms(1, 2) idp vendor] invoke)
qed

text \<open>C29: A relation on the outside world that the token endpoints and the URL vendor keep, and that the invocations of permitted tools
  keep, is kept by every request to the MCP endpoint: whatever the body is, nothing but permitted calls reaches a server.\<close>

theorem only_permitted_calls:
  assumes "reflp R" and "transp R"
    and "\<And>url form. keeps R (ou_idp ops url form)" and "\<And>e u v key. keeps R (ou_vendor ops e u v key)"
    and "\<And>server tool arguments token. permitted ops tables ctx user_agent server tool arguments \<Longrightarrow>
      keeps R (invoke_mcp_tool (ou_http ops) server tool arguments token)"
  shows "keeps (on_gateway R) (handle_mcp_multiplex ops tables ctx user_agent body)"
proof (cases "\<exists>payload. body = Some (JObj payload)")
  case False
  then show ?thesis
    unfolding handle_mcp_multiplex_def using assms(1) by (auto split: option.split json.split intro!: keeps_raise)
next
  case True
  then obtain payload where body: "body = Some (JObj payload)" by blast
  have loaded: "yields (\<lambda>b. bundle_of tables ctx = Inr b) (liftS (bundle_of tables ctx))"
    and tenant: "yields (\<lambda>t. tenant_of tables ctx = Inr t) (liftS (tenant_of tables ctx))"
    and key: "yields (\<lambda>k. get_tenant_secret v (mt_integrations tables) (gc_tenant ctx) MCP_URL_FILTER_VENDOR_KEY = Inr k)
      (liftS (get_tenant_secret v (mt_integrations tables) (gc_tenant ctx) MCP_URL_FILTER_VENDOR_KEY))" for v
    by (auto intro: yields_lift)
  have dispatch: "keeps (on_gateway R) (dispatch_mcp_request (gateway_hooks ops tables ctx b (url_filters_of t) k) (Some f) payload
       (servers_of tables ctx user_agent t b) (auto_hide t))"
    if "bundle_of tables ctx = Inr b" "tenant_of tables ctx = Inr t"
      "get_tenant_secret v (mt_integrations tables) (gc_tenant ctx) MCP_URL_FILTER_VENDOR_KEY = Inr k" for b t v k f
    unfolding dispatch_mcp_request_def
    by (auto split: option.split intro!: keeps_lift keeps_tools_call assms(1-4) assms(5) simp: assms(1, 2) permitted_def)
       (use that in blast)
  show ?thesis
    unfolding handle_mcp_multiplex_def body option.case json.case Let_def
    by (intro keeps_bind_yields [OF _ keeps_lift loaded] keeps_bind_yields [OF _ keeps_lift tenant] keeps_bind keeps_get
        keeps_bind_yields [OF _ keeps_lift key] dispatch keeps_if keeps_log_allowed keeps_return on_gateway_order assms(1, 2))
qed

text \<open>A caller of another tenant, with a world that counts requests.\<close>

definition counting_http :: "nat http" where
  "counting_http =
     \<lparr>ht_post = (\<lambda>_ _ _ _ w. (Inr None, Suc w)), ht_request = (\<lambda>_ _ _ _ _ _ w. (Inl (HTTPError ''down''), Suc w)),
      ht_clock = returnS 0, ht_uuid = returnS ''u'', ht_isoformat = (\<lambda>_. []), ht_fromisoformat = (\<lambda>_. None)\<rparr>"

definition other_tenant_ops :: "nat outside_ops" where
  "other_tenant_ops = \<lparr>ou_http = counting_http, ou_idp = (\<lambda>_ _. returnS JNull), ou_vendor = (\<lambda>_ _ _ _. returnS JNull)\<rparr>"

definition demo_tables :: mcp_tables where
  "demo_tables =
     \<lparr>mt_policy_db = \<lparr>db_policies = [], db_bundles = [], db_intents = []\<rparr>,
      mt_servers = [\<lparr>ms_id = ''srv'', ms_tenant = ''t1'', ms_name = ''Files'', ms_tool_names = JArr [JStr ''rm''], ms_transport = ''http'',
        ms_endpoint_url = Some ''http://files'', ms_connection_config = JNull\<rparr>],
      mt_tenants = [], mt_deny_rules = [], mt_tool_policies = [], mt_integrations = [], mt_trace_id = None\<rparr>"

definition demo_ctx :: "uuid \<Rightarrow> gateway_ctx" where
  "demo_ctx tenant =
     \<lparr>gc_tenant = tenant, gc_actor = ''bob'', gc_user = None, gc_client_api_key_id = None, gc_client_api_key_name = None,
      gc_policy_bundle_id = None, gc_policy_bundle_name = None\<rparr>"

lemma no_servers: "servers_of demo_tables (demo_ctx ''t2'') user_agent tenant policies = []"
  by (simp add: servers_of_def demo_tables_def demo_ctx_def filter_servers_for_bundle_def filter_servers_for_agent_def Let_def)

theorem only_permitted_calls_witness:
  "keeps (on_gateway (=)) (handle_mcp_multiplex other_tenant_ops demo_tables (demo_ctx ''t2'') None
     (Some (JObj [(''method'', JStr ''tools/call''), (''params'', JObj [(''name'', JStr ''rm'')])])))"
  by (rule only_permitted_calls) (auto simp: permitted_def no_servers other_tenant_ops_def reflp_def transp_def keeps_def)

end
