(* ===== verification/BackendConditions.thy ===== *)
theory BackendConditions
  imports BackendUag PyEqual
begin

text \<open>
  \<open>routing_conditions.py\<close> and \<open>routing_context.py\<close>: the conditions of routing rules and the facts about a request
  they are evaluated on.  A condition is the abstract syntax of a Python expression; the parser, Python's \<open>ast.parse\<close>,
  is an argument of the evaluation, \<open>None\<close> where it raises.
\<close>

section \<open>Order of values\<close>

text \<open>Numbers are ordered by their value, with the infinities at the ends; \<open>NaN\<close> is below and above nothing.\<close>

datatype cmp_op = CEq | CNotEq | CLt | CLtE | CGt | CGtE | COther

fun number_key :: "json \<Rightarrow> (int \<times> rat) option" where
  "number_key (JInt i) = Some (0, of_int i)"
| "number_key (JBool b) = Some (0, if b then 1 else 0)"
| "number_key (JFloat s) =
     (if s = ''Infinity'' then Some (1, 0) else if s = ''-Infinity'' then Some (- 1, 0)
      else map_option (\<lambda>x. (0, x)) (float_value s))"
| "number_key _ = None"

definition is_number :: "json \<Rightarrow> bool" where
  "is_number v \<longleftrightarrow> (case v of JInt _ \<Rightarrow> True | JBool _ \<Rightarrow> True | JFloat _ \<Rightarrow> True | _ \<Rightarrow> False)"

fun str_less :: "string \<Rightarrow> string \<Rightarrow> bool" where
  "str_less _ [] = False"
| "str_less [] (_ # _) = True"
| "str_less (c # s) (d # t) = (if c = d then str_less s t else ordc c < ordc d)"

definition holds_order :: "cmp_op \<Rightarrow> bool \<Rightarrow> bool \<Rightarrow> bool" where
  "holds_order op below same =
     (case op of CLt \<Rightarrow> below | CLtE \<Rightarrow> below \<or> same | CGt \<Rightarrow> \<not> below \<and> \<not> same | CGtE \<Rightarrow> \<not> below | _ \<Rightarrow> False)"

definition number_order :: "cmp_op \<Rightarrow> json \<Rightarrow> json \<Rightarrow> bool" where
  "number_order op a b =
     (case (number_key a, number_key b) of
        (Some (i, x), Some (j, y)) \<Rightarrow> holds_order op (i < j \<or> i = j \<and> x < y) (i = j \<and> x = y)
      | _ \<Rightarrow> False)"

fun ordered :: "cmp_op \<Rightarrow> json \<Rightarrow> json \<Rightarrow> bool result"
  and ordered_list :: "cmp_op \<Rightarrow> json list \<Rightarrow> json list \<Rightarrow> bool result" where
  "ordered op (JStr s) (JStr t) = Inr (holds_order op (str_less s t) (s = t))"
| "ordered op (JArr xs) (JArr ys) = ordered_list op xs ys"
| "ordered op a b = (if is_number a \<and> is_number b then Inr (number_order op a b) else Inl (TypeError ''not supported between instances''))"
| "ordered_list op [] ys = Inr (holds_order op (ys \<noteq> []) (ys = []))"
| "ordered_list op (x # xs) [] = Inr (holds_order op False False)"
| "ordered_list op (x # xs) (y # ys) = (if py_eq x y then ordered_list op xs ys else ordered op x y)"

definition compare_values :: "cmp_op \<Rightarrow> json \<Rightarrow> json \<Rightarrow> bool result" where
  "compare_values op a b =
     (case op of
        CEq \<Rightarrow> Inr (py_eq a b)
      | CNotEq \<Rightarrow> Inr (\<not> py_eq a b)
      | COther \<Rightarrow> Inl (ValueError ''Unsupported comparison operator'')
      | _ \<Rightarrow> ordered op a b)"

section \<open>Conditions\<close>

datatype expr =
    EConst json
  | EName string
  | EAttr expr string
  | ECompare expr "(cmp_op \<times> expr) list"
  | EBool bool "expr list"
  | ENot expr
  | EOther

fun attr_path :: "expr \<Rightarrow> string list result" where
  "attr_path (EName n) = Inr [n]"
| "attr_path (EAttr e a) = bindE (attr_path e) (\<lambda>p. Inr (p @ [a]))"
| "attr_path _ = Inl (ValueError ''Unsupported attribute expression'')"

text \<open>The value at the end of a path, \<open>None\<close> when it leaves the dictionaries.\<close>

fun resolve_path :: "json \<Rightarrow> string list \<Rightarrow> json" where
  "resolve_path v [] = v"
| "resolve_path (JObj d) (p # ps) = resolve_path (dict_get_or d p JNull) ps"
| "resolve_path _ (p # ps) = JNull"

text \<open>\<open>and\<close> and \<open>or\<close> evaluate all operands first; a chain of comparisons keeps its leftmost operand.\<close>

fun eval_node :: "json dict \<Rightarrow> expr \<Rightarrow> json result"
  and eval_chain :: "json dict \<Rightarrow> json \<Rightarrow> (cmp_op \<times> expr) list \<Rightarrow> json result"
  and eval_list :: "json dict \<Rightarrow> expr list \<Rightarrow> json list result" where
  "eval_node ctx (EConst v) = Inr v"
| "eval_node ctx (EName n) =
     (if n \<in> {''true'', ''True''} then Inr (JBool True)
      else if n \<in> {''false'', ''False''} then Inr (JBool False)
      else Inr (dict_get_or ctx n JNull))"
| "eval_node ctx (EAttr e a) = bindE (attr_path (EAttr e a)) (\<lambda>p. Inr (resolve_path (JObj ctx) p))"
| "eval_node ctx (ECompare e cs) = bindE (eval_node ctx e) (\<lambda>left. eval_chain ctx left cs)"
| "eval_node ctx (EBool all es) =
     bindE (eval_list ctx es) (\<lambda>vs. Inr (JBool (if all then list_all truthy vs else list_ex truthy vs)))"
| "eval_node ctx (ENot e) = bindE (eval_node ctx e) (\<lambda>v. Inr (JBool (\<not> truthy v)))"
| "eval_node ctx EOther = Inl (ValueError ''Unsupported expression'')"
| "eval_chain ctx left [] = Inr (JBool True)"
| "eval_chain ctx left ((op, e) # cs) =
     (if op = COther then Inl (ValueError ''Unsupported comparison operator'')
      else
        bindE (eval_node ctx e)
          (\<lambda>right. bindE (compare_values op left right)
            (\<lambda>ok. if ok then eval_chain ctx left cs else Inr (JBool False))))"
| "eval_list ctx [] = Inr []"
| "eval_list ctx (e # es) = bindE (eval_node ctx e) (\<lambda>v. bindE (eval_list ctx es) (\<lambda>vs. Inr (v # vs)))"

definition evaluate_condition :: "(string \<Rightarrow> expr option) \<Rightarrow> string \<Rightarrow> json dict \<Rightarrow> bool result" where
  "evaluate_condition parse condition ctx =
     (let s = strip condition in
      if s = [] then Inr False
      else if lower s = ''default'' then Inr True
      else
        case parse s of
          None \<Rightarrow> Inr False
        | Some e \<Rightarrow>
            (case eval_node ctx e of
               Inr v \<Rightarrow> Inr (truthy v)
             | Inl (TypeError _) \<Rightarrow> Inr False
             | Inl (ValueError _) \<Rightarrow> Inr False
             | Inl (KeyError _) \<Rightarrow> Inr False
             | Inl e \<Rightarrow> Inl e))"

section \<open>The context of a request\<close>

definition IMAGE_HINTS :: "string list" where
  "IMAGE_HINTS = [''data:image'', ''[image]'', ''image attached'', ''see attached image'']"

definition CODE_REVIEW_HINTS :: "string list" where
  "CODE_REVIEW_HINTS = [''code review'', ''review this code'', ''pull request'', ''pr review'', ''review my code'']"

fun deep_set_if_missing :: "json dict \<Rightarrow> string list \<Rightarrow> json \<Rightarrow> json dict" where
  "deep_set_if_missing d [] v = d"
| "deep_set_if_missing d [k] v = (if dict_get_or d k JNull = JNull then dict_set k v d else d)"
| "deep_set_if_missing d (k # p # ps) v =
     dict_set k (JObj (deep_set_if_missing (case dict_get d k of Some (JObj m) \<Rightarrow> m | _ \<Rightarrow> []) (p # ps) v)) d"

function merge_context :: "json dict \<Rightarrow> json dict \<Rightarrow> json dict" where
  "merge_context base [] = base"
| "merge_context base ((k, v) # overlay) =
     merge_context
       (case (v, dict_get base k) of
          (JObj w, Some (JObj b)) \<Rightarrow> dict_set k (JObj (merge_context b w)) base
        | (_, Some x) \<Rightarrow> if x = JNull then dict_set k v base else base
        | (_, None) \<Rightarrow> dict_set k v base)
       overlay"
  by pat_completeness auto
termination by (relation "measure (\<lambda>(_, overlay). size (JObj overlay))") auto

definition ASSIGNMENT_RE :: pattern where
  "ASSIGNMENT_RE =
     re_const no_flags (raw ''([`w.]+)`s*==`s*['' @ [squote, dquote] @ ''](['' @ ''^'' @ [squote, dquote] @ '']+)['' @ [squote, dquote] @ '']'')"

definition parse_system_context :: "string \<Rightarrow> json dict" where
  "parse_system_context content =
     (let s = strip content;
          assignments = foldl (\<lambda>d m. case (m_group m 1, m_group m 2) of
              (Some p, Some v) \<Rightarrow> deep_set_if_missing d (split_char CHR ''.'' p) (JStr v)
            | _ \<Rightarrow> d) [] (re_finditer (p_regex ASSIGNMENT_RE) (p_flags ASSIGNMENT_RE) s)
      in
      if s = [] then []
      else if startswith s ''{'' then (case loads s of Some (JObj d) \<Rightarrow> d | _ \<Rightarrow> assignments)
      else assignments)"

definition infer_routing_context :: "chat_message list \<Rightarrow> json dict" where
  "infer_routing_context messages =
     (let combined = lower (join '' '' (map cm_content messages));
          task = (if list_ex (\<lambda>h. contains h combined) CODE_REVIEW_HINTS then deep_set_if_missing [] [''task'', ''type''] (JStr ''code_review'') else []);
          ctx = deep_set_if_missing task [''input'', ''has_image''] (JBool (list_ex (\<lambda>h. contains h combined) IMAGE_HINTS))
      in foldl (\<lambda>c m. if cm_role m = ''system'' then merge_context c (parse_system_context (cm_content m)) else c) ctx messages)"

definition build_routing_context :: "chat_request \<Rightarrow> json dict" where
  "build_routing_context request =
     merge_context (case cr_routing_context request of None \<Rightarrow> [] | Some d \<Rightarrow> d) (infer_routing_context (cr_messages request))"

end
