(* ===== verification/BackendRouting.thy ===== *)
theory BackendRouting
  imports BackendConditions BackendSecrets
begin

text \<open>
  The choice of a model and a provider: \<open>llm_router.py\<close>, \<open>cost_arbitrage_service.py\<close>, \<open>provider_metrics_service.py\<close>,
  \<open>regional_routing_service.py\<close>, \<open>registry_alias_service.py\<close>, the credentials of \<open>integration_service.py\<close> and
  \<open>secrets_service.py\<close>, and the choice of the upstream in \<open>gateway_service.py\<close>.  Floats are rationals; the random draw is an argument.
\<close>

section \<open>Tables\<close>

record routed_provider = llm_provider +
  lp_id :: uuid
  lp_endpoint_url :: "string option"
  lp_total_requests :: int
  lp_percentage :: rat
  lp_avg_latency_ms :: int
  lp_success_rate :: rat
  lp_api_key :: "string option"
  lp_cost_per_1m_input :: rat
  lp_cost_per_1m_output :: rat

record group_member =
  gm_model :: string
  gm_weight :: rat
  gm_priority :: int

record routing_group =
  rg_id :: uuid
  rg_tenant :: uuid
  rg_name :: string
  rg_description :: "string option"
  rg_strategy :: string
  rg_members :: "group_member list"
  rg_status :: string

record routing_rule =
  rr_id :: uuid
  rr_tenant :: uuid
  rr_name :: string
  rr_priority :: int
  rr_condition :: string
  rr_target_model :: string
  rr_status :: string
  rr_response_format :: string
  rr_target_provider :: "string option"

record rule_key =
  rk_rule :: uuid
  rk_key :: uuid

record routing_db =
  rt_providers :: "routed_provider list"
  rt_groups :: "routing_group list"
  rt_rules :: "routing_rule list"
  rt_rule_keys :: "rule_key list"

section \<open>Text\<close>

text \<open>\<open>column ILIKE pattern\<close> of PostgreSQL: \<open>%\<close> is any text, \<open>_\<close> any character, and a backslash takes the next
  character as it is; a backslash at the end is an error once the match gets there.\<close>

fun like_match :: "string \<Rightarrow> string \<Rightarrow> bool result" where
  "like_match [] s = Inr (s = [])"
| "like_match (p # ps) [] = (if p = CHR ''%'' then like_match ps [] else Inr False)"
| "like_match (p # ps) (c # s) =
     (if p = CHR ''%'' then
        bindE (like_match ps (c # s)) (\<lambda>ok. if ok then Inr True else like_match (p # ps) s)
      else if p = CHR ''_'' then like_match ps s
      else if p = backslash then
        (case ps of
           [] \<Rightarrow> Inl (RuntimeError ''LIKE pattern must not end with escape character'')
         | q # qs \<Rightarrow> if q = c then like_match qs s else Inr False)
      else if p = c then like_match ps s
      else Inr False)"

definition ilike :: "string \<Rightarrow> string \<Rightarrow> bool result" where
  "ilike column pattern_text = like_match (lower pattern_text) (lower column)"

fun filterE :: "('a \<Rightarrow> bool result) \<Rightarrow> 'a list \<Rightarrow> 'a list result" where
  "filterE f [] = Inr []"
| "filterE f (x # xs) = bindE (f x) (\<lambda>ok. bindE (filterE f xs) (\<lambda>ys. Inr (if ok then x # ys else ys)))"

text \<open>\<open>text.split()\<close>\<close>

fun words_from :: "string \<Rightarrow> string \<Rightarrow> string list" where
  "words_from acc [] = (if acc = [] then [] else [rev acc])"
| "words_from acc (c # s) =
     (if is_space c then (if acc = [] then words_from [] s else rev acc # words_from [] s) else words_from (c # acc) s)"

definition words_of :: "string \<Rightarrow> string list" where
  "words_of s = words_from [] s"

definition estimate_tokens :: "string \<Rightarrow> int" where
  "estimate_tokens text_value = max 1 (int (length (words_of text_value)))"

text \<open>\<open>round(x, 1)\<close>, to the even neighbour when half way.\<close>

definition round1 :: "rat \<Rightarrow> rat" where
  "round1 x =
     (let f = \<lfloor>x * 10\<rfloor>; d = x * 10 - of_int f in
      of_int (if d < 1 / 2 then f else if 1 / 2 < d then f + 1 else if even f then f else f + 1) / 10)"

section \<open>Weighted choice\<close>

fun cumulative_pick :: "rat \<Rightarrow> rat \<Rightarrow> ('a \<times> rat) list \<Rightarrow> 'a option" where
  "cumulative_pick target cumulative [] = None"
| "cumulative_pick target cumulative ((x, weight) # xs) =
     (if target \<le> cumulative + weight then Some x else cumulative_pick target (cumulative + weight) xs)"

definition weighted_choice :: "(rat \<Rightarrow> rat) \<Rightarrow> ('a \<Rightarrow> rat) \<Rightarrow> 'a list \<Rightarrow> 'a option" where
  "weighted_choice uniform weight xs =
     (if xs = [] then None
      else
        let weighted = map (\<lambda>x. (x, max (weight x) 0)) xs; sum_of = sum_list (map snd weighted) in
        if sum_of \<le> 0 then Some (hd xs)
        else
          case cumulative_pick (uniform sum_of) 0 weighted of
            Some x \<Rightarrow> Some x
          | None \<Rightarrow> Some (last xs))"

definition pick_weighted_provider :: "(rat \<Rightarrow> rat) \<Rightarrow> routed_provider list \<Rightarrow> routed_provider option" where
  "pick_weighted_provider uniform providers = weighted_choice uniform lp_percentage providers"

definition pick_routing_group_member :: "(rat \<Rightarrow> rat) \<Rightarrow> group_member list \<Rightarrow> string \<Rightarrow> string option" where
  "pick_routing_group_member uniform members strategy =
     (if members = [] then None
      else if strategy = ''failover'' then Some (gm_model (hd (sort_key gm_priority members)))
      else map_option gm_model (weighted_choice uniform gm_weight members))"

section \<open>Cost arbitrage\<close>

definition MODEL_PRICING_PER_M :: "rat dict" where
  "MODEL_PRICING_PER_M =
     [(''gpt-4o'', 5 / 2), (''gpt-4'', 30), (''claude-3.5-sonnet'', 3), (''claude-3-opus'', 15), (''gemini-1.5-pro'', 7 / 2),
      (''gpt-4o-mini'', 3 / 20), (''claude-3.5-haiku'', 1 / 4), (''gemini-1.5-flash'', 3 / 40), (''llama-3.2-3b-instruct'', 1 / 20),
      (''ollama'', 0)]"

definition ARBITRAGE_TARGET_MAP :: "string dict" where
  "ARBITRAGE_TARGET_MAP =
     [(''gpt-4o'', ''gpt-4o-mini''), (''gpt-4'', ''gpt-4o-mini''), (''claude-3.5-sonnet'', ''claude-3.5-haiku''),
      (''claude-3-opus'', ''claude-3.5-haiku''), (''gemini-1.5-pro'', ''gemini-1.5-flash''), (''gemini-pro'', ''gemini-1.5-flash'')]"

definition COMPLEXITY_PATTERNS :: "pattern list" where
  "COMPLEXITY_PATTERNS =
     [re_const ignorecase ([CHR 0x60, CHR 0x60, CHR 0x60] @ raw ''[`w]*`n''),
      re_const ignorecase (raw ''`b(step[-`s]by[-`s]step|chain[-`s]of[-`s]thought|prove`s+that|derive`s+the|architectural`s+design|solve`s+the`s+proof)`b''),
      re_const ignorecase (raw ''`b(refactor`s+this|debug`s+the`s+following|stack`s+trace|memory`s+leak|reverse`s+engineer)`b'')]"

text \<open>The decision without its explanation.\<close>

record arbitrage_decision =
  ar_should_arbitrate :: bool
  ar_original_model :: string
  ar_target_model :: string
  ar_savings_pct :: rat
  ar_cost_original :: rat
  ar_cost_arbitrated :: rat

definition price_of :: "string \<Rightarrow> rat \<Rightarrow> rat" where
  "price_of model default_price = dict_get_or MODEL_PRICING_PER_M model default_price"

definition cost_of :: "int \<Rightarrow> rat \<Rightarrow> rat" where
  "cost_of token_count price = of_int token_count / 1000000 * price"

definition keep_model :: "string \<Rightarrow> rat \<Rightarrow> arbitrage_decision" where
  "keep_model requested cost =
     \<lparr>ar_should_arbitrate = False, ar_original_model = requested, ar_target_model = requested, ar_savings_pct = 0,
      ar_cost_original = cost, ar_cost_arbitrated = cost\<rparr>"

definition evaluate_cost_arbitrage :: "string \<Rightarrow> string \<Rightarrow> int \<Rightarrow> bool \<Rightarrow> arbitrage_decision" where
  "evaluate_cost_arbitrage prompt_text requested token_count force_arbitrage =
     (let norm = lower (strip requested); original = price_of norm (5 / 2) in
      case dict_get ARBITRAGE_TARGET_MAP norm of
        None \<Rightarrow> keep_model requested 0
      | Some target \<Rightarrow>
          if \<not> force_arbitrage \<and> (400 < length (words_of prompt_text) \<or> list_ex (\<lambda>p. p_found p prompt_text) COMPLEXITY_PATTERNS)
          then keep_model requested (cost_of token_count original)
          else
            let cheaper = price_of target (3 / 20) in
            \<lparr>ar_should_arbitrate = True, ar_original_model = requested, ar_target_model = target,
             ar_savings_pct = round1 ((original - cheaper) / original * 100), ar_cost_original = cost_of token_count original,
             ar_cost_arbitrated = cost_of token_count cheaper\<rparr>)"

section \<open>The router\<close>

record routing_decision =
  rd_model :: string
  rd_matched_rule :: "string option"
  rd_strategy :: string
  rd_target_provider :: "string option"
  rd_response_format :: "string option"
  rd_savings :: "arbitrage_decision option"

definition decide :: "string \<Rightarrow> string option \<Rightarrow> string \<Rightarrow> routing_decision" where
  "decide model rule strategy =
     \<lparr>rd_model = model, rd_matched_rule = rule, rd_strategy = strategy, rd_target_provider = None, rd_response_format = None,
      rd_savings = None\<rparr>"

definition match_provider_name :: "routed_provider \<Rightarrow> string \<Rightarrow> bool" where
  "match_provider_name p normalized \<longleftrightarrow>
     dashed (lower (lp_name p)) = dashed normalized \<or> contains normalized (filter (\<lambda>c. c \<noteq> CHR '' '') (lower (lp_name p)))"

definition match_provider_alias :: "routed_provider \<Rightarrow> string \<Rightarrow> bool" where
  "match_provider_alias p normalized \<longleftrightarrow>
     list_ex (\<lambda>a. strip (py_str a) \<noteq> [] \<and> alias_matches normalized a) (lp_model_aliases p)"

fun match_providers :: "routed_provider list \<Rightarrow> string \<Rightarrow> routing_decision option" where
  "match_providers [] normalized = None"
| "match_providers (p # ps) normalized =
     (if match_provider_alias p normalized then Some (decide (lp_name p) None ''alias'')
      else if match_provider_name p normalized then Some (decide (lp_name p) None ''explicit'')
      else match_providers ps normalized)"

definition group_named :: "string \<Rightarrow> routing_group \<Rightarrow> bool" where
  "group_named normalized g \<longleftrightarrow> lower (strip (rg_name g)) = normalized \<or> dashed (lower (strip (rg_name g))) = dashed normalized"

fun match_groups :: "(rat \<Rightarrow> rat) \<Rightarrow> routing_group list \<Rightarrow> string \<Rightarrow> routing_decision option" where
  "match_groups uniform [] normalized = None"
| "match_groups uniform (g # gs) normalized =
     (case (if group_named normalized g then pick_routing_group_member uniform (rg_members g) (rg_strategy g) else None) of
        Some (c # model) \<Rightarrow> Some (decide (c # model) (Some (rg_name g)) ''routing_group'')
      | _ \<Rightarrow> match_groups uniform gs normalized)"

definition rule_applies_to_caller :: "rule_key list \<Rightarrow> uuid option \<Rightarrow> routing_rule \<Rightarrow> bool" where
  "rule_applies_to_caller keys client_api_key rule =
     (let assigned = map rk_key (filter (\<lambda>k. rk_rule k = rr_id rule) keys) in
      assigned = [] \<or> (case client_api_key of None \<Rightarrow> False | Some k \<Rightarrow> k \<in> set assigned))"

definition rule_decision :: "routing_rule \<Rightarrow> routing_decision" where
  "rule_decision rule =
     (decide (rr_target_model rule) (Some (rr_name rule)) ''rule'')
       \<lparr>rd_target_provider := rr_target_provider rule, rd_response_format := Some (rr_response_format rule)\<rparr>"

fun match_rules ::
  "(string \<Rightarrow> expr option) \<Rightarrow> rule_key list \<Rightarrow> uuid option \<Rightarrow> json dict \<Rightarrow> routing_rule list \<Rightarrow> routing_decision option result" where
  "match_rules parse keys client_api_key ctx [] = Inr None"
| "match_rules parse keys client_api_key ctx (rule # rules) =
     (if \<not> rule_applies_to_caller keys client_api_key rule then match_rules parse keys client_api_key ctx rules
      else
        bindE (evaluate_condition parse (rr_condition rule) ctx)
          (\<lambda>ok. if ok then Inr (Some (rule_decision rule)) else match_rules parse keys client_api_key ctx rules))"

definition arbitrage_of :: "string \<Rightarrow> json dict \<Rightarrow> arbitrage_decision option result" where
  "arbitrage_of requested ctx =
     (let prompt_text = str_or_empty (dict_get_or ctx ''prompt_text'' JNull) in
      if prompt_text \<noteq> [] \<and> (truthy (dict_get_or ctx ''cost_arbitrage'' JNull) \<or> truthy (dict_get_or ctx ''enable_cost_arbitrage'' JNull))
      then
        bindE (int_of_json (or_json (dict_get_or ctx ''prompt_tokens'' JNull) (JInt 100)))
          (\<lambda>token_count.
             let a = evaluate_cost_arbitrage prompt_text (if requested \<noteq> ''auto'' then requested else ''gpt-4o'') token_count
                   (truthy (dict_get_or ctx ''force_arbitrage'' (JBool False)))
             in Inr (if ar_should_arbitrate a then Some a else None))
      else Inr None)"

definition active_providers :: "routed_provider list \<Rightarrow> uuid \<Rightarrow> routed_provider list" where
  "active_providers providers tenant = filter (\<lambda>p. lp_tenant p = tenant \<and> lp_is_active p) providers"

definition tenant_rule_keys :: "routing_db \<Rightarrow> uuid \<Rightarrow> rule_key list" where
  "tenant_rule_keys db tenant =
     filter (\<lambda>k. list_ex (\<lambda>r. rr_id r = rk_rule k \<and> rr_tenant r = tenant) (rt_rules db)) (rt_rule_keys db)"

definition active_rules :: "routing_db \<Rightarrow> uuid \<Rightarrow> routing_rule list" where
  "active_rules db tenant = sort_key rr_priority (filter (\<lambda>r. rr_tenant r = tenant \<and> rr_status r = ''active'') (rt_rules db))"

text \<open>What is left when the model is \<open>auto\<close>: the rules, the weighted pool, and a default.\<close>

definition route_auto ::
  "(string \<Rightarrow> expr option) \<Rightarrow> (rat \<Rightarrow> rat) \<Rightarrow> routing_db \<Rightarrow> uuid \<Rightarrow> string \<Rightarrow> json dict \<Rightarrow> uuid option \<Rightarrow> routing_decision result" where
  "route_auto parse uniform db tenant requested ctx client_api_key =
     bindE (match_rules parse (tenant_rule_keys db tenant) client_api_key ctx (active_rules db tenant))
       (\<lambda>found. Inr (case found of
          Some d \<Rightarrow> d
        | None \<Rightarrow>
            case pick_weighted_provider uniform (active_providers (rt_providers db) tenant) of
              Some p \<Rightarrow> decide (lp_name p) None ''weighted_pool''
            | None \<Rightarrow> if requested = [] \<or> lower (strip requested) = ''auto'' then decide ''gpt-4o'' None ''fallback''
                else decide requested None ''fallback''))"

definition select_model ::
  "(string \<Rightarrow> expr option) \<Rightarrow> (rat \<Rightarrow> rat) \<Rightarrow> routing_db \<Rightarrow> uuid \<Rightarrow> string \<Rightarrow> json dict \<Rightarrow> uuid option \<Rightarrow> routing_decision result" where
  "select_model parse uniform db tenant requested ctx client_api_key =
     (let normalized = lower (strip requested) in
      case match_providers (active_providers (rt_providers db) tenant) normalized of
        Some d \<Rightarrow> Inr d
      | None \<Rightarrow>
          case match_groups uniform (filter (\<lambda>g. rg_tenant g = tenant \<and> rg_status g = ''active'') (rt_groups db)) normalized of
            Some d \<Rightarrow> Inr d
          | None \<Rightarrow>
              bindE (arbitrage_of requested ctx)
                (\<lambda>arbitrage. case arbitrage of
                   Some a \<Rightarrow> Inr ((decide (ar_target_model a) (Some ''cost_arbitrage_engine'') ''cost_arbitrage'')\<lparr>rd_savings := Some a\<rparr>)
                 | None \<Rightarrow>
                     if requested \<noteq> [] \<and> requested \<noteq> ''auto'' then Inr (decide requested None ''passthrough'')
                     else route_auto parse uniform db tenant requested ctx client_api_key))"

end
