(* ===== verification/BackendProviders.thy ===== *)
theory BackendProviders
  imports BackendRouting BackendRbac BackendBundle BackendAgentic
begin

text \<open>
  What happens to providers and routing besides the choice: the metrics and shares of \<open>provider_metrics_service.py\<close>, the
  credentials and the upstream of a request (\<open>integration_service.py\<close>, \<open>secrets_service.py\<close>, \<open>gateway_service.py\<close>), regions,
  aliases, and the handlers of \<open>api/v1/governance.py\<close> and \<open>api/v1/routing_groups.py\<close> that administer them.
\<close>

section \<open>Metrics\<close>

definition named_providers :: "routed_provider list \<Rightarrow> uuid \<Rightarrow> bool \<Rightarrow> string \<Rightarrow> routed_provider list result" where
  "named_providers providers tenant only_active name =
     filterE (\<lambda>p. ilike (lp_name p) name) (filter (\<lambda>p. lp_tenant p = tenant \<and> (only_active \<longrightarrow> lp_is_active p)) providers)"

definition measured :: "int \<Rightarrow> bool \<Rightarrow> routed_provider \<Rightarrow> routed_provider" where
  "measured latency_ms success p =
     (let previous = lp_total_requests p; requests = previous + 1;
          successes = lp_success_rate p / 100 * of_int previous + (if success then 1 else 0)
      in
      p\<lparr>lp_total_requests := requests,
        lp_avg_latency_ms :=
          (if 0 < latency_ms then
             if previous = 0 then latency_ms
             else trunc ((of_int (lp_avg_latency_ms p) * of_int previous + of_int latency_ms) / of_int (previous + 1))
           else lp_avg_latency_ms p),
        lp_success_rate := round1 (successes / of_int requests * 100)\<rparr>)"

definition record_provider_request ::
  "routed_provider list \<Rightarrow> uuid \<Rightarrow> string \<Rightarrow> int \<Rightarrow> bool \<Rightarrow> routed_provider list result" where
  "record_provider_request providers tenant routed_model latency_ms success =
     (let name = strip routed_model in
      if name = [] then Inr providers
      else
        bindE (bindE (named_providers providers tenant True name) scalar_one_or_none)
          (\<lambda>found. Inr (case found of
             None \<Rightarrow> providers
           | Some p \<Rightarrow> map (\<lambda>q. if lp_id q = lp_id p then measured latency_ms success q else q) providers)))"

text \<open>The share of a provider is its part of the requests, rounded; the last one gets the rest.\<close>

fun shares :: "int \<Rightarrow> rat \<Rightarrow> routed_provider list \<Rightarrow> routed_provider list" where
  "shares total_requests allocated [] = []"
| "shares total_requests allocated [p] = [p\<lparr>lp_percentage := round1 (max 0 (100 - allocated))\<rparr>]"
| "shares total_requests allocated (p # q # ps) =
     (let share = round1 (of_int (lp_total_requests p) / of_int total_requests * 100) in
      p\<lparr>lp_percentage := share\<rparr> # shares total_requests (allocated + share) (q # ps))"

definition rebalance_provider_percentages :: "routed_provider list \<Rightarrow> uuid \<Rightarrow> int \<times> routed_provider list" where
  "rebalance_provider_percentages providers tenant =
     (let active = active_providers providers tenant; total_requests = sum_list (map lp_total_requests active) in
      if active = [] \<or> total_requests \<le> 0 then (0, providers)
      else
        (total_requests,
         map (\<lambda>p. if lp_tenant p = tenant \<and> lp_is_active p
            then (case find (\<lambda>q. lp_id q = lp_id p) (shares total_requests 0 active) of Some q \<Rightarrow> q | None \<Rightarrow> p) else p) providers))"

definition rebalance_all_tenants :: "routed_provider list \<Rightarrow> uuid list \<Rightarrow> routed_provider list" where
  "rebalance_all_tenants providers tenants = foldl (\<lambda>ps t. snd (rebalance_provider_percentages ps t)) providers tenants"

section \<open>Credentials\<close>

record integration_row = tenant_integration +
  ir_gemini_default_model :: string
  ir_ollama_enabled :: bool
  ir_ollama_base_url :: string
  ir_ollama_default_model :: string

record gateway_settings =
  gs_openai_api_key :: "string option"
  gs_gemini_api_key :: "string option"
  gs_gemini_default_model :: string
  gs_ollama_enabled :: bool
  gs_ollama_base_url :: string
  gs_ollama_default_model :: string
  gs_air_gap_mode :: bool

record gateway_config =
  cf_openai_api_key :: "string option"
  cf_gemini_api_key :: "string option"
  cf_gemini_default_model :: string
  cf_ollama_enabled :: bool
  cf_ollama_base_url :: string
  cf_ollama_default_model :: string
  cf_source :: string
  cf_openai_api_base :: "string option"

definition OPENAI_SECRET :: string where "OPENAI_SECRET = ''openai_api_key''"
definition GEMINI_SECRET :: string where "GEMINI_SECRET = ''gemini_api_key''"

definition LOCAL_OLLAMA_URLS :: "string list" where
  "LOCAL_OLLAMA_URLS = [''http://localhost:11434'', ''http://127.0.0.1:11434'']"

definition resolve_ollama_base_url :: "gateway_settings \<Rightarrow> string \<Rightarrow> string" where
  "resolve_ollama_base_url settings configured =
     (if rstrip_chars ''/'' configured \<in> set LOCAL_OLLAMA_URLS \<and> rstrip_chars ''/'' (gs_ollama_base_url settings) \<notin> set LOCAL_OLLAMA_URLS
      then gs_ollama_base_url settings else configured)"

definition resolve_upstream :: "gateway_config \<Rightarrow> string \<Rightarrow> string" where
  "resolve_upstream config model =
     (if contains ''gemini'' (lower model) \<and> has_text (cf_gemini_api_key config) then ''gemini''
      else if has_text (cf_openai_api_key config) then ''openai''
      else if has_text (cf_gemini_api_key config) then ''gemini''
      else if cf_ollama_enabled config then ''ollama''
      else ''mock'')"

definition secrets_backend_name :: "vault \<Rightarrow> string" where
  "secrets_backend_name v = (if va_enabled v then ''vault'' else ''database'')"

definition column_of :: "integration_row option \<Rightarrow> string \<Rightarrow> string option" where
  "column_of row secret_name = (case row of None \<Rightarrow> None | Some r \<Rightarrow> dict_get_or (ti_secrets r) secret_name None)"

text \<open>The first of the tenant's secret, the column and the setting that has a text, and where it came from.\<close>

definition key_and_source ::
  "vault \<Rightarrow> string option \<Rightarrow> string option \<Rightarrow> string option \<Rightarrow> string \<Rightarrow> string option \<times> string" where
  "key_and_source v secret column default_key source =
     (if has_text secret then (secret, if source = ''environment'' then secrets_backend_name v else source)
      else if has_text column then (column, if source = ''environment'' then ''tenant_settings'' else source)
      else (default_key, source))"

definition resolve_gateway_config ::
  "gateway_settings \<Rightarrow> vault \<Rightarrow> integration_row list \<Rightarrow> uuid \<Rightarrow> gateway_config result" where
  "resolve_gateway_config settings v rows tenant =
     bindE (scalar_one_or_none (filter (\<lambda>r. ti_tenant r = tenant) rows))
       (\<lambda>row. bindE (get_tenant_secret v rows tenant OPENAI_SECRET)
         (\<lambda>tenant_openai. bindE (get_tenant_secret v rows tenant GEMINI_SECRET)
           (\<lambda>tenant_gemini.
              let (openai_key, source1) = key_and_source v tenant_openai (column_of row OPENAI_SECRET) (gs_openai_api_key settings) ''environment'';
                  (gemini_key, source2) = key_and_source v tenant_gemini (column_of row GEMINI_SECRET) (gs_gemini_api_key settings) source1;
                  config = \<lparr>cf_openai_api_key = openai_key, cf_gemini_api_key = gemini_key,
                    cf_gemini_default_model = gs_gemini_default_model settings, cf_ollama_enabled = gs_ollama_enabled settings,
                    cf_ollama_base_url = gs_ollama_base_url settings, cf_ollama_default_model = gs_ollama_default_model settings,
                    cf_source = source2, cf_openai_api_base = None\<rparr>;
                  own = (case row of
                      None \<Rightarrow> config
                    | Some r \<Rightarrow>
                        config\<lparr>cf_gemini_default_model := or_str (ir_gemini_default_model r) (cf_gemini_default_model config),
                          cf_ollama_enabled := ir_ollama_enabled r \<or> cf_ollama_enabled config,
                          cf_source := (if ir_ollama_enabled r \<and> source2 = ''environment'' then ''tenant_settings'' else source2),
                          cf_ollama_base_url := (if ir_ollama_base_url r = [] then cf_ollama_base_url config
                            else resolve_ollama_base_url settings (ir_ollama_base_url r)),
                          cf_ollama_default_model := or_str (ir_ollama_default_model r) (cf_ollama_default_model config)\<rparr>)
              in Inr (if gs_air_gap_mode settings
                then own\<lparr>cf_openai_api_key := None, cf_gemini_api_key := None, cf_ollama_enabled := True, cf_source := ''air_gap''\<rparr>
                else own))))"

definition apply_provider_gateway_credentials ::
  "vault \<Rightarrow> routed_provider list \<Rightarrow> uuid \<Rightarrow> string \<Rightarrow> gateway_config \<Rightarrow> gateway_config result" where
  "apply_provider_gateway_credentials v providers tenant routed_model config =
     bindE (bindE (named_providers providers tenant True (strip routed_model)) scalar_one_or_none)
       (\<lambda>found. case found of
          None \<Rightarrow> Inr config
        | Some p \<Rightarrow>
            bindE (get_provider_secret v tenant (lp_id p) (lp_api_key p))
              (\<lambda>api_key.
                 let type_name = lower (lp_provider_type p); from_registry = config\<lparr>cf_source := ''provider_registry''\<rparr> in
                 Inr (if \<not> has_text api_key then config
                   else if type_name = ''custom''
                   then from_registry\<lparr>cf_openai_api_key := api_key, cf_openai_api_base := lp_endpoint_url p\<rparr>
                   else if type_name \<in> {''openai'', ''azure'', ''anthropic''} then from_registry\<lparr>cf_openai_api_key := api_key\<rparr>
                   else if type_name = ''gemini'' then from_registry\<lparr>cf_gemini_api_key := api_key\<rparr>
                   else if type_name = ''ollama'' then from_registry\<lparr>cf_ollama_enabled := True\<rparr>
                   else config)))"

section \<open>The upstream\<close>

definition coerce_upstream :: "string \<Rightarrow> gateway_config \<Rightarrow> string \<Rightarrow> string \<Rightarrow> string option \<Rightarrow> string" where
  "coerce_upstream upstream config model routed_model bearer_token =
     (if upstream = ''openai'' \<and> (has_text (cf_openai_api_key config) \<or> has_text bearer_token) then ''openai''
      else if upstream = ''gemini'' \<and> has_text (cf_gemini_api_key config) then ''gemini''
      else if upstream = ''ollama'' \<and> cf_ollama_enabled config then ''ollama''
      else if upstream \<in> {''bedrock'', ''vertex''} then upstream
      else resolve_upstream config (if model \<noteq> ''auto'' then model else routed_model))"

definition resolve_openai_api_key :: "string option \<Rightarrow> gateway_config \<Rightarrow> string option" where
  "resolve_openai_api_key bearer_token config = (if has_text bearer_token then bearer_token else cf_openai_api_key config)"

definition resolve_chat_completions_url :: "string \<Rightarrow> string" where
  "resolve_chat_completions_url endpoint_url =
     (let trimmed = rstrip_chars ''/'' (strip endpoint_url) in
      if endswith trimmed ''/chat/completions'' then trimmed
      else if endswith trimmed ''/v1'' then trimmed @ ''/chat/completions''
      else trimmed @ ''/v1/chat/completions'')"

definition resolve_failover_candidates :: "routing_group list \<Rightarrow> uuid \<Rightarrow> routing_decision \<Rightarrow> string list result" where
  "resolve_failover_candidates groups tenant d =
     (if rd_strategy d = ''routing_group'' \<and> has_text (rd_matched_rule d)
      then
        bindE (scalar_one_or_none (filter (\<lambda>g. rg_tenant g = tenant \<and> Some (rg_name g) = rd_matched_rule d \<and> rg_status g = ''active'') groups))
          (\<lambda>g. Inr (dedup_from [] (rd_model d # (case g of
              None \<Rightarrow> []
            | Some g \<Rightarrow> filter (\<lambda>m. m \<noteq> []) (map gm_model (sort_key gm_priority (rg_members g)))))))
      else Inr [rd_model d])"

definition BEDROCK_REGIONS :: "string dict" where
  "BEDROCK_REGIONS = [(''US'', ''us-east-1''), (''EU'', ''eu-central-1''), (''INDIA'', ''ap-south-1'')]"
definition VERTEX_REGIONS :: "string dict" where
  "VERTEX_REGIONS = [(''US'', ''us-central1''), (''EU'', ''europe-west3''), (''INDIA'', ''asia-south1'')]"

definition resolve_provider_region :: "string \<Rightarrow> string option \<Rightarrow> string" where
  "resolve_provider_region provider bundle_name =
     (let name = upper (case bundle_name of None \<Rightarrow> [] | Some b \<Rightarrow> b);
          requested = (if contains ''INDIA'' name then ''INDIA'' else if contains ''EU'' name then ''EU'' else ''US'');
          regions = (if lower provider = ''bedrock'' then BEDROCK_REGIONS else VERTEX_REGIONS)
      in dict_get_or regions requested (snd (hd regions)))"

end
