(* ===== verification/BackendLlmAdmin.thy ===== *)
theory BackendLlmAdmin
  imports BackendProviders
begin

text \<open>
  The handlers that administer providers, routing rules, their client keys and routing groups
  (\<open>api/v1/governance.py\<close>, \<open>api/v1/routing_groups.py\<close>) and the aliases of providers (\<open>registry_alias_service.py\<close>,
  \<open>uag_migration_helpers.py\<close>).  A handler runs on the tables and the vault: what it did to the tables is lost when it raises,
  what it wrote to the vault is not.  Payloads are those the schemas accept.
\<close>

section \<open>State\<close>

record llm_state =
  ls_routing :: routing_db
  ls_client_keys :: "(uuid \<times> uuid) list"
  ls_vault :: vault
  ls_integrations :: "integration_row list"
  ls_ids :: "nat \<Rightarrow> uuid"
  ls_next :: nat

type_synonym 'a llm = "(llm_state, 'a) eff"

definition new_id :: "uuid llm" where
  "new_id s = (Inr (ls_ids s (ls_next s)), s\<lparr>ls_next := Suc (ls_next s)\<rparr>)"

definition with_vault :: "(vault \<Rightarrow> ('a \<times> vault) result) \<Rightarrow> 'a llm" where
  "with_vault f s = (case f (ls_vault s) of Inl e \<Rightarrow> (Inl e, s) | Inr (x, v) \<Rightarrow> (Inr x, s\<lparr>ls_vault := v\<rparr>))"

definition on_routing :: "(routing_db \<Rightarrow> routing_db) \<Rightarrow> unit llm" where
  "on_routing f = modifyS (\<lambda>s. s\<lparr>ls_routing := f (ls_routing s)\<rparr>)"

definition require_llm_admin :: "user \<Rightarrow> user llm" where
  "require_llm_admin u = liftS (require_permission MANAGE_LLM_PROVIDERS u)"

definition bad_request :: "string \<Rightarrow> py_error" where
  "bad_request detail = HTTPException 400 detail"

section \<open>Providers\<close>

record provider_create =
  pc_name :: string
  pc_provider_type :: string
  pc_endpoint_url :: "string option"
  pc_is_active :: bool
  pc_api_key :: "string option"
  pc_model_aliases :: "string list option"
  pc_cost_per_1m_input :: "rat option"
  pc_cost_per_1m_output :: "rat option"

record provider_update =
  pu_name :: "string option"
  pu_provider_type :: "string option"
  pu_endpoint_url :: "string option"
  pu_is_active :: "bool option"
  pu_percentage :: "rat option"
  pu_api_key :: "string option"
  pu_model_aliases :: "string list option"
  pu_cost_per_1m_input :: "rat option"
  pu_cost_per_1m_output :: "rat option"

definition ALLOWED_PROVIDER_TYPES :: "string list" where
  "ALLOWED_PROVIDER_TYPES = [''openai'', ''gemini'', ''anthropic'', ''ollama'', ''azure'', ''custom'']"

definition normalize_provider_endpoint :: "string option \<Rightarrow> string option" where
  "normalize_provider_endpoint endpoint_url = (case endpoint_url of None \<Rightarrow> None | Some e \<Rightarrow> none_if_empty (strip e))"

definition validate_provider_endpoint :: "string \<Rightarrow> string option \<Rightarrow> string option result" where
  "validate_provider_endpoint provider_type endpoint_url =
     (let normalized = normalize_provider_endpoint endpoint_url in
      if provider_type = ''custom'' then
        (case normalized of
           None \<Rightarrow> Inl (bad_request ''endpoint_url is required for custom providers'')
         | Some e \<Rightarrow>
             if startswith e ''http://'' \<or> startswith e ''https://'' then Inr normalized
             else Inl (bad_request ''endpoint_url must start with http:// or https://''))
      else Inr normalized)"

definition merge_aliases :: "json list \<Rightarrow> string list \<Rightarrow> json list result" where
  "merge_aliases existing aliases =
     bindE (mapE (\<lambda>v. case v of JStr s \<Rightarrow> Inr (strip s) | _ \<Rightarrow> Inl (AttributeError ''strip'')) (existing @ map JStr aliases))
       (\<lambda>names.
          let kept = foldl (\<lambda>acc a. if a = [] \<or> lower a \<in> lower ` set acc then acc else acc @ [a]) [] names
          in Inr (map JStr kept))"

definition get_provider_or_404 :: "routed_provider list \<Rightarrow> uuid \<Rightarrow> string \<Rightarrow> routed_provider result" where
  "get_provider_or_404 providers tenant provider_id =
     (case uuid_of provider_id of
        None \<Rightarrow> Inl (bad_request ''Invalid provider id'')
      | Some u \<Rightarrow>
          bindE (scalar_one_or_none (filter (\<lambda>p. lp_id p = u \<and> lp_tenant p = tenant) providers))
            (\<lambda>p. case p of None \<Rightarrow> Inl (HTTPException 404 ''Provider not found'') | Some p \<Rightarrow> Inr p))"

definition replace_provider :: "routed_provider \<Rightarrow> routing_db \<Rightarrow> routing_db" where
  "replace_provider p db = db\<lparr>rt_providers := map (\<lambda>q. if lp_id q = lp_id p then p else q) (rt_providers db)\<rparr>"

text \<open>The row of the integrations of a tenant, made when it is missing.\<close>

definition ensure_integration :: "gateway_settings \<Rightarrow> uuid \<Rightarrow> integration_row list \<Rightarrow> integration_row list" where
  "ensure_integration settings tenant rows =
     (if list_ex (\<lambda>r. ti_tenant r = tenant) rows then rows
      else rows @ [tenant_integration.extend (new_integration tenant)
        \<lparr>ir_gemini_default_model = gs_gemini_default_model settings, ir_ollama_enabled = gs_ollama_enabled settings,
         ir_ollama_base_url = gs_ollama_base_url settings, ir_ollama_default_model = gs_ollama_default_model settings\<rparr>])"

definition store_tenant_secret :: "uuid \<Rightarrow> string \<Rightarrow> string \<Rightarrow> integration_row list \<Rightarrow> integration_row list llm" where
  "store_tenant_secret tenant secret_name secret rows =
     bindS (with_vault (\<lambda>v. set_secret v (tenant_secret_path tenant secret_name) (Some secret)))
       (\<lambda>column. returnS (map (\<lambda>r. if ti_tenant r = tenant then with_secret secret_name column r else r) rows))"

text \<open>The new value of the column, if it changes, and the integrations.  A provider that is not yet in the database has no id: the
  path in the vault is then that of the text \<open>None\<close>.\<close>

definition apply_provider_api_key ::
  "gateway_settings \<Rightarrow> uuid \<Rightarrow> string \<Rightarrow> uuid \<Rightarrow> string option \<Rightarrow> (string option option \<times> integration_row list) llm" where
  "apply_provider_api_key settings tenant provider_type provider_id api_key =
     bindS (getS ls_integrations)
       (\<lambda>rows. case api_key of
          None \<Rightarrow> returnS (None, rows)
        | Some key \<Rightarrow>
            if strip key = []
            then bindS (with_vault (\<lambda>v. set_provider_secret v tenant provider_id None)) (\<lambda>column. returnS (Some column, rows))
            else
              bindS (with_vault (\<lambda>v. set_provider_secret v tenant provider_id (Some (strip key))))
                (\<lambda>column. let rows = ensure_integration settings tenant rows in
                   bindS
                     (if provider_type \<in> {''openai'', ''azure'', ''anthropic'', ''custom''}
                      then store_tenant_secret tenant OPENAI_SECRET (strip key) rows
                      else if provider_type = ''gemini'' then store_tenant_secret tenant GEMINI_SECRET (strip key) rows
                      else if provider_type = ''ollama''
                      then returnS (map (\<lambda>r. if ti_tenant r = tenant then r\<lparr>ir_ollama_enabled := True\<rparr> else r) rows)
                      else returnS rows)
                     (\<lambda>rows. returnS (Some column, rows))))"

definition create_llm_provider :: "gateway_settings \<Rightarrow> user \<Rightarrow> provider_create \<Rightarrow> routed_provider llm" where
  "create_llm_provider settings u p =
     bindS (require_llm_admin u)
       (\<lambda>_. let name = strip (pc_name p); provider_type = lower (strip (pc_provider_type p)); tenant = us_tenant u in
          if name = [] then raiseS (bad_request ''Provider name is required'')
          else if provider_type \<notin> set ALLOWED_PROVIDER_TYPES
          then raiseS (bad_request ''provider_type must be one of: anthropic, azure, custom, gemini, ollama, openai'')
          else
            bindS (getS (\<lambda>s. rt_providers (ls_routing s)))
              (\<lambda>providers. bindS (liftS (bindE (named_providers providers tenant False name) scalar_one_or_none))
                (\<lambda>existing. case existing of
                   Some _ \<Rightarrow> raiseS (HTTPException 409 ''Provider name already exists'')
                 | None \<Rightarrow>
                     bindS (liftS (validate_provider_endpoint provider_type (pc_endpoint_url p)))
                       (\<lambda>endpoint_url. bindS (apply_provider_api_key settings tenant provider_type ''None'' (pc_api_key p))
                         (\<lambda>(column, rows). bindS new_id
                           (\<lambda>i. let row =
                                \<lparr>lp_tenant = tenant, lp_name = name, lp_provider_type = provider_type, lp_is_active = pc_is_active p,
                                 lp_model_aliases = (case pc_model_aliases p of None \<Rightarrow> [] | Some as \<Rightarrow> map JStr as), lp_id = i,
                                 lp_endpoint_url = endpoint_url, lp_total_requests = 0, lp_percentage = 0, lp_avg_latency_ms = 0,
                                 lp_success_rate = 0, lp_api_key = (case column of None \<Rightarrow> None | Some c \<Rightarrow> c),
                                 lp_cost_per_1m_input = (case pc_cost_per_1m_input p of None \<Rightarrow> 0 | Some x \<Rightarrow> x),
                                 lp_cost_per_1m_output = (case pc_cost_per_1m_output p of None \<Rightarrow> 0 | Some x \<Rightarrow> x)\<rparr>
                              in
                              bindS (modifyS (\<lambda>s. s\<lparr>ls_integrations := rows,
                                  ls_routing := (ls_routing s)\<lparr>rt_providers := rt_providers (ls_routing s) @ [row]\<rparr>\<rparr>))
                                (\<lambda>_. returnS row)))))))"

definition renamed :: "routed_provider list \<Rightarrow> string option \<Rightarrow> routed_provider \<Rightarrow> routed_provider result" where
  "renamed providers name p =
     (case name of
        None \<Rightarrow> Inr p
      | Some n \<Rightarrow>
          if strip n = [] then Inl (bad_request ''Provider name is required'')
          else
            bindE (bindE (named_providers (filter (\<lambda>q. lp_id q \<noteq> lp_id p) providers) (lp_tenant p) False (strip n)) scalar_one_or_none)
              (\<lambda>duplicate. if duplicate \<noteq> None then Inl (HTTPException 409 ''Provider name already exists'')
                 else Inr (p\<lparr>lp_name := strip n\<rparr>)))"

definition retyped :: "string option \<Rightarrow> routed_provider \<Rightarrow> routed_provider result" where
  "retyped provider_type p =
     (case provider_type of
        None \<Rightarrow> Inr p
      | Some t \<Rightarrow>
          if lower (strip t) \<notin> set ALLOWED_PROVIDER_TYPES
          then Inl (bad_request ''provider_type must be one of: anthropic, azure, custom, gemini, ollama, openai'')
          else Inr (p\<lparr>lp_provider_type := lower (strip t)\<rparr>))"

definition moved :: "provider_update \<Rightarrow> routed_provider \<Rightarrow> routed_provider result" where
  "moved u p =
     (if pu_endpoint_url u = None \<and> pu_provider_type u = None then Inr p
      else
        let effective_type = lower (strip (case pu_provider_type u of Some (c # t) \<Rightarrow> c # t | _ \<Rightarrow> lp_provider_type p)) in
        bindE (validate_provider_endpoint effective_type (if pu_endpoint_url u \<noteq> None then pu_endpoint_url u else lp_endpoint_url p))
          (\<lambda>e. Inr (p\<lparr>lp_endpoint_url := (if effective_type \<noteq> ''custom'' then None else e)\<rparr>)))"

definition weighed :: "rat option \<Rightarrow> routed_provider \<Rightarrow> routed_provider result" where
  "weighed percentage p =
     (case percentage of
        None \<Rightarrow> Inr p
      | Some x \<Rightarrow> if x < 0 \<or> 100 < x then Inl (bad_request ''percentage must be 0-100'') else Inr (p\<lparr>lp_percentage := x\<rparr>))"

definition costed :: "provider_update \<Rightarrow> routed_provider \<Rightarrow> routed_provider" where
  "costed u p =
     p\<lparr>lp_cost_per_1m_input := (case pu_cost_per_1m_input u of None \<Rightarrow> lp_cost_per_1m_input p | Some x \<Rightarrow> x),
       lp_cost_per_1m_output := (case pu_cost_per_1m_output u of None \<Rightarrow> lp_cost_per_1m_output p | Some x \<Rightarrow> x)\<rparr>"

definition updated_provider :: "routed_provider list \<Rightarrow> provider_update \<Rightarrow> routed_provider \<Rightarrow> routed_provider result" where
  "updated_provider providers u p =
     bindE (renamed providers (pu_name u) p)
       (\<lambda>p. bindE (retyped (pu_provider_type u) p)
         (\<lambda>p. bindE (moved u p)
           (\<lambda>p. bindE (weighed (pu_percentage u) (p\<lparr>lp_is_active := (case pu_is_active u of None \<Rightarrow> lp_is_active p | Some b \<Rightarrow> b)\<rparr>))
             (\<lambda>p. case pu_model_aliases u of
                None \<Rightarrow> Inr (costed u p)
              | Some as \<Rightarrow> bindE (merge_aliases [] as) (\<lambda>merged. Inr ((costed u p)\<lparr>lp_model_aliases := merged\<rparr>))))))"

definition update_llm_provider :: "gateway_settings \<Rightarrow> user \<Rightarrow> string \<Rightarrow> provider_update \<Rightarrow> routed_provider llm" where
  "update_llm_provider settings u provider_id payload =
     bindS (require_llm_admin u)
       (\<lambda>_. bindS (getS (\<lambda>s. rt_providers (ls_routing s)))
         (\<lambda>providers. bindS (liftS (get_provider_or_404 providers (us_tenant u) provider_id))
           (\<lambda>old. bindS (liftS (updated_provider providers payload old))
             (\<lambda>p. bindS (apply_provider_api_key settings (us_tenant u) (lp_provider_type p) (lp_id p) (pu_api_key payload))
               (\<lambda>(column, rows).
                  let p = (case column of None \<Rightarrow> p | Some c \<Rightarrow> p\<lparr>lp_api_key := c\<rparr>) in
                  bindS (modifyS (\<lambda>s. s\<lparr>ls_integrations := rows, ls_routing := replace_provider p (ls_routing s)\<rparr>))
                    (\<lambda>_. returnS p))))))"

definition without_member :: "uuid \<Rightarrow> string \<Rightarrow> routing_group \<Rightarrow> routing_group" where
  "without_member tenant name g =
     (if rg_tenant g = tenant then g\<lparr>rg_members := filter (\<lambda>m. lower (strip (gm_model m)) \<noteq> name) (rg_members g)\<rparr> else g)"

definition delete_llm_provider :: "user \<Rightarrow> string \<Rightarrow> unit llm" where
  "delete_llm_provider u provider_id =
     bindS (require_llm_admin u)
       (\<lambda>_. bindS (getS (\<lambda>s. rt_providers (ls_routing s)))
         (\<lambda>providers. bindS (liftS (get_provider_or_404 providers (us_tenant u) provider_id))
           (\<lambda>p. bindS (with_vault (\<lambda>v. set_provider_secret v (us_tenant u) (lp_id p) None))
             (\<lambda>_. on_routing (\<lambda>db. db\<lparr>rt_groups := map (without_member (us_tenant u) (lower (strip (lp_name p)))) (rt_groups db),
                rt_providers := filter (\<lambda>q. lp_id q \<noteq> lp_id p) (rt_providers db)\<rparr>)))))"

definition rebalance_llm_provider_percentages :: "user \<Rightarrow> int llm" where
  "rebalance_llm_provider_percentages u =
     bindS (require_llm_admin u)
       (\<lambda>_. bindS (getS (\<lambda>s. rebalance_provider_percentages (rt_providers (ls_routing s)) (us_tenant u)))
         (\<lambda>(total_requests, providers).
            if total_requests \<le> 0 then raiseS (bad_request ''No gateway traffic recorded yet - percentages unchanged'')
            else bindS (on_routing (\<lambda>db. db\<lparr>rt_providers := providers\<rparr>)) (\<lambda>_. returnS total_requests)))"

text \<open>An alias that is kept for a model; the provider is made when it is missing.\<close>

definition sync_alias_to_registry :: "uuid \<Rightarrow> string \<Rightarrow> string \<Rightarrow> string \<Rightarrow> unit llm" where
  "sync_alias_to_registry tenant requested_model actual_model provider_type =
     (let alias = strip requested_model; model_name = strip actual_model; type_name = lower (strip provider_type) in
      if alias = [] \<or> model_name = [] then returnS ()
      else
        bindS (getS (\<lambda>s. rt_providers (ls_routing s)))
          (\<lambda>providers. bindS (liftS (bindE (named_providers providers tenant False model_name) scalar_one_or_none))
            (\<lambda>found. bindS
               (case found of
                  Some p \<Rightarrow> returnS p
                | None \<Rightarrow> bindS new_id (\<lambda>i. returnS
                    \<lparr>lp_tenant = tenant, lp_name = model_name, lp_provider_type = or_str type_name ''openai'', lp_is_active = True,
                     lp_model_aliases = [], lp_id = i, lp_endpoint_url = None, lp_total_requests = 0, lp_percentage = 0,
                     lp_avg_latency_ms = 0, lp_success_rate = 0, lp_api_key = None, lp_cost_per_1m_input = 0, lp_cost_per_1m_output = 0\<rparr>))
               (\<lambda>p. bindS (liftS (merge_aliases (lp_model_aliases p) [alias]))
                 (\<lambda>merged.
                    let p = p\<lparr>lp_model_aliases := merged, lp_provider_type := (if provider_type \<noteq> [] then type_name else lp_provider_type p)\<rparr>
                    in on_routing (\<lambda>db. if found = None then db\<lparr>rt_providers := rt_providers db @ [p]\<rparr> else replace_provider p db))))))"

section \<open>Routing rules\<close>

record rule_create =
  rc_name :: string
  rc_priority :: int
  rc_condition :: string
  rc_target_model :: string
  rc_status :: string
  rc_response_format :: string
  rc_target_provider :: "string option"

record rule_update =
  ru_name :: "string option"
  ru_priority :: "int option"
  ru_condition :: "string option"
  ru_target_model :: "string option"
  ru_status :: "string option"
  ru_response_format :: "string option"
  ru_target_provider :: "string option"

definition ALLOWED_RULE_STATUSES :: "string list" where
  "ALLOWED_RULE_STATUSES = [''active'', ''draft'', ''disabled'']"
definition ALLOWED_RESPONSE_FORMATS :: "string list" where
  "ALLOWED_RESPONSE_FORMATS = [''openai'', ''anthropic'', ''vertex'', ''auto'']"

definition validate_routing_target_model :: "routed_provider list \<Rightarrow> uuid \<Rightarrow> string \<Rightarrow> string result" where
  "validate_routing_target_model providers tenant target_model =
     (let requested = map strip (split_char CHR '','' target_model);
          names = dict_of (map (\<lambda>p. (lower (lp_name p), lp_name p)) (active_providers providers tenant));
          canonical = map (\<lambda>m. dict_get names (lower m)) requested
      in
      if [] \<in> set requested \<or> None \<in> set canonical
      then Inl (bad_request ''Target model must match an active registered LLM provider'')
      else Inr (join '', '' (map the canonical)))"

definition get_rule_or_404 :: "routing_rule list \<Rightarrow> uuid \<Rightarrow> string \<Rightarrow> routing_rule result" where
  "get_rule_or_404 rules tenant rule_id =
     (case uuid_of rule_id of
        None \<Rightarrow> Inl (bad_request ''Invalid rule id'')
      | Some u \<Rightarrow>
          bindE (scalar_one_or_none (filter (\<lambda>r. rr_id r = u \<and> rr_tenant r = tenant) rules))
            (\<lambda>r. case r of None \<Rightarrow> Inl (HTTPException 404 ''Routing rule not found'') | Some r \<Rightarrow> Inr r))"

definition allowed_status :: "string \<Rightarrow> string result" where
  "allowed_status v =
     (let s = lower (strip v) in
      if s \<in> set ALLOWED_RULE_STATUSES then Inr s else Inl (bad_request ''status must be one of: active, disabled, draft''))"

definition allowed_format :: "string \<Rightarrow> string result" where
  "allowed_format v =
     (let s = lower (strip v) in
      if s \<in> set ALLOWED_RESPONSE_FORMATS then Inr s
      else Inl (bad_request ''response_format must be one of: anthropic, auto, openai, vertex''))"

definition rule_of_request :: "routed_provider list \<Rightarrow> uuid \<Rightarrow> rule_create \<Rightarrow> uuid \<Rightarrow> routing_rule result" where
  "rule_of_request providers tenant p i =
     (if strip (rc_name p) = [] \<or> strip (rc_condition p) = [] \<or> strip (rc_target_model p) = []
      then Inl (bad_request ''Name, condition, and target model are required'')
      else
        bindE (allowed_status (rc_status p))
          (\<lambda>status_value. bindE (allowed_format (rc_response_format p))
            (\<lambda>response_format. bindE (validate_routing_target_model providers tenant (strip (rc_target_model p)))
              (\<lambda>target_model. Inr
                \<lparr>rr_id = i, rr_tenant = tenant, rr_name = strip (rc_name p), rr_priority = rc_priority p,
                 rr_condition = strip (rc_condition p), rr_target_model = target_model, rr_status = status_value,
                 rr_response_format = response_format,
                 rr_target_provider = (case rc_target_provider p of Some (c # t) \<Rightarrow> Some (lower (strip (c # t))) | _ \<Rightarrow> None)\<rparr>))))"

definition create_routing_rule :: "user \<Rightarrow> rule_create \<Rightarrow> routing_rule llm" where
  "create_routing_rule u p =
     bindS (require_llm_admin u)
       (\<lambda>_. bindS (getS (\<lambda>s. rt_providers (ls_routing s)))
         (\<lambda>providers. bindS (getS (\<lambda>s. rule_of_request providers (us_tenant u) p (ls_ids s (ls_next s))))
           (\<lambda>checked. bindS (liftS checked)
             (\<lambda>rule. bindS new_id
               (\<lambda>_. bindS (on_routing (\<lambda>db. db\<lparr>rt_rules := rt_rules db @ [rule]\<rparr>)) (\<lambda>_. returnS rule))))))"

definition required_text :: "string \<Rightarrow> string option \<Rightarrow> string \<Rightarrow> string result" where
  "required_text detail v current =
     (case v of None \<Rightarrow> Inr current | Some t \<Rightarrow> if strip t = [] then Inl (bad_request detail) else Inr (strip t))"

definition updated_rule :: "routed_provider list \<Rightarrow> rule_update \<Rightarrow> routing_rule \<Rightarrow> routing_rule result" where
  "updated_rule providers u r =
     bindE (required_text ''Rule name is required'' (ru_name u) (rr_name r))
       (\<lambda>name. bindE (required_text ''Condition is required'' (ru_condition u) (rr_condition r))
         (\<lambda>condition. bindE (required_text ''Target model is required'' (ru_target_model u) (rr_target_model r))
           (\<lambda>target. bindE (if ru_target_model u = None then Inr target else validate_routing_target_model providers (rr_tenant r) target)
             (\<lambda>target_model. bindE (case ru_status u of None \<Rightarrow> Inr (rr_status r) | Some v \<Rightarrow> allowed_status v)
               (\<lambda>status_value. bindE (case ru_response_format u of None \<Rightarrow> Inr (rr_response_format r) | Some v \<Rightarrow> allowed_format v)
                 (\<lambda>response_format. Inr
                   (r\<lparr>rr_name := name, rr_condition := condition, rr_target_model := target_model,
                      rr_priority := (case ru_priority u of None \<Rightarrow> rr_priority r | Some n \<Rightarrow> n), rr_status := status_value,
                      rr_response_format := response_format,
                      rr_target_provider := (case ru_target_provider u of
                          None \<Rightarrow> rr_target_provider r
                        | Some t \<Rightarrow> none_if_empty (lower (strip t)))\<rparr>)))))))"

definition update_routing_rule :: "user \<Rightarrow> string \<Rightarrow> rule_update \<Rightarrow> routing_rule llm" where
  "update_routing_rule u rule_id p =
     bindS (require_llm_admin u)
       (\<lambda>_. bindS (getS ls_routing)
         (\<lambda>db. bindS (liftS (get_rule_or_404 (rt_rules db) (us_tenant u) rule_id))
           (\<lambda>old. bindS (liftS (updated_rule (rt_providers db) p old))
             (\<lambda>rule. bindS (on_routing (\<lambda>db. db\<lparr>rt_rules := map (\<lambda>r. if rr_id r = rr_id rule then rule else r) (rt_rules db)\<rparr>))
               (\<lambda>_. returnS rule)))))"

text \<open>The rows of the client keys go with their rule (\<open>ON DELETE CASCADE\<close>).\<close>

definition delete_routing_rule :: "user \<Rightarrow> string \<Rightarrow> unit llm" where
  "delete_routing_rule u rule_id =
     bindS (require_llm_admin u)
       (\<lambda>_. bindS (getS ls_routing)
         (\<lambda>db. bindS (liftS (get_rule_or_404 (rt_rules db) (us_tenant u) rule_id))
           (\<lambda>rule. on_routing (\<lambda>db. db\<lparr>rt_rules := filter (\<lambda>r. rr_id r \<noteq> rr_id rule) (rt_rules db),
              rt_rule_keys := filter (\<lambda>k. rk_rule k \<noteq> rr_id rule) (rt_rule_keys db)\<rparr>))))"

definition get_client_api_key :: "(uuid \<times> uuid) list \<Rightarrow> uuid \<Rightarrow> string \<Rightarrow> uuid result" where
  "get_client_api_key keys tenant key_id =
     (case uuid_of key_id of
        None \<Rightarrow> Inl (bad_request ''Invalid client API key id'')
      | Some u \<Rightarrow>
          bindE (scalar_one_or_none (filter (\<lambda>(i, t). i = u \<and> t = tenant) keys))
            (\<lambda>k. case k of None \<Rightarrow> Inl (HTTPException 404 ''Client API key not found'') | Some (i, _) \<Rightarrow> Inr i))"

definition rule_and_key :: "user \<Rightarrow> string \<Rightarrow> string \<Rightarrow> (routing_rule \<times> uuid) llm" where
  "rule_and_key u rule_id key_id =
     bindS (require_llm_admin u)
       (\<lambda>_. bindS (getS ls_routing)
         (\<lambda>db. bindS (liftS (get_rule_or_404 (rt_rules db) (us_tenant u) rule_id))
           (\<lambda>rule. bindS (getS ls_client_keys)
             (\<lambda>keys. bindS (liftS (get_client_api_key keys (us_tenant u) key_id)) (\<lambda>key. returnS (rule, key))))))"

definition list_routing_rule_client_keys :: "llm_state \<Rightarrow> uuid \<Rightarrow> uuid \<Rightarrow> uuid list" where
  "list_routing_rule_client_keys s tenant rule =
     map fst (filter (\<lambda>(i, t). t = tenant \<and> list_ex (\<lambda>k. rk_rule k = rule \<and> rk_key k = i) (rt_rule_keys (ls_routing s))) (ls_client_keys s))"

definition assign_routing_rule_client_key :: "user \<Rightarrow> string \<Rightarrow> string \<Rightarrow> uuid list llm" where
  "assign_routing_rule_client_key u rule_id key_id =
     bindS (rule_and_key u rule_id key_id)
       (\<lambda>(rule, key). bindS (getS ls_routing)
         (\<lambda>db. bindS (liftS (scalar_one_or_none (filter (\<lambda>k. rk_rule k = rr_id rule \<and> rk_key k = key) (rt_rule_keys db))))
           (\<lambda>existing. bindS
              (if existing = None
               then on_routing (\<lambda>db. db\<lparr>rt_rule_keys := rt_rule_keys db @ [\<lparr>rk_rule = rr_id rule, rk_key = key\<rparr>]\<rparr>)
               else returnS ())
              (\<lambda>_. getS (\<lambda>s. list_routing_rule_client_keys s (us_tenant u) (rr_id rule))))))"

definition unassign_routing_rule_client_key :: "user \<Rightarrow> string \<Rightarrow> string \<Rightarrow> uuid list llm" where
  "unassign_routing_rule_client_key u rule_id key_id =
     bindS (rule_and_key u rule_id key_id)
       (\<lambda>(rule, key). bindS
          (on_routing (\<lambda>db. db\<lparr>rt_rule_keys := filter (\<lambda>k. \<not> (rk_rule k = rr_id rule \<and> rk_key k = key)) (rt_rule_keys db)\<rparr>))
          (\<lambda>_. getS (\<lambda>s. list_routing_rule_client_keys s (us_tenant u) (rr_id rule))))"

section \<open>Routing groups\<close>

text \<open>The handlers of the groups ask for a session only, not for a permission.\<close>

record group_create =
  gp_name :: string
  gp_description :: "string option"
  gp_strategy :: string
  gp_members :: "group_member list"
  gp_status :: string

record group_update =
  gu_name :: "string option"
  gu_description :: "string option"
  gu_strategy :: "string option"
  gu_members :: "group_member list option"
  gu_status :: "string option"

definition find_group :: "routing_group list \<Rightarrow> uuid \<Rightarrow> uuid \<Rightarrow> routing_group result" where
  "find_group groups tenant group_id =
     bindE (scalar_one_or_none (filter (\<lambda>g. rg_id g = group_id \<and> rg_tenant g = tenant) groups))
       (\<lambda>g. case g of None \<Rightarrow> Inl (HTTPException 404 ''Routing group not found'') | Some g \<Rightarrow> Inr g)"

definition create_routing_group :: "user \<Rightarrow> group_create \<Rightarrow> routing_group llm" where
  "create_routing_group u p =
     bindS new_id
       (\<lambda>i. let g = \<lparr>rg_id = i, rg_tenant = us_tenant u, rg_name = gp_name p, rg_description = gp_description p, rg_strategy = gp_strategy p, rg_members = gp_members p,
                     rg_status = gp_status p\<rparr>
             in bindS (on_routing (\<lambda>db. db\<lparr>rt_groups := rt_groups db @ [g]\<rparr>)) (\<lambda>_. returnS g))"

definition updated_group :: "group_update \<Rightarrow> routing_group \<Rightarrow> routing_group" where
  "updated_group p g =
     g\<lparr>rg_name := (case gu_name p of None \<Rightarrow> rg_name g | Some n \<Rightarrow> n),
       rg_description := (case gu_description p of None \<Rightarrow> rg_description g | Some d \<Rightarrow> Some d),
       rg_strategy := (case gu_strategy p of None \<Rightarrow> rg_strategy g | Some s \<Rightarrow> s),
       rg_members := (case gu_members p of None \<Rightarrow> rg_members g | Some ms \<Rightarrow> ms),
       rg_status := (case gu_status p of None \<Rightarrow> rg_status g | Some s \<Rightarrow> s)\<rparr>"

definition update_routing_group :: "user \<Rightarrow> uuid \<Rightarrow> group_update \<Rightarrow> routing_group llm" where
  "update_routing_group u group_id p =
     bindS (getS (\<lambda>s. rt_groups (ls_routing s)))
       (\<lambda>groups. bindS (liftS (find_group groups (us_tenant u) group_id))
         (\<lambda>old. let g = updated_group p old in
            bindS (on_routing (\<lambda>db. db\<lparr>rt_groups := map (\<lambda>x. if rg_id x = group_id then g else x) (rt_groups db)\<rparr>)) (\<lambda>_. returnS g)))"

definition delete_routing_group :: "user \<Rightarrow> uuid \<Rightarrow> unit llm" where
  "delete_routing_group u group_id =
     bindS (getS (\<lambda>s. rt_groups (ls_routing s)))
       (\<lambda>groups. bindS (liftS (find_group groups (us_tenant u) group_id))
         (\<lambda>g. on_routing (\<lambda>db. db\<lparr>rt_groups := filter (\<lambda>x. rg_id x \<noteq> group_id) (rt_groups db)\<rparr>)))"

end
