(* ===== verification/BackendRoutingFacts.thy ===== *)
theory BackendRoutingFacts
  imports BackendLlmAdmin
begin

text \<open>
  What routing guarantees: conditions never fail, the rule that decides is the first one the caller is entitled to, other tenants
  do not matter, what the weights mean, that arbitrage saves money, and how the metrics behave.
\<close>

section \<open>Conditions\<close>

definition soft_error :: "py_error \<Rightarrow> bool" where
  "soft_error e \<longleftrightarrow> (\<exists>m. e = TypeError m \<or> e = ValueError m)"

lemma soft_errors [simp]: "soft_error (TypeError m)" "soft_error (ValueError m)"
  by (simp_all add: soft_error_def)

lemma ordered_soft: "ordered op a b = Inl e \<Longrightarrow> soft_error e" "ordered_list op xs ys = Inl e \<Longrightarrow> soft_error e"
  by (induction op a b and op xs ys rule: ordered_ordered_list.induct) (auto split: if_splits)

lemma compare_soft: "compare_values op a b = Inl e \<Longrightarrow> soft_error e"
  by (auto simp: compare_values_def intro: ordered_soft split: cmp_op.splits)

lemma attr_path_soft: "attr_path e = Inl err \<Longrightarrow> soft_error err"
  by (induction e rule: attr_path.induct) (auto simp: bindE_eq_Inl_iff)

lemma eval_soft:
  "eval_node ctx e = Inl err \<Longrightarrow> soft_error err"
  "eval_chain ctx left cs = Inl err \<Longrightarrow> soft_error err"
  "eval_list ctx es = Inl err \<Longrightarrow> soft_error err"
  by (induction ctx e and ctx left cs and ctx es rule: eval_node_eval_chain_eval_list.induct)
     (auto simp: bindE_eq_Inl_iff simp del: attr_path.simps intro: attr_path_soft compare_soft split: if_splits)

lemma condition_returns: "\<exists>b. evaluate_condition parse condition ctx = Inr b"
proof (cases "strip condition = [] \<or> lower (strip condition) = ''default'' \<or> parse (strip condition) = None")
  case True
  then show ?thesis by (auto simp: evaluate_condition_def Let_def)
next
  case False
  then obtain e where "parse (strip condition) = Some e" by auto
  with False show ?thesis
    using eval_soft(1) [of ctx e]
    by (cases "eval_node ctx e") (auto simp: evaluate_condition_def Let_def soft_error_def)
qed

text \<open>In a chain every operand is compared with the first one: \<open>0 < x < 10\<close> holds for \<open>x = 50\<close>.\<close>

lemma chain_keeps_left:
  "eval_node [(''x'', JInt 50)] (ECompare (EConst (JInt 0)) [(CLt, EName ''x''), (CLt, EConst (JInt 10))]) = Inr (JBool True)"
  by code_simp

text \<open>An operand of \<open>or\<close> that cannot be compared makes the whole condition fail although another one holds.\<close>

lemma or_evaluates_all:
  "evaluate_condition (\<lambda>_. Some (EBool False [ECompare (EName ''a'') [(CEq, EConst (JInt 1))], ECompare (EName ''b'') [(CGt, EConst (JInt 3))]]))
     ''a == 1 or b > 3'' [(''a'', JInt 1)] = Inr False"
  by code_simp

section \<open>Rules\<close>

lemma match_rules_first:
  assumes "match_rules parse keys k ctx rules = Inr (Some d)"
  shows "\<exists>before rule after. rules = before @ rule # after \<and> d = rule_decision rule \<and> rule_applies_to_caller keys k rule \<and>
    evaluate_condition parse (rr_condition rule) ctx = Inr True \<and>
    (\<forall>r \<in> set before. rule_applies_to_caller keys k r \<longrightarrow> evaluate_condition parse (rr_condition r) ctx = Inr False)"
  using assms
proof (induction rules)
  case (Cons r rules)
  show ?case
  proof (cases "rule_applies_to_caller keys k r \<and> evaluate_condition parse (rr_condition r) ctx = Inr True")
    case True
    then show ?thesis using Cons.prems by (intro exI [of _ "[]"]) auto
  next
    case False
    then have "match_rules parse keys k ctx rules = Inr (Some d)"
      and skip: "rule_applies_to_caller keys k r \<Longrightarrow> evaluate_condition parse (rr_condition r) ctx = Inr False"
      using Cons.prems by (auto simp: bindE_eq_Inr_iff split: if_splits)
    from Cons.IH [OF this(1)] obtain before rule after where
      "rules = before @ rule # after" "d = rule_decision rule" "rule_applies_to_caller keys k rule"
      "evaluate_condition parse (rr_condition rule) ctx = Inr True"
      "\<forall>r \<in> set before. rule_applies_to_caller keys k r \<longrightarrow> evaluate_condition parse (rr_condition r) ctx = Inr False" by blast
    then show ?thesis using skip by (intro exI [of _ "r # before"]) auto
  qed
qed simp

lemma rule_strategy [simp]: "rd_strategy (rule_decision r) = ''rule''"
  by (simp add: rule_decision_def decide_def)

lemma decide_strategy [simp]: "rd_strategy (decide m r s) = s"
  by (simp add: decide_def)

lemma match_providers_strategy: "match_providers ps n = Some d \<Longrightarrow> rd_strategy d \<in> {''alias'', ''explicit''}"
  by (induction ps) (auto split: if_splits)

lemma match_groups_strategy: "match_groups uniform gs n = Some d \<Longrightarrow> rd_strategy d = ''routing_group''"
  by (induction gs) (auto split: option.splits list.splits if_splits)

lemma route_auto_rule:
  assumes "route_auto parse uniform db tenant requested ctx key = Inr d" and "rd_strategy d = ''rule''"
  shows "match_rules parse (tenant_rule_keys db tenant) key ctx (active_rules db tenant) = Inr (Some d)"
  using assms by (auto simp: route_auto_def bindE_eq_Inr_iff split: option.splits if_splits)

lemma select_model_rule:
  assumes "select_model parse uniform db tenant requested ctx key = Inr d" and "rd_strategy d = ''rule''"
  shows "match_rules parse (tenant_rule_keys db tenant) key ctx (active_rules db tenant) = Inr (Some d)"
proof (cases "match_providers (active_providers (rt_providers db) tenant) (lower (strip requested))")
  case (Some d')
  then show ?thesis using assms match_providers_strategy [OF Some] by (auto simp: select_model_def)
next
  case None
  note no_provider = None
  show ?thesis
  proof (cases "match_groups uniform (filter (\<lambda>g. rg_tenant g = tenant \<and> rg_status g = ''active'') (rt_groups db)) (lower (strip requested))")
    case (Some d')
    then show ?thesis using assms no_provider match_groups_strategy [OF Some] by (auto simp: select_model_def)
  next
    case None
    with no_provider assms(1) obtain arb where "(case arb of
          Some a \<Rightarrow> Inr ((decide (ar_target_model a) (Some ''cost_arbitrage_engine'') ''cost_arbitrage'')\<lparr>rd_savings := Some a\<rparr>)
        | None \<Rightarrow> if requested \<noteq> [] \<and> requested \<noteq> ''auto'' then Inr (decide requested None ''passthrough'')
            else route_auto parse uniform db tenant requested ctx key) = Inr d"
      unfolding select_model_def Let_def by (simp only: option.case bindE_eq_Inr_iff) blast
    then have "route_auto parse uniform db tenant requested ctx key = Inr d"
      using assms(2) by (cases arb) (auto simp: decide_def split: if_splits)
    then show ?thesis using assms(2) by (rule route_auto_rule)
  qed
qed

text \<open>C32: When a rule decides, it is an active rule of the tenant whose condition holds and which is assigned to the caller's key or to
  no key, and no active rule of the tenant with a smaller priority that the caller is entitled to has a condition that holds.\<close>

theorem deciding_rule_entitled:
  assumes "select_model parse uniform db tenant requested ctx key = Inr d" and "rd_strategy d = ''rule''"
  shows "\<exists>rule \<in> set (rt_rules db). d = rule_decision rule \<and> rr_tenant rule = tenant \<and> rr_status rule = ''active'' \<and>
    rule_applies_to_caller (tenant_rule_keys db tenant) key rule \<and> evaluate_condition parse (rr_condition rule) ctx = Inr True \<and>
    (\<forall>r \<in> set (rt_rules db). rr_tenant r = tenant \<and> rr_status r = ''active'' \<and> rr_priority r < rr_priority rule \<and>
       rule_applies_to_caller (tenant_rule_keys db tenant) key r \<longrightarrow> evaluate_condition parse (rr_condition r) ctx = Inr False)"
proof -
  obtain before rule after where rules: "active_rules db tenant = before @ rule # after" "d = rule_decision rule"
    "rule_applies_to_caller (tenant_rule_keys db tenant) key rule" "evaluate_condition parse (rr_condition rule) ctx = Inr True"
    "\<forall>r \<in> set before. rule_applies_to_caller (tenant_rule_keys db tenant) key r \<longrightarrow> evaluate_condition parse (rr_condition r) ctx = Inr False"
    using match_rules_first [OF select_model_rule [OF assms]] by blast
  have members: "set (active_rules db tenant) = {r \<in> set (rt_rules db). rr_tenant r = tenant \<and> rr_status r = ''active''}"
    by (simp add: active_rules_def)
  have "sorted (map rr_priority (active_rules db tenant))" by (simp add: active_rules_def)
  then have "\<forall>r \<in> set after. rr_priority rule \<le> rr_priority r" by (simp add: rules(1) sorted_append)
  then have "r \<in> set before" if "r \<in> set (active_rules db tenant)" "rr_priority r < rr_priority rule" for r
    using that by (auto simp: rules(1))
  then show ?thesis using rules members by (intro bexI [of _ rule]) auto
qed

definition demo_rule :: "uuid \<Rightarrow> int \<Rightarrow> string \<Rightarrow> routing_rule" where
  "demo_rule i priority model =
     \<lparr>rr_id = i, rr_tenant = ''t'', rr_name = ''rule '' @ i, rr_priority = priority, rr_condition = ''default'', rr_target_model = model,
      rr_status = ''active'', rr_response_format = ''auto'', rr_target_provider = None\<rparr>"

definition demo_routing :: routing_db where
  "demo_routing =
     \<lparr>rt_providers = [], rt_groups = [], rt_rules = [demo_rule ''r1'' 20 ''gpt-4o'', demo_rule ''r2'' 10 ''gemini-1.5-pro'', demo_rule ''r3'' 5 ''o1''],
      rt_rule_keys = [\<lparr>rk_rule = ''r3'', rk_key = ''k''\<rparr>]\<rparr>"

theorem deciding_rule_entitled_witness:
  "\<exists>rule \<in> set (rt_rules demo_routing). rule_decision (demo_rule ''r2'' 10 ''gemini-1.5-pro'') = rule_decision rule \<and>
    rr_tenant rule = ''t'' \<and> rule_applies_to_caller (tenant_rule_keys demo_routing ''t'') None rule"
proof -
  have "select_model (\<lambda>_. None) id demo_routing ''t'' ''auto'' [] None = Inr (rule_decision (demo_rule ''r2'' 10 ''gemini-1.5-pro''))"
    by code_simp
  from deciding_rule_entitled [OF this] show ?thesis by auto
qed

section \<open>Tenants\<close>

text \<open>The rows of one tenant.\<close>

definition tenant_view :: "uuid \<Rightarrow> routing_db \<Rightarrow> routing_db" where
  "tenant_view tenant db =
     \<lparr>rt_providers = filter (\<lambda>p. lp_tenant p = tenant) (rt_providers db), rt_groups = filter (\<lambda>g. rg_tenant g = tenant) (rt_groups db),
      rt_rules = filter (\<lambda>r. rr_tenant r = tenant) (rt_rules db), rt_rule_keys = tenant_rule_keys db tenant\<rparr>"

lemma view_active_providers: "active_providers (rt_providers (tenant_view tenant db)) tenant = active_providers (rt_providers db) tenant"
  by (simp add: active_providers_def tenant_view_def conj_ac cong: filter_cong)

lemma view_active_rules: "active_rules (tenant_view tenant db) tenant = active_rules db tenant"
  by (simp add: active_rules_def tenant_view_def conj_ac cong: filter_cong)

lemma view_rule_keys: "tenant_rule_keys (tenant_view tenant db) tenant = tenant_rule_keys db tenant"
  by (auto simp: tenant_rule_keys_def tenant_view_def list_ex_iff intro!: filter_cong)

lemma routing_sees_own_tenant:
  "select_model parse uniform db tenant requested ctx key = select_model parse uniform (tenant_view tenant db) tenant requested ctx key"
proof -
  have "filter (\<lambda>g. rg_tenant g = tenant \<and> rg_status g = ''active'') (rt_groups (tenant_view tenant db)) =
      filter (\<lambda>g. rg_tenant g = tenant \<and> rg_status g = ''active'') (rt_groups db)"
    by (simp add: tenant_view_def conj_ac cong: filter_cong)
  then show ?thesis
    by (simp only: select_model_def route_auto_def view_active_providers view_active_rules view_rule_keys)
qed

lemma routing_returns:
  assumes "dict_get ctx ''prompt_tokens'' = Some (JInt n)"
  shows "\<exists>d. select_model parse uniform db tenant requested ctx key = Inr d"
proof -
  have rules: "\<exists>r. match_rules parse keys key ctx rules = Inr r" for keys rules
  proof (induction rules)
    case (Cons r rules)
    obtain b where "evaluate_condition parse (rr_condition r) ctx = Inr b" using condition_returns by blast
    then show ?case using Cons by simp
  qed simp
  obtain found where "match_rules parse (tenant_rule_keys db tenant) key ctx (active_rules db tenant) = Inr found" using rules by blast
  then have auto_returns: "\<exists>d. route_auto parse uniform db tenant requested ctx key = Inr d" by (simp add: route_auto_def)
  have "int_of_json (or_json (dict_get_or ctx ''prompt_tokens'' JNull) (JInt 100)) = Inr (if n = 0 then 100 else n)"
    by (simp add: dict_get_or_def assms or_json_def)
  then have shape: "\<exists>a. (if q then bindE (int_of_json (or_json (dict_get_or ctx ''prompt_tokens'' JNull) (JInt 100))) (\<lambda>c. Inr (f c)) else Inr None) =
      Inr a" for q and f :: "int \<Rightarrow> arbitrage_decision option" by simp
  have "\<exists>a. arbitrage_of requested ctx = Inr a" unfolding arbitrage_of_def Let_def by (rule shape)
  then obtain a where "arbitrage_of requested ctx = Inr a" by blast
  then show ?thesis
    using auto_returns unfolding select_model_def Let_def
    by (cases "match_providers (active_providers (rt_providers db) tenant) (lower (strip requested))";
        cases "match_groups uniform (filter (\<lambda>g. rg_tenant g = tenant \<and> rg_status g = ''active'') (rt_groups db)) (lower (strip requested))";
        cases a) simp_all
qed

section \<open>Weights\<close>

lemma cumulative_pick_window:
  assumes "cumulative_pick target c xs = Some x" and "c < target" and "\<forall>(y, w) \<in> set xs. 0 \<le> w"
  shows "\<exists>w. (x, w) \<in> set xs \<and> 0 < w"
  using assms
proof (induction target c xs rule: cumulative_pick.induct)
  case (2 target c y w xs)
  then show ?case by (cases "target \<le> c + w") auto
qed simp

lemma cumulative_pick_total:
  "target \<le> c + sum_list (map snd xs) \<Longrightarrow> xs \<noteq> [] \<Longrightarrow> \<exists>x. cumulative_pick target c xs = Some x"
proof (induction target c xs rule: cumulative_pick.induct)
  case (2 target c y w xs)
  then show ?case by (cases xs) (auto simp: algebra_simps)
qed simp

lemma weighted_choice_some: "xs \<noteq> [] \<Longrightarrow> \<exists>q. weighted_choice uniform weight xs = Some q"
  by (simp add: weighted_choice_def Let_def split: option.split)

lemma sum_list_pos:
  fixes f :: "'a \<Rightarrow> rat"
  shows "y \<in> set xs \<Longrightarrow> 0 < f y \<Longrightarrow> (\<And>x. 0 \<le> f x) \<Longrightarrow> 0 < sum_list (map f xs)"
proof (induction xs)
  case (Cons x xs)
  have "0 \<le> sum_list (map f xs)" using Cons.prems(3) by (intro sum_list_nonneg) auto
  then show ?case using Cons by (cases "y = x") (auto intro: add_pos_nonneg add_nonneg_pos)
qed simp

lemma weighted_choice_positive:
  assumes choice: "weighted_choice uniform weight xs = Some x" and some: "\<exists>y \<in> set xs. 0 < weight y"
    and uniform: "\<And>t. 0 < t \<Longrightarrow> 0 < uniform t \<and> uniform t \<le> t"
  shows "x \<in> set xs \<and> 0 < weight x"
proof -
  define weighted where "weighted = map (\<lambda>x. (x, max (weight x) 0)) xs"
  define total_of where "total_of = sum_list (map snd weighted)"
  obtain y where "y \<in> set xs" "0 < weight y" using some by blast
  then have "0 < sum_list (map (\<lambda>x. max (weight x) 0) xs)" by (intro sum_list_pos [of y]) auto
  then have "0 < total_of" by (simp add: total_of_def weighted_def comp_def)
  with uniform have target: "0 < uniform total_of" "uniform total_of \<le> total_of" by auto
  have "xs \<noteq> []" using \<open>y \<in> set xs\<close> by auto
  then obtain z where z: "cumulative_pick (uniform total_of) 0 weighted = Some z"
    using cumulative_pick_total [of "uniform total_of" 0 weighted] target by (auto simp: total_of_def weighted_def)
  then have "x = z"
    using choice \<open>0 < total_of\<close> \<open>xs \<noteq> []\<close> unfolding weighted_choice_def weighted_def [symmetric] total_of_def [symmetric] Let_def by simp
  moreover obtain w where "(z, w) \<in> set weighted" "0 < w"
    using cumulative_pick_window [OF z target(1)] by (auto simp: weighted_def)
  ultimately show ?thesis by (auto simp: weighted_def max_def split: if_splits)
qed

section \<open>Rounding\<close>

lemma round1_cases:
  obtains k where "round1 x = of_int k / 10" and "of_int k - x * 10 \<le> 1 / 2" and "x * 10 - of_int k \<le> 1 / 2" and
    "k = \<lfloor>x * 10\<rfloor> \<or> k = \<lfloor>x * 10\<rfloor> + 1 \<and> of_int \<lfloor>x * 10\<rfloor> < x * 10"
proof -
  let ?f = "\<lfloor>x * 10\<rfloor>" let ?d = "x * 10 - of_int ?f"
  have f: "of_int ?f \<le> x * 10" "x * 10 < of_int ?f + 1" by linarith+
  consider "?d < 1 / 2" | "1 / 2 < ?d" | "?d = 1 / 2" by linarith
  then show thesis
  proof cases
    case 1
    then have "round1 x = of_int ?f / 10" by (simp add: round1_def Let_def)
    then show thesis by (rule that) (use f 1 in linarith, use 1 in linarith, simp)
  next
    case 2
    then have "round1 x = of_int (?f + 1) / 10" by (simp add: round1_def Let_def)
    then show thesis by (rule that) (use f 2 in linarith, use f in linarith, use 2 in simp)
  next
    case 3
    then have "round1 x = of_int (if even ?f then ?f else ?f + 1) / 10" by (simp add: round1_def Let_def)
    then show thesis by (rule that) (use 3 in auto)
  qed
qed

lemma round1_range: "0 \<le> x \<Longrightarrow> x \<le> 100 \<Longrightarrow> 0 \<le> round1 x \<and> round1 x \<le> 100"
proof -
  assume x: "0 \<le> x" "x \<le> 100"
  obtain k where k: "round1 x = of_int k / 10" "k = \<lfloor>x * 10\<rfloor> \<or> k = \<lfloor>x * 10\<rfloor> + 1 \<and> of_int \<lfloor>x * 10\<rfloor> < x * 10"
    by (rule round1_cases)
  have "0 \<le> \<lfloor>x * 10\<rfloor>" using x by simp
  moreover have "\<lfloor>x * 10\<rfloor> \<le> 1000" using x by linarith
  moreover have "\<lfloor>x * 10\<rfloor> < 1000" if "of_int \<lfloor>x * 10\<rfloor> < x * 10" using x that by linarith
  ultimately have "0 \<le> k \<and> k \<le> 1000" using k(2) by auto
  then show ?thesis using k(1) by simp
qed

lemma round1_nonneg:
  assumes "0 \<le> x"
  shows "\<exists>k. round1 x = of_int k / 10 \<and> 0 \<le> k"
proof -
  obtain k where "round1 x = of_int k / 10" "k = \<lfloor>x * 10\<rfloor> \<or> k = \<lfloor>x * 10\<rfloor> + 1 \<and> of_int \<lfloor>x * 10\<rfloor> < x * 10"
    by (rule round1_cases)
  moreover have "0 \<le> \<lfloor>x * 10\<rfloor>" using assms by simp
  ultimately show ?thesis by (intro exI [of _ k]) auto
qed

lemma round1_near: "round1 x \<le> x + 1 / 20" "x - 1 / 20 \<le> round1 x"
  by (rule round1_cases [of x]; simp; linarith)+

lemma round1_tenth: "round1 (of_int k / 10) = of_int k / 10"
  by (simp add: round1_def)

lemma round1_high: "1999 / 20 < x \<Longrightarrow> x \<le> 100 \<Longrightarrow> round1 x = 100"
proof -
  assume x: "1999 / 20 < x" "x \<le> 100"
  obtain k where k: "round1 x = of_int k / 10" "of_int k - x * 10 \<le> 1 / 2" "x * 10 - of_int k \<le> 1 / 2"
    by (rule round1_cases [of x])
  have "k < 1001" "999 < k" using x k(2,3) by linarith+
  then have "k = 1000" by linarith
  then show ?thesis using k(1) by simp
qed

section \<open>Metrics\<close>

definition sound_metrics :: "routed_provider \<Rightarrow> bool" where
  "sound_metrics p \<longleftrightarrow> 0 \<le> lp_total_requests p \<and> 0 \<le> lp_avg_latency_ms p \<and> 0 \<le> lp_success_rate p \<and> lp_success_rate p \<le> 100"

lemma trunc_between: "of_int a \<le> x \<Longrightarrow> x \<le> of_int b \<Longrightarrow> 0 \<le> a \<Longrightarrow> a \<le> trunc x \<and> trunc x \<le> b"
  unfolding trunc_def by (auto simp: le_floor_iff) (linarith+)

lemma average_between:
  fixes a l n :: rat
  assumes "0 \<le> n"
  shows "min a l \<le> (a * n + l) / (n + 1)" and "(a * n + l) / (n + 1) \<le> max a l"
proof -
  have "min a l * (n + 1) \<le> a * n + l" "a * n + l \<le> max a l * (n + 1)"
    using assms mult_right_mono [of "min a l" a n] mult_right_mono [of a "max a l" n] by (simp_all add: algebra_simps)
  then show "min a l \<le> (a * n + l) / (n + 1)" "(a * n + l) / (n + 1) \<le> max a l"
    using assms by (simp_all add: field_simps)
qed

lemma measured_sound:
  assumes "sound_metrics p"
  shows "sound_metrics (measured latency success p)" and "lp_total_requests (measured latency success p) = lp_total_requests p + 1"
proof -
  let ?n = "of_int (lp_total_requests p) :: rat" and ?q = "measured latency success p"
  have n: "0 \<le> ?n" and rate: "0 \<le> lp_success_rate p / 100" "lp_success_rate p / 100 \<le> 1"
    using assms by (simp_all add: sound_metrics_def)
  have "lp_success_rate p / 100 * ?n \<le> ?n" using mult_right_mono [OF rate(2) n] by simp
  then have "0 \<le> (lp_success_rate p / 100 * ?n + (if success then 1 else 0)) / (?n + 1) * 100"
    "(lp_success_rate p / 100 * ?n + (if success then 1 else 0)) / (?n + 1) * 100 \<le> 100"
    using n rate by (auto simp: field_simps)
  then have "0 \<le> lp_success_rate ?q \<and> lp_success_rate ?q \<le> 100"
    using round1_range by (simp add: measured_def Let_def)
  moreover have "0 \<le> lp_avg_latency_ms ?q"
  proof (cases "0 < latency \<and> lp_total_requests p \<noteq> 0")
    case True
    have "(0::rat) \<le> (of_int (lp_avg_latency_ms p) * ?n + of_int latency) / (?n + 1)"
      using assms n True by (simp add: sound_metrics_def)
    then show ?thesis using True by (simp add: measured_def Let_def trunc_def)
  qed (use assms in \<open>auto simp: measured_def sound_metrics_def Let_def\<close>)
  ultimately show "sound_metrics ?q" using assms by (simp add: sound_metrics_def measured_def Let_def)
  show "lp_total_requests ?q = lp_total_requests p + 1" by (simp add: measured_def Let_def)
qed

text \<open>Requests recorded one after the other.\<close>

fun record_all :: "uuid \<Rightarrow> (string \<times> int \<times> bool) list \<Rightarrow> routed_provider list \<Rightarrow> routed_provider list result" where
  "record_all tenant [] ps = Inr ps"
| "record_all tenant ((model, latency, success) # rs) ps =
     bindE (record_provider_request ps tenant model latency success) (record_all tenant rs)"

lemma record_step:
  assumes "record_provider_request ps tenant model latency success = Inr ps'"
  shows "\<exists>i. ps' = map (\<lambda>q. if Some (lp_id q) = i then measured latency success q else q) ps"
proof (cases "strip model = []")
  case True
  then show ?thesis using assms by (intro exI [of _ None]) (simp add: record_provider_request_def)
next
  case False
  with assms have "\<exists>found :: routed_provider option. Inr (case found of None \<Rightarrow> ps
      | Some p \<Rightarrow> map (\<lambda>q. if lp_id q = lp_id p then measured latency success q else q) ps) = (Inr ps' :: routed_provider list result)"
    unfolding record_provider_request_def Let_def by (simp only: if_False bindE_eq_Inr_iff) (elim exE conjE, intro exI, assumption)
  then obtain found :: "routed_provider option" where "ps' = (case found of None \<Rightarrow> ps
      | Some p \<Rightarrow> map (\<lambda>q. if lp_id q = lp_id p then measured latency success q else q) ps)" by blast
  then show ?thesis by (intro exI [of _ "map_option lp_id found"]) (auto split: option.split)
qed

text \<open>However many requests are recorded, the success rates stay between 0 and 100, latencies and counters do not become
  negative, no counter falls, and no request is counted twice.\<close>

theorem metrics_stay_sound:
  assumes "record_all tenant rs ps = Inr ps'" and "\<forall>p \<in> set ps. sound_metrics p"
  shows "length ps' = length ps \<and> map lp_id ps' = map lp_id ps \<and> (\<forall>p \<in> set ps'. sound_metrics p) \<and>
    list_all2 (\<lambda>p q. lp_total_requests p \<le> lp_total_requests q \<and> lp_total_requests q \<le> lp_total_requests p + int (length rs)) ps ps'"
  using assms
proof (induction tenant rs ps rule: record_all.induct)
  case (1 tenant ps)
  then show ?case by (auto intro: list_all2_refl)
next
  case (2 tenant model latency success rs ps)
  from 2(2) obtain ps1 where first: "record_provider_request ps tenant model latency success = Inr ps1"
    and others: "record_all tenant rs ps1 = Inr ps'" by (auto simp: bindE_eq_Inr_iff)
  obtain i where ps1: "ps1 = map (\<lambda>q. if Some (lp_id q) = i then measured latency success q else q) ps"
    using record_step [OF first] by blast
  have "\<forall>p \<in> set ps1. sound_metrics p" using 2(3) by (auto simp: ps1 measured_sound)
  note IH = 2(1) [OF others this]
  have "map lp_id ps1 = map lp_id ps" by (simp add: ps1 measured_def Let_def)
  moreover have step: "list_all2 (\<lambda>p q. lp_total_requests p \<le> lp_total_requests q \<and> lp_total_requests q \<le> lp_total_requests p + 1) ps ps1"
    using 2(3) by (auto simp: ps1 list_all2_map2 measured_sound intro!: list.rel_refl_strong)
  have "list_all2 (\<lambda>p q. lp_total_requests p \<le> lp_total_requests q \<and>
      lp_total_requests q \<le> lp_total_requests p + int (length ((model, latency, success) # rs))) ps ps'"
    by (rule list_all2_trans [OF _ step conjunct2 [OF conjunct2 [OF conjunct2 [OF IH]]]]) auto
  ultimately show ?case using IH ps1 by auto
qed

definition demo_provider :: "uuid \<Rightarrow> string \<Rightarrow> int \<Rightarrow> rat \<Rightarrow> routed_provider" where
  "demo_provider i name requests percentage =
     \<lparr>lp_tenant = ''t'', lp_name = name, lp_provider_type = ''openai'', lp_is_active = True, lp_model_aliases = [], lp_id = i,
      lp_endpoint_url = None, lp_total_requests = requests, lp_percentage = percentage, lp_avg_latency_ms = 10, lp_success_rate = 100,
      lp_api_key = None, lp_cost_per_1m_input = 0, lp_cost_per_1m_output = 0\<rparr>"

theorem metrics_stay_sound_witness:
  "\<exists>ps'. record_all ''t'' [(''gpt-4o'', 30, True), ('' GPT-4o '', 12, False)] [demo_provider ''p1'' ''gpt-4o'' 2 0, demo_provider ''p2'' ''o1'' 0 0] = Inr ps' \<and>
    length ps' = 2 \<and> (\<forall>p \<in> set ps'. sound_metrics p)"
proof -
  let ?ps = "[demo_provider ''p1'' ''gpt-4o'' 2 0, demo_provider ''p2'' ''o1'' 0 0]"
  have "case record_all ''t'' [(''gpt-4o'', 30, True), ('' GPT-4o '', 12, False)] ?ps of Inr _ \<Rightarrow> True | Inl _ \<Rightarrow> False" by code_simp
  then obtain ps' where run: "record_all ''t'' [(''gpt-4o'', 30, True), ('' GPT-4o '', 12, False)] ?ps = Inr ps'"
    by (auto split: sum.splits)
  from metrics_stay_sound [OF this] run show ?thesis by (auto simp: sound_metrics_def demo_provider_def)
qed

text \<open>A provider with a long clean record: the rate is stored with one decimal, so a failure is rounded away and the next one starts
  from 100 again.\<close>

lemma failure_rounded_away:
  assumes "lp_success_rate p = 100" and "2000 \<le> lp_total_requests p"
  shows "lp_success_rate (measured latency success p) = 100"
proof -
  let ?n = "of_int (lp_total_requests p) :: rat"
  have n: "2000 \<le> ?n" using assms(2) of_int_le_iff [of 2000 "lp_total_requests p", where ?'a = rat] by simp
  then have "1999 / 20 < (?n + (if success then 1 else 0)) / (?n + 1) * 100" "(?n + (if success then 1 else 0)) / (?n + 1) * 100 \<le> 100"
    by (auto simp: field_simps)
  from round1_high [OF this] show ?thesis using assms by (simp add: measured_def Let_def)
qed

lemma failures_forgotten:
  assumes "record_all tenant rs ps = Inr ps'" and "p \<in> set ps" and "lp_success_rate p = 100" and "2000 \<le> lp_total_requests p"
  shows "\<exists>q \<in> set ps'. lp_id q = lp_id p \<and> lp_success_rate q = 100"
  using assms
proof (induction tenant rs ps arbitrary: p rule: record_all.induct)
  case (2 tenant model latency success rs ps)
  from 2(2) obtain ps1 where first: "record_provider_request ps tenant model latency success = Inr ps1"
    and others: "record_all tenant rs ps1 = Inr ps'" by (auto simp: bindE_eq_Inr_iff)
  obtain i where ps1: "ps1 = map (\<lambda>q. if Some (lp_id q) = i then measured latency success q else q) ps"
    using record_step [OF first] by blast
  let ?q = "if Some (lp_id p) = i then measured latency success p else p"
  have "?q \<in> set ps1" using 2(3) by (auto simp: ps1)
  moreover have "lp_success_rate ?q = 100" "2000 \<le> lp_total_requests ?q" "lp_id ?q = lp_id p"
    using 2(4,5) failure_rounded_away by (simp_all add: measured_def Let_def)
  ultimately show ?case using 2(1) [OF others, of ?q] by auto
qed auto

section \<open>Shares\<close>

lemma shares_ids: "map lp_id (shares n a ps) = map lp_id ps"
  by (induction n a ps rule: shares.induct) (auto simp: Let_def)

lemma shares_bound:
  assumes "ps \<noteq> []" and "0 \<le> a" and "\<exists>k. a = of_int k / 10" and "\<forall>p \<in> set ps. 0 \<le> lp_total_requests p" and "0 < n"
    and "a + of_int (sum_list (map lp_total_requests ps)) / of_int n * 100 \<le> 100 + of_nat j / 20"
  shows "100 \<le> a + sum_list (map lp_percentage (shares n a ps)) \<and>
    a + sum_list (map lp_percentage (shares n a ps)) \<le> 100 + of_nat (j + (length ps - 1)) / 20 \<and>
    (\<forall>p \<in> set (shares n a ps). 0 \<le> lp_percentage p)"
  using assms
proof (induction n a ps arbitrary: j rule: shares.induct)
  case (2 n a p)
  from 2(3) obtain k where k: "a = of_int k / 10" by blast
  have "max 0 (100 - a) = of_int (max 0 (1000 - k)) / 10" using k by (simp add: max_def)
  then have "round1 (max 0 (100 - a)) = max 0 (100 - a)" by (simp only: round1_tenth)
  moreover have "a \<le> 100 + of_nat j / 20"
  proof -
    have "0 \<le> of_int (sum_list (map lp_total_requests [p])) / (of_int n :: rat) * 100" using 2(4,5) by simp
    then show ?thesis using 2(6) by linarith
  qed
  ultimately show ?case by (auto simp: max_def)
next
  case (3 n a p q ps)
  let ?share = "round1 (of_int (lp_total_requests p) / of_int n * 100)"
  have share: "?share \<le> of_int (lp_total_requests p) / of_int n * 100 + 1 / 20" by (rule round1_near)
  have nonneg: "0 \<le> of_int (lp_total_requests p) / (of_int n :: rat) * 100" using 3(5,6) by auto
  obtain k where k: "?share = of_int k / 10" "0 \<le> k" using round1_nonneg [OF nonneg] by blast
  then have pos: "0 \<le> ?share" by simp
  obtain m where "a = of_int m / 10" using 3(4) by blast
  then have "a + ?share = of_int (m + k) / 10" using k(1) by simp
  then have tenth: "\<exists>k. a + ?share = of_int k / 10" by blast
  have "a + ?share + of_int (sum_list (map lp_total_requests (q # ps))) / of_int n * 100 \<le> 100 + of_nat (Suc j) / 20"
    using share 3(7) by (simp add: add_divide_distrib algebra_simps)
  note IH = 3(1) [OF refl _ _ tenth _ 3(6) this]
  have "0 \<le> a + ?share" "q # ps \<noteq> []" "\<forall>p \<in> set (q # ps). 0 \<le> lp_total_requests p" using pos 3(3,5) by auto
  note IH [OF this(2,1,3)]
  then show ?case using pos by (simp add: Let_def add.assoc)
qed simp

lemma shares_rows:
  "map (\<lambda>p. p\<lparr>lp_percentage := 0\<rparr>) (shares n a ps) = map (\<lambda>p. p\<lparr>lp_percentage := 0\<rparr>) ps"
  by (induction n a ps rule: shares.induct) (auto simp: Let_def)

lemma share_idle: "i < length ps - 1 \<Longrightarrow> lp_total_requests (ps ! i) = 0 \<Longrightarrow> lp_percentage (shares n a ps ! i) = 0"
proof (induction n a ps arbitrary: i rule: shares.induct)
  case (3 n a p q ps)
  then show ?case by (cases i) (auto simp: Let_def round1_def)
qed auto

lemma find_by_id:
  assumes "map lp_id xs = map lp_id ys" and "distinct (map lp_id ys)"
  shows "map (\<lambda>p. case find (\<lambda>q. lp_id q = lp_id p) ys of Some q \<Rightarrow> q | None \<Rightarrow> p) xs = ys"
proof (rule nth_equalityI)
  show len: "length (map (\<lambda>p. case find (\<lambda>q. lp_id q = lp_id p) ys of Some q \<Rightarrow> q | None \<Rightarrow> p) xs) = length ys"
    using map_eq_imp_length_eq [OF assms(1)] by simp
  fix i assume i: "i < length (map (\<lambda>p. case find (\<lambda>q. lp_id q = lp_id p) ys of Some q \<Rightarrow> q | None \<Rightarrow> p) xs)"
  then have "i < length ys" "i < length xs" using len by simp_all
  then have "lp_id (xs ! i) = lp_id (ys ! i)" using arg_cong [OF assms(1), of "\<lambda>l. l ! i"] by simp
  moreover have "lp_id (ys ! j) \<noteq> lp_id (ys ! i)" if "j < i" for j
    using nth_eq_iff_index_eq [OF assms(2), of j i] that \<open>i < length ys\<close> by simp
  then have "find (\<lambda>q. lp_id q = lp_id (ys ! i)) ys = Some (ys ! i)"
    using \<open>i < length ys\<close> unfolding find_Some_iff by blast
  ultimately show "map (\<lambda>p. case find (\<lambda>q. lp_id q = lp_id p) ys of Some q \<Rightarrow> q | None \<Rightarrow> p) xs ! i = ys ! i" using i by simp
qed

lemma find_share_keeps:
  assumes "find P (shares n a ps) = Some q"
  shows "\<exists>p \<in> set ps. lp_tenant q = lp_tenant p \<and> lp_is_active q = lp_is_active p"
proof -
  have "q \<in> set (shares n a ps)" using assms by (auto simp: find_Some_iff)
  then have "q\<lparr>lp_percentage := 0\<rparr> \<in> (\<lambda>p. p\<lparr>lp_percentage := 0\<rparr>) ` set ps"
    using arg_cong [OF shares_rows [of n a ps], of set] by auto
  then obtain p where "p \<in> set ps" "q\<lparr>lp_percentage := 0\<rparr> = p\<lparr>lp_percentage := 0\<rparr>" by blast
  from \<open>p \<in> set ps\<close> arg_cong [OF this(2), of lp_tenant] arg_cong [OF this(2), of lp_is_active] show ?thesis
    by (intro bexI [of _ p]) simp_all
qed

lemma filter_changed_own: "(\<And>p. P p \<Longrightarrow> P (f p)) \<Longrightarrow> filter P (map (\<lambda>p. if P p then f p else p) ps) = map f (filter P ps)"
  by (induction ps) auto

lemma filter_changed_others:
  "(\<And>p. P p \<Longrightarrow> P (f p)) \<Longrightarrow> filter (\<lambda>p. \<not> P p) (map (\<lambda>p. if P p then f p else p) ps) = filter (\<lambda>p. \<not> P p) ps"
  by (induction ps) auto

lemma active_after_rebalance:
  assumes "distinct (map lp_id ps)" and "rebalance_provider_percentages ps tenant = (n, ps')" and "0 < n"
  shows "active_providers ps' tenant = shares n 0 (active_providers ps tenant)" and "n = sum_list (map lp_total_requests (active_providers ps tenant))"
    and "filter (\<lambda>p. \<not> (lp_tenant p = tenant \<and> lp_is_active p)) ps' = filter (\<lambda>p. \<not> (lp_tenant p = tenant \<and> lp_is_active p)) ps"
proof -
  let ?active = "active_providers ps tenant" let ?own = "\<lambda>p. lp_tenant p = tenant \<and> lp_is_active p"
  let ?new = "\<lambda>p. case find (\<lambda>q. lp_id q = lp_id p) (shares n 0 ?active) of Some q \<Rightarrow> q | None \<Rightarrow> p"
  have ps': "ps' = map (\<lambda>p. if ?own p then ?new p else p) ps" and n: "n = sum_list (map lp_total_requests ?active)"
    using assms(2,3) by (auto simp: rebalance_provider_percentages_def Let_def split: if_splits)
  show "n = sum_list (map lp_total_requests ?active)" by (rule n)
  have own: "?own (?new p)" if "?own p" for p
  proof (cases "find (\<lambda>q. lp_id q = lp_id p) (shares n 0 ?active)")
    case (Some q)
    then show ?thesis using find_share_keeps [OF Some] by (auto simp: active_providers_def)
  qed (use that in simp)
  have "filter ?own ps' = map ?new (filter ?own ps)"
    unfolding ps' by (rule filter_changed_own) (rule own)
  also have "\<dots> = shares n 0 ?active"
    unfolding active_providers_def [symmetric] using assms(1)
    by (intro find_by_id) (simp_all add: shares_ids active_providers_def distinct_map_filter)
  finally show "active_providers ps' tenant = shares n 0 ?active" by (simp add: active_providers_def)
  show "filter (\<lambda>p. \<not> ?own p) ps' = filter (\<lambda>p. \<not> ?own p) ps"
    unfolding ps' by (rule filter_changed_others) (rule own)
qed

text \<open>Rebalancing gives the active providers of a tenant shares that are not negative and add up to 100, or to more by what rounding
  up added, and changes no other row.\<close>

theorem rebalanced_shares:
  assumes "distinct (map lp_id ps)" and "\<forall>p \<in> set ps. 0 \<le> lp_total_requests p"
    and "rebalance_provider_percentages ps tenant = (n, ps')" and "0 < n"
  shows "map lp_id (active_providers ps' tenant) = map lp_id (active_providers ps tenant) \<and>
    (\<forall>p \<in> set (active_providers ps' tenant). 0 \<le> lp_percentage p) \<and>
    100 \<le> sum_list (map lp_percentage (active_providers ps' tenant)) \<and>
    sum_list (map lp_percentage (active_providers ps' tenant)) \<le> 100 + of_nat (length (active_providers ps tenant) - 1) / 20 \<and>
    filter (\<lambda>p. \<not> (lp_tenant p = tenant \<and> lp_is_active p)) ps' = filter (\<lambda>p. \<not> (lp_tenant p = tenant \<and> lp_is_active p)) ps"
proof -
  let ?active = "active_providers ps tenant"
  note after = active_after_rebalance [OF assms(1,3,4)]
  have "?active \<noteq> []" using after(2) assms(4) by auto
  moreover have "\<forall>p \<in> set ?active. 0 \<le> lp_total_requests p" using assms(2) by (simp add: active_providers_def)
  moreover have "(0::rat) + of_int (sum_list (map lp_total_requests ?active)) / of_int n * 100 \<le> 100 + of_nat 0 / 20"
    using after(2) assms(4) by simp
  moreover have "\<exists>k. (0::rat) = of_int k / 10" by (intro exI [of _ 0]) simp
  ultimately show ?thesis using shares_bound [of ?active 0 n 0] assms(4) after(1,3) shares_ids by simp
qed

theorem rebalanced_shares_witness:
  "100 \<le> sum_list (map lp_percentage (active_providers
     (snd (rebalance_provider_percentages [demo_provider ''p1'' ''gpt-4o'' 3 0, demo_provider ''p2'' ''o1'' 1 0] ''t'')) ''t''))"
proof -
  let ?ps = "[demo_provider ''p1'' ''gpt-4o'' 3 0, demo_provider ''p2'' ''o1'' 1 0]"
  obtain n ps' where run: "rebalance_provider_percentages ?ps ''t'' = (n, ps')" by fastforce
  have "fst (rebalance_provider_percentages ?ps ''t'') = 4" by code_simp
  then have "0 < n" by (simp add: run)
  moreover have "distinct (map lp_id ?ps)" "\<forall>p \<in> set ?ps. 0 \<le> lp_total_requests p" by (simp_all add: demo_provider_def)
  ultimately show ?thesis using rebalanced_shares [OF _ _ run] by (simp add: run)
qed

lemma rebalanced_ids:
  assumes "distinct (map lp_id ps)" and "\<forall>p \<in> set ps. 0 \<le> lp_total_requests p"
    and "rebalance_provider_percentages ps tenant = (n, ps')" and "0 < n"
  shows "map lp_id (active_providers ps' tenant) = map lp_id (active_providers ps tenant)"
  using active_after_rebalance(1) [OF assms(1,3,4)] shares_ids by simp

text \<open>A provider that had no request when the shares were computed is never chosen by its weight afterwards, so it stays without
  requests: the shares follow the traffic and the traffic the shares.\<close>

theorem idle_provider_never_chosen:
  assumes "distinct (map lp_id ps)" and "\<forall>p \<in> set ps. 0 \<le> lp_total_requests p"
    and "rebalance_provider_percentages ps tenant = (n, ps')" and "0 < n"
    and "active_providers ps tenant = before @ p # after" and "after \<noteq> []" and "lp_total_requests p = 0"
    and "\<And>t. 0 < t \<Longrightarrow> 0 < uniform t \<and> uniform t \<le> t"
    and "pick_weighted_provider uniform (active_providers ps' tenant) = Some q"
  shows "lp_id q \<noteq> lp_id p"
proof
  let ?new = "active_providers ps' tenant"
  assume same: "lp_id q = lp_id p"
  note after = active_after_rebalance(1) [OF assms(1,3,4)]
  have sum_pos: "100 \<le> sum_list (map lp_percentage ?new)" and nonneg: "\<forall>p \<in> set ?new. 0 \<le> lp_percentage p"
    using rebalanced_shares [OF assms(1-4)] by simp_all
  have "\<exists>y \<in> set ?new. 0 < lp_percentage y"
  proof (rule ccontr)
    assume "\<not> ?thesis"
    with nonneg have "\<forall>y \<in> set ?new. lp_percentage y = 0" by force
    then have "sum_list (map lp_percentage ?new) = sum_list (map (\<lambda>_. 0) ?new)" by (intro arg_cong [of _ _ sum_list] map_cong) auto
    then show False using sum_pos by simp
  qed
  then have chosen: "q \<in> set ?new" "0 < lp_percentage q"
    using weighted_choice_positive [of uniform lp_percentage ?new q] assms(8,9) by (auto simp: pick_weighted_provider_def)
  have ids: "map lp_id ?new = map lp_id (before @ p # after)" using after shares_ids assms(5) by metis
  have idle: "?new ! length before = ?new ! length before" "lp_percentage (?new ! length before) = 0" "lp_id (?new ! length before) = lp_id p"
    using share_idle [of "length before" "before @ p # after" n 0] assms(5-7) after arg_cong [OF ids, of "\<lambda>l. l ! length before"]
      map_eq_imp_length_eq [OF ids] by (auto simp: nth_append)
  have "distinct (map lp_id ?new)"
    using assms(1) after shares_ids [of n 0 "active_providers ps tenant"] by (simp add: active_providers_def distinct_map_filter)
  moreover have "?new ! length before \<in> set ?new" using map_eq_imp_length_eq [OF ids] by simp
  ultimately have "q = ?new ! length before"
    using chosen(1) same idle(3) by (auto simp: distinct_map inj_on_def)
  then show False using chosen(2) idle(2) by simp
qed

theorem idle_provider_never_chosen_witness:
  "\<exists>q. pick_weighted_provider (\<lambda>t. t / 2) (active_providers
      (snd (rebalance_provider_percentages [demo_provider ''p1'' ''gpt-4o'' 0 0, demo_provider ''p2'' ''o1'' 4 0] ''t'')) ''t'') = Some q \<and>
    lp_id q \<noteq> ''p1''"
proof -
  let ?p = "demo_provider ''p1'' ''gpt-4o'' 0 0" let ?ps = "[?p, demo_provider ''p2'' ''o1'' 4 0]"
  obtain n ps' where run: "rebalance_provider_percentages ?ps ''t'' = (n, ps')" by fastforce
  have "fst (rebalance_provider_percentages ?ps ''t'') = 4" by code_simp
  then have "0 < n" by (simp add: run)
  moreover have "distinct (map lp_id ?ps)" "\<forall>p \<in> set ?ps. 0 \<le> lp_total_requests p" by (simp_all add: demo_provider_def)
  moreover have "active_providers ?ps ''t'' = [] @ ?p # [demo_provider ''p2'' ''o1'' 4 0]" "lp_total_requests ?p = 0"
    by (simp_all add: active_providers_def demo_provider_def)
  moreover from this have "active_providers ps' ''t'' \<noteq> []" using rebalanced_ids [OF _ _ run] calculation by auto
  from weighted_choice_some [OF this, of "\<lambda>t. t / 2" lp_percentage]
  obtain q where q: "pick_weighted_provider (\<lambda>t. t / 2) (active_providers ps' ''t'') = Some q"
    unfolding pick_weighted_provider_def by blast
  ultimately have "lp_id q \<noteq> lp_id ?p" using idle_provider_never_chosen [OF _ _ run, of "[]" ?p _ "\<lambda>t. t / 2" q] by simp
  moreover have "lp_id ?p = ''p1''" by (simp add: demo_provider_def)
  ultimately show ?thesis using q by (intro exI [of _ q]) (simp add: run)
qed

section \<open>Arbitrage\<close>

lemma arbitrage_prices:
  assumes "dict_get ARBITRAGE_TARGET_MAP model = Some target"
  shows "0 < price_of target (3 / 20) \<and> price_of target (3 / 20) < price_of model (5 / 2)"
proof -
  have "list_all (\<lambda>(m, t). 0 < price_of t (3 / 20) \<and> price_of t (3 / 20) < price_of m (5 / 2)) ARBITRAGE_TARGET_MAP" by code_simp
  moreover have "(model, target) \<in> set ARBITRAGE_TARGET_MAP" using assms by (simp add: dict_get_def map_of_SomeD)
  ultimately show ?thesis by (auto simp: list_all_iff)
qed

text \<open>When the router replaces a model to save money, the replacement costs less for every prompt, the saving it reports is between 0 and
  100 percent, and unless it was forced the prompt has at most 400 words and no sign of code or of a reasoning task; when it does not,
  the model stays.\<close>

theorem arbitrage_saves:
  "if ar_should_arbitrate (evaluate_cost_arbitrage prompt requested n forced) then
     (let d = evaluate_cost_arbitrage prompt requested n forced in
      price_of (ar_target_model d) (3 / 20) < price_of (lower (strip requested)) (5 / 2) \<and>
      0 \<le> ar_savings_pct d \<and> ar_savings_pct d \<le> 100 \<and> (n \<le> 0 \<or> ar_cost_arbitrated d < ar_cost_original d) \<and>
      (forced \<or> length (words_of prompt) \<le> 400 \<and> \<not> list_ex (\<lambda>p. p_found p prompt) COMPLEXITY_PATTERNS))
   else ar_target_model (evaluate_cost_arbitrage prompt requested n forced) = requested"
proof (cases "ar_should_arbitrate (evaluate_cost_arbitrage prompt requested n forced)")
  case False
  then show ?thesis
    by (auto simp: evaluate_cost_arbitrage_def keep_model_def Let_def split: option.splits if_splits)
next
  case True
  let ?norm = "lower (strip requested)"
  obtain target where target: "dict_get ARBITRAGE_TARGET_MAP ?norm = Some target"
    and simple: "forced \<or> length (words_of prompt) \<le> 400 \<and> \<not> list_ex (\<lambda>p. p_found p prompt) COMPLEXITY_PATTERNS"
    using True by (auto simp: evaluate_cost_arbitrage_def keep_model_def Let_def not_less split: option.splits if_splits)
  define old where "old = price_of ?norm (5 / 2)"
  define new where "new = price_of target (3 / 20)"
  have d: "evaluate_cost_arbitrage prompt requested n forced =
      \<lparr>ar_should_arbitrate = True, ar_original_model = requested, ar_target_model = target,
       ar_savings_pct = round1 ((old - new) / old * 100), ar_cost_original = cost_of n old, ar_cost_arbitrated = cost_of n new\<rparr>"
    using True target by (auto simp: evaluate_cost_arbitrage_def keep_model_def Let_def old_def new_def split: if_splits)
  have prices: "0 < new" "new < old" using arbitrage_prices [OF target] by (simp_all add: old_def new_def)
  then have "0 \<le> (old - new) / old * 100" "(old - new) / old * 100 \<le> 100" by (auto simp: field_simps)
  note saving = round1_range [OF this]
  have "n \<le> 0 \<or> (of_int n :: rat) / 1000000 * new < of_int n / 1000000 * old"
    using prices by (cases "n \<le> 0") (auto intro!: mult_strict_left_mono)
  with saving prices simple show ?thesis
    unfolding d by (simp add: Let_def cost_of_def new_def [symmetric] old_def [symmetric])
qed

text \<open>The name of a provider is found inside others: a request for \<open>gpt-4\<close> goes to \<open>gpt-4o\<close> when that comes first.\<close>

lemma substring_takes_request:
  "map_option rd_model (match_providers [demo_provider ''p1'' ''gpt-4o'' 0 0, demo_provider ''p2'' ''gpt-4'' 0 0] ''gpt-4'') = Some ''gpt-4o''"
  by code_simp

text \<open>A rule that was assigned to one key is open to every caller once the key is gone.\<close>

lemma unassigned_rule_opens:
  "rule_applies_to_caller [\<lparr>rk_rule = rr_id r, rk_key = k\<rparr>] None r = False" "rule_applies_to_caller [] caller r"
  by (simp_all add: rule_applies_to_caller_def)

end
