(* ===== verification/BackendLlmAdminFacts.thy ===== *)
theory BackendLlmAdminFacts
  imports BackendRoutingFacts BackendSecretsFacts
begin

text \<open>
  The administration of providers, rules and groups stays within the tenant of the caller, and the handlers of providers and rules
  do nothing for a caller without the permission.  The proofs are Hoare triples over the handlers.
\<close>

section \<open>Triples\<close>

text \<open>From a state with \<open>P\<close> the computation returns into \<open>Q\<close> or raises into \<open>E\<close>.\<close>

definition hoare :: "('s \<Rightarrow> bool) \<Rightarrow> ('s, 'a) eff \<Rightarrow> ('a \<Rightarrow> 's \<Rightarrow> bool) \<Rightarrow> ('s \<Rightarrow> bool) \<Rightarrow> bool" where
  "hoare P m Q E \<longleftrightarrow> (\<forall>s. P s \<longrightarrow> (case m s of (Inl e, s') \<Rightarrow> E s' | (Inr x, s') \<Rightarrow> Q x s'))"

lemma hoareD: "hoare P m Q E \<Longrightarrow> P s \<Longrightarrow> m s = (Inr x, s') \<Longrightarrow> Q x s'" "hoare P m Q E \<Longrightarrow> P s \<Longrightarrow> m s = (Inl e, s') \<Longrightarrow> E s'"
  by (auto simp: hoare_def)

lemma hoare_bind: "hoare P m Q E \<Longrightarrow> (\<And>x. hoare (Q x) (f x) R E) \<Longrightarrow> hoare P (bindS m f) R E"
  unfolding hoare_def bindS_def by (fastforce split: prod.splits sum.splits)

lemma hoare_get: "hoare P (getS f) (\<lambda>x s. P s \<and> f s = x) E"
  by (simp add: hoare_def)

lemma hoare_lift: "(\<And>s. P s \<Longrightarrow> E s) \<Longrightarrow> hoare P (liftS r) (\<lambda>x s. P s \<and> r = Inr x) E"
  by (auto simp: hoare_def split: sum.split)

lemma hoare_raise: "(\<And>s. P s \<Longrightarrow> E s) \<Longrightarrow> hoare P (raiseS e) Q E"
  by (simp add: hoare_def)

lemma hoare_return: "(\<And>s. P s \<Longrightarrow> Q x s) \<Longrightarrow> hoare P (returnS x) Q E"
  by (simp add: hoare_def)

lemma hoare_modify: "(\<And>s. P s \<Longrightarrow> Q () (f s)) \<Longrightarrow> hoare P (modifyS f) Q E"
  by (simp add: hoare_def)

lemma hoare_conseq: "hoare P m Q E \<Longrightarrow> (\<And>s. P' s \<Longrightarrow> P s) \<Longrightarrow> (\<And>x s. Q x s \<Longrightarrow> Q' x s) \<Longrightarrow> hoare P' m Q' E"
  unfolding hoare_def by (fastforce split: prod.splits sum.splits)

lemma hoare_if: "(b \<Longrightarrow> hoare P m Q E) \<Longrightarrow> (\<not> b \<Longrightarrow> hoare P k Q E) \<Longrightarrow> hoare P (if b then m else k) Q E"
  by simp

lemma hoare_option:
  "(x = None \<Longrightarrow> hoare P m Q E) \<Longrightarrow> (\<And>y. x = Some y \<Longrightarrow> hoare P (k y) Q E) \<Longrightarrow> hoare P (case x of None \<Rightarrow> m | Some y \<Rightarrow> k y) Q E"
  by (cases x) auto

lemma hoare_prod: "(\<And>a b. x = (a, b) \<Longrightarrow> hoare P (k a b) Q E) \<Longrightarrow> hoare P (case x of (a, b) \<Rightarrow> k a b) Q E"
  by (cases x) auto

lemma hoare_pure: "(A \<Longrightarrow> hoare P m Q E) \<Longrightarrow> hoare (\<lambda>s. P s \<and> A) m Q E"
  by (auto simp: hoare_def)

section \<open>What a tenant may change\<close>

definition ids_ok :: "llm_state \<Rightarrow> bool" where
  "ids_ok s \<longleftrightarrow>
     inj (ls_ids s) \<and> distinct (map lp_id (rt_providers (ls_routing s))) \<and> distinct (map rr_id (rt_rules (ls_routing s))) \<and>
     distinct (map rg_id (rt_groups (ls_routing s))) \<and>
     lp_id ` set (rt_providers (ls_routing s)) \<union> rr_id ` set (rt_rules (ls_routing s)) \<union> rg_id ` set (rt_groups (ls_routing s))
       \<subseteq> ls_ids s ` {..<ls_next s}"

definition own_path :: "uuid \<Rightarrow> string \<Rightarrow> bool" where
  "own_path t path \<longleftrightarrow> startswith path (''pysetu/tenants/'' @ t @ ''/'')"

text \<open>The rows of other tenants, the keys of their rules, and the vault outside the folder of the tenant.\<close>

definition foreign :: "uuid \<Rightarrow> routing_db \<Rightarrow> routed_provider list \<times> routing_group list \<times> routing_rule list \<times> rule_key list" where
  "foreign t db =
     (filter (\<lambda>p. lp_tenant p \<noteq> t) (rt_providers db), filter (\<lambda>g. rg_tenant g \<noteq> t) (rt_groups db),
      filter (\<lambda>r. rr_tenant r \<noteq> t) (rt_rules db),
      filter (\<lambda>k. rk_rule k \<in> rr_id ` {r \<in> set (rt_rules db). rr_tenant r \<noteq> t}) (rt_rule_keys db))"

definition same_vault :: "uuid \<Rightarrow> vault \<Rightarrow> vault \<Rightarrow> bool" where
  "same_vault t v v' \<longleftrightarrow> va_enabled v' = va_enabled v \<and> (\<forall>path. \<not> own_path t path \<longrightarrow> vault_read v' path = vault_read v path)"

definition untouched :: "uuid \<Rightarrow> llm_state \<Rightarrow> llm_state \<Rightarrow> bool" where
  "untouched t s0 s \<longleftrightarrow>
     foreign t (ls_routing s) = foreign t (ls_routing s0) \<and> same_vault t (ls_vault s0) (ls_vault s) \<and>
     filter (\<lambda>r. ti_tenant r \<noteq> t) (ls_integrations s) = filter (\<lambda>r. ti_tenant r \<noteq> t) (ls_integrations s0) \<and>
     ls_client_keys s = ls_client_keys s0"

definition confined :: "uuid \<Rightarrow> llm_state \<Rightarrow> llm_state \<Rightarrow> bool" where
  "confined t s0 s \<longleftrightarrow> ids_ok s \<and> untouched t s0 s"

lemma confined_refl: "ids_ok s \<Longrightarrow> confined t s s"
  by (simp add: confined_def untouched_def same_vault_def)

text \<open>The state with the tables of \<open>d\<close>, which the handlers read first and write last.\<close>

definition reading :: "uuid \<Rightarrow> llm_state \<Rightarrow> routing_db \<Rightarrow> llm_state \<Rightarrow> bool" where
  "reading t s0 d s \<longleftrightarrow> confined t s0 s \<and> ls_routing s = d"

lemma hoare_admin: "(\<And>s. P s \<Longrightarrow> E s) \<Longrightarrow> hoare P (require_llm_admin u) (\<lambda>_ s. P s) E"
  by (auto simp: require_llm_admin_def hoare_def split: sum.split)

lemma set_secret_frame:
  assumes "set_secret v path secret = Inr (c, v')" and "own_path t path"
  shows "same_vault t v v'"
  using assms vault_write_read [of v path secret v']
  by (auto simp: set_secret_def same_vault_def bindE_eq_Inr_iff split: if_splits)

lemma same_vault_trans: "same_vault t u v \<Longrightarrow> same_vault t v w \<Longrightarrow> same_vault t u w"
  by (simp add: same_vault_def)

lemma reading_vault: "reading t s0 d s \<Longrightarrow> same_vault t (ls_vault s) v \<Longrightarrow> reading t s0 d (s\<lparr>ls_vault := v\<rparr>)"
  by (auto simp: reading_def confined_def ids_ok_def untouched_def intro: same_vault_trans)

lemma hoare_vault:
  assumes "\<And>v x v'. f v = Inr (x, v') \<Longrightarrow> same_vault t v v'"
  shows "hoare (reading t s0 d) (with_vault f) (\<lambda>_. reading t s0 d) (confined t s0)"
proof -
  have "confined t s0 s" if "reading t s0 d s" for s using that by (simp add: reading_def)
  then show ?thesis using assms by (auto simp: hoare_def with_vault_def intro: reading_vault split: sum.split)
qed

lemma own_paths: "own_path t (provider_secret_path t p)" "own_path t (tenant_secret_path t n)"
  by (simp_all add: own_path_def provider_secret_path_def tenant_secret_path_def startswith_iff)

lemma hoare_provider_secret:
  "hoare (reading t s0 d) (with_vault (\<lambda>v. set_provider_secret v t p x)) (\<lambda>_. reading t s0 d) (confined t s0)"
  by (rule hoare_vault) (auto simp: set_provider_secret_def intro: set_secret_frame own_paths)

lemma hoare_tenant_secret:
  "hoare (reading t s0 d) (with_vault (\<lambda>v. set_secret v (tenant_secret_path t n) x)) (\<lambda>_. reading t s0 d) (confined t s0)"
  by (rule hoare_vault) (auto intro: set_secret_frame own_paths)

definition same_rows :: "uuid \<Rightarrow> integration_row list \<Rightarrow> llm_state \<Rightarrow> bool" where
  "same_rows t rows s0 \<longleftrightarrow> filter (\<lambda>r. ti_tenant r \<noteq> t) rows = filter (\<lambda>r. ti_tenant r \<noteq> t) (ls_integrations s0)"

lemma same_rows_start: "reading t s0 d s \<Longrightarrow> same_rows t (ls_integrations s) s0"
  by (simp add: reading_def confined_def untouched_def same_rows_def)

lemma same_rows_ensure: "same_rows t rows s0 \<Longrightarrow> same_rows t (ensure_integration settings t rows) s0"
  by (simp add: same_rows_def ensure_integration_def new_integration_def tenant_integration.extend_def)

lemma same_rows_own:
  "(\<And>r. ti_tenant (f r) = ti_tenant r) \<Longrightarrow> same_rows t rows s0 \<Longrightarrow> same_rows t (map (\<lambda>r. if ti_tenant r = t then f r else r) rows) s0"
  using filter_changed_others [of "\<lambda>r. ti_tenant r = t" f rows] by (simp add: same_rows_def)

lemma hoare_store_secret:
  assumes "same_rows t rows s0"
  shows "hoare (reading t s0 d) (store_tenant_secret t n x rows) (\<lambda>rows s. reading t s0 d s \<and> same_rows t rows s0) (confined t s0)"
  unfolding store_tenant_secret_def
  by (rule hoare_bind [OF hoare_tenant_secret], rule hoare_return) (simp add: assms same_rows_own with_secret_def)

lemma hoare_api_key:
  "hoare (reading t s0 d) (apply_provider_api_key settings t type i key)
     (\<lambda>(_, rows) s. reading t s0 d s \<and> same_rows t rows s0) (confined t s0)"
proof -
  have start: "hoare (reading t s0 d) (getS ls_integrations) (\<lambda>rows s. reading t s0 d s \<and> same_rows t rows s0) (confined t s0)"
    by (rule hoare_conseq [OF hoare_get]) (auto intro: same_rows_start)
  show ?thesis
    unfolding apply_provider_api_key_def Let_def
    by (rule hoare_bind [OF start], rule hoare_pure)
       (auto intro!: hoare_option hoare_if hoare_return hoare_bind [OF hoare_provider_secret] hoare_bind [OF hoare_store_secret]
         hoare_bind [OF hoare_return] same_rows_ensure same_rows_own simp del: returnS_apply)
qed

section \<open>Writing the tables\<close>

definition row_ids :: "routing_db \<Rightarrow> uuid set" where
  "row_ids d = lp_id ` set (rt_providers d) \<union> rr_id ` set (rt_rules d) \<union> rg_id ` set (rt_groups d)"

definition keys_distinct :: "routing_db \<Rightarrow> bool" where
  "keys_distinct d \<longleftrightarrow> distinct (map lp_id (rt_providers d)) \<and> distinct (map rr_id (rt_rules d)) \<and> distinct (map rg_id (rt_groups d))"

lemma ids_ok_alt: "ids_ok s \<longleftrightarrow> inj (ls_ids s) \<and> keys_distinct (ls_routing s) \<and> row_ids (ls_routing s) \<subseteq> ls_ids s ` {..<ls_next s}"
  by (auto simp: ids_ok_def keys_distinct_def row_ids_def)

lemma confined_write:
  assumes "reading t s0 d s" and "keys_distinct d \<Longrightarrow> keys_distinct d'" and "keys_distinct d \<Longrightarrow> row_ids d' \<subseteq> row_ids d"
    and "keys_distinct d \<Longrightarrow> foreign t d' = foreign t d"
  shows "same_rows t rows s0 \<Longrightarrow> confined t s0 (s\<lparr>ls_integrations := rows, ls_routing := d'\<rparr>)"
    and "confined t s0 (s\<lparr>ls_routing := d'\<rparr>)"
  using assms by (auto simp: reading_def confined_def ids_ok_alt untouched_def same_rows_def)

lemma hoare_write:
  assumes "keys_distinct d \<Longrightarrow> keys_distinct (f d)" and "keys_distinct d \<Longrightarrow> row_ids (f d) \<subseteq> row_ids d"
    and "keys_distinct d \<Longrightarrow> foreign t (f d) = foreign t d"
  shows "hoare (reading t s0 d) (on_routing f) (\<lambda>_. confined t s0) (confined t s0)"
  unfolding on_routing_def
proof (rule hoare_modify)
  fix s assume r: "reading t s0 d s"
  then have "ls_routing s = d" by (simp add: reading_def)
  then show "confined t s0 (s\<lparr>ls_routing := f (ls_routing s)\<rparr>)" using confined_write(2) [OF r assms] by simp
qed

text \<open>Tables with a key: replacing and removing a row of the tenant.\<close>

lemma replace_row:
  assumes "distinct (map key xs)" and "old \<in> set xs" and "own old" and "own new" and "key new = key old"
  shows "filter (\<lambda>x. \<not> own x) (map (\<lambda>x. if key x = key new then new else x) xs) = filter (\<lambda>x. \<not> own x) xs"
    and "map key (map (\<lambda>x. if key x = key new then new else x) xs) = map key xs"
proof -
  have only: "x = old" if "x \<in> set xs" "key x = key old" for x
    using assms(1,2) that by (auto simp: distinct_map inj_on_def)
  have eq: "map (\<lambda>x. if key x = key new then new else x) xs = map (\<lambda>x. if own x then (\<lambda>x. if key x = key new then new else x) x else x) xs"
    using only assms(3,5) by (intro map_cong) auto
  show "filter (\<lambda>x. \<not> own x) (map (\<lambda>x. if key x = key new then new else x) xs) = filter (\<lambda>x. \<not> own x) xs"
    unfolding eq by (rule filter_changed_others) (use assms(4) in auto)
  show "map key (map (\<lambda>x. if key x = key new then new else x) xs) = map key xs" by (induction xs) auto
qed

lemma remove_row:
  assumes "distinct (map key xs)" and "old \<in> set xs" and "own old"
  shows "filter (\<lambda>x. \<not> own x) (filter (\<lambda>x. key x \<noteq> key old) xs) = filter (\<lambda>x. \<not> own x) xs"
    and "distinct (map key (filter (\<lambda>x. key x \<noteq> key old) xs))"
proof -
  have "key x \<noteq> key old" if "x \<in> set xs" "\<not> own x" for x
    using assms that by (auto simp: distinct_map inj_on_def)
  then show "filter (\<lambda>x. \<not> own x) (filter (\<lambda>x. key x \<noteq> key old) xs) = filter (\<lambda>x. \<not> own x) xs"
    by (auto intro!: filter_cong)
  show "distinct (map key (filter (\<lambda>x. key x \<noteq> key old) xs))" by (rule distinct_map_filter) (rule assms(1))
qed

lemma scalar_member: "scalar_one_or_none (filter P xs) = Inr (Some x) \<Longrightarrow> x \<in> set xs \<and> P x"
  by (cases "filter P xs") (auto simp: scalar_one_or_none_def filter_eq_Cons_iff split: list.splits)

lemma provider_found: "get_provider_or_404 ps t i = Inr p \<Longrightarrow> p \<in> set ps \<and> lp_tenant p = t"
  by (auto simp: get_provider_or_404_def bindE_eq_Inr_iff dest!: scalar_member split: option.splits)

lemma rule_found: "get_rule_or_404 rs t i = Inr r \<Longrightarrow> r \<in> set rs \<and> rr_tenant r = t"
  by (auto simp: get_rule_or_404_def bindE_eq_Inr_iff dest!: scalar_member split: option.splits)

lemma group_found: "find_group gs t i = Inr g \<Longrightarrow> g \<in> set gs \<and> rg_tenant g = t \<and> rg_id g = i"
  by (auto simp: find_group_def bindE_eq_Inr_iff dest!: scalar_member split: option.splits)

lemma foreign_cong:
  assumes "filter (\<lambda>p. lp_tenant p \<noteq> t) (rt_providers d') = filter (\<lambda>p. lp_tenant p \<noteq> t) (rt_providers d)"
    and "filter (\<lambda>g. rg_tenant g \<noteq> t) (rt_groups d') = filter (\<lambda>g. rg_tenant g \<noteq> t) (rt_groups d)"
    and "rt_rules d' = rt_rules d" and "rt_rule_keys d' = rt_rule_keys d"
  shows "foreign t d' = foreign t d"
  using assms by (simp add: foreign_def)

lemma replace_provider_ok:
  assumes "old \<in> set (rt_providers d)" and "lp_tenant old = t" and "lp_tenant p = t" and "lp_id p = lp_id old" and "keys_distinct d"
  shows "keys_distinct (replace_provider p d)" and "row_ids (replace_provider p d) \<subseteq> row_ids d" and "foreign t (replace_provider p d) = foreign t d"
proof -
  have dist: "distinct (map lp_id (rt_providers d))" using assms(5) by (simp add: keys_distinct_def)
  note rep = replace_row [of lp_id "rt_providers d" old "\<lambda>p. lp_tenant p = t" p, OF dist assms(1-4)]
  show "keys_distinct (replace_provider p d)" using assms(5) rep(2) by (simp add: keys_distinct_def replace_provider_def del: map_map)
  show "row_ids (replace_provider p d) \<subseteq> row_ids d" using assms(1,4) by (auto simp: row_ids_def replace_provider_def)
  show "foreign t (replace_provider p d) = foreign t d" by (rule foreign_cong) (use rep(1) in \<open>simp_all add: replace_provider_def\<close>)
qed


lemma remove_provider_ok:
  assumes "old \<in> set (rt_providers d)" and "lp_tenant old = t"
    and gs: "gs = map (without_member t n) (rt_groups d)"
    and d': "d' = d\<lparr>rt_groups := gs, rt_providers := filter (\<lambda>q. lp_id q \<noteq> lp_id old) (rt_providers d)\<rparr>" and "keys_distinct d"
  shows "keys_distinct d'" and "row_ids d' \<subseteq> row_ids d" and "foreign t d' = foreign t d"
proof -
  have dist: "distinct (map lp_id (rt_providers d))" using assms(5) by (simp add: keys_distinct_def)
  note rem = remove_row [of lp_id "rt_providers d" old "\<lambda>p. lp_tenant p = t", OF dist assms(1,2)]
  have ids: "map rg_id gs = map rg_id (rt_groups d)" by (simp add: gs without_member_def)
  have others: "filter (\<lambda>g. rg_tenant g \<noteq> t) gs = filter (\<lambda>g. rg_tenant g \<noteq> t) (rt_groups d)"
    using filter_changed_others [of "\<lambda>g. rg_tenant g = t" "\<lambda>g. g\<lparr>rg_members := filter (\<lambda>m. lower (strip (gm_model m)) \<noteq> n) (rg_members g)\<rparr>" "rt_groups d"]
    by (simp add: gs without_member_def [abs_def])
  show "keys_distinct d'" using assms(5) rem(2) ids by (simp add: d' keys_distinct_def)
  have "rg_id ` set gs = rg_id ` set (rt_groups d)" using ids by (metis list.set_map)
  then show "row_ids d' \<subseteq> row_ids d" by (auto simp: row_ids_def d')
  show "foreign t d' = foreign t d" by (rule foreign_cong) (use rem(1) others in \<open>simp_all add: d'\<close>)
qed

text \<open>Rules carry their keys: the keys of a rule of the tenant are not foreign, since the ids of rules are distinct.\<close>

definition foreign_keys :: "uuid \<Rightarrow> routing_db \<Rightarrow> rule_key list" where
  "foreign_keys t d = filter (\<lambda>k. rk_rule k \<in> rr_id ` {r \<in> set (rt_rules d). rr_tenant r \<noteq> t}) (rt_rule_keys d)"

lemma foreign_rules_cong:
  assumes "rt_providers d' = rt_providers d" and "rt_groups d' = rt_groups d"
    and "filter (\<lambda>r. rr_tenant r \<noteq> t) (rt_rules d') = filter (\<lambda>r. rr_tenant r \<noteq> t) (rt_rules d)"
    and "\<And>ids. ids = rr_id ` {r \<in> set (rt_rules d). rr_tenant r \<noteq> t} \<Longrightarrow>
      filter (\<lambda>k. rk_rule k \<in> ids) (rt_rule_keys d') = filter (\<lambda>k. rk_rule k \<in> ids) (rt_rule_keys d)"
  shows "foreign t d' = foreign t d"
proof -
  have "{r \<in> set (rt_rules d'). rr_tenant r \<noteq> t} = {r \<in> set (rt_rules d). rr_tenant r \<noteq> t}"
    using arg_cong [OF assms(3), of set] by simp
  then show ?thesis using assms by (simp add: foreign_def)
qed

lemma own_rule_not_foreign:
  assumes "keys_distinct d" and "old \<in> set (rt_rules d)" and "rr_tenant old = t"
  shows "rr_id old \<notin> rr_id ` {r \<in> set (rt_rules d). rr_tenant r \<noteq> t}"
  using assms by (auto simp: keys_distinct_def distinct_map inj_on_def)

lemma replace_rule_ok:
  assumes "old \<in> set (rt_rules d)" and "rr_tenant old = t" and "rr_tenant r = t" and "rr_id r = rr_id old"
    and d': "d' = d\<lparr>rt_rules := map (\<lambda>x. if rr_id x = rr_id r then r else x) (rt_rules d)\<rparr>" and "keys_distinct d"
  shows "keys_distinct d'" and "row_ids d' \<subseteq> row_ids d" and "foreign t d' = foreign t d"
proof -
  have dist: "distinct (map rr_id (rt_rules d))" using assms(6) by (simp add: keys_distinct_def)
  note rep = replace_row [of rr_id "rt_rules d" old "\<lambda>p. rr_tenant p = t" r, OF dist assms(1-4)]
  show "keys_distinct d'" using assms(6) rep(2) by (simp add: keys_distinct_def d' del: map_map)
  show "row_ids d' \<subseteq> row_ids d" using assms(1,4) by (auto simp: row_ids_def d')
  show "foreign t d' = foreign t d" by (rule foreign_rules_cong) (use rep(1) in \<open>simp_all add: d'\<close>)
qed

lemma remove_rule_ok:
  assumes "old \<in> set (rt_rules d)" and "rr_tenant old = t"
    and d': "d' = d\<lparr>rt_rules := filter (\<lambda>x. rr_id x \<noteq> rr_id old) (rt_rules d), rt_rule_keys := filter (\<lambda>k. rk_rule k \<noteq> rr_id old) (rt_rule_keys d)\<rparr>"
    and "keys_distinct d"
  shows "keys_distinct d'" and "row_ids d' \<subseteq> row_ids d" and "foreign t d' = foreign t d"
proof -
  have dist: "distinct (map rr_id (rt_rules d))" using assms(4) by (simp add: keys_distinct_def)
  note rem = remove_row [of rr_id "rt_rules d" old "\<lambda>p. rr_tenant p = t", OF dist assms(1,2)]
  show "keys_distinct d'" using assms(4) rem(2) by (simp add: keys_distinct_def d')
  show "row_ids d' \<subseteq> row_ids d" by (auto simp: row_ids_def d')
  show "foreign t d' = foreign t d"
    by (rule foreign_rules_cong) (use rem(1) own_rule_not_foreign [OF assms(4,1,2)] in \<open>auto simp: d' intro!: filter_cong\<close>)
qed

lemma rule_keys_ok:
  assumes "old \<in> set (rt_rules d)" and "rr_tenant old = t"
    and d': "d' = d\<lparr>rt_rule_keys := ks\<rparr>" and ks: "filter (\<lambda>k. rk_rule k \<noteq> rr_id old) ks = filter (\<lambda>k. rk_rule k \<noteq> rr_id old) (rt_rule_keys d)"
    and "keys_distinct d"
  shows "keys_distinct d'" and "row_ids d' \<subseteq> row_ids d" and "foreign t d' = foreign t d"
proof -
  show "keys_distinct d'" "row_ids d' \<subseteq> row_ids d" using assms(5) by (simp_all add: d' keys_distinct_def row_ids_def)
  have "filter (\<lambda>k. rk_rule k \<in> ids) ks = filter (\<lambda>k. rk_rule k \<in> ids) (rt_rule_keys d)" if "rr_id old \<notin> ids" for ids
  proof -
    have "filter (\<lambda>k. rk_rule k \<in> ids) xs = filter (\<lambda>k. rk_rule k \<in> ids) (filter (\<lambda>k. rk_rule k \<noteq> rr_id old) xs)" for xs
      using that by (induction xs) auto
    then show ?thesis using ks by metis
  qed
  then show "foreign t d' = foreign t d"
    by (intro foreign_rules_cong) (use own_rule_not_foreign [OF assms(5,1,2)] in \<open>simp_all add: d'\<close>)
qed

lemma group_rows_ok:
  assumes "g \<in> set (rt_groups d)" and "rg_tenant g = t" and "keys_distinct d"
  shows "rg_tenant g' = t \<Longrightarrow> rg_id g' = rg_id g \<Longrightarrow> d' = d\<lparr>rt_groups := map (\<lambda>x. if rg_id x = rg_id g then g' else x) (rt_groups d)\<rparr> \<Longrightarrow>
      keys_distinct d' \<and> row_ids d' \<subseteq> row_ids d \<and> foreign t d' = foreign t d"
    and "d' = d\<lparr>rt_groups := filter (\<lambda>x. rg_id x \<noteq> rg_id g) (rt_groups d)\<rparr> \<Longrightarrow>
      keys_distinct d' \<and> row_ids d' \<subseteq> row_ids d \<and> foreign t d' = foreign t d"
proof -
  have dist: "distinct (map rg_id (rt_groups d))" using assms(3) by (simp add: keys_distinct_def)
  show "keys_distinct d' \<and> row_ids d' \<subseteq> row_ids d \<and> foreign t d' = foreign t d"
    if "rg_tenant g' = t" "rg_id g' = rg_id g" and d': "d' = d\<lparr>rt_groups := map (\<lambda>x. if rg_id x = rg_id g then g' else x) (rt_groups d)\<rparr>"
  proof -
    note rep = replace_row [of rg_id "rt_groups d" g "\<lambda>p. rg_tenant p = t" g', OF dist assms(1,2) that(1,2)]
    have "keys_distinct d'" using assms(3) rep(2) that(2) by (simp add: keys_distinct_def d' del: map_map)
    moreover have "row_ids d' \<subseteq> row_ids d" using assms(1) that(2) by (auto simp: row_ids_def d')
    moreover have "foreign t d' = foreign t d" by (rule foreign_cong) (use rep(1) that(2) in \<open>simp_all add: d'\<close>)
    ultimately show ?thesis by simp
  qed
  show "keys_distinct d' \<and> row_ids d' \<subseteq> row_ids d \<and> foreign t d' = foreign t d"
    if d': "d' = d\<lparr>rt_groups := filter (\<lambda>x. rg_id x \<noteq> rg_id g) (rt_groups d)\<rparr>"
  proof -
    note rem = remove_row [of rg_id "rt_groups d" g "\<lambda>p. rg_tenant p = t", OF dist assms(1,2)]
    have "keys_distinct d'" using assms(3) rem(2) by (simp add: keys_distinct_def d')
    moreover have "row_ids d' \<subseteq> row_ids d" by (auto simp: row_ids_def d')
    moreover have "foreign t d' = foreign t d" by (rule foreign_cong) (use rem(1) in \<open>simp_all add: d'\<close>)
    ultimately show ?thesis by simp
  qed
qed


section \<open>Handlers\<close>

lemma reading_confined: "reading t s0 d s \<Longrightarrow> confined t s0 s"
  by (simp add: reading_def)

lemma hoare_reads:
  "hoare (reading t s0 d) (k (g d)) Q E \<Longrightarrow> hoare (reading t s0 d) (bindS (getS (\<lambda>s. g (ls_routing s))) k) Q E"
  by (auto simp: hoare_def reading_def bindS_def)

lemma hoare_checks: "(\<And>s. P s \<Longrightarrow> E s) \<Longrightarrow> (\<And>x. r = Inr x \<Longrightarrow> hoare P (k x) Q E) \<Longrightarrow> hoare P (bindS (liftS r) k) Q E"
  by (cases r) (auto simp: hoare_def bindS_def)

lemma hoare_guard: "(\<And>s. P s \<Longrightarrow> E s) \<Longrightarrow> hoare P k Q E \<Longrightarrow> hoare P (bindS (require_llm_admin u) (\<lambda>_. k)) Q E"
  by (rule hoare_bind [OF hoare_admin])

lemma hoare_finish: "hoare P m (\<lambda>_. Q) E \<Longrightarrow> hoare P (bindS m (\<lambda>_. returnS x)) (\<lambda>_. Q) E"
  by (rule hoare_bind) (auto intro: hoare_return)

text \<open>A new id is not the id of a row.\<close>

definition issued :: "uuid \<Rightarrow> llm_state \<Rightarrow> routing_db \<Rightarrow> uuid \<Rightarrow> llm_state \<Rightarrow> bool" where
  "issued t s0 d i s \<longleftrightarrow> reading t s0 d s \<and> i \<notin> row_ids d \<and> i \<in> ls_ids s ` {..<ls_next s}"

lemma issue_next: "reading t s0 d s \<Longrightarrow> issued t s0 d (ls_ids s (ls_next s)) (s\<lparr>ls_next := Suc (ls_next s)\<rparr>)"
  by (auto simp: issued_def reading_def confined_def ids_ok_alt untouched_def inj_eq lessThan_Suc image_iff)

lemma hoare_new_id: "hoare (reading t s0 d) new_id (issued t s0 d) (confined t s0)"
  by (auto simp: hoare_def new_id_def issue_next)

lemma confined_insert:
  assumes "issued t s0 d i s" and "keys_distinct d'" and "row_ids d' = insert i (row_ids d)" and "foreign t d' = foreign t d"
  shows "same_rows t rows s0 \<Longrightarrow> confined t s0 (s\<lparr>ls_integrations := rows, ls_routing := d'\<rparr>)"
    and "confined t s0 (s\<lparr>ls_routing := d'\<rparr>)"
  using assms by (auto simp: issued_def reading_def confined_def ids_ok_alt untouched_def same_rows_def)

lemma issued_distinct: "issued t s0 d i s \<Longrightarrow> keys_distinct d \<and> i \<notin> row_ids d \<and> ls_routing s = d"
  by (auto simp: issued_def reading_def confined_def ids_ok_alt)

lemma add_provider_ok:
  assumes "keys_distinct d" and "i \<notin> row_ids d" and "lp_id p = i" and "lp_tenant p = t" and d': "d' = d\<lparr>rt_providers := rt_providers d @ [p]\<rparr>"
  shows "keys_distinct d'" and "row_ids d' = insert i (row_ids d)" and "foreign t d' = foreign t d"
  using assms by (auto simp: keys_distinct_def row_ids_def intro!: foreign_cong)

lemma add_group_ok:
  assumes "keys_distinct d" and "i \<notin> row_ids d" and "rg_id g = i" and "rg_tenant g = t" and d': "d' = d\<lparr>rt_groups := rt_groups d @ [g]\<rparr>"
  shows "keys_distinct d'" and "row_ids d' = insert i (row_ids d)" and "foreign t d' = foreign t d"
  using assms by (auto simp: keys_distinct_def row_ids_def intro!: foreign_cong)

lemma add_rule_ok:
  assumes "keys_distinct d" and "i \<notin> row_ids d" and "rr_id r = i" and "rr_tenant r = t" and d': "d' = d\<lparr>rt_rules := rt_rules d @ [r]\<rparr>"
  shows "keys_distinct d'" and "row_ids d' = insert i (row_ids d)" and "foreign t d' = foreign t d"
  using assms by (auto simp: keys_distinct_def row_ids_def intro!: foreign_rules_cong)

lemma hoare_add_provider:
  assumes "\<And>i. lp_id (row i) = i" and "\<And>i. lp_tenant (row i) = t"
  shows "hoare (\<lambda>s. reading t s0 d s \<and> same_rows t rows s0)
      (bindS new_id (\<lambda>i. bindS (modifyS (\<lambda>s. s\<lparr>ls_integrations := rows,
         ls_routing := (ls_routing s)\<lparr>rt_providers := rt_providers (ls_routing s) @ [row i]\<rparr>\<rparr>)) (\<lambda>_. returnS (row i))))
      (\<lambda>_. confined t s0) (confined t s0)"
proof (rule hoare_pure, rule hoare_bind [OF hoare_new_id], rule hoare_finish, rule hoare_modify)
  fix i s assume same: "same_rows t rows s0" and new: "issued t s0 d i s"
  note here = issued_distinct [OF new]
  note added = add_provider_ok [OF _ _ assms refl, of d i]
  show "confined t s0 (s\<lparr>ls_integrations := rows, ls_routing := (ls_routing s)\<lparr>rt_providers := rt_providers (ls_routing s) @ [row i]\<rparr>\<rparr>)"
    using confined_insert(1) [OF new added same] here by simp
qed

lemma create_provider_confined:
  "hoare (reading (us_tenant u) s0 d) (create_llm_provider settings u p) (\<lambda>_. confined (us_tenant u) s0) (confined (us_tenant u) s0)"
proof -
  let ?t = "us_tenant u"
  show ?thesis
    unfolding create_llm_provider_def Let_def
    by (intro hoare_guard hoare_if hoare_raise hoare_reads [where g = rt_providers] hoare_checks hoare_option reading_confined,
        assumption+, rule hoare_bind [OF hoare_api_key], simp only: case_prod_beta, rule hoare_add_provider) simp_all
qed

definition same_owner :: "routed_provider \<Rightarrow> routed_provider \<Rightarrow> bool" where
  "same_owner q p \<longleftrightarrow> lp_id q = lp_id p \<and> lp_tenant q = lp_tenant p"

lemma changed_owner:
  "renamed ps n p = Inr q \<Longrightarrow> same_owner q p" "retyped t p = Inr q \<Longrightarrow> same_owner q p" "moved u p = Inr q \<Longrightarrow> same_owner q p"
  "weighed w p = Inr q \<Longrightarrow> same_owner q p"
  by (auto simp: renamed_def retyped_def moved_def weighed_def same_owner_def Let_def bindE_eq_Inr_iff split: option.splits if_splits)

lemma same_owner_trans: "same_owner q p \<Longrightarrow> same_owner p r \<Longrightarrow> same_owner q r"
  by (simp add: same_owner_def)

lemma updated_keeps:
  assumes "updated_provider ps u p = Inr q"
  shows "lp_id q = lp_id p \<and> lp_tenant q = lp_tenant p"
proof -
  let ?active = "\<lambda>c. c\<lparr>lp_is_active := (case pu_is_active u of None \<Rightarrow> lp_is_active c | Some x \<Rightarrow> x)\<rparr>"
  from assms obtain a where a: "renamed ps (pu_name u) p = Inr a" and
    1: "bindE (retyped (pu_provider_type u) a) (\<lambda>p. bindE (moved u p) (\<lambda>p. bindE (weighed (pu_percentage u) (?active p))
       (\<lambda>p. case pu_model_aliases u of None \<Rightarrow> Inr (costed u p)
          | Some as \<Rightarrow> bindE (merge_aliases [] as) (\<lambda>merged. Inr ((costed u p)\<lparr>lp_model_aliases := merged\<rparr>))))) = Inr q"
    unfolding updated_provider_def bindE_eq_Inr_iff by blast
  from 1 obtain b c where b: "retyped (pu_provider_type u) a = Inr b" and c: "moved u b = Inr c" and
    2: "bindE (weighed (pu_percentage u) (?active c)) (\<lambda>p. case pu_model_aliases u of None \<Rightarrow> Inr (costed u p)
          | Some as \<Rightarrow> bindE (merge_aliases [] as) (\<lambda>merged. Inr ((costed u p)\<lparr>lp_model_aliases := merged\<rparr>))) = Inr q"
    unfolding bindE_eq_Inr_iff by blast
  from 2 obtain d where d: "weighed (pu_percentage u) (?active c) = Inr d" and q: "lp_id q = lp_id d \<and> lp_tenant q = lp_tenant d"
    by (auto simp: bindE_eq_Inr_iff costed_def split: option.splits)
  have "same_owner (?active c) c" by (simp add: same_owner_def)
  then have "same_owner d p"
    using changed_owner(1) [OF a] changed_owner(2) [OF b] changed_owner(3) [OF c] changed_owner(4) [OF d] by (blast intro: same_owner_trans)
  then show ?thesis using q by (simp add: same_owner_def)
qed

lemma hoare_replace_provider:
  assumes "old \<in> set (rt_providers d)" and "lp_tenant old = t" and "lp_tenant p = t" and "lp_id p = lp_id old"
  shows "hoare (\<lambda>s. reading t s0 d s \<and> same_rows t rows s0)
      (bindS (modifyS (\<lambda>s. s\<lparr>ls_integrations := rows, ls_routing := replace_provider p (ls_routing s)\<rparr>)) (\<lambda>_. returnS p))
      (\<lambda>_. confined t s0) (confined t s0)"
proof (rule hoare_pure, rule hoare_finish, rule hoare_modify)
  fix s assume same: "same_rows t rows s0" and r: "reading t s0 d s"
  show "confined t s0 (s\<lparr>ls_integrations := rows, ls_routing := replace_provider p (ls_routing s)\<rparr>)"
    using confined_write(1) [OF r replace_provider_ok [OF assms] same] r by (simp add: reading_def)
qed

lemma update_provider_confined:
  "hoare (reading (us_tenant u) s0 d) (update_llm_provider settings u i p) (\<lambda>_. confined (us_tenant u) s0) (confined (us_tenant u) s0)"
  unfolding update_llm_provider_def Let_def
proof (intro hoare_guard hoare_reads [where g = rt_providers] hoare_checks reading_confined, assumption+)
  fix old q assume "get_provider_or_404 (rt_providers d) (us_tenant u) i = Inr old" and "updated_provider (rt_providers d) p old = Inr q"
  then have "old \<in> set (rt_providers d)" "lp_tenant old = us_tenant u" "lp_tenant q = us_tenant u" "lp_id q = lp_id old"
    using provider_found updated_keeps by fastforce+
  then show "hoare (reading (us_tenant u) s0 d)
      (bindS (apply_provider_api_key settings (us_tenant u) (lp_provider_type q) (lp_id q) (pu_api_key p))
        (\<lambda>(column, rows). bindS (modifyS (\<lambda>s. s\<lparr>ls_integrations := rows,
            ls_routing := replace_provider (case column of None \<Rightarrow> q | Some c \<Rightarrow> q\<lparr>lp_api_key := c\<rparr>) (ls_routing s)\<rparr>))
          (\<lambda>_. returnS (case column of None \<Rightarrow> q | Some c \<Rightarrow> q\<lparr>lp_api_key := c\<rparr>))))
      (\<lambda>_. confined (us_tenant u) s0) (confined (us_tenant u) s0)"
    by (intro hoare_bind [OF hoare_api_key]) (auto simp: case_prod_beta intro!: hoare_replace_provider [where old = old] split: option.split)
qed

lemma delete_provider_confined:
  "hoare (reading (us_tenant u) s0 d) (delete_llm_provider u i) (\<lambda>_. confined (us_tenant u) s0) (confined (us_tenant u) s0)"
  unfolding delete_llm_provider_def
  by (intro hoare_guard hoare_reads [where g = rt_providers] hoare_checks reading_confined, assumption+,
      rule hoare_bind [OF hoare_provider_secret], rule hoare_write)
     (auto dest: provider_found intro: remove_provider_ok(1,2,3) [OF _ _ refl refl] remove_provider_ok(2) [OF _ _ refl refl, THEN subsetD])

lemma rebalance_keeps:
  assumes "keys_distinct d" and "rebalance_provider_percentages (rt_providers d) t = (n, ps)" and "0 < n"
  shows "keys_distinct (d\<lparr>rt_providers := ps\<rparr>)" and "row_ids (d\<lparr>rt_providers := ps\<rparr>) \<subseteq> row_ids d"
    and "foreign t (d\<lparr>rt_providers := ps\<rparr>) = foreign t d"
proof -
  have "lp_id (case find (\<lambda>q. lp_id q = lp_id p) xs of Some q \<Rightarrow> q | None \<Rightarrow> p) = lp_id p" for p :: routed_provider and xs
    by (auto simp: find_Some_iff split: option.split)
  then have ids: "map lp_id ps = map lp_id (rt_providers d)"
    using assms(2) by (auto simp: rebalance_provider_percentages_def Let_def split: if_splits)
  show "keys_distinct (d\<lparr>rt_providers := ps\<rparr>)" using assms(1) ids by (simp add: keys_distinct_def)
  have "lp_id ` set ps = lp_id ` set (rt_providers d)" using ids by (metis list.set_map)
  then show "row_ids (d\<lparr>rt_providers := ps\<rparr>) \<subseteq> row_ids d" by (auto simp: row_ids_def)
  have "distinct (map lp_id (rt_providers d))" using assms(1) by (simp add: keys_distinct_def)
  note others = active_after_rebalance(3) [OF this assms(2,3)]
  have narrow: "filter (\<lambda>p. lp_tenant p \<noteq> t) xs = filter (\<lambda>p. lp_tenant p \<noteq> t) (filter (\<lambda>p. \<not> (lp_tenant p = t \<and> lp_is_active p)) xs)"
    for xs :: "routed_provider list" by (induction xs) auto
  have "filter (\<lambda>p. lp_tenant p \<noteq> t) ps = filter (\<lambda>p. lp_tenant p \<noteq> t) (rt_providers d)"
    using others narrow [of ps] narrow [of "rt_providers d"] by simp
  then show "foreign t (d\<lparr>rt_providers := ps\<rparr>) = foreign t d" by (intro foreign_cong) simp_all
qed

lemma rebalance_confined:
  "hoare (reading (us_tenant u) s0 d) (rebalance_llm_provider_percentages u) (\<lambda>_. confined (us_tenant u) s0) (confined (us_tenant u) s0)"
  unfolding rebalance_llm_provider_percentages_def
proof (intro hoare_guard hoare_reads [where g = "\<lambda>d. rebalance_provider_percentages (rt_providers d) (us_tenant u)"] hoare_prod hoare_if hoare_raise
    reading_confined, assumption+)
  fix n ps assume "rebalance_provider_percentages (rt_providers d) (us_tenant u) = (n, ps)" and "\<not> n \<le> 0"
  then show "hoare (reading (us_tenant u) s0 d) (bindS (on_routing (rt_providers_update (\<lambda>_. ps))) (\<lambda>_. returnS n))
      (\<lambda>_. confined (us_tenant u) s0) (confined (us_tenant u) s0)"
    by (intro hoare_finish hoare_write) (simp_all add: rebalance_keeps)
qed

text \<open>Rules.\<close>

lemma rule_of_request_own: "rule_of_request ps t p i = Inr r \<Longrightarrow> rr_id r = i \<and> rr_tenant r = t"
  by (auto simp: rule_of_request_def bindE_eq_Inr_iff split: if_splits)

lemma updated_rule_keeps: "updated_rule ps u r = Inr q \<Longrightarrow> rr_id q = rr_id r \<and> rr_tenant q = rr_tenant r"
  by (auto simp: updated_rule_def bindE_eq_Inr_iff)

lemma create_rule_confined:
  "hoare (reading (us_tenant u) s0 d) (create_routing_rule u p) (\<lambda>_. confined (us_tenant u) s0) (confined (us_tenant u) s0)"
proof -
  let ?t = "us_tenant u"
  have step: "case (bindS (getS (\<lambda>s. rule_of_request ps ?t p (ls_ids s (ls_next s))))
      (\<lambda>checked. bindS (liftS checked) (\<lambda>rule. bindS new_id
        (\<lambda>_. bindS (on_routing (\<lambda>db. db\<lparr>rt_rules := rt_rules db @ [rule]\<rparr>)) (\<lambda>_. returnS rule))))) s of
      (_, s') \<Rightarrow> confined ?t s0 s'" if r: "reading ?t s0 d s" for s ps
  proof (cases "rule_of_request ps ?t p (ls_ids s (ls_next s))")
    case (Inl e)
    then show ?thesis using r by (simp add: bindS_def reading_def)
  next
    case (Inr rule)
    note new = issue_next [OF r] and own = rule_of_request_own [OF Inr]
    note added = add_rule_ok [OF _ _ own [THEN conjunct1] own [THEN conjunct2] refl, of d]
    show ?thesis
      using confined_insert(2) [OF new added] issued_distinct [OF new] Inr
      by (simp add: bindS_def new_id_def on_routing_def)
  qed
  show ?thesis
    unfolding create_routing_rule_def
    by (intro hoare_guard hoare_reads [where g = rt_providers] reading_confined, assumption, unfold hoare_def)
       (use step in \<open>auto split: prod.splits sum.splits\<close>)
qed

lemma hoare_write_rule:
  assumes "rr_tenant old = t" and "old \<in> set (rt_rules d)" and "rr_tenant r = t" and "rr_id r = rr_id old"
  shows "hoare (reading t s0 d) (on_routing (\<lambda>db. db\<lparr>rt_rules := map (\<lambda>x. if rr_id x = rr_id r then r else x) (rt_rules db)\<rparr>))
    (\<lambda>_. confined t s0) (confined t s0)"
  by (rule hoare_write) (use replace_rule_ok [OF assms(2,1,3,4) refl] in blast)+

lemma update_rule_confined:
  "hoare (reading (us_tenant u) s0 d) (update_routing_rule u i p) (\<lambda>_. confined (us_tenant u) s0) (confined (us_tenant u) s0)"
  unfolding update_routing_rule_def
proof (intro hoare_guard hoare_reads [where g = "\<lambda>d. d"] hoare_checks hoare_finish reading_confined, assumption+)
  fix old r assume "get_rule_or_404 (rt_rules d) (us_tenant u) i = Inr old" and "updated_rule (rt_providers d) p old = Inr r"
  then have "rr_tenant old = us_tenant u" "old \<in> set (rt_rules d)" "rr_tenant r = us_tenant u" "rr_id r = rr_id old"
    using rule_found updated_rule_keeps by fastforce+
  then show "hoare (reading (us_tenant u) s0 d) (on_routing (\<lambda>db. db\<lparr>rt_rules := map (\<lambda>x. if rr_id x = rr_id r then r else x) (rt_rules db)\<rparr>))
      (\<lambda>_. confined (us_tenant u) s0) (confined (us_tenant u) s0)"
    by (rule hoare_write_rule)
qed

lemma delete_rule_confined:
  "hoare (reading (us_tenant u) s0 d) (delete_routing_rule u i) (\<lambda>_. confined (us_tenant u) s0) (confined (us_tenant u) s0)"
  unfolding delete_routing_rule_def
proof (intro hoare_guard hoare_reads [where g = "\<lambda>d. d"] hoare_checks reading_confined, assumption+)
  fix r assume "get_rule_or_404 (rt_rules d) (us_tenant u) i = Inr r"
  then have r: "r \<in> set (rt_rules d)" "rr_tenant r = us_tenant u" by (auto dest: rule_found)
  show "hoare (reading (us_tenant u) s0 d) (on_routing (\<lambda>db. db\<lparr>rt_rules := filter (\<lambda>x. rr_id x \<noteq> rr_id r) (rt_rules db),
      rt_rule_keys := filter (\<lambda>k. rk_rule k \<noteq> rr_id r) (rt_rule_keys db)\<rparr>)) (\<lambda>_. confined (us_tenant u) s0) (confined (us_tenant u) s0)"
    by (rule hoare_write) (use remove_rule_ok [OF r refl] in blast)+
qed

lemma hoare_rule_and_key:
  "hoare (reading (us_tenant u) s0 d) (rule_and_key u i k)
     (\<lambda>(r, _) s. reading (us_tenant u) s0 d s \<and> r \<in> set (rt_rules d) \<and> rr_tenant r = us_tenant u) (confined (us_tenant u) s0)"
  unfolding rule_and_key_def
proof (intro hoare_guard hoare_reads [where g = "\<lambda>d. d"] hoare_checks reading_confined, assumption+)
  fix r assume "get_rule_or_404 (rt_rules d) (us_tenant u) i = Inr r"
  then have r: "r \<in> set (rt_rules d)" "rr_tenant r = us_tenant u" by (auto dest: rule_found)
  show "hoare (reading (us_tenant u) s0 d) (bindS (getS ls_client_keys)
      (\<lambda>keys. bindS (liftS (get_client_api_key keys (us_tenant u) k)) (\<lambda>key. returnS (r, key))))
      (\<lambda>(r, _) s. reading (us_tenant u) s0 d s \<and> r \<in> set (rt_rules d) \<and> rr_tenant r = us_tenant u) (confined (us_tenant u) s0)"
    using r by (auto simp: hoare_def bindS_def reading_confined split: sum.splits)
qed

lemma hoare_write_keys:
  assumes "r \<in> set (rt_rules d)" and "rr_tenant r = t" and "\<And>ks. filter (\<lambda>k. rk_rule k \<noteq> rr_id r) (f ks) = filter (\<lambda>k. rk_rule k \<noteq> rr_id r) ks"
  shows "hoare (reading t s0 d) (on_routing (\<lambda>db. db\<lparr>rt_rule_keys := f (rt_rule_keys db)\<rparr>)) (\<lambda>_. confined t s0) (confined t s0)"
  by (rule hoare_write) (use rule_keys_ok [OF assms(1,2) refl assms(3)] in blast)+

lemma hoare_then_get: "hoare P m (\<lambda>_. Q) E \<Longrightarrow> hoare P (bindS m (\<lambda>_. getS f)) (\<lambda>_. Q) E"
  by (rule hoare_bind) (auto simp: hoare_def)

lemma unassign_confined:
  "hoare (reading (us_tenant u) s0 d) (unassign_routing_rule_client_key u i k) (\<lambda>_. confined (us_tenant u) s0) (confined (us_tenant u) s0)"
  unfolding unassign_routing_rule_client_key_def
  by (rule hoare_bind [OF hoare_rule_and_key], rule hoare_prod, clarsimp, rule hoare_pure, rule hoare_then_get, elim conjE, rule hoare_write_keys)
     (auto intro!: filter_cong)

lemma assign_confined:
  "hoare (reading (us_tenant u) s0 d) (assign_routing_rule_client_key u i k) (\<lambda>_. confined (us_tenant u) s0) (confined (us_tenant u) s0)"
proof -
  let ?t = "us_tenant u"
  have "hoare (reading ?t s0 d) (bindS (getS ls_routing)
      (\<lambda>db. bindS (liftS (scalar_one_or_none (filter (\<lambda>k. rk_rule k = rr_id r \<and> rk_key k = key) (rt_rule_keys db))))
        (\<lambda>existing. bindS (if existing = None
            then on_routing (\<lambda>db. db\<lparr>rt_rule_keys := rt_rule_keys db @ [\<lparr>rk_rule = rr_id r, rk_key = key\<rparr>]\<rparr>) else returnS ())
          (\<lambda>_. getS (\<lambda>s. list_routing_rule_client_keys s ?t (rr_id r)))))) (\<lambda>_. confined ?t s0) (confined ?t s0)"
    if r: "r \<in> set (rt_rules d)" "rr_tenant r = ?t" for r key
    by (intro hoare_reads [where g = "\<lambda>d. d"] hoare_checks hoare_then_get hoare_if hoare_return reading_confined
          hoare_write_keys [OF r, where f = "\<lambda>ks. ks @ [\<lparr>rk_rule = rr_id r, rk_key = key\<rparr>]"]) (assumption | simp)+
  then show ?thesis
    unfolding assign_routing_rule_client_key_def
    by (intro hoare_bind [OF hoare_rule_and_key]) (auto intro!: hoare_prod hoare_pure)
qed

text \<open>Groups.\<close>

lemma create_group_confined:
  "hoare (reading (us_tenant u) s0 d) (create_routing_group u p) (\<lambda>_. confined (us_tenant u) s0) (confined (us_tenant u) s0)"
  unfolding create_routing_group_def Let_def on_routing_def
proof (rule hoare_bind [OF hoare_new_id], rule hoare_finish, rule hoare_modify)
  fix i s assume new: "issued (us_tenant u) s0 d i s"
  note here = issued_distinct [OF new]
  let ?g = "\<lparr>rg_id = i, rg_tenant = us_tenant u, rg_name = gp_name p, rg_description = gp_description p, rg_strategy = gp_strategy p, rg_members = gp_members p, rg_status = gp_status p\<rparr>"
  note added = add_group_ok [of d i ?g, OF _ _ _ _ refl, of "us_tenant u"]
  show "confined (us_tenant u) s0 (s\<lparr>ls_routing := (ls_routing s)\<lparr>rt_groups := rt_groups (ls_routing s) @ [?g]\<rparr>\<rparr>)"
    using confined_insert(2) [OF new added] here by simp
qed

lemma update_group_confined:
  "hoare (reading (us_tenant u) s0 d) (update_routing_group u i p) (\<lambda>_. confined (us_tenant u) s0) (confined (us_tenant u) s0)"
  unfolding update_routing_group_def Let_def
proof (intro hoare_reads [where g = rt_groups] hoare_checks hoare_finish reading_confined, assumption)
  fix g assume "find_group (rt_groups d) (us_tenant u) i = Inr g"
  then have g: "g \<in> set (rt_groups d)" "rg_tenant g = us_tenant u" "i = rg_id g" by (auto dest: group_found)
  have same: "rg_tenant (updated_group p g) = us_tenant u" "rg_id (updated_group p g) = rg_id g" using g by (simp_all add: updated_group_def)
  show "hoare (reading (us_tenant u) s0 d)
      (on_routing (\<lambda>db. db\<lparr>rt_groups := map (\<lambda>x. if rg_id x = i then updated_group p g else x) (rt_groups db)\<rparr>))
      (\<lambda>_. confined (us_tenant u) s0) (confined (us_tenant u) s0)"
    unfolding g(3) by (rule hoare_write) (use group_rows_ok(1) [OF g(1,2) _ same refl] in blast)+
qed

lemma delete_group_confined:
  "hoare (reading (us_tenant u) s0 d) (delete_routing_group u i) (\<lambda>_. confined (us_tenant u) s0) (confined (us_tenant u) s0)"
  unfolding delete_routing_group_def
proof (intro hoare_reads [where g = rt_groups] hoare_checks reading_confined, assumption)
  fix g assume "find_group (rt_groups d) (us_tenant u) i = Inr g"
  then have g: "g \<in> set (rt_groups d)" "rg_tenant g = us_tenant u" "i = rg_id g" by (auto dest: group_found)
  show "hoare (reading (us_tenant u) s0 d) (on_routing (\<lambda>db. db\<lparr>rt_groups := filter (\<lambda>x. rg_id x \<noteq> i) (rt_groups db)\<rparr>))
      (\<lambda>_. confined (us_tenant u) s0) (confined (us_tenant u) s0)"
    unfolding g(3) by (rule hoare_write) (use group_rows_ok(2) [OF g(1,2) _ refl] in blast)+
qed

section \<open>All handlers\<close>

datatype llm_request =
    CreateProvider provider_create
  | UpdateProvider string provider_update
  | DeleteProvider string
  | Rebalance
  | CreateRule rule_create
  | UpdateRule string rule_update
  | DeleteRule string
  | AssignKey string string
  | UnassignKey string string
  | CreateGroup group_create
  | UpdateGroup uuid group_update
  | DeleteGroup uuid

definition done_with :: "'a llm \<Rightarrow> unit llm" where
  "done_with m = bindS m (\<lambda>_. returnS ())"

fun handle :: "gateway_settings \<Rightarrow> user \<Rightarrow> llm_request \<Rightarrow> unit llm" where
  "handle settings u (CreateProvider p) = done_with (create_llm_provider settings u p)"
| "handle settings u (UpdateProvider i p) = done_with (update_llm_provider settings u i p)"
| "handle settings u (DeleteProvider i) = delete_llm_provider u i"
| "handle settings u Rebalance = done_with (rebalance_llm_provider_percentages u)"
| "handle settings u (CreateRule p) = done_with (create_routing_rule u p)"
| "handle settings u (UpdateRule i p) = done_with (update_routing_rule u i p)"
| "handle settings u (DeleteRule i) = delete_routing_rule u i"
| "handle settings u (AssignKey i k) = done_with (assign_routing_rule_client_key u i k)"
| "handle settings u (UnassignKey i k) = done_with (unassign_routing_rule_client_key u i k)"
| "handle settings u (CreateGroup p) = done_with (create_routing_group u p)"
| "handle settings u (UpdateGroup i p) = done_with (update_routing_group u i p)"
| "handle settings u (DeleteGroup i) = delete_routing_group u i"

lemma handle_confined:
  "hoare (reading (us_tenant u) s0 d) (handle settings u r) (\<lambda>_. confined (us_tenant u) s0) (confined (us_tenant u) s0)"
  by (cases r) (auto simp: done_with_def intro!: hoare_finish create_provider_confined update_provider_confined delete_provider_confined
    rebalance_confined create_rule_confined update_rule_confined delete_rule_confined assign_confined unassign_confined
    create_group_confined update_group_confined delete_group_confined)

text \<open>Any number of requests of one tenant, whatever they are and whether they succeed or not.\<close>

definition serve :: "gateway_settings \<Rightarrow> (user \<times> llm_request) list \<Rightarrow> llm_state \<Rightarrow> llm_state" where
  "serve settings requests s = foldl (\<lambda>s (u, r). snd (handle settings u r s)) s requests"

lemma untouched_trans: "untouched t s0 s1 \<Longrightarrow> untouched t s1 s2 \<Longrightarrow> untouched t s0 s2"
  by (auto simp: untouched_def intro: same_vault_trans)

lemma handle_step: "ids_ok s \<Longrightarrow> confined (us_tenant u) s (snd (handle settings u r s))"
  using handle_confined [of u s "ls_routing s" settings r] confined_refl [of s "us_tenant u"]
  by (cases "handle settings u r s"; cases "fst (handle settings u r s)") (auto simp: reading_def dest: hoareD)

text \<open>Without the permission the handlers of providers, rules and keys do nothing.\<close>

definition on_groups :: "llm_request \<Rightarrow> bool" where
  "on_groups r \<longleftrightarrow> (case r of CreateGroup _ \<Rightarrow> True | UpdateGroup _ _ \<Rightarrow> True | DeleteGroup _ \<Rightarrow> True | _ \<Rightarrow> False)"

lemma permission_needed:
  assumes "require_permission MANAGE_LLM_PROVIDERS u = Inl e" and "\<not> on_groups r"
  shows "handle settings u r s = (Inl e, s)"
  using assms
  by (cases r) (simp_all add: on_groups_def done_with_def create_llm_provider_def update_llm_provider_def delete_llm_provider_def
    rebalance_llm_provider_percentages_def create_routing_rule_def update_routing_rule_def delete_routing_rule_def
    assign_routing_rule_client_key_def unassign_routing_rule_client_key_def rule_and_key_def require_llm_admin_def bindS_def)

text \<open>C31: Whatever the users of one tenant ask of the administration of providers, rules, keys and groups, the rows, the keys, the
  credentials and the vault entries of all other tenants stay as they were and no two rows get the same id; and when none of them has the
  permission and none asks for a group, nothing changes at all.\<close>

theorem administration_confined:
  assumes "ids_ok s" and "\<forall>(u, r) \<in> set requests. us_tenant u = t"
  shows "untouched t s (serve settings requests s) \<and> ids_ok (serve settings requests s) \<and>
    ((\<forall>(u, r) \<in> set requests. \<not> on_groups r \<and> \<not> role_has_permission (us_role u) MANAGE_LLM_PROVIDERS) \<longrightarrow> serve settings requests s = s)"
  using assms
proof (induction requests arbitrary: s)
  case Nil
  then show ?case using confined_refl [of s t] by (simp add: serve_def confined_def)
next
  case (Cons x requests)
  obtain u r where x: "x = (u, r)" by (cases x)
  have "us_tenant u = t" using Cons.prems(2) x by simp
  then have step: "confined t s (snd (handle settings u r s))" using handle_step [OF Cons.prems(1), of u settings r] by simp
  have next_step: "serve settings (x # requests) s = serve settings requests (snd (handle settings u r s))" by (simp add: serve_def x)
  have still: "snd (handle settings u r s) = s" if "\<not> on_groups r" "\<not> role_has_permission (us_role u) MANAGE_LLM_PROVIDERS"
    using that permission_needed [of u _ r settings s] by (simp add: require_permission_def)
  note rest_of = Cons.IH [of "snd (handle settings u r s)"]
  show ?case
    unfolding next_step using step rest_of Cons.prems(2) still
    by (auto simp: confined_def x intro: untouched_trans)
qed

definition demo_settings :: gateway_settings where
  "demo_settings =
     \<lparr>gs_openai_api_key = None, gs_gemini_api_key = None, gs_gemini_default_model = ''gemini-1.5-pro'', gs_ollama_enabled = False,
      gs_ollama_base_url = ''http://ollama:11434'', gs_ollama_default_model = ''llama3.2'', gs_air_gap_mode = False\<rparr>"

definition two_tenants :: llm_state where
  "two_tenants =
     \<lparr>ls_routing = \<lparr>rt_providers = [], rt_groups = [], rt_rules = [(demo_rule ''x'' 10 ''gpt-4o''), (demo_rule [] 10 ''o1'')\<lparr>rr_tenant := ''other''\<rparr>],
        rt_rule_keys = []\<rparr>,
      ls_client_keys = [(''k'', ''t'')], ls_vault = \<lparr>va_enabled = False, va_up = True, va_store = []\<rparr>, ls_integrations = [],
      ls_ids = (\<lambda>n. replicate n CHR ''x''), ls_next = 2\<rparr>"

definition member :: user where
  "member = \<lparr>us_id = ''u'', us_tenant = ''t'', us_role = ''nobody''\<rparr>"

definition demo_group :: group_create where
  "demo_group = \<lparr>gp_name = ''pool'', gp_description = None, gp_strategy = ''weighted'', gp_members = [], gp_status = ''active''\<rparr>"

lemma two_tenants_ok: "ids_ok two_tenants"
proof -
  have "inj (\<lambda>n. replicate n CHR ''x'')" by (rule injI) (metis length_replicate)
  then show ?thesis by (simp add: ids_ok_def two_tenants_def demo_rule_def lessThan_Suc numeral_2_eq_2)
qed

theorem administration_confined_witness:
  "untouched ''t'' two_tenants (serve demo_settings [(member, CreateGroup demo_group), (member, Rebalance)] two_tenants) \<and>
   rt_groups (ls_routing (serve demo_settings [(member, CreateGroup demo_group)] two_tenants)) \<noteq> [] \<and>
   serve demo_settings [(member, Rebalance)] two_tenants = two_tenants"
proof -
  have "untouched ''t'' two_tenants (serve demo_settings [(member, CreateGroup demo_group), (member, Rebalance)] two_tenants)"
    using administration_confined [OF two_tenants_ok, of "[(member, CreateGroup demo_group), (member, Rebalance)]" "''t''" demo_settings]
    by (simp add: member_def)
  moreover have "\<not> role_has_permission ''nobody'' MANAGE_LLM_PROVIDERS" by code_simp
  then have "serve demo_settings [(member, Rebalance)] two_tenants = two_tenants"
    using administration_confined [OF two_tenants_ok, of "[(member, Rebalance)]" "''t''" demo_settings]
    by (simp add: member_def on_groups_def)
  moreover have "rt_groups (ls_routing (serve demo_settings [(member, CreateGroup demo_group)] two_tenants)) \<noteq> []"
    by (simp add: serve_def done_with_def create_routing_group_def Let_def new_id_def on_routing_def bindS_def)
  ultimately show ?thesis by simp
qed

text \<open>The key of a provider that is made with it goes, with the vault, to the path of an id that does not exist: the provider has no key.\<close>

lemma new_key_lost:
  assumes "va_enabled v" and "set_provider_secret v t ''None'' (Some key) = Inr (column, v')" and "lp_id p \<noteq> ''None''"
  shows "get_provider_secret v' t (lp_id p) column = get_provider_secret v t (lp_id p) None"
  using assms vault_write_read [of v "provider_secret_path t ''None''" "Some key" v']
  by (auto simp: set_provider_secret_def set_secret_def get_provider_secret_def get_secret_def provider_secret_path_def bindE_eq_Inr_iff
    split: if_splits)

end
