(* ===== verification/BackendClassifier.thy ===== *)
theory BackendClassifier
  imports BackendRouting BackendAgentic BackendPolicy
begin

text \<open>
  The deterministic classifier of prompts (\<open>services/classifier\<close>): \<open>canonicalizer.py\<close> undoes encodings,
  \<open>syntax_guard.py\<close> looks for dangerous SQL, shell, code and file names, and \<open>intent_engine.py\<close> runs the
  built-in rules and those of the tenant and decides.  What Python's tables of Unicode do to text beyond ASCII (decoding
  of bytes, normal forms, lookalikes) and the order in which a set is traversed are parameters.
\<close>

section \<open>Canonical text\<close>

record runtime =
  ru_decode_replace :: "string \<Rightarrow> string"
  ru_decode_ignore :: "string \<Rightarrow> string"
  ru_normalize :: "string \<Rightarrow> string"
  ru_set_order :: "string list \<Rightarrow> string list"

definition ANSI_AND_COMMENTS :: pattern where
  "ANSI_AND_COMMENTS = re_const no_flags (raw ''(`x1b`[[0-9;]*[a-zA-Z]|<!--.*?-->|/`*.*?`*/)'')"

definition BASE64_PATTERN :: pattern where
  "BASE64_PATTERN = re_const no_flags (raw ''(?:[A-Za-z0-9+/]{4}){4,}(?:[A-Za-z0-9+/]{2}==|[A-Za-z0-9+/]{3}=)?'')"

definition HEX_PATTERN :: pattern where
  "HEX_PATTERN = re_const no_flags (raw ''(?:``x[0-9a-fA-F]{2}){3,}|(?:0x[0-9a-fA-F]{2}){3,}'')"

text \<open>Text of the model is ASCII and has no zero-width character.\<close>

definition strip_zero_width_and_escapes :: "string \<Rightarrow> string" where
  "strip_zero_width_and_escapes s = p_sub ANSI_AND_COMMENTS [] s"

fun percent_bytes :: "string \<Rightarrow> string" where
  "percent_bytes (c # a # b # s) =
     (case (if c = CHR ''%'' then (hex_val a, hex_val b) else (None, None)) of
        (Some x, Some y) \<Rightarrow> char_of (16 * x + y) # percent_bytes s
      | _ \<Rightarrow> c # percent_bytes (a # b # s))"
| "percent_bytes s = s"

definition unquote :: "runtime \<Rightarrow> string \<Rightarrow> string" where
  "unquote rt s = (if CHR ''%'' \<in> set s then ru_decode_replace rt (percent_bytes s) else s)"

fun hex_bytes :: "string \<Rightarrow> string" where
  "hex_bytes (a # b # s) =
     (case (hex_val a, hex_val b) of (Some x, Some y) \<Rightarrow> char_of (16 * x + y) # hex_bytes s | _ \<Rightarrow> [])"
| "hex_bytes s = []"

definition b64_value :: "char \<Rightarrow> nat" where
  "b64_value c =
     (if is_upper c then ordc c - 65 else if is_lower c then ordc c - 71 else if is_digit c then ordc c + 4
      else if c = CHR ''+'' then 62 else 63)"

text \<open>Groups of four characters are three bytes; the padding shortens the last group.\<close>

fun b64_bytes :: "string \<Rightarrow> string" where
  "b64_bytes (a # b # c # d # s) =
     (let n = b64_value a * 262144 + b64_value b * 4096 + (if c = CHR ''='' then 0 else b64_value c * 64) + (if d = CHR ''='' then 0 else b64_value d) in
      take (if c = CHR ''='' then 1 else if d = CHR ''='' then 2 else 3)
        [char_of (n div 65536), char_of (n div 256 mod 256), char_of (n mod 256)] @ b64_bytes s)"
| "b64_bytes s = []"

record decoding =
  de_text :: string
  de_found :: "string list"
  de_changed :: bool

definition found_encoding :: "string \<Rightarrow> string \<Rightarrow> decoding \<Rightarrow> decoding" where
  "found_encoding name s d =
     d\<lparr>de_text := s, de_found := (if name \<in> set (de_found d) then de_found d else de_found d @ [name]), de_changed := True\<rparr>"

definition all_matches :: "pattern \<Rightarrow> string \<Rightarrow> string list" where
  "all_matches p s = map m_text (re_finditer (p_regex p) (p_flags p) s)"

definition decode_url :: "runtime \<Rightarrow> decoding \<Rightarrow> decoding" where
  "decode_url rt d = (let u = unquote rt (de_text d) in if u \<noteq> de_text d then found_encoding ''url'' u d else d)"

definition decode_hex :: "runtime \<Rightarrow> decoding \<Rightarrow> string \<Rightarrow> decoding" where
  "decode_hex rt d hx =
     (let decoded = ru_decode_ignore rt (hex_bytes (replace_str ''0x'' [] (replace_str [backslash, CHR ''x''] [] hx))) in
      if 3 < length decoded then found_encoding ''hex'' (replace_str hx ('' '' @ decoded @ '' '') (de_text d)) d else d)"

definition decode_base64 :: "runtime \<Rightarrow> decoding \<Rightarrow> string \<Rightarrow> decoding" where
  "decode_base64 rt d b64 =
     (let decoded = ru_decode_ignore rt (b64_bytes b64) in
      if 16 \<le> length b64 \<and> list_ex is_alpha decoded \<and> 4 < length decoded
      then found_encoding ''base64'' (replace_str b64 ('' '' @ decoded @ '' '') (de_text d)) d else d)"

fun decode_rounds :: "nat \<Rightarrow> runtime \<Rightarrow> decoding \<Rightarrow> decoding" where
  "decode_rounds 0 rt d = d"
| "decode_rounds (Suc n) rt d =
     (let d1 = decode_url rt (d\<lparr>de_changed := False\<rparr>);
          d2 = foldl (decode_hex rt) d1 (all_matches HEX_PATTERN (de_text d1));
          d3 = foldl (decode_base64 rt) d2 (all_matches BASE64_PATTERN (de_text d2))
      in if de_changed d3 then decode_rounds n rt d3 else d3)"

definition decode_embedded_encodings :: "runtime \<Rightarrow> string \<Rightarrow> string \<times> string list" where
  "decode_embedded_encodings rt s =
     (if s = [] then ([], [])
      else let d = decode_rounds 2 rt \<lparr>de_text = s, de_found = [], de_changed = False\<rparr> in (de_text d, de_found d))"

text \<open>The canonical text and whether something was undone.\<close>

definition canonicalize_text :: "runtime \<Rightarrow> string \<Rightarrow> string \<times> bool" where
  "canonicalize_text rt s =
     (if s = [] then ([], False)
      else
        let (decoded, encodings) = decode_embedded_encodings rt (strip_zero_width_and_escapes s);
            canonical = join '' '' (words_of (ru_normalize rt decoded))
        in (canonical, lower canonical \<noteq> strip (lower s) \<or> encodings \<noteq> []))"

section \<open>Syntax\<close>

definition SQL_DESTRUCTIVE_PATTERN :: pattern where
  "SQL_DESTRUCTIVE_PATTERN = re_const ignorecase
     (raw ''`b(DROP`s+(?:TABLE|DATABASE|SCHEMA|VIEW|INDEX|PROCEDURE|FUNCTION|TRIGGER)|TRUNCATE`s+(?:TABLE`s+)?[a-zA-Z0-9_.`\"']+|ALTER`s+(?:TABLE|DATABASE)`s+[a-zA-Z0-9_.`\"']+`s+DROP|DELETE`s+FROM`s+[a-zA-Z0-9_.`\"']+`s*(?:;`s*$|WHERE`s+1`s*=`s*1)|GRANT`s+ALL`s+PRIVILEGES|XP_CMDSHELL|INTO`s+OUTFILE|INTO`s+DUMPFILE)`b'')"

definition SHELL_DESTRUCTIVE_PATTERN :: pattern where
  "SHELL_DESTRUCTIVE_PATTERN = re_const ignorecase
     (raw ''(?:`b(rm`s+-[rRfF]{1,3}`s+[/~*]|rmdir`s+/[sS]|mkfs(?:`.[a-z0-9]+)?`s+|dd`s+if=.*of=/dev/|:`(`)`s*`{`s*:`s*`|`s*:`s*&`s*`}`s*;`s*:|curl`s+[^|`n]+(?:`|`s*(?:bash|sh|zsh|python|perl))|wget`s+[^|`n]+(?:`|`s*(?:bash|sh|zsh|python|perl))|chmod`s+(?:-R`s+)?777`s+[/~*]|chown`s+-R`s+root`s+|iptables`s+-F|ufw`s+disable|systemctl`s+stop`s+(?:firewalld|auditd|sshd)|kill`s+-9`s+(?:-1|1)`b))'')"

definition CODE_EXEC_PATTERN :: pattern where
  "CODE_EXEC_PATTERN = re_const ignorecase
     (raw ''`b(__import__`s*`(`s*['`\"]os['`\"]`s*`)|os`.system`s*`(|subprocess`.(?:Popen|run|call|check_output)`s*`(|eval`s*`([^)]+`)|exec`s*`([^)]+`)|child_process`.(?:exec|spawn|execSync)`s*`(|fs`.(?:unlinkSync|rmdirSync|rmSync)`s*`(|passthru`s*`(|shell_exec`s*`()`b'')"

definition EXFILTRATION_TARGET_PATTERN :: pattern where
  "EXFILTRATION_TARGET_PATTERN = re_const ignorecase
     (raw ''(?:/etc/(?:passwd|shadow)|~/`.ssh/(?:id_rsa|id_ed25519|authorized_keys)|`.env(?:`.(?:production|local|prod))?|~/`.aws/(?:credentials|config)|/var/run/secrets/kubernetes`.io/serviceaccount/token|id_rsa`.pub)'')"

record syntax_risk =
  sr_category :: string
  sr_risk_level :: string
  sr_matched_token :: string
  sr_start :: nat
  sr_end :: nat
  sr_detail :: string

definition risks_of :: "pattern \<Rightarrow> string \<Rightarrow> string \<Rightarrow> string \<Rightarrow> string \<Rightarrow> syntax_risk list" where
  "risks_of p category risk_level what s =
     map (\<lambda>m. \<lparr>sr_category = category, sr_risk_level = risk_level, sr_matched_token = m_text m, sr_start = length (m_before m),
            sr_end = length (m_before m) + length (m_text m), sr_detail = what @ '': '' @ [squote] @ m_text m @ [squote]\<rparr>)
       (re_finditer (p_regex p) (p_flags p) s)"

definition analyze_syntax_risk :: "string \<Rightarrow> syntax_risk list" where
  "analyze_syntax_risk s =
     (if s = [] then []
      else
        risks_of SQL_DESTRUCTIVE_PATTERN ''sql_destructive'' ''critical'' ''Destructive SQL command detected'' s @
        risks_of SHELL_DESTRUCTIVE_PATTERN ''shell_destructive'' ''critical'' ''Dangerous system command detected'' s @
        risks_of CODE_EXEC_PATTERN ''code_execution'' ''high'' ''Dynamic code execution primitive detected'' s @
        risks_of EXFILTRATION_TARGET_PATTERN ''credential_exfiltration'' ''high'' ''Sensitive file or credential target referenced'' s)"

definition argument_text :: "json \<Rightarrow> string list" where
  "argument_text v = (case v of JStr s \<Rightarrow> [s] | JArr _ \<Rightarrow> [py_str v] | JObj _ \<Rightarrow> [py_str v] | _ \<Rightarrow> [])"

definition analyze_mcp_tool_arguments :: "string \<Rightarrow> json dict option \<Rightarrow> syntax_risk list" where
  "analyze_mcp_tool_arguments tool_name arguments =
     (case arguments of
        None \<Rightarrow> []
      | Some [] \<Rightarrow> []
      | Some args \<Rightarrow>
          let in_tool = ''MCP tool '' @ [squote] @ tool_name @ [squote];
              found = map (\<lambda>r. r\<lparr>sr_detail := in_tool @ '' argument contained: '' @ sr_detail r\<rparr>)
                (analyze_syntax_risk (join ([CHR '' '', newline, CHR '' '']) (concat (map (\<lambda>(_, v). argument_text v) args))))
          in
          found @
          (if list_ex (\<lambda>w. contains w (lower tool_name)) [''delete'', ''remove'', ''drop'', ''truncate'', ''purge'', ''destroy''] \<and>
              \<not> list_ex (\<lambda>r. sr_risk_level r = ''critical'') found
           then [\<lparr>sr_category = ''mcp_destructive_tool'', sr_risk_level = ''high'', sr_matched_token = tool_name, sr_start = 0,
                  sr_end = length tool_name, sr_detail = in_tool @ '' performs destructive state modifications.''\<rparr>]
           else []))"

section \<open>Rules\<close>

record intent_rule =
  nr_id :: string
  nr_name :: string
  nr_scope :: string
  nr_category :: string
  nr_regex_pattern :: "string option"
  nr_keywords :: "string list"
  nr_action :: string
  nr_risk_level :: string
  nr_threshold :: rat
  nr_explanation :: string

text \<open>A built-in rule names no scope; it is then reported as one of the tenant.\<close>

definition builtin :: "string \<Rightarrow> string \<Rightarrow> string \<Rightarrow> string \<Rightarrow> string list \<Rightarrow> string \<Rightarrow> string \<Rightarrow> string \<Rightarrow> intent_rule" where
  "builtin i name category regex keywords_of action risk_level explanation =
     \<lparr>nr_id = i, nr_name = name, nr_scope = ''tenant'', nr_category = category, nr_regex_pattern = Some regex, nr_keywords = keywords_of,
      nr_action = action, nr_risk_level = risk_level, nr_threshold = 3 / 4, nr_explanation = explanation\<rparr>"

definition BUILTIN_GLOBAL_RULES :: "intent_rule list" where
  "BUILTIN_GLOBAL_RULES =
     [builtin ''RULE-INJECT-001'' ''Prompt Injection & Instruction Override'' ''prompt_injection''
        (raw ''(?i)`b(ignore`s+(?:all`s+)?(?:previous|prior)?`s*(?:governance|safety|system)?`s*(?:instructions|rules|directives|constraints|prompts)|system`s+override`s+mode|you`s+are`s+now`s+in`s+developer`s+mode|dan`s+mode`s+enabled|jailbreak`s+prompt|disregard`s+(?:all`s+)?(?:prior|previous)`s+(?:rules|governance|instructions|constraints)|override`s+the`s+safety`s+instructions|(?:reveal|dump|print|expose|leak)`s+(?:the`s+)?(?:hidden`s+)?(?:system`s+)?(?:instructions|prompt|directives))`b'')
        [''ignore previous instructions'', ''ignore governance instructions'', ''developer mode'', ''jailbreak'', ''disregard previous governance'', ''expose system prompt'', ''dump system prompt'', ''override safety instructions'']
        ''block'' ''critical'' ''Detected adversarial instruction override / prompt injection attempt.'',
      builtin ''RULE-INDIRECT-INJECT-001'' ''Indirect Web & Document Injection'' ''indirect_prompt_injection''
        (raw ''(?i)`b(webpage`s+instructs`s+the`s+agent|retrieved`s+text`s+requests`s+secret|document`s+says`s+to`s+ignore`s+prior|collect`s+local`s+secrets`s+and`s+upload)`b'')
        [''webpage instructs the agent'', ''retrieved text requests'', ''collect local secrets and upload'']
        ''block'' ''critical'' ''Indirect prompt injection payload attempting to hijack agent execution.'',
      builtin ''RULE-INFRA-DEST-001'' ''Destructive Infrastructure & Deletion'' ''destructive_operations''
        (raw ''(?i)`b(tear`s+down`s+the`s+production|destroy`s+the`s+production`s+terraform|delete`s+all`s+production`s+resources|erase`s+system`s+directories|delete`s+the`s+entire`s+operating-system|remove`s+all`s+files`s+from`s+the`s+system`s+volume|wipe`s+disk|drop`s+database|truncate`s+table)`b'')
        [''tear down the production'', ''destroy the production terraform'', ''delete all production resources'', ''erase system directories'', ''remove all files from the system volume'']
        ''block'' ''critical'' ''Destructive infrastructure, operating system, or database wipe detected.'',
      builtin ''RULE-SECRET-EXFIL-001'' ''Secret & Cloud Credential Exfiltration'' ''data_exfiltration''
        (raw ''(?i)`b(?:extract`s+cloud`s+credentials|read`s+(?:the`s+)?api`s+key`s+from`s+`.env|copy`s+the`s+secret`s+token|post`s+.*`s+to`s+(?:unapproved-endpoint|random-upload|external-drop|unknown-webhook)`.example)`b'')
        [''extract cloud credentials'', ''read api key from .env'', ''copy secret token'', ''random-upload.example'', ''unapproved-endpoint.example'', ''external-drop.example'']
        ''block'' ''critical'' ''Attempt to exfiltrate system secrets, tokens, or cloud credentials to untrusted destinations.'',
      builtin ''RULE-SHADOW-AI-001'' ''Shadow AI & Source Code Leakage'' ''shadow_ai''
        (raw ''(?i)`b(?:upload`s+.*`s+to`s+my`s+personal`s+ai|send`s+this`s+repository`s+to`s+a`s+personal`s+chatbot|bypass`s+the`s+corporate`s+ai|avoid`s+the`s+governed`s+endpoint|send`s+this`s+company`s+document`s+directly`s+to`s+my`s+personal)`b'')
        [''personal ai'', ''personal chatbot'', ''bypass corporate ai'', ''unapproved public model'', ''avoid governed endpoint'']
        ''block'' ''high'' ''Attempt to route corporate code, repositories, or confidential data to unsanctioned consumer AI chatbots.'',
      builtin ''RULE-REGULATED-DATA-001'' ''Regulated PII/Data Transfer Violation'' ''data_protection''
        (raw ''(?i)`b(?:upload`s+these`s+regulated`s+customer`s+records|process`s+restricted`s+regulated`s+records|send`s+the`s+regulated`s+dataset`s+to`s+an`s+unapproved|upload`s+the`s+customer`s+csv`s+containing`s+emails.*to`s+a`s+public`s+ai|use`s+an`s+unapproved`s+chatbot`s+to`s+summarize|send`s+this`s+customer`s+list`s+to`s+an`s+external`s+llm)`b'')
        [''regulated customer records'', ''restricted regulated records'', ''customer csv containing emails'', ''unapproved chatbot'', ''customer list to an external llm'']
        ''block'' ''high'' ''Regulated customer records or customer lists being transmitted to unapproved external models.'',
      builtin ''RULE-SECURITY-EVASION-001'' ''Security Control & Governance Evasion'' ''security_evasion''
        (raw ''(?i)`b(?:turn`s+off`s+the`s+ai`s+governance|stop`s+the`s+security`s+monitor|disable`s+the`s+endpoint`s+governance`s+agent|bypass`s+security`s+controls)`b'')
        [''turn off ai governance'', ''stop security monitor'', ''disable endpoint governance agent'']
        ''block'' ''critical'' ''Attempt to disable telemetry, governance agents, or security monitors.'',
      builtin ''RULE-UNTRUSTED-EXEC-001'' ''Untrusted Remote Code & Package Execution'' ''untrusted_execution''
        (raw ''(?i)`b(?:download`s+a`s+script`s+from`s+.*and`s+execute|run`s+a`s+remotely`s+hosted`s+script|install`s+.*`s+from`s+an`s+unknown`s+repository|install`s+.*`s+directly`s+from`s+an`s+unfamiliar|add`s+a`s+similarly`s+named`s+package`s+from`s+an`s+untrusted|fetch`s+executable`s+code`s+from`s+an`s+untrusted)`b'')
        [''download a script from'', ''run remotely hosted script'', ''install from an unknown repository'', ''fetch executable code from an untrusted'']
        ''block'' ''high'' ''Attempt to download and execute arbitrary unvetted remote scripts or untrusted packages.'',
      builtin ''RULE-FINANCE-LEAK-001'' ''Confidential Financial Data Exfiltration'' ''financial_confidentiality''
        (raw ''(?i)`b(?:upload`s+the`s+confidential`s+quarterly`s+financial|post`s+the`s+confidential`s+finance`s+workbook|send`s+the`s+unreleased`s+revenue`s+forecast|send`s+confidential`s+financial`s+records)`b'')
        [''confidential quarterly financial report'', ''confidential finance workbook'', ''unreleased revenue forecast'']
        ''block'' ''critical'' ''Confidential financial or revenue forecast exfiltration attempt.'',
      builtin ''RULE-PROD-DEPLOY-001'' ''Privileged Production Deployment & Changes'' ''production_deployment''
        (raw ''(?i)`b(?:deploy`s+the`s+current`s+build`s+to`s+the`s+production|apply`s+the`s+infrastructure`s+changes`s+to`s+production|use`s+my`s+authorized`s+cloud`s+session`s+to`s+update`s+the`s+production)`b'')
        [''deploy current build to production'', ''apply infrastructure changes to production'']
        ''request_approval'' ''high'' ''Production deployment and infrastructure modifications require sign-off.'',
      builtin ''RULE-BULK-EXPORT-001'' ''Bulk Customer CRM Export'' ''bulk_data_export''
        (raw ''(?i)`b(?:export`s+every`s+customer`s+record|download`s+all`s+contact`s+records`s+from`s+the`s+crm|bulk`s+export`s+customers)`b'')
        [''export every customer record'', ''download all contact records'', ''bulk export customers'']
        ''request_approval'' ''high'' ''Bulk customer data export requires human-in-the-loop authorization.'',
      builtin ''RULE-BULK-INCIDENT-001'' ''High-Impact Bulk Incident Modification'' ''bulk_incident_action''
        (raw ''(?i)`b(?:close`s+every`s+open`s+severity-1|update`s+every`s+active`s+customer`s+case|reassign`s+all`s+unresolved`s+tickets)`b'')
        [''close every open severity-1'', ''update every active customer case'', ''reassign all unresolved tickets'']
        ''request_approval'' ''high'' ''Bulk Severity-1 incident modifications require supervisor approval.'',
      builtin ''RULE-PROD-TOOL-001'' ''Production Database Direct MCP Access'' ''production_access''
        (raw ''(?i)`b(?:query`s+the`s+production`s+database`s+through`s+mcp|use`s+mcp`s+credentials`s+to`s+authenticate`s+to`s+the`s+production|connect`s+the`s+mcp`s+database`s+tool`s+to`s+the`s+production)`b'')
        [''query production database through mcp'', ''mcp credentials to authenticate to production'']
        ''request_approval'' ''high'' ''Direct autonomous agent execution against production databases requires human sign-off.'',
      builtin ''RULE-HR-COMP-001'' ''Sensitive HR & Compensation Access'' ''hr_confidentiality''
        (raw ''(?i)`b(?:analyze`s+the`s+compensation`s+file|list`s+employee`s+salaries|read`s+the`s+restricted`s+hr`s+dataset`s+and`s+summarize`s+individual`s+compensation)`b'')
        [''analyze compensation file'', ''list employee salaries'', ''individual compensation'']
        ''request_approval'' ''high'' ''Individual salary and compensation datasets require HR compliance approval.'',
      builtin ''RULE-PRIV-ESC-001'' ''Privilege Escalation & Production Roles'' ''privilege_management''
        (raw ''(?i)`b(?:change`s+.*`s+role`s+to`s+system`s+administrator|add`s+.*`s+to`s+the`s+production`s+privileged-access|grant`s+administrator`s+privileges`s+to`s+.*in`s+production)`b'')
        [''role to system administrator'', ''production privileged-access'', ''grant administrator privileges'']
        ''request_approval'' ''critical'' ''Granting system administrator or production privileged access requires security approval.'',
      builtin ''RULE-PII-REDACT-001'' ''PII Auto-Redaction for Approved Enterprise AI'' ''pii_redaction''
        (raw ''(?i)`b(?:use`s+the`s+approved`s+corporate`s+ai`s+service`s+to`s+categorize`s+these`s+customer`s+records|summarize`s+this`s+customer`s+csv`s+using`s+the`s+enterprise`s+ai|classify`s+support`s+records`s+containing`s+customer`s+identifiers)`b'')
        [''approved corporate ai'', ''enterprise ai endpoint'', ''customer csv using enterprise ai'']
        ''redact'' ''medium'' ''Detected customer PII destined for approved corporate LLM; applying deterministic token redaction.'',
      builtin ''RULE-SECRET-CONFIG-001'' ''Environment Configuration & Local Secret File Access'' ''secret_file_access''
        (raw ''(?i)`b(?:open`s+the`s+environment`s+configuration|read`s+`.env`s+and`s+tell`s+me|inspect`s+the`s+local`s+secrets`s+file)`b'')
        [''open environment configuration'', ''read .env and tell me'', ''inspect local secrets file'']
        ''request_approval'' ''high'' ''Accessing local environment configuration and secrets requires authorization.'',
      builtin ''RULE-UNAPPROVED-WEBHOOK-001'' ''Unapproved Webhook & Destination Egress'' ''unapproved_egress''
        (raw ''(?i)`b(?:post`s+(?:the`s+)?confidential`s+.*`s+to`s+(?:unapproved|unknown|random)|upload`s+confidential`s+.*`s+to`s+an`s+unapproved`s+endpoint|send`s+.*`s+to`s+an`s+unknown`s+webhook|post`s+.*`s+to`s+an`s+unapproved`s+webhook)`b'')
        [''unapproved endpoint'', ''unknown webhook'', ''random-upload'', ''unapproved webhook'']
        ''block'' ''critical'' ''Attempt to transmit company confidential data to unapproved external webhook or endpoint.'',
      builtin ''RULE-PROTECTED-MCP-FILE-001'' ''Protected Filesystem Access via MCP'' ''mcp_file_protection''
        (raw ''(?i)`b(?:mcp`s+filesystem`s+tool`s+to`s+read`s+a`s+protected|mcp`s+file`s+tool`s+to`s+open`s+an`s+operating-system|read`s+a`s+restricted`s+secrets`s+file`s+through`s+the`s+mcp)`b'')
        [''mcp filesystem tool to read a protected'', ''mcp file tool to open'', ''restricted secrets file through the mcp'']
        ''block'' ''critical'' ''Prohibited attempt to use MCP tools to open restricted credentials or OS password databases.'',
      builtin ''RULE-SECRET-IN-PROMPT-001'' ''Embedded Secret Token in Prompt'' ''secret_in_prompt''
        (raw ''(?i)`b(?:here`s+is`s+an`s+access`s+key|use`s+this`s+production`s+password|my`s+api`s+token`s+is|`[CREDENTIAL_PLACEHOLDER`]|`[REDACTED_SECRET`]|`[SECRET_TOKEN`])`b'')
        [''access key'', ''production password'', ''my api token is'']
        ''block'' ''critical'' ''Hardcoded credential or access key detected directly inside prompt text.'',
      builtin ''RULE-DYNAMIC-ROUTE-WARN-001'' ''Dynamic Multi-Provider Model Routing'' ''dynamic_routing''
        (raw ''(?i)`b(?:route`s+the`s+request`s+dynamically`s+across`s+public`s+model`s+providers|whichever`s+external`s+llm`s+provider`s+is`s+cheapest|choose`s+the`s+lowest-cost`s+model`s+even`s+if`s+the`s+provider`s+changes|lowest-cost`s+model|cheapest`s+route)`b'')
        [''route the request dynamically'', ''whichever external llm provider is cheapest'', ''lowest-cost model'']
        ''monitor'' ''medium'' ''Dynamic multi-provider model routing (monitored for routing governance).'',
      builtin ''RULE-CACHE-DELETE-WARN-001'' ''Local Scratch / Build Cache Cleanup'' ''local_cleanup''
        (raw ''(?i)`b(?:delete`s+the`s+generated`s+build`s+cache|remove`s+temporary`s+(?:files|test`s+output)|clean`s+up`s+scratch`s+files|clean`s+the`s+local`s+dependency`s+cache)`b'')
        [''delete the generated build cache'', ''remove temporary files'', ''clean local dependency cache'']
        ''monitor'' ''low'' ''Local scratch, build, or dependency cache cleanup action.'']"

definition ACTION_PRECEDENCE :: "int dict" where
  "ACTION_PRECEDENCE = [(''block'', 100), (''request_approval'', 80), (''redact'', 60), (''monitor'', 40), (''allow'', 10)]"

definition action_rank :: "string \<Rightarrow> int" where
  "action_rank a = dict_get_or ACTION_PRECEDENCE a 0"

definition SCORE_TIER_THRESHOLDS :: "(int \<times> string) list" where
  "SCORE_TIER_THRESHOLDS = [(85, ''CRITICAL''), (65, ''HIGH''), (35, ''MEDIUM''), (0, ''LOW'')]"

definition SYNTAX_RISK_CONFIG :: "(int \<times> string) dict" where
  "SYNTAX_RISK_CONFIG =
     [(''critical'', 95, ''block''), (''high'', 75, ''request_approval''), (''medium'', 50, ''monitor''), (''low'', 25, ''monitor'')]"

text \<open>Leading inline flags; elsewhere they are an error of the pattern.\<close>

definition inline_flags :: "string \<Rightarrow> string \<times> string" where
  "inline_flags s =
     (let flags = takeWhile (\<lambda>c. c \<in> set ''aimsux'') (drop 2 s); after = drop (2 + length flags) s in
      if startswith s ''(?'' \<and> flags \<noteq> [] \<and> startswith after '')'' then (flags, tl after) else ([], s))"

definition get_compiled_regex :: "string \<Rightarrow> pattern option" where
  "get_compiled_regex s = (let (flags, body) = inline_flags s in re_compile (fold set_flag flags ignorecase) body)"

text \<open>\<open>`b\<close>, the escaped keyword, \<open>`b\<close>.\<close>

definition word_pattern :: "string \<Rightarrow> pattern" where
  "word_pattern kw = \<lparr>p_regex = RSeq RBound (foldr (\<lambda>c r. RSeq (RLit c) r) kw RBound), p_flags = ignorecase\<rparr>"

record classifier_intent = custom_intent +
  ci_scope :: string
  ci_regex_pattern :: "string option"
  ci_risk_level :: string
  ci_explanation :: "string option"

definition fetch_applicable_rules :: "classifier_intent list \<Rightarrow> uuid \<Rightarrow> classifier_intent list" where
  "fetch_applicable_rules rows tenant =
     sort_key (\<lambda>i. - int (ci_created i))
       (filter (\<lambda>i. ci_active i \<and> (ci_scope i = ''global'' \<or> ci_tenant i = None \<or> ci_tenant i = Some tenant)) rows)"

definition rule_of_intent :: "classifier_intent \<Rightarrow> intent_rule" where
  "rule_of_intent i =
     \<lparr>nr_id = no_id i, nr_name = ci_name i, nr_scope = ci_scope i,
      nr_category = or_str (case ci_description i of None \<Rightarrow> [] | Some d \<Rightarrow> d) ''custom_intent'', nr_regex_pattern = ci_regex_pattern i,
      nr_keywords = ci_keywords i, nr_action = ci_action i, nr_risk_level = or_str (ci_risk_level i) ''high'', nr_threshold = ci_threshold i,
      nr_explanation = or_str (case ci_explanation i of None \<Rightarrow> [] | Some e \<Rightarrow> e)
        (''Matched custom intent '' @ [squote] @ ci_name i @ [squote])\<rparr>"

section \<open>The verdict\<close>

record classifier_match =
  cl_rule_id :: string
  cl_rule_name :: string
  cl_scope :: string
  cl_category :: string
  cl_action :: string
  cl_risk_level :: string
  cl_score :: int
  cl_tokens :: "string list"
  cl_explanation :: string

record classifier_verdict =
  cv_verdict :: string
  cv_risk_score :: int
  cv_risk_tier :: string
  cv_matches :: "classifier_match list"
  cv_modified_text :: "string option"
  cv_deobfuscated :: bool

definition match_of_risk :: "syntax_risk \<Rightarrow> classifier_match" where
  "match_of_risk r =
     (let (score, action) = dict_get_or SYNTAX_RISK_CONFIG (lower (sr_risk_level r)) (75, ''request_approval'') in
      \<lparr>cl_rule_id = ''SYNTAX-'' @ upper (sr_category r), cl_rule_name = ''AST Syntax Guard: '' @ sr_category r, cl_scope = ''global'',
       cl_category = sr_category r, cl_action = action, cl_risk_level = lower (sr_risk_level r), cl_score = score,
       cl_tokens = [sr_matched_token r], cl_explanation = sr_detail r\<rparr>)"

definition matched_tokens :: "intent_rule \<Rightarrow> string \<Rightarrow> string list" where
  "matched_tokens rule s =
     (case nr_regex_pattern rule of
        Some (c # p) \<Rightarrow> (case get_compiled_regex (c # p) of None \<Rightarrow> [] | Some rx \<Rightarrow> all_matches rx s)
      | _ \<Rightarrow> []) @
     filter (\<lambda>kw. p_found (word_pattern kw) s) (filter (\<lambda>k. k \<noteq> []) (map strip (nr_keywords rule)))"

text \<open>One match is enough: the threshold of a rule is not used.\<close>

definition match_of_rule :: "runtime \<Rightarrow> intent_rule \<Rightarrow> string list \<Rightarrow> classifier_match" where
  "match_of_rule rt rule matched =
     \<lparr>cl_rule_id = nr_id rule, cl_rule_name = nr_name rule, cl_scope = nr_scope rule, cl_category = nr_category rule, cl_action = nr_action rule,
      cl_risk_level = nr_risk_level rule, cl_score = 60 + min 40 (int (length matched) * 20), cl_tokens = ru_set_order rt (remdups matched),
      cl_explanation = nr_explanation rule\<rparr>"

fun run_rules :: "runtime \<Rightarrow> string \<Rightarrow> intent_rule list \<Rightarrow> string \<Rightarrow> (classifier_match list \<times> string) result" where
  "run_rules rt canonical [] modified = Inr ([], modified)"
| "run_rules rt canonical (rule # rules) modified =
     (let matched = matched_tokens rule canonical in
      if matched = [] then run_rules rt canonical rules modified
      else
        bindE (if nr_action rule = ''redact'' then redact_keywords (nr_name rule) (ru_set_order rt (remdups matched)) modified else Inr modified)
          (\<lambda>modified. bindE (run_rules rt canonical rules modified)
            (\<lambda>(ms, final). Inr (match_of_rule rt rule matched # ms, final))))"

definition final_verdict :: "classifier_match list \<Rightarrow> string" where
  "final_verdict ms = (case map cl_action ms of [] \<Rightarrow> ''allow'' | a # as \<Rightarrow> first_max action_rank a as)"

definition risk_tier :: "int \<Rightarrow> string" where
  "risk_tier score = (case find (\<lambda>(threshold, _). threshold \<le> score) SCORE_TIER_THRESHOLDS of Some (_, tier) \<Rightarrow> tier | None \<Rightarrow> ''LOW'')"

definition max_score :: "classifier_match list \<Rightarrow> int" where
  "max_score ms = foldl max 0 (map cl_score ms)"

definition classify_intent_and_risk ::
  "runtime \<Rightarrow> classifier_intent list option \<Rightarrow> string \<Rightarrow> uuid \<Rightarrow> intent_rule list \<Rightarrow> string option \<Rightarrow> json dict option \<Rightarrow> classifier_verdict result"
where
  "classify_intent_and_risk rt rows content tenant custom_rules tool_name tool_arguments =
     (if content = [] \<and> \<not> has_text tool_name
      then Inr \<lparr>cv_verdict = ''allow'', cv_risk_score = 0, cv_risk_tier = ''LOW'', cv_matches = [], cv_modified_text = None, cv_deobfuscated = False\<rparr>
      else
        let (canonical, deobfuscated) = canonicalize_text rt content;
            risks = analyze_syntax_risk canonical @
              (case tool_name of Some (c # n) \<Rightarrow> analyze_mcp_tool_arguments (c # n) tool_arguments | _ \<Rightarrow> []);
            rules = BUILTIN_GLOBAL_RULES @
              (case rows of None \<Rightarrow> [] | Some is \<Rightarrow> map rule_of_intent (fetch_applicable_rules is tenant)) @ custom_rules
        in
        bindE (run_rules rt canonical rules content)
          (\<lambda>(ms, modified).
             let found = map match_of_risk risks @ ms in
             Inr \<lparr>cv_verdict = final_verdict found, cv_risk_score = max_score found, cv_risk_tier = risk_tier (max_score found),
                  cv_matches = found,
                  cv_modified_text = (if list_ex (\<lambda>m. cl_action m = ''redact'') found then Some modified else None),
                  cv_deobfuscated = deobfuscated\<rparr>))"

end
