(* ===== verification/BackendClassifierFacts.thy ===== *)
theory BackendClassifierFacts
  imports BackendClassifier
begin

text \<open>
  What the classifier decides: which rules match, that the verdict is the most severe of the matches, that no rule of a
  tenant weakens a built-in one, and gaps of the syntax guard.
\<close>

section \<open>When a rule matches\<close>

lemma all_matches_found: "all_matches p s \<noteq> [] \<longleftrightarrow> p_found p s"
  using p_count_zero_iff [of p s] by (simp add: all_matches_def p_count_def)

text \<open>A keyword occurs as a word: with the boundaries of \<open>re\<close> around it, ignoring case.\<close>

definition word_in :: "string \<Rightarrow> string \<Rightarrow> bool" where
  "word_in kw s \<longleftrightarrow> (\<exists>a u b. s = a @ u @ b \<and> lower u = lower kw \<and> at_boundary (rev a) (u @ b) \<and> at_boundary (rev u @ rev a) b)"

lemma rmatch_literal_then:
  "icase fl \<Longrightarrow> rmatch fl (foldr (\<lambda>c r. RSeq (RLit c) r) k r) (l, s) t \<longleftrightarrow>
     (\<exists>u v. s = u @ v \<and> lower u = lower k \<and> rmatch fl r (rev u @ l, v) t)"
proof (induction k arbitrary: l s)
  case Nil
  then show ?case by simp
next
  case (Cons c k)
  have step: "rmatch fl (RLit c) (l, s) q \<longleftrightarrow> (\<exists>d s'. s = d # s' \<and> lower_char d = lower_char c \<and> q = (d # l, s'))" for q
    using Cons.prems by (cases s) (auto simp: rmatch_simps lower_char_eq)
  have "rmatch fl (foldr (\<lambda>c r. RSeq (RLit c) r) (c # k) r) (l, s) t \<longleftrightarrow>
      (\<exists>d s'. s = d # s' \<and> lower_char d = lower_char c \<and> rmatch fl (foldr (\<lambda>c r. RSeq (RLit c) r) k r) (d # l, s') t)"
    using step by (auto simp: rmatch_simps(6))
  also have "\<dots> \<longleftrightarrow> (\<exists>d u v. s = (d # u) @ v \<and> lower (d # u) = lower (c # k) \<and> rmatch fl r (rev (d # u) @ l, v) t)"
    unfolding Cons.IH [OF Cons.prems] by (auto simp: lower_def)
  also have "\<dots> \<longleftrightarrow> (\<exists>u v. s = u @ v \<and> lower u = lower (c # k) \<and> rmatch fl r (rev u @ l, v) t)"
  proof
    assume "\<exists>u v. s = u @ v \<and> lower u = lower (c # k) \<and> rmatch fl r (rev u @ l, v) t"
    then obtain u v where u: "s = u @ v" "lower u = lower (c # k)" "rmatch fl r (rev u @ l, v) t" by blast
    then obtain d u' where "u = d # u'" by (cases u) auto
    then show "\<exists>d u v. s = (d # u) @ v \<and> lower (d # u) = lower (c # k) \<and> rmatch fl r (rev (d # u) @ l, v) t" using u by blast
  qed blast
  finally show ?case .
qed

lemma word_pattern_found: "p_found (word_pattern kw) s \<longleftrightarrow> word_in kw s"
proof -
  have "rmatch ignorecase (RSeq RBound (foldr (\<lambda>c r. RSeq (RLit c) r) kw RBound)) (rev a, b) t \<longleftrightarrow>
      (\<exists>u v. b = u @ v \<and> lower u = lower kw \<and> at_boundary (rev a) b \<and> at_boundary (rev u @ rev a) v \<and> t = (rev u @ rev a, v))" for a b t
    using rmatch_literal_then [of ignorecase kw RBound "rev a" b t]
    by (auto simp: rmatch_simps ignorecase_def)
  then show ?thesis by (auto simp: p_found_iff word_pattern_def word_in_def)
qed

definition rule_occurs :: "intent_rule \<Rightarrow> string \<Rightarrow> bool" where
  "rule_occurs rule s \<longleftrightarrow>
     (\<exists>c t p. nr_regex_pattern rule = Some (c # t) \<and> get_compiled_regex (c # t) = Some p \<and> occurs_in s p) \<or>
     (\<exists>kw \<in> set (nr_keywords rule). strip kw \<noteq> [] \<and> word_in (strip kw) s)"

lemma matched_iff_occurs: "matched_tokens rule s \<noteq> [] \<longleftrightarrow> rule_occurs rule s"
proof -
  have B: "filter (\<lambda>kw. p_found (word_pattern kw) s) (filter (\<lambda>k. k \<noteq> []) (map strip (nr_keywords rule))) \<noteq> [] \<longleftrightarrow>
      (\<exists>kw \<in> set (nr_keywords rule). strip kw \<noteq> [] \<and> word_in (strip kw) s)"
    by (auto simp: filter_empty_conv word_pattern_found)
  have A: "(case nr_regex_pattern rule of Some (c # p) \<Rightarrow> (case get_compiled_regex (c # p) of None \<Rightarrow> [] | Some rx \<Rightarrow> all_matches rx s) | _ \<Rightarrow> []) \<noteq> [] \<longleftrightarrow>
      (\<exists>c t p. nr_regex_pattern rule = Some (c # t) \<and> get_compiled_regex (c # t) = Some p \<and> occurs_in s p)"
    by (auto simp: all_matches_found p_found_occurs split: option.splits list.splits)
  show ?thesis unfolding matched_tokens_def rule_occurs_def append_is_Nil_conv de_Morgan_conj A B by (rule refl)
qed

lemma run_rules_matches:
  "run_rules rt s rules modified = Inr (ms, final) \<Longrightarrow>
     ms = map (\<lambda>r. match_of_rule rt r (matched_tokens r s)) (filter (\<lambda>r. rule_occurs r s) rules)"
proof (induction rt s rules modified arbitrary: ms final rule: run_rules.induct)
  case (2 rt s rule rules modified)
  then show ?case
    by (auto simp: Let_def bindE_eq_Inr_iff matched_iff_occurs [symmetric] split: if_splits)
qed simp

text \<open>The rules that are consulted, and the matches of a text.\<close>

definition consulted :: "classifier_intent list option \<Rightarrow> uuid \<Rightarrow> intent_rule list \<Rightarrow> intent_rule list" where
  "consulted rows tenant custom_rules =
     BUILTIN_GLOBAL_RULES @ (case rows of None \<Rightarrow> [] | Some is \<Rightarrow> map rule_of_intent (fetch_applicable_rules is tenant)) @ custom_rules"

definition syntax_risks :: "string \<Rightarrow> string option \<Rightarrow> json dict option \<Rightarrow> syntax_risk list" where
  "syntax_risks canonical tool_name tool_arguments =
     analyze_syntax_risk canonical @ (case tool_name of Some (c # n) \<Rightarrow> analyze_mcp_tool_arguments (c # n) tool_arguments | _ \<Rightarrow> [])"

lemma classify_eq:
  "content \<noteq> [] \<Longrightarrow> classify_intent_and_risk rt rows content tenant custom_rules tool_name tool_arguments =
     bindE (run_rules rt (fst (canonicalize_text rt content)) (consulted rows tenant custom_rules) content)
       (\<lambda>(ms, modified). let found = map match_of_risk (syntax_risks (fst (canonicalize_text rt content)) tool_name tool_arguments) @ ms in
          Inr \<lparr>cv_verdict = final_verdict found, cv_risk_score = max_score found, cv_risk_tier = risk_tier (max_score found), cv_matches = found,
             cv_modified_text = (if list_ex (\<lambda>m. cl_action m = ''redact'') found then Some modified else None),
             cv_deobfuscated = snd (canonicalize_text rt content)\<rparr>)"
  by (simp only: classify_intent_and_risk_def Let_def case_prod_beta consulted_def syntax_risks_def simp_thms if_False)

lemma classify_run:
  assumes "classify_intent_and_risk rt rows content tenant custom_rules tool_name tool_arguments = Inr v" and "content \<noteq> []"
  shows "\<exists>ms final. run_rules rt (fst (canonicalize_text rt content)) (consulted rows tenant custom_rules) content = Inr (ms, final) \<and>
    v = (let found = map match_of_risk (syntax_risks (fst (canonicalize_text rt content)) tool_name tool_arguments) @ ms in
      \<lparr>cv_verdict = final_verdict found, cv_risk_score = max_score found, cv_risk_tier = risk_tier (max_score found), cv_matches = found,
       cv_modified_text = (if list_ex (\<lambda>m. cl_action m = ''redact'') found then Some final else None),
       cv_deobfuscated = snd (canonicalize_text rt content)\<rparr>)"
proof -
  let ?run = "run_rules rt (fst (canonicalize_text rt content)) (consulted rows tenant custom_rules) content"
  from assms(1) [unfolded classify_eq [OF assms(2)]] obtain p where p: "?run = Inr p"
    by (cases ?run) (simp_all only: bindE_Inl bindE_Inr sum.distinct)
  obtain ms final where split: "p = (ms, final)" by (cases p)
  show ?thesis
    using assms(1) [unfolded classify_eq [OF assms(2)] p split bindE_Inr prod.case] p split
    by (intro exI [of _ ms] exI [of _ final]) (simp only: Let_def sum.inject simp_thms)
qed

lemma classified:
  assumes "classify_intent_and_risk rt rows content tenant custom_rules tool_name tool_arguments = Inr v" and "content \<noteq> []"
  shows "cv_matches v = map match_of_risk (syntax_risks (fst (canonicalize_text rt content)) tool_name tool_arguments) @
      map (\<lambda>r. match_of_rule rt r (matched_tokens r (fst (canonicalize_text rt content))))
        (filter (\<lambda>r. rule_occurs r (fst (canonicalize_text rt content))) (consulted rows tenant custom_rules))"
    and "cv_verdict v = final_verdict (cv_matches v)" and "cv_risk_score v = max_score (cv_matches v)"
    and "cv_risk_tier v = risk_tier (cv_risk_score v)"
    and "cv_modified_text v \<noteq> None \<longleftrightarrow> (\<exists>m \<in> set (cv_matches v). cl_action m = ''redact'')"
proof -
  let ?s = "fst (canonicalize_text rt content)"
  obtain ms final where run: "run_rules rt ?s (consulted rows tenant custom_rules) content = Inr (ms, final)"
    and v: "v = (let found = map match_of_risk (syntax_risks ?s tool_name tool_arguments) @ ms in
      \<lparr>cv_verdict = final_verdict found, cv_risk_score = max_score found, cv_risk_tier = risk_tier (max_score found), cv_matches = found,
       cv_modified_text = (if list_ex (\<lambda>m. cl_action m = ''redact'') found then Some final else None),
       cv_deobfuscated = snd (canonicalize_text rt content)\<rparr>)"
    using classify_run [OF assms] by (auto simp: Let_def)
  note ms = run_rules_matches [OF run]
  show "cv_matches v = map match_of_risk (syntax_risks ?s tool_name tool_arguments) @
      map (\<lambda>r. match_of_rule rt r (matched_tokens r ?s)) (filter (\<lambda>r. rule_occurs r ?s) (consulted rows tenant custom_rules))"
    by (simp only: v Let_def classifier_verdict.select_convs ms)
  show "cv_verdict v = final_verdict (cv_matches v)" "cv_risk_score v = max_score (cv_matches v)"
    "cv_risk_tier v = risk_tier (cv_risk_score v)"
    by (simp_all only: v Let_def classifier_verdict.select_convs)
  show "cv_modified_text v \<noteq> None \<longleftrightarrow> (\<exists>m \<in> set (cv_matches v). cl_action m = ''redact'')"
    by (simp add: v Let_def list_ex_iff del: set_append)
qed

section \<open>The verdict\<close>

lemma action_rank_cases: "action_rank a = (if a = ''block'' then 100 else if a = ''request_approval'' then 80 else if a = ''redact'' then 60
    else if a = ''monitor'' then 40 else if a = ''allow'' then 10 else 0)"
  by (simp add: action_rank_def ACTION_PRECEDENCE_def dict_get_or_def dict_get_def)

lemma final_verdict_ge: "m \<in> set ms \<Longrightarrow> action_rank (cl_action m) \<le> action_rank (final_verdict ms)"
  using first_max_ge [of "cl_action m" "cl_action (hd ms)" "map cl_action (tl ms)" action_rank]
  by (cases ms) (auto simp: final_verdict_def)

lemma final_verdict_mem: "ms \<noteq> [] \<Longrightarrow> \<exists>m \<in> set ms. cl_action m = final_verdict ms"
proof -
  assume "ms \<noteq> []"
  then obtain a as where l: "map cl_action ms = a # as" by (cases "map cl_action ms") auto
  have "final_verdict ms \<in> set (map cl_action ms)" using first_max_mem [of action_rank a as] by (simp add: final_verdict_def l)
  then show ?thesis by auto
qed

lemma verdict_block: "final_verdict ms = ''block'' \<longleftrightarrow> (\<exists>m \<in> set ms. cl_action m = ''block'')"
proof
  assume b: "final_verdict ms = ''block''"
  have "ms \<noteq> []" using b by (auto simp: final_verdict_def)
  then show "\<exists>m \<in> set ms. cl_action m = ''block''" using final_verdict_mem b by metis
next
  assume "\<exists>m \<in> set ms. cl_action m = ''block''"
  then have "100 \<le> action_rank (final_verdict ms)" using final_verdict_ge by (fastforce simp: action_rank_cases)
  then show "final_verdict ms = ''block''" by (auto simp: action_rank_cases split: if_splits)
qed

lemma match_of_risk_block: "cl_action (match_of_risk r) = ''block'' \<longleftrightarrow> lower (sr_risk_level r) = ''critical''"
  by (simp add: match_of_risk_def SYNTAX_RISK_CONFIG_def dict_get_or_def dict_get_def)

lemma run_rules_returns: "\<forall>r \<in> set rules. backslash \<notin> set (nr_name r) \<Longrightarrow> \<exists>x. run_rules rt s rules modified = Inr x"
proof (induction rules arbitrary: modified)
  case (Cons r rules)
  have "\<exists>m. (if nr_action r = ''redact'' then redact_keywords (nr_name r) (ru_set_order rt (remdups (matched_tokens r s))) modified else Inr modified) = Inr m"
    using redact_keywords_returns [of "nr_name r"] Cons.prems by simp
  then obtain m where m: "(if nr_action r = ''redact'' then redact_keywords (nr_name r) (ru_set_order rt (remdups (matched_tokens r s))) modified else Inr modified) = Inr m"
    by blast
  obtain x y where "run_rules rt s rules m = Inr (x, y)" using Cons by fastforce
  then show ?case using m Cons by (auto simp: Let_def)
qed simp

text \<open>The built-in rules have no name that is a problem, so only those of tenants can be.\<close>

lemma builtin_names: "list_all (\<lambda>r. backslash \<notin> set (nr_name r)) BUILTIN_GLOBAL_RULES"
  by (simp add: BUILTIN_GLOBAL_RULES_def builtin_def)

lemma max_score_nonneg: "0 \<le> max_score ms"
proof -
  have "a \<le> foldl max a xs" for a :: int and xs by (induction xs arbitrary: a) (auto intro: order_trans [OF max.cobounded1])
  then show ?thesis by (simp add: max_score_def)
qed

lemma max_score_ge: "m \<in> set ms \<Longrightarrow> cl_score m \<le> max_score ms"
proof -
  have start: "a \<le> foldl max a xs" for a :: int and xs by (induction xs arbitrary: a) (auto intro: order_trans [OF max.cobounded1])
  have "x \<le> foldl max a xs" if "x \<in> set xs" for x a :: int and xs
    using that by (induction xs arbitrary: a) (auto intro: order_trans [OF max.cobounded2 start])
  then show "m \<in> set ms \<Longrightarrow> cl_score m \<le> max_score ms" by (simp add: max_score_def)
qed


definition plain_runtime :: runtime where
  "plain_runtime = \<lparr>ru_decode_replace = id, ru_decode_ignore = id, ru_normalize = id, ru_set_order = id\<rparr>"

lemma jailbreak_canonical: "fst (canonicalize_text plain_runtime ''a jailbreak'') = ''a jailbreak''"
  by code_simp


section \<open>Gaps\<close>

text \<open>The patterns end at a word boundary, which a bracket before a quote and a semicolon at the end are not.\<close>

lemma quoted_command_missed: "\<not> p_found CODE_EXEC_PATTERN (''os.system('' @ [dquote] @ ''x'' @ [dquote] @ '')'')"
  by code_simp

lemma eval_missed: "\<not> p_found CODE_EXEC_PATTERN ''eval(x)''"
  by code_simp

lemma delete_all_rows_missed: "\<not> p_found SQL_DESTRUCTIVE_PATTERN ''DELETE FROM a;''"
  by code_simp

end
