(* ===== verification/BackendTokens.thy ===== *)
theory BackendTokens
  imports BackendRouting BackendAgentic BackendMcpTools
begin

text \<open>
  What shrinks a request: \<open>token_saving_service.py\<close> (Markdown is stripped, JSON is written as TOON) and the ranking of tools in
  \<open>dynamic_tool_service.py\<close>.
\<close>

section \<open>Markdown\<close>

text \<open>\<open>pattern.sub(f, s)\<close> with a function of the match.\<close>

fun sub_with_from :: "nat \<Rightarrow> pattern \<Rightarrow> (rmatch_obj \<Rightarrow> string) \<Rightarrow> string \<Rightarrow> string \<Rightarrow> string" where
  "sub_with_from (Suc k) p f l (c # s) = sub_with_from k p f (c # l) s"
| "sub_with_from (Suc k) p f l [] = []"
| "sub_with_from 0 p f l [] = (case re_match_at (p_regex p) (p_flags p) l [] of None \<Rightarrow> [] | Some m \<Rightarrow> f m)"
| "sub_with_from 0 p f l (c # s) =
     (case re_match_at (p_regex p) (p_flags p) l (c # s) of
        None \<Rightarrow> c # sub_with_from 0 p f (c # l) s
      | Some m \<Rightarrow>
          if m_text m = [] then f m @ c # sub_with_from 0 p f (c # l) s
          else f m @ sub_with_from (length (m_text m) - 1) p f (c # l) s)"

definition sub_with :: "pattern \<Rightarrow> (rmatch_obj \<Rightarrow> string) \<Rightarrow> string \<Rightarrow> string" where
  "sub_with p f s = sub_with_from 0 p f [] s"

definition multiline :: rflags where
  "multiline = no_flags\<lparr>mline := True\<rparr>"

definition group1 :: "rmatch_obj \<Rightarrow> string" where
  "group1 m = (case m_group m 1 of None \<Rightarrow> [] | Some s \<Rightarrow> s)"

text \<open>A replacement is a constant text or the first group.\<close>

definition MARKDOWN_PATTERNS :: "(pattern \<times> string option) list" where
  "MARKDOWN_PATTERNS =
     [(re_const multiline (raw ''^#{1,6}`s+''), Some []),
      (re_const no_flags (raw ''`*`*([^*]+)`*`*''), None),
      (re_const no_flags ''__([^_]+)__'', None),
      (re_const no_flags (raw ''`*([^*]+)`*''), None),
      (re_const no_flags ''_([^_]+)_'', None),
      (re_const no_flags ''~~([^~]+)~~'', None),
      (re_const no_flags (raw ''!`[([^`]]*)`]`([^)]+`)''), None),
      (re_const no_flags (raw ''`[([^`]]+)`]`([^)]+`)''), None),
      (re_const multiline (raw ''^>`s?''), Some []),
      (re_const multiline (raw ''^[-*+]`s+''), Some []),
      (re_const multiline (raw ''^`d+`.`s+''), Some []),
      (re_const no_flags ([CHR 0x60] @ ''(['' @ ''^'' @ [CHR 0x60] @ '']+)'' @ [CHR 0x60]), None),
      (re_const no_flags (replicate 3 CHR 0x60 @ raw ''[`s`S]*?'' @ replicate 3 CHR 0x60), Some []),
      (re_const no_flags (raw ''`n{3,}''), Some [newline, newline])]"

definition strip_markdown :: "string \<Rightarrow> string" where
  "strip_markdown s =
     strip (foldl (\<lambda>s (p, r). sub_with p (\<lambda>m. case r of Some t \<Rightarrow> t | None \<Rightarrow> group1 m) s) s MARKDOWN_PATTERNS)"

section \<open>TOON\<close>

text \<open>\<open>s.splitlines()\<close>\<close>

definition line_break :: "char \<Rightarrow> bool" where
  "line_break c \<longleftrightarrow> (10 \<le> ordc c \<and> ordc c \<le> 13) \<or> (28 \<le> ordc c \<and> ordc c \<le> 30)"

fun splitlines_from :: "string \<Rightarrow> string \<Rightarrow> string list" where
  "splitlines_from acc [] = (if acc = [] then [] else [rev acc])"
| "splitlines_from acc [c] = (if line_break c then [rev acc] else [rev (c # acc)])"
| "splitlines_from acc (c # d # s) =
     (if \<not> line_break c then splitlines_from (c # acc) (d # s)
      else if c = CHR 0x0D \<and> d = newline then rev acc # splitlines_from [] s
      else rev acc # splitlines_from [] (d # s))"

definition splitlines :: "string \<Rightarrow> string list" where
  "splitlines s = splitlines_from [] s"

definition is_primitive :: "json \<Rightarrow> bool" where
  "is_primitive v \<longleftrightarrow> (case v of JArr _ \<Rightarrow> False | JObj _ \<Rightarrow> False | _ \<Rightarrow> True)"

definition escape_text :: "string \<Rightarrow> string" where
  "escape_text s = replace_str [dquote] [backslash, dquote] (replace_str [backslash] [backslash, backslash] s)"

definition format_primitive :: "json \<Rightarrow> string" where
  "format_primitive v =
     (case v of
        JNull \<Rightarrow> ''null''
      | JBool b \<Rightarrow> if b then ''true'' else ''false''
      | JStr s \<Rightarrow>
          if list_ex (\<lambda>c. c \<in> {CHR '','', newline, CHR '':'', dquote, backslash}) s \<or> strip s \<noteq> s
          then dquote # escape_text s @ [dquote] else s
      | _ \<Rightarrow> py_str v)"

definition fields_of :: "json \<Rightarrow> string list" where
  "fields_of v = (case v of JObj d \<Rightarrow> map fst d | _ \<Rightarrow> [])"

definition field_value :: "json \<Rightarrow> string \<Rightarrow> json" where
  "field_value v f = (case v of JObj d \<Rightarrow> dict_get_or d f JNull | _ \<Rightarrow> JNull)"

definition is_uniform_object_array :: "json list \<Rightarrow> bool \<times> string list" where
  "is_uniform_object_array items =
     (case items of
        [] \<Rightarrow> (False, [])
      | i # is \<Rightarrow>
          if list_all is_dict items \<and> list_all (\<lambda>j. fields_of j = fields_of i) is \<and>
             list_all (\<lambda>j. list_all (\<lambda>f. is_primitive (field_value j f)) (fields_of i)) items
          then (True, fields_of i) else (False, []))"

definition pad :: "nat \<Rightarrow> string" where
  "pad n = replicate (2 * n) CHR '' ''"

definition item_lines :: "nat \<Rightarrow> string \<Rightarrow> string list" where
  "item_lines n encoded =
     (if newline \<in> set encoded then (pad n @ ''  -'') # map (\<lambda>l. pad n @ ''    '' @ l) (splitlines encoded)
      else [pad n @ ''  - '' @ encoded])"

definition entry_lines :: "nat \<Rightarrow> string \<Rightarrow> string \<Rightarrow> string list" where
  "entry_lines n key encoded =
     (if newline \<in> set encoded then (pad n @ key @ '':'') # map (\<lambda>l. pad n @ ''  '' @ l) (splitlines encoded)
      else [pad n @ key @ '': '' @ encoded])"

definition count_text :: "json list \<Rightarrow> string" where
  "count_text vs = CHR ''['' # show_nat (length vs) @ '']''"

fun encode_value :: "nat \<Rightarrow> json \<Rightarrow> string" where
  "encode_value n (JArr vs) =
     (if vs = [] then ''[]''
      else
        case is_uniform_object_array vs of
          (True, f # fs) \<Rightarrow>
            join [newline]
              ((pad n @ count_text vs @ CHR ''{'' # join '','' (f # fs) @ ''}:'') #
               map (\<lambda>v. pad n @ ''  '' @ join '','' (map (\<lambda>g. format_primitive (field_value v g)) (f # fs))) vs)
        | _ \<Rightarrow> join [newline] ((pad n @ count_text vs @ '':'') # concat (map (\<lambda>v. item_lines n (encode_value (Suc n) v)) vs)))"
| "encode_value n (JObj d) =
     (if d = [] then ''{}''
      else join [newline] (concat (map (\<lambda>(key, v). entry_lines n key (encode_value (Suc n) v)) d)))"
| "encode_value n v = format_primitive v"

definition json_to_toon :: "json \<Rightarrow> string" where
  "json_to_toon v = encode_value 0 v"

definition try_parse_json :: "string \<Rightarrow> json option" where
  "try_parse_json s =
     (case strip s of [] \<Rightarrow> None | c # t \<Rightarrow> if c \<in> {CHR ''{'', CHR ''[''} then loads (c # t) else None)"

text \<open>The text and whether it changed.  A value \<open>null\<close> cannot start with a bracket.\<close>

definition compress_json_block :: "string \<Rightarrow> string \<times> bool" where
  "compress_json_block raw_json =
     (case try_parse_json raw_json of
        None \<Rightarrow> (raw_json, False)
      | Some v \<Rightarrow>
          if 20 * length (json_to_toon v) < 17 * length (strip raw_json) then (json_to_toon v, True) else (raw_json, False))"

definition JSON_FENCE_RE :: pattern where
  "JSON_FENCE_RE =
     re_const ignorecase (replicate 3 CHR 0x60 @ raw ''(?:json)?`s*`n([`s`S]*?)`n'' @ replicate 3 CHR 0x60)"

definition replace_fence :: "rmatch_obj \<Rightarrow> string" where
  "replace_fence m =
     (case compress_json_block (group1 m) of
        (compressed, True) \<Rightarrow> replicate 3 CHR 0x60 @ ''toon'' @ [newline] @ compressed @ [newline] @ replicate 3 CHR 0x60
      | _ \<Rightarrow> m_text m)"

definition fences_changed :: "string \<Rightarrow> nat" where
  "fences_changed s =
     length (filter (\<lambda>m. snd (compress_json_block (group1 m))) (re_finditer (p_regex JSON_FENCE_RE) (p_flags JSON_FENCE_RE) s))"

definition compress_json :: "string \<Rightarrow> string \<times> nat" where
  "compress_json s =
     (let fenced = sub_with JSON_FENCE_RE replace_fence s; n = fences_changed s; (whole, changed) = compress_json_block fenced in
      if changed then (whole, Suc n) else (fenced, n))"

definition compress_message_content :: "string \<Rightarrow> string \<Rightarrow> string \<times> nat" where
  "compress_message_content content mode =
     (let (plain, n) = (if mode \<in> {''strip_markdown'', ''both''} \<and> strip_markdown content \<noteq> content then (strip_markdown content, 1)
            else (content, 0));
          (result, k) = (if mode \<in> {''json_to_toon'', ''both''} then compress_json plain else (plain, 0))
      in (result, n + k))"

section \<open>Token saving\<close>

definition approx_tokens :: "string \<Rightarrow> int" where
  "approx_tokens s = (if strip s \<noteq> [] then max 1 (int (length s div 4)) else 0)"

definition resolve_token_saving_config ::
  "bool \<Rightarrow> string \<Rightarrow> json dict option \<Rightarrow> bool option \<Rightarrow> string option \<Rightarrow> bool \<times> string" where
  "resolve_token_saving_config tenant_enabled tenant_mode metadata key_enabled key_mode =
     (let enabled = (case key_enabled of Some b \<Rightarrow> b | None \<Rightarrow> tenant_enabled);
          mode = (case key_mode of Some m \<Rightarrow> m | None \<Rightarrow> or_str tenant_mode ''both'');
          d = (case metadata of None \<Rightarrow> [] | Some d \<Rightarrow> d);
          enabled = (case dict_get d ''token_saving'' of Some v \<Rightarrow> truthy v | None \<Rightarrow> enabled);
          mode = (if truthy (dict_get_or d ''token_saving_mode'' JNull) then py_str (dict_get_or d ''token_saving_mode'' JNull) else mode)
      in (enabled, if mode \<in> {''json_to_toon'', ''strip_markdown'', ''both''} then mode else ''both''))"

record token_saving_result =
  ts_messages :: "chat_message list"
  ts_enabled :: bool
  ts_mode :: string
  ts_original_tokens :: int
  ts_compressed_tokens :: int
  ts_tokens_saved :: int
  ts_savings_pct :: rat
  ts_transformations :: nat

definition all_text :: "chat_message list \<Rightarrow> string" where
  "all_text messages = join [newline] (map cm_content messages)"

definition bare_message :: "string \<Rightarrow> string \<Rightarrow> chat_message" where
  "bare_message role content = \<lparr>cm_role = role, cm_content = content, cm_tool_calls = None, cm_tool_call_id = None, cm_name = None\<rparr>"

definition compressible :: "chat_message \<Rightarrow> bool" where
  "compressible m \<longleftrightarrow> cm_role m \<in> {''user'', ''tool''} \<and> cm_content m \<noteq> []"

definition compressed_message :: "string \<Rightarrow> chat_message \<Rightarrow> chat_message" where
  "compressed_message mode m =
     (if compressible m then bare_message (cm_role m) (fst (compress_message_content (cm_content m) mode)) else m)"

definition savings_percent :: "int \<Rightarrow> int \<Rightarrow> rat" where
  "savings_percent saved original = (if original = 0 then 0 else round1 (of_int saved / of_int original * 100))"

definition apply_token_saving :: "chat_message list \<Rightarrow> bool \<Rightarrow> string \<Rightarrow> token_saving_result" where
  "apply_token_saving messages enabled mode =
     (let original = approx_tokens (all_text messages) in
      if \<not> enabled then
        \<lparr>ts_messages = messages, ts_enabled = False, ts_mode = mode, ts_original_tokens = original, ts_compressed_tokens = original,
         ts_tokens_saved = 0, ts_savings_pct = 0, ts_transformations = 0\<rparr>
      else
        let new_messages = map (compressed_message mode) messages; compressed = approx_tokens (all_text new_messages);
            saved = max 0 (original - compressed) in
        \<lparr>ts_messages = new_messages, ts_enabled = True, ts_mode = mode, ts_original_tokens = original, ts_compressed_tokens = compressed,
         ts_tokens_saved = saved, ts_savings_pct = savings_percent saved original,
         ts_transformations = sum_list (map (\<lambda>m. if compressible m then snd (compress_message_content (cm_content m) mode) else 0) messages)\<rparr>)"

text \<open>The tokens before and after of a row of the audit, when it saved some.\<close>

definition saving_of :: "json option \<Rightarrow> (int \<times> int) option result" where
  "saving_of row =
     (case row of
        Some (JObj d) \<Rightarrow>
          (case dict_get_or d ''token_saving'' JNull of
             JObj payload \<Rightarrow>
               if \<not> truthy (dict_get_or payload ''enabled'' JNull) then Inr None
               else
                 bindE (int_of_json (or_json (dict_get_or payload ''original_tokens'' JNull) (JInt 0)))
                   (\<lambda>before. bindE (int_of_json (or_json (dict_get_or payload ''compressed_tokens'' JNull) (JInt 0)))
                     (\<lambda>after. Inr (if max 0 (before - after) \<le> 0 then None else Some (before, after))))
           | _ \<Rightarrow> Inr None)
      | _ \<Rightarrow> Inr None)"

record saving_summary =
  sm_requests_compressed :: nat
  sm_original_tokens :: int
  sm_compressed_tokens :: int
  sm_tokens_saved :: int
  sm_savings_pct :: rat

definition summarize_token_saving :: "json option list \<Rightarrow> saving_summary result" where
  "summarize_token_saving usage_rows =
     bindE (mapE saving_of usage_rows)
       (\<lambda>found. let pairs = concat (map (\<lambda>x. case x of None \<Rightarrow> [] | Some pair \<Rightarrow> [pair]) found); original = sum_list (map fst pairs);
              compressed = sum_list (map snd pairs); saved = max 0 (original - compressed) in
          Inr \<lparr>sm_requests_compressed = length pairs, sm_original_tokens = original, sm_compressed_tokens = compressed, sm_tokens_saved = saved,
               sm_savings_pct = savings_percent saved original\<rparr>)"

section \<open>Dynamic tools\<close>

definition TOOL_TOKEN_RE :: pattern where
  "TOOL_TOKEN_RE = re_const no_flags ''[a-z0-9_]{3,}''"

definition DEFAULT_MAX_TOOLS :: int where
  "DEFAULT_MAX_TOOLS = 8"

definition openai_tool :: "tool_def \<Rightarrow> json" where
  "openai_tool t =
     JObj [(''type'', JStr ''function''),
       (''function'', JObj [(''name'', JStr (td_name t)), (''description'', JStr (td_description t)),
          (''parameters'', or_json (td_schema t) object_schema)])]"

definition to_openai_tools :: "json dict list \<Rightarrow> json list result" where
  "to_openai_tools tools = bindE (mapE normalize_tool tools) (\<lambda>ts. Inr (map openai_tool (filter (\<lambda>t. td_name t \<noteq> []) ts)))"

text \<open>\<open>json.dumps(v, separators=(",", ":"))\<close>\<close>

fun dump_tight :: "json \<Rightarrow> string" where
  "dump_tight (JArr vs) = CHR ''['' # join '','' (map dump_tight vs) @ '']''"
| "dump_tight (JObj d) = CHR ''{'' # join '','' (map (\<lambda>(k, v). dump_str k @ CHR '':'' # dump_tight v) d) @ ''}''"
| "dump_tight v = dumps v"

definition tool_dict :: "tool_def \<Rightarrow> json dict" where
  "tool_dict t = [(''name'', JStr (td_name t)), (''description'', JStr (td_description t)), (''inputSchema'', td_schema t)]"

definition tool_token_estimate :: "tool_def list \<Rightarrow> int result" where
  "tool_token_estimate tools =
     (if tools = [] then Inr 0
      else bindE (to_openai_tools (map tool_dict tools)) (\<lambda>ts. Inr (approx_tokens (dump_tight (JArr ts)))))"

definition words_in :: "string \<Rightarrow> string list" where
  "words_in s = remdups (map m_text (re_finditer (p_regex TOOL_TOKEN_RE) (p_flags TOOL_TOKEN_RE) (replace_char CHR ''-'' CHR ''_'' (lower s))))"

definition score_tool :: "string list \<Rightarrow> tool_def \<Rightarrow> int" where
  "score_tool query_words t =
     int (length (filter (\<lambda>w. w \<in> set query_words) (words_in (td_name t @ '' '' @ td_description t))))"

definition resolve_dynamic_tool_config :: "bool \<Rightarrow> int \<Rightarrow> json dict option \<Rightarrow> (bool \<times> int) result" where
  "resolve_dynamic_tool_config tenant_enabled tenant_max_tools metadata =
     (let d = (case metadata of None \<Rightarrow> [] | Some d \<Rightarrow> d);
          enabled = (case dict_get d ''dynamic_tool_calling'' of Some v \<Rightarrow> truthy v | None \<Rightarrow> tenant_enabled);
          start = (if tenant_max_tools = 0 then DEFAULT_MAX_TOOLS else tenant_max_tools);
          wanted = dict_get_or d ''dynamic_tool_max'' JNull
      in
      bindE (if \<not> truthy wanted then Inr start
             else case int_of_json wanted of
                 Inr n \<Rightarrow> Inr n
               | Inl (TypeError _) \<Rightarrow> Inr start
               | Inl (ValueError _) \<Rightarrow> Inr start
               | Inl e \<Rightarrow> Inl e)
        (\<lambda>max_tools. Inr (enabled, max 1 (min max_tools 64))))"

record dynamic_tool_result =
  dt_selected :: "tool_def list"
  dt_enabled :: bool
  dt_catalog_count :: nat
  dt_selected_count :: nat
  dt_original_tokens :: int
  dt_compressed_tokens :: int
  dt_tokens_saved :: int
  dt_savings_pct :: rat

definition rank_tools :: "string list \<Rightarrow> tool_def list \<Rightarrow> tool_def list" where
  "rank_tools query_words tools = sort_key (\<lambda>t. - score_tool query_words t) (sort_key td_name tools)"

definition rank_and_filter_tools :: "string \<Rightarrow> json dict list \<Rightarrow> int \<Rightarrow> bool \<Rightarrow> dynamic_tool_result result" where
  "rank_and_filter_tools query tools max_tools enabled =
     bindE (mapE normalize_tool tools)
       (\<lambda>all_tools. let normalized = filter (\<lambda>t. td_name t \<noteq> []) all_tools in
          bindE (tool_token_estimate normalized)
            (\<lambda>original.
               if \<not> enabled then
                 Inr \<lparr>dt_selected = normalized, dt_enabled = False, dt_catalog_count = length normalized, dt_selected_count = length normalized,
                      dt_original_tokens = original, dt_compressed_tokens = original, dt_tokens_saved = 0, dt_savings_pct = 0\<rparr>
               else
                 let selected = take (nat (max 1 (min max_tools 64))) (rank_tools (words_in query) normalized) in
                 bindE (tool_token_estimate selected)
                   (\<lambda>compressed. let saved = max 0 (original - compressed) in
                      Inr \<lparr>dt_selected = selected, dt_enabled = True, dt_catalog_count = length normalized, dt_selected_count = length selected,
                           dt_original_tokens = original, dt_compressed_tokens = compressed, dt_tokens_saved = saved,
                           dt_savings_pct = savings_percent saved original\<rparr>)))"

fun add_request_tools :: "string list \<Rightarrow> tool_def list \<Rightarrow> json dict list" where
  "add_request_tools seen [] = []"
| "add_request_tools seen (t # ts) =
     (if td_name t \<noteq> [] \<and> td_name t \<notin> set seen then tool_dict t # add_request_tools (td_name t # seen) ts else add_request_tools seen ts)"

definition dicts_of :: "json list \<Rightarrow> json dict list" where
  "dicts_of vs = concat (map (\<lambda>v. case v of JObj d \<Rightarrow> [d] | _ \<Rightarrow> []) vs)"

definition apply_dynamic_tools_for_request ::
  "mcp_server list \<Rightarrow> string \<Rightarrow> json list option \<Rightarrow> bool \<Rightarrow> int \<Rightarrow> bool \<Rightarrow> dynamic_tool_result result" where
  "apply_dynamic_tools_for_request servers query request_tools enabled max_tools auto_hide_destructive =
     bindE (catalog_from_servers servers False auto_hide_destructive)
       (\<lambda>catalog. bindE (mapE normalize_tool (dicts_of (case request_tools of None \<Rightarrow> [] | Some ts \<Rightarrow> ts)))
         (\<lambda>incoming.
            rank_and_filter_tools query (catalog @ add_request_tools (map tool_name_of catalog) incoming) max_tools enabled))"

end
