(* ===== verification/BackendTokensFacts.thy ===== *)
theory BackendTokensFacts
  imports "HOL-Library.Multiset" BackendTokens
begin

text \<open>
  What token saving and the selection of tools keep, and what token saving loses.
\<close>

section \<open>Token saving\<close>

lemma compressed_role [simp]: "cm_role (compressed_message mode m) = cm_role m"
  by (simp add: compressed_message_def bare_message_def)

lemma untouched: "\<not> compressible m \<Longrightarrow> compressed_message mode m = m"
  by (simp add: compressed_message_def)

lemma savings_percent_nonneg: "0 \<le> s \<Longrightarrow> 0 \<le> n \<Longrightarrow> 0 \<le> s / n * (100 :: rat)"
  by simp

lemma approx_tokens_nonneg [simp]: "0 \<le> approx_tokens s"
  by (auto simp: approx_tokens_def le_max_iff_disj)

lemma token_saving_messages:
  "ts_messages (apply_token_saving messages enabled mode) =
     (if enabled then map (compressed_message mode) messages else messages)"
  by (simp add: apply_token_saving_def Let_def)

lemma token_saving_saved:
  "ts_tokens_saved (apply_token_saving messages enabled mode) =
     max 0 (ts_original_tokens (apply_token_saving messages enabled mode) - ts_compressed_tokens (apply_token_saving messages enabled mode))"
  by (simp add: apply_token_saving_def Let_def)

lemma compress_other_mode:
  "mode \<notin> {''strip_markdown'', ''both'', ''json_to_toon''} \<Longrightarrow> compress_message_content s mode = (s, 0)"
  by (simp add: compress_message_content_def)

text \<open>The mode of a request is always one of the three.\<close>

lemma mode_known: "snd (resolve_token_saving_config e m d ke km) \<in> {''json_to_toon'', ''strip_markdown'', ''both''}"
  by (simp add: resolve_token_saving_config_def Let_def)

lemma key_setting_wins:
  "dict_get (case d of None \<Rightarrow> [] | Some d \<Rightarrow> d) ''token_saving'' = None \<Longrightarrow>
   fst (resolve_token_saving_config e m d (Some b) km) = b"
  by (simp add: resolve_token_saving_config_def Let_def)

lemma compress_json_block_shorter:
  assumes "compress_json_block s = (t, True)"
  shows "length t < length (strip s)"
  using assms by (auto simp: compress_json_block_def split: option.splits if_splits)

lemma compress_json_block_unchanged:
  "compress_json_block s = (t, False) \<Longrightarrow> t = s"
  by (auto simp: compress_json_block_def split: option.splits if_splits)

text \<open>The links of a tool answer to its call are dropped.\<close>

lemma tool_links_lost:
  "cm_role m \<in> {''user'', ''tool''} \<Longrightarrow> cm_content m \<noteq> [] \<Longrightarrow>
   cm_tool_call_id (compressed_message mode m) = None \<and> cm_tool_calls (compressed_message mode m) = None"
  by (simp add: compressed_message_def compressible_def bare_message_def)

text \<open>Different values have one TOON text: a string that looks like a literal is not quoted.\<close>

lemma toon_confuses: "json_to_toon (JObj [(''a'', JStr ''true'')]) = json_to_toon (JObj [(''a'', JBool True)])"
  by code_simp

lemma toon_confuses_numbers: "json_to_toon (JObj [(''a'', JStr ''1'')]) = json_to_toon (JObj [(''a'', JInt 1)])"
  by code_simp

text \<open>Emphasis and underscores are removed also where they are not Markdown.\<close>

lemma products_and_names_lost: "strip_markdown ''2*3*4 my_var_name'' = ''234 myvarname''"
  by code_simp

text \<open>C34: Token saving keeps the number, the order and the roles of the messages, changes no text but that of user messages and answers of
  tools, changes nothing when it is off, never reports a negative saving, and keeps a JSON block that would not become shorter.\<close>
theorem token_saving_keeps_conversation:
  "map cm_role (ts_messages (apply_token_saving messages enabled mode)) = map cm_role messages \<and>
   filter (\<lambda>m. cm_role m \<notin> {''user'', ''tool''}) (ts_messages (apply_token_saving messages enabled mode)) =
     filter (\<lambda>m. cm_role m \<notin> {''user'', ''tool''}) messages \<and>
   ts_messages (apply_token_saving messages False mode) = messages \<and>
   0 \<le> ts_tokens_saved (apply_token_saving messages enabled mode) \<and>
   (if snd (compress_json_block s) then length (fst (compress_json_block s)) < length (strip s) else fst (compress_json_block s) = s)"
proof (intro conjI)
  show "map cm_role (ts_messages (apply_token_saving messages enabled mode)) = map cm_role messages"
    by (simp add: token_saving_messages comp_def)
  show "filter (\<lambda>m. cm_role m \<notin> {''user'', ''tool''}) (ts_messages (apply_token_saving messages enabled mode)) =
     filter (\<lambda>m. cm_role m \<notin> {''user'', ''tool''}) messages"
    by (simp add: token_saving_messages filter_map comp_def untouched compressible_def cong: filter_cong map_cong)
       (auto intro!: map_idI simp: untouched compressible_def)
  show "if snd (compress_json_block s) then length (fst (compress_json_block s)) < length (strip s) else fst (compress_json_block s) = s"
    using compress_json_block_shorter [of s "fst (compress_json_block s)"] compress_json_block_unchanged [of s "fst (compress_json_block s)"]
    by (cases "snd (compress_json_block s)") (auto simp: prod_eq_iff)
qed (simp_all add: token_saving_messages token_saving_saved)

text \<open>The summary adds up the rows that saved something.\<close>

lemma saving_of_positive: "saving_of row = Inr (Some (before, after)) \<Longrightarrow> after < before"
  by (auto simp: saving_of_def bindE_eq_Inr_iff split: option.splits json.splits if_splits)

lemma saved_pairs:
  "mapE saving_of rows = Inr found \<Longrightarrow>
   int (length (concat (map (\<lambda>x. case x of None \<Rightarrow> [] | Some pair \<Rightarrow> [pair]) found))) \<le>
     sum_list (map fst (concat (map (\<lambda>x. case x of None \<Rightarrow> [] | Some pair \<Rightarrow> [pair]) found))) -
     sum_list (map snd (concat (map (\<lambda>x. case x of None \<Rightarrow> [] | Some pair \<Rightarrow> [pair]) found)))"
  by (induction rows arbitrary: found) (fastforce simp: bindE_eq_Inr_iff dest: saving_of_positive split: option.splits)+

lemma summary_counts_savings:
  assumes "summarize_token_saving rows = Inr sm"
  shows "int (sm_requests_compressed sm) \<le> sm_tokens_saved sm"
  using assms saved_pairs by (fastforce simp: summarize_token_saving_def bindE_eq_Inr_iff Let_def)

section \<open>Selection of tools\<close>

lemma set_rank_tools [simp]: "set (rank_tools q ts) = set ts"
  by (simp add: rank_tools_def)

lemma length_rank_tools [simp]: "length (rank_tools q ts) = length ts"
  by (simp add: rank_tools_def)

lemma rank_tools_sorted: "sorted (map (\<lambda>t. - score_tool q t) (rank_tools q ts))"
  by (simp add: rank_tools_def)

lemma selected_before_rest:
  assumes "t \<in> set (take n (rank_tools q ts))" "u \<in> set (drop n (rank_tools q ts))"
  shows "score_tool q u \<le> score_tool q t"
proof -
  have "sorted (map (\<lambda>t. - score_tool q t) (take n (rank_tools q ts) @ drop n (rank_tools q ts)))"
    unfolding append_take_drop_id by (rule rank_tools_sorted)
  hence "- score_tool q t \<le> - score_tool q u"
    using assms unfolding map_append sorted_append by auto
  thus ?thesis by simp
qed

lemma rank_and_filter_cases:
  assumes "rank_and_filter_tools q tools n enabled = Inr r"
  obtains all_tools where "mapE normalize_tool tools = Inr all_tools"
    "dt_selected r = (let ts = filter (\<lambda>t. td_name t \<noteq> []) all_tools in
       if enabled then take (nat (max 1 (min n 64))) (rank_tools (words_in q) ts) else ts)"
    "dt_catalog_count r = length (filter (\<lambda>t. td_name t \<noteq> []) all_tools)"
  using assms
  by (fastforce simp: rank_and_filter_tools_def Let_def bindE_eq_Inr_iff split: if_splits)

text \<open>The tools offered to the model are tools of the catalog with a name, at most the configured number (which is kept between 1 and
  64), and no tool that was left out matches the request better than one that was kept.\<close>
theorem selected_tools_fit_best:
  assumes "rank_and_filter_tools query tools n True = Inr r" "mapE normalize_tool tools = Inr all_tools"
  shows "set (dt_selected r) \<subseteq> {t \<in> set all_tools. td_name t \<noteq> []} \<and>
    length (dt_selected r) \<le> nat (max 1 (min n 64)) \<and> 
    (\<exists>left. mset (dt_selected r @ left) = mset (filter (\<lambda>t. td_name t \<noteq> []) all_tools) \<and>
       (\<forall>t \<in> set (dt_selected r). \<forall>u \<in> set left. score_tool (words_in query) u \<le> score_tool (words_in query) t) \<and>
       (left \<noteq> [] \<longrightarrow> length (dt_selected r) = nat (max 1 (min n 64))))"
proof -
  let ?ts = "filter (\<lambda>t. td_name t \<noteq> []) all_tools"
  let ?n = "nat (max 1 (min n 64))"
  have sel: "dt_selected r = take ?n (rank_tools (words_in query) ?ts)"
    using assms by (elim rank_and_filter_cases) (simp add: Let_def)
  have m: "mset (dt_selected r @ drop ?n (rank_tools (words_in query) ?ts)) = mset ?ts"
    unfolding sel append_take_drop_id by (simp add: rank_tools_def)
  have sub: "set (dt_selected r) \<subseteq> set ?ts" using arg_cong [OF m, of set_mset] by auto
  show ?thesis
  proof (intro conjI exI)
    show "set (dt_selected r) \<subseteq> {t \<in> set all_tools. td_name t \<noteq> []}" using sub by auto
    show "length (dt_selected r) \<le> ?n" by (simp add: sel)
    show "mset (dt_selected r @ drop ?n (rank_tools (words_in query) ?ts)) = mset ?ts" by (rule m)
    show "\<forall>t \<in> set (dt_selected r). \<forall>u \<in> set (drop ?n (rank_tools (words_in query) ?ts)).
        score_tool (words_in query) u \<le> score_tool (words_in query) t"
      unfolding sel by (blast intro: selected_before_rest)
    show "drop ?n (rank_tools (words_in query) ?ts) \<noteq> [] \<longrightarrow> length (dt_selected r) = ?n" by (auto simp: sel)
  qed
qed

lemma selected_tools_fit_best_witness:
  "\<exists>r. rank_and_filter_tools ''read'' [[(''name'', JStr ''read_file'')], [(''name'', JStr ''delete'')]] 1 True = Inr r \<and>
     length (dt_selected r) \<le> 1"
proof -
  let ?tools = "[[(''name'', JStr ''read_file'')], [(''name'', JStr ''delete'')]]"
  have ok: "\<not> isl (rank_and_filter_tools ''read'' ?tools 1 True)" "\<not> isl (mapE normalize_tool ?tools)"
    by code_simp+
  obtain r where r: "rank_and_filter_tools ''read'' ?tools 1 True = Inr r" using ok(1) by (metis sum.exhaust_sel sum.disc(1))
  obtain ts where ts: "mapE normalize_tool ?tools = Inr ts" using ok(2) by (metis sum.exhaust_sel sum.disc(1))
  show ?thesis using selected_tools_fit_best [OF r ts] r by auto
qed

end
