(* ===== verification/BackendAccess.thy ===== *)
theory BackendAccess
  imports BackendLlmAdmin BackendMcpGateway
begin

text \<open>
  Who may call the gateway: the client keys of \<open>client_api_key_service.py\<close>, their administration in \<open>api/v1/access.py\<close> and the
  context of a call, \<open>get_gateway_context\<close> of \<open>core/gateway_deps.py\<close>.  SHA-256, Fernet, the random part of a key and the
  decoding of a session token are parameters.
\<close>

section \<open>Rows\<close>

record ai_limits =
  li_rpm :: "int option"
  li_rph :: "int option"
  li_rpd :: "int option"
  li_tpm :: "int option"
  li_tph :: "int option"
  li_tpd :: "int option"

record client_api_key =
  ck_id :: uuid
  ck_tenant :: uuid
  ck_name :: string
  ck_description :: string
  ck_key_prefix :: string
  ck_key_hash :: string
  ck_key_encrypted :: "string option"
  ck_bundle_id :: "uuid option"
  ck_client_response_protocol :: "string option"
  ck_limits :: ai_limits
  ck_token_saving_enabled :: "bool option"
  ck_token_saving_mode :: "string option"
  ck_allowed_api_origins :: "string list option"
  ck_key_source :: string
  ck_upstream_pass_through :: bool
  ck_active :: bool
  ck_last_used :: "int option"

record account = user +
  us_email :: string
  us_active :: bool

record tenant_row =
  te_id :: uuid
  te_allowed_api_origins :: "string list option"
  te_token_saving_enabled :: bool
  te_token_saving_mode :: string
  te_dynamic_tool_calling_enabled :: bool
  te_dynamic_tool_max :: int
  te_mcp_auto_hide_destructive :: bool
  te_mcp_agent_toggles :: json
  te_ai_limits :: ai_limits

record key_runtime =
  kr_hash :: "string \<Rightarrow> string"
  kr_encrypt :: "string \<Rightarrow> string"
  kr_decrypt :: "string \<Rightarrow> string option"
  kr_decode_token :: "string \<Rightarrow> json dict option"
  kr_byok_enabled :: bool

section \<open>Keys and origins\<close>

definition KEY_PREFIX :: string where "KEY_PREFIX = ''hg_''"
definition MAX_API_ORIGINS :: nat where "MAX_API_ORIGINS = 50"

definition LOCALHOST_ORIGIN :: pattern where
  "LOCALHOST_ORIGIN = re_const ignorecase (raw ''^https?://localhost(:`d+)?$'')"

definition EXTENSION_ORIGIN :: pattern where
  "EXTENSION_ORIGIN = re_const ignorecase ''^(chrome|edge)-extension://[a-p]{32}$''"

definition looks_like_jwt :: "string \<Rightarrow> bool" where
  "looks_like_jwt token \<longleftrightarrow> length (split_char CHR ''.'' token) = 3 \<and> list_all (\<lambda>part. strip part \<noteq> []) (split_char CHR ''.'' token)"

text \<open>The key, its prefix and its hash; the random part is a parameter.\<close>

definition generate_client_key :: "key_runtime \<Rightarrow> string \<Rightarrow> string \<times> string \<times> string" where
  "generate_client_key rt random = (let key = KEY_PREFIX @ random in (key, take 12 key, kr_hash rt key))"

definition mirrored_key_prefix :: "string \<Rightarrow> string" where
  "mirrored_key_prefix key = take 12 (strip key)"

text \<open>\<open>urlparse\<close>: scheme and path; the parameters of the last segment belong to the path only where the scheme has none.\<close>

definition url_scheme :: "string \<Rightarrow> string" where
  "url_scheme url =
     (let s = filter (\<lambda>c. ordc c \<notin> {9, 10, 13}) (dropWhile (\<lambda>c. ordc c \<le> 32) url); scheme = before_char CHR '':'' s in
      if CHR '':'' \<in> set s \<and> scheme \<noteq> [] \<and> is_alpha (hd s) \<and> list_all scheme_char scheme then lower scheme else [])"

definition url_path :: "string \<Rightarrow> string" where
  "url_path url =
     (let u = after_scheme url;
          after = (if startswith u ''//'' then dropWhile (\<lambda>c. c \<notin> set ''/?#'') (drop 2 u) else u);
          path = takeWhile (\<lambda>c. c \<notin> set ''?#'') after; last_part = after_last CHR ''/'' path in
      if url_scheme url \<in> {''http'', ''https'', []} then take (length path - length last_part) path @ before_char CHR '';'' last_part else path)"

definition normalize_origin :: "string \<Rightarrow> string result" where
  "normalize_origin origin =
     (let v = rstrip_chars ''/'' (strip origin); scheme = url_scheme v in
      if v = [] then Inl (ValueError ''Origin cannot be empty'')
      else
        bindE (url_netloc v)
          (\<lambda>netloc.
             if scheme = [] \<or> netloc = [] then Inl (ValueError (''Invalid origin URL: '' @ origin))
             else if scheme \<in> {''chrome-extension'', ''edge-extension''} then
               if url_path v \<notin> {[], ''/''} \<or> \<not> p_found EXTENSION_ORIGIN v
               then Inl (ValueError (''Invalid browser extension origin: '' @ origin)) else Inr (scheme @ ''://'' @ netloc)
             else if scheme \<notin> {''http'', ''https''} then Inl (ValueError (''Origin must use http or https: '' @ origin))
             else if url_path v \<notin> {[], ''/''} then Inl (ValueError (''Origin must not include a path: '' @ origin))
             else if scheme = ''http'' \<and> \<not> p_found LOCALHOST_ORIGIN v
             then Inl (ValueError (''Non-localhost origins must use https: '' @ origin))
             else Inr (scheme @ ''://'' @ netloc)))"

definition validate_api_origins :: "string list option \<Rightarrow> string list option result" where
  "validate_api_origins origins =
     (case origins of
        None \<Rightarrow> Inr None
      | Some os \<Rightarrow>
          if length os > MAX_API_ORIGINS then Inl (ValueError ''At most 50 origins are allowed'')
          else bindE (mapE normalize_origin os) (\<lambda>normalized. Inr (Some (dedup_from [] normalized))))"

definition parse_allowed_api_origins :: "string list option \<Rightarrow> string list option result" where
  "parse_allowed_api_origins origins =
     (case validate_api_origins origins of Inl (ValueError e) \<Rightarrow> Inl (HTTPException 400 e) | r \<Rightarrow> r)"

definition resolve_effective_api_origins :: "client_api_key \<Rightarrow> tenant_row option \<Rightarrow> string list option" where
  "resolve_effective_api_origins key tenant =
     (case ck_allowed_api_origins key of
        Some [] \<Rightarrow> None
      | Some os \<Rightarrow> Some os
      | None \<Rightarrow> (case tenant of None \<Rightarrow> None | Some t \<Rightarrow> (case te_allowed_api_origins t of Some (c # os) \<Rightarrow> Some (c # os) | _ \<Rightarrow> None)))"

definition allowed_api_origins_mode :: "client_api_key \<Rightarrow> string" where
  "allowed_api_origins_mode key =
     (case ck_allowed_api_origins key of None \<Rightarrow> ''inherit'' | Some [] \<Rightarrow> ''allow_all'' | Some _ \<Rightarrow> ''restrict'')"

definition normalize_api_key_client_protocol :: "string option \<Rightarrow> string option" where
  "normalize_api_key_client_protocol v =
     (case v of
        None \<Rightarrow> None
      | Some s \<Rightarrow> let n = lower (strip s) in if n \<in> {[], ''inherit'', ''default'', ''auto''} then None else Some (normalize_client_protocol n))"

definition normalize_token_saving_mode :: "string option \<Rightarrow> string option" where
  "normalize_token_saving_mode v =
     (case v of
        None \<Rightarrow> None
      | Some s \<Rightarrow> let mode = lower (strip s) in
          if mode \<in> {[], ''inherit'', ''default''} then None
          else if mode \<in> {''json_to_toon'', ''strip_markdown'', ''both''} then Some mode else Some ''both'')"

type_synonym 'a keyed = "(client_api_key list, 'a) eff"

text \<open>The row of an active key; its use is recorded.\<close>

definition with_hash :: "string \<Rightarrow> client_api_key list \<Rightarrow> client_api_key list" where
  "with_hash h keys = filter (\<lambda>k. ck_key_hash k = h \<and> ck_active k) keys"

definition resolve_client_api_key :: "key_runtime \<Rightarrow> string \<Rightarrow> client_api_key list \<Rightarrow> client_api_key option result" where
  "resolve_client_api_key rt raw_key keys =
     (if strip raw_key = [] then Inr None else scalar_one_or_none (with_hash (kr_hash rt (strip raw_key)) keys))"

definition mark_used :: "int \<Rightarrow> uuid \<Rightarrow> client_api_key list \<Rightarrow> client_api_key list" where
  "mark_used now i keys = map (\<lambda>k. if ck_id k = i then k\<lparr>ck_last_used := Some now\<rparr> else k) keys"

definition find_client_key :: "client_api_key list \<Rightarrow> uuid \<Rightarrow> string \<Rightarrow> client_api_key result" where
  "find_client_key keys tenant key_id =
     (case uuid_of key_id of
        None \<Rightarrow> Inl (bad_request ''Invalid client API key id'')
      | Some u \<Rightarrow>
          bindE (scalar_one_or_none (filter (\<lambda>k. ck_id k = u \<and> ck_tenant k = tenant) keys))
            (\<lambda>k. case k of None \<Rightarrow> Inl (HTTPException 404 ''Client API key not found'') | Some k \<Rightarrow> Inr k))"

definition validate_bundle_for_tenant :: "policy_bundle list \<Rightarrow> uuid \<Rightarrow> string option \<Rightarrow> uuid option result" where
  "validate_bundle_for_tenant bundles tenant bundle_id =
     (case bundle_id of
        None \<Rightarrow> Inr None
      | Some [] \<Rightarrow> Inr None
      | Some b \<Rightarrow>
          (case uuid_of b of
             None \<Rightarrow> Inl (bad_request ''Invalid bundle id'')
           | Some u \<Rightarrow>
               bindE (scalar_one_or_none (filter (\<lambda>b. pb_id b = u \<and> pb_tenant b = tenant) bundles))
                 (\<lambda>row. if row = None then Inl (bad_request ''Policy bundle not found'') else Inr (Some u))))"

section \<open>Administration\<close>

record key_create =
  kc_name :: string
  kc_description :: string
  kc_bundle_id :: "string option"
  kc_protocol :: "string option"
  kc_limits :: ai_limits
  kc_token_saving_enabled :: "bool option"
  kc_token_saving_mode :: "string option"
  kc_allowed_api_origins :: "string list option"

record key_mirror = key_create +
  km_mirrored_api_key :: string
  km_upstream_pass_through :: bool

record key_update =
  kp_name :: "string option"
  kp_description :: "string option"
  kp_bundle_id :: "string option"
  kp_protocol :: "string option"
  kp_limits :: ai_limits
  kp_token_saving_enabled :: "bool option"
  kp_token_saving_mode :: "string option"
  kp_allowed_api_origins :: "string list option"
  kp_upstream_pass_through :: "bool option"
  kp_active :: "bool option"

definition require_key_management :: "user \<Rightarrow> user result" where
  "require_key_management u = require_any_permission [MANAGE_POLICIES, USE_MCP, USE_STUDIO] u"

text \<open>The name of the bundle for the answer, read after the commit.\<close>

definition bundle_name_of :: "policy_bundle list \<Rightarrow> uuid \<Rightarrow> client_api_key \<Rightarrow> string option result" where
  "bundle_name_of bundles tenant k =
     (case ck_bundle_id k of
        Some (c # i) \<Rightarrow> bindE (get_policy_bundle bundles tenant (c # i)) (\<lambda>b. Inr (Some (pb_name b)))
      | _ \<Rightarrow> Inr None)"

definition row_of_request ::
  "uuid \<Rightarrow> uuid \<Rightarrow> string \<Rightarrow> 'a key_create_scheme \<Rightarrow> string \<Rightarrow> string \<Rightarrow> string \<Rightarrow> uuid option \<Rightarrow> string list option \<Rightarrow> string \<Rightarrow> bool \<Rightarrow>
   client_api_key" where
  "row_of_request i tenant name payload key_prefix key_hash encrypted bundle_id origins source pass_through =
     \<lparr>ck_id = i, ck_tenant = tenant, ck_name = name, ck_description = strip (kc_description payload), ck_key_prefix = key_prefix,
      ck_key_hash = key_hash, ck_key_encrypted = Some encrypted, ck_bundle_id = bundle_id,
      ck_client_response_protocol = normalize_api_key_client_protocol (kc_protocol payload), ck_limits = kc_limits payload,
      ck_token_saving_enabled = kc_token_saving_enabled payload,
      ck_token_saving_mode = normalize_token_saving_mode (kc_token_saving_mode payload), ck_allowed_api_origins = origins,
      ck_key_source = source, ck_upstream_pass_through = pass_through, ck_active = True, ck_last_used = None\<rparr>"

definition insert_key :: "policy_bundle list \<Rightarrow> client_api_key \<Rightarrow> (client_api_key \<times> string option) keyed" where
  "insert_key bundles row =
     seqS (modifyS (\<lambda>keys. keys @ [row]))
       (bindS (liftS (bundle_name_of bundles (ck_tenant row) row)) (\<lambda>name. returnS (row, name)))"

definition create_client_api_key ::
  "key_runtime \<Rightarrow> policy_bundle list \<Rightarrow> user \<Rightarrow> key_create \<Rightarrow> uuid \<Rightarrow> string \<Rightarrow> (client_api_key \<times> string option \<times> string) keyed" where
  "create_client_api_key rt bundles u payload i random =
     bindS (liftS (require_key_management u))
       (\<lambda>_.
          if strip (kc_name payload) = [] then raiseS (bad_request ''Key name is required'')
          else
            bindS (liftS (validate_bundle_for_tenant bundles (us_tenant u) (kc_bundle_id payload)))
              (\<lambda>b. bindS (liftS (parse_allowed_api_origins (kc_allowed_api_origins payload)))
                (\<lambda>origins. case generate_client_key rt random of (key, key_prefix, key_hash) \<Rightarrow>
                   bindS (insert_key bundles
                       (row_of_request i (us_tenant u) (strip (kc_name payload)) payload key_prefix key_hash (kr_encrypt rt key) b origins
                          ''pysetu'' False))
                     (\<lambda>(row, name). returnS (row, name, key)))))"

definition register_mirrored_client_key ::
  "key_runtime \<Rightarrow> uuid \<Rightarrow> string \<Rightarrow> key_mirror \<Rightarrow> uuid option \<Rightarrow> string list option \<Rightarrow> uuid \<Rightarrow> client_api_key keyed" where
  "register_mirrored_client_key rt tenant name payload b origins i =
     (let key = strip (km_mirrored_api_key payload) in
      if length key < 8 then raiseS (bad_request ''Mirrored API key is too short'')
      else
        bindS (getS (\<lambda>keys. list_ex (\<lambda>k. ck_key_hash k = kr_hash rt key) keys))
          (\<lambda>exists.
             if exists then raiseS (HTTPException 409 ''This API key is already registered'')
             else returnS (row_of_request i tenant name payload (mirrored_key_prefix key) (kr_hash rt key) (kr_encrypt rt key) b origins ''mirrored''
                 (km_upstream_pass_through payload))))"

definition create_mirrored_client_api_key ::
  "key_runtime \<Rightarrow> policy_bundle list \<Rightarrow> user \<Rightarrow> key_mirror \<Rightarrow> uuid \<Rightarrow> (client_api_key \<times> string option) keyed" where
  "create_mirrored_client_api_key rt bundles u payload i =
     bindS (liftS (require_permission MANAGE_POLICIES u))
       (\<lambda>_.
          if \<not> kr_byok_enabled rt then raiseS (HTTPException 403 ''BYOK ingress is disabled on this deployment'')
          else if strip (kc_name payload) = [] then raiseS (bad_request ''Key name is required'')
          else if strip (km_mirrored_api_key payload) = [] then raiseS (bad_request ''Mirrored API key is required'')
          else
            bindS (liftS (validate_bundle_for_tenant bundles (us_tenant u) (kc_bundle_id payload)))
              (\<lambda>b. bindS (liftS (parse_allowed_api_origins (kc_allowed_api_origins payload)))
                (\<lambda>origins. bindS (register_mirrored_client_key rt (us_tenant u) (strip (kc_name payload)) payload b origins i)
                  (insert_key bundles))))"

definition list_client_api_keys :: "policy_bundle list \<Rightarrow> user \<Rightarrow> (client_api_key \<times> string option) list keyed" where
  "list_client_api_keys bundles u =
     bindS (liftS (require_key_management u))
       (\<lambda>_. getS (\<lambda>keys. map (\<lambda>k. (k, map_option pb_name (find (\<lambda>b. Some (pb_id b) = ck_bundle_id k) bundles)))
          (sort_key ck_name (filter (\<lambda>k. ck_tenant k = us_tenant u) keys))))"

definition reveal_client_api_key :: "key_runtime \<Rightarrow> user \<Rightarrow> string \<Rightarrow> string keyed" where
  "reveal_client_api_key rt u key_id =
     bindS (liftS (require_key_management u))
       (\<lambda>_. bindS (getS (\<lambda>keys. find_client_key keys (us_tenant u) key_id))
         (\<lambda>found. bindS (liftS found)
           (\<lambda>k. case ck_key_encrypted k of
              Some (c # e) \<Rightarrow>
                (case kr_decrypt rt (c # e) of
                   None \<Rightarrow> raiseS (HTTPException 500 ''Unable to decrypt client API key'')
                 | Some key \<Rightarrow> returnS key)
            | _ \<Rightarrow> raiseS (HTTPException 404 ''This key was created before reveal support and cannot be recovered''))))"

definition or_old :: "'a option \<Rightarrow> 'a option \<Rightarrow> 'a option" where
  "or_old new old = (if new = None then old else new)"

definition updated_limits :: "ai_limits \<Rightarrow> ai_limits \<Rightarrow> ai_limits" where
  "updated_limits new old =
     \<lparr>li_rpm = or_old (li_rpm new) (li_rpm old), li_rph = or_old (li_rph new) (li_rph old), li_rpd = or_old (li_rpd new) (li_rpd old),
      li_tpm = or_old (li_tpm new) (li_tpm old), li_tph = or_old (li_tph new) (li_tph old), li_tpd = or_old (li_tpd new) (li_tpd old)\<rparr>"

definition updated_key :: "policy_bundle list \<Rightarrow> uuid \<Rightarrow> key_update \<Rightarrow> client_api_key \<Rightarrow> client_api_key result" where
  "updated_key bundles tenant payload k =
     bindE (case kp_name payload of
         None \<Rightarrow> Inr (ck_name k)
       | Some n \<Rightarrow> if strip n = [] then Inl (bad_request ''Key name is required'') else Inr (strip n))
       (\<lambda>name. bindE (case kp_bundle_id payload of None \<Rightarrow> Inr (ck_bundle_id k) | Some b \<Rightarrow> validate_bundle_for_tenant bundles tenant (Some b))
         (\<lambda>bundle_id. bindE (case kp_allowed_api_origins payload of
                None \<Rightarrow> Inr (ck_allowed_api_origins k)
              | Some os \<Rightarrow> parse_allowed_api_origins (Some os))
           (\<lambda>origins. bindE (case kp_upstream_pass_through payload of
                  None \<Rightarrow> Inr (ck_upstream_pass_through k)
                | Some p \<Rightarrow> if ck_key_source k \<noteq> ''mirrored''
                    then Inl (bad_request ''Upstream pass-through applies only to mirrored keys'') else Inr p)
             (\<lambda>pass_through.
                Inr (k\<lparr>ck_name := name, ck_description := (case kp_description payload of None \<Rightarrow> ck_description k | Some d \<Rightarrow> strip d),
                  ck_bundle_id := bundle_id,
                  ck_client_response_protocol := (case kp_protocol payload of None \<Rightarrow> ck_client_response_protocol k
                    | Some p \<Rightarrow> normalize_api_key_client_protocol (Some p)),
                  ck_limits := updated_limits (kp_limits payload) (ck_limits k),
                  ck_token_saving_enabled := or_old (kp_token_saving_enabled payload) (ck_token_saving_enabled k),
                  ck_token_saving_mode := (case kp_token_saving_mode payload of None \<Rightarrow> ck_token_saving_mode k
                    | Some m \<Rightarrow> normalize_token_saving_mode (Some m)),
                  ck_allowed_api_origins := origins, ck_upstream_pass_through := pass_through,
                  ck_active := (case kp_active payload of None \<Rightarrow> ck_active k | Some a \<Rightarrow> a)\<rparr>)))))"

definition replace_key :: "client_api_key \<Rightarrow> client_api_key list \<Rightarrow> client_api_key list" where
  "replace_key row keys = map (\<lambda>k. if ck_id k = ck_id row then row else k) keys"

definition update_client_api_key ::
  "policy_bundle list \<Rightarrow> user \<Rightarrow> string \<Rightarrow> key_update \<Rightarrow> (client_api_key \<times> string option) keyed" where
  "update_client_api_key bundles u key_id payload =
     bindS (liftS (require_key_management u))
       (\<lambda>_. bindS (getS (\<lambda>keys. find_client_key keys (us_tenant u) key_id))
         (\<lambda>found. bindS (liftS (bindE found (updated_key bundles (us_tenant u) payload)))
           (\<lambda>row. seqS (modifyS (replace_key row))
             (bindS (liftS (bundle_name_of bundles (us_tenant u) row)) (\<lambda>name. returnS (row, name))))))"

definition delete_client_api_key :: "user \<Rightarrow> string \<Rightarrow> unit keyed" where
  "delete_client_api_key u key_id =
     bindS (liftS (require_key_management u))
       (\<lambda>_. bindS (getS (\<lambda>keys. find_client_key keys (us_tenant u) key_id))
         (\<lambda>found. bindS (liftS found) (\<lambda>k. modifyS (filter (\<lambda>r. ck_id r \<noteq> ck_id k)))))"

section \<open>The context of a call\<close>

record chat_ctx = gateway_ctx +
  gc_client_response_protocol :: "string option"
  gc_limits :: ai_limits
  gc_token_saving_enabled :: "bool option"
  gc_token_saving_mode :: "string option"
  gc_key_source :: string
  gc_upstream_pass_through :: bool
  gc_ingress_bearer_token :: "string option"

definition no_limits :: ai_limits where
  "no_limits = \<lparr>li_rpm = None, li_rph = None, li_rpd = None, li_tpm = None, li_tph = None, li_tpd = None\<rparr>"

definition enforce_origin_policy :: "string option \<Rightarrow> string list option \<Rightarrow> unit result" where
  "enforce_origin_policy origin effective_origins =
     (case effective_origins of
        Some (c # os) \<Rightarrow>
          (case origin of
             Some (a # s) \<Rightarrow> if a # s \<in> set (c # os) then Inr () else Inl (HTTPException 403 ''Origin not allowed by policy'')
           | _ \<Rightarrow> Inl (HTTPException 403 ''Missing Origin header''))
      | _ \<Rightarrow> Inr ())"

definition key_context :: "client_api_key \<Rightarrow> string option \<Rightarrow> string \<Rightarrow> chat_ctx" where
  "key_context k bundle_name token =
     (let source = or_str (ck_key_source k) ''pysetu'' in
      \<lparr>gc_tenant = ck_tenant k, gc_actor = ''client-key:'' @ ck_name k, gc_user = None, gc_client_api_key_id = Some (ck_id k),
       gc_client_api_key_name = Some (ck_name k), gc_policy_bundle_id = ck_bundle_id k, gc_policy_bundle_name = bundle_name,
       gc_client_response_protocol = ck_client_response_protocol k, gc_limits = ck_limits k,
       gc_token_saving_enabled = ck_token_saving_enabled k, gc_token_saving_mode = normalize_token_saving_mode (ck_token_saving_mode k),
       gc_key_source = source, gc_upstream_pass_through = ck_upstream_pass_through k,
       gc_ingress_bearer_token = (if source = ''mirrored'' \<and> ck_upstream_pass_through k then Some token else None)\<rparr>)"

definition user_context :: "account \<Rightarrow> policy_bundle option \<Rightarrow> chat_ctx" where
  "user_context a chosen =
     \<lparr>gc_tenant = us_tenant a, gc_actor = us_email a, gc_user = Some (user.truncate a), gc_client_api_key_id = None,
      gc_client_api_key_name = None, gc_policy_bundle_id = map_option pb_id chosen, gc_policy_bundle_name = map_option pb_name chosen,
      gc_client_response_protocol = None, gc_limits = no_limits, gc_token_saving_enabled = None, gc_token_saving_mode = None,
      gc_key_source = ''pysetu'', gc_upstream_pass_through = False, gc_ingress_bearer_token = None\<rparr>"

text \<open>A session token: its subject is an active user of the tenant it names.\<close>

definition session_context ::
  "key_runtime \<Rightarrow> policy_bundle list \<Rightarrow> account list \<Rightarrow> string \<Rightarrow> chat_ctx result" where
  "session_context rt bundles accounts token =
     (if \<not> looks_like_jwt token then Inl (HTTPException 401 ''Invalid client API key'')
      else
        case kr_decode_token rt token of
          None \<Rightarrow> Inl (HTTPException 401 ''Invalid token'')
        | Some payload \<Rightarrow>
            if \<not> truthy (dict_get_or payload ''sub'' JNull) then Inl (HTTPException 401 ''Invalid token'')
            else
              case uuid_of (py_str (dict_get_or payload ''sub'' JNull)) of
                None \<Rightarrow> Inl (ValueError ''badly formed hexadecimal UUID string'')
              | Some i \<Rightarrow>
                  bindE (scalar_one_or_none (filter (\<lambda>a. us_id a = i) accounts))
                    (\<lambda>found. case found of
                       None \<Rightarrow> Inl (HTTPException 401 ''User not found or inactive'')
                     | Some a \<Rightarrow>
                         if \<not> us_active a then Inl (HTTPException 401 ''User not found or inactive'')
                         else if truthy (dict_get_or payload ''tenant_id'' JNull) \<and> us_tenant a \<noteq> py_str (dict_get_or payload ''tenant_id'' JNull)
                         then Inl (HTTPException 403 ''Tenant mismatch'')
                         else bindE (get_tenant_default_bundle bundles (us_tenant a)) (\<lambda>default. Inr (user_context a default))))"

definition get_gateway_context ::
  "key_runtime \<Rightarrow> policy_bundle list \<Rightarrow> tenant_row list \<Rightarrow> account list \<Rightarrow> int \<Rightarrow> string option \<Rightarrow> string option \<Rightarrow> chat_ctx keyed" where
  "get_gateway_context rt bundles tenants accounts now credentials origin =
     (case credentials of
        None \<Rightarrow> raiseS (HTTPException 401 ''Not authenticated'')
      | Some c \<Rightarrow>
          let token = strip c in
          bindS (getS (resolve_client_api_key rt token))
            (\<lambda>found. bindS (liftS found)
              (\<lambda>key. case key of
                 None \<Rightarrow> liftS (session_context rt bundles accounts token)
               | Some k \<Rightarrow>
                   bindS (liftS (scalar_one_or_none (filter (\<lambda>t. te_id t = ck_tenant k) tenants)))
                     (\<lambda>tenant. bindS (liftS (enforce_origin_policy origin (resolve_effective_api_origins k tenant)))
                       (\<lambda>_. bindS (liftS (load_bundle bundles (ck_bundle_id k)))
                         (\<lambda>b. seqS (modifyS (mark_used now (ck_id k))) (returnS (key_context k (map_option pb_name b) token))))))))"

end
