(* ===== verification/BackendAccessFacts.thy ===== *)
theory BackendAccessFacts
  imports BackendAccess BackendLlmAdminFacts BackendMcpFacts
begin

text \<open>
  Client keys: an administrator touches the keys of the own tenant only and hashes stay unique, so that an issued key opens
  exactly its tenant and a deleted one nothing; and who gets a context for the gateway.
\<close>

section \<open>An example\<close>

definition one_key :: client_api_key where
  "one_key = \<lparr>ck_id = ''k'', ck_tenant = ''t'', ck_name = ''app'', ck_description = [], ck_key_prefix = ''hg_'', ck_key_hash = ''hg_a'',
     ck_key_encrypted = None, ck_bundle_id = None, ck_client_response_protocol = None, ck_limits = no_limits, ck_token_saving_enabled = None,
     ck_token_saving_mode = None, ck_allowed_api_origins = Some [''https://a''], ck_key_source = ''pysetu'', ck_upstream_pass_through = False,
     ck_active = True, ck_last_used = None\<rparr>"

definition plain_keys :: key_runtime where
  "plain_keys = \<lparr>kr_hash = id, kr_encrypt = id, kr_decrypt = Some, kr_decode_token = (\<lambda>_. None), kr_byok_enabled = True\<rparr>"

section \<open>Administration of keys\<close>

datatype key_request =
    Create key_create uuid string
  | Mirror key_mirror uuid
  | Change string key_update
  | Delete string

definition handle_key :: "key_runtime \<Rightarrow> policy_bundle list \<Rightarrow> user \<Rightarrow> key_request \<Rightarrow> unit keyed" where
  "handle_key rt bundles u r =
     (case r of
        Create p i random \<Rightarrow> seqS (create_client_api_key rt bundles u p i random) (returnS ())
      | Mirror p i \<Rightarrow> seqS (create_mirrored_client_api_key rt bundles u p i) (returnS ())
      | Change k p \<Rightarrow> seqS (update_client_api_key bundles u k p) (returnS ())
      | Delete k \<Rightarrow> delete_client_api_key u k)"

definition keys_ok :: "client_api_key list \<Rightarrow> bool" where
  "keys_ok keys \<longleftrightarrow> distinct (map ck_id keys) \<and> distinct (map ck_key_hash keys)"

text \<open>Generated ids are new, and so is the hash of a generated key.\<close>

definition fresh_for :: "key_runtime \<Rightarrow> key_request \<Rightarrow> client_api_key list \<Rightarrow> bool" where
  "fresh_for rt r keys \<longleftrightarrow>
     (case r of
        Create p i random \<Rightarrow> i \<notin> ck_id ` set keys \<and> kr_hash rt (KEY_PREFIX @ random) \<notin> ck_key_hash ` set keys
      | Mirror p i \<Rightarrow> i \<notin> ck_id ` set keys
      | _ \<Rightarrow> True)"

definition own_change :: "uuid \<Rightarrow> client_api_key list \<Rightarrow> client_api_key list \<Rightarrow> bool" where
  "own_change tenant keys keys' \<longleftrightarrow>
     keys' = keys \<or>
     (\<exists>row. keys' = keys @ [row] \<and> ck_tenant row = tenant \<and> ck_id row \<notin> ck_id ` set keys \<and> ck_key_hash row \<notin> ck_key_hash ` set keys) \<or>
     (\<exists>k row. k \<in> set keys \<and> ck_tenant k = tenant \<and> keys' = replace_key row keys \<and> ck_id row = ck_id k \<and> ck_tenant row = tenant \<and>
        ck_key_hash row = ck_key_hash k) \<or>
     (\<exists>k. k \<in> set keys \<and> ck_tenant k = tenant \<and> keys' = filter (\<lambda>r. ck_id r \<noteq> ck_id k) keys)"

lemma insert_key_state: "snd (insert_key bundles row keys) = keys @ [row]"
  by (auto simp: insert_key_def seqS_def bindS_def split: sum.splits)

lemma create_state:
  "snd (create_client_api_key rt bundles u p i random keys) = keys \<or>
   (\<exists>b origins. snd (create_client_api_key rt bundles u p i random keys) =
      keys @ [row_of_request i (us_tenant u) (strip (kc_name p)) p (take 12 (KEY_PREFIX @ random)) (kr_hash rt (KEY_PREFIX @ random))
        (kr_encrypt rt (KEY_PREFIX @ random)) b origins ''pysetu'' False])"
  by (auto simp: create_client_api_key_def generate_client_key_def Let_def bindS_def insert_key_state split: sum.splits prod.splits)
     (metis insert_key_state snd_conv)+

lemma mirror_state:
  "snd (create_mirrored_client_api_key rt bundles u p i keys) = keys \<or>
   (\<exists>row. snd (create_mirrored_client_api_key rt bundles u p i keys) = keys @ [row] \<and> ck_id row = i \<and> ck_tenant row = us_tenant u \<and>
      ck_key_hash row \<notin> ck_key_hash ` set keys)"
  by (auto simp: create_mirrored_client_api_key_def register_mirrored_client_key_def Let_def bindS_def insert_key_state list_ex_iff
        row_of_request_def split: sum.splits prod.splits)

lemma find_client_key_found:
  "find_client_key keys tenant i = Inr k \<Longrightarrow> k \<in> set keys \<and> ck_tenant k = tenant \<and> uuid_of i = Some (ck_id k)"
  unfolding find_client_key_def
  by (auto simp: bindE_eq_Inr_iff split: option.splits dest!: scalar_member)

lemma updated_key_keeps:
  "updated_key bundles tenant p k = Inr row \<Longrightarrow> ck_id row = ck_id k \<and> ck_tenant row = ck_tenant k \<and> ck_key_hash row = ck_key_hash k"
  by (auto simp: updated_key_def bindE_eq_Inr_iff)

lemma update_state:
  "snd (update_client_api_key bundles u i p keys) = keys \<or>
   (\<exists>k row. find_client_key keys (us_tenant u) i = Inr k \<and> updated_key bundles (us_tenant u) p k = Inr row \<and>
      snd (update_client_api_key bundles u i p keys) = replace_key row keys)"
  by (auto simp: update_client_api_key_def seqS_def bindS_def bindE_def split: sum.splits)

lemma delete_state:
  "snd (delete_client_api_key u i keys) = keys \<or>
   (\<exists>k. find_client_key keys (us_tenant u) i = Inr k \<and> snd (delete_client_api_key u i keys) = filter (\<lambda>r. ck_id r \<noteq> ck_id k) keys)"
  by (auto simp: delete_client_api_key_def bindS_def split: sum.splits)

lemma seq_unit_state [simp]: "snd (seqS m (returnS ()) s) = snd (m s)"
  by (auto simp: seqS_def bindS_def split: sum.splits prod.splits)

lemma handle_key_own:
  assumes "fresh_for rt r keys"
  shows "own_change (us_tenant u) keys (snd (handle_key rt bundles u r keys))"
proof (cases r)
  case (Create p i random)
  have "ck_id (row_of_request i t n p a h e b os s w) = i" "ck_tenant (row_of_request i t n p a h e b os s w) = t"
    "ck_key_hash (row_of_request i t n p a h e b os s w) = h" for t n a h e b os s w
    by (simp_all add: row_of_request_def)
  then show ?thesis using Create assms create_state [of rt bundles u p i random keys]
    unfolding own_change_def handle_key_def fresh_for_def by auto
next
  case (Mirror p i)
  then show ?thesis using assms mirror_state [of rt bundles u p i keys] unfolding own_change_def handle_key_def fresh_for_def by auto
next
  case (Change i p)
  then show ?thesis using update_state [of bundles u i p keys] find_client_key_found updated_key_keeps
    unfolding own_change_def handle_key_def by simp metis
next
  case (Delete i)
  then show ?thesis using delete_state [of u i keys] find_client_key_found unfolding own_change_def handle_key_def by simp metis
qed

lemma replace_key_maps:
  assumes "distinct (map ck_id keys)" "k \<in> set keys" "ck_id row = ck_id k" "f row = f k"
  shows "map f (replace_key row keys) = map f keys"
  using assms by (auto simp: replace_key_def distinct_map inj_on_def)

lemma foreign_replace_key:
  assumes "distinct (map ck_id keys)" "k \<in> set keys" "ck_id row = ck_id k" "ck_tenant row = tenant" "ck_tenant k = tenant"
  shows "filter (\<lambda>k. ck_tenant k \<noteq> tenant) (replace_key row keys) = filter (\<lambda>k. ck_tenant k \<noteq> tenant) keys"
proof -
  have "ck_tenant r = tenant" if "r \<in> set keys" "ck_id r = ck_id row" for r
    using assms that by (auto simp: distinct_map inj_on_def)
  then show ?thesis
    by (induction keys) (auto simp: replace_key_def assms(4))
qed

lemma own_change_ok:
  assumes "keys_ok keys" "own_change tenant keys keys'"
  shows "keys_ok keys' \<and> filter (\<lambda>k. ck_tenant k \<noteq> tenant) keys' = filter (\<lambda>k. ck_tenant k \<noteq> tenant) keys"
  using assms(2) unfolding own_change_def
proof (elim disjE exE conjE)
  fix k row assume k: "k \<in> set keys" "ck_tenant k = tenant" "keys' = replace_key row keys" "ck_id row = ck_id k" "ck_tenant row = tenant"
    "ck_key_hash row = ck_key_hash k"
  have d: "distinct (map ck_id keys)" using assms(1) by (simp add: keys_ok_def)
  show ?thesis
    using assms(1) replace_key_maps [OF d k(1,4), of ck_id] replace_key_maps [OF d k(1,4), of ck_key_hash] foreign_replace_key [OF d k(1,4,5,2)] k
    by (simp add: keys_ok_def)
next
  fix k assume k: "k \<in> set keys" "ck_tenant k = tenant" "keys' = filter (\<lambda>r. ck_id r \<noteq> ck_id k) keys"
  have "ck_tenant r = tenant" if "r \<in> set keys" "ck_id r = ck_id k" for r
    using assms(1) k that by (auto simp: keys_ok_def distinct_map inj_on_def)
  then show ?thesis using assms(1) k by (auto simp: keys_ok_def distinct_map_filter intro!: filter_cong)
next
  fix row assume "keys' = keys @ [row]" "ck_tenant row = tenant" "ck_id row \<notin> ck_id ` set keys" "ck_key_hash row \<notin> ck_key_hash ` set keys"
  then show ?thesis using assms(1) by (auto simp: keys_ok_def)
qed (use assms(1) in simp)

lemma unprivileged_key_request:
  assumes "require_key_management u = Inl e"
  shows "snd (handle_key rt bundles u r keys) = keys"
proof -
  have "require_permission MANAGE_POLICIES u = Inl (HTTPException 403 (''Permission required: '' @ MANAGE_POLICIES))"
    using assms by (auto simp: require_key_management_def require_any_permission_def require_permission_def split: if_splits)
  then show ?thesis using assms
    by (cases r) (simp_all add: handle_key_def create_client_api_key_def create_mirrored_client_api_key_def update_client_api_key_def
      delete_client_api_key_def bindS_def)
qed

section \<open>Keys and callers\<close>

lemma scalar_unique:
  assumes "distinct (map ck_key_hash keys)" "k \<in> set keys" "ck_active k"
  shows "scalar_one_or_none (with_hash (ck_key_hash k) keys) = Inr (Some k)"
proof -
  have "with_hash (ck_key_hash k) keys = [k]"
    using assms
  proof (induction keys)
    case (Cons r keys)
    have none: "with_hash (ck_key_hash k) keys = []" if "r = k"
      using Cons.prems(1) that by (auto simp: with_hash_def filter_empty_conv) (metis imageI)
    then show ?case using Cons by (cases "r = k") (auto simp: with_hash_def)
  qed simp
  then show ?thesis by (simp add: scalar_one_or_none_def)
qed

lemma resolve_found:
  "resolve_client_api_key rt key keys = Inr (Some k) \<Longrightarrow> k \<in> set keys \<and> ck_active k \<and> ck_key_hash k = kr_hash rt (strip key)"
  by (auto simp: resolve_client_api_key_def with_hash_def split: if_splits dest!: scalar_member)

text \<open>An issued key is accepted with its settings, and a deleted one is not any more.\<close>

lemma issued_key_accepted:
  assumes "keys_ok keys" "fresh_for rt (Create p i random) keys" "strip (KEY_PREFIX @ random) = KEY_PREFIX @ random"
    and "create_client_api_key rt bundles u p i random keys = (Inr (row, name, key), keys')"
  shows "resolve_client_api_key rt key keys' = Inr (Some row) \<and> ck_tenant row = us_tenant u \<and> ck_active row"
proof -
  have state: "keys' = keys @ [row]" "key = KEY_PREFIX @ random" "ck_tenant row = us_tenant u" "ck_active row"
    "ck_key_hash row = kr_hash rt (KEY_PREFIX @ random)"
    using assms(4)
    by (auto simp: create_client_api_key_def generate_client_key_def Let_def bindS_def insert_key_def seqS_def row_of_request_def
        split: sum.splits prod.splits if_splits)
  have ok: "keys_ok keys'"
    using handle_key_own [OF assms(2), of u bundles] own_change_ok [OF assms(1)] assms(4) by (metis handle_key_def key_request.simps(17) seq_unit_state snd_conv)
  have "scalar_one_or_none (with_hash (ck_key_hash row) keys') = Inr (Some row)"
    by (rule scalar_unique) (use ok state in \<open>auto simp: keys_ok_def\<close>)
  then show ?thesis using state assms(3) by (simp add: resolve_client_api_key_def KEY_PREFIX_def)
qed

lemma deleted_key_refused:
  assumes "keys_ok keys" "find_client_key keys (us_tenant u) i = Inr k" "delete_client_api_key u i keys = (Inr (), keys')"
    and "kr_hash rt (strip raw_key) = ck_key_hash k"
  shows "resolve_client_api_key rt raw_key keys' = Inr None"
proof -
  have keys': "keys' = filter (\<lambda>r. ck_id r \<noteq> ck_id k) keys"
    using assms(2,3) by (auto simp: delete_client_api_key_def bindS_def split: sum.splits)
  have "k \<in> set keys" using find_client_key_found [OF assms(2)] by blast
  then have "with_hash (ck_key_hash k) keys' = []"
    using assms(1) unfolding keys' by (auto simp: with_hash_def filter_empty_conv keys_ok_def distinct_map inj_on_def)
  then show ?thesis using assms(4) by (simp add: resolve_client_api_key_def scalar_one_or_none_def)
qed

text \<open>C35: Requests of a user to the administration of client keys change no key of another tenant, keep ids and hashes of keys
  unique, and change nothing at all when the user may not manage keys.\<close>
theorem client_keys_confined:
  assumes "keys_ok keys" "fresh_for rt r keys"
  shows "keys_ok (snd (handle_key rt bundles u r keys)) \<and>
    filter (\<lambda>k. ck_tenant k \<noteq> us_tenant u) (snd (handle_key rt bundles u r keys)) = filter (\<lambda>k. ck_tenant k \<noteq> us_tenant u) keys \<and>
    (isl (require_key_management u) \<longrightarrow> snd (handle_key rt bundles u r keys) = keys)"
  using own_change_ok [OF assms(1) handle_key_own [OF assms(2)]] unprivileged_key_request by (auto simp: isl_def)

theorem client_keys_confined_witness:
  "snd (handle_key plain_keys [] \<lparr>us_id = ''u'', us_tenant = ''s'', us_role = ''security_admin''\<rparr> (Delete ''k'') [one_key]) = [one_key]"
proof -
  let ?u = "\<lparr>us_id = ''u'', us_tenant = ''s'', us_role = ''security_admin''\<rparr>"
  have "filter (\<lambda>k. ck_tenant k \<noteq> us_tenant ?u) (snd (handle_key plain_keys [] ?u (Delete ''k'') [one_key])) = [one_key]"
    using client_keys_confined [of "[one_key]" plain_keys "Delete ''k''" "[]" ?u] by (simp add: keys_ok_def fresh_for_def one_key_def)
  moreover have "length (snd (handle_key plain_keys [] ?u (Delete ''k'') [one_key])) \<le> 1" by code_simp
  ultimately show ?thesis by (cases "snd (handle_key plain_keys [] ?u (Delete ''k'') [one_key])") (auto split: if_splits)
qed

section \<open>The context of a call\<close>

definition origin_admitted :: "string option \<Rightarrow> string list option \<Rightarrow> bool" where
  "origin_admitted origin allowed \<longleftrightarrow> (case allowed of Some (c # os) \<Rightarrow> (\<exists>s \<in> set (c # os). origin = Some s) | _ \<Rightarrow> True)"

lemma enforce_origin_ok: "enforce_origin_policy origin allowed = Inr () \<Longrightarrow> origin_admitted origin allowed"
  by (auto simp: enforce_origin_policy_def origin_admitted_def split: option.splits list.splits if_splits)

lemma session_context_user:
  assumes "session_context rt bundles accounts token = Inr ctx"
  shows "\<exists>payload a. kr_decode_token rt token = Some payload \<and> a \<in> set accounts \<and> us_active a \<and>
    uuid_of (py_str (dict_get_or payload ''sub'' JNull)) = Some (us_id a) \<and> gc_tenant ctx = us_tenant a \<and>
    gc_ingress_bearer_token ctx = None \<and>
    (truthy (dict_get_or payload ''tenant_id'' JNull) \<longrightarrow> us_tenant a = py_str (dict_get_or payload ''tenant_id'' JNull))"
proof -
  obtain payload where payload: "kr_decode_token rt token = Some payload"
    using assms by (auto simp: session_context_def split: if_splits option.splits)
  obtain i where i: "uuid_of (py_str (dict_get_or payload ''sub'' JNull)) = Some i"
    using assms payload by (auto simp: session_context_def split: if_splits option.splits)
  obtain a where a: "scalar_one_or_none (filter (\<lambda>a. us_id a = i) accounts) = Inr (Some a)" "us_active a"
    "\<not> (truthy (dict_get_or payload ''tenant_id'' JNull) \<and> us_tenant a \<noteq> py_str (dict_get_or payload ''tenant_id'' JNull))"
    "bindE (get_tenant_default_bundle bundles (us_tenant a)) (\<lambda>chosen. Inr (user_context a chosen)) = Inr ctx"
    using assms payload i by (auto simp: session_context_def bindE_eq_Inr_iff [of "scalar_one_or_none xs" for xs] split: if_splits option.splits)
  have "a \<in> set accounts" "us_id a = i" using scalar_member [OF a(1)] by auto
  moreover have "gc_tenant ctx = us_tenant a \<and> gc_ingress_bearer_token ctx = None"
    using a(4) by (auto simp: bindE_eq_Inr_iff user_context_def)
  ultimately show ?thesis using payload i a(2,3) by auto
qed

lemma key_context_found:
  assumes "get_gateway_context rt bundles tenants accounts now (Some c) origin keys = (Inr ctx, keys')"
    and "resolve_client_api_key rt (strip c) keys = Inr (Some k)"
  shows "ctx = key_context k (gc_policy_bundle_name ctx) (strip c) \<and> keys' = mark_used now (ck_id k) keys \<and>
    (\<exists>tenant. scalar_one_or_none (filter (\<lambda>t. te_id t = ck_tenant k) tenants) = Inr tenant \<and>
       origin_admitted origin (resolve_effective_api_origins k tenant))"
  using assms
  by (auto simp: get_gateway_context_def Let_def bindS_def seqS_def key_context_def enforce_origin_ok split: sum.splits prod.splits)

text \<open>C36: Whoever gets a context for the gateway presented either the secret of an active client key, and then the context has the tenant,
  the bundle and the name of that key and the origin of the call is one its policy admits, or a valid session token of an active user whose
  tenant the context has.  Only the time of the last use of the key changes.\<close>
theorem gateway_access_authorised:
  assumes "get_gateway_context rt bundles tenants accounts now credentials origin keys = (Inr ctx, keys')"
  shows "\<exists>c. credentials = Some c \<and>
    ((\<exists>k \<in> set keys. ck_active k \<and> ck_key_hash k = kr_hash rt (strip c) \<and> gc_tenant ctx = ck_tenant k \<and>
        gc_policy_bundle_id ctx = ck_bundle_id k \<and> gc_client_api_key_id ctx = Some (ck_id k) \<and> keys' = mark_used now (ck_id k) keys \<and>
        (\<exists>tenant. scalar_one_or_none (filter (\<lambda>t. te_id t = ck_tenant k) tenants) = Inr tenant \<and>
           origin_admitted origin (resolve_effective_api_origins k tenant))) \<or>
     (\<exists>payload a. kr_decode_token rt (strip c) = Some payload \<and> a \<in> set accounts \<and> us_active a \<and>
        uuid_of (py_str (dict_get_or payload ''sub'' JNull)) = Some (us_id a) \<and> gc_tenant ctx = us_tenant a \<and> keys' = keys))"
proof -
  obtain c where c: "credentials = Some c" using assms by (cases credentials) (auto simp: get_gateway_context_def)
  have "\<exists>found. resolve_client_api_key rt (strip c) keys = Inr found"
    using assms by (auto simp: c get_gateway_context_def Let_def bindS_def split: sum.splits)
  then obtain found where found: "resolve_client_api_key rt (strip c) keys = Inr found" by blast
  show ?thesis
  proof (cases found)
    case None
    then have "session_context rt bundles accounts (strip c) = Inr ctx" "keys' = keys"
      using assms found by (simp_all add: c get_gateway_context_def Let_def bindS_def)
    then obtain payload a where "kr_decode_token rt (strip c) = Some payload" "a \<in> set accounts" "us_active a"
        "uuid_of (py_str (dict_get_or payload ''sub'' JNull)) = Some (us_id a)" "gc_tenant ctx = us_tenant a" "keys' = keys"
      using session_context_user [of rt bundles accounts "strip c" ctx] by blast
    then show ?thesis using c by (intro exI [of _ c] conjI disjI2 exI [of _ payload] exI [of _ a])
  next
    case (Some k)
    have k: "k \<in> set keys" "ck_active k" "ck_key_hash k = kr_hash rt (strip c)"
      using resolve_found [of rt "strip c" keys k] found Some by (simp_all add: strip_idem)
    note facts = key_context_found [OF assms [unfolded c] found [unfolded Some]]
    have "gc_tenant ctx = ck_tenant k" "gc_policy_bundle_id ctx = ck_bundle_id k" "gc_client_api_key_id ctx = Some (ck_id k)"
      by (subst facts [THEN conjunct1], simp add: key_context_def Let_def)+
    then show ?thesis using k facts c by (intro exI [of _ c] conjI disjI1 bexI [of _ k]) simp_all
  qed
qed

lemma one_key_call:
  "get_gateway_context plain_keys [] [] [] 5 (Some ''hg_a'') (Some ''https://a'') [one_key] =
     (Inr (key_context one_key None ''hg_a''), [one_key\<lparr>ck_last_used := Some 5\<rparr>])"
  by code_simp

theorem gateway_access_authorised_witness:
  "gc_tenant (key_context one_key None ''hg_a'') = ''t''"
proof -
  have no_token: "kr_decode_token plain_keys c = None" for c by (simp add: plain_keys_def)
  show ?thesis using gateway_access_authorised [OF one_key_call] no_token by (auto simp: one_key_def)
qed

section \<open>Gaps\<close>

text \<open>The host of an origin keeps its case, while browsers send it in lower case.\<close>

lemma origin_keeps_case: "normalize_origin ''https://App.example'' = Inr ''https://App.example''"
  by code_simp

text \<open>A mirrored key of a provider is shown to users who may not register one.\<close>

lemma mirrored_key_revealed:
  assumes "us_role u = ''developer''" "us_tenant u = ''t''"
  shows "\<not> role_has_permission (us_role u) MANAGE_POLICIES \<and>
    fst (reveal_client_api_key plain_keys u ''00000000-0000-0000-0000-000000000001''
      [one_key\<lparr>ck_id := ''00000000-0000-0000-0000-000000000001'', ck_key_source := ''mirrored'', ck_key_encrypted := Some ''provider''\<rparr>]) =
      Inr ''provider''"
proof -
  have "u = \<lparr>us_id = us_id u, us_tenant = ''t'', us_role = ''developer''\<rparr>" using assms by simp
  then obtain i where u: "u = \<lparr>us_id = i, us_tenant = ''t'', us_role = ''developer''\<rparr>" by blast
  show ?thesis unfolding u by code_simp
qed

end
