(* ===== verification/BackendGovern.thy ===== *)
theory BackendGovern
  imports BackendAccess BackendClassifier BackendTokens BackendDlp BackendUag
begin

text \<open>
  What decides on a chat request beside the policy engine: the policy agent of \<open>opa_service.py\<close> and the managed prompts of
  \<open>prompt_injection_service.py\<close>.  The agent is a parameter; a dash in one of its messages is written in ASCII.
\<close>

section \<open>The policy agent\<close>

record opa_violation =
  ov_rule :: string
  ov_message :: string
  ov_severity :: string

record opa_decision =
  od_allow :: bool
  od_violations :: "opa_violation list"
  od_available :: bool
  od_skipped :: bool
  od_error :: "string option"

definition build_gateway_opa_input ::
  "chat_ctx \<Rightarrow> chat_request \<Rightarrow> string \<Rightarrow> inspection \<Rightarrow> dlp_scan \<Rightarrow> nat \<Rightarrow> int \<Rightarrow> json" where
  "build_gateway_opa_input ctx request routed_model ingress dlp content_length hour =
     JObj [(''subject'',
         JObj [(''role'', JStr (case gc_user ctx of None \<Rightarrow> ''client_key'' | Some u \<Rightarrow> us_role u)), (''actor'', JStr (gc_actor ctx)),
           (''auth_type'', JStr (if has_text (gc_client_api_key_id ctx) then ''client_key'' else ''jwt''))]),
       (''resource'',
         JObj [(''bundle'', JStr (case gc_policy_bundle_name ctx of None \<Rightarrow> [] | Some n \<Rightarrow> n)), (''tenant_id'', JStr (gc_tenant ctx))]),
       (''request'', JObj [(''model'', JStr (cr_model request)), (''routed_model'', JStr routed_model)]),
       (''content'',
         JObj [(''text_length'', JInt (int content_length)), (''has_pii'', JBool (dl_has_pii dlp)), (''risk'', JStr (in_risk ingress))]),
       (''data'',
         JObj [(''classifications'', JArr (map JStr (dl_classifications dlp))),
           (''sensitivity_labels'', JArr (map JStr (dl_sensitivity_labels dlp))),
           (''highest_sensitivity'', JStr (case dl_highest_sensitivity dlp of None \<Rightarrow> [] | Some h \<Rightarrow> h))]),
       (''movement'', JObj [(''from'', JStr ''prompt''), (''to'', JStr ''llm''), (''operation'', JStr ''completion'')]),
       (''environment'', JObj [(''region'', JStr (dl_region dlp)), (''hour_utc'', JInt hour)]),
       (''routing_context'', JObj (case cr_routing_context request of None \<Rightarrow> [] | Some d \<Rightarrow> d))]"

definition opa_violations :: "json \<Rightarrow> opa_violation list" where
  "opa_violations raw_violations =
     concat (map (\<lambda>v. case v of
         JObj item \<Rightarrow>
           [\<lparr>ov_rule = py_str (dict_get_or item ''rule'' (JStr ''ABAC Rule'')),
             ov_message = py_str (dict_get_or item ''message'' (JStr ''ABAC policy violation'')),
             ov_severity = py_str (dict_get_or item ''severity'' (JStr ''high''))\<rparr>]
       | _ \<Rightarrow> []) (list_or_empty raw_violations))"

text \<open>The decision in the answer of the agent; an answer without one allows.\<close>

definition opa_answer :: "json dict \<Rightarrow> opa_decision" where
  "opa_answer body =
     (let decision = (case dict_get_or body ''result'' JNull of
            JObj r \<Rightarrow> (case dict_get r ''decision'' of Some (JObj d) \<Rightarrow> d | _ \<Rightarrow> r)
          | _ \<Rightarrow> [(''allow'', JBool True), (''violations'', JArr [])]);
          violations = opa_violations (dict_get_or decision ''violations'' JNull)
      in
      \<lparr>od_allow = violations = [] \<and> truthy (dict_get_or decision ''allow'' (JBool True)), od_violations = violations, od_available = True,
       od_skipped = False, od_error = None\<rparr>)"

definition evaluate_gateway_opa :: "bool \<Rightarrow> bool \<Rightarrow> (json \<Rightarrow> json result) \<Rightarrow> json \<Rightarrow> opa_decision result" where
  "evaluate_gateway_opa enabled fail_open agent payload =
     (if \<not> enabled
      then Inr \<lparr>od_allow = True, od_violations = [], od_available = False, od_skipped = True, od_error = None\<rparr>
      else
        case agent (JObj [(''input'', payload)]) of
          Inl (HTTPError e) \<Rightarrow>
            Inr (if fail_open then \<lparr>od_allow = True, od_violations = [], od_available = False, od_skipped = True, od_error = Some e\<rparr>
              else \<lparr>od_allow = False,
                od_violations = [\<lparr>ov_rule = ''OPA Unavailable'', ov_message = ''Policy agent unreachable - request blocked (fail-closed)'',
                  ov_severity = ''critical''\<rparr>], od_available = False, od_skipped = False, od_error = Some e\<rparr>)
        | Inl e \<Rightarrow> Inl e
        | Inr (JObj body) \<Rightarrow> Inr (opa_answer body)
        | Inr _ \<Rightarrow> Inl (AttributeError ''get''))"

definition merge_opa_into_inspection :: "inspection \<Rightarrow> opa_decision \<Rightarrow> inspection" where
  "merge_opa_into_inspection ingress opa =
     (if od_skipped opa \<or> od_allow opa then ingress
      else
        \<lparr>in_allowed = False, in_action = ''block'',
         in_violations = in_violations ingress @
           map (\<lambda>v. \<lparr>pv_rule_name = ov_rule v, pv_action = ''Block'', pv_severity = ov_severity v, pv_detail = ''OPA ABAC: '' @ ov_message v\<rparr>)
             (od_violations opa),
         in_redacted_content = in_redacted_content ingress,
         in_risk = foldl (\<lambda>h v. if severity_rank h < severity_rank (ov_severity v) then ov_severity v else h) (in_risk ingress)
           (od_violations opa),
         in_rule_results = None\<rparr>)"

section \<open>Managed prompts\<close>

record prompt_version =
  vs_id :: uuid
  vs_version :: int
  vs_system_prompt :: string

record prompt_template =
  pt_id :: uuid
  pt_tenant :: uuid
  pt_name :: string
  pt_alias :: "string option"
  pt_enforce_mode :: string
  pt_active :: bool
  pt_current_version_id :: "uuid option"
  pt_versions :: "prompt_version list"

definition PLACEHOLDER :: pattern where
  "PLACEHOLDER = re_const no_flags (raw ''`{`{`s*([a-zA-Z0-9_]+)`s*`}`}'')"

definition re_escape :: "string \<Rightarrow> string" where
  "re_escape s =
     concat (map (\<lambda>c. if c \<in> set (''()[]{}?*+-|^$.&~# '' @ [backslash, newline, CHR 0x09, CHR 0x0B, CHR 0x0C, CHR 0x0D])
       then [backslash, c] else [c]) s)"

definition placeholder_of :: "string \<Rightarrow> pattern" where
  "placeholder_of key = re_const no_flags (raw ''`{`{`s*'' @ re_escape key @ raw ''`s*`}`}'')"

fun fill_variables :: "json dict \<Rightarrow> string \<Rightarrow> string result" where
  "fill_variables [] s = Inr s"
| "fill_variables ((key, v) # vs) s = bindE (sub_template (placeholder_of key) (py_str v) s) (fill_variables vs)"

definition apply_variable_substitution :: "string \<Rightarrow> json dict option \<Rightarrow> string result" where
  "apply_variable_substitution template_text variables =
     bindE (fill_variables (case variables of None \<Rightarrow> [] | Some vs \<Rightarrow> vs) template_text) (\<lambda>s. Inr (strip (p_sub PLACEHOLDER [] s)))"

record prompt_outcome =
  po_messages :: "chat_message list"
  po_template_id :: "uuid option"
  po_version :: "int option"
  po_enforce_mode :: "string option"
  po_warning :: "string option"
  po_blocked :: bool

text \<open>The managed prompt takes the place of the first system message; the others are dropped.\<close>

fun inject_system :: "string \<Rightarrow> bool \<Rightarrow> chat_message list \<Rightarrow> chat_message list \<times> bool" where
  "inject_system prompt injected [] = ([], injected)"
| "inject_system prompt injected (m # ms) =
     (if cm_role m = ''system'' \<and> \<not> injected then
        (case inject_system prompt True ms of (ns, b) \<Rightarrow> (bare_message ''system'' prompt # ns, b))
      else if cm_role m \<noteq> ''system'' then (case inject_system prompt injected ms of (ns, b) \<Rightarrow> (m # ns, b))
      else inject_system prompt injected ms)"

definition with_system :: "string \<Rightarrow> chat_message list \<Rightarrow> chat_message list" where
  "with_system prompt ms = (case inject_system prompt False ms of (ns, True) \<Rightarrow> ns | (ns, False) \<Rightarrow> bare_message ''system'' prompt # ns)"

definition current_version :: "prompt_template \<Rightarrow> prompt_version option" where
  "current_version t =
     (if pt_versions t = [] then None
      else case find (\<lambda>v. Some (vs_id v) = pt_current_version_id t) (pt_versions t) of Some v \<Rightarrow> Some v | None \<Rightarrow> Some (last (pt_versions t)))"

definition matched_template :: "prompt_template list \<Rightarrow> string option \<Rightarrow> prompt_template option" where
  "matched_template templates requested =
     (case requested of
        Some (c # r) \<Rightarrow> find (\<lambda>t. pt_id t = c # r \<or> pt_alias t = Some (c # r) \<or> pt_name t = c # r) templates
      | _ \<Rightarrow> None)"

definition resolve_and_inject_prompt ::
  "prompt_template list \<Rightarrow> uuid \<Rightarrow> chat_message list \<Rightarrow> string option \<Rightarrow> json dict option \<Rightarrow> prompt_outcome result" where
  "resolve_and_inject_prompt rows tenant messages requested variables =
     (let templates = filter (\<lambda>t. pt_tenant t = tenant \<and> pt_active t) rows;
          adhoc = list_ex (\<lambda>m. cm_role m = ''system'') messages;
          unmanaged = (if adhoc \<and> list_ex (\<lambda>t. pt_enforce_mode t = ''strict'') templates
            then \<lparr>po_messages = messages, po_template_id = None, po_version = None, po_enforce_mode = Some ''strict'',
              po_warning = Some ''Ad-hoc system prompts are blocked by tenant policy. Please use a managed prompt template.'', po_blocked = True\<rparr>
            else \<lparr>po_messages = messages, po_template_id = None, po_version = None, po_enforce_mode = None,
              po_warning = (if adhoc then Some ''Ad-hoc system prompt used without managed prompt template.'' else None), po_blocked = False\<rparr>)
      in
      case matched_template templates requested of
        None \<Rightarrow> Inr unmanaged
      | Some t \<Rightarrow>
          (case current_version t of
             None \<Rightarrow> Inr unmanaged
           | Some v \<Rightarrow>
               bindE (apply_variable_substitution (vs_system_prompt v) variables)
                 (\<lambda>prompt. Inr \<lparr>po_messages = with_system prompt messages, po_template_id = Some (pt_id t), po_version = Some (vs_version v),
                    po_enforce_mode = Some (pt_enforce_mode t), po_warning = None, po_blocked = False\<rparr>)))"

end
