(* ===== verification/BackendPrepare.thy ===== *)
theory BackendPrepare
  imports BackendGovern
begin

text \<open>
  The way of a chat request to its provider: \<open>prepare_chat_request\<close> of \<open>gateway_service.py\<close> with its audit and alerts.  The
  state is the session, what was committed, and the alerts handed to the connectors; the policy agent, the model list of
  Ollama, the clock and the id of the trace are parameters.  The JSON form of the bodies that are logged is left out.
\<close>

section \<open>Audit and alerts\<close>

record guardrail_events =
  ge_ingress :: "inspection option"
  ge_egress :: "inspection option"
  ge_classifier :: "classifier_verdict option"

text \<open>What is logged of an answer: the whole of it, or model, text and usage of a stream.\<close>

datatype logged_answer = Whole chat_response | Streamed string string chat_usage

record log_body =
  lb_tenant :: uuid
  lb_audit_log :: uuid
  lb_request :: "chat_request option"
  lb_response :: "logged_answer option"
  lb_guardrail_events :: guardrail_events

record gateway_alert =
  ga_tenant :: uuid
  ga_title :: string
  ga_action :: string
  ga_actor :: string
  ga_resource :: string
  ga_status :: string
  ga_risk :: string
  ga_details :: string

record chat_world =
  cw_db :: agentic_db
  cw_bodies :: "log_body list"
  cw_saved :: "agentic_db \<times> log_body list"
  cw_alerts :: "gateway_alert list"

type_synonym 'a chat = "(chat_world, 'a) eff"

definition commit :: "unit chat" where
  "commit = modifyS (\<lambda>w. w\<lparr>cw_saved := (cw_db w, cw_bodies w)\<rparr>)"

definition audit_row :: "'c gateway_ctx_scheme \<Rightarrow> string option \<Rightarrow> string \<Rightarrow> string \<Rightarrow> string \<Rightarrow> string \<Rightarrow> string \<Rightarrow> json \<Rightarrow> int \<Rightarrow> uuid \<Rightarrow> audit_log" where
  "audit_row ctx trace_id action resource status risk details usage now i =
     \<lparr>au_id = i, au_tenant = gc_tenant ctx, au_timestamp = now, au_actor = gc_actor ctx, au_action = action, au_resource = resource,
      au_status = status, au_risk = risk,
      au_details = labelled ''client_key'' (gc_client_api_key_name ctx)
        (labelled ''bundle'' (gc_policy_bundle_name ctx) (labelled ''trace_id'' trace_id details)),
      au_usage_metadata = usage, au_source = ''internal''\<rparr>"

text \<open>\<open>_write_audit\<close>; the body is stored when a log of the request is given.\<close>

definition write_audit ::
  "'c gateway_ctx_scheme \<Rightarrow> string option \<Rightarrow> string \<Rightarrow> string \<Rightarrow> string \<Rightarrow> string \<Rightarrow> string \<Rightarrow> json \<Rightarrow>
   (chat_request option \<times> logged_answer option \<times> guardrail_events) option \<Rightarrow> unit chat" where
  "write_audit ctx trace_id action resource status risk details usage request_log =
     modifyS (\<lambda>w. case insert_audit (audit_row ctx trace_id action resource status risk details usage (ad_now (cw_db w))) (cw_db w) of
       (row, db) \<Rightarrow>
         w\<lparr>cw_db := db, cw_bodies := cw_bodies w @
            (case request_log of
               None \<Rightarrow> []
             | Some (request, response, events) \<Rightarrow>
                 [\<lparr>lb_tenant = gc_tenant ctx, lb_audit_log = au_id row, lb_request = request, lb_response = response,
                   lb_guardrail_events = events\<rparr>])\<rparr>)"

definition gateway_block_action :: "string \<Rightarrow> bool \<Rightarrow> string" where
  "gateway_block_action audit_action injection =
     (if injection then ''gateway.injection.block''
      else if audit_action = ''ABAC Policy'' then ''gateway.abac.block''
      else if audit_action = ''LLM Response'' then ''gateway.egress.block''
      else if audit_action = ''Policy Inspection'' then ''gateway.prompt.block''
      else ''gateway.policy.block'')"

definition ALERT_TITLES :: "string dict" where
  "ALERT_TITLES =
     [(''gateway.policy.block'', ''Gateway request blocked by policy''), (''gateway.injection.block'', ''Prompt injection blocked''),
      (''gateway.abac.block'', ''Gateway request blocked by ABAC''), (''gateway.egress.block'', ''Gateway response blocked by egress policy''),
      (''gateway.prompt.block'', ''Ad-hoc system prompt blocked''), (''gateway.rate_limit.block'', ''AI rate limit exceeded''),
      (''gateway.token_budget.block'', ''AI token budget limit exceeded''), (''gateway.latency.high'', ''LLM latency above threshold''),
      (''gateway.upstream.outage'', ''Upstream LLM provider outage'')]"

definition dispatch_alert :: "'c gateway_ctx_scheme \<Rightarrow> string \<Rightarrow> string \<Rightarrow> string \<Rightarrow> string \<Rightarrow> string \<Rightarrow> unit chat" where
  "dispatch_alert ctx action resource status risk details =
     modifyS (\<lambda>w. w\<lparr>cw_alerts := cw_alerts w @
       [\<lparr>ga_tenant = gc_tenant ctx, ga_title = dict_get_or ALERT_TITLES action ''PySetu gateway alert'', ga_action = action,
         ga_actor = gc_actor ctx, ga_resource = resource, ga_status = status, ga_risk = risk, ga_details = details\<rparr>]\<rparr>)"

definition dispatch_block_alert :: "'c gateway_ctx_scheme \<Rightarrow> string \<Rightarrow> string \<Rightarrow> string \<Rightarrow> string \<Rightarrow> bool \<Rightarrow> unit chat" where
  "dispatch_block_alert ctx audit_action resource risk details injection =
     dispatch_alert ctx (gateway_block_action audit_action injection) resource ''blocked'' risk details"

section \<open>Models of Ollama and Gemini\<close>

definition without_blanks :: "string \<Rightarrow> string" where
  "without_blanks s = replace_str '' '' [] s"

definition ollama_aliases :: "string list" where
  "ollama_aliases = [''gpt-4o'', ''gpt4o'', ''llama3.170b'', ''llama3170b'', ''claude3.5sonnet'', ''gemini1.5pro'']"

definition resolve_ollama_model :: "string \<Rightarrow> string list \<Rightarrow> string \<Rightarrow> string" where
  "resolve_ollama_model requested available fallback =
     (let normalized = without_blanks (lower (strip requested)) in
      case available of
        [] \<Rightarrow> fallback
      | a # as \<Rightarrow>
          (case find (\<lambda>name. contains normalized (without_blanks (lower name))) available of
             Some name \<Rightarrow> name
           | None \<Rightarrow>
               case (if normalized \<in> set ollama_aliases \<and> fallback \<noteq> []
                     then find (\<lambda>name. name = fallback \<or> startswith name (before_char CHR '':'' fallback)) available else None) of
                 Some name \<Rightarrow> name
               | None \<Rightarrow>
                   if fallback \<in> set available then fallback
                   else case find (\<lambda>name. contains (before_char CHR '':'' fallback) name) available of Some name \<Rightarrow> name | None \<Rightarrow> a))"

definition GEMINI_ALIASES :: "string dict" where
  "GEMINI_ALIASES =
     [(''gemini1.5pro'', ''gemini-1.5-pro''), (''gemini-1.5-pro'', ''gemini-1.5-pro''), (''gemini15pro'', ''gemini-1.5-pro''),
      (''gemini2.0flash'', ''gemini-2.0-flash''), (''gemini-2.0-flash'', ''gemini-2.0-flash''), (''gemini1.5flash'', ''gemini-1.5-flash'')]"

definition normalize_gemini_model :: "string \<Rightarrow> string \<Rightarrow> string" where
  "normalize_gemini_model requested preset =
     (let normalized = without_blanks (lower (strip requested)) in
      case dict_get GEMINI_ALIASES normalized of
        Some m \<Rightarrow> m
      | None \<Rightarrow> if startswith normalized ''gemini'' then strip requested else preset)"

section \<open>The request\<close>

record chat_tables =
  ct_policies :: "policy_row list"
  ct_bundles :: "policy_bundle list"
  ct_intents :: "classifier_intent list"
  ct_tenants :: "tenant_row list"
  ct_servers :: "mcp_server list"
  ct_routing :: routing_db
  ct_mappings :: "uag_mapping list"
  ct_client_protocols :: "(uuid \<times> string option) list"
  ct_integrations :: "integration_row list"
  ct_templates :: "prompt_template list"
  ct_vault :: vault

record chat_services =
  sv_runtime :: runtime
  sv_parse :: "string \<Rightarrow> expr option"
  sv_uniform :: "rat \<Rightarrow> rat"
  sv_opa_enabled :: bool
  sv_opa_fail_open :: bool
  sv_opa :: "json \<Rightarrow> json result"
  sv_ollama_models :: "string \<Rightarrow> string list option"
  sv_settings :: gateway_settings
  sv_hour :: int
  sv_trace_id :: "string option"
  sv_request_id :: string

record prepared_chat =
  pr_messages :: "chat_message list"
  pr_routed_model :: string
  pr_upstream :: string
  pr_config :: gateway_config
  pr_ingress :: inspection
  pr_combined :: string
  pr_matched_rule :: "string option"
  pr_strategy :: string
  pr_ollama_model :: "string option"
  pr_gemini_model :: "string option"
  pr_policy_bundle_id :: "uuid option"
  pr_policy_bundle_name :: "string option"
  pr_client_api_key_name :: "string option"
  pr_opa_applied :: bool
  pr_opa_skipped :: bool
  pr_canonical :: canonical_prompt
  pr_trace :: translation_trace
  pr_requested_model :: string
  pr_client_protocol :: string
  pr_prompt :: prompt_outcome
  pr_token_saving :: token_saving_result
  pr_dynamic_tools :: dynamic_tool_result
  pr_tools_payload :: "json list option"
  pr_bearer_token :: "string option"
  pr_servers :: "mcp_server list"
  pr_verdict :: classifier_verdict
  pr_savings :: "arbitrage_decision option"

type_synonym preparation = "prepared_chat option \<times> inspection option \<times> string option"

definition policy_tables :: "chat_tables \<Rightarrow> policy_db" where
  "policy_tables tb = \<lparr>db_policies = ct_policies tb, db_bundles = ct_bundles tb, db_intents = map custom_intent.truncate (ct_intents tb)\<rparr>"

definition chat_resource :: "string \<Rightarrow> string" where
  "chat_resource model = model @ '' /chat''"

definition no_events :: guardrail_events where
  "no_events = \<lparr>ge_ingress = None, ge_egress = None, ge_classifier = None\<rparr>"

definition action_taken :: "string \<Rightarrow> translation_trace \<Rightarrow> translation_trace" where
  "action_taken a t = t\<lparr>tt_governance_actions := tt_governance_actions t @ [a]\<rparr>"

section \<open>The classifier\<close>

definition injection_match :: "classifier_match \<Rightarrow> bool" where
  "injection_match m \<longleftrightarrow> cl_category m \<in> {''prompt_injection'', ''indirect_prompt_injection''}"

definition refused :: "string \<Rightarrow> policy_violation list \<Rightarrow> string \<Rightarrow> inspection" where
  "refused action violations risk =
     \<lparr>in_allowed = False, in_action = action, in_violations = violations, in_redacted_content = None, in_risk = risk, in_rule_results = None\<rparr>"

definition classifier_block :: "chat_services \<Rightarrow> chat_ctx \<Rightarrow> chat_request \<Rightarrow> classifier_verdict \<Rightarrow> preparation chat" where
  "classifier_block sv ctx request v =
     (let detail = or_str (join ''; '' (map cl_explanation (cv_matches v))) ''Blocked by deterministic risk classifier.'';
          injection = list_ex injection_match (cv_matches v);
          audit_action = (if injection then ''Prompt Injection'' else ''Classifier Threat Block'');
          ingress = refused ''block''
            (map (\<lambda>m. \<lparr>pv_rule_name = cl_rule_name m, pv_action = ''block'', pv_severity = cl_risk_level m, pv_detail = cl_explanation m\<rparr>)
               (cv_matches v)) (lower (cv_risk_tier v))
      in
      seqS (write_audit ctx (sv_trace_id sv) audit_action (chat_resource (cr_model request)) ''blocked'' (lower (cv_risk_tier v)) detail JNull
          (Some (Some request, None, no_events\<lparr>ge_ingress := Some ingress, ge_classifier := Some v\<rparr>)))
        (seqS commit
          (seqS (dispatch_block_alert ctx audit_action (chat_resource (cr_model request)) (lower (cv_risk_tier v)) detail injection)
            (returnS (None, Some ingress, Some (''Request blocked by PySetu Security Guard: '' @ detail))))))"

definition classifier_approval :: "chat_services \<Rightarrow> chat_ctx \<Rightarrow> chat_request \<Rightarrow> classifier_verdict \<Rightarrow> preparation chat" where
  "classifier_approval sv ctx request v =
     (let detail = ''This request involves high-impact actions requiring Human-in-the-Loop authorization.'';
          ingress = refused ''request_approval''
            (map (\<lambda>m. \<lparr>pv_rule_name = cl_rule_name m, pv_action = ''request_approval'', pv_severity = ''high'', pv_detail = cl_explanation m\<rparr>)
               (cv_matches v)) ''high''
      in
      seqS (write_audit ctx (sv_trace_id sv) ''Approval Required'' (chat_resource (cr_model request)) ''blocked'' ''high'' detail JNull
          (Some (Some request, None, no_events\<lparr>ge_ingress := Some ingress, ge_classifier := Some v\<rparr>)))
        (seqS commit
          (returnS (None, Some ingress, Some (''Request requires Human-in-the-Loop approval: '' @
             (case cv_matches v of [] \<Rightarrow> detail | m # _ \<Rightarrow> cl_explanation m))))))"

section \<open>Policies\<close>

definition after_dlp :: "dlp_scan \<Rightarrow> inspection \<Rightarrow> inspection" where
  "after_dlp dlp ingress =
     (if has_text (in_redacted_content ingress) then ingress
      else \<lparr>in_allowed = True, in_action = ''redact'', in_violations = in_violations ingress, in_redacted_content = dl_redacted_content dlp,
            in_risk = (if in_risk ingress \<noteq> ''low'' then in_risk ingress else ''medium''), in_rule_results = None\<rparr>)"

definition dlp_details :: "dlp_scan \<Rightarrow> string" where
  "dlp_details dlp =
     ''PII types: '' @ join '', '' (dl_classifications dlp) @ ''; '' @ show_nat (dl_match_count dlp) @ '' match(es) redacted'' @
     (case dl_highest_sensitivity dlp of Some (c # h) \<Rightarrow> ''; highest sensitivity: '' @ (c # h) | _ \<Rightarrow> [])"

definition inspected :: "chat_services \<Rightarrow> chat_tables \<Rightarrow> chat_ctx \<Rightarrow> string \<Rightarrow> (dlp_scan \<times> inspection) chat" where
  "inspected sv tb ctx combined =
     bindS (liftS (load_bundle (ct_bundles tb) (gc_policy_bundle_id ctx)))
       (\<lambda>b. let dlp = dlp_scan_content combined (infer_region_from_bundle (gc_policy_bundle_name ctx));
              content = (if has_text (dl_redacted_content dlp) then the (dl_redacted_content dlp) else combined) in
          bindS (liftS (inspect_for_gateway (policy_tables tb) (gc_tenant ctx) b content
                  (Some [(''has_pii'', JBool (dl_has_pii dlp)), (''region'', JStr (dl_region dlp))])))
            (\<lambda>ingress.
               if has_text (dl_redacted_content dlp) \<and> in_allowed ingress \<and> in_action ingress \<noteq> ''block'' then
                 let ingress' = after_dlp dlp ingress in
                 seqS (if dl_classifications dlp \<noteq> []
                       then write_audit ctx (sv_trace_id sv) ''DLP Scan'' ''gateway /ingress'' ''allowed'' (in_risk ingress') (dlp_details dlp)
                          JNull None
                       else returnS ())
                   (returnS (dlp, ingress'))
               else returnS (dlp, ingress)))"

definition violation_text :: "inspection \<Rightarrow> string \<Rightarrow> string" where
  "violation_text ingress otherwise = or_str (join ''; '' (map pv_detail (in_violations ingress))) otherwise"

definition policy_block :: "chat_services \<Rightarrow> chat_ctx \<Rightarrow> chat_request \<Rightarrow> inspection \<Rightarrow> preparation chat" where
  "policy_block sv ctx request ingress =
     (let detail = violation_text ingress ''Policy violation'';
          injection = is_injection_related_violation (map pv_rule_name (in_violations ingress)) detail;
          audit_action = (if injection then ''Prompt Injection'' else ''LLM Request'')
      in
      seqS (write_audit ctx (sv_trace_id sv) audit_action (chat_resource (cr_model request)) ''blocked'' (in_risk ingress) detail JNull
          (Some (Some request, None, no_events\<lparr>ge_ingress := Some ingress\<rparr>)))
        (seqS commit
          (seqS (dispatch_block_alert ctx audit_action (chat_resource (cr_model request)) (in_risk ingress) detail injection)
            (returnS (None, Some ingress, Some ''Request blocked by PySetu policy engine.'')))))"

text \<open>The redacted text of the whole conversation becomes the text of every user message.\<close>

definition redacted_messages :: "inspection \<Rightarrow> chat_message list \<Rightarrow> chat_message list" where
  "redacted_messages ingress messages =
     (case in_redacted_content ingress of
        Some (c # r) \<Rightarrow> map (\<lambda>m. if cm_role m = ''user'' then bare_message ''user'' (c # r) else m) messages
      | _ \<Rightarrow> messages)"

definition prompt_block :: "chat_services \<Rightarrow> chat_ctx \<Rightarrow> string \<Rightarrow> inspection \<Rightarrow> prompt_outcome \<Rightarrow> preparation chat" where
  "prompt_block sv ctx model ingress outcome =
     (let warning = (case po_warning outcome of Some w \<Rightarrow> w | None \<Rightarrow> []) in
      seqS (write_audit ctx (sv_trace_id sv) ''Policy Inspection'' (chat_resource model) ''blocked'' ''high''
          (or_str warning ''Ad-hoc system prompt blocked by tenant policy'') JNull None)
        (seqS (dispatch_block_alert ctx ''Policy Inspection'' (chat_resource model) ''high''
             (or_str warning ''Ad-hoc system prompts are blocked by tenant policy'') False)
          (seqS commit
            (returnS (None, Some ingress, Some (or_str warning ''Ad-hoc system prompts are blocked by tenant policy.''))))))"

definition opa_block :: "chat_services \<Rightarrow> chat_ctx \<Rightarrow> string \<Rightarrow> inspection \<Rightarrow> preparation chat" where
  "opa_block sv ctx routed_model ingress =
     (let detail = violation_text ingress ''ABAC policy violation'' in
      seqS (write_audit ctx (sv_trace_id sv) ''ABAC Policy'' (chat_resource routed_model) ''blocked'' (in_risk ingress) detail JNull None)
        (seqS commit
          (seqS (dispatch_block_alert ctx ''ABAC Policy'' (chat_resource routed_model) (in_risk ingress) detail False)
            (returnS (None, Some ingress, Some ''Request blocked by PySetu ABAC policy (OPA).'')))))"

section \<open>Routing and tools\<close>

definition metadata_json :: "chat_request \<Rightarrow> json" where
  "metadata_json request = (case cr_metadata request of None \<Rightarrow> JNull | Some d \<Rightarrow> JObj d)"

text \<open>Tenants have no column \<open>cost_arbitrage_enabled\<close>, so only the caller turns cost arbitrage on.\<close>

definition gateway_routing_context :: "chat_request \<Rightarrow> string \<Rightarrow> json dict" where
  "gateway_routing_context request combined =
     (let d = dict_set ''prompt_tokens'' (JInt (estimate_tokens combined)) (dict_set ''prompt_text'' (JStr combined) (build_routing_context request)) in
      if truthy (dict_get_or (config_or_empty (metadata_json request)) ''cost_arbitrage'' JNull)
      then dict_set ''enable_cost_arbitrage'' (JBool True) d else d)"

definition offered_servers :: "chat_tables \<Rightarrow> chat_ctx \<Rightarrow> policy_bundle option \<Rightarrow> mcp_server list" where
  "offered_servers tb ctx b = filter_servers_for_bundle (filter (\<lambda>s. ms_tenant s = gc_tenant ctx) (ct_servers tb)) b"

definition token_settings :: "tenant_row option \<Rightarrow> chat_ctx \<Rightarrow> chat_request \<Rightarrow> bool \<times> string" where
  "token_settings tenant ctx request =
     resolve_token_saving_config (case tenant of None \<Rightarrow> False | Some t \<Rightarrow> te_token_saving_enabled t)
       (case tenant of None \<Rightarrow> ''both'' | Some t \<Rightarrow> te_token_saving_mode t) (cr_metadata request) (gc_token_saving_enabled ctx)
       (gc_token_saving_mode ctx)"

definition tools_for ::
  "tenant_row option \<Rightarrow> mcp_server list \<Rightarrow> string \<Rightarrow> chat_request \<Rightarrow> (dynamic_tool_result \<times> json list option) result" where
  "tools_for tenant servers combined request =
     bindE (resolve_dynamic_tool_config (case tenant of None \<Rightarrow> False | Some t \<Rightarrow> te_dynamic_tool_calling_enabled t)
         (case tenant of None \<Rightarrow> 8 | Some t \<Rightarrow> te_dynamic_tool_max t) (cr_metadata request))
       (\<lambda>(enabled, max_tools). bindE (apply_dynamic_tools_for_request servers combined (cr_tools request) enabled max_tools
            (case tenant of None \<Rightarrow> False | Some t \<Rightarrow> te_mcp_auto_hide_destructive t))
         (\<lambda>tools.
            if dt_enabled tools then bindE (to_openai_tools (map tool_dict (dt_selected tools))) (\<lambda>payload. Inr (tools, Some payload))
            else Inr (tools, cr_tools request)))"

definition tools_or :: "json list option \<Rightarrow> json list option \<Rightarrow> json list option" where
  "tools_or payload old = (case payload of Some (t # ts) \<Rightarrow> Some (t # ts) | _ \<Rightarrow> old)"

definition retarget :: "string \<Rightarrow> json list option \<Rightarrow> canonical_prompt \<Rightarrow> canonical_prompt" where
  "retarget provider payload c =
     c\<lparr>cp_target_provider := provider, cp_target_protocol := resolve_target_protocol provider, cp_tools := tools_or payload (cp_tools c)\<rparr>"

definition retarget_trace :: "string \<Rightarrow> translation_trace \<Rightarrow> translation_trace" where
  "retarget_trace provider t = t\<lparr>tt_target_provider := provider, tt_target_protocol := resolve_target_protocol provider\<rparr>"

definition routed_protocol :: "routing_decision \<Rightarrow> string \<Rightarrow> string" where
  "routed_protocol routing protocol =
     (case rd_response_format routing of
        Some (c # f) \<Rightarrow> if lower (strip (c # f)) \<in> {[], ''auto''} then protocol else normalize_client_protocol (c # f)
      | _ \<Rightarrow> protocol)"

definition canonical_and_trace ::
  "routing_decision \<Rightarrow> string \<Rightarrow> json list option \<Rightarrow> canonical_prompt \<Rightarrow> translation_trace \<Rightarrow> canonical_prompt \<times> translation_trace" where
  "canonical_and_trace routing protocol payload c t =
     (case rd_target_provider routing of
        Some (p # ps) \<Rightarrow>
          ((retarget (p # ps) payload c)\<lparr>cp_source_protocol := protocol, cp_model := rd_model routing\<rparr>,
           (retarget_trace (p # ps) t)\<lparr>tt_policy_applied :=
              (case rd_matched_rule routing of Some (r # rs) \<Rightarrow> Some (r # rs) | _ \<Rightarrow> tt_policy_applied t)\<rparr>)
      | _ \<Rightarrow> (c, t))"

definition chosen_upstream :: "canonical_prompt \<Rightarrow> gateway_config \<Rightarrow> string \<Rightarrow> string \<Rightarrow> string option \<Rightarrow> string" where
  "chosen_upstream c config model routed_model bearer_token =
     coerce_upstream
       (case get_provider (cp_target_provider c) of
          Some p \<Rightarrow> pr_upstream_key p
        | None \<Rightarrow> resolve_upstream config (if model \<noteq> ''auto'' then model else routed_model))
       config model routed_model bearer_token"

definition ollama_model_for :: "chat_services \<Rightarrow> gateway_config \<Rightarrow> string \<Rightarrow> string" where
  "ollama_model_for sv config model =
     resolve_ollama_model model (case sv_ollama_models sv (cf_ollama_base_url config) of None \<Rightarrow> [] | Some ms \<Rightarrow> ms)
       (or_str (cf_ollama_default_model config) (gs_ollama_default_model (sv_settings sv)))"

text \<open>What is known once the messages are final: the tools, the routing, the decision of the policy agent.\<close>

record routed =
  ro_combined :: string
  ro_servers :: "mcp_server list"
  ro_all_servers :: "mcp_server list"
  ro_tools :: dynamic_tool_result
  ro_payload :: "json list option"
  ro_routing :: routing_decision
  ro_ingress :: inspection
  ro_opa :: opa_decision

definition route_request ::
  "chat_services \<Rightarrow> chat_tables \<Rightarrow> chat_ctx \<Rightarrow> chat_request \<Rightarrow> string \<Rightarrow> string option \<Rightarrow> dlp_scan \<Rightarrow> inspection \<Rightarrow> tenant_row option \<Rightarrow>
   chat_message list \<Rightarrow> routed result" where
  "route_request sv tb ctx request model user_agent dlp ingress tenant messages =
     (let combined = all_text messages in
      bindE (load_bundle (ct_bundles tb) (gc_policy_bundle_id ctx))
        (\<lambda>b. let offered = offered_servers tb ctx b;
               servers = filter_servers_for_agent offered (detect_agent user_agent (metadata_json request))
                 (toggles_from_tenant (case tenant of None \<Rightarrow> JNull | Some t \<Rightarrow> te_mcp_agent_toggles t)) in
           bindE (tools_for tenant servers combined request)
             (\<lambda>(tools, payload). bindE (select_model (sv_parse sv) (sv_uniform sv) (ct_routing tb) (gc_tenant ctx) model
                  (gateway_routing_context request combined) (gc_client_api_key_id ctx))
               (\<lambda>routing. bindE (evaluate_gateway_opa (sv_opa_enabled sv) (sv_opa_fail_open sv) (sv_opa sv)
                    (build_gateway_opa_input ctx request (rd_model routing) ingress dlp (length combined) (sv_hour sv)))
                 (\<lambda>opa. Inr \<lparr>ro_combined = combined, ro_servers = servers, ro_all_servers = offered, ro_tools = tools, ro_payload = payload,
                    ro_routing = routing, ro_ingress = merge_opa_into_inspection ingress opa, ro_opa = opa\<rparr>)))))"

definition governance_trace :: "classifier_verdict \<Rightarrow> token_saving_result \<Rightarrow> chat_request \<Rightarrow> routed \<Rightarrow> translation_trace \<Rightarrow> translation_trace" where
  "governance_trace v saving request r t =
     t\<lparr>tt_governance_actions := tt_governance_actions t @
        (if cv_verdict v = ''redact'' \<and> has_text (cv_modified_text v) then [''classifier_redaction''] else []) @
        [''dlp'', ''policy_engine''] @
        (if ts_enabled saving \<and> 0 < ts_transformations saving then [''token_saving''] else []) @
        (if (case cr_tools request of Some (t # ts) \<Rightarrow> True | _ \<Rightarrow> False) \<and> ro_servers r = [] \<and> ro_all_servers r \<noteq> []
         then [''mcp_agent_blocked''] else []) @
        (if dt_enabled (ro_tools r) then [''dynamic_tools''] else []) @ [''opa'']\<rparr>"

definition prepared_of ::
  "chat_services \<Rightarrow> chat_ctx \<Rightarrow> chat_request \<Rightarrow> uag_pipeline_result \<Rightarrow> classifier_verdict \<Rightarrow> prompt_outcome \<Rightarrow> token_saving_result \<Rightarrow> routed \<Rightarrow>
   gateway_config \<Rightarrow> prepared_chat" where
  "prepared_of sv ctx request pipeline v outcome saving r config =
     (let model = cr_model (up_translated_request pipeline); routed_model = rd_model (ro_routing r);
          protocol = routed_protocol (ro_routing r) (up_client_response_protocol pipeline);
          (c, t) = canonical_and_trace (ro_routing r) protocol (ro_payload r) (up_canonical pipeline)
            (governance_trace v saving request r (up_trace pipeline));
          upstream = chosen_upstream c config model routed_model (gc_ingress_bearer_token ctx);
          provider = (if upstream \<in> {''ollama'', ''gemini'', ''openai''} then upstream else cp_target_provider c)
      in
      \<lparr>pr_messages = ts_messages saving, pr_routed_model = routed_model, pr_upstream = upstream, pr_config = config, pr_ingress = ro_ingress r,
       pr_combined = ro_combined r, pr_matched_rule = rd_matched_rule (ro_routing r), pr_strategy = rd_strategy (ro_routing r),
       pr_ollama_model = (if upstream = ''ollama'' then Some (ollama_model_for sv config (if model \<noteq> ''auto'' then model else routed_model)) else None),
       pr_gemini_model = (if upstream = ''gemini''
         then Some (normalize_gemini_model (if contains ''gemini'' (lower model) then model else routed_model) (cf_gemini_default_model config))
         else None),
       pr_policy_bundle_id = gc_policy_bundle_id ctx, pr_policy_bundle_name = gc_policy_bundle_name ctx,
       pr_client_api_key_name = gc_client_api_key_name ctx, pr_opa_applied = od_available (ro_opa r) \<and> \<not> od_skipped (ro_opa r),
       pr_opa_skipped = od_skipped (ro_opa r), pr_canonical = retarget provider (ro_payload r) c, pr_trace = retarget_trace provider t,
       pr_requested_model = cr_model request, pr_client_protocol = protocol, pr_prompt = outcome, pr_token_saving = saving,
       pr_dynamic_tools = ro_tools r, pr_tools_payload = ro_payload r, pr_bearer_token = gc_ingress_bearer_token ctx, pr_servers = ro_servers r,
       pr_verdict = v, pr_savings = rd_savings (ro_routing r)\<rparr>)"

section \<open>The whole preparation\<close>

definition uag_pipeline :: "chat_services \<Rightarrow> chat_tables \<Rightarrow> chat_ctx \<Rightarrow> chat_request \<Rightarrow> uag_pipeline_result" where
  "uag_pipeline sv tb ctx request =
     run_uag_pre_governance (map_option snd (find (\<lambda>(t, _). t = gc_tenant ctx) (ct_client_protocols tb))) (ct_mappings tb)
       (map llm_provider.truncate (rt_providers (ct_routing tb))) request (gc_tenant ctx) (gc_client_response_protocol ctx) (sv_request_id sv)"

definition finish_preparation ::
  "chat_services \<Rightarrow> chat_tables \<Rightarrow> chat_ctx \<Rightarrow> chat_request \<Rightarrow> uag_pipeline_result \<Rightarrow> classifier_verdict \<Rightarrow> prompt_outcome \<Rightarrow>
   token_saving_result \<Rightarrow> routed \<Rightarrow> preparation chat" where
  "finish_preparation sv tb ctx request pipeline v outcome saving r =
     (if \<not> in_allowed (ro_ingress r) then opa_block sv ctx (rd_model (ro_routing r)) (ro_ingress r)
      else
        bindS (liftS (bindE (resolve_gateway_config (sv_settings sv) (ct_vault tb) (ct_integrations tb) (gc_tenant ctx))
            (apply_provider_gateway_credentials (ct_vault tb) (rt_providers (ct_routing tb)) (gc_tenant ctx) (rd_model (ro_routing r)))))
          (\<lambda>config. returnS (Some (prepared_of sv ctx request pipeline v outcome saving r config), Some (ro_ingress r), None)))"

definition saved_tokens :: "tenant_row option \<Rightarrow> chat_ctx \<Rightarrow> chat_request \<Rightarrow> prompt_outcome \<Rightarrow> token_saving_result" where
  "saved_tokens tenant ctx request outcome =
     apply_token_saving (po_messages outcome) (fst (token_settings tenant ctx request)) (snd (token_settings tenant ctx request))"

text \<open>A request has no field \<open>prompt_template\<close>, so no managed prompt is ever asked for.\<close>

definition prepare_governed ::
  "chat_services \<Rightarrow> chat_tables \<Rightarrow> chat_ctx \<Rightarrow> chat_request \<Rightarrow> string option \<Rightarrow> uag_pipeline_result \<Rightarrow> classifier_verdict \<Rightarrow> dlp_scan \<Rightarrow>
   inspection \<Rightarrow> preparation chat" where
  "prepare_governed sv tb ctx request user_agent pipeline v dlp ingress =
     bindS (liftS (resolve_and_inject_prompt (ct_templates tb) (gc_tenant ctx)
         (redacted_messages ingress (cr_messages (up_translated_request pipeline))) None None))
       (\<lambda>outcome.
          if po_blocked outcome then prompt_block sv ctx (cr_model (up_translated_request pipeline)) ingress outcome
          else
            bindS (liftS (scalar_one_or_none (filter (\<lambda>t. te_id t = gc_tenant ctx) (ct_tenants tb))))
              (\<lambda>tenant.
                 bindS (liftS (route_request sv tb ctx request (cr_model (up_translated_request pipeline)) user_agent dlp ingress tenant
                     (ts_messages (saved_tokens tenant ctx request outcome))))
                   (finish_preparation sv tb ctx request pipeline v outcome (saved_tokens tenant ctx request outcome))))"

definition prepare_chat_request ::
  "chat_services \<Rightarrow> chat_tables \<Rightarrow> chat_ctx \<Rightarrow> chat_request \<Rightarrow> string option \<Rightarrow> preparation chat" where
  "prepare_chat_request sv tb ctx request user_agent =
     (let pipeline = uag_pipeline sv tb ctx request; combined = text_for_inspection (up_canonical pipeline) in
      bindS (liftS (classify_intent_and_risk (sv_runtime sv) (Some (ct_intents tb)) combined (gc_tenant ctx) [] None None))
        (\<lambda>v.
           if cv_verdict v = ''block'' then classifier_block sv ctx request v
           else if cv_verdict v = ''request_approval'' then classifier_approval sv ctx request v
           else
             bindS (inspected sv tb ctx
                 (if cv_verdict v = ''redact'' \<and> has_text (cv_modified_text v) then the (cv_modified_text v) else combined))
               (\<lambda>(dlp, ingress).
                  if \<not> in_allowed ingress then policy_block sv ctx request ingress
                  else prepare_governed sv tb ctx request user_agent pipeline v dlp ingress)))"

end
