(* ===== verification/BackendComplete.thy ===== *)
theory BackendComplete
  imports BackendPrepare
begin

text \<open>
  From a prepared request to the answer: the call of the provider with the tool loop, failover, the inspection of the answer, the
  accounting and the audit, \<open>process_chat_completion\<close> of \<open>gateway_service.py\<close>.  The HTTP client, Gemini, the tools, the clock and
  new ids are parameters; a call of a tool returns its failures; a \<open>GeminiError\<close> is an \<open>HTTPError\<close>; arrows and dashes in messages are written in ASCII.
\<close>

section \<open>State and parameters\<close>

record translation_event =
  tv_tenant :: uuid
  tv_request_id :: string
  tv_source_protocol :: string
  tv_target_provider :: string
  tv_requested_model :: string
  tv_translated_model :: string
  tv_success :: bool
  tv_latency_ms :: rat
  tv_compatibility_score :: json
  tv_details :: string

text \<open>A call of \<open>increment_ai_token_usage\<close>: the counters are those of BackendRateLimit.\<close>

record token_usage =
  tk_key :: string
  tk_tpm :: "int option"
  tk_tph :: "int option"
  tk_tpd :: "int option"
  tk_used :: int

record 'w completion =
  fx_chat :: chat_world
  fx_providers :: "routed_provider list"
  fx_events :: "translation_event list"
  fx_usage :: "token_usage list"
  fx_messages :: "chat_message list"
  fx_outside :: 'w

record 'w model_apis =
  ap_post :: "string \<Rightarrow> (string \<times> string) list \<Rightarrow> json \<Rightarrow> ('w, json) eff"
  ap_gemini :: "string \<Rightarrow> chat_message list \<Rightarrow> string \<Rightarrow> json \<Rightarrow> ('w, string \<times> string) eff"
  ap_invoke :: "mcp_server \<Rightarrow> string \<Rightarrow> json \<Rightarrow> string option \<Rightarrow> ('w, invoke_result) eff"
  ap_completion_id :: string
  ap_now :: int
  ap_latency_ms :: int
  ap_sub_latency_ms :: "string \<Rightarrow> int"
  ap_translation_ms :: rat
  ap_external_subject :: "uuid \<Rightarrow> string option"
  ap_verdict_json :: "classifier_verdict \<Rightarrow> json"
  ap_savings_json :: "arbitrage_decision \<Rightarrow> json"

definition in_chat :: "'a chat \<Rightarrow> ('w completion, 'a) eff" where
  "in_chat m s = (case m (fx_chat s) of (r, c) \<Rightarrow> (r, s\<lparr>fx_chat := c\<rparr>))"

definition at_outside :: "('w, 'a) eff \<Rightarrow> ('w completion, 'a) eff" where
  "at_outside m s = (case m (fx_outside s) of (r, w) \<Rightarrow> (r, s\<lparr>fx_outside := w\<rparr>))"

section \<open>The call of a provider\<close>

definition chat_payload :: "string \<Rightarrow> chat_message list \<Rightarrow> json \<Rightarrow> bool \<Rightarrow> json list option \<Rightarrow> json" where
  "chat_payload model messages temperature stream tools =
     JObj ([(''model'', JStr model), (''messages'', JArr (map dump_message_set messages)),
        (''temperature'', or_json temperature (JFloat ''0.7'')), (''stream'', JBool stream)] @
       (case tools of Some (t # ts) \<Rightarrow> [(''tools'', JArr (t # ts))] | _ \<Rightarrow> []))"

definition openai_url :: "string option \<Rightarrow> string" where
  "openai_url api_base =
     (case api_base of Some (c # b) \<Rightarrow> resolve_chat_completions_url (c # b) | _ \<Rightarrow> ''https://api.openai.com/v1/chat/completions'')"

definition text_answer :: "string \<Rightarrow> json" where
  "text_answer content =
     JObj [(''choices'', JArr [JObj [(''message'', JObj [(''role'', JStr ''assistant''), (''content'', JStr content)]),
       (''finish_reason'', JStr ''stop'')]])]"

definition mock_reply :: "prepared_chat \<Rightarrow> string" where
  "mock_reply p =
     ''[PySetu Mock] '' @ (if in_action (pr_ingress p) = ''redact'' then ''Content was redacted before processing. '' else []) @
     ''Processed by '' @ pr_routed_model p @
     ''. Simulated response - configure OPENAI_API_KEY, GEMINI_API_KEY, or Ollama for live inference.''"

text \<open>The name of the model in an answer; one that is no text is refused.\<close>

definition answer_model :: "json \<Rightarrow> string \<Rightarrow> (json \<times> string) result" where
  "answer_model data preset =
     bindE (json_get_or data ''model'' (JStr preset))
       (\<lambda>m. case m of JStr name \<Rightarrow> Inr (data, name) | _ \<Rightarrow> Inl (ValueError ''ChatCompletionResponse''))"

text \<open>\<open>GatewayConfig\<close> has no attribute \<open>policy_bundle_name\<close>.\<close>

definition call_upstream_raw ::
  "'w model_apis \<Rightarrow> prepared_chat \<Rightarrow> chat_request \<Rightarrow> chat_message list \<Rightarrow> ('w completion, json \<times> string) eff" where
  "call_upstream_raw ap p request messages =
     seqS (modifyS (\<lambda>s. s\<lparr>fx_messages := messages\<rparr>))
       (let key = resolve_openai_api_key (pr_bearer_token p) (pr_config p) in
        if pr_upstream p = ''openai'' \<and> has_text key then
          bindS (at_outside (ap_post ap (openai_url (cf_openai_api_base (pr_config p))) [(''Authorization'', ''Bearer '' @ the key)]
              (chat_payload (pr_routed_model p) messages (cr_temperature request) False (pr_tools_payload p))))
            (\<lambda>data. liftS (answer_model data (pr_routed_model p)))
        else if pr_upstream p = ''ollama'' \<and> has_text (pr_ollama_model p) then
          bindS (at_outside (ap_post ap (rstrip_chars ''/'' (cf_ollama_base_url (pr_config p)) @ ''/v1/chat/completions'') []
              (chat_payload (the (pr_ollama_model p)) messages (cr_temperature request) False (pr_tools_payload p))))
            (\<lambda>data. liftS (answer_model data (the (pr_ollama_model p))))
        else if pr_upstream p = ''gemini'' \<and> has_text (cf_gemini_api_key (pr_config p)) \<and> has_text (pr_gemini_model p) then
          bindS (at_outside (ap_gemini ap (the (pr_gemini_model p)) messages (the (cf_gemini_api_key (pr_config p))) (cr_temperature request)))
            (\<lambda>(content, model). returnS (text_answer content, model))
        else if pr_upstream p \<in> {''bedrock'', ''vertex''} then raiseS (AttributeError ''policy_bundle_name'')
        else returnS (text_answer (mock_reply p), pr_routed_model p))"

definition tool_ops_of :: "'w model_apis \<Rightarrow> prepared_chat \<Rightarrow> chat_request \<Rightarrow> 'w completion tool_ops" where
  "tool_ops_of ap p request =
     \<lparr>to_upstream = call_upstream_raw ap p request,
      to_invoke = (\<lambda>server tool args. at_outside (ap_invoke ap server tool args (pr_bearer_token p)))\<rparr>"

section \<open>What the answer reports\<close>

definition violation_json :: "policy_violation \<Rightarrow> json" where
  "violation_json v =
     JObj [(''rule_name'', JStr (pv_rule_name v)), (''action'', JStr (pv_action v)), (''severity'', JStr (pv_severity v)),
       (''detail'', JStr (pv_detail v))]"

definition token_saving_metadata :: "prepared_chat \<Rightarrow> json option" where
  "token_saving_metadata p =
     (let t = pr_token_saving p in
      if \<not> ts_enabled t then None
      else Some (JObj [(''enabled'', JBool True), (''mode'', JStr (ts_mode t)), (''original_tokens'', JInt (ts_original_tokens t)),
        (''compressed_tokens'', JInt (ts_compressed_tokens t)), (''savings_pct'', JFloat (show_hundredths (ts_savings_pct t)))]))"

definition dynamic_tools_metadata :: "prepared_chat \<Rightarrow> json option" where
  "dynamic_tools_metadata p =
     (let t = pr_dynamic_tools p in
      if \<not> dt_enabled t then None
      else Some (JObj [(''enabled'', JBool True), (''catalog_count'', JInt (int (dt_catalog_count t))),
        (''selected_count'', JInt (int (dt_selected_count t))), (''original_tokens'', JInt (dt_original_tokens t)),
        (''compressed_tokens'', JInt (dt_compressed_tokens t)), (''savings_pct'', JFloat (show_hundredths (dt_savings_pct t)))]))"

definition text_entry :: "string \<Rightarrow> string option \<Rightarrow> json dict" where
  "text_entry k v = (case v of Some (c # s) \<Rightarrow> [(k, JStr (c # s))] | _ \<Rightarrow> [])"

definition pysetu_meta :: "'w model_apis \<Rightarrow> prepared_chat \<Rightarrow> nat \<Rightarrow> json dict" where
  "pysetu_meta ap p tool_calls =
     [(''inspection_action'', JStr (in_action (pr_ingress p))), (''violations'', JArr (map violation_json (in_violations (pr_ingress p)))),
      (''routed_model'', JStr (pr_routed_model p)), (''upstream'', JStr (pr_upstream p)),
      (''classifier'', ap_verdict_json ap (pr_verdict p))] @
     some_entry ''cost_arbitrage'' (map_option (ap_savings_json ap) (pr_savings p)) @
     text_entry ''matched_routing_rule'' (pr_matched_rule p) @
     (case po_template_id (pr_prompt p) of
        Some (c # i) \<Rightarrow> [(''prompt_template_id'', JStr (c # i)),
          (''prompt_version'', (case po_version (pr_prompt p) of None \<Rightarrow> JNull | Some n \<Rightarrow> JInt n))]
      | _ \<Rightarrow> []) @
     text_entry ''prompt_warning'' (po_warning (pr_prompt p)) @
     some_entry ''token_saving'' (token_saving_metadata p) @ some_entry ''dynamic_tools'' (dynamic_tools_metadata p) @
     text_entry ''policy_bundle'' (pr_policy_bundle_name p) @ text_entry ''client_api_key'' (pr_client_api_key_name p) @
     text_entry ''routing_strategy'' (Some (pr_strategy p)) @
     (if pr_opa_applied p then [(''abac_engine'', JStr ''opa'')] else []) @ (if pr_opa_skipped p then [(''opa_skipped'', JBool True)] else []) @
     [(''uag'', trace_to_dict (pr_trace p))] @ (if tool_calls \<noteq> 0 then [(''mcp_tool_calls'', JInt (int tool_calls))] else [])"

definition usage_metadata :: "'w model_apis \<Rightarrow> chat_ctx \<Rightarrow> prepared_chat \<Rightarrow> chat_request \<Rightarrow> int \<Rightarrow> int \<Rightarrow> int \<Rightarrow> json" where
  "usage_metadata ap ctx p request prompt_tokens completion_tokens total_tokens =
     JObj ([(''model'', JStr (pr_routed_model p)), (''prompt_tokens'', JInt prompt_tokens), (''completion_tokens'', JInt completion_tokens),
        (''total_tokens'', JInt total_tokens), (''auth_type'', JStr (if has_text (gc_client_api_key_id ctx) then ''client_key'' else ''jwt'')),
        (''client_api_key_id'', opt_json (gc_client_api_key_id ctx)), (''client_api_key_name'', opt_json (gc_client_api_key_name ctx)),
        (''user_id'', opt_json (map_option us_id (gc_user ctx))),
        (''end_user'', opt_json (if has_text (cr_user request) then cr_user request
           else case gc_user ctx of None \<Rightarrow> None | Some u \<Rightarrow> ap_external_subject ap (us_id u))),
        (''metadata'', metadata_json request), (''latency_ms'', JInt (ap_latency_ms ap))] @
       some_entry ''token_saving'' (token_saving_metadata p) @ some_entry ''dynamic_tools'' (dynamic_tools_metadata p) @
       text_entry ''matched_routing_rule'' (pr_matched_rule p) @ text_entry ''routing_strategy'' (Some (pr_strategy p)) @
       text_entry ''upstream'' (Some (pr_upstream p)) @ text_entry ''requested_model'' (Some (pr_requested_model p)))"

definition routing_audit_prefix :: "prepared_chat \<Rightarrow> string" where
  "routing_audit_prefix p = (case pr_matched_rule p of Some (c # r) \<Rightarrow> ''routing_rule='' @ (c # r) @ ''; '' | _ \<Rightarrow> [])"

section \<open>The answer\<close>

text \<open>Fields of the answer; what pydantic would convert is refused.\<close>

definition text_field :: "json \<Rightarrow> string result" where
  "text_field v = (case v of JStr s \<Rightarrow> Inr s | _ \<Rightarrow> Inl (ValueError ''ChatCompletionResponse''))"

definition int_field :: "json \<Rightarrow> int result" where
  "int_field v = (case v of JInt n \<Rightarrow> Inr n | _ \<Rightarrow> Inl (ValueError ''ChatCompletionResponse''))"

definition usage_of :: "json \<Rightarrow> string \<Rightarrow> string \<Rightarrow> chat_usage result" where
  "usage_of data combined content =
     bindE (json_get_or data ''usage'' (JObj []))
       (\<lambda>u. bindE (bindE (json_get_or u ''prompt_tokens'' (JInt (estimate_tokens combined))) int_field)
         (\<lambda>pt. bindE (bindE (json_get_or u ''completion_tokens'' (JInt (estimate_tokens content))) int_field)
           (\<lambda>ct. bindE (bindE (json_get_or u ''total_tokens'' (JInt 0)) int_field)
             (\<lambda>tt. Inr \<lparr>us_prompt_tokens = pt, us_completion_tokens = ct, us_total_tokens = tt\<rparr>))))"

definition response_of :: "'w model_apis \<Rightarrow> prepared_chat \<Rightarrow> upstream_answer \<Rightarrow> nat \<Rightarrow> chat_response result" where
  "response_of ap p a tool_calls =
     bindE (bindE (json_get_or (ua_data a) ''id'' (JStr (ap_completion_id ap))) text_field)
       (\<lambda>i. bindE (bindE (json_get_or (ua_data a) ''created'' (JInt (ap_now ap))) int_field)
         (\<lambda>created. bindE (bindE (json_get_or (ua_message a) ''role'' (JStr ''assistant'')) text_field)
           (\<lambda>role. bindE (json_get_or (ua_message a) ''content'' JNull)
             (\<lambda>content. bindE (text_field (or_json content (JStr [])))
               (\<lambda>content. bindE (text_field (ua_finish_reason a))
                 (\<lambda>finish. bindE (usage_of (ua_data a) (pr_combined p) content)
                   (\<lambda>usage. Inr \<lparr>co_id = i, co_object = ''chat.completion'', co_created = created, co_model = ua_model a,
                      co_choices = [\<lparr>ch_index = 0, ch_message = bare_message role content, ch_finish_reason = finish\<rparr>], co_usage = usage,
                      co_pysetu = Some (pysetu_meta ap p tool_calls)\<rparr>)))))))"

text \<open>The calls of tools so far, also those of candidates that failed: each is in a message that was added.\<close>

definition tool_calls_in :: "chat_message list \<Rightarrow> nat" where
  "tool_calls_in ms = sum_list (map (\<lambda>m. case cm_tool_calls m of None \<Rightarrow> 0 | Some tcs \<Rightarrow> length tcs) ms)"

definition execute_upstream ::
  "'w model_apis \<Rightarrow> prepared_chat \<Rightarrow> chat_request \<Rightarrow> ('w completion, chat_response) eff" where
  "execute_upstream ap p request =
     bindS (bindS (getS fx_messages) (upstream_with_tools (tool_ops_of ap p request) (pr_servers p)))
       (\<lambda>(a, st). seqS (modifyS (\<lambda>s. s\<lparr>fx_messages := tl_messages st\<rparr>)) 
           (liftS (response_of ap p a (tool_calls_in (tl_messages st) - tool_calls_in (pr_messages p)))))"

section \<open>Failover\<close>

record attempt =
  at_model :: string
  at_upstream :: string
  at_error :: "string option"

text \<open>The prepared request for a candidate: upstream and model names are those of the candidate.\<close>

definition for_candidate :: "chat_services \<Rightarrow> prepared_chat \<Rightarrow> string \<Rightarrow> prepared_chat" where
  "for_candidate sv p model =
     (let upstream = coerce_upstream (resolve_upstream (pr_config p) model) (pr_config p) model model (pr_bearer_token p) in
      p\<lparr>pr_routed_model := model, pr_upstream := upstream,
        pr_ollama_model := (if upstream = ''ollama'' then
             Some (resolve_ollama_model model (case sv_ollama_models sv (cf_ollama_base_url (pr_config p)) of None \<Rightarrow> [] | Some ms \<Rightarrow> ms)
               (or_str (cf_ollama_default_model (pr_config p)) (gs_ollama_default_model (sv_settings sv)))) else None),
        pr_gemini_model := (if upstream = ''gemini'' then Some (normalize_gemini_model model (cf_gemini_default_model (pr_config p))) else None)\<rparr>)"

definition provider_failure :: "py_error \<Rightarrow> string option" where
  "provider_failure e = (case e of HTTPError m \<Rightarrow> Some m | TimeoutException m \<Rightarrow> Some m | _ \<Rightarrow> None)"

definition note_request :: "chat_ctx \<Rightarrow> string \<Rightarrow> int \<Rightarrow> bool \<Rightarrow> ('w completion, unit) eff" where
  "note_request ctx model latency success =
     bindS (getS fx_providers)
       (\<lambda>ps. bindS (liftS (record_provider_request ps (gc_tenant ctx) model latency success))
         (\<lambda>ps'. modifyS (\<lambda>s. s\<lparr>fx_providers := ps'\<rparr>)))"

text \<open>An attempt: a failure of the provider is a value, any other exception is raised.\<close>

definition attempt_upstream ::
  "'w model_apis \<Rightarrow> prepared_chat \<Rightarrow> chat_request \<Rightarrow> ('w completion, string + chat_response) eff" where
  "attempt_upstream ap p request =
     tryS (bindS (execute_upstream ap p request) (\<lambda>r. returnS (Inr r))) (\<lambda>e. map_option (\<lambda>m. returnS (Inl m)) (provider_failure e))"

fun try_candidates ::
  "'w model_apis \<Rightarrow> chat_services \<Rightarrow> chat_ctx \<Rightarrow> chat_request \<Rightarrow> string list \<Rightarrow> attempt list \<Rightarrow> prepared_chat \<Rightarrow>
   ('w completion, chat_response option \<times> attempt list \<times> prepared_chat) eff" where
  "try_candidates ap sv ctx request [] chain p = returnS (None, chain, p)"
| "try_candidates ap sv ctx request (model # models) chain p =
     bindS (attempt_upstream ap (for_candidate sv p model) request)
       (\<lambda>r. let q = for_candidate sv p model in case r of
          Inr response \<Rightarrow>
            returnS (Some response,
              (if chain = [] then chain else chain @ [\<lparr>at_model = model, at_upstream = pr_upstream q, at_error = None\<rparr>]), q)
        | Inl m \<Rightarrow>
            seqS (note_request ctx model (ap_sub_latency_ms ap model) False)
              (try_candidates ap sv ctx request models (chain @ [\<lparr>at_model = model, at_upstream = pr_upstream q, at_error = Some m\<rparr>]) q))"

definition failover_summary :: "attempt list \<Rightarrow> string" where
  "failover_summary chain =
     join ''; '' (map (\<lambda>a. at_model a @ ''('' @ at_upstream a @ ''): '' @ (case at_error a of None \<Rightarrow> [] | Some m \<Rightarrow> m)) chain)"

definition attempt_json :: "attempt \<Rightarrow> json" where
  "attempt_json a =
     JObj ([(''model'', JStr (at_model a)), (''upstream'', JStr (at_upstream a))] @
       (case at_error a of None \<Rightarrow> [(''status'', JStr ''success'')] | Some m \<Rightarrow> [(''status'', JStr ''failed''), (''error'', JStr m)]))"

section \<open>The whole completion\<close>

type_synonym answer = "json dict option \<times> inspection option \<times> string option"

definition all_failed ::
  "'w model_apis \<Rightarrow> chat_services \<Rightarrow> chat_ctx \<Rightarrow> chat_request \<Rightarrow> attempt list \<Rightarrow> prepared_chat \<Rightarrow> ('w completion, answer) eff" where
  "all_failed ap sv ctx request chain p =
     (let summary = failover_summary chain in
      in_chat
        (seqS (write_audit ctx (sv_trace_id sv) ''LLM Request'' (chat_resource (pr_routed_model p)) ''review'' ''medium''
             (routing_audit_prefix p @ ''All provider targets failed: '' @ summary) (usage_metadata ap ctx p request 0 0 0) None)
          (seqS commit
            (seqS (dispatch_alert ctx ''gateway.upstream.outage'' (chat_resource (pr_routed_model p)) ''review'' ''high''
                 (''All provider targets failed: '' @ summary))
              (returnS (None, Some (pr_ingress p),
                 Some (''Upstream provider error: '' @ (case chain of [] \<Rightarrow> ''None'' | _ \<Rightarrow> (case at_error (last chain) of None \<Rightarrow> [] | Some m \<Rightarrow> m)))))))))"

definition LATENCY_ALERT_THRESHOLD_MS :: int where
  "LATENCY_ALERT_THRESHOLD_MS = 30000"

definition latency_alert :: "'w model_apis \<Rightarrow> chat_ctx \<Rightarrow> prepared_chat \<Rightarrow> unit chat" where
  "latency_alert ap ctx p =
     (if LATENCY_ALERT_THRESHOLD_MS \<le> ap_latency_ms ap
      then dispatch_alert ctx ''gateway.latency.high'' (chat_resource (pr_routed_model p)) ''review'' ''medium''
        (''LLM latency '' @ show_int (ap_latency_ms ap) @ ''ms exceeded '' @ show_int LATENCY_ALERT_THRESHOLD_MS @ ''ms threshold'')
      else returnS ())"

text \<open>The inspection of an answer: of the text without the sensitive data.\<close>

definition inspect_answer :: "chat_tables \<Rightarrow> chat_ctx \<Rightarrow> string \<Rightarrow> (dlp_scan \<times> inspection) result" where
  "inspect_answer tb ctx answer =
     (let dlp = dlp_scan_content answer (infer_region_from_bundle (gc_policy_bundle_name ctx)) in
      bindE (load_bundle (ct_bundles tb) (gc_policy_bundle_id ctx))
        (\<lambda>b. bindE (inspect_for_gateway (policy_tables tb) (gc_tenant ctx) b
             (if has_text (dl_redacted_content dlp) then the (dl_redacted_content dlp) else answer)
             (Some [(''has_pii'', JBool (dl_has_pii dlp)), (''region'', JStr (dl_region dlp))]))
           (\<lambda>egress. Inr (dlp, egress))))"

definition egress_block ::
  "'w model_apis \<Rightarrow> chat_services \<Rightarrow> chat_ctx \<Rightarrow> chat_request \<Rightarrow> prepared_chat \<Rightarrow> chat_response \<Rightarrow> inspection \<Rightarrow> ('w completion, answer) eff" where
  "egress_block ap sv ctx request p response egress =
     in_chat
       (seqS (write_audit ctx (sv_trace_id sv) ''LLM Response'' (chat_resource (pr_routed_model p)) ''blocked'' (in_risk egress)
            (routing_audit_prefix p @ ''Output blocked by egress policy'') (usage_metadata ap ctx p request 0 0 0)
            (Some (Some request, Some (Whole response), no_events\<lparr>ge_ingress := Some (pr_ingress p), ge_egress := Some egress\<rparr>)))
         (seqS commit
           (seqS (dispatch_block_alert ctx ''LLM Response'' (chat_resource (pr_routed_model p)) (in_risk egress) ''Output blocked by egress policy'' False)
             (returnS (None, Some egress, Some ''Response blocked by PySetu egress inspection.'')))))"

definition effective_redacted :: "dlp_scan \<Rightarrow> inspection \<Rightarrow> string option" where
  "effective_redacted dlp egress =
     (if has_text (in_redacted_content egress) then in_redacted_content egress else dl_redacted_content dlp)"

definition redacted_response :: "dlp_scan \<Rightarrow> inspection \<Rightarrow> chat_response \<Rightarrow> chat_response" where
  "redacted_response dlp egress r =
     (case (effective_redacted dlp egress, co_choices r) of
        (Some (a # s), c # cs) \<Rightarrow> r\<lparr>co_choices := c\<lparr>ch_message := (ch_message c)\<lparr>cm_content := a # s\<rparr>\<rparr> # cs\<rparr>
      | _ \<Rightarrow> r)"

definition translation_event_of :: "chat_ctx \<Rightarrow> prepared_chat \<Rightarrow> translation_trace \<Rightarrow> translation_event" where
  "translation_event_of ctx p t =
     \<lparr>tv_tenant = gc_tenant ctx, tv_request_id = cp_request_id (pr_canonical p), tv_source_protocol = tt_source_protocol t,
      tv_target_provider = tt_target_provider t, tv_requested_model = tt_requested_model t, tv_translated_model = tt_translated_model t,
      tv_success = True, tv_latency_ms = tt_translation_ms t, tv_compatibility_score = tt_compatibility_score t,
      tv_details = join ''; '' (tt_governance_actions t)\<rparr>"

text \<open>\<open>run_uag_post_upstream\<close> writes the elapsed time into the trace of the request.\<close>

definition answered_trace :: "'w model_apis \<Rightarrow> prepared_chat \<Rightarrow> translation_trace" where
  "answered_trace ap p =
     action_taken ''egress_policy'' ((pr_trace p)\<lparr>tt_translation_ms := tt_translation_ms (pr_trace p) + ap_translation_ms ap\<rparr>)"

text \<open>The list of actions in the answer is that of the trace itself, so it has the action that is added afterwards.\<close>

definition with_trace :: "translation_trace \<Rightarrow> chat_response \<Rightarrow> chat_response" where
  "with_trace t r = r\<lparr>co_pysetu := map_option (dict_set ''uag'' (trace_to_dict t)) (co_pysetu r)\<rparr>"

definition answer_details :: "prepared_chat \<Rightarrow> translation_trace \<Rightarrow> attempt list \<Rightarrow> string" where
  "answer_details p t chain =
     routing_audit_prefix p @
     (if pr_requested_model p \<noteq> [] \<and> pr_requested_model p \<noteq> pr_routed_model p
      then ''UAG translated '' @ pr_requested_model p @ '' -> '' @ pr_routed_model p @ '' via '' @ pr_upstream p
      else ''Routed to '' @ pr_routed_model p @ '' via '' @ pr_upstream p) @
     (case pr_ollama_model p of Some (c # m) \<Rightarrow> '' (Ollama: '' @ (c # m) @ '')'' | _ \<Rightarrow> []) @
     (case pr_gemini_model p of Some (c # m) \<Rightarrow> '' (Gemini: '' @ (c # m) @ '')'' | _ \<Rightarrow> []) @
     (if in_violations (pr_ingress p) \<noteq> [] then ''; '' @ show_nat (length (in_violations (pr_ingress p))) @ '' policy rule(s) applied'' else []) @
     '' |uag_trace='' @ dump_tight (trace_to_dict t) @
     (if chain = [] then [] else '' |failover_chain='' @ dump_tight (JArr (map attempt_json chain)))"

definition with_chain :: "attempt list \<Rightarrow> chat_response \<Rightarrow> chat_response" where
  "with_chain chain r =
     (if chain = [] then r
      else r\<lparr>co_pysetu := map_option (dict_set ''failover_chain'' (JArr (map attempt_json chain))) (co_pysetu r)\<rparr>)"

definition count_usage :: "chat_tables \<Rightarrow> chat_ctx \<Rightarrow> int \<Rightarrow> ('w completion, unit) eff" where
  "count_usage tb ctx used =
     bindS (liftS (bindE (scalar_one_or_none (filter (\<lambda>t. te_id t = gc_tenant ctx) (ct_tenants tb)))
         (\<lambda>t. case t of None \<Rightarrow> Inl (RuntimeError ''NoResultFound'') | Some t \<Rightarrow> Inr t)))
       (\<lambda>t. modifyS (\<lambda>s. s\<lparr>fx_usage := fx_usage s @
          (case gc_client_api_key_id ctx of
             Some (c # i) \<Rightarrow>
               [\<lparr>tk_key = gc_tenant ctx @ '':key:'' @ (c # i), tk_tpm = li_tpm (gc_limits ctx), tk_tph = li_tph (gc_limits ctx),
                 tk_tpd = li_tpd (gc_limits ctx), tk_used = used\<rparr>]
           | _ \<Rightarrow> []) @
          [\<lparr>tk_key = gc_tenant ctx, tk_tpm = li_tpm (te_ai_limits t), tk_tph = li_tph (te_ai_limits t), tk_tpd = li_tpd (te_ai_limits t),
            tk_used = used\<rparr>]\<rparr>))"

definition deliver ::
  "'w model_apis \<Rightarrow> chat_services \<Rightarrow> chat_tables \<Rightarrow> chat_ctx \<Rightarrow> chat_request \<Rightarrow> bool \<Rightarrow> attempt list \<Rightarrow> prepared_chat \<Rightarrow> chat_response \<Rightarrow>
   dlp_scan \<Rightarrow> inspection \<Rightarrow> ('w completion, answer) eff" where
  "deliver ap sv tb ctx request debug chain p response dlp egress =
     (let t = answered_trace ap p;
          final = with_chain chain (with_trace t
            (run_uag_post_upstream (pr_canonical p) (pr_trace p) (redacted_response dlp egress response) (ap_translation_ms ap)));
          status = (if in_violations (pr_ingress p) \<noteq> [] then ''review'' else ''allowed'')
      in
      seqS (note_request ctx (pr_routed_model p) (ap_latency_ms ap) True)
        (seqS (modifyS (\<lambda>s. s\<lparr>fx_events := fx_events s @ [translation_event_of ctx p t]\<rparr>))
          (seqS (count_usage tb ctx (us_total_tokens (co_usage final)))
            (in_chat
              (seqS (write_audit ctx (sv_trace_id sv) ''LLM Request'' (chat_resource (pr_routed_model p)) status (in_risk (pr_ingress p))
                   (answer_details p t chain)
                   (usage_metadata ap ctx p request (us_prompt_tokens (co_usage final)) (us_completion_tokens (co_usage final))
                      (us_total_tokens (co_usage final)))
                   (Some (Some request, Some (Whole final), \<lparr>ge_ingress = Some (pr_ingress p), ge_egress = Some egress, ge_classifier = Some (pr_verdict p)\<rparr>)))
                (seqS commit
                  (returnS (Some (serialize_gateway_response (pr_client_protocol p) final (Some (pr_canonical p)) debug), Some (pr_ingress p),
                     None))))))))"

definition answer_request ::
  "'w model_apis \<Rightarrow> chat_services \<Rightarrow> chat_tables \<Rightarrow> chat_ctx \<Rightarrow> chat_request \<Rightarrow> bool \<Rightarrow> attempt list \<Rightarrow> prepared_chat \<Rightarrow> chat_response \<Rightarrow>
   ('w completion, answer) eff" where
  "answer_request ap sv tb ctx request debug chain p response =
     seqS (in_chat (latency_alert ap ctx p))
       (bindS (liftS (inspect_answer tb ctx (answer_text response)))
         (\<lambda>(dlp, egress).
            if \<not> in_allowed egress then egress_block ap sv ctx request p response egress
            else deliver ap sv tb ctx request debug chain p response dlp egress))"

definition complete_prepared ::
  "'w model_apis \<Rightarrow> chat_services \<Rightarrow> chat_tables \<Rightarrow> chat_ctx \<Rightarrow> chat_request \<Rightarrow> bool \<Rightarrow> prepared_chat \<Rightarrow> ('w completion, answer) eff" where
  "complete_prepared ap sv tb ctx request debug p =
     bindS (liftS (resolve_failover_candidates (rt_groups (ct_routing tb)) (gc_tenant ctx)
         (BackendRouting.decide (pr_routed_model p) (pr_matched_rule p) (pr_strategy p))))
       (\<lambda>candidates. seqS (modifyS (\<lambda>s. s\<lparr>fx_messages := pr_messages p\<rparr>))
         (bindS (try_candidates ap sv ctx request candidates [] p)
           (\<lambda>(found, chain, q). case found of
              None \<Rightarrow> all_failed ap sv ctx request chain q
            | Some response \<Rightarrow> answer_request ap sv tb ctx request debug chain q response)))"

text \<open>\<open>process_chat_completion\<close>\<close>

definition process_chat_completion ::
  "'w model_apis \<Rightarrow> chat_services \<Rightarrow> chat_tables \<Rightarrow> chat_ctx \<Rightarrow> chat_request \<Rightarrow> string option \<Rightarrow> bool \<Rightarrow> ('w completion, answer) eff" where
  "process_chat_completion ap sv tb ctx request user_agent debug =
     bindS (in_chat (prepare_chat_request sv tb ctx request user_agent))
       (\<lambda>(prepared, ingress, error). case prepared of
          None \<Rightarrow> returnS (None, ingress, error)
        | Some p \<Rightarrow> if has_text error then returnS (None, ingress, error) else complete_prepared ap sv tb ctx request debug p)"

end
