(* ===== verification/BackendPrepareFacts.thy ===== *)
theory BackendPrepareFacts
  imports BackendPrepare BackendRoutingFacts
begin

text \<open>
  What the preparation of a chat request guarantees: a prepared request passed every check, a refused one left one committed
  audit row, and nothing else is written.
\<close>

section \<open>Audit\<close>

lemma write_audit_run:
  obtains w' row where "write_audit ctx t a rs st rk d us lg w = (Inr (), w')" "ad_audit (cw_db w') = ad_audit (cw_db w) @ [row]"
    "au_status row = st" "au_tenant row = gc_tenant ctx" "au_action row = a" "cw_saved w' = cw_saved w" "cw_alerts w' = cw_alerts w"
  by (simp add: write_audit_def modifyS_def insert_audit_def fresh_id_def audit_row_def Let_def)

text \<open>A refusal: the request is not prepared, and its audit row is committed.\<close>

definition refused_run :: "chat_ctx \<Rightarrow> chat_world \<Rightarrow> preparation result \<times> chat_world \<Rightarrow> bool" where
  "refused_run ctx w run \<longleftrightarrow>
     (\<exists>i msg w' row. run = (Inr (None, Some i, Some msg), w') \<and> msg \<noteq> [] \<and>
        ad_audit (cw_db w') = ad_audit (cw_db w) @ [row] \<and> au_status row = ''blocked'' \<and> au_tenant row = gc_tenant ctx \<and>
        cw_saved w' = (cw_db w', cw_bodies w'))"

lemmas run_defs = seqS_def bindS_def commit_def dispatch_block_alert_def dispatch_alert_def modifyS_def returnS_def write_audit_def
  insert_audit_def fresh_id_def audit_row_def Let_def

lemma refused_quietly:
  "msg \<noteq> [] \<Longrightarrow>
   refused_run ctx w (seqS (write_audit ctx t a rs ''blocked'' rk d us lg) (seqS commit (returnS (None, Some i, Some msg))) w)"
  by (simp add: refused_run_def run_defs)

lemma refused_with_alert:
  "msg \<noteq> [] \<Longrightarrow>
   refused_run ctx w (seqS (write_audit ctx t a rs ''blocked'' rk d us lg)
     (seqS commit (seqS (dispatch_block_alert ctx b rs' rk' d' injection) (returnS (None, Some i, Some msg)))) w)"
  by (simp add: refused_run_def run_defs)

lemma refused_after_alert:
  "msg \<noteq> [] \<Longrightarrow>
   refused_run ctx w (seqS (write_audit ctx t a rs ''blocked'' rk d us lg)
     (seqS (dispatch_block_alert ctx b rs' rk' d' injection) (seqS commit (returnS (None, Some i, Some msg)))) w)"
  by (simp add: refused_run_def run_defs)

lemma or_str_nonempty: "t \<noteq> [] \<Longrightarrow> or_str s t \<noteq> []"
  by (simp add: or_str_def)

lemma classifier_block_refuses: "refused_run ctx w (classifier_block sv ctx request v w)"
  unfolding classifier_block_def Let_def by (rule refused_with_alert) simp

lemma classifier_approval_refuses: "refused_run ctx w (classifier_approval sv ctx request v w)"
  unfolding classifier_approval_def Let_def by (rule refused_quietly) simp

lemma policy_block_refuses: "refused_run ctx w (policy_block sv ctx request ingress w)"
  unfolding policy_block_def Let_def by (rule refused_with_alert) simp

lemma prompt_block_refuses: "refused_run ctx w (prompt_block sv ctx model ingress outcome w)"
  unfolding prompt_block_def Let_def by (rule refused_after_alert) (simp add: or_str_nonempty)

lemma opa_block_refuses: "refused_run ctx w (opa_block sv ctx model ingress w)"
  unfolding opa_block_def Let_def by (rule refused_with_alert) simp

section \<open>The inspection\<close>

text \<open>The text the policies see.\<close>

definition policy_text :: "chat_ctx \<Rightarrow> string \<Rightarrow> string" where
  "policy_text ctx combined =
     (let dlp = dlp_scan_content combined (infer_region_from_bundle (gc_policy_bundle_name ctx)) in
      if has_text (dl_redacted_content dlp) then the (dl_redacted_content dlp) else combined)"

lemma after_dlp_allowed: "in_allowed ingress \<Longrightarrow> in_allowed (after_dlp dlp ingress)"
  by (simp add: after_dlp_def)

text \<open>At most one row, of the scan for sensitive data, is written, and nothing committed.\<close>

definition scan_noted :: "chat_ctx \<Rightarrow> chat_world \<Rightarrow> chat_world \<Rightarrow> bool" where
  "scan_noted ctx w w' \<longleftrightarrow>
     (\<exists>rows. ad_audit (cw_db w') = ad_audit (cw_db w) @ rows \<and> length rows \<le> 1 \<and>
        list_all (\<lambda>r. au_status r = ''allowed'' \<and> au_action r = ''DLP Scan'' \<and> au_tenant r = gc_tenant ctx) rows) \<and>
     cw_saved w' = cw_saved w \<and> cw_alerts w' = cw_alerts w"

lemma scan_noted_refl: "scan_noted ctx w w"
  by (simp add: scan_noted_def)

lemma inspected_run:
  assumes "inspected sv tb ctx combined w = (Inr (dlp, ingress), w')"
  shows "scan_noted ctx w w' \<and> dlp = dlp_scan_content combined (infer_region_from_bundle (gc_policy_bundle_name ctx)) \<and>
    (\<exists>b i. inspect_for_gateway (policy_tables tb) (gc_tenant ctx) b (policy_text ctx combined)
        (Some [(''has_pii'', JBool (dl_has_pii dlp)), (''region'', JStr (dl_region dlp))]) = Inr i \<and> in_allowed ingress = in_allowed i \<and>
      (has_text (dl_redacted_content dlp) \<and> in_allowed i \<and> in_action i \<noteq> ''block'' \<longrightarrow> ingress = after_dlp dlp i))"
proof -
  let ?dlp = "dlp_scan_content combined (infer_region_from_bundle (gc_policy_bundle_name ctx))"
  let ?env = "Some [(''has_pii'', JBool (dl_has_pii ?dlp)), (''region'', JStr (dl_region ?dlp))]"
  obtain b where b: "load_bundle (ct_bundles tb) (gc_policy_bundle_id ctx) = Inr b"
    using assms by (cases "load_bundle (ct_bundles tb) (gc_policy_bundle_id ctx)") (simp_all add: inspected_def bindS_def)
  obtain i where i: "inspect_for_gateway (policy_tables tb) (gc_tenant ctx) b (policy_text ctx combined) ?env = Inr i"
    using assms b
    by (cases "inspect_for_gateway (policy_tables tb) (gc_tenant ctx) b (policy_text ctx combined) ?env")
       (simp_all add: inspected_def bindS_def policy_text_def Let_def)
  have run: "inspected sv tb ctx combined w =
     (if has_text (dl_redacted_content ?dlp) \<and> in_allowed i \<and> in_action i \<noteq> ''block'' then
        seqS (if dl_classifications ?dlp \<noteq> []
              then write_audit ctx (sv_trace_id sv) ''DLP Scan'' ''gateway /ingress'' ''allowed'' (in_risk (after_dlp ?dlp i)) (dlp_details ?dlp)
                 JNull None
              else returnS ()) (returnS (?dlp, after_dlp ?dlp i)) w
      else (Inr (?dlp, i), w))"
    using b i by (simp add: inspected_def bindS_def policy_text_def Let_def)
  show ?thesis
  proof (cases "has_text (dl_redacted_content ?dlp) \<and> in_allowed i \<and> in_action i \<noteq> ''block''")
    case True
    then have r: "dlp = ?dlp" "ingress = after_dlp ?dlp i"
      using assms unfolding run by (auto simp: run_defs split: if_splits)
    have "scan_noted ctx w w'" using assms True unfolding run scan_noted_def by (auto simp: run_defs split: if_splits)
    then show ?thesis using r i True after_dlp_allowed by blast
  next
    case False
    then have r: "dlp = ?dlp" "ingress = i" "w' = w" using assms unfolding run by auto
    then show ?thesis using i scan_noted_refl False by blast
  qed
qed

section \<open>The whole preparation\<close>

lemma bind_lift: "bindS (liftS r) f s = (Inr y, s') \<longleftrightarrow> (\<exists>x. r = Inr x \<and> f x s = (Inr y, s'))"
  by (cases r) (simp_all add: bindS_def)

lemma offered_own: "s \<in> set (offered_servers tb ctx b) \<Longrightarrow> s \<in> set (ct_servers tb) \<and> ms_tenant s = gc_tenant ctx"
  by (auto simp: offered_servers_def filter_servers_for_bundle_def Let_def split: if_splits)

lemma route_request_facts:
  assumes "route_request sv tb ctx request model ua dlp ingress tenant messages = Inr r"
  shows "set (ro_servers r) \<subseteq> {s \<in> set (ct_servers tb). ms_tenant s = gc_tenant ctx} \<and>
    (\<exists>routing. select_model (sv_parse sv) (sv_uniform sv) (ct_routing tb) (gc_tenant ctx) model
        (gateway_routing_context request (all_text messages)) (gc_client_api_key_id ctx) = Inr routing \<and> ro_routing r = routing \<and>
      evaluate_gateway_opa (sv_opa_enabled sv) (sv_opa_fail_open sv) (sv_opa sv)
        (build_gateway_opa_input ctx request (rd_model routing) ingress dlp (length (all_text messages)) (sv_hour sv)) = Inr (ro_opa r)) \<and>
    ro_ingress r = merge_opa_into_inspection ingress (ro_opa r)"
  using assms
  by (auto simp: route_request_def Let_def bindE_eq_Inr_iff filter_servers_for_agent_def dest: offered_own split: if_splits)

lemma merged_allowed: "in_allowed (merge_opa_into_inspection i opa) \<longleftrightarrow> in_allowed i \<and> (od_skipped opa \<or> od_allow opa) \<or> in_allowed i \<and> od_skipped opa"
  by (auto simp: merge_opa_into_inspection_def)

definition passed ::
  "chat_services \<Rightarrow> chat_tables \<Rightarrow> chat_ctx \<Rightarrow> chat_request \<Rightarrow> prepared_chat \<Rightarrow> bool" where
  "passed sv tb ctx request p \<longleftrightarrow>
     in_allowed (pr_ingress p) \<and>
     set (pr_servers p) \<subseteq> {s \<in> set (ct_servers tb). ms_tenant s = gc_tenant ctx} \<and>
     (\<exists>ingress dlp messages opa routing.
        select_model (sv_parse sv) (sv_uniform sv) (ct_routing tb) (gc_tenant ctx) (cr_model (up_translated_request (uag_pipeline sv tb ctx request)))
          (gateway_routing_context request (all_text messages)) (gc_client_api_key_id ctx) = Inr routing \<and> pr_routed_model p = rd_model routing \<and>
        evaluate_gateway_opa (sv_opa_enabled sv) (sv_opa_fail_open sv) (sv_opa sv)
          (build_gateway_opa_input ctx request (rd_model routing) ingress dlp (length (all_text messages)) (sv_hour sv)) = Inr opa \<and>
        (od_skipped opa \<or> od_allow opa) \<and> pr_messages p = messages)"

lemma prepared_of_fields:
  "pr_ingress (prepared_of sv ctx request pipeline v outcome saving r config) = ro_ingress r"
  "pr_servers (prepared_of sv ctx request pipeline v outcome saving r config) = ro_servers r"
  "pr_routed_model (prepared_of sv ctx request pipeline v outcome saving r config) = rd_model (ro_routing r)"
  "pr_messages (prepared_of sv ctx request pipeline v outcome saving r config) = ts_messages saving"
  "pr_verdict (prepared_of sv ctx request pipeline v outcome saving r config) = v"
  "pr_config (prepared_of sv ctx request pipeline v outcome saving r config) = config"
  "pr_bearer_token (prepared_of sv ctx request pipeline v outcome saving r config) = gc_ingress_bearer_token ctx"
  by (simp_all add: prepared_of_def Let_def split: prod.splits)

lemma finish_preparation_run:
  assumes "finish_preparation sv tb ctx request pipeline v outcome saving r w = (Inr (prepared, ing, err), w')"
  shows "if in_allowed (ro_ingress r)
    then \<exists>config. prepared = Some (prepared_of sv ctx request pipeline v outcome saving r config) \<and> ing = Some (ro_ingress r) \<and> err = None \<and> w' = w
    else prepared = None \<and> refused_run ctx w (Inr (None, ing, err), w')"
  using assms opa_block_refuses [of ctx w sv "rd_model (ro_routing r)" "ro_ingress r"]
  by (auto simp: finish_preparation_def bind_lift refused_run_def)

lemma prepare_governed_run:
  assumes "prepare_governed sv tb ctx request ua (uag_pipeline sv tb ctx request) v dlp ingress w = (Inr (prepared, ing, err), w')"
  shows "(case prepared of
      None \<Rightarrow> refused_run ctx w (Inr (None, ing, err), w')
    | Some p \<Rightarrow> w' = w \<and> err = None \<and> ing = Some (pr_ingress p) \<and> pr_verdict p = v \<and> passed sv tb ctx request p)"
proof -
  let ?pipeline = "uag_pipeline sv tb ctx request"
  let ?model = "cr_model (up_translated_request ?pipeline)"
  obtain outcome where outcome: "(if po_blocked outcome then prompt_block sv ctx ?model ingress outcome
      else bindS (liftS (scalar_one_or_none (filter (\<lambda>t. te_id t = gc_tenant ctx) (ct_tenants tb))))
        (\<lambda>tenant. bindS (liftS (route_request sv tb ctx request ?model ua dlp ingress tenant (ts_messages (saved_tokens tenant ctx request outcome))))
           (finish_preparation sv tb ctx request ?pipeline v outcome (saved_tokens tenant ctx request outcome)))) w = (Inr (prepared, ing, err), w')"
    using assms unfolding prepare_governed_def bind_lift by blast
  show ?thesis
  proof (cases "po_blocked outcome")
    case True
    then show ?thesis using outcome prompt_block_refuses [of ctx w sv ?model ingress outcome] by (auto simp: refused_run_def)
  next
    case False
    then obtain tenant r where
      route: "route_request sv tb ctx request ?model ua dlp ingress tenant (ts_messages (saved_tokens tenant ctx request outcome)) = Inr r" and
      finish: "finish_preparation sv tb ctx request ?pipeline v outcome (saved_tokens tenant ctx request outcome) r w = (Inr (prepared, ing, err), w')"
      using outcome unfolding if_not_P [OF False] bind_lift by blast
    note facts = route_request_facts [OF route] and ends = finish_preparation_run [OF finish]
    show ?thesis
    proof (cases "in_allowed (ro_ingress r)")
      case False
      then show ?thesis using ends by simp
    next
      case True
      have "od_skipped (ro_opa r) \<or> od_allow (ro_opa r)" using True facts by (auto simp: merged_allowed)
      then have "passed sv tb ctx request (prepared_of sv ctx request ?pipeline v outcome (saved_tokens tenant ctx request outcome) r config)" for config
        unfolding passed_def prepared_of_fields using facts True by blast
      then show ?thesis using ends True by (auto simp: prepared_of_fields)
    qed
  qed
qed

text \<open>The text the policies are asked about: what the classifier made of the request, without the sensitive data.\<close>

definition governed_text :: "chat_ctx \<Rightarrow> classifier_verdict \<Rightarrow> string \<Rightarrow> string" where
  "governed_text ctx v combined =
     policy_text ctx (if cv_verdict v = ''redact'' \<and> has_text (cv_modified_text v) then the (cv_modified_text v) else combined)"

text \<open>The request that is served: neither blocked nor held for approval by the classifier, allowed by the policy engine, and more.\<close>

definition checked :: "chat_services \<Rightarrow> chat_tables \<Rightarrow> chat_ctx \<Rightarrow> chat_request \<Rightarrow> prepared_chat \<Rightarrow> bool" where
  "checked sv tb ctx request p \<longleftrightarrow>
     passed sv tb ctx request p \<and> cv_verdict (pr_verdict p) \<notin> {''block'', ''request_approval''} \<and>
     classify_intent_and_risk (sv_runtime sv) (Some (ct_intents tb)) (text_for_inspection (up_canonical (uag_pipeline sv tb ctx request)))
       (gc_tenant ctx) [] None None = Inr (pr_verdict p) \<and>
     (\<exists>b i env. inspect_for_gateway (policy_tables tb) (gc_tenant ctx) b
        (governed_text ctx (pr_verdict p) (text_for_inspection (up_canonical (uag_pipeline sv tb ctx request)))) env = Inr i \<and> in_allowed i)"

lemma preparation_run:
  assumes "prepare_chat_request sv tb ctx request user_agent w = (Inr (prepared, ing, err), w')"
  shows "\<exists>mid. scan_noted ctx w mid \<and>
    (case prepared of
       None \<Rightarrow> refused_run ctx mid (Inr (None, ing, err), w')
     | Some p \<Rightarrow> w' = mid \<and> err = None \<and> ing = Some (pr_ingress p) \<and> checked sv tb ctx request p)"
proof -
  let ?combined = "text_for_inspection (up_canonical (uag_pipeline sv tb ctx request))"
  obtain v where v: "classify_intent_and_risk (sv_runtime sv) (Some (ct_intents tb)) ?combined (gc_tenant ctx) [] None None = Inr v"
    and step: "(if cv_verdict v = ''block'' then classifier_block sv ctx request v
       else if cv_verdict v = ''request_approval'' then classifier_approval sv ctx request v
       else bindS (inspected sv tb ctx (if cv_verdict v = ''redact'' \<and> has_text (cv_modified_text v) then the (cv_modified_text v) else ?combined))
         (\<lambda>(dlp, ingress). if \<not> in_allowed ingress then policy_block sv ctx request ingress
            else prepare_governed sv tb ctx request user_agent (uag_pipeline sv tb ctx request) v dlp ingress)) w = (Inr (prepared, ing, err), w')"
    using assms unfolding prepare_chat_request_def Let_def bind_lift by blast
  have refusal: "\<exists>mid. scan_noted ctx w mid \<and> prepared = None \<and> refused_run ctx mid (Inr (None, ing, err), w')"
    if "refused_run ctx mid (Inr (prepared, ing, err), w')" "scan_noted ctx w mid" for mid
    using that by (auto simp: refused_run_def)
  consider "cv_verdict v = ''block''" | "cv_verdict v = ''request_approval''" | "cv_verdict v \<notin> {''block'', ''request_approval''}" by blast
  then show ?thesis
  proof cases
    case 1
    then have "refused_run ctx w (Inr (prepared, ing, err), w')" using step classifier_block_refuses [of ctx w sv request v] by simp
    then show ?thesis using refusal scan_noted_refl by fastforce
  next
    case 2
    then have "refused_run ctx w (Inr (prepared, ing, err), w')" using step classifier_approval_refuses [of ctx w sv request v] by simp
    then show ?thesis using refusal scan_noted_refl by fastforce
  next
    case 3
    let ?content = "if cv_verdict v = ''redact'' \<and> has_text (cv_modified_text v) then the (cv_modified_text v) else ?combined"
    have step: "bindS (inspected sv tb ctx ?content)
         (\<lambda>(dlp, ingress). if \<not> in_allowed ingress then policy_block sv ctx request ingress
            else prepare_governed sv tb ctx request user_agent (uag_pipeline sv tb ctx request) v dlp ingress) w = (Inr (prepared, ing, err), w')"
      using step 3 by simp
    then obtain dlp ingress mid where mid: "inspected sv tb ctx ?content w = (Inr (dlp, ingress), mid)"
      unfolding bindS_def by (auto split: prod.splits sum.splits)
    have ends: "(if \<not> in_allowed ingress then policy_block sv ctx request ingress
        else prepare_governed sv tb ctx request user_agent (uag_pipeline sv tb ctx request) v dlp ingress) mid = (Inr (prepared, ing, err), w')"
      using step mid by (simp add: bindS_def)
    note facts = inspected_run [OF mid]
    show ?thesis
    proof (cases "in_allowed ingress")
      case False
      then have "refused_run ctx mid (Inr (prepared, ing, err), w')" using ends policy_block_refuses [of ctx mid sv request ingress] by simp
      then show ?thesis using refusal facts by fastforce
    next
      case True
      then have run: "prepare_governed sv tb ctx request user_agent (uag_pipeline sv tb ctx request) v dlp ingress mid = (Inr (prepared, ing, err), w')"
        using ends by simp
      obtain b i where bi: "inspect_for_gateway (policy_tables tb) (gc_tenant ctx) b (policy_text ctx ?content)
          (Some [(''has_pii'', JBool (dl_has_pii dlp)), (''region'', JStr (dl_region dlp))]) = Inr i" "in_allowed i"
        using facts True by blast
      show ?thesis
      proof (cases prepared)
        case None
        then show ?thesis using prepare_governed_run [OF run] facts by auto
      next
        case (Some p)
        have p: "w' = mid" "err = None" "ing = Some (pr_ingress p)" "pr_verdict p = v" "passed sv tb ctx request p"
          using prepare_governed_run [OF run] Some by simp_all
        have "\<exists>b i env. inspect_for_gateway (policy_tables tb) (gc_tenant ctx) b (governed_text ctx (pr_verdict p) ?combined) env = Inr i \<and> in_allowed i"
          unfolding p governed_text_def using bi by blast
        then show ?thesis using p facts v 3 Some by (auto simp: checked_def)
      qed
    qed
  qed
qed


section \<open>An example\<close>

definition plain_services :: chat_services where
  "plain_services =
     \<lparr>sv_runtime = \<lparr>ru_decode_replace = id, ru_decode_ignore = id, ru_normalize = id, ru_set_order = id\<rparr>, sv_parse = (\<lambda>_. None),
      sv_uniform = (\<lambda>_. 0), sv_opa_enabled = False, sv_opa_fail_open = False, sv_opa = (\<lambda>_. Inl (HTTPError ''down'')),
      sv_ollama_models = (\<lambda>_. None),
      sv_settings = \<lparr>gs_openai_api_key = Some ''k'', gs_gemini_api_key = None, gs_gemini_default_model = ''g'', gs_ollama_enabled = False,
        gs_ollama_base_url = ''u'', gs_ollama_default_model = ''l'', gs_air_gap_mode = False\<rparr>,
      sv_hour = 0, sv_trace_id = None, sv_request_id = ''r''\<rparr>"

definition plain_tenant :: tenant_row where
  "plain_tenant =
     \<lparr>te_id = ''t'', te_allowed_api_origins = None, te_token_saving_enabled = False, te_token_saving_mode = ''both'',
      te_dynamic_tool_calling_enabled = False, te_dynamic_tool_max = 8, te_mcp_auto_hide_destructive = False, te_mcp_agent_toggles = JNull,
      te_ai_limits = no_limits\<rparr>"

definition plain_tables :: chat_tables where
  "plain_tables =
     \<lparr>ct_policies = [], ct_bundles = [], ct_intents = [], ct_tenants = [plain_tenant], ct_servers = [],
      ct_routing = \<lparr>rt_providers = [], rt_groups = [], rt_rules = [], rt_rule_keys = []\<rparr>, ct_mappings = [], ct_client_protocols = [],
      ct_integrations = [], ct_templates = [], ct_vault = \<lparr>va_enabled = False, va_up = True, va_store = []\<rparr>\<rparr>"

definition empty_world :: chat_world where
  "empty_world =
     (let db = \<lparr>ad_endpoints = [], ad_agents = [], ad_sanctioned = [], ad_audit = [], ad_events = [], ad_approvals = [], ad_chain = [],
        ad_ids = (\<lambda>_. []), ad_next = 0, ad_now = 0\<rparr> in
      \<lparr>cw_db = db, cw_bodies = [], cw_saved = (db, []), cw_alerts = []\<rparr>)"

definition plain_request :: chat_request where
  "plain_request =
     \<lparr>cr_model = ''gpt-4o'', cr_messages = [], cr_temperature = JNull, cr_max_tokens = None, cr_stream = False, cr_routing_context = None,
      cr_user = None, cr_metadata = None, cr_tools = None\<rparr>"

definition plain_ctx :: chat_ctx where
  "plain_ctx =
     \<lparr>gc_tenant = ''t'', gc_actor = ''a'', gc_user = None, gc_client_api_key_id = None, gc_client_api_key_name = None,
      gc_policy_bundle_id = None, gc_policy_bundle_name = None, gc_client_response_protocol = None, gc_limits = no_limits,
      gc_token_saving_enabled = None, gc_token_saving_mode = None, gc_key_source = ''pysetu'', gc_upstream_pass_through = False,
      gc_ingress_bearer_token = None\<rparr>"

text \<open>How a request gets through.\<close>

lemma prepares:
  assumes "classify_intent_and_risk (sv_runtime sv) (Some (ct_intents tb)) (text_for_inspection (up_canonical (uag_pipeline sv tb ctx request)))
      (gc_tenant ctx) [] None None = Inr v" "cv_verdict v = ''allow''"
    and "inspected sv tb ctx (text_for_inspection (up_canonical (uag_pipeline sv tb ctx request))) w = (Inr (dlp, ingress), w1)" "in_allowed ingress"
    and "resolve_and_inject_prompt (ct_templates tb) (gc_tenant ctx)
      (redacted_messages ingress (cr_messages (up_translated_request (uag_pipeline sv tb ctx request)))) None None = Inr outcome" "\<not> po_blocked outcome"
    and "scalar_one_or_none (filter (\<lambda>t. te_id t = gc_tenant ctx) (ct_tenants tb)) = Inr tenant"
    and "route_request sv tb ctx request (cr_model (up_translated_request (uag_pipeline sv tb ctx request))) ua dlp ingress tenant
      (ts_messages (saved_tokens tenant ctx request outcome)) = Inr r" "in_allowed (ro_ingress r)"
    and "bindE (resolve_gateway_config (sv_settings sv) (ct_vault tb) (ct_integrations tb) (gc_tenant ctx))
      (apply_provider_gateway_credentials (ct_vault tb) (rt_providers (ct_routing tb)) (gc_tenant ctx) (rd_model (ro_routing r))) = Inr config"
  shows "prepare_chat_request sv tb ctx request ua w =
    (Inr (Some (prepared_of sv ctx request (uag_pipeline sv tb ctx request) v outcome (saved_tokens tenant ctx request outcome) r config),
       Some (ro_ingress r), None), w1)"
  using assms by (simp add: prepare_chat_request_def prepare_governed_def finish_preparation_def bindS_def Let_def)

lemma plain_steps:
  "text_for_inspection (up_canonical (uag_pipeline plain_services plain_tables plain_ctx plain_request)) = []"
  "cr_messages (up_translated_request (uag_pipeline plain_services plain_tables plain_ctx plain_request)) = []"
  "\<not> isl (tools_for (Some plain_tenant) [] [] plain_request)"
  "case fst (inspected plain_services plain_tables plain_ctx [] empty_world) of Inr (_, i) \<Rightarrow> in_allowed i | _ \<Rightarrow> False"
  by code_simp+

lemma gateway_routing_returns:
  "\<exists>d. select_model parse uniform db tenant model (gateway_routing_context request combined) key = Inr d"
  by (rule routing_returns [of _ "estimate_tokens combined"]) (simp add: gateway_routing_context_def Let_def)

lemma plain_route:
  assumes "sv_opa_enabled sv = False" "ct_bundles tb = []" "gc_policy_bundle_id ctx = None" "in_allowed ingress" "ct_servers tb = []"
    "all_text messages = []" "\<not> isl (tools_for tenant [] [] request)"
  shows "\<exists>r. route_request sv tb ctx request model ua dlp ingress tenant messages = Inr r \<and> in_allowed (ro_ingress r)"
proof -
  have servers: "offered_servers tb ctx None = []" using assms(5) by (simp add: offered_servers_def filter_servers_for_bundle_def Let_def)
  have "filter_servers_for_agent [] a b = []" for a b by (simp add: filter_servers_for_agent_def)
  moreover obtain t payload where "tools_for tenant [] [] request = Inr (t, payload)" using assms(7) by (metis sum.collapse(2) prod.exhaust)
  moreover obtain d where "select_model (sv_parse sv) (sv_uniform sv) (ct_routing tb) (gc_tenant ctx) model (gateway_routing_context request []) (gc_client_api_key_id ctx) = Inr d"
    using gateway_routing_returns by blast
  ultimately show ?thesis using assms servers
    by (simp add: route_request_def Let_def load_bundle_def has_text_def evaluate_gateway_opa_def merge_opa_into_inspection_def)
qed

lemma plain_fields:
  "sv_opa_enabled plain_services = False" "ct_bundles plain_tables = []" "gc_policy_bundle_id plain_ctx = None" "ct_servers plain_tables = []"
  "ct_templates plain_tables = []" "ct_tenants plain_tables = [plain_tenant]" "all_text [] = []" "ct_integrations plain_tables = []"
  "rt_providers (ct_routing plain_tables) = []" "va_enabled (ct_vault plain_tables) = False"
  by (simp_all add: plain_services_def plain_tables_def plain_ctx_def all_text_def)

lemma plain_config:
  assumes "va_enabled v = False" "gs_air_gap_mode settings = False"
  shows "\<exists>c. resolve_gateway_config settings v [] tenant = Inr c \<and> cf_openai_api_key c = gs_openai_api_key settings \<and>
    cf_gemini_api_key c = gs_gemini_api_key settings"
  using assms
  by (auto simp: resolve_gateway_config_def scalar_one_or_none_def get_tenant_secret_def key_and_source_def column_of_def has_text_def Let_def
      split: prod.splits)

lemma no_credentials: "apply_provider_gateway_credentials v [] tenant m c = Inr c"
  by (simp add: apply_provider_gateway_credentials_def scalar_one_or_none_def named_providers_def)

lemma plain_prepared:
  "\<exists>p i w'. prepare_chat_request plain_services plain_tables plain_ctx plain_request None empty_world = (Inr (Some p, Some i, None), w') \<and>
     cf_openai_api_key (pr_config p) = Some ''k'' \<and> cf_gemini_api_key (pr_config p) = None \<and> pr_bearer_token p = None"
proof -
  let ?sv = plain_services and ?tb = plain_tables and ?ctx = plain_ctx and ?rq = plain_request
  obtain dlp i w1 where scan: "inspected ?sv ?tb ?ctx [] empty_world = (Inr (dlp, i), w1)" "in_allowed i"
    using plain_steps(4) by (cases "inspected ?sv ?tb ?ctx [] empty_world") (auto split: sum.splits)
  have "\<exists>v. classify_intent_and_risk (sv_runtime ?sv) (Some (ct_intents ?tb)) [] (gc_tenant ?ctx) [] None None = Inr v \<and> cv_verdict v = ''allow''"
    by (simp add: classify_intent_and_risk_def has_text_def)
  then obtain v where v: "classify_intent_and_risk (sv_runtime ?sv) (Some (ct_intents ?tb)) [] (gc_tenant ?ctx) [] None None = Inr v" "cv_verdict v = ''allow''"
    by blast
  let ?outcome = "\<lparr>po_messages = [], po_template_id = None, po_version = None, po_enforce_mode = None, po_warning = None, po_blocked = False\<rparr>"
  have "redacted_messages i [] = []" by (simp add: redacted_messages_def split: option.splits list.splits)
  then have outcome: "resolve_and_inject_prompt (ct_templates ?tb) (gc_tenant ?ctx) (redacted_messages i []) None None = Inr ?outcome"
    by (simp add: resolve_and_inject_prompt_def matched_template_def plain_fields Let_def)
  have saved: "ts_messages (saved_tokens (Some plain_tenant) ?ctx ?rq ?outcome) = []"
    by (simp add: saved_tokens_def token_settings_def resolve_token_saving_config_def plain_ctx_def plain_request_def plain_tenant_def
        apply_token_saving_def Let_def)
  have tenant: "scalar_one_or_none (filter (\<lambda>t. te_id t = gc_tenant ?ctx) (ct_tenants ?tb)) = Inr (Some plain_tenant)"
    by (simp add: plain_fields plain_tenant_def plain_ctx_def scalar_one_or_none_def)
  obtain r where r: "route_request ?sv ?tb ?ctx ?rq (cr_model (up_translated_request (uag_pipeline ?sv ?tb ?ctx ?rq))) None dlp i
        (Some plain_tenant) [] = Inr r" "in_allowed (ro_ingress r)"
    using plain_route [OF plain_fields(1-3) scan(2) plain_fields(4,7) plain_steps(3)] by blast
  obtain c where c: "resolve_gateway_config (sv_settings ?sv) (ct_vault ?tb) (ct_integrations ?tb) (gc_tenant ?ctx) = Inr c"
      "cf_openai_api_key c = Some ''k''" "cf_gemini_api_key c = None"
    using plain_config [OF plain_fields(10), of "sv_settings ?sv" "gc_tenant ?ctx"] unfolding plain_fields by (auto simp: plain_services_def)
  have config: "bindE (resolve_gateway_config (sv_settings ?sv) (ct_vault ?tb) (ct_integrations ?tb) (gc_tenant ?ctx))
      (apply_provider_gateway_credentials (ct_vault ?tb) (rt_providers (ct_routing ?tb)) (gc_tenant ?ctx) m) = Inr c" for m
    by (simp only: c bindE_Inr) (simp only: plain_fields no_credentials)
  have "\<not> po_blocked ?outcome" by simp
  note p = prepares [of ?sv ?tb ?ctx ?rq v empty_world dlp i w1 ?outcome "Some plain_tenant" None r c, unfolded plain_steps(1,2) saved,
      OF v scan outcome this tenant r config]
  have "gc_ingress_bearer_token ?ctx = None" by (simp add: plain_ctx_def)
  then show ?thesis using p c by (auto simp: prepared_of_fields)
qed


end
