(* ===== verification/BackendCompleteFacts.thy ===== *)
theory BackendCompleteFacts
  imports BackendComplete BackendPrepareFacts BackendUagFacts
begin

text \<open>
  What a completion guarantees: however it ends one row tells so and is committed, and no text reaches the client that
  the inspection of answers did not allow.
\<close>

section \<open>The calls of providers and tools\<close>

text \<open>They leave the tables and the accounting of the gateway alone.\<close>

definition same_books :: "'w completion \<Rightarrow> 'w completion \<Rightarrow> bool" where
  "same_books s t \<longleftrightarrow> fx_chat t = fx_chat s \<and> fx_usage t = fx_usage s \<and> fx_events t = fx_events s"

lemma same_books_preorder [simp]: "reflp same_books" "transp same_books"
  by (auto simp: same_books_def intro!: reflpI transpI)

lemma keeps_at_outside: "keeps same_books (at_outside m)"
  by (simp add: keeps_def at_outside_def same_books_def split: prod.split)

lemma keeps_fields:
  "keeps same_books (modifyS (\<lambda>s. s\<lparr>fx_messages := f s\<rparr>))" "keeps same_books (modifyS (\<lambda>s. s\<lparr>fx_providers := g s\<rparr>))"
  by (rule keeps_modify, simp add: same_books_def)+

lemma keeps_split: "(\<And>x y. keeps R (f x y)) \<Longrightarrow> keeps R (case p of (x, y) \<Rightarrow> f x y)"
  by (cases p) simp

lemmas keeps_same = keeps_at_outside keeps_fields keeps_return keeps_raise keeps_lift keeps_get keeps_split keeps_bind keeps_seq

lemma keeps_call_upstream: "keeps same_books (call_upstream_raw ap p request messages)"
  unfolding call_upstream_raw_def Let_def by (intro keeps_seq keeps_if keeps_same same_books_preorder)

lemma keeps_run_tool_calls:
  assumes "reflp R" "transp R" "\<And>server tool args. keeps R (to_invoke ops server tool args)"
  shows "keeps R (run_tool_calls ops servers tcs st)"
proof (induction tcs arbitrary: st)
  case (Cons tc tcs)
  have "keeps R (governed_call ops servers history name args)" for history name args
    unfolding governed_call_def execute_mcp_tool_call_def Let_def
    by (intro keeps_if keeps_bind keeps_return keeps_split assms) (auto split: option.split intro!: keeps_bind keeps_return keeps_lift assms)
  then show ?case unfolding run_tool_calls.simps by (intro keeps_bind keeps_split keeps_lift Cons.IH assms)
qed (simp add: keeps_return assms)

lemma keeps_tool_loop:
  assumes "reflp R" "transp R" "\<And>server tool args. keeps R (to_invoke ops server tool args)" "\<And>ms. keeps R (to_upstream ops ms)"
  shows "keeps R (tool_loop n ops servers a st)"
proof (induction n arbitrary: a st)
  case (Suc n)
  show ?case unfolding tool_loop.simps
    by (intro keeps_if keeps_bind keeps_split keeps_lift keeps_return keeps_run_tool_calls Suc.IH assms)
qed (simp add: keeps_return assms)

lemma keeps_execute_upstream: "keeps same_books (execute_upstream ap p request)"
  unfolding execute_upstream_def upstream_with_tools_def
  by (intro keeps_bind keeps_seq keeps_split keeps_get keeps_lift keeps_fields keeps_tool_loop same_books_preorder)
    (simp_all add: tool_ops_of_def keeps_at_outside keeps_call_upstream)

lemma keeps_attempt: "keeps same_books (attempt_upstream ap p request)"
  unfolding attempt_upstream_def
  by (intro keeps_try keeps_bind keeps_return keeps_execute_upstream same_books_preorder) (auto intro!: keeps_return)

lemma keeps_note_request: "keeps same_books (note_request ctx model latency success)"
  unfolding note_request_def by (intro keeps_bind keeps_get keeps_lift keeps_fields same_books_preorder)

lemma response_has_choice: "response_of ap p a n = Inr r \<Longrightarrow> co_choices r \<noteq> []"
  by (auto simp: response_of_def bindE_eq_Inr_iff)

lemma attempt_has_choice: "attempt_upstream ap p request s = (Inr (Inr r), s') \<Longrightarrow> co_choices r \<noteq> []"
proof -
  assume run: "attempt_upstream ap p request s = (Inr (Inr r), s')"
  have "yields (\<lambda>r. co_choices r \<noteq> []) (execute_upstream ap p request)"
    unfolding execute_upstream_def
    by (intro yields_bind_any, clarify) (auto simp: seqS_def bindS_def yields_def response_has_choice)
  then show ?thesis using run
    by (auto simp: attempt_upstream_def tryS_def bindS_def yields_def provider_failure_def split: prod.splits sum.splits py_error.splits)
qed

section \<open>Failover\<close>

text \<open>A candidate is prepared like the request but for model and upstream.\<close>

lemma for_candidate_fields [simp]:
  "pr_routed_model (for_candidate sv p m) = m" "pr_canonical (for_candidate sv p m) = pr_canonical p"
  "pr_trace (for_candidate sv p m) = pr_trace p" "pr_client_protocol (for_candidate sv p m) = pr_client_protocol p"
  "pr_ingress (for_candidate sv p m) = pr_ingress p" "pr_config (for_candidate sv p m) = pr_config p"
  by (simp_all add: for_candidate_def Let_def)

lemma candidate_upstream: "pr_upstream (for_candidate sv p m) \<in> {''openai'', ''gemini'', ''ollama'', ''mock''}"
  by (auto simp: for_candidate_def Let_def coerce_upstream_def resolve_upstream_def)

definition candidate_of :: "prepared_chat \<Rightarrow> prepared_chat \<Rightarrow> bool" where
  "candidate_of p q \<longleftrightarrow> pr_canonical q = pr_canonical p \<and> pr_trace q = pr_trace p \<and> pr_client_protocol q = pr_client_protocol p \<and>
     pr_ingress q = pr_ingress p"

lemma try_candidates_run:
  "try_candidates ap sv ctx request models chain p s = (Inr (found, chain', q), s') \<Longrightarrow>
   same_books s s' \<and> candidate_of p q \<and>
   (case found of None \<Rightarrow> True | Some r \<Rightarrow> co_choices r \<noteq> [] \<and> pr_routed_model q \<in> set models)"
proof (induction models arbitrary: chain p s)
  case Nil
  then show ?case by (auto simp: candidate_of_def same_books_def)
next
  case (Cons m models)
  let ?q = "for_candidate sv p m"
  obtain r s1 where r: "attempt_upstream ap ?q request s = (Inr r, s1)"
    using Cons.prems by (cases "fst (attempt_upstream ap ?q request s)") (auto simp: bindS_def split: prod.splits)
  have s1: "same_books s s1" by (rule keeps_run [OF keeps_attempt r])
  show ?case
  proof (cases r)
    case (Inr response)
    then show ?thesis using Cons.prems r s1 attempt_has_choice [of ap ?q request s response s1]
      by (auto simp: bindS_def Let_def candidate_of_def)
  next
    case (Inl e)
    let ?chain = "chain @ [\<lparr>at_model = m, at_upstream = pr_upstream ?q, at_error = Some e\<rparr>]"
    have run: "seqS (note_request ctx m (ap_sub_latency_ms ap m) False) (try_candidates ap sv ctx request models ?chain ?q) s1 =
        (Inr (found, chain', q), s')"
      using Cons.prems r Inl by (simp add: bindS_def Let_def)
    then obtain s2 where s2: "note_request ctx m (ap_sub_latency_ms ap m) False s1 = (Inr (), s2)"
        "try_candidates ap sv ctx request models ?chain ?q s2 = (Inr (found, chain', q), s')"
      by (auto simp: seqS_def bindS_def split: prod.splits sum.splits)
    have "same_books s1 s2" by (rule keeps_run [OF keeps_note_request s2(1)])
    then show ?thesis using Cons.IH [OF s2(2)] s1 by (auto simp: candidate_of_def same_books_def split: option.splits)
  qed
qed

section \<open>How a completion ends\<close>

text \<open>One row is added, and everything is committed.\<close>

definition ends_with :: "chat_ctx \<Rightarrow> string set \<Rightarrow> chat_world \<Rightarrow> chat_world \<Rightarrow> bool" where
  "ends_with ctx statuses w w' \<longleftrightarrow>
     (\<exists>row. ad_audit (cw_db w') = ad_audit (cw_db w) @ [row] \<and> au_tenant row = gc_tenant ctx \<and> au_status row \<in> statuses \<and>
        cw_saved w' = (cw_db w', cw_bodies w'))"

lemma refused_ends: "refused_run ctx w (Inr (None, ing, err), w') \<Longrightarrow> has_text err \<and> ends_with ctx {''blocked''} w w'"
  by (auto simp: refused_run_def ends_with_def has_text_def neq_Nil_conv)

lemma ends_with_mono: "ends_with ctx A w w' \<Longrightarrow> A \<subseteq> B \<Longrightarrow> ends_with ctx B w w'"
  by (auto simp: ends_with_def)

lemma all_failed_run:
  "all_failed ap sv ctx request chain p s = (Inr (answer, ing, err), s') \<Longrightarrow>
   answer = None \<and> has_text err \<and> ends_with ctx {''review''} (fx_chat s) (fx_chat s') \<and> fx_usage s' = fx_usage s"
  by (auto simp: all_failed_def in_chat_def run_defs ends_with_def has_text_def)

text \<open>The text that is delivered for a text that was inspected.\<close>

definition answered_text :: "dlp_scan \<Rightarrow> inspection \<Rightarrow> string \<Rightarrow> string" where
  "answered_text dlp egress answer = (if has_text (effective_redacted dlp egress) then the (effective_redacted dlp egress) else answer)"

lemma redacted_response_facts:
  "co_choices r \<noteq> [] \<Longrightarrow> answer_text (redacted_response dlp egress r) = answered_text dlp egress (answer_text r) \<and>
     co_choices (redacted_response dlp egress r) \<noteq> [] \<and> co_usage (redacted_response dlp egress r) = co_usage r"
  by (cases "co_choices r"; cases "effective_redacted dlp egress"; cases "the (effective_redacted dlp egress)")
     (auto simp: redacted_response_def answered_text_def answer_text_def has_text_def)

lemma with_chain_fields [simp]:
  "co_choices (with_chain chain r) = co_choices r" "co_usage (with_chain chain r) = co_usage r" "co_model (with_chain chain r) = co_model r"
  "answer_text (with_chain chain r) = answer_text r"
  by (simp_all add: with_chain_def answer_text_def)

lemma with_trace_fields [simp]:
  "co_choices (with_trace t r) = co_choices r" "co_usage (with_trace t r) = co_usage r" "co_model (with_trace t r) = co_model r"
  "answer_text (with_trace t r) = answer_text r"
  by (simp_all add: with_trace_def answer_text_def)

lemma post_upstream_fields [simp]:
  "co_choices (run_uag_post_upstream c t r ms) = co_choices r" "co_usage (run_uag_post_upstream c t r ms) = co_usage r"
  "co_model (run_uag_post_upstream c t r ms) = cp_requested_model c" "answer_text (run_uag_post_upstream c t r ms) = answer_text r"
  by (simp_all add: run_uag_post_upstream_def attach_trace_def translate_response_def answer_text_def)

lemma client_reads_any:
  assumes "co_choices r \<noteq> []" "co_model r = client_model r c"
  shows "client_reads (normalize_client_protocol p) (JObj (serialize_gateway_response p r c m)) = answer_parts (co_model r) r"
proof -
  have "serialize_gateway_response p r c m = serialize_gateway_response (normalize_client_protocol p) r c m"
    by (simp add: serialize_gateway_response_def)
  then show ?thesis using client_reads_serialized [OF assms, of "normalize_client_protocol p" m] by simp
qed

text \<open>The counters that are charged: that of the key of the caller, if any, and that of the tenant.\<close>

definition charged :: "chat_ctx \<Rightarrow> string list" where
  "charged ctx =
     (if has_text (gc_client_api_key_id ctx) then [gc_tenant ctx @ '':key:'' @ the (gc_client_api_key_id ctx)] else []) @ [gc_tenant ctx]"

lemma count_usage_run:
  "count_usage tb ctx used s = (Inr u, s') \<Longrightarrow>
   fx_chat s' = fx_chat s \<and> (\<exists>us. fx_usage s' = fx_usage s @ us \<and> map tk_key us = charged ctx \<and> list_all (\<lambda>u. tk_used u = used) us)"
  by (cases "gc_client_api_key_id ctx"; cases "the (gc_client_api_key_id ctx)")
     (auto simp: count_usage_def bind_lift charged_def has_text_def)

text \<open>What was delivered for an answer: what the client reads is what the inspection allowed, and its tokens are charged.\<close>

definition delivered :: "chat_tables \<Rightarrow> chat_ctx \<Rightarrow> prepared_chat \<Rightarrow> json dict \<Rightarrow> token_usage list \<Rightarrow> bool" where
  "delivered tb ctx p d charges \<longleftrightarrow>
     (\<exists>answer dlp egress (usage :: chat_usage). inspect_answer tb ctx answer = Inr (dlp, egress) \<and> in_allowed egress \<and>
        client_reads (normalize_client_protocol (pr_client_protocol p)) (JObj d) =
          [JStr (cp_requested_model (pr_canonical p)), JStr (answered_text dlp egress answer), JInt (us_prompt_tokens usage),
           JInt (us_completion_tokens usage)] \<and>
        map tk_key charges = charged ctx \<and> list_all (\<lambda>u. tk_used u = us_total_tokens usage) charges)"

lemma delivered_candidate: "candidate_of p q \<Longrightarrow> delivered tb ctx q d us \<longleftrightarrow> delivered tb ctx p d us"
  by (simp add: delivered_def candidate_of_def)

lemma seq_run: "seqS m k s = (Inr y, s') \<longleftrightarrow> (\<exists>x s1. m s = (Inr x, s1) \<and> k s1 = (Inr y, s'))"
  by (cases "m s"; cases "fst (m s)") (auto simp: seqS_def bindS_def)

lemma egress_block_run:
  "egress_block ap sv ctx request p response egress s = (Inr (answer, ing, err), s') \<Longrightarrow>
   answer = None \<and> has_text err \<and> ends_with ctx {''blocked''} (fx_chat s) (fx_chat s') \<and> fx_usage s' = fx_usage s"
  by (auto simp: egress_block_def in_chat_def run_defs ends_with_def has_text_def)

lemma deliver_run:
  assumes "deliver ap sv tb ctx request debug chain p response dlp egress s = (Inr (answer, ing, err), s')"
    and "inspect_answer tb ctx (answer_text response) = Inr (dlp, egress)" "in_allowed egress" "co_choices response \<noteq> []"
  shows "\<exists>d us. answer = Some d \<and> err = None \<and> ing = Some (pr_ingress p) \<and> ends_with ctx {''allowed'', ''review''} (fx_chat s) (fx_chat s') \<and>
    fx_usage s' = fx_usage s @ us \<and> delivered tb ctx p d us"
proof -
  let ?final = "with_chain chain (with_trace (answered_trace ap p)
    (run_uag_post_upstream (pr_canonical p) (pr_trace p) (redacted_response dlp egress response) (ap_translation_ms ap)))"
  let ?d = "serialize_gateway_response (pr_client_protocol p) ?final (Some (pr_canonical p)) debug"
  let ?status = "if in_violations (pr_ingress p) \<noteq> [] then ''review'' else ''allowed''"
  note facts = redacted_response_facts [OF assms(4), of dlp egress]
  have reads: "client_reads (normalize_client_protocol (pr_client_protocol p)) (JObj ?d) = answer_parts (co_model ?final) ?final"
    by (rule client_reads_any) (simp_all add: facts client_model_def)
  obtain s1 s2 s3 where
    s1: "note_request ctx (pr_routed_model p) (ap_latency_ms ap) True s = (Inr (), s1)" and
    s2: "s2 = s1\<lparr>fx_events := fx_events s1 @ [translation_event_of ctx p (answered_trace ap p)]\<rparr>" and
    s3: "count_usage tb ctx (us_total_tokens (co_usage ?final)) s2 = (Inr (), s3)" and
    last: "in_chat (seqS (write_audit ctx (sv_trace_id sv) ''LLM Request'' (chat_resource (pr_routed_model p)) ?status (in_risk (pr_ingress p))
             (answer_details p (answered_trace ap p) chain)
             (usage_metadata ap ctx p request (us_prompt_tokens (co_usage ?final)) (us_completion_tokens (co_usage ?final))
                (us_total_tokens (co_usage ?final)))
             (Some (Some request, Some (Whole ?final), \<lparr>ge_ingress = Some (pr_ingress p), ge_egress = Some egress, ge_classifier = Some (pr_verdict p)\<rparr>)))
           (seqS commit (returnS (Some ?d, Some (pr_ingress p), None)))) s3 = (Inr (answer, ing, err), s')"
    using assms(1) unfolding deliver_def Let_def seq_run modifyS_apply by auto
  have "same_books s s1" by (rule keeps_run [OF keeps_note_request s1])
  moreover note count_usage_run [OF s3]
  moreover have "answer = Some ?d \<and> err = None \<and> ing = Some (pr_ingress p) \<and> ends_with ctx {''allowed'', ''review''} (fx_chat s3) (fx_chat s') \<and>
      fx_usage s' = fx_usage s3"
    using last by (auto simp: in_chat_def run_defs ends_with_def)
  moreover have "delivered tb ctx p ?d us" if "map tk_key us = charged ctx" "list_all (\<lambda>u. tk_used u = us_total_tokens (co_usage ?final)) us" for us
    unfolding delivered_def reads answer_parts_def using that assms(2,3) facts by auto
  ultimately show ?thesis by (auto simp: s2 same_books_def)
qed

lemma answer_request_run:
  assumes "answer_request ap sv tb ctx request debug chain p response s = (Inr (answer, ing, err), s')" "co_choices response \<noteq> []"
  shows "case answer of
      None \<Rightarrow> has_text err \<and> ends_with ctx {''blocked''} (fx_chat s) (fx_chat s') \<and> fx_usage s' = fx_usage s
    | Some d \<Rightarrow> err = None \<and> ing = Some (pr_ingress p) \<and> ends_with ctx {''allowed'', ''review''} (fx_chat s) (fx_chat s') \<and>
        (\<exists>us. fx_usage s' = fx_usage s @ us \<and> delivered tb ctx p d us)"
proof -
  obtain s1 dlp egress where
    s1: "in_chat (latency_alert ap ctx p) s = (Inr (), s1)" and
    inspection: "inspect_answer tb ctx (answer_text response) = Inr (dlp, egress)" and
    ends: "(if \<not> in_allowed egress then egress_block ap sv ctx request p response egress
        else deliver ap sv tb ctx request debug chain p response dlp egress) s1 = (Inr (answer, ing, err), s')"
    using assms(1) unfolding answer_request_def seq_run bind_lift by auto
  have alert: "ad_audit (cw_db (fx_chat s1)) = ad_audit (cw_db (fx_chat s))" "fx_usage s1 = fx_usage s"
    using s1 by (auto simp: in_chat_def latency_alert_def run_defs split: if_splits)
  then have same: "ends_with ctx A (fx_chat s1) w = ends_with ctx A (fx_chat s) w" for A w by (simp add: ends_with_def)
  show ?thesis
  proof (cases "in_allowed egress")
    case True
    then have "deliver ap sv tb ctx request debug chain p response dlp egress s1 = (Inr (answer, ing, err), s')" using ends by simp
    from deliver_run [OF this inspection True assms(2)] show ?thesis unfolding same alert by auto
  next
    case False
    then have "egress_block ap sv ctx request p response egress s1 = (Inr (answer, ing, err), s')" using ends by simp
    from egress_block_run [OF this] show ?thesis unfolding same alert by auto
  qed
qed

lemma complete_prepared_run:
  assumes "complete_prepared ap sv tb ctx request debug p s = (Inr (answer, ing, err), s')"
  shows "case answer of
      None \<Rightarrow> has_text err \<and> ends_with ctx {''blocked'', ''review''} (fx_chat s) (fx_chat s') \<and> fx_usage s' = fx_usage s
    | Some d \<Rightarrow> err = None \<and> ing = Some (pr_ingress p) \<and> ends_with ctx {''allowed'', ''review''} (fx_chat s) (fx_chat s') \<and>
        (\<exists>us. fx_usage s' = fx_usage s @ us \<and> delivered tb ctx p d us)"
proof -
  obtain candidates found chain q s1 where
    tried: "try_candidates ap sv ctx request candidates [] p (s\<lparr>fx_messages := pr_messages p\<rparr>) = (Inr (found, chain, q), s1)" and
    ends: "(case found of None \<Rightarrow> all_failed ap sv ctx request chain q
        | Some response \<Rightarrow> answer_request ap sv tb ctx request debug chain q response) s1 = (Inr (answer, ing, err), s')"
    using assms unfolding complete_prepared_def bind_lift seq_run modifyS_apply bindS_eq_Inr by fastforce
  note facts = try_candidates_run [OF tried]
  have same: "fx_chat s1 = fx_chat s" "fx_usage s1 = fx_usage s" "candidate_of p q" using facts by (simp_all add: same_books_def)
  show ?thesis
  proof (cases found)
    case None
    then have "all_failed ap sv ctx request chain q s1 = (Inr (answer, ing, err), s')" using ends by simp
    from all_failed_run [OF this] show ?thesis unfolding same by (auto intro: ends_with_mono)
  next
    case (Some response)
    then have run: "answer_request ap sv tb ctx request debug chain q response s1 = (Inr (answer, ing, err), s')"
      and "co_choices response \<noteq> []" using ends facts by simp_all
    from answer_request_run [OF this] show ?thesis
      using same(3) unfolding same delivered_candidate [OF same(3)]
      by (auto simp: candidate_of_def intro: ends_with_mono split: option.splits)
  qed
qed

section \<open>Property\<close>


section \<open>An example\<close>

definition plain_apis :: "unit model_apis" where
  "plain_apis =
     \<lparr>ap_post = (\<lambda>url headers payload w. (Inr (JObj [(''choices'', JArr [JObj [(''message'', JObj [(''content'', JStr [])])]]),
        (''usage'', JObj [(''total_tokens'', JInt 7)])]), w)),
      ap_gemini = (\<lambda>model messages key temperature w. (Inl (HTTPError ''down''), w)),
      ap_invoke = (\<lambda>server tool args token w. (Inr \<lparr>iv_ok = False, iv_result = JNull, iv_message = ''none''\<rparr>, w)),
      ap_completion_id = ''chatcmpl-1'', ap_now = 0, ap_latency_ms = 5, ap_sub_latency_ms = (\<lambda>_. 5), ap_translation_ms = 0,
      ap_external_subject = (\<lambda>_. None), ap_verdict_json = (\<lambda>_. JNull), ap_savings_json = (\<lambda>_. JNull)\<rparr>"

definition before :: "unit completion" where
  "before = \<lparr>fx_chat = empty_world, fx_providers = [], fx_events = [], fx_usage = [], fx_messages = [], fx_outside = ()\<rparr>"

text \<open>How a request is answered.\<close>

lemma answers:
  assumes "prepare_chat_request sv tb ctx request ua (fx_chat s) = (Inr (Some p, Some i, None), w1)"
    and "resolve_failover_candidates (rt_groups (ct_routing tb)) (gc_tenant ctx)
      (BackendRouting.decide (pr_routed_model p) (pr_matched_rule p) (pr_strategy p)) = Inr [m]"
    and "attempt_upstream ap (for_candidate sv p m) request (s\<lparr>fx_chat := w1, fx_messages := pr_messages p\<rparr>) = (Inr (Inr r), s1)"
    and "ap_latency_ms ap < LATENCY_ALERT_THRESHOLD_MS" "inspect_answer tb ctx (answer_text r) = Inr (dlp, egress)" "in_allowed egress"
    and "record_provider_request (fx_providers s1) (gc_tenant ctx) m (ap_latency_ms ap) True = Inr ps"
    and "scalar_one_or_none (filter (\<lambda>t. te_id t = gc_tenant ctx) (ct_tenants tb)) = Inr (Some t)"
  shows "\<exists>d ing s'. process_chat_completion ap sv tb ctx request ua debug s = (Inr (Some d, ing, None), s')"
  using assms
  by (simp add: process_chat_completion_def in_chat_def complete_prepared_def answer_request_def latency_alert_def deliver_def
      note_request_def count_usage_def write_audit_def commit_def bindS_def seqS_def has_text_def Let_def split: prod.split)

lemma plain_answer:
  assumes "cf_openai_api_key (pr_config p) = Some ''k''" "cf_gemini_api_key (pr_config p) = None" "pr_bearer_token p = None"
  shows "\<exists>r s1. attempt_upstream plain_apis (for_candidate sv p m) request s = (Inr (Inr r), s1) \<and> answer_text r = [] \<and>
    fx_providers s1 = fx_providers s"
proof -
  have q: "pr_upstream (for_candidate sv p m) = ''openai''" "pr_bearer_token (for_candidate sv p m) = None"
    using assms by (simp_all add: for_candidate_def Let_def coerce_upstream_def resolve_upstream_def has_text_def)
  show ?thesis using assms q
    by (simp add: attempt_upstream_def execute_upstream_def upstream_with_tools_def tool_ops_of_def call_upstream_raw_def at_outside_def
        plain_apis_def resolve_openai_api_key_def has_text_def Let_def answer_model_def read_answer_def json_get_or_def dict_get_def dict_get_def
        MAX_MCP_TOOL_ITERATIONS_def wants_tools_def response_of_def usage_of_def text_field_def int_field_def or_json_def answer_text_def
        bare_message_def tryS_def bindS_def seqS_def numeral_eq_Suc)
qed

text \<open>Requests and answers are inspected alike.\<close>

lemma inspected_alike:
  assumes "inspected sv tb ctx content w = (Inr (dlp, ingress), w')"
  shows "\<exists>i. inspect_answer tb ctx content = Inr (dlp, i) \<and> in_allowed i = in_allowed ingress"
proof -
  note facts = inspected_run [OF assms]
  obtain b where b: "load_bundle (ct_bundles tb) (gc_policy_bundle_id ctx) = Inr b"
    using assms by (cases "load_bundle (ct_bundles tb) (gc_policy_bundle_id ctx)") (simp_all add: inspected_def bindS_def)
  show ?thesis using assms facts b
    by (cases "inspect_for_gateway (policy_tables tb) (gc_tenant ctx) b (policy_text ctx content)
         (Some [(''has_pii'', JBool (dl_has_pii dlp)), (''region'', JStr (dl_region dlp))])")
       (auto simp: inspected_def inspect_answer_def bindS_def policy_text_def run_defs after_dlp_def Let_def split: if_splits)
qed

lemma plain_inspection: "\<exists>dlp egress. inspect_answer plain_tables plain_ctx [] = Inr (dlp, egress) \<and> in_allowed egress"
proof -
  obtain dlp i w1 where "inspected plain_services plain_tables plain_ctx [] empty_world = (Inr (dlp, i), w1)" "in_allowed i"
    using plain_steps(4) by (cases "inspected plain_services plain_tables plain_ctx [] empty_world") (auto split: sum.splits)
  from inspected_alike [OF this(1)] this(2) show ?thesis by auto
qed


end
