(* ===== verification/BackendStream.thy ===== *)
theory BackendStream
  imports BackendComplete
begin

text \<open>
  Answers that are streamed, \<open>stream_chat_completion\<close> of \<open>gateway_service.py\<close>: each part of the answer goes out as it comes, the
  inspection follows.  The lines a provider sends, with the exception that ends them, are parameters, and so is the
  number of parts the client waits for; the exception that ends an abandoned generator is written as a \<open>RuntimeError\<close>.
\<close>

section \<open>State and parameters\<close>

record 'w streaming =
  sm_completion :: "'w completion"
  sm_sent :: "string list"

record 'w stream_apis =
  sa_apis :: "'w model_apis"
  sa_lines :: "string \<Rightarrow> (string \<times> string) list \<Rightarrow> json \<Rightarrow> ('w, string list \<times> py_error option) eff"
  sa_gemini :: "string \<Rightarrow> chat_message list \<Rightarrow> string \<Rightarrow> json \<Rightarrow> ('w, string list \<times> py_error option) eff"
  sa_patience :: nat

definition in_completion :: "('w completion, 'a) eff \<Rightarrow> ('w streaming, 'a) eff" where
  "in_completion m s = (case m (sm_completion s) of (r, c) \<Rightarrow> (r, s\<lparr>sm_completion := c\<rparr>))"

definition send :: "'w stream_apis \<Rightarrow> string \<Rightarrow> ('w streaming, unit) eff" where
  "send sa part =
     bindS (getS sm_sent)
       (\<lambda>sent. if length sent < sa_patience sa then modifyS (\<lambda>s. s\<lparr>sm_sent := sent @ [part]\<rparr>)
          else raiseS (RuntimeError ''GeneratorExit''))"

section \<open>The parts of an answer\<close>

definition event_text :: "string \<Rightarrow> string" where
  "event_text data = ''data: '' @ data @ [newline, newline]"

definition chunk_payload :: "int \<Rightarrow> string \<Rightarrow> string \<Rightarrow> json option \<Rightarrow> string option \<Rightarrow> bool \<Rightarrow> string" where
  "chunk_payload now completion_id model content role finish =
     event_text (dumps (JObj [(''id'', JStr completion_id), (''object'', JStr ''chat.completion.chunk''), (''created'', JInt now),
       (''model'', JStr model),
       (''choices'', JArr [JObj [(''index'', JInt 0),
          (''delta'', JObj (text_entry ''role'' role @ some_entry ''content'' content)),
          (''finish_reason'', if finish then JStr ''stop'' else JNull)]])]))"

definition done_event :: string where
  "done_event = event_text ''[DONE]''"

definition stream_chunk :: "'w stream_apis \<Rightarrow> string \<Rightarrow> json \<Rightarrow> string" where
  "stream_chunk sa model content = chunk_payload (ap_now (sa_apis sa)) (ap_completion_id (sa_apis sa)) model (Some content) None False"

definition delta_content :: "string \<Rightarrow> json result" where
  "delta_content data =
     (case loads data of
        None \<Rightarrow> Inl (ValueError ''JSONDecodeError'')
      | Some event \<Rightarrow>
          bindE (json_get_or event ''choices'' (JArr [JObj []]))
            (\<lambda>choices. bindE (case choices of JArr (c # _) \<Rightarrow> Inr c | JArr [] \<Rightarrow> Inl (IndexError ''list index out of range'')
                               | JStr (c # _) \<Rightarrow> Inr (JStr [c]) | JStr [] \<Rightarrow> Inl (IndexError ''string index out of range'')
                               | JObj _ \<Rightarrow> Inl (KeyError ''0'') | _ \<Rightarrow> Inl (TypeError ''not subscriptable''))
              (\<lambda>choice. bindE (json_get_or choice ''delta'' (JObj [])) (\<lambda>delta. json_get_or delta ''content'' JNull))))"

definition ended :: "py_error option \<Rightarrow> 'a \<Rightarrow> ('s, 'a) eff" where
  "ended err x = (case err of None \<Rightarrow> returnS x | Some e \<Rightarrow> raiseS e)"

text \<open>The lines of a provider are passed on until \<open>[DONE]\<close>.\<close>

fun relay_lines :: "'w stream_apis \<Rightarrow> string \<Rightarrow> py_error option \<Rightarrow> json list \<Rightarrow> string list \<Rightarrow> ('w streaming, json list) eff" where
  "relay_lines sa model err full [] = ended err full"
| "relay_lines sa model err full (line # ls) =
     (if \<not> startswith line ''data: '' then relay_lines sa model err full ls
      else
        let data = strip (drop 6 line) in
        if data = ''[DONE]'' then returnS full
        else
          bindS (liftS (delta_content data))
            (\<lambda>content.
               if truthy content
               then seqS (send sa (stream_chunk sa model content)) (relay_lines sa model err (full @ [content]) ls)
               else relay_lines sa model err full ls))"

fun relay_texts :: "'w stream_apis \<Rightarrow> string \<Rightarrow> py_error option \<Rightarrow> json list \<Rightarrow> string list \<Rightarrow> ('w streaming, json list) eff" where
  "relay_texts sa model err full [] = ended err full"
| "relay_texts sa model err full (t # ts) =
     seqS (send sa (stream_chunk sa model (JStr t))) (relay_texts sa model err (full @ [JStr t]) ts)"

definition stream_model :: "prepared_chat \<Rightarrow> string" where
  "stream_model p =
     (case pr_gemini_model p of Some (c # g) \<Rightarrow> c # g
      | _ \<Rightarrow> (case pr_ollama_model p of Some (c # m) \<Rightarrow> c # m | _ \<Rightarrow> pr_routed_model p))"

definition stream_pieces :: "'w stream_apis \<Rightarrow> prepared_chat \<Rightarrow> chat_request \<Rightarrow> ('w streaming, json list) eff" where
  "stream_pieces sa p request =
     (let key = resolve_openai_api_key (pr_bearer_token p) (pr_config p) in
      if pr_upstream p = ''openai'' \<and> has_text key then
        bindS (in_completion (at_outside (sa_lines sa (openai_url (cf_openai_api_base (pr_config p))) [(''Authorization'', ''Bearer '' @ the key)]
            (chat_payload (pr_routed_model p) (pr_messages p) (cr_temperature request) True (pr_tools_payload p)))))
          (\<lambda>(ls, err). relay_lines sa (stream_model p) err [] ls)
      else if pr_upstream p = ''gemini'' \<and> has_text (cf_gemini_api_key (pr_config p)) \<and> has_text (pr_gemini_model p) then
        bindS (in_completion (at_outside (sa_gemini sa (the (pr_gemini_model p)) (pr_messages p) (the (cf_gemini_api_key (pr_config p)))
            (cr_temperature request))))
          (\<lambda>(ts, err). relay_texts sa (the (pr_gemini_model p)) err [] ts)
      else if pr_upstream p = ''ollama'' \<and> has_text (pr_ollama_model p) then
        bindS (in_completion (at_outside (sa_lines sa (rstrip_chars ''/'' (cf_ollama_base_url (pr_config p)) @ ''/v1/chat/completions'') []
            (chat_payload (the (pr_ollama_model p)) (pr_messages p) (cr_temperature request) True (pr_tools_payload p)))))
          (\<lambda>(ls, err). relay_lines sa (the (pr_ollama_model p)) err [] ls)
      else relay_texts sa (stream_model p) None [] (map (\<lambda>word. word @ '' '') (split_char CHR '' '' (mock_reply p))))"

section \<open>What follows the answer\<close>

fun join_pieces :: "json list \<Rightarrow> string result" where
  "join_pieces [] = Inr []"
| "join_pieces (JStr s # js) = bindE (join_pieces js) (\<lambda>t. Inr (s @ t))"
| "join_pieces (_ # js) = Inl (TypeError ''sequence item: expected str instance'')"

definition stream_status :: "dlp_scan \<Rightarrow> inspection \<Rightarrow> string" where
  "stream_status dlp egress =
     (if \<not> in_allowed egress then ''blocked'' else if in_violations egress \<noteq> [] \<or> dl_has_pii dlp then ''review'' else ''allowed'')"

definition stream_details :: "prepared_chat \<Rightarrow> dlp_scan \<Rightarrow> inspection \<Rightarrow> string" where
  "stream_details p dlp egress =
     routing_audit_prefix p @ ''Streamed to '' @ stream_model p @ '' via '' @ pr_upstream p @
     (if in_violations egress \<noteq> [] then ''; '' @ show_nat (length (in_violations egress)) @ '' egress rule violation(s)'' else []) @
     (if dl_has_pii dlp then ''; PII detected in output ('' @ join '', '' (dl_classifications dlp) @ '')'' else [])"

definition stream_usage :: "prepared_chat \<Rightarrow> string \<Rightarrow> chat_usage" where
  "stream_usage p answer =
     \<lparr>us_prompt_tokens = estimate_tokens (pr_combined p), us_completion_tokens = estimate_tokens answer,
      us_total_tokens = estimate_tokens (pr_combined p) + estimate_tokens answer\<rparr>"

definition stream_latency_alert :: "'w model_apis \<Rightarrow> chat_ctx \<Rightarrow> prepared_chat \<Rightarrow> unit chat" where
  "stream_latency_alert ap ctx p =
     (if LATENCY_ALERT_THRESHOLD_MS \<le> ap_latency_ms ap
      then dispatch_alert ctx ''gateway.latency.high'' (chat_resource (pr_routed_model p)) ''review'' ''medium''
        (''LLM latency '' @ show_int (ap_latency_ms ap) @ ''ms exceeded '' @ show_int LATENCY_ALERT_THRESHOLD_MS @ ''ms threshold (streamed)'')
      else returnS ())"

text \<open>The text that is logged is the one that was inspected.\<close>

definition record_stream ::
  "'w model_apis \<Rightarrow> chat_services \<Rightarrow> chat_ctx \<Rightarrow> chat_request \<Rightarrow> prepared_chat \<Rightarrow> string \<Rightarrow> dlp_scan \<Rightarrow> inspection \<Rightarrow> unit chat" where
  "record_stream ap sv ctx request p answer dlp egress =
     (let usage = stream_usage p answer in
      seqS (if \<not> in_allowed egress
          then dispatch_block_alert ctx ''LLM Response'' (chat_resource (pr_routed_model p)) (in_risk egress)
            ''Output blocked by egress policy (streamed)'' False
          else returnS ())
        (seqS (write_audit ctx (sv_trace_id sv) (if \<not> in_allowed egress then ''LLM Response'' else ''LLM Request'')
             (chat_resource (pr_routed_model p)) (stream_status dlp egress)
             (if in_risk egress \<noteq> ''low'' then in_risk egress else in_risk (pr_ingress p)) (stream_details p dlp egress)
             (usage_metadata ap ctx p request (us_prompt_tokens usage) (us_completion_tokens usage) (us_total_tokens usage))
             (Some (Some request,
                Some (Streamed (pr_routed_model p) (if has_text (dl_redacted_content dlp) then the (dl_redacted_content dlp) else answer) usage),
                \<lparr>ge_ingress = Some (pr_ingress p), ge_egress = Some egress, ge_classifier = Some (pr_verdict p)\<rparr>)))
          commit))"

definition inspect_stream ::
  "'w model_apis \<Rightarrow> chat_tables \<Rightarrow> chat_ctx \<Rightarrow> prepared_chat \<Rightarrow> json list \<Rightarrow> ('w completion, string \<times> dlp_scan \<times> inspection) eff" where
  "inspect_stream ap tb ctx p pieces =
     seqS (in_chat (stream_latency_alert ap ctx p))
       (bindS (liftS (join_pieces pieces))
         (\<lambda>answer. seqS (note_request ctx (pr_routed_model p) (ap_latency_ms ap) True)
           (seqS (count_usage tb ctx (us_total_tokens (stream_usage p answer)))
             (bindS (liftS (inspect_answer tb ctx answer)) (\<lambda>(dlp, egress). returnS (answer, dlp, egress))))))"

definition finish_stream ::
  "'w model_apis \<Rightarrow> chat_services \<Rightarrow> chat_tables \<Rightarrow> chat_ctx \<Rightarrow> chat_request \<Rightarrow> prepared_chat \<Rightarrow> json list \<Rightarrow> ('w completion, unit) eff" where
  "finish_stream ap sv tb ctx request p pieces =
     bindS (inspect_stream ap tb ctx p pieces)
       (\<lambda>(answer, dlp, egress). in_chat (record_stream ap sv ctx request p answer dlp egress))"

definition stream_failed ::
  "'w stream_apis \<Rightarrow> chat_services \<Rightarrow> chat_ctx \<Rightarrow> chat_request \<Rightarrow> prepared_chat \<Rightarrow> string \<Rightarrow> ('w streaming, unit) eff" where
  "stream_failed sa sv ctx request p message =
     seqS (send sa (event_text (dumps (JObj [(''error'',
          JObj [(''message'', JStr message), (''type'', JStr ''upstream_error''), (''code'', JStr ''stream_failed'')])]))))
       (seqS (send sa done_event)
         (in_completion
           (seqS (note_request ctx (pr_routed_model p) (ap_latency_ms (sa_apis sa)) False)
             (in_chat
               (seqS (write_audit ctx (sv_trace_id sv) ''LLM Request'' (chat_resource (pr_routed_model p)) ''review'' ''medium''
                    (routing_audit_prefix p @ message) (usage_metadata (sa_apis sa) ctx p request 0 0 0) None)
                 (seqS commit
                   (dispatch_alert ctx ''gateway.upstream.outage'' (chat_resource (pr_routed_model p)) ''review'' ''high''
                     (''Upstream provider error during streaming: '' @ message))))))))"

definition stream_answer ::
  "'w stream_apis \<Rightarrow> chat_services \<Rightarrow> chat_tables \<Rightarrow> chat_ctx \<Rightarrow> chat_request \<Rightarrow> prepared_chat \<Rightarrow> ('w streaming, unit) eff" where
  "stream_answer sa sv tb ctx request p =
     bindS (stream_pieces sa p request)
       (\<lambda>pieces. seqS (send sa (chunk_payload (ap_now (sa_apis sa)) (ap_completion_id (sa_apis sa)) (stream_model p) None None True))
         (seqS (send sa done_event) (in_completion (finish_stream (sa_apis sa) sv tb ctx request p pieces))))"

definition stream_chat_completion ::
  "'w stream_apis \<Rightarrow> chat_services \<Rightarrow> chat_tables \<Rightarrow> chat_ctx \<Rightarrow> chat_request \<Rightarrow> prepared_chat \<Rightarrow> ('w streaming, unit) eff" where
  "stream_chat_completion sa sv tb ctx request p =
     seqS (send sa (chunk_payload (ap_now (sa_apis sa)) (ap_completion_id (sa_apis sa)) (stream_model p) None (Some ''assistant'') False))
       (tryS (stream_answer sa sv tb ctx request p) (\<lambda>e. map_option (stream_failed sa sv ctx request p) (provider_failure e)))"

end
