(* ===== verification/BackendStreamFacts.thy ===== *)
theory BackendStreamFacts
  imports BackendStream BackendCompleteFacts
begin

text \<open>
  What a stream guarantees: a stream that ends is recorded with the inspection of exactly the text that was sent, one that is
  abandoned leaves no trace.
\<close>

section \<open>Before the last part is sent\<close>

text \<open>Nothing but sending happens before the end is announced.\<close>

definition books_open :: "'w streaming \<Rightarrow> 'w streaming \<Rightarrow> bool" where
  "books_open s t \<longleftrightarrow> set (sm_sent s) \<subseteq> set (sm_sent t) \<and>
     (done_event \<in> set (sm_sent t) \<or> same_books (sm_completion s) (sm_completion t))"

lemma books_open_preorder [simp]: "reflp books_open" "transp books_open"
proof -
  show "reflp books_open" by (simp add: reflp_def books_open_def same_books_def)
  show "transp books_open" by (rule transpI, unfold books_open_def same_books_def) (metis order_trans subsetD)
qed

lemma keeps_send: "keeps books_open (send sa part)"
  by (auto simp: keeps_def send_def bindS_def books_open_def same_books_def)

lemma keeps_outside_stream: "keeps books_open (in_completion (at_outside m))"
  by (auto simp: keeps_def in_completion_def at_outside_def books_open_def same_books_def split: prod.split)

lemma keeps_ended: "keeps books_open (ended err x)"
  by (auto simp: ended_def split: option.split intro!: keeps_return keeps_raise)

lemma keeps_relay_lines: "keeps books_open (relay_lines sa model err full ls)"
proof (induction ls arbitrary: full)
  case (Cons l ls)
  show ?case unfolding relay_lines.simps Let_def
    by (intro keeps_if keeps_bind keeps_seq keeps_return keeps_lift keeps_send Cons.IH books_open_preorder)
qed (simp add: keeps_ended)

lemma keeps_relay_texts: "keeps books_open (relay_texts sa model err full ts)"
proof (induction ts arbitrary: full)
  case (Cons t ts)
  show ?case unfolding relay_texts.simps by (intro keeps_seq keeps_send Cons.IH books_open_preorder)
qed (simp add: keeps_ended)

lemma keeps_stream_pieces: "keeps books_open (stream_pieces sa p request)"
  unfolding stream_pieces_def Let_def
  by (intro keeps_if keeps_bind keeps_split keeps_outside_stream keeps_relay_lines keeps_relay_texts books_open_preorder)

lemma keeps_after_done: "keeps books_open (seqS (send sa done_event) (in_completion m))"
  by (auto simp: keeps_def send_def in_completion_def seqS_def bindS_def books_open_def same_books_def split: prod.split sum.split)

lemma keeps_stream: "keeps books_open (stream_chat_completion sa sv tb ctx request p)"
proof -
  have "keeps books_open (stream_failed sa sv ctx request p m)" for m
    unfolding stream_failed_def by (rule keeps_seq [OF books_open_preorder(2) keeps_send keeps_after_done])
  moreover have "keeps books_open (stream_answer sa sv tb ctx request p)"
    unfolding stream_answer_def
    by (intro keeps_bind keeps_stream_pieces keeps_seq [OF books_open_preorder(2) keeps_send keeps_after_done] books_open_preorder)
  ultimately show ?thesis unfolding stream_chat_completion_def
    by (intro keeps_seq keeps_send keeps_try books_open_preorder) (auto simp: provider_failure_def)
qed

section \<open>The text that was sent\<close>

definition content_chunks :: "'w stream_apis \<Rightarrow> string \<Rightarrow> json list \<Rightarrow> string list" where
  "content_chunks sa model pieces = map (stream_chunk sa model) pieces"

lemma send_run: "send sa part s = (Inr u, t) \<Longrightarrow> t = s\<lparr>sm_sent := sm_sent s @ [part]\<rparr>"
  by (auto simp: send_def bindS_def split: if_splits)

lemma relay_lines_run:
  "relay_lines sa model err full ls s = (Inr pieces, t) \<Longrightarrow>
   \<exists>new. pieces = full @ new \<and> t = s\<lparr>sm_sent := sm_sent s @ content_chunks sa model new\<rparr>"
proof (induction ls arbitrary: full s)
  case Nil
  then show ?case by (auto simp: ended_def content_chunks_def split: option.splits)
next
  case (Cons l ls)
  show ?case
  proof (cases "startswith l ''data: '' \<and> strip (drop 6 l) \<noteq> ''[DONE]''")
    case False
    then show ?thesis using Cons by (auto simp: Let_def content_chunks_def split: if_splits)
  next
    case True
    then obtain content where content: "delta_content (strip (drop 6 l)) = Inr content"
      "(if truthy content then seqS (send sa (stream_chunk sa model content)) (relay_lines sa model err (full @ [content]) ls)
        else relay_lines sa model err full ls) s = (Inr pieces, t)"
      using Cons.prems unfolding relay_lines.simps Let_def by (auto simp: bind_lift split: if_splits)
    show ?thesis
    proof (cases "truthy content")
      case False
      then show ?thesis using content(2) Cons.IH by simp
    next
      case True
      then obtain s1 where s1: "send sa (stream_chunk sa model content) s = (Inr (), s1)"
        "relay_lines sa model err (full @ [content]) ls s1 = (Inr pieces, t)"
        using content(2) unfolding seq_run if_P [OF True] by auto
      from Cons.IH [OF s1(2)] obtain new where
        "pieces = (full @ [content]) @ new" "t = s1\<lparr>sm_sent := sm_sent s1 @ content_chunks sa model new\<rparr>" by blast
      then show ?thesis using send_run [OF s1(1)] by (intro exI [of _ "content # new"]) (simp add: content_chunks_def)
    qed
  qed
qed

lemma relay_texts_run:
  "relay_texts sa model err full ts s = (Inr pieces, t) \<Longrightarrow>
   \<exists>new. pieces = full @ new \<and> t = s\<lparr>sm_sent := sm_sent s @ content_chunks sa model new\<rparr>"
proof (induction ts arbitrary: full s)
  case Nil
  then show ?case by (auto simp: ended_def content_chunks_def split: option.splits)
next
  case (Cons x ts)
  then obtain s1 where s1: "send sa (stream_chunk sa model (JStr x)) s = (Inr (), s1)"
    "relay_texts sa model err (full @ [JStr x]) ts s1 = (Inr pieces, t)"
    unfolding relay_texts.simps seq_run by auto
  from Cons.IH [OF s1(2)] obtain new where
    "pieces = (full @ [JStr x]) @ new" "t = s1\<lparr>sm_sent := sm_sent s1 @ content_chunks sa model new\<rparr>" by blast
  then show ?case using send_run [OF s1(1)] by (intro exI [of _ "JStr x # new"]) (simp add: content_chunks_def)
qed

lemma outside_run:
  "in_completion (at_outside m) s = (Inr x, t) \<Longrightarrow> sm_sent t = sm_sent s \<and> same_books (sm_completion s) (sm_completion t)"
  by (auto simp: in_completion_def at_outside_def same_books_def split: prod.splits)

lemma stream_pieces_run:
  assumes "stream_pieces sa p request s = (Inr pieces, t)"
  shows "same_books (sm_completion s) (sm_completion t) \<and> (\<exists>model. sm_sent t = sm_sent s @ content_chunks sa model pieces)"
  using assms unfolding stream_pieces_def Let_def
  by (auto simp: bindS_eq_Inr same_books_def split: if_splits dest!: outside_run relay_lines_run relay_texts_run)

lemma join_pieces_texts: "join_pieces pieces = Inr answer \<longleftrightarrow> (\<exists>ts. pieces = map JStr ts \<and> answer = concat ts)"
proof (induction pieces arbitrary: answer)
  case (Cons j js)
  then show ?case by (cases j) (auto simp: bindE_eq_Inr_iff Cons_eq_map_conv)
qed auto

section \<open>The end of a stream\<close>

definition same_audit :: "'w streaming \<Rightarrow> 'w streaming \<Rightarrow> bool" where
  "same_audit s t \<longleftrightarrow> ad_audit (cw_db (fx_chat (sm_completion t))) = ad_audit (cw_db (fx_chat (sm_completion s)))"

lemma same_audit_preorder [simp]: "reflp same_audit" "transp same_audit"
  by (auto simp: same_audit_def intro!: reflpI transpI)

lemma books_audit: "same_books (sm_completion s) (sm_completion t) \<Longrightarrow> same_audit s t"
  by (simp add: same_books_def same_audit_def)

lemma keeps_audit:
  "keeps same_audit (send sa part)" "keeps same_audit (in_completion (at_outside m))" "keeps same_audit (ended err x)"
  by (auto simp: keeps_def send_def bindS_def same_audit_def in_completion_def at_outside_def ended_def split: prod.split option.split)

lemma keeps_audit_relay: "keeps same_audit (relay_lines sa model err full ls)" "keeps same_audit (relay_texts sa model err full ts)"
proof -
  show "keeps same_audit (relay_lines sa model err full ls)"
  proof (induction ls arbitrary: full)
    case (Cons l ls)
    show ?case unfolding relay_lines.simps Let_def
      by (intro keeps_if keeps_bind keeps_seq keeps_return keeps_lift keeps_audit Cons.IH same_audit_preorder)
  qed (simp add: keeps_audit)
  show "keeps same_audit (relay_texts sa model err full ts)"
  proof (induction ts arbitrary: full)
    case (Cons t ts)
    show ?case unfolding relay_texts.simps by (intro keeps_seq keeps_audit Cons.IH same_audit_preorder)
  qed (simp add: keeps_audit)
qed

lemma keeps_audit_pieces: "keeps same_audit (stream_pieces sa p request)"
  unfolding stream_pieces_def Let_def
  by (intro keeps_if keeps_bind keeps_split keeps_audit keeps_audit_relay same_audit_preorder)

text \<open>The inspection of a stream writes no row.\<close>

definition audit_kept :: "'w completion \<Rightarrow> 'w completion \<Rightarrow> bool" where
  "audit_kept s t \<longleftrightarrow> ad_audit (cw_db (fx_chat t)) = ad_audit (cw_db (fx_chat s))"

lemma keeps_inspect_stream: "keeps audit_kept (inspect_stream ap tb ctx p pieces)"
proof -
  have pre: "reflp audit_kept" "transp audit_kept" by (auto simp: audit_kept_def intro!: reflpI transpI)
  have "keeps audit_kept (in_chat (stream_latency_alert ap ctx p))"
    by (simp add: keeps_def in_chat_def stream_latency_alert_def dispatch_alert_def audit_kept_def)
  moreover have "keeps audit_kept (note_request ctx m l b)" for m l b
    unfolding keeps_def audit_kept_def using keepsD [OF keeps_note_request] by (metis same_books_def)
  moreover have "keeps audit_kept (count_usage tb ctx n)" for n
    unfolding count_usage_def by (intro keeps_bind keeps_lift keeps_modify pre) (simp add: audit_kept_def)
  ultimately show ?thesis
    unfolding inspect_stream_def by (intro keeps_bind keeps_seq keeps_lift keeps_split keeps_return pre)
qed

lemma inspect_stream_run:
  assumes "inspect_stream ap tb ctx p pieces s = (Inr (answer, dlp, egress), t)"
  shows "join_pieces pieces = Inr answer \<and> inspect_answer tb ctx answer = Inr (dlp, egress) \<and> audit_kept s t \<and>
    (\<exists>us. fx_usage t = fx_usage s @ us \<and> map tk_key us = charged ctx \<and>
       list_all (\<lambda>u. tk_used u = us_total_tokens (stream_usage p answer)) us)"
proof -
  obtain s1 s2 where
    s1: "in_chat (stream_latency_alert ap ctx p) s = (Inr (), s1)" and joined: "join_pieces pieces = Inr answer" and
    s2: "note_request ctx (pr_routed_model p) (ap_latency_ms ap) True s1 = (Inr (), s2)" and
    counted: "count_usage tb ctx (us_total_tokens (stream_usage p answer)) s2 = (Inr (), t)" and
    inspected: "inspect_answer tb ctx answer = Inr (dlp, egress)"
    using assms unfolding inspect_stream_def seq_run bind_lift by auto
  have "fx_usage s1 = fx_usage s"
    using s1 by (auto simp: in_chat_def stream_latency_alert_def dispatch_alert_def split: if_splits)
  moreover have "fx_usage s2 = fx_usage s1" using keeps_run [OF keeps_note_request s2] by (simp add: same_books_def)
  ultimately show ?thesis
    using joined inspected count_usage_run [OF counted] keeps_run [OF keeps_inspect_stream assms] by auto
qed

lemma record_stream_run:
  "\<exists>w'. record_stream ap sv ctx request p answer dlp egress w = (Inr (), w') \<and> ends_with ctx {stream_status dlp egress} w w'"
  by (cases "in_allowed egress") (simp_all add: record_stream_def run_defs ends_with_def stream_status_def Let_def)

lemma bind_raises: "bindS m f s = (Inl e, t) \<longleftrightarrow> m s = (Inl e, t) \<or> (\<exists>x s1. m s = (Inr x, s1) \<and> f x s1 = (Inl e, t))"
  by (cases "m s"; cases "fst (m s)") (auto simp: bindS_def)

lemma finish_stream_raises:
  assumes "in_completion (finish_stream ap sv tb ctx request p pieces) s = (Inl e, t)"
  shows "same_audit s t"
proof -
  obtain c where c: "finish_stream ap sv tb ctx request p pieces (sm_completion s) = (Inl e, c)" "sm_completion t = c"
    using assms by (auto simp: in_completion_def split: prod.splits)
  have "in_chat (record_stream ap sv ctx request p answer dlp egress) s1 \<noteq> (Inl e, c)" for answer dlp egress s1
    using record_stream_run [of ap sv ctx request p answer dlp egress "fx_chat s1"] by (auto simp: in_chat_def)
  then have "inspect_stream ap tb ctx p pieces (sm_completion s) = (Inl e, c)"
    using c(1) unfolding finish_stream_def bind_raises by auto
  from keeps_run [OF keeps_inspect_stream this] show ?thesis using c(2) by (simp add: audit_kept_def same_audit_def)
qed

lemma seq_raises: "seqS m k s = (Inl e, t) \<longleftrightarrow> m s = (Inl e, t) \<or> (\<exists>x s1. m s = (Inr x, s1) \<and> k s1 = (Inl e, t))"
  unfolding seqS_def bind_raises ..

lemma stream_answer_raises:
  assumes "stream_answer sa sv tb ctx request p s = (Inl e, t)"
  shows "same_audit s t"
  using assms unfolding stream_answer_def bind_raises seq_raises
  by (elim disjE exE conjE)
    (blast intro: transpD [OF same_audit_preorder(2)] keeps_run [OF keeps_audit_pieces] keeps_run [OF keeps_audit(1)] finish_stream_raises)+

text \<open>How a stream ends: with the parts of an answer that was inspected, or with a failure of the provider.\<close>

definition stream_start :: "'w stream_apis \<Rightarrow> prepared_chat \<Rightarrow> string" where
  "stream_start sa p = chunk_payload (ap_now (sa_apis sa)) (ap_completion_id (sa_apis sa)) (stream_model p) None (Some ''assistant'') False"

definition stream_end :: "'w stream_apis \<Rightarrow> prepared_chat \<Rightarrow> string" where
  "stream_end sa p = chunk_payload (ap_now (sa_apis sa)) (ap_completion_id (sa_apis sa)) (stream_model p) None None True"

definition stream_complete ::
  "'w stream_apis \<Rightarrow> chat_tables \<Rightarrow> chat_ctx \<Rightarrow> prepared_chat \<Rightarrow> 'w streaming \<Rightarrow> 'w streaming \<Rightarrow> bool" where
  "stream_complete sa tb ctx p s t \<longleftrightarrow>
     (\<exists>model texts dlp egress us.
        sm_sent t = sm_sent s @ map (stream_chunk sa model) (map JStr texts) @ [stream_end sa p, done_event] \<and>
        inspect_answer tb ctx (concat texts) = Inr (dlp, egress) \<and>
        ends_with ctx {stream_status dlp egress} (fx_chat (sm_completion s)) (fx_chat (sm_completion t)) \<and>
        fx_usage (sm_completion t) = fx_usage (sm_completion s) @ us \<and> map tk_key us = charged ctx \<and>
        list_all (\<lambda>u. tk_used u = us_total_tokens (stream_usage p (concat texts))) us)"

lemma stream_answer_run:
  assumes "stream_answer sa sv tb ctx request p s = (Inr u, t)"
  shows "stream_complete sa tb ctx p s t"
proof -
  obtain pieces s1 s2 s3 where
    s1: "stream_pieces sa p request s = (Inr pieces, s1)" and s2: "send sa (stream_end sa p) s1 = (Inr (), s2)" and
    s3: "send sa done_event s2 = (Inr (), s3)" and
    ends: "in_completion (finish_stream (sa_apis sa) sv tb ctx request p pieces) s3 = (Inr u, t)"
    using assms unfolding stream_answer_def stream_end_def bindS_eq_Inr seq_run by auto
  obtain c where c: "finish_stream (sa_apis sa) sv tb ctx request p pieces (sm_completion s3) = (Inr u, c)" "t = s3\<lparr>sm_completion := c\<rparr>"
    using ends by (auto simp: in_completion_def split: prod.splits)
  obtain answer dlp egress c1 where
    c1: "inspect_stream (sa_apis sa) tb ctx p pieces (sm_completion s3) = (Inr (answer, dlp, egress), c1)" and
    c2: "in_chat (record_stream (sa_apis sa) sv ctx request p answer dlp egress) c1 = (Inr u, c)"
    using c(1) unfolding finish_stream_def bindS_eq_Inr by auto
  note parts = stream_pieces_run [OF s1] and inspection = inspect_stream_run [OF c1]
  have sent: "s3 = s1\<lparr>sm_sent := sm_sent s1 @ [stream_end sa p, done_event]\<rparr>" using send_run [OF s2] send_run [OF s3] by simp
  obtain texts where texts: "pieces = map JStr texts" "answer = concat texts" using inspection by (auto simp: join_pieces_texts)
  have row: "ends_with ctx {stream_status dlp egress} (fx_chat c1) (fx_chat c)" "fx_usage c = fx_usage c1"
    using c2 record_stream_run [of "sa_apis sa" sv ctx request p answer dlp egress "fx_chat c1"] by (auto simp: in_chat_def split: prod.splits)
  have "ends_with ctx A (fx_chat c1) w = ends_with ctx A (fx_chat (sm_completion s)) w" for A w
    using inspection parts by (simp add: audit_kept_def ends_with_def same_books_def sent)
  then have written: "ends_with ctx {stream_status dlp egress} (fx_chat (sm_completion s)) (fx_chat c)" using row by simp
  obtain model where model: "sm_sent s1 = sm_sent s @ map (stream_chunk sa model) (map JStr texts)"
    using parts unfolding content_chunks_def texts(1) by blast
  obtain us where us: "fx_usage c = fx_usage (sm_completion s) @ us" "map tk_key us = charged ctx"
      "list_all (\<lambda>u. tk_used u = us_total_tokens (stream_usage p (concat texts))) us"
    using row(2) inspection parts texts(2) by (auto simp: sent same_books_def)
  show ?thesis unfolding stream_complete_def c(2)
    using written model us inspection texts(2)
    by (intro exI [of _ model] exI [of _ texts] exI [of _ dlp] exI [of _ egress] exI [of _ us]) (simp add: sent)
qed

lemma failure_row:
  "in_chat (seqS (write_audit ctx tr a rs ''review'' rk d us lg) (seqS commit (dispatch_alert ctx a' rs' st' rk' d'))) s = (Inr u, t) \<Longrightarrow>
   ends_with ctx {''review''} (fx_chat s) (fx_chat t)"
  by (auto simp: in_chat_def run_defs ends_with_def)

lemma in_completion_run: "in_completion m s = (Inr u, t) \<longleftrightarrow> (\<exists>c. m (sm_completion s) = (Inr u, c) \<and> t = s\<lparr>sm_completion := c\<rparr>)"
  by (auto simp: in_completion_def split: prod.splits)

lemma stream_failed_run:
  assumes "stream_failed sa sv ctx request p m s = (Inr u, t)"
  shows "ends_with ctx {''review''} (fx_chat (sm_completion s)) (fx_chat (sm_completion t)) \<and> (\<exists>parts. sm_sent t = sm_sent s @ parts @ [done_event])"
proof -
  obtain s1 s2 where s1: "send sa (event_text (dumps (JObj [(''error'',
          JObj [(''message'', JStr m), (''type'', JStr ''upstream_error''), (''code'', JStr ''stream_failed'')])]))) s = (Inr (), s1)"
    and s2: "send sa done_event s1 = (Inr (), s2)"
    and ends: "in_completion (seqS (note_request ctx (pr_routed_model p) (ap_latency_ms (sa_apis sa)) False)
             (in_chat
               (seqS (write_audit ctx (sv_trace_id sv) ''LLM Request'' (chat_resource (pr_routed_model p)) ''review'' ''medium''
                    (routing_audit_prefix p @ m) (usage_metadata (sa_apis sa) ctx p request 0 0 0) None)
                 (seqS commit
                   (dispatch_alert ctx ''gateway.upstream.outage'' (chat_resource (pr_routed_model p)) ''review'' ''high''
                     (''Upstream provider error during streaming: '' @ m)))))) s2 = (Inr u, t)"
    using assms unfolding stream_failed_def seq_run by auto
  obtain c1 where c1: "note_request ctx (pr_routed_model p) (ap_latency_ms (sa_apis sa)) False (sm_completion s2) = (Inr (), c1)"
    and row: "ends_with ctx {''review''} (fx_chat c1) (fx_chat (sm_completion t))" "sm_sent t = sm_sent s2"
    using ends unfolding in_completion_run seq_run [of "note_request ctx (pr_routed_model p) (ap_latency_ms (sa_apis sa)) False"]
    by (auto dest!: failure_row)
  have "fx_chat c1 = fx_chat (sm_completion s2)" using keeps_run [OF keeps_note_request c1] by (simp add: same_books_def)
  then show ?thesis using row send_run [OF s1] send_run [OF s2] by simp
qed

section \<open>Property\<close>


section \<open>An example\<close>

definition plain_stream :: "unit stream_apis" where
  "plain_stream =
     \<lparr>sa_apis = plain_apis, sa_lines = (\<lambda>url headers payload w. (Inr ([''data: [DONE]''], None), w)),
      sa_gemini = (\<lambda>model messages key temperature w. (Inl (HTTPError ''down''), w)), sa_patience = 10\<rparr>"

definition stream_before :: "unit streaming" where
  "stream_before = \<lparr>sm_completion = before, sm_sent = []\<rparr>"

lemma plain_relay: "relay_lines sa model err full [''data: [DONE]''] s = (Inr full, s)"
proof -
  have "startswith ''data: [DONE]'' ''data: ''" "strip (drop 6 ''data: [DONE]'') = ''[DONE]''" by code_simp+
  then show ?thesis by simp
qed

lemma plain_lines: "sa_lines plain_stream url headers payload w = (Inr ([''data: [DONE]''], None), w)"
  by (simp add: plain_stream_def)

lemma plain_send: "length (sm_sent s) < 10 \<Longrightarrow> send plain_stream part s = (Inr (), s\<lparr>sm_sent := sm_sent s @ [part]\<rparr>)"
  by (simp add: send_def bindS_def plain_stream_def)

lemma plain_stream_inspected:
  assumes "fx_providers c = []"
  shows "\<exists>dlp egress c'. inspect_stream plain_apis plain_tables plain_ctx p [] c = (Inr ([], dlp, egress), c')"
proof -
  obtain dlp egress where "inspect_answer plain_tables plain_ctx [] = Inr (dlp, egress)" using plain_inspection by blast
  moreover have "record_provider_request [] tenant m l b = Inr []" for tenant m l b
    by (simp add: record_provider_request_def named_providers_def scalar_one_or_none_def Let_def)
  moreover have "scalar_one_or_none (filter (\<lambda>t. te_id t = gc_tenant plain_ctx) (ct_tenants plain_tables)) = Inr (Some plain_tenant)"
    by (simp add: plain_fields plain_tenant_def plain_ctx_def scalar_one_or_none_def)
  moreover have "\<not> LATENCY_ALERT_THRESHOLD_MS \<le> ap_latency_ms plain_apis" by (simp add: plain_apis_def LATENCY_ALERT_THRESHOLD_MS_def)
  ultimately show ?thesis using assms
    by (simp add: inspect_stream_def stream_latency_alert_def note_request_def count_usage_def in_chat_def seqS_def bindS_def)
qed


end
