(* ===== verification/BackendChatApi.thy ===== *)
theory BackendChatApi
  imports BackendStream BackendRateLimit
begin

text \<open>
  The chat endpoints of \<open>api/v1/gateway.py\<close>: the limits of key and tenant, then the completion or the stream, and the route in the
  protocol of Gemini.  The completion charges counters (BackendComplete); here they are those of the limiter.
\<close>

section \<open>State and answers\<close>

record ('s, 'w) chat_api =
  xa_limiter :: "'s limiter"
  xa_completion :: "'w completion"

datatype chat_reply =
    TooMany string string int
  | Blocked string inspection
  | Answered "json dict"
  | Streaming prepared_chat

definition ask_limiter :: "('s limiter \<Rightarrow> (bool \<times> int) \<times> 's limiter) \<Rightarrow> (('s, 'w) chat_api, bool \<times> int) eff" where
  "ask_limiter check s = (case check (xa_limiter s) of (r, l) \<Rightarrow> (Inr r, s\<lparr>xa_limiter := l\<rparr>))"

definition complete_in :: "('w completion, 'a) eff \<Rightarrow> (('s, 'w) chat_api, 'a) eff" where
  "complete_in m s = (case m (xa_completion s) of (r, c) \<Rightarrow> (r, s\<lparr>xa_completion := c\<rparr>))"

text \<open>The counters that a computation charges are charged on the limiter.\<close>

definition charge :: "'s redis_ops \<Rightarrow> token_usage list \<Rightarrow> 's limiter \<Rightarrow> 's limiter" where
  "charge ops charges l = foldl (\<lambda>l u. increment_ai_token_usage ops (tk_key u) (tk_tpm u) (tk_tph u) (tk_tpd u) (tk_used u) l) l charges"

definition charging :: "'s redis_ops \<Rightarrow> (('s, 'w) chat_api, 'a) eff \<Rightarrow> (('s, 'w) chat_api, 'a) eff" where
  "charging ops m s =
     (case m s of (r, t) \<Rightarrow>
        (r, t\<lparr>xa_limiter := charge ops (drop (length (fx_usage (xa_completion s))) (fx_usage (xa_completion t))) (xa_limiter t)\<rparr>))"

section \<open>Limits\<close>

record 's limit_guard =
  lg_check :: "'s limiter \<Rightarrow> (bool \<times> int) \<times> 's limiter"
  lg_action :: string
  lg_risk :: string
  lg_details :: string
  lg_message :: string
  lg_code :: string

definition rate_guard :: "'s redis_ops \<Rightarrow> string \<Rightarrow> string \<Rightarrow> ai_limits \<Rightarrow> 's limit_guard" where
  "rate_guard ops owner key limits =
     \<lparr>lg_check = check_ai_rate_limits ops key (li_rpm limits) (li_rph limits) (li_rpd limits), lg_action = ''gateway.rate_limit.block'',
      lg_risk = ''medium'',
      lg_details = ''Gateway request blocked by '' @ (if owner = ''Tenant'' then ''Tenant AI'' else owner) @ '' rate limit (RPM/RPH/RPD)'',
      lg_message = owner @ '' Rate limit exceeded.'', lg_code = ''rate_limit_exceeded''\<rparr>"

definition token_guard :: "'s redis_ops \<Rightarrow> string \<Rightarrow> string \<Rightarrow> ai_limits \<Rightarrow> int \<Rightarrow> 's limit_guard" where
  "token_guard ops owner key limits requested =
     \<lparr>lg_check = check_ai_token_limits ops key (li_tpm limits) (li_tph limits) (li_tpd limits) requested,
      lg_action = ''gateway.token_budget.block'', lg_risk = ''high'',
      lg_details = ''Gateway request blocked by '' @ (if owner = ''Tenant'' then ''Tenant AI'' else owner) @
        '' token budget limit (TPM/TPH/TPD). Estimated: '' @ show_int requested @ '' tokens'',
      lg_message = owner @ '' Token budget exceeded.'', lg_code = ''insufficient_quota''\<rparr>"

fun run_guards :: "chat_ctx \<Rightarrow> string \<Rightarrow> 's limit_guard list \<Rightarrow> (('s, 'w) chat_api, chat_reply option) eff" where
  "run_guards ctx model [] = returnS None"
| "run_guards ctx model (g # gs) =
     bindS (ask_limiter (lg_check g))
       (\<lambda>(allowed, retry).
          if allowed then run_guards ctx model gs
          else
            seqS (complete_in (in_chat (dispatch_alert ctx (lg_action g) model ''blocked'' (lg_risk g) (lg_details g))))
              (returnS (Some (TooMany (lg_message g) (lg_code g) retry))))"

definition estimated_total :: "chat_request \<Rightarrow> int" where
  "estimated_total request =
     sum_list (map (\<lambda>m. int (length (words_of (cm_content m)))) (cr_messages request)) +
     (case cr_max_tokens request of Some n \<Rightarrow> if n \<noteq> 0 then n else 500 | None \<Rightarrow> 500)"

definition key_counter :: "chat_ctx \<Rightarrow> string" where
  "key_counter ctx = gc_tenant ctx @ '':key:'' @ (case gc_client_api_key_id ctx of None \<Rightarrow> [] | Some i \<Rightarrow> i)"

definition guards :: "'s redis_ops \<Rightarrow> chat_ctx \<Rightarrow> tenant_row \<Rightarrow> chat_request \<Rightarrow> 's limit_guard list" where
  "guards ops ctx t request =
     (if has_text (gc_client_api_key_id ctx) then [rate_guard ops ''API Key'' (key_counter ctx) (gc_limits ctx)] else []) @
     [rate_guard ops ''Tenant'' (gc_tenant ctx) (te_ai_limits t)] @
     (if has_text (gc_client_api_key_id ctx)
      then [token_guard ops ''API Key'' (key_counter ctx) (gc_limits ctx) (estimated_total request)] else []) @
     [token_guard ops ''Tenant'' (gc_tenant ctx) (te_ai_limits t) (estimated_total request)]"

section \<open>The endpoint\<close>

text \<open>\<open>result.scalar_one()\<close> of the row of the tenant\<close>

definition own_tenant :: "chat_tables \<Rightarrow> uuid \<Rightarrow> tenant_row result" where
  "own_tenant tb tenant =
     bindE (scalar_one_or_none (filter (\<lambda>t. te_id t = tenant) (ct_tenants tb)))
       (\<lambda>t. case t of None \<Rightarrow> Inl (RuntimeError ''NoResultFound'') | Some t \<Rightarrow> Inr t)"

definition refusal_or :: "inspection option \<Rightarrow> string option \<Rightarrow> (('s, 'w) chat_api, chat_reply) eff \<Rightarrow> (('s, 'w) chat_api, chat_reply) eff" where
  "refusal_or ingress error m =
     (case (ingress, error) of
        (Some i, Some (c # e)) \<Rightarrow> if \<not> in_allowed i then returnS (Blocked (c # e) i) else raiseS (HTTPException 502 (c # e))
      | (None, Some (c # e)) \<Rightarrow> raiseS (HTTPException 502 (c # e))
      | _ \<Rightarrow> m)"

definition start_stream ::
  "chat_services \<Rightarrow> chat_tables \<Rightarrow> chat_ctx \<Rightarrow> chat_request \<Rightarrow> string option \<Rightarrow> (('s, 'w) chat_api, chat_reply) eff" where
  "start_stream sv tb ctx request user_agent =
     bindS (complete_in (in_chat (prepare_chat_request sv tb ctx request user_agent)))
       (\<lambda>(prepared, ingress, error).
          refusal_or ingress error
            (case prepared of None \<Rightarrow> raiseS (HTTPException 502 ''Unable to prepare request'') | Some p \<Rightarrow> returnS (Streaming p)))"

definition whole_answer ::
  "'s redis_ops \<Rightarrow> 'w model_apis \<Rightarrow> chat_services \<Rightarrow> chat_tables \<Rightarrow> chat_ctx \<Rightarrow> chat_request \<Rightarrow> string option \<Rightarrow> bool \<Rightarrow>
   (('s, 'w) chat_api, chat_reply) eff" where
  "whole_answer ops ap sv tb ctx request user_agent debug =
     bindS (charging ops (complete_in (process_chat_completion ap sv tb ctx request user_agent debug)))
       (\<lambda>(answer, ingress, error).
          refusal_or ingress error (case answer of None \<Rightarrow> raiseS (RuntimeError ''AssertionError'') | Some d \<Rightarrow> returnS (Answered d)))"

definition handle_chat_completions ::
  "'s redis_ops \<Rightarrow> 'w model_apis \<Rightarrow> chat_services \<Rightarrow> chat_tables \<Rightarrow> chat_ctx \<Rightarrow> chat_request \<Rightarrow> string option \<Rightarrow> bool \<Rightarrow>
   (('s, 'w) chat_api, chat_reply) eff" where
  "handle_chat_completions ops ap sv tb ctx request user_agent debug =
     bindS (liftS (own_tenant tb (gc_tenant ctx)))
       (\<lambda>t. bindS (run_guards ctx (cr_model request) (guards ops ctx t request))
         (\<lambda>limited. case limited of
             Some reply \<Rightarrow> returnS reply
           | None \<Rightarrow>
               if cr_stream request then start_stream sv tb ctx request user_agent
               else whole_answer ops ap sv tb ctx request user_agent debug))"

definition is_debug_mode :: "string option \<Rightarrow> bool" where
  "is_debug_mode mode = (lower (strip (case mode of None \<Rightarrow> [] | Some m \<Rightarrow> m)) = ''debug'')"

definition chat_completions ::
  "'s redis_ops \<Rightarrow> 'w model_apis \<Rightarrow> chat_services \<Rightarrow> chat_tables \<Rightarrow> chat_ctx \<Rightarrow> chat_request \<Rightarrow> string option \<Rightarrow> string option \<Rightarrow>
   (('s, 'w) chat_api, chat_reply) eff" where
  "chat_completions ops ap sv tb ctx request user_agent mode =
     handle_chat_completions ops ap sv tb ctx request user_agent (is_debug_mode mode)"

text \<open>What the server does with a stream: the parts are sent one by one.\<close>

definition serve_stream ::
  "'s redis_ops \<Rightarrow> 'w stream_apis \<Rightarrow> chat_services \<Rightarrow> chat_tables \<Rightarrow> chat_ctx \<Rightarrow> chat_request \<Rightarrow> prepared_chat \<Rightarrow>
   ('s, 'w) chat_api \<Rightarrow> string list \<times> ('s, 'w) chat_api" where
  "serve_stream ops sa sv tb ctx request p s =
     (case stream_chat_completion sa sv tb ctx request p \<lparr>sm_completion = xa_completion s, sm_sent = []\<rparr> of (_, t) \<Rightarrow>
        (sm_sent t, s\<lparr>xa_completion := sm_completion t,
           xa_limiter := charge ops (drop (length (fx_usage (xa_completion s))) (fx_usage (sm_completion t))) (xa_limiter s)\<rparr>))"

section \<open>The route of Gemini\<close>

definition part_text :: "json \<Rightarrow> json list result" where
  "part_text part = (if is_dict part then bindE (json_get_or part ''text'' (JStr [])) (\<lambda>t. Inr [t]) else Inr [])"

definition gemini_text :: "json dict \<Rightarrow> string result" where
  "gemini_text body =
     bindE (json_iter (or_json (dict_get_or body ''contents'' JNull) (JArr [])))
       (\<lambda>items. bindE (mapE (\<lambda>item. bindE (bindE (json_get_or item ''parts'' (JArr [])) json_iter) (mapE part_text)) items)
         (\<lambda>texts. bindE (mapE as_str (concat (concat texts))) (\<lambda>ts. Inr (join '' '' ts))))"

definition gemini_limit :: "(bool \<times> int) \<Rightarrow> string \<Rightarrow> (('s, 'w) chat_api, chat_reply + json dict) eff \<Rightarrow> (('s, 'w) chat_api, chat_reply + json dict) eff" where
  "gemini_limit verdict message m =
     (case verdict of (allowed, retry) \<Rightarrow> if allowed then m else returnS (Inl (TooMany message ''RESOURCE_EXHAUSTED'' retry)))"

text \<open>The request is inspected with the built-in rules only; the answer is not inspected.\<close>

definition gemini_answer ::
  "'w model_apis \<Rightarrow> gateway_config \<Rightarrow> string \<Rightarrow> string \<Rightarrow> inspection \<Rightarrow> (('s, 'w) chat_api, chat_reply + json dict) eff" where
  "gemini_answer ap config model_id combined ingress =
     bindS (tryS (complete_in (at_outside (ap_gemini ap (normalize_gemini_model model_id (cf_gemini_default_model config))
           [bare_message ''user'' (if combined \<noteq> [] then combined else ''Hello'')] (the (cf_gemini_api_key config)) JNull)))
         (\<lambda>e. case e of HTTPError m \<Rightarrow> Some (raiseS (HTTPException 502 m)) | _ \<Rightarrow> None))
       (\<lambda>(answer, model). returnS (Inr
          [(''candidates'', JArr [JObj [(''content'', JObj [(''parts'', JArr [JObj [(''text'', JStr answer)]]), (''role'', JStr ''model'')]),
             (''finishReason'', JStr ''STOP'')]]),
           (''modelVersion'', JStr model),
           (''pysetu'', JObj [(''upstream'', JStr ''gemini''), (''inspection_action'', JStr (in_action ingress))])]))"

definition gemini_generate_content ::
  "'s redis_ops \<Rightarrow> 'w model_apis \<Rightarrow> chat_services \<Rightarrow> chat_tables \<Rightarrow> user \<Rightarrow> string \<Rightarrow> json dict \<Rightarrow> (('s, 'w) chat_api, chat_reply + json dict) eff" where
  "gemini_generate_content ops ap sv tb u model_id body =
     bindS (liftS (resolve_gateway_config (sv_settings sv) (ct_vault tb) (ct_integrations tb) (us_tenant u)))
       (\<lambda>config.
          if \<not> has_text (cf_gemini_api_key config) then raiseS (HTTPException 503 ''Gemini API key not configured'')
          else
            bindS (liftS (own_tenant tb (us_tenant u)))
              (\<lambda>t. let limits = te_ai_limits t in
                bindS (ask_limiter (check_ai_rate_limits ops (us_tenant u) (li_rpm limits) (li_rph limits) (li_rpd limits)))
                  (\<lambda>rate. gemini_limit rate ''Rate limit exceeded.''
                    (bindS (liftS (gemini_text body))
                      (\<lambda>combined. bindS (ask_limiter (check_ai_token_limits ops (us_tenant u) (li_tpm limits) (li_tph limits) (li_tpd limits)
                             (int (length (words_of combined)) + 500)))
                        (\<lambda>budget. gemini_limit budget ''Token budget exceeded.''
                          (bindS (liftS (inspect_content combined))
                            (\<lambda>ingress.
                               if \<not> in_allowed ingress then raiseS (HTTPException 403 ''Request blocked by PySetu policy engine.'')
                               else gemini_answer ap config model_id combined ingress))))))))"

section \<open>Models\<close>

definition model_info :: "string \<Rightarrow> string \<Rightarrow> json" where
  "model_info i owner = JObj [(''id'', JStr i), (''object'', JStr ''model''), (''created'', JInt 1686935002), (''owned_by'', JStr owner)]"

definition list_models :: "chat_tables \<Rightarrow> user \<Rightarrow> json list" where
  "list_models tb u =
     (let found =
        map (\<lambda>p. model_info (lp_name p) (lp_provider_type p))
          (filter (\<lambda>p. lp_tenant p = us_tenant u \<and> lp_is_active p) (rt_providers (ct_routing tb))) @
        map (\<lambda>g. model_info (rg_name g) ''pysetu-routing-group'')
          (filter (\<lambda>g. rg_tenant g = us_tenant u \<and> rg_status g = ''active'') (rt_groups (ct_routing tb)))
      in if found \<noteq> [] then found
         else [model_info ''gpt-4o'' ''openai'', model_info ''gemini-1.5-pro'' ''google'', model_info ''claude-3.5-sonnet'' ''anthropic''])"

end
