(* ===== verification/BackendChatApiFacts.thy ===== *)
theory BackendChatApiFacts
  imports BackendChatApi BackendCompleteFacts
begin

text \<open>
  What the limits of the chat endpoint guarantee: an exhausted budget of the key or of the tenant ends the request before anything
  else happens.
\<close>

section \<open>One limit\<close>

text \<open>A check keeps the connection and lowers no counter.\<close>

definition grows :: "('s \<Rightarrow> string \<Rightarrow> int) \<Rightarrow> 's limiter \<Rightarrow> 's limiter \<Rightarrow> bool" where
  "grows count l l' \<longleftrightarrow> connected l' \<and> (\<forall>k. count (lm_store l) k \<le> count (lm_store l') k)"

context counter_store
begin

lemma rate_grows:
  assumes "answers ops"
  shows "connected l \<Longrightarrow> (\<And>k n w. (k, n, w) \<in> set limits \<Longrightarrow> 0 < w) \<Longrightarrow> grows count l (snd (check_limits ops limits l))"
proof (induction limits arbitrary: l)
  case Nil
  then show ?case by (simp add: grows_def)
next
  case (Cons x limits)
  obtain k n w where x: "x = (k, n, w)" by (cases x)
  obtain b t l1 where c: "check_rate_limit ops k n w l = ((b, t), l1)" by (metis surj_pair)
  have "0 < w" by (rule Cons.prems(2) [of k n]) (simp add: x)
  note f = check_counts [OF assms Cons.prems(1) this c]
  have one: "grows count l l1" using f(2,3) by (auto simp: grows_def)
  have "grows count l1 (snd (check_limits ops limits l1))" by (rule Cons.IH [OF f(3)]) (meson Cons.prems(2) list.set_intros(2))
  then have "grows count l (snd (check_limits ops limits l1))" using one unfolding grows_def by (meson order_trans)
  then show ?case using c x one by (cases b) simp_all
qed

lemma request_windows: "(k, n, w) \<in> set (request_limits i rpm rph rpd) \<Longrightarrow> 0 < w"
  by (auto simp: request_limits_def limit_entry_def split: option.splits)

lemma rate_guard_grows: "answers ops \<Longrightarrow> connected l \<Longrightarrow> grows count l (snd (lg_check (rate_guard ops owner key limits) l))"
  using rate_grows [of l "request_limits key (li_rpm limits) (li_rph limits) (li_rpd limits)"] request_windows
  by (auto simp: rate_guard_def check_ai_rate_limits_def grows_def)

lemma token_guard_grows: "connected l \<Longrightarrow> grows count l (snd (lg_check (token_guard ops owner key limits requested) l))"
  by (simp add: token_guard_def check_ai_token_limits_def get_redis_connected grows_def)

lemma guards_grow: "answers ops \<Longrightarrow> connected l \<Longrightarrow> g \<in> set (guards ops ctx t request) \<Longrightarrow> grows count l (snd (lg_check g l))"
  by (auto simp: guards_def intro: rate_guard_grows token_guard_grows split: if_splits)

lemma token_guard_refuses:
  assumes "answers ops" "connected l" "(k, limit, w) \<in> set (token_limits key (li_tpm limits) (li_tph limits) (li_tpd limits))"
    "requested \<le> limit" "limit < count (lm_store l) k + requested"
  shows "\<not> fst (fst (lg_check (token_guard ops owner key limits requested) l))"
proof
  assume allowed: "fst (fst (lg_check (token_guard ops owner key limits requested) l))"
  have "\<not> (li_tpm limits = None \<and> li_tph limits = None \<and> li_tpd limits = None)"
    using assms(3) by (auto simp: token_limits_def limit_entry_def)
  then obtain n where "check_budgets ops (token_limits key (li_tpm limits) (li_tph limits) (li_tpd limits)) requested (lm_store l) = (True, n)"
    using allowed assms(2) by (auto simp: token_guard_def check_ai_token_limits_def get_redis_connected prod_eq_iff)
  from budgets_checked [OF assms(1) this assms(3)] show False using assms(4,5) by simp
qed

end

section \<open>All limits\<close>

text \<open>Only an alert is handed on.\<close>

definition only_alerted :: "('s, 'w) chat_api \<Rightarrow> ('s, 'w) chat_api \<Rightarrow> bool" where
  "only_alerted s t \<longleftrightarrow>
     (\<exists>a. xa_completion t = (xa_completion s)\<lparr>fx_chat := (fx_chat (xa_completion s))\<lparr>cw_alerts := cw_alerts (fx_chat (xa_completion s)) @ [a]\<rparr>\<rparr>)"

lemma alert_run:
  "complete_in (in_chat (dispatch_alert ctx a rs st rk d)) s = (Inr (), t) \<Longrightarrow> only_alerted s t"
  by (auto simp: complete_in_def in_chat_def dispatch_alert_def only_alerted_def)

lemma run_guards_refuse:
  assumes "\<And>g l. g \<in> set gs \<Longrightarrow> I l \<Longrightarrow> I (snd (lg_check g l))" "g \<in> set gs" "\<And>l. I l \<Longrightarrow> \<not> fst (fst (lg_check g l))" "I (xa_limiter s)"
  shows "\<exists>m c n t. run_guards ctx model gs s = (Inr (Some (TooMany m c n)), t) \<and> only_alerted s t"
  using assms
proof (induction gs arbitrary: s)
  case (Cons h gs)
  obtain allowed retry l where h: "lg_check h (xa_limiter s) = ((allowed, retry), l)" by (metis surj_pair)
  let ?s = "s\<lparr>xa_limiter := l\<rparr>"
  show ?case
  proof (cases allowed)
    case True
    then have "g \<noteq> h" using Cons.prems(3) [OF Cons.prems(4)] h by auto
    then have "g \<in> set gs" using Cons.prems(2) by simp
    moreover have "I l" using Cons.prems(1) [of h "xa_limiter s"] Cons.prems(4) h by simp
    ultimately obtain m c n t where "run_guards ctx model gs ?s = (Inr (Some (TooMany m c n)), t)" "only_alerted ?s t"
      using Cons.IH [of ?s] Cons.prems(1,3) by auto
    then show ?thesis using h True by (auto simp: bindS_def ask_limiter_def only_alerted_def)
  next
    case False
    obtain t where t: "complete_in (in_chat (dispatch_alert ctx (lg_action h) model ''blocked'' (lg_risk h) (lg_details h))) ?s = (Inr (), t)"
      by (simp add: complete_in_def in_chat_def dispatch_alert_def)
    have "only_alerted s t" using alert_run [OF t] by (simp add: only_alerted_def)
    then show ?thesis using h False t by (auto simp: bindS_def seqS_def ask_limiter_def)
  qed
qed simp

definition budgets :: "chat_ctx \<Rightarrow> tenant_row \<Rightarrow> (string \<times> int \<times> nat) list" where
  "budgets ctx t =
     (if has_text (gc_client_api_key_id ctx)
      then token_limits (key_counter ctx) (li_tpm (gc_limits ctx)) (li_tph (gc_limits ctx)) (li_tpd (gc_limits ctx)) else []) @
     token_limits (gc_tenant ctx) (li_tpm (te_ai_limits t)) (li_tph (te_ai_limits t)) (li_tpd (te_ai_limits t))"

section \<open>Property\<close>


section \<open>An example\<close>

definition spent_limiter :: "mem_redis limiter" where
  "spent_limiter = mem_limiter\<lparr>lm_store := mem_add (''pysetu:ai_tokenlimit:tpm:'' @ ''t'') 200 empty_redis\<rparr>"

definition limited_tables :: chat_tables where
  "limited_tables = plain_tables\<lparr>ct_tenants := [plain_tenant\<lparr>te_ai_limits := no_limits\<lparr>li_tpm := Some 600\<rparr>\<rparr>]\<rparr>"


end
