(* ===== verification/Spec2Isabelle.thy ===== *)
theory Spec2Isabelle
  imports AgentPolicy AgentDetection AgentShell AgentWrapper AgentFiles AgentDiscovery AgentGateway AgentDaemonFacts
    BackendGuardian BackendRateLimit BackendDlp BackendPolicyFacts BackendToolSeq BackendRbac BackendUagFacts
    BackendMcpFacts BackendAgenticFacts BackendMcpGatewayFacts BackendLlmAdminFacts BackendClassifierFacts BackendTokensFacts BackendAccessFacts BackendCompleteFacts
    BackendStreamFacts BackendChatApiFacts
begin

text \<open>
  Verification of PySetu, a governance gateway for AI applications.  The program has two parts in Python: the
  endpoint agent (src/endpoint-agent/pysetu_agent), which runs on a machine and decides on shell commands,
  clipboard contents, files and the MCP messages of local tools, and the backend (src/backend/app), which holds
  the policies of the tenants and stands between applications and model providers.  The agent registers
  with the backend, fetches its policy from it and reports what it blocked.

  \<^bold>\<open>Layers.\<close>  The theories \<open>Py...\<close> model what the sources use of Python: strings as lists of characters (text is
  ASCII), errors as a sum with the exception on the left (PyPrelude), JSON with \<open>dumps\<close> and \<open>loads\<close> (PyJson), operations
  on values of unknown type with the exceptions they raise (PyValue), \<open>==\<close> on such values (PyEqual), computations that
  change a state and may raise (PyState), \<open>fnmatch\<close> (PyGlob), and the module \<open>re\<close>: a parser of pattern texts (PyRegexSyntax), a
  backtracking matcher (PyRegex), its soundness and completeness for the language of a pattern (PyRegexSound), and patterns
  of literals (PyRegexLiteral).  Every pattern of the program is compiled from its own text.

  \<^bold>\<open>Endpoint agent.\<close>  AgentPolicy is policy.py (rules, evaluation, the checksummed cache), AgentDetection is detection.py,
  AgentShell is shell.py, AgentWrapper is wrapper.py and clipboard.py, AgentFiles is scan.py, enforce.py and watcher.py over a file
  system, AgentDiscovery is discovery.py and config.py, AgentGateway is mcp_gateway.py, AgentDaemon and AgentDaemonFacts are client.py
  and daemon.py.  The callers of the detector rest on the locale \<open>content_detector\<close>, the gateway on the locale \<open>upstream_channel\<close>;
  both are interpreted on the agent's own definitions.  Shown: the decision of a policy is the most severe applicable action
  whatever the order of its rules; what a directory pattern matches; the cache round trip and its integrity; the detector reports
  exactly the patterns that occur; what the wrapper launches and what the clipboard ends with; a crash during a write loses nothing,
  enforcement keeps every original, a scan ends; the gateway forwards only permitted calls and filtered results, keeps its
  servers apart, and its framing round-trips; the daemon's requests, their authenticity and their order, and that the
  policy survives the loss of the connection.

  \<^bold>\<open>Backend.\<close>  A table of the database is the list of its rows, a row the record of the columns that are read or written, and a
  column of JSON a value of PyJson; a query filters the list.  BackendCommon holds what the services share, BackendTree the walk
  through folders of rows, BackendGuardian is guardian_service.py, BackendRateLimit is core/rate_limit.py over the locale
  \<open>counter_store\<close>, BackendThreat is injection_detection_service.py, BackendDlp is dlp_service.py and dlp_classification.py,
  BackendIntents is custom_intent_service.py, BackendPacks is framework_rule_packs.py, BackendBundle is policy_bundle_service.py,
  BackendPolicy and BackendPolicyFacts are policy_engine.py, which inspects a content with all of them.  BackendToolSeq is
  mcp_sequence_detector.py with the tool loop of gateway_service.py, BackendRbac is core/rbac.py, BackendUag and BackendUagFacts are
  modules/uag.  Shown: the guardian acts once on each open finding, within its tenant; limits and budgets are respected; a
  scan reports exactly the rules that occur; the decision of a list of rules; that a threat is blocked whatever the
  bundle says; which rules a bundle stands for; the packs are enforced; a tool chain is broken; roles are confined; a
  conversation reaches every provider and its answer every client unchanged.

  \<^bold>\<open>MCP governance.\<close>  BackendMcpTools is mcp_tool_risk_service.py, mcp_agent_service.py and the catalogs of
  dynamic_tool_service.py and mcp_rest_proxy_service.py, BackendMcpAccess is mcp_tool_policy_service.py, mcp_security_service.py and
  mcp_access_service.py, BackendMcpUrl is mcp_url_filter_service.py over PyUrl, which models the hosts of urllib.parse and the
  addresses of ipaddress.  BackendMcpFacts shows that overrides survive being stored, that the listed tools are the callable
  ones, that a per-tool policy takes effect at once and only on its tool, and what the URL filter lets through.

  \<^bold>\<open>MCP gateway.\<close>  BackendSecrets is secrets_service.py (the vault is a store that may be down), mcp_oauth_broker_service.py and
  mcp_portal_service.py, BackendMcpClient is mcp_transport.py, mcp_client_service.py and the calls of mcp_rest_proxy_service.py, and
  BackendMcpGateway is mcp_multiplex_service.py, mcp_audit_service.py and the handler of the endpoint in api/v1/gateway.py, over the
  theories of the paragraph above, the policy engine and the control plane.  The network, the token endpoint, the URL vendor, the clock
  and fresh ids are parameters.  BackendSecretsFacts shows that credentials are read back as they were saved and that
  a failing identity provider costs nothing but the token; BackendMcpGatewayFacts that whatever is posted, only permitted calls
  reach a server.

  \<^bold>\<open>Routing.\<close>  BackendConditions is routing_conditions.py (a condition is the syntax tree of a Python expression, its parser a
  parameter) and routing_context.py, BackendRouting is llm_router.py and cost_arbitrage_service.py, BackendProviders is
  provider_metrics_service.py, regional_routing_service.py, the configuration of integration_service.py and the choice of the upstream
  in gateway_service.py, BackendLlmAdmin the handlers of api/v1/governance.py and api/v1/routing_groups.py that administer
  providers, rules, keys and groups.  Floats are rationals and the random draw is a parameter.  BackendRoutingFacts shows that a rule
  that decides may be used by the caller, that a routing always returns and sees the rows of its tenant only, and what metrics and shares
  stay within; BackendLlmAdminFacts, by triples over the handlers, that an administrator touches the own tenant only.

  \<^bold>\<open>Access.\<close>  BackendAccess is client_api_key_service.py with the handlers of client keys in api/v1/access.py and get_gateway_context of
  core/gateway_deps.py.  BackendAccessFacts shows that an administrator touches the keys of the own tenant only, that an issued key is
  accepted and a deleted one refused, and that a context of a call comes from an active key or a valid session token.

  \<^bold>\<open>What happens to a prompt.\<close>  BackendClassifier is services/classifier: the canonical text (canonicalizer.py), the syntax patterns
  (syntax_guard.py), the built-in rules and the verdict (intent_engine.py); what Unicode tables do and the order of a set are
  parameters.  BackendTokens is token_saving_service.py and the ranking of tools of dynamic_tool_service.py.  BackendClassifierFacts
  shows how the verdict comes from what occurs in the text, BackendTokensFacts what token saving and the selection of tools keep.
  BackendGovern is opa_service.py (the policy agent, a parameter) and prompt_injection_service.py, BackendPrepare and BackendComplete
  are prepare_chat_request and process_chat_completion of gateway_service.py over all of them, with the tables, what was committed, the
  alerts, the counters and the world of the providers as state.  BackendPrepareFacts shows that a prepared request passed every check
  and that a refusal is recorded and committed, BackendCompleteFacts that only inspected text is delivered and what is charged.
  BackendStream is stream_chat_completion, whose answers go out before they are inspected, and BackendChatApi the chat endpoints of
  api/v1/gateway.py, which join the limiter of BackendRateLimit with the completion.  BackendStreamFacts shows that a finished stream
  is recorded with the inspection of what was sent and that one cut off leaves nothing, BackendChatApiFacts, over the locale
  \<open>counter_store\<close>, that an exhausted budget ends a request before anything else happens.

  \<^bold>\<open>Control plane.\<close>  BackendAgentic is agentic_service.py, mcp_tool_chain_service.py and exfiltration_detection_service.py, over the
  tables of endpoints, agents, events and approvals.  BackendTable holds the locale \<open>keyed_update\<close> of tables with a unique key, which
  the tables of endpoints, agents and per-tool policies interpret.  BackendAgenticFacts follows runs of the control plane as a
  step relation and shows that its rows stay unique, and what is recorded of an event.

  \<^bold>\<open>Bounds and fuel.\<close>  Walks over trees and directories carry fuel: for directories it is more than the length of every path and each
  level lengthens the path, for tables the measure is the number of rows not visited.  The matcher repeats a star at most as often as
  there are characters left, which is enough since an empty repetition makes no progress.  Loops that the source never
  leaves (the watcher, the clipboard monitor, the daemon) are followed for as many rounds as a list of outside events
  has, and the properties hold for every such list.  The tool loop has the bound of the source.

  \<^bold>\<open>Not modelled.\<close>  Text beyond ASCII; floats other than by their literal or as rationals; the clock, the network, the
  random ids and SHA-256, which are parameters; concurrency of requests (a request runs alone on the state).  Of the backend the
  handlers of the API that only load and store rows, the seed data, reports, dashboards, mail and single-sign-on, the clients of
  external systems, the retrieval gateway, and the services that ask a model; of the gateway service
  the JSON form of logged bodies.  The
  frontend, the browser extension and the deployment files are not Python.
\<close>

end
